(* ===== verification/Go_Prelude.thy ===== *)
theory Go_Prelude
  imports Main "HOL-Library.Word" "HOL-Library.AList"
begin

section \<open>Prelude: what the model uses of Go and its standard library\<close>

text \<open>
  Shared by every component: error values, the outcome of a call that threads a
  state and may return an error or panic, machine integers, decimal conversion
  (\<open>strconv\<close>) and the string functions of package \<open>strings\<close>.

  A Go \<open>string\<close> is a sequence of bytes, here a list of characters.
  A Go \<open>int\<close> (\<open>int64\<close> on the platforms the program is built for) is an \<open>int\<close>
  with the wrap-around of \<open>wrap64\<close> written at the operations that can overflow;
  a \<open>uint64\<close> is a \<open>64 word\<close>.
\<close>

subsection \<open>Collections of rules\<close>

named_theorems go_string "rewrite rules for the string functions"
named_theorems go_exec "rewrite rules that run the state-passing combinators"
named_theorems wp_rules "weakest-precondition rules of the operations"

type_synonym u64 = "64 word"
type_synonym bytes = "char list"

subsection \<open>Errors and outcomes\<close>

text \<open>
  \<open>Errorf\<close> is an error made by \<open>fmt.Errorf\<close> or \<open>errors.New\<close> with its text;
  \<open>NumError\<close> is the error of \<open>strconv\<close> with the input and the reason;
  \<open>PathError\<close> is an error of the operating system's file calls with the call's
  name; \<open>Wrap p e\<close> is \<open>fmt.Errorf(p + "%v", e)\<close>; \<open>External\<close> is an error that code outside the repository returns.
\<close>

datatype goerr =
    ErrRecordNotFound
  | Errorf string
  | NumError string string
  | PathError string
  | Wrap string goerr
  | External string

text \<open>A call returns a value, returns an error, or panics.\<close>

datatype 'a outcome = Ok 'a | Err goerr | Panic

type_synonym ('s, 'a) proc = "'s \<Rightarrow> 'a outcome \<times> 's"

definition ret :: "'a \<Rightarrow> ('s, 'a) proc" where
  "ret a = (\<lambda>s. (Ok a, s))"

definition fail :: "goerr \<Rightarrow> ('s, 'a) proc" where
  "fail e = (\<lambda>s. (Err e, s))"

definition panic :: "('s, 'a) proc" where
  "panic = (\<lambda>s. (Panic, s))"

text \<open>
  \<open>attempt m h k\<close> is \<open>a, err := m(); if err != nil { h(err) }; k(a)\<close>. A panic runs
  neither branch.
\<close>

definition attempt ::
  "('s, 'a) proc \<Rightarrow> (goerr \<Rightarrow> ('s, 'b) proc) \<Rightarrow> ('a \<Rightarrow> ('s, 'b) proc) \<Rightarrow> ('s, 'b) proc" where
  "attempt m h k = (\<lambda>s. case m s of
      (Ok a, s') \<Rightarrow> k a s'
    | (Err e, s') \<Rightarrow> h e s'
    | (Panic, s') \<Rightarrow> (Panic, s'))"

text \<open>\<open>andthen m k\<close> returns the error of \<open>m\<close> as it is.\<close>

definition andthen :: "('s, 'a) proc \<Rightarrow> ('a \<Rightarrow> ('s, 'b) proc) \<Rightarrow> ('s, 'b) proc" where
  "andthen m k = attempt m fail k"

definition lift_sum :: "goerr + 'a \<Rightarrow> ('s, 'a) proc" where
  "lift_sum r = (case r of Inl e \<Rightarrow> fail e | Inr a \<Rightarrow> ret a)"

lemma ret_run [go_exec]: "ret a s = (Ok a, s)"
  by (simp add: ret_def)

lemma fail_run [go_exec]: "fail e s = (Err e, s)"
  by (simp add: fail_def)

lemma panic_run [go_exec]: "panic s = (Panic, s)"
  by (simp add: panic_def)

lemma attempt_Ok [go_exec]: "m s = (Ok a, s') \<Longrightarrow> attempt m h k s = k a s'"
  by (simp add: attempt_def)

lemma attempt_Err [go_exec]: "m s = (Err e, s') \<Longrightarrow> attempt m h k s = h e s'"
  by (simp add: attempt_def)

lemma attempt_Panic [go_exec]: "m s = (Panic, s') \<Longrightarrow> attempt m h k s = (Panic, s')"
  by (simp add: attempt_def)

lemma andthen_Ok [go_exec]: "m s = (Ok a, s') \<Longrightarrow> andthen m k s = k a s'"
  by (simp add: andthen_def attempt_def)

lemma andthen_Err [go_exec]: "m s = (Err e, s') \<Longrightarrow> andthen m k s = (Err e, s')"
  by (simp add: andthen_def attempt_def fail_def)

lemma andthen_Panic [go_exec]: "m s = (Panic, s') \<Longrightarrow> andthen m k s = (Panic, s')"
  by (simp add: andthen_def attempt_def)

lemma attempt_run:
  "m s = (r, s') \<Longrightarrow> attempt m h k s
     = (case r of Ok a \<Rightarrow> k a s' | Err e \<Rightarrow> h e s' | Panic \<Rightarrow> (Panic, s'))"
  by (cases r) (simp_all add: attempt_def)

lemma andthen_run:
  "m s = (r, s') \<Longrightarrow> andthen m k s
     = (case r of Ok a \<Rightarrow> k a s' | Err e \<Rightarrow> (Err e, s') | Panic \<Rightarrow> (Panic, s'))"
  by (cases r) (simp_all add: andthen_def attempt_def fail_def)

lemma lift_sum_Inl [go_exec]: "lift_sum (Inl e) s = (Err e, s)"
  by (simp add: lift_sum_def fail_def)

lemma lift_sum_Inr [go_exec]: "lift_sum (Inr a) s = (Ok a, s)"
  by (simp add: lift_sum_def ret_def)

lemma andthen_Ok_iff:
  "andthen m k s = (Ok b, s'') \<longleftrightarrow> (\<exists>a s'. m s = (Ok a, s') \<and> k a s' = (Ok b, s''))"
  by (auto simp: andthen_def attempt_def fail_def split: prod.splits outcome.splits)

subsection \<open>Weakest preconditions\<close>

text \<open>
  \<open>wp m Q s\<close>: the call of \<open>m\<close> in state \<open>s\<close> ends with an outcome and a state that
  satisfy \<open>Q\<close>. The component proofs walk a handler with these rules.
\<close>

definition wp :: "('s, 'a) proc \<Rightarrow> ('a outcome \<Rightarrow> 's \<Rightarrow> bool) \<Rightarrow> 's \<Rightarrow> bool" where
  "wp m Q s \<longleftrightarrow> Q (fst (m s)) (snd (m s))"

lemma wpD: "wp m Q s \<Longrightarrow> m s = (r, s') \<Longrightarrow> Q r s'"
  by (simp add: wp_def)

lemma wpI: "(\<And>r s'. m s = (r, s') \<Longrightarrow> Q r s') \<Longrightarrow> wp m Q s"
  by (simp add: wp_def)

lemma wp_mono: "wp m Q s \<Longrightarrow> (\<And>r s'. Q r s' \<Longrightarrow> R r s') \<Longrightarrow> wp m R s"
  by (simp add: wp_def)

lemma wp_ret [wp_rules]: "Q (Ok a) s \<Longrightarrow> wp (ret a) Q s"
  by (simp add: wp_def ret_def)

lemma wp_fail [wp_rules]: "Q (Err e) s \<Longrightarrow> wp (fail e) Q s"
  by (simp add: wp_def fail_def)

lemma wp_panic [wp_rules]: "Q Panic s \<Longrightarrow> wp panic Q s"
  by (simp add: wp_def panic_def)

definition branch ::
  "('a \<Rightarrow> 's \<Rightarrow> bool) \<Rightarrow> (goerr \<Rightarrow> 's \<Rightarrow> bool) \<Rightarrow> ('s \<Rightarrow> bool) \<Rightarrow> 'a outcome \<Rightarrow> 's \<Rightarrow> bool" where
  "branch okQ errQ panQ r s = (case r of Ok a \<Rightarrow> okQ a s | Err e \<Rightarrow> errQ e s | Panic \<Rightarrow> panQ s)"

lemma branch_simps [simp]:
  "branch p q t (Ok a) s = p a s"
  "branch p q t (Err e) s = q e s"
  "branch p q t Panic s = t s"
  by (simp_all add: branch_def)

lemma wp_attempt [wp_rules]:
  "wp m (branch (\<lambda>a. wp (k a) Q) (\<lambda>e. wp (h e) Q) (Q Panic)) s \<Longrightarrow> wp (attempt m h k) Q s"
  by (auto simp: wp_def attempt_def branch_def split: prod.splits outcome.splits)

lemma wp_andthen [wp_rules]:
  "wp m (branch (\<lambda>a. wp (k a) Q) (\<lambda>e. Q (Err e)) (Q Panic)) s \<Longrightarrow> wp (andthen m k) Q s"
  by (auto simp: wp_def andthen_def attempt_def fail_def branch_def
      split: prod.splits outcome.splits)

lemma wp_lift_sum [wp_rules]:
  "(\<And>e. r = Inl e \<Longrightarrow> Q (Err e) s) \<Longrightarrow> (\<And>a. r = Inr a \<Longrightarrow> Q (Ok a) s) \<Longrightarrow> wp (lift_sum r) Q s"
  by (cases r) (simp_all add: wp_def lift_sum_def fail_def ret_def)

lemma wp_if [wp_rules]:
  "(b \<Longrightarrow> wp m Q s) \<Longrightarrow> (\<not> b \<Longrightarrow> wp m' Q s) \<Longrightarrow> wp (if b then m else m') Q s"
  by simp

subsection \<open>Machine integers\<close>

definition wrap64 :: "int \<Rightarrow> int" where
  "wrap64 x = (x + 2 ^ 63) mod 2 ^ 64 - 2 ^ 63"

definition int64 :: "int \<Rightarrow> bool" where
  "int64 x \<longleftrightarrow> - (2 ^ 63) \<le> x \<and> x < 2 ^ 63"

lemma wrap64_id: "int64 x \<Longrightarrow> wrap64 x = x"
  by (simp add: wrap64_def int64_def)

lemma int64_wrap64 [simp]: "int64 (wrap64 x)"
  by (simp add: int64_def wrap64_def algebra_simps pos_mod_bound less_diff_eq)

lemma wrap64_mult_left: "wrap64 (wrap64 x * y) = wrap64 (x * y)"
proof -
  have "(wrap64 x * y + 2 ^ 63) mod 2 ^ 64 = (x * y + 2 ^ 63) mod 2 ^ 64"
  proof -
    have "wrap64 x mod 2 ^ 64 = x mod 2 ^ 64"
      unfolding wrap64_def by (simp add: mod_diff_left_eq)
    then have "(wrap64 x * y) mod 2 ^ 64 = (x * y) mod 2 ^ 64"
      by (metis mod_mult_left_eq)
    then show ?thesis by (metis mod_add_left_eq)
  qed
  then show ?thesis by (simp add: wrap64_def)
qed

subsection \<open>Package strings\<close>

text \<open>\<open>strings.HasPrefix\<close>, \<open>HasSuffix\<close>, \<open>TrimPrefix\<close>, \<open>TrimSuffix\<close>.\<close>

definition has_prefix :: "string \<Rightarrow> string \<Rightarrow> bool" where
  "has_prefix s p \<longleftrightarrow> take (length p) s = p"

definition has_suffix :: "string \<Rightarrow> string \<Rightarrow> bool" where
  "has_suffix s p \<longleftrightarrow> length p \<le> length s \<and> drop (length s - length p) s = p"

definition trim_prefix :: "string \<Rightarrow> string \<Rightarrow> string" where
  "trim_prefix s p = (if has_prefix s p then drop (length p) s else s)"

definition trim_suffix :: "string \<Rightarrow> string \<Rightarrow> string" where
  "trim_suffix s p = (if has_suffix s p then take (length s - length p) s else s)"

lemma has_prefix_append [simp]: "has_prefix (p @ s) p"
  by (simp add: has_prefix_def)

lemma has_suffix_append [simp]: "has_suffix (s @ p) p"
  by (simp add: has_suffix_def)

lemma trim_prefix_append [simp]: "trim_prefix (p @ s) p = s"
  by (simp add: trim_prefix_def)

lemma trim_suffix_append [simp]: "trim_suffix (s @ p) p = s"
  by (simp add: trim_suffix_def)

text \<open>\<open>strings.Index\<close> of a one-byte separator: the position, or -1.\<close>

fun index_from :: "nat \<Rightarrow> string \<Rightarrow> char \<Rightarrow> int" where
  "index_from i [] c = -1"
| "index_from i (x # xs) c = (if x = c then int i else index_from (Suc i) xs c)"

definition index_char :: "string \<Rightarrow> char \<Rightarrow> int" where
  "index_char s c = index_from 0 s c"

lemma index_from_absent: "index_from i s c = -1 \<longleftrightarrow> c \<notin> set s"
  by (induction s arbitrary: i) auto

lemma index_char_absent [go_string]: "index_char s c = -1 \<longleftrightarrow> c \<notin> set s"
  by (simp add: index_char_def index_from_absent)

lemma index_from_append: "c \<notin> set s \<Longrightarrow> index_from i (s @ c # t) c = int (i + length s)"
  by (induction s arbitrary: i) auto

lemma index_char_append [go_string]: "c \<notin> set s \<Longrightarrow> index_char (s @ c # t) c = int (length s)"
  by (simp add: index_char_def index_from_append)

lemma index_char_split:
  assumes "index_char s c \<noteq> -1"
  obtains a b where "s = a @ c # b" "c \<notin> set a" "index_char s c = int (length a)"
proof -
  from assms have "c \<in> set s" by (simp add: index_char_absent)
  then obtain a b where "s = a @ c # b" "c \<notin> set a"
    by (meson split_list_first)
  then show thesis using that index_char_append by blast
qed

text \<open>\<open>strings.Split\<close> at a one-byte separator: always at least one part.\<close>

fun split_on :: "char \<Rightarrow> string \<Rightarrow> string list" where
  "split_on c [] = [[]]"
| "split_on c (x # xs) =
     (if x = c then [] # split_on c xs
      else (case split_on c xs of [] \<Rightarrow> [[x]] | p # ps \<Rightarrow> (x # p) # ps))"

lemma split_on_nonempty [simp]: "split_on c s \<noteq> []"
  by (induction s) (auto split: list.splits)

lemma split_on_absent [go_string]: "c \<notin> set s \<Longrightarrow> split_on c s = [s]"
  by (induction s) auto

lemma split_on_append [go_string]: "c \<notin> set s \<Longrightarrow> split_on c (s @ c # t) = s # split_on c t"
  by (induction s) auto

lemma split_on_parts: "p \<in> set (split_on c s) \<Longrightarrow> c \<notin> set p"
  by (induction s arbitrary: p) (auto split: if_splits list.splits)

fun join_with :: "string \<Rightarrow> string list \<Rightarrow> string" where
  "join_with sep [] = []"
| "join_with sep [p] = p"
| "join_with sep (p # q # ps) = p @ sep @ join_with sep (q # ps)"

lemma join_split [simp]: "join_with [c] (split_on c s) = s"
proof (induction s)
  case (Cons x xs)
  then show ?case
    by (cases "split_on c xs" rule: list.exhaust; cases "tl (split_on c xs)") auto
qed simp

lemma split_join:
  "ps \<noteq> [] \<Longrightarrow> \<forall>p\<in>set ps. c \<notin> set p \<Longrightarrow> split_on c (join_with [c] ps) = ps"
  by (induction "[c]" ps rule: join_with.induct) (auto simp: go_string)

subsection \<open>Package strconv\<close>

definition is_digit :: "char \<Rightarrow> bool" where
  "is_digit c \<longleftrightarrow> (48 :: nat) \<le> of_char c \<and> of_char c \<le> (57 :: nat)"

definition digit_val :: "char \<Rightarrow> nat" where
  "digit_val c = of_char c - 48"

definition digit_char :: "nat \<Rightarrow> char" where
  "digit_char d = char_of (48 + d)"

lemma digit_char_props [simp]:
  assumes "d < 10"
  shows "is_digit (digit_char d)" "digit_val (digit_char d) = d"
  using assms by (simp_all add: is_digit_def digit_val_def digit_char_def)

text \<open>Decimal output of \<open>fmt\<close> (\<open>%d\<close>, \<open>%v\<close>) and \<open>strconv.Itoa\<close>.\<close>

fun nat_str :: "nat \<Rightarrow> string" where
  "nat_str n = (if n < 10 then [digit_char n] else nat_str (n div 10) @ [digit_char (n mod 10)])"

declare nat_str.simps [simp del]

definition itoa :: "int \<Rightarrow> string" where
  "itoa x = (if x < 0 then CHR ''-'' # nat_str (nat (- x)) else nat_str (nat x))"

definition u64_str :: "u64 \<Rightarrow> string" where
  "u64_str w = nat_str (unat w)"

lemma nat_str_digits: "c \<in> set (nat_str n) \<Longrightarrow> is_digit c"
proof (induction n arbitrary: c rule: nat_str.induct)
  case (1 n)
  then show ?case
    by (subst (asm) (2) nat_str.simps) (auto split: if_splits)
qed

lemma nat_str_nonempty [simp]: "nat_str n \<noteq> []"
  by (subst nat_str.simps) simp

lemma nat_str_no_char: "\<not> is_digit c \<Longrightarrow> c \<notin> set (nat_str n)"
  using nat_str_digits by blast

definition dec_val :: "string \<Rightarrow> nat" where
  "dec_val s = foldl (\<lambda>a c. 10 * a + digit_val c) 0 s"

lemma dec_val_nat_str [simp]: "dec_val (nat_str n) = n"
proof (induction n rule: nat_str.induct)
  case (1 n)
  then show ?case
    by (subst nat_str.simps) (auto simp: dec_val_def)
qed

lemma nat_str_inject [simp]: "nat_str m = nat_str n \<longleftrightarrow> m = n"
  by (metis dec_val_nat_str)

lemma u64_str_inject [simp]: "u64_str v = u64_str w \<longleftrightarrow> v = w"
  by (simp add: u64_str_def word_unat_eq_iff)

text \<open>
  \<open>strconv.Atoi\<close>: the digits are read in order, and the first byte that is not a
  digit or the first overflow of 64 bits decides the error. The function returns a
  number in every case: 0 with a syntax error, the nearest bound with a range error.
\<close>

datatype num_reason = SyntaxErr | RangeErr

fun parse_uint :: "nat \<Rightarrow> string \<Rightarrow> num_reason + nat" where
  "parse_uint n [] = Inr n"
| "parse_uint n (c # cs) =
     (if \<not> is_digit c then Inl SyntaxErr
      else if 1844674407370955162 \<le> n then Inl RangeErr
      else if 2 ^ 64 \<le> 10 * n + digit_val c then Inl RangeErr
      else parse_uint (10 * n + digit_val c) cs)"

definition num_error :: "string \<Rightarrow> num_reason \<Rightarrow> goerr" where
  "num_error s r = NumError s (case r of SyntaxErr \<Rightarrow> ''invalid syntax'' | RangeErr \<Rightarrow> ''value out of range'')"

definition atoi :: "string \<Rightarrow> int \<times> goerr option" where
  "atoi s =
     (let neg = (s \<noteq> [] \<and> hd s = CHR ''-'');
          body = (if s \<noteq> [] \<and> (hd s = CHR ''-'' \<or> hd s = CHR ''+'') then tl s else s);
          range = (if neg then - (2 ^ 63) else 2 ^ 63 - 1, Some (num_error s RangeErr))
      in if body = [] then (0, Some (num_error s SyntaxErr))
         else (case parse_uint 0 body of
             Inl SyntaxErr \<Rightarrow> (0, Some (num_error s SyntaxErr))
           | Inl RangeErr \<Rightarrow> range
           | Inr un \<Rightarrow>
               if \<not> neg \<and> 2 ^ 63 \<le> un \<or> neg \<and> 2 ^ 63 < un then range
               else (if neg then - int un else int un, None)))"

lemma parse_uint_append:
  "parse_uint n (s @ t) = (case parse_uint n s of Inl r \<Rightarrow> Inl r | Inr m \<Rightarrow> parse_uint m t)"
  by (induction n s rule: parse_uint.induct) auto

lemma parse_uint_nat_str: "n < 2 ^ 64 \<Longrightarrow> parse_uint 0 (nat_str n) = Inr n"
proof (induction n rule: nat_str.induct)
  case (1 n)
  show ?case
  proof (cases "n < 10")
    case True
    then show ?thesis by (subst nat_str.simps) simp
  next
    case False
    with 1 have "parse_uint 0 (nat_str (n div 10)) = Inr (n div 10)" by simp
    with False \<open>n < 2 ^ 64\<close> show ?thesis
      by (subst nat_str.simps) (simp add: parse_uint_append)
  qed
qed

lemma digit_head:
  assumes "is_digit c"
  shows "c \<noteq> CHR ''-''" "c \<noteq> CHR ''+''"
  using assms by (auto simp: is_digit_def)

lemma atoi_nat_str [go_string]:
  assumes "n < 2 ^ 63"
  shows "atoi (nat_str n) = (int n, None)"
proof -
  have "is_digit (hd (nat_str n))" by (rule nat_str_digits [of _ n]) simp
  with assms parse_uint_nat_str [of n] show ?thesis
    by (auto simp: atoi_def Let_def dest: digit_head)
qed

lemma parse_uint_digits: "parse_uint n s = Inr m \<Longrightarrow> \<forall>c\<in>set s. is_digit c"
  by (induction n s rule: parse_uint.induct) (auto split: if_splits)

lemma atoi_nonneg:
  assumes "atoi s = (v, None)" "CHR ''-'' \<notin> set s"
  shows "0 \<le> v"
proof -
  from assms(2) have "s = [] \<or> hd s \<noteq> CHR ''-''" by (cases s) auto
  with assms(1) show ?thesis
    by (auto simp: atoi_def Let_def split: if_splits sum.splits num_reason.splits)
qed

lemma atoi_int64: "atoi s = (v, e) \<Longrightarrow> int64 v"
  by (auto simp: atoi_def int64_def Let_def split: if_splits sum.splits num_reason.splits)

subsection \<open>Go maps with string keys\<close>

text \<open>
  A \<open>map[string]T\<close> whose entries are written to JSON is an association list with
  distinct keys; \<open>map_get\<close> is a read of a \<open>map[string]string\<close>, which yields the empty
  string for a missing key (and for a \<open>nil\<close> map).
\<close>

type_synonym 'v gomap = "(string \<times> 'v) list"

definition map_set :: "string \<Rightarrow> 'v \<Rightarrow> 'v gomap \<Rightarrow> 'v gomap" where
  "map_set k v m = AList.update k v m"

definition map_del :: "string \<Rightarrow> 'v gomap \<Rightarrow> 'v gomap" where
  "map_del k m = AList.delete k m"

definition map_get :: "string gomap \<Rightarrow> string \<Rightarrow> string" where
  "map_get m k = (case map_of m k of None \<Rightarrow> [] | Some v \<Rightarrow> v)"

definition map_has :: "'v gomap \<Rightarrow> string \<Rightarrow> bool" where
  "map_has m k \<longleftrightarrow> map_of m k \<noteq> None"

lemma map_of_set [simp]: "map_of (map_set k v m) = (map_of m)(k \<mapsto> v)"
  by (simp add: map_set_def update_conv')

lemma map_of_del [simp]: "map_of (map_del k m) = (map_of m)(k := None)"
  by (simp add: map_del_def delete_conv')

lemma map_get_set: "map_get (map_set k v m) k' = (if k' = k then v else map_get m k')"
  by (simp add: map_get_def)

subsection \<open>UTF-8\<close>

text \<open>\<open>utf8.Valid\<close>: \<open>encoding/json\<close> keeps exactly the strings of valid UTF-8.\<close>

fun utf8_bytes :: "nat list \<Rightarrow> bool" where
  "utf8_bytes [] = True"
| "utf8_bytes (a # r) =
     (if a < 128 then utf8_bytes r
      else case r of
          [] \<Rightarrow> False
        | b # r2 \<Rightarrow>
          if 194 \<le> a \<and> a < 224 then 128 \<le> b \<and> b < 192 \<and> utf8_bytes r2
          else (case r2 of
              [] \<Rightarrow> False
            | c # r3 \<Rightarrow>
              if 224 \<le> a \<and> a < 240
              then (if a = 224 then 160 else 128) \<le> b \<and> b < (if a = 237 then 160 else 192)
                \<and> 128 \<le> c \<and> c < 192 \<and> utf8_bytes r3
              else (case r3 of
                  [] \<Rightarrow> False
                | d # r4 \<Rightarrow>
                  240 \<le> a \<and> a < 245
                  \<and> (if a = 240 then 144 else 128) \<le> b \<and> b < (if a = 244 then 144 else 192)
                  \<and> 128 \<le> c \<and> c < 192 \<and> 128 \<le> d \<and> d < 192 \<and> utf8_bytes r4)))"

definition utf8 :: "string \<Rightarrow> bool" where
  "utf8 s = utf8_bytes (map of_char s)"

lemma utf8_ascii: "list_all (\<lambda>c. of_char c < (128 :: nat)) s \<Longrightarrow> utf8 s"
  unfolding utf8_def by (induction s) auto

lemma utf8_bytes_append: "utf8_bytes xs \<Longrightarrow> utf8_bytes b \<Longrightarrow> utf8_bytes (xs @ b)"
proof (induction "length xs" arbitrary: xs rule: less_induct)
  case less
  show ?case
  proof (cases xs)
    case (Cons a r)
    have IH: "utf8_bytes t \<Longrightarrow> utf8_bytes (t @ b)" if "length t < length xs" for t
      using less that by blast
    show ?thesis
    proof (cases "a < 128")
      case True
      with Cons less IH [of r] show ?thesis by simp
    next
      case a: False
      then obtain x r2 where r: "r = x # r2" using less Cons by (cases r) auto
      show ?thesis
      proof (cases "194 \<le> a \<and> a < 224")
        case True
        with Cons r a less IH [of r2] show ?thesis by simp
      next
        case a2: False
        then obtain y r3 where r2: "r2 = y # r3" using less Cons r a by (cases r2) auto
        show ?thesis
        proof (cases "224 \<le> a \<and> a < 240")
          case True
          then have "utf8_bytes r3" "length r3 < length xs"
            using Cons r r2 a a2 less by (simp_all split: if_splits)
          from IH [OF this(2,1)] show ?thesis using Cons r r2 a a2 True less by (simp del: utf8_bytes.simps add: utf8_bytes.simps(2) [of a])
        next
          case a3: False
          then obtain z r4 where r3: "r3 = z # r4" using less Cons r r2 a a2 by (cases r3) auto
          have eq: "utf8_bytes (a # x # y # z # q) \<longleftrightarrow> 240 \<le> a \<and> a < 245
              \<and> (if a = 240 then 144 else 128) \<le> x \<and> x < (if a = 244 then 144 else 192)
              \<and> 128 \<le> y \<and> y < 192 \<and> 128 \<le> z \<and> z < 192 \<and> utf8_bytes q" for q
            by (subst utf8_bytes.simps) (simp only: if_not_P [OF a] if_not_P [OF a2] if_not_P [OF a3] list.case)
          have xs: "xs = a # x # y # z # r4" using Cons r r2 r3 by simp
          then show ?thesis using less(2,3) IH [of r4] by (simp del: utf8_bytes.simps add: eq)
        qed
      qed
    qed
  qed (use less in simp)
qed

lemma utf8_append: "utf8 s \<Longrightarrow> utf8 t \<Longrightarrow> utf8 (s @ t)"
  by (simp add: utf8_def utf8_bytes_append)

lemma utf8_join: "list_all utf8 ps \<Longrightarrow> utf8 (join_with ''/'' ps)"
proof (induction ps rule: induct_list012)
  case (3 p q ps)
  moreover have "utf8 ''/''" by (simp add: utf8_def)
  ultimately show ?case using utf8_append [of p] utf8_append [of "''/''"] by simp
qed (simp_all add: utf8_def)

end
