(* ===== verification/Agent_Timer.thy ===== *)
theory Agent_Timer
  imports Go_Prelude "HOL-Library.Signed_Division"
begin

section \<open>Durations of the agent's configuration (pkg/agent/timer/parser.go)\<close>

text \<open>
  A \<open>time.Duration\<close> is an \<open>int64\<close> number of nanoseconds: an \<open>int\<close>, wrapped at
  every multiplication. Division and remainder of Go truncate towards zero (\<open>sdiv\<close>, \<open>smod\<close>).
  \<open>durationRE\<close> matches a text of digits and one of seven units; a number out of range is
  the greatest \<open>int64\<close>, since the error of \<open>Atoi\<close> is dropped.
\<close>

definition Millisecond :: int where "Millisecond = 1000000"

text \<open>The multiplier of a unit, in milliseconds.\<close>

definition unit_ms :: "string \<Rightarrow> int option" where
  "unit_ms u =
     (if u = ''y'' then Some (1000 * 60 * 60 * 24 * 365)
      else if u = ''w'' then Some (1000 * 60 * 60 * 24 * 7)
      else if u = ''d'' then Some (1000 * 60 * 60 * 24)
      else if u = ''h'' then Some (1000 * 60 * 60)
      else if u = ''m'' then Some (1000 * 60)
      else if u = ''s'' then Some 1000
      else if u = ''ms'' then Some 1
      else None)"

text \<open>\<open>durationRE.FindStringSubmatch\<close>: the digits and the unit.\<close>

definition durationRE :: "string \<Rightarrow> (string \<times> string) option" where
  "durationRE s =
     (let digits = takeWhile is_digit s; unit = dropWhile is_digit s
      in if digits \<noteq> [] \<and> unit_ms unit \<noteq> None then Some (digits, unit) else None)"

definition ParseDuration :: "string \<Rightarrow> goerr + int" where
  "ParseDuration durationStr =
     (case durationRE durationStr of
        None \<Rightarrow> Inl (Errorf (''not a valid duration string: '' @ durationStr))
      | Some (digits, unit) \<Rightarrow>
          (let dur = wrap64 (fst (atoi digits) * Millisecond)
           in case unit_ms unit of
                None \<Rightarrow> Inl (Errorf (''invalid time unit in duration string: '' @ unit))
              | Some k \<Rightarrow> Inr (wrap64 (dur * k))))"

text \<open>The first unit, from years down, that divides the milliseconds.\<close>

definition duration_unit :: "int \<Rightarrow> string" where
  "duration_unit ms =
     (case find (\<lambda>u. ms smod the (unit_ms u) = 0) [''y'', ''w'', ''d'', ''h'', ''m'', ''s''] of
        Some u \<Rightarrow> u | None \<Rightarrow> ''ms'')"

definition Duration_String :: "int \<Rightarrow> string" where
  "Duration_String d =
     (let ms = d sdiv Millisecond
      in if ms = 0 then ''0s''
         else (let u = duration_unit ms in itoa (ms sdiv the (unit_ms u)) @ u))"

text \<open>\<open>Set\<close> assigns the result, which is 0 with an error.\<close>

definition Duration_Set :: "string \<Rightarrow> int \<Rightarrow> goerr option \<times> int" where
  "Duration_Set s d = (case ParseDuration s of Inl err \<Rightarrow> (Some err, 0) | Inr dur \<Rightarrow> (None, dur))"

text \<open>The YAML methods; \<open>unmarshal\<close> is the decoder's, and gives a text or an error.\<close>

definition Duration_MarshalYAML :: "int \<Rightarrow> string" where
  "Duration_MarshalYAML d = Duration_String d"

definition Duration_UnmarshalYAML :: "goerr + string \<Rightarrow> int \<Rightarrow> goerr option \<times> int" where
  "Duration_UnmarshalYAML unmarshal d = (case unmarshal of
     Inl err \<Rightarrow> (Some err, d)
   | Inr s \<Rightarrow> (case ParseDuration s of Inl err \<Rightarrow> (Some err, d) | Inr dur \<Rightarrow> (None, dur)))"

subsection \<open>Lemmas\<close>

lemma unit_ms_cases:
  assumes "unit_ms u = Some k"
  shows "0 < k" "u \<noteq> []" "\<not> is_digit (hd u)"
  using assms by (auto simp: unit_ms_def is_digit_def split: if_splits)

lemma takeWhile_number:
  assumes "unit_ms u = Some k"
  shows "takeWhile is_digit (nat_str n @ u) = nat_str n" "dropWhile is_digit (nat_str n @ u) = u"
proof -
  have d: "\<forall>c\<in>set (nat_str n). is_digit c" using nat_str_digits by blast
  have "takeWhile is_digit u = []" "dropWhile is_digit u = u"
    using unit_ms_cases [OF assms] by (cases u; simp)+
  with d show "takeWhile is_digit (nat_str n @ u) = nat_str n" "dropWhile is_digit (nat_str n @ u) = u"
    by simp_all
qed

lemma ParseDuration_number:
  assumes "unit_ms u = Some k" "n < 2 ^ 63"
  shows "ParseDuration (nat_str n @ u) = Inr (wrap64 (int n * Millisecond * k))"
  using assms takeWhile_number [OF assms(1)]
  by (simp add: ParseDuration_def durationRE_def Let_def atoi_nat_str wrap64_mult_left)

lemma smod_dvd: "0 < (b :: int) \<Longrightarrow> a smod b = 0 \<longleftrightarrow> b dvd a"
proof (cases "0 \<le> a")
  case False
  assume "0 < b"
  with False have "a smod b = - ((- a) mod b)" by (simp add: smod_int_alt_def sgn_if)
  then show ?thesis by (metis dvd_eq_mod_eq_0 dvd_minus_iff neg_equal_0_iff_equal)
qed (simp add: smod_int_alt_def sgn_if dvd_eq_mod_eq_0)

lemma duration_unit_divides:
  obtains k where "unit_ms (duration_unit ms) = Some k" "k dvd ms" "0 < k"
proof -
  have some: "\<exists>k. unit_ms u = Some k \<and> 0 < k" if "u \<in> set [''y'', ''w'', ''d'', ''h'', ''m'', ''s'']" for u
    using that by (auto simp: unit_ms_def)
  show thesis
  proof (cases "find (\<lambda>u. ms smod the (unit_ms u) = 0) [''y'', ''w'', ''d'', ''h'', ''m'', ''s'']")
    case None
    then have "duration_unit ms = ''ms''" by (simp only: duration_unit_def option.case)
    then show thesis using that [of 1] by (simp add: unit_ms_def)
  next
    case (Some u)
    then obtain i where "u \<in> set [''y'', ''w'', ''d'', ''h'', ''m'', ''s'']" "ms smod the (unit_ms u) = 0"
      unfolding find_Some_iff by (metis nth_mem)
    moreover from this some obtain k where "unit_ms u = Some k" "0 < k" by blast
    moreover have "duration_unit ms = u" using Some by (simp only: duration_unit_def option.case)
    ultimately show thesis
      using that [of k] by (simp add: smod_dvd)
  qed
qed

lemma sdiv_pos: "0 \<le> (a :: int) \<Longrightarrow> 0 < b \<Longrightarrow> a sdiv b = a div b"
  by (simp add: signed_divide_int_def sgn_if)

text \<open>
  Printing a duration that is not negative and parsing the text gives the duration
  cut to whole milliseconds; no multiplication overflows on the way.
\<close>

theorem duration_roundtrip:
  assumes "0 \<le> d" "int64 d"
  shows "ParseDuration (Duration_String d) = Inr (d - d mod Millisecond)"
proof -
  let ?ms = "d div Millisecond"
  have ms: "d sdiv Millisecond = ?ms" "0 \<le> ?ms"
    using assms(1) by (simp_all add: sdiv_pos Millisecond_def)
  have cut: "?ms * Millisecond = d - d mod Millisecond" by (simp add: minus_mod_eq_div_mult)
  have fits: "int64 (d - d mod Millisecond)"
    using assms by (auto simp: int64_def Millisecond_def)
  show ?thesis
  proof (cases "?ms = 0")
    case True
    have "nat_str 0 @ ''s'' = ''0s''" by code_simp
    then have "ParseDuration ''0s'' = Inr 0"
      using ParseDuration_number [of "''s''" 1000 0] by (simp add: unit_ms_def wrap64_def)
    moreover have "d - d mod Millisecond = 0" using cut unfolding True by (simp only: mult_zero_left)
    moreover have "Duration_String d = ''0s''"
      unfolding Duration_String_def Let_def ms(1) True by (rule if_P) (rule refl)
    ultimately show ?thesis by (simp only:)
  next
    case False
    obtain k where k: "unit_ms (duration_unit ?ms) = Some k" "k dvd ?ms" "0 < k"
      by (rule duration_unit_divides)
    let ?n = "nat (?ms div k)"
    have n: "int ?n = ?ms div k" using ms(2) k(3) by (simp add: pos_imp_zdiv_nonneg_iff)
    have str: "Duration_String d = nat_str ?n @ duration_unit ?ms"
      using False ms k n by (simp add: Duration_String_def Let_def sdiv_pos itoa_def pos_imp_zdiv_neg_iff)
    have val: "int ?n * Millisecond * k = d - d mod Millisecond"
    proof -
      have "?ms div k * k = ?ms" using k(2) by (rule dvd_div_mult_self)
      then have "?ms div k * Millisecond * k = ?ms * Millisecond"
        by (metis mult.assoc mult.commute)
      then show ?thesis unfolding n cut .
    qed
    have "?ms div k \<le> ?ms" using ms(2) k(3) by (metis div_by_1 int_one_le_iff_zero_less zdiv_mono2 zero_less_one)
    moreover have "?ms \<le> d" using assms(1) by (simp add: Millisecond_def)
    ultimately have "?n < 2 ^ 63" using assms(2) n by (auto simp: int64_def)
    from ParseDuration_number [OF k(1) this] show ?thesis
      unfolding str val by (simp add: wrap64_id [OF fits])
  qed
qed

theorem duration_roundtrip_witness:
  "ParseDuration (Duration_String 5400000000001) = Inr 5400000000000"
  using duration_roundtrip [of 5400000000001] by (simp add: int64_def Millisecond_def)

text \<open>
  A duration too great for 64 bits is not refused: \<open>293y\<close> is accepted and negative; so are
  texts whose number is out of range.
\<close>

theorem duration_overflow:
  "ParseDuration ''293y'' = Inr (- 9206696073709551616)
   \<and> ParseDuration ''9223372036854775808ms'' = ParseDuration ''9223372036854775807ms''"
proof
  have "unit_ms ''y'' = Some 31536000000" by (simp add: unit_ms_def)
  moreover have "nat_str 293 @ ''y'' = ''293y''" by code_simp
  ultimately show "ParseDuration ''293y'' = Inr (- 9206696073709551616)"
    using ParseDuration_number [of "''y''" 31536000000 293]
    by (simp only:) (simp add: wrap64_def Millisecond_def)
next
  have "durationRE ''9223372036854775808ms'' = Some (''9223372036854775808'', ''ms'')"
    "durationRE ''9223372036854775807ms'' = Some (''9223372036854775807'', ''ms'')"
    by code_simp+
  moreover have "fst (atoi ''9223372036854775808'') = 2 ^ 63 - 1" "fst (atoi ''9223372036854775807'') = 2 ^ 63 - 1"
    by (simp_all add: atoi_def is_digit_def digit_val_def)
  ultimately show "ParseDuration ''9223372036854775808ms'' = ParseDuration ''9223372036854775807ms''"
    by (simp add: ParseDuration_def unit_ms_def)
qed

end
