(* ===== verification/Gorm_Api.thy ===== *)
theory Gorm_Api
  imports Go_Prelude
begin

section \<open>The database interface (gorm.io/gorm)\<close>

text \<open>
  The object-relational mapper and the database behind it are not part of the
  repository. They are a parameter: per table the calls the models make, and the calls
  of a transaction, as state-passing operations over an opaque state \<open>'d\<close>. What the code relies on is
  stated in the locales \<open>db_table\<close> and \<open>db_transactions\<close>, over an abstraction of the
  state: the committed contents and, for each open transaction, the contents it began with and
  the contents it sees. A call may fail at any time with an error of the driver.

  Where-clauses are predicates on rows. A handle is the global one (\<open>db.Get()\<close>) or a transaction.
\<close>

datatype conn = DB | TX nat

text \<open>
  \<open>Create\<close> returns the primary key it stores into the row; \<open>First\<close> is the matching
  row with the least key; \<open>Updates(struct)\<close> writes the non-zero fields.
\<close>

record ('d, 'r) table =
  t_create :: "conn \<Rightarrow> 'r \<Rightarrow> ('d, u64) proc"
  t_first :: "conn \<Rightarrow> ('r \<Rightarrow> bool) \<Rightarrow> ('d, 'r) proc"
  t_find :: "conn \<Rightarrow> ('r \<Rightarrow> bool) \<Rightarrow> ('d, 'r list) proc"
  t_updates :: "conn \<Rightarrow> ('r \<Rightarrow> bool) \<Rightarrow> 'r \<Rightarrow> ('d, unit) proc"
  t_first_or_create :: "conn \<Rightarrow> ('r \<Rightarrow> bool) \<Rightarrow> 'r \<Rightarrow> ('d, 'r) proc"
  t_delete :: "conn \<Rightarrow> ('r \<Rightarrow> bool) \<Rightarrow> ('d, unit) proc"

record 'd transactions =
  begin_tx :: "('d, conn) proc"
  commit_tx :: "conn \<Rightarrow> ('d, unit) proc"
  rollback_tx :: "conn \<Rightarrow> ('d, unit) proc"

text \<open>
  \<open>Where(&T{ID: id}).Updates(row)\<close>: a zero field of a struct condition is no condition,
  and an update without condition is refused.
\<close>

definition ErrMissingWhereClause :: goerr where
  "ErrMissingWhereClause = External ''WHERE conditions required''"

definition updates_by_id ::
  "('d, 'r) table \<Rightarrow> ('r \<Rightarrow> u64) \<Rightarrow> conn \<Rightarrow> u64 \<Rightarrow> 'r \<Rightarrow> ('d, unit) proc" where
  "updates_by_id T pk c i row =
     (if i = 0 then fail ErrMissingWhereClause else t_updates T c (\<lambda>x. pk x = i) row)"

text \<open>The fields of a struct update: a zero value leaves the column as it is.\<close>

definition nz_str :: "string \<Rightarrow> string \<Rightarrow> string" where
  "nz_str old new = (if new = [] then old else new)"

definition nz_id :: "u64 \<Rightarrow> u64 \<Rightarrow> u64" where
  "nz_id old new = (if new = 0 then old else new)"

subsection \<open>What the code relies on\<close>

record 'v db_abs =
  a_db :: 'v
  a_tx :: "nat \<Rightarrow> ('v \<times> 'v) option"

fun sees :: "conn \<Rightarrow> 'v db_abs \<Rightarrow> 'v option" where
  "sees DB a = Some (a_db a)"
| "sees (TX n) a = map_option snd (a_tx a n)"

fun alter :: "conn \<Rightarrow> ('v \<Rightarrow> 'v) \<Rightarrow> 'v db_abs \<Rightarrow> 'v db_abs" where
  "alter DB f a = a\<lparr>a_db := f (a_db a)\<rparr>"
| "alter (TX n) f a = a\<lparr>a_tx := (a_tx a)(n := map_option (\<lambda>(b, v). (b, f v)) (a_tx a n))\<rparr>"

definition close_tx :: "nat \<Rightarrow> 'v db_abs \<Rightarrow> 'v db_abs" where
  "close_tx n a = a\<lparr>a_tx := (a_tx a)(n := None)\<rparr>"

definition open_tx :: "nat \<Rightarrow> 'v db_abs \<Rightarrow> 'v db_abs" where
  "open_tx n a = a\<lparr>a_tx := (a_tx a)(n \<mapsto> (a_db a, a_db a))\<rparr>"

text \<open>A table whose keys are distinct and not zero and whose unique indices hold.\<close>

definition table_ok :: "('r \<Rightarrow> u64) \<Rightarrow> ('r \<Rightarrow> 'r \<Rightarrow> bool) \<Rightarrow> 'r list \<Rightarrow> bool" where
  "table_ok pk clash xs \<longleftrightarrow> distinct (map pk xs) \<and> 0 \<notin> pk ` set xs
     \<and> (\<forall>x\<in>set xs. \<forall>y\<in>set xs. clash x y \<longrightarrow> x = y)"

locale db_table =
  fixes T :: "('d, 'r) table"
    and obs :: "'d \<Rightarrow> 'v db_abs"
    and rows :: "'v \<Rightarrow> 'r list"
    and put :: "'r list \<Rightarrow> 'v \<Rightarrow> 'v"
    and pk :: "'r \<Rightarrow> u64"
    and set_pk :: "u64 \<Rightarrow> 'r \<Rightarrow> 'r"
    and persist :: "'r \<Rightarrow> 'r"
    and merge :: "'r \<Rightarrow> 'r \<Rightarrow> 'r"
    and clash :: "'r \<Rightarrow> 'r \<Rightarrow> bool"
  assumes create_Ok: "t_create T c r d = (Ok i, d') \<Longrightarrow>
      (\<exists>v. sees c (obs d) = Some v \<and> i \<noteq> 0 \<and> (pk r \<noteq> 0 \<longrightarrow> i = pk r)
         \<and> i \<notin> pk ` set (rows v) \<and> (\<forall>x\<in>set (rows v). \<not> clash x r))
      \<and> obs d' = alter c (\<lambda>v. put (rows v @ [set_pk i (persist r)]) v) (obs d)"
    and create_Err: "t_create T c r d = (Err e, d') \<Longrightarrow> obs d' = obs d"
    and create_no_panic: "fst (t_create T c r d) \<noteq> Panic"
    and first_abs: "obs (snd (t_first T c P d)) = obs d"
    and first_Ok: "t_first T c P d = (Ok x, d') \<Longrightarrow>
      \<exists>v. sees c (obs d) = Some v \<and> x \<in> set (rows v) \<and> P x
        \<and> (\<forall>y\<in>set (rows v). P y \<longrightarrow> pk x \<le> pk y)"
    and first_missing: "t_first T c P d = (Err ErrRecordNotFound, d') \<Longrightarrow> sees c (obs d) = Some v \<Longrightarrow>
      y \<in> set (rows v) \<Longrightarrow> \<not> P y"
    and first_no_panic: "fst (t_first T c P d) \<noteq> Panic"
    and find_abs: "obs (snd (t_find T c P d)) = obs d"
    and find_Ok: "t_find T c P d = (Ok xs, d') \<Longrightarrow>
      \<exists>v. sees c (obs d) = Some v \<and> xs = filter P (rows v)"
    and find_no_panic: "fst (t_find T c P d) \<noteq> Panic"
    and updates_Ok: "t_updates T c P r d = (Ok u, d') \<Longrightarrow>
      (\<exists>v. sees c (obs d) = Some v \<and> (table_ok pk clash (rows v) \<longrightarrow>
             table_ok pk clash (map (\<lambda>x. if P x then merge x r else x) (rows v))))
      \<and> obs d' = alter c (\<lambda>v. put (map (\<lambda>x. if P x then merge x r else x) (rows v)) v) (obs d)"
    and updates_Err: "t_updates T c P r d = (Err e, d') \<Longrightarrow> obs d' = obs d"
    and updates_no_panic: "fst (t_updates T c P r d) \<noteq> Panic"
    and first_or_create_Ok: "t_first_or_create T c P r d = (Ok x, d') \<Longrightarrow>
      (\<exists>v. sees c (obs d) = Some v \<and> x \<in> set (rows v) \<and> P x) \<and> obs d' = obs d
      \<or> (\<exists>v i. sees c (obs d) = Some v \<and> i \<noteq> 0 \<and> i \<notin> pk ` set (rows v)
          \<and> (\<forall>y\<in>set (rows v). \<not> P y \<and> \<not> clash y r) \<and> x = set_pk i (persist r)
          \<and> obs d' = alter c (\<lambda>v. put (rows v @ [x]) v) (obs d))"
    and first_or_create_Err: "t_first_or_create T c P r d = (Err e, d') \<Longrightarrow> obs d' = obs d"
    and first_or_create_no_panic: "fst (t_first_or_create T c P r d) \<noteq> Panic"
    and delete_Ok: "t_delete T c P d = (Ok u, d') \<Longrightarrow>
      sees c (obs d) \<noteq> None \<and> obs d' = alter c (\<lambda>v. put (filter (\<lambda>x. \<not> P x) (rows v)) v) (obs d)"
    and delete_Err: "t_delete T c P d = (Err e, d') \<Longrightarrow> obs d' = obs d"
    and delete_no_panic: "fst (t_delete T c P d) \<noteq> Panic"

text \<open>
  \<open>Begin\<close> returns a new handle, or a handle on which every call fails. \<open>Commit\<close>
  installs what the transaction sees when nothing was committed since it began, or fails.
\<close>

locale db_transactions =
  fixes X :: "'d transactions" and obs :: "'d \<Rightarrow> 'v db_abs"
  assumes begin_run: "begin_tx X d = (r, d') \<Longrightarrow>
      \<exists>n. r = Ok (TX n) \<and> a_tx (obs d) n = None \<and> (obs d' = open_tx n (obs d) \<or> obs d' = obs d)"
    and commit_Ok: "commit_tx X (TX n) d = (Ok u, d') \<Longrightarrow>
      \<exists>b v. a_tx (obs d) n = Some (b, v)
        \<and> (b = a_db (obs d) \<longrightarrow> obs d' = close_tx n ((obs d)\<lparr>a_db := v\<rparr>))"
    and commit_Err: "commit_tx X (TX n) d = (Err e, d') \<Longrightarrow> obs d' = close_tx n (obs d)"
    and commit_no_panic: "fst (commit_tx X c d) \<noteq> Panic"
    and rollback_run: "rollback_tx X (TX n) d = (q, d') \<Longrightarrow> obs d' = close_tx n (obs d) \<and> q \<noteq> Panic"

lemma alter_tx_db [simp]: "a_db (alter (TX n) f a) = a_db a"
  by simp

lemma close_tx_simps [simp]:
  "a_db (close_tx n a) = a_db a" "a_tx (close_tx n a) = (a_tx a)(n := None)"
  by (simp_all add: close_tx_def)

lemma open_tx_simps [simp]:
  "a_db (open_tx n a) = a_db a" "a_tx (open_tx n a) = (a_tx a)(n \<mapsto> (a_db a, a_db a))"
  by (simp_all add: open_tx_def)

lemma db_abs_eqI: "a_db a = a_db b \<Longrightarrow> a_tx a = a_tx b \<Longrightarrow> (a :: 'v db_abs) = b"
  by (cases a; cases b) simp

lemma close_close [simp]: "close_tx n (close_tx n a) = close_tx n a"
  by (rule db_abs_eqI) simp_all

lemma close_alter [simp]: "close_tx n (alter (TX n) f a) = close_tx n a"
  by (rule db_abs_eqI) (auto simp: fun_eq_iff)

lemma close_open: "a_tx a n = None \<Longrightarrow> close_tx n (open_tx n a) = a"
  by (rule db_abs_eqI) (auto simp: fun_eq_iff)

lemma close_unused: "a_tx a n = None \<Longrightarrow> close_tx n a = a"
  by (rule db_abs_eqI) (auto simp: fun_eq_iff)

end
