(* ===== verification/Config_Models.thy ===== *)
theory Config_Models
  imports Gorm_Api
begin

section \<open>The tables and their operations (pkg/manager/model)\<close>

text \<open>
  One record per model struct, with the columns first and then the fields that are not
  stored (\<open>gorm:"-"\<close>); its zero value, what \<open>Create\<close> stores of a row (\<open>persist\<close>), what \<open>Updates\<close> of a struct
  writes (\<open>merge\<close>) and the unique index of the struct tags (\<open>clash\<close>). \<open>CreatedAt\<close> and
  \<open>UpdatedAt\<close> are left out: nothing reads them. Then the functions of the model
  files, over the database interface; a \<open>nil\<close> transaction is the global handle.
\<close>

definition nz_opt :: "nat option \<Rightarrow> nat option \<Rightarrow> nat option" where
  "nz_opt old new = (if new = None then old else new)"

subsection \<open>The structs\<close>

record ConfigInfo =
  ci_ID :: u64
  ci_DeletedAt :: "nat option"
  ci_Name :: string
  ci_Namespace :: string
  ci_Desc :: string
  ci_CreatedBy :: string
  ci_Group :: string
  ci_SiteID :: string
  ci_Format :: string
  ci_Status :: string
  ci_TemplateVersionID :: u64
  ci_TemplateName :: string
  ci_TemplateNamespace :: string
  ci_Data :: string
  ci_TemplateData :: string
  ci_ReplaceData :: string
  ci_IsTemplateChange :: bool

definition ConfigInfo_zero :: ConfigInfo where
  "ConfigInfo_zero = \<lparr>ci_ID = 0, ci_DeletedAt = None, ci_Name = [], ci_Namespace = [], ci_Desc = [],
     ci_CreatedBy = [], ci_Group = [], ci_SiteID = [], ci_Format = [], ci_Status = [],
     ci_TemplateVersionID = 0, ci_TemplateName = [], ci_TemplateNamespace = [], ci_Data = [], ci_TemplateData = [],
     ci_ReplaceData = [], ci_IsTemplateChange = False\<rparr>"

definition ConfigInfo_persist :: "ConfigInfo \<Rightarrow> ConfigInfo" where
  "ConfigInfo_persist r = r\<lparr>ci_Data := [], ci_TemplateData := [], ci_ReplaceData := [], ci_IsTemplateChange := False\<rparr>"

definition ConfigInfo_merge :: "ConfigInfo \<Rightarrow> ConfigInfo \<Rightarrow> ConfigInfo" where
  "ConfigInfo_merge old new = old\<lparr>ci_DeletedAt := nz_opt (ci_DeletedAt old) (ci_DeletedAt new),
       ci_Name := nz_str (ci_Name old) (ci_Name new),
       ci_Namespace := nz_str (ci_Namespace old) (ci_Namespace new),
       ci_Desc := nz_str (ci_Desc old) (ci_Desc new),
       ci_CreatedBy := nz_str (ci_CreatedBy old) (ci_CreatedBy new),
       ci_Group := nz_str (ci_Group old) (ci_Group new),
       ci_SiteID := nz_str (ci_SiteID old) (ci_SiteID new),
       ci_Format := nz_str (ci_Format old) (ci_Format new),
       ci_Status := nz_str (ci_Status old) (ci_Status new),
       ci_TemplateVersionID := nz_id (ci_TemplateVersionID old) (ci_TemplateVersionID new),
       ci_TemplateName := nz_str (ci_TemplateName old) (ci_TemplateName new),
       ci_TemplateNamespace := nz_str (ci_TemplateNamespace old) (ci_TemplateNamespace new)\<rparr>"

definition ConfigInfo_clash :: "ConfigInfo \<Rightarrow> ConfigInfo \<Rightarrow> bool" where
  "ConfigInfo_clash a b \<longleftrightarrow> ci_Name a = ci_Name b \<and> ci_Namespace a = ci_Namespace b \<and> ci_SiteID a = ci_SiteID b"

record ConfigVersion =
  cv_ID :: u64
  cv_DeletedAt :: "nat option"
  cv_Name :: string
  cv_Namespace :: string
  cv_Version :: u64
  cv_Desc :: string
  cv_CreatedBy :: string
  cv_Group :: string
  cv_SiteID :: string
  cv_Digest :: string
  cv_Status :: string
  cv_ConfigInfoID :: u64
  cv_TemplateVersionID :: u64
  cv_TemplateName :: string
  cv_TemplateNamespace :: string
  cv_ReplaceDigest :: string

definition ConfigVersion_zero :: ConfigVersion where
  "ConfigVersion_zero = \<lparr>cv_ID = 0, cv_DeletedAt = None, cv_Name = [], cv_Namespace = [], cv_Version = 0,
     cv_Desc = [], cv_CreatedBy = [], cv_Group = [], cv_SiteID = [], cv_Digest = [],
     cv_Status = [], cv_ConfigInfoID = 0, cv_TemplateVersionID = 0, cv_TemplateName = [], cv_TemplateNamespace = [],
     cv_ReplaceDigest = []\<rparr>"

definition ConfigVersion_persist :: "ConfigVersion \<Rightarrow> ConfigVersion" where
  "ConfigVersion_persist r = r"

definition ConfigVersion_merge :: "ConfigVersion \<Rightarrow> ConfigVersion \<Rightarrow> ConfigVersion" where
  "ConfigVersion_merge old new = old\<lparr>cv_DeletedAt := nz_opt (cv_DeletedAt old) (cv_DeletedAt new),
       cv_Name := nz_str (cv_Name old) (cv_Name new),
       cv_Namespace := nz_str (cv_Namespace old) (cv_Namespace new),
       cv_Version := nz_id (cv_Version old) (cv_Version new),
       cv_Desc := nz_str (cv_Desc old) (cv_Desc new),
       cv_CreatedBy := nz_str (cv_CreatedBy old) (cv_CreatedBy new),
       cv_Group := nz_str (cv_Group old) (cv_Group new),
       cv_SiteID := nz_str (cv_SiteID old) (cv_SiteID new),
       cv_Digest := nz_str (cv_Digest old) (cv_Digest new),
       cv_Status := nz_str (cv_Status old) (cv_Status new),
       cv_ConfigInfoID := nz_id (cv_ConfigInfoID old) (cv_ConfigInfoID new),
       cv_TemplateVersionID := nz_id (cv_TemplateVersionID old) (cv_TemplateVersionID new),
       cv_TemplateName := nz_str (cv_TemplateName old) (cv_TemplateName new),
       cv_TemplateNamespace := nz_str (cv_TemplateNamespace old) (cv_TemplateNamespace new),
       cv_ReplaceDigest := nz_str (cv_ReplaceDigest old) (cv_ReplaceDigest new)\<rparr>"

definition ConfigVersion_clash :: "ConfigVersion \<Rightarrow> ConfigVersion \<Rightarrow> bool" where
  "ConfigVersion_clash a b \<longleftrightarrow> cv_Name a = cv_Name b \<and> cv_Namespace a = cv_Namespace b \<and> cv_Version a = cv_Version b \<and> cv_ConfigInfoID a = cv_ConfigInfoID b"

record ConfigCurrent =
  cc_ID :: u64
  cc_DeletedAt :: "nat option"
  cc_Status :: string
  cc_ConfigInfoID :: u64
  cc_LatestConfigVersionID :: u64
  cc_LatestReleaseID :: u64
  cc_PreReleaseID :: u64

definition ConfigCurrent_zero :: ConfigCurrent where
  "ConfigCurrent_zero = \<lparr>cc_ID = 0, cc_DeletedAt = None, cc_Status = [], cc_ConfigInfoID = 0, cc_LatestConfigVersionID = 0,
     cc_LatestReleaseID = 0, cc_PreReleaseID = 0\<rparr>"

definition ConfigCurrent_persist :: "ConfigCurrent \<Rightarrow> ConfigCurrent" where
  "ConfigCurrent_persist r = r"

definition ConfigCurrent_merge :: "ConfigCurrent \<Rightarrow> ConfigCurrent \<Rightarrow> ConfigCurrent" where
  "ConfigCurrent_merge old new = old\<lparr>cc_DeletedAt := nz_opt (cc_DeletedAt old) (cc_DeletedAt new),
       cc_Status := nz_str (cc_Status old) (cc_Status new),
       cc_ConfigInfoID := nz_id (cc_ConfigInfoID old) (cc_ConfigInfoID new),
       cc_LatestConfigVersionID := nz_id (cc_LatestConfigVersionID old) (cc_LatestConfigVersionID new),
       cc_LatestReleaseID := nz_id (cc_LatestReleaseID old) (cc_LatestReleaseID new),
       cc_PreReleaseID := nz_id (cc_PreReleaseID old) (cc_PreReleaseID new)\<rparr>"

definition ConfigCurrent_clash :: "ConfigCurrent \<Rightarrow> ConfigCurrent \<Rightarrow> bool" where
  "ConfigCurrent_clash a b \<longleftrightarrow> cc_ConfigInfoID a = cc_ConfigInfoID b"

record Release =
  rl_ID :: u64
  rl_DeletedAt :: "nat option"
  rl_Version :: u64
  rl_Desc :: string
  rl_CreatedBy :: string
  rl_Status :: string
  rl_Digest :: string
  rl_ConfigInfoID :: u64
  rl_ConfigVersionID :: u64

definition Release_zero :: Release where
  "Release_zero = \<lparr>rl_ID = 0, rl_DeletedAt = None, rl_Version = 0, rl_Desc = [], rl_CreatedBy = [],
     rl_Status = [], rl_Digest = [], rl_ConfigInfoID = 0, rl_ConfigVersionID = 0\<rparr>"

definition Release_persist :: "Release \<Rightarrow> Release" where
  "Release_persist r = r"

definition Release_merge :: "Release \<Rightarrow> Release \<Rightarrow> Release" where
  "Release_merge old new = old\<lparr>rl_DeletedAt := nz_opt (rl_DeletedAt old) (rl_DeletedAt new),
       rl_Version := nz_id (rl_Version old) (rl_Version new),
       rl_Desc := nz_str (rl_Desc old) (rl_Desc new),
       rl_CreatedBy := nz_str (rl_CreatedBy old) (rl_CreatedBy new),
       rl_Status := nz_str (rl_Status old) (rl_Status new),
       rl_Digest := nz_str (rl_Digest old) (rl_Digest new),
       rl_ConfigInfoID := nz_id (rl_ConfigInfoID old) (rl_ConfigInfoID new),
       rl_ConfigVersionID := nz_id (rl_ConfigVersionID old) (rl_ConfigVersionID new)\<rparr>"

definition Release_clash :: "Release \<Rightarrow> Release \<Rightarrow> bool" where
  "Release_clash a b \<longleftrightarrow> rl_Version a = rl_Version b \<and> rl_ConfigInfoID a = rl_ConfigInfoID b"

record ConfigInstance =
  in_ID :: u64
  in_Name :: string
  in_SiteID :: string
  in_Hostname :: string
  in_IP :: string
  in_Digest :: string
  in_ConfigInfoID :: u64
  in_ConnKey :: string
  in_IsSync :: bool

definition ConfigInstance_zero :: ConfigInstance where
  "ConfigInstance_zero = \<lparr>in_ID = 0, in_Name = [], in_SiteID = [], in_Hostname = [], in_IP = [],
     in_Digest = [], in_ConfigInfoID = 0, in_ConnKey = [], in_IsSync = False\<rparr>"

definition ConfigInstance_persist :: "ConfigInstance \<Rightarrow> ConfigInstance" where
  "ConfigInstance_persist r = r\<lparr>in_IsSync := False\<rparr>"

definition ConfigInstance_merge :: "ConfigInstance \<Rightarrow> ConfigInstance \<Rightarrow> ConfigInstance" where
  "ConfigInstance_merge old new = old\<lparr>in_Name := nz_str (in_Name old) (in_Name new),
       in_SiteID := nz_str (in_SiteID old) (in_SiteID new),
       in_Hostname := nz_str (in_Hostname old) (in_Hostname new),
       in_IP := nz_str (in_IP old) (in_IP new),
       in_Digest := nz_str (in_Digest old) (in_Digest new),
       in_ConfigInfoID := nz_id (in_ConfigInfoID old) (in_ConfigInfoID new),
       in_ConnKey := nz_str (in_ConnKey old) (in_ConnKey new)\<rparr>"

definition ConfigInstance_clash :: "ConfigInstance \<Rightarrow> ConfigInstance \<Rightarrow> bool" where
  "ConfigInstance_clash a b \<longleftrightarrow> in_Name a = in_Name b \<and> in_SiteID a = in_SiteID b \<and> in_Hostname a = in_Hostname b \<and> in_ConfigInfoID a = in_ConfigInfoID b \<and> in_ConnKey a = in_ConnKey b"

record ConfigNamespace =
  cn_ID :: u64
  cn_Name :: string
  cn_CreatedBy :: string
  cn_Group :: string
  cn_SiteID :: string
  cn_Status :: string

definition ConfigNamespace_zero :: ConfigNamespace where
  "ConfigNamespace_zero = \<lparr>cn_ID = 0, cn_Name = [], cn_CreatedBy = [], cn_Group = [], cn_SiteID = [],
     cn_Status = []\<rparr>"

definition ConfigNamespace_persist :: "ConfigNamespace \<Rightarrow> ConfigNamespace" where
  "ConfigNamespace_persist r = r"

definition ConfigNamespace_merge :: "ConfigNamespace \<Rightarrow> ConfigNamespace \<Rightarrow> ConfigNamespace" where
  "ConfigNamespace_merge old new = old\<lparr>cn_Name := nz_str (cn_Name old) (cn_Name new),
       cn_CreatedBy := nz_str (cn_CreatedBy old) (cn_CreatedBy new),
       cn_Group := nz_str (cn_Group old) (cn_Group new),
       cn_SiteID := nz_str (cn_SiteID old) (cn_SiteID new),
       cn_Status := nz_str (cn_Status old) (cn_Status new)\<rparr>"

definition ConfigNamespace_clash :: "ConfigNamespace \<Rightarrow> ConfigNamespace \<Rightarrow> bool" where
  "ConfigNamespace_clash a b \<longleftrightarrow> cn_Name a = cn_Name b \<and> cn_SiteID a = cn_SiteID b"

record Template =
  tp_ID :: u64
  tp_DeletedAt :: "nat option"
  tp_Name :: string
  tp_Namespace :: string
  tp_Desc :: string
  tp_CreatedBy :: string
  tp_Group :: string
  tp_Status :: string
  tp_LatestVersionID :: u64
  tp_Data :: string

definition Template_zero :: Template where
  "Template_zero = \<lparr>tp_ID = 0, tp_DeletedAt = None, tp_Name = [], tp_Namespace = [], tp_Desc = [],
     tp_CreatedBy = [], tp_Group = [], tp_Status = [], tp_LatestVersionID = 0, tp_Data = []\<rparr>"

definition Template_persist :: "Template \<Rightarrow> Template" where
  "Template_persist r = r\<lparr>tp_Data := []\<rparr>"

definition Template_merge :: "Template \<Rightarrow> Template \<Rightarrow> Template" where
  "Template_merge old new = old\<lparr>tp_DeletedAt := nz_opt (tp_DeletedAt old) (tp_DeletedAt new),
       tp_Name := nz_str (tp_Name old) (tp_Name new),
       tp_Namespace := nz_str (tp_Namespace old) (tp_Namespace new),
       tp_Desc := nz_str (tp_Desc old) (tp_Desc new),
       tp_CreatedBy := nz_str (tp_CreatedBy old) (tp_CreatedBy new),
       tp_Group := nz_str (tp_Group old) (tp_Group new),
       tp_Status := nz_str (tp_Status old) (tp_Status new),
       tp_LatestVersionID := nz_id (tp_LatestVersionID old) (tp_LatestVersionID new)\<rparr>"

definition Template_clash :: "Template \<Rightarrow> Template \<Rightarrow> bool" where
  "Template_clash a b \<longleftrightarrow> tp_Name a = tp_Name b \<and> tp_Namespace a = tp_Namespace b"

record TemplateVersion =
  tv_ID :: u64
  tv_DeletedAt :: "nat option"
  tv_Name :: string
  tv_Namespace :: string
  tv_Version :: u64
  tv_Desc :: string
  tv_CreatedBy :: string
  tv_Group :: string
  tv_Digest :: string
  tv_Status :: string
  tv_TemplateID :: u64

definition TemplateVersion_zero :: TemplateVersion where
  "TemplateVersion_zero = \<lparr>tv_ID = 0, tv_DeletedAt = None, tv_Name = [], tv_Namespace = [], tv_Version = 0,
     tv_Desc = [], tv_CreatedBy = [], tv_Group = [], tv_Digest = [], tv_Status = [],
     tv_TemplateID = 0\<rparr>"

definition TemplateVersion_persist :: "TemplateVersion \<Rightarrow> TemplateVersion" where
  "TemplateVersion_persist r = r"

definition TemplateVersion_merge :: "TemplateVersion \<Rightarrow> TemplateVersion \<Rightarrow> TemplateVersion" where
  "TemplateVersion_merge old new = old\<lparr>tv_DeletedAt := nz_opt (tv_DeletedAt old) (tv_DeletedAt new),
       tv_Name := nz_str (tv_Name old) (tv_Name new),
       tv_Namespace := nz_str (tv_Namespace old) (tv_Namespace new),
       tv_Version := nz_id (tv_Version old) (tv_Version new),
       tv_Desc := nz_str (tv_Desc old) (tv_Desc new),
       tv_CreatedBy := nz_str (tv_CreatedBy old) (tv_CreatedBy new),
       tv_Group := nz_str (tv_Group old) (tv_Group new),
       tv_Digest := nz_str (tv_Digest old) (tv_Digest new),
       tv_Status := nz_str (tv_Status old) (tv_Status new),
       tv_TemplateID := nz_id (tv_TemplateID old) (tv_TemplateID new)\<rparr>"

definition TemplateVersion_clash :: "TemplateVersion \<Rightarrow> TemplateVersion \<Rightarrow> bool" where
  "TemplateVersion_clash a b \<longleftrightarrow> tv_Name a = tv_Name b \<and> tv_Namespace a = tv_Namespace b \<and> tv_Version a = tv_Version b"

record TemplateNamespace =
  tn_ID :: u64
  tn_Name :: string
  tn_CreatedBy :: string
  tn_Group :: string
  tn_Status :: string

definition TemplateNamespace_zero :: TemplateNamespace where
  "TemplateNamespace_zero = \<lparr>tn_ID = 0, tn_Name = [], tn_CreatedBy = [], tn_Group = [], tn_Status = []\<rparr>"

definition TemplateNamespace_persist :: "TemplateNamespace \<Rightarrow> TemplateNamespace" where
  "TemplateNamespace_persist r = r"

definition TemplateNamespace_merge :: "TemplateNamespace \<Rightarrow> TemplateNamespace \<Rightarrow> TemplateNamespace" where
  "TemplateNamespace_merge old new = old\<lparr>tn_Name := nz_str (tn_Name old) (tn_Name new),
       tn_CreatedBy := nz_str (tn_CreatedBy old) (tn_CreatedBy new),
       tn_Group := nz_str (tn_Group old) (tn_Group new),
       tn_Status := nz_str (tn_Status old) (tn_Status new)\<rparr>"

definition TemplateNamespace_clash :: "TemplateNamespace \<Rightarrow> TemplateNamespace \<Rightarrow> bool" where
  "TemplateNamespace_clash a b \<longleftrightarrow> tn_Name a = tn_Name b"

record Cluster =
  cl_ID :: u64
  cl_SiteID :: string
  cl_Name :: string
  cl_Desc :: string
  cl_BusinessLine :: string
  cl_Group :: string
  cl_CreatedBy :: string
  cl_Status :: string
  cl_Env :: string
  cl_IP :: string
  cl_SyncID :: string
  cl_ConnKey :: string

definition Cluster_zero :: Cluster where
  "Cluster_zero = \<lparr>cl_ID = 0, cl_SiteID = [], cl_Name = [], cl_Desc = [], cl_BusinessLine = [],
     cl_Group = [], cl_CreatedBy = [], cl_Status = [], cl_Env = [], cl_IP = [],
     cl_SyncID = [], cl_ConnKey = []\<rparr>"

definition Cluster_persist :: "Cluster \<Rightarrow> Cluster" where
  "Cluster_persist r = r"

definition Cluster_merge :: "Cluster \<Rightarrow> Cluster \<Rightarrow> Cluster" where
  "Cluster_merge old new = old\<lparr>cl_SiteID := nz_str (cl_SiteID old) (cl_SiteID new),
       cl_Name := nz_str (cl_Name old) (cl_Name new),
       cl_Desc := nz_str (cl_Desc old) (cl_Desc new),
       cl_BusinessLine := nz_str (cl_BusinessLine old) (cl_BusinessLine new),
       cl_Group := nz_str (cl_Group old) (cl_Group new),
       cl_CreatedBy := nz_str (cl_CreatedBy old) (cl_CreatedBy new),
       cl_Status := nz_str (cl_Status old) (cl_Status new),
       cl_Env := nz_str (cl_Env old) (cl_Env new),
       cl_IP := nz_str (cl_IP old) (cl_IP new),
       cl_SyncID := nz_str (cl_SyncID old) (cl_SyncID new),
       cl_ConnKey := nz_str (cl_ConnKey old) (cl_ConnKey new)\<rparr>"

definition Cluster_clash :: "Cluster \<Rightarrow> Cluster \<Rightarrow> bool" where
  "Cluster_clash a b \<longleftrightarrow> cl_SiteID a = cl_SiteID b"

subsection \<open>The status values\<close>

definition ConfigStatusCreated :: string where "ConfigStatusCreated = ''created''"
definition ConfigStatusReleased :: string where "ConfigStatusReleased = ''released''"
definition ConfigStatusUpdated :: string where "ConfigStatusUpdated = ''updated''"
definition ConfigStatusRemoved :: string where "ConfigStatusRemoved = ''removed''"
definition ConfigStatusDeleted :: string where "ConfigStatusDeleted = ''deleted''"

definition ConfigFormatProperties :: string where "ConfigFormatProperties = ''property''"
definition ConfigFormatTxt :: string where "ConfigFormatTxt = ''txt''"
definition ConfigFormatJSON :: string where "ConfigFormatJSON = ''json''"
definition ConfigFormatYAML :: string where "ConfigFormatYAML = ''yaml''"
definition ConfigFormatCSV :: string where "ConfigFormatCSV = ''csv''"
definition ConfigFormatJPG :: string where "ConfigFormatJPG = ''jpg''"

definition ConfigVersionCreate :: string where "ConfigVersionCreate = ''create''"
definition ConfigVersionUpdate :: string where "ConfigVersionUpdate = ''update''"
definition ConfigVersionRollback :: string where "ConfigVersionRollback = ''rollback''"

definition ClusterStatusReady :: string where "ClusterStatusReady = ''Ready''"
definition ClusterStatusNotReady :: string where "ClusterStatusNotReady = ''NotReady''"

subsection \<open>The database\<close>

record 'd gorm =
  g_tx :: "'d transactions"
  t_info :: "('d, ConfigInfo) table"
  t_version :: "('d, ConfigVersion) table"
  t_current :: "('d, ConfigCurrent) table"
  t_release :: "('d, Release) table"
  t_instance :: "('d, ConfigInstance) table"
  t_cns :: "('d, ConfigNamespace) table"
  t_template :: "('d, Template) table"
  t_tversion :: "('d, TemplateVersion) table"
  t_tns :: "('d, TemplateNamespace) table"
  t_cluster :: "('d, Cluster) table"

definition not_deleted :: "string \<Rightarrow> bool" where
  "not_deleted status \<longleftrightarrow> status \<noteq> ''deleted''"

subsection \<open>configinfo.go\<close>

definition CreateConfigInfo :: "'d gorm \<Rightarrow> ConfigInfo \<Rightarrow> conn \<Rightarrow> ('d, ConfigInfo) proc" where
  "CreateConfigInfo G configInfo tx =
     andthen (t_create (t_info G) tx configInfo) (\<lambda>i. ret (configInfo\<lparr>ci_ID := i\<rparr>))"

definition GetConfigInfoByID :: "'d gorm \<Rightarrow> u64 \<Rightarrow> ('d, ConfigInfo) proc" where
  "GetConfigInfoByID G i = t_first (t_info G) DB (\<lambda>r. ci_ID r = i \<and> not_deleted (ci_Status r))"

definition GetConfigInfoByNamespaceNameSiteID ::
  "'d gorm \<Rightarrow> string \<Rightarrow> string \<Rightarrow> string \<Rightarrow> ('d, ConfigInfo) proc" where
  "GetConfigInfoByNamespaceNameSiteID G ns name siteID =
     t_first (t_info G) DB (\<lambda>r. ci_Namespace r = ns \<and> ci_Name r = name \<and> ci_SiteID r = siteID
       \<and> not_deleted (ci_Status r))"

text \<open>The callers' query strings are conditions on the columns they name.\<close>

definition GetAllConfigInfos :: "'d gorm \<Rightarrow> (ConfigInfo \<Rightarrow> bool) \<Rightarrow> ('d, ConfigInfo list) proc" where
  "GetAllConfigInfos G query = t_find (t_info G) DB query"

definition UpdateConfigInfo :: "'d gorm \<Rightarrow> ConfigInfo \<Rightarrow> conn \<Rightarrow> ('d, unit) proc" where
  "UpdateConfigInfo G configInfo tx = updates_by_id (t_info G) ci_ID tx (ci_ID configInfo) configInfo"

text \<open>The soft deletions take the clock and the fresh uuid as arguments.\<close>

definition DeleteConfigInfo :: "'d gorm \<Rightarrow> nat \<Rightarrow> string \<Rightarrow> u64 \<Rightarrow> ('d, unit) proc" where
  "DeleteConfigInfo G now uuid i =
     attempt (t_first (t_info G) DB (\<lambda>r. ci_ID r = i))
       (\<lambda>err. if err = ErrRecordNotFound then ret () else fail err) (\<lambda>configInfo.
     t_updates (t_info G) DB (\<lambda>r. ci_ID r = i)
       (ConfigInfo_zero\<lparr>ci_DeletedAt := Some now, ci_Status := ''deleted'',
          ci_Name := ci_Name configInfo @ ''-'' @ uuid\<rparr>))"

subsection \<open>configversion.go\<close>

definition CreateConfigVersion :: "'d gorm \<Rightarrow> ConfigVersion \<Rightarrow> conn \<Rightarrow> ('d, ConfigVersion) proc" where
  "CreateConfigVersion G configVersion tx =
     andthen (t_create (t_version G) tx configVersion) (\<lambda>i. ret (configVersion\<lparr>cv_ID := i\<rparr>))"

definition GetConfigVersionByID :: "'d gorm \<Rightarrow> u64 \<Rightarrow> ('d, ConfigVersion) proc" where
  "GetConfigVersionByID G i = t_first (t_version G) DB (\<lambda>r. cv_ID r = i \<and> not_deleted (cv_Status r))"

definition GetConfigVersionByConfigInfoIDAndVersion ::
  "'d gorm \<Rightarrow> u64 \<Rightarrow> u64 \<Rightarrow> ('d, ConfigVersion) proc" where
  "GetConfigVersionByConfigInfoIDAndVersion G i version =
     t_first (t_version G) DB (\<lambda>r. cv_ConfigInfoID r = i \<and> cv_Version r = version)"

definition UpdateConfigVersion :: "'d gorm \<Rightarrow> ConfigVersion \<Rightarrow> conn \<Rightarrow> ('d, unit) proc" where
  "UpdateConfigVersion G configVersion tx =
     updates_by_id (t_version G) cv_ID tx (cv_ID configVersion) configVersion"

definition DeleteConfigVersion :: "'d gorm \<Rightarrow> nat \<Rightarrow> string \<Rightarrow> u64 \<Rightarrow> ('d, unit) proc" where
  "DeleteConfigVersion G now uuid i =
     attempt (t_first (t_version G) DB (\<lambda>r. cv_ID r = i))
       (\<lambda>err. if err = ErrRecordNotFound then ret () else fail err) (\<lambda>configVersion.
     t_updates (t_version G) DB (\<lambda>r. cv_ID r = i)
       (ConfigVersion_zero\<lparr>cv_DeletedAt := Some now, cv_Status := ''deleted'',
          cv_Name := cv_Name configVersion @ ''-'' @ uuid\<rparr>))"

subsection \<open>configcurrent.go\<close>

definition CreateConfigCurrent :: "'d gorm \<Rightarrow> ConfigCurrent \<Rightarrow> conn \<Rightarrow> ('d, ConfigCurrent) proc" where
  "CreateConfigCurrent G configCurrent tx =
     andthen (t_create (t_current G) tx configCurrent) (\<lambda>i. ret (configCurrent\<lparr>cc_ID := i\<rparr>))"

definition GetConfigCurrentByConfigID :: "'d gorm \<Rightarrow> u64 \<Rightarrow> ('d, ConfigCurrent) proc" where
  "GetConfigCurrentByConfigID G i =
     t_first (t_current G) DB (\<lambda>r. cc_ConfigInfoID r = i \<and> not_deleted (cc_Status r))"

definition UpdateConfigCurrent :: "'d gorm \<Rightarrow> ConfigCurrent \<Rightarrow> conn \<Rightarrow> ('d, unit) proc" where
  "UpdateConfigCurrent G configCurrent tx =
     updates_by_id (t_current G) cc_ID tx (cc_ID configCurrent) configCurrent"

definition DeleteConfigCurrent :: "'d gorm \<Rightarrow> nat \<Rightarrow> u64 \<Rightarrow> ('d, unit) proc" where
  "DeleteConfigCurrent G now i =
     attempt (t_first (t_current G) DB (\<lambda>r. cc_ID r = i))
       (\<lambda>err. if err = ErrRecordNotFound then ret () else fail err) (\<lambda>_.
     t_updates (t_current G) DB (\<lambda>r. cc_ID r = i)
       (ConfigCurrent_zero\<lparr>cc_DeletedAt := Some now, cc_Status := ''deleted''\<rparr>))"

subsection \<open>release.go\<close>

definition CreateRelease :: "'d gorm \<Rightarrow> Release \<Rightarrow> conn \<Rightarrow> ('d, Release) proc" where
  "CreateRelease G release tx =
     andthen (t_create (t_release G) tx release) (\<lambda>i. ret (release\<lparr>rl_ID := i\<rparr>))"

definition GetReleaseByID :: "'d gorm \<Rightarrow> u64 \<Rightarrow> ('d, Release) proc" where
  "GetReleaseByID G i = t_first (t_release G) DB (\<lambda>r. rl_ID r = i \<and> not_deleted (rl_Status r))"

definition GetReleaseByConfigInfoIDAndVersion :: "'d gorm \<Rightarrow> u64 \<Rightarrow> u64 \<Rightarrow> ('d, Release) proc" where
  "GetReleaseByConfigInfoIDAndVersion G i version =
     t_first (t_release G) DB (\<lambda>r. rl_ConfigInfoID r = i \<and> rl_Version r = version \<and> not_deleted (rl_Status r))"

definition UpdateRelease :: "'d gorm \<Rightarrow> Release \<Rightarrow> conn \<Rightarrow> ('d, unit) proc" where
  "UpdateRelease G release tx = updates_by_id (t_release G) rl_ID tx (rl_ID release) release"

definition DeleteRelease :: "'d gorm \<Rightarrow> nat \<Rightarrow> u64 \<Rightarrow> ('d, unit) proc" where
  "DeleteRelease G now i =
     attempt (t_first (t_release G) DB (\<lambda>r. rl_ID r = i))
       (\<lambda>err. if err = ErrRecordNotFound then ret () else fail err) (\<lambda>_.
     t_updates (t_release G) DB (\<lambda>r. rl_ID r = i)
       (Release_zero\<lparr>rl_DeletedAt := Some now, rl_Status := ''deleted''\<rparr>))"

subsection \<open>configns.go and templatens.go\<close>

definition FindOrCreateConfigNamespace ::
  "'d gorm \<Rightarrow> string \<Rightarrow> string \<Rightarrow> string \<Rightarrow> conn \<Rightarrow> ('d, ConfigNamespace) proc" where
  "FindOrCreateConfigNamespace G ns siteID user tx =
     t_first_or_create (t_cns G) tx
       (\<lambda>r. (ns \<noteq> [] \<longrightarrow> cn_Name r = ns) \<and> (siteID \<noteq> [] \<longrightarrow> cn_SiteID r = siteID))
       (ConfigNamespace_zero\<lparr>cn_Name := ns, cn_SiteID := siteID, cn_CreatedBy := user, cn_Status := ''created''\<rparr>)"

definition FindOrCreateTemplateNamespace ::
  "'d gorm \<Rightarrow> string \<Rightarrow> string \<Rightarrow> conn \<Rightarrow> ('d, TemplateNamespace) proc" where
  "FindOrCreateTemplateNamespace G ns user tx =
     t_first_or_create (t_tns G) tx (\<lambda>r. ns \<noteq> [] \<longrightarrow> tn_Name r = ns)
       (TemplateNamespace_zero\<lparr>tn_Name := ns, tn_CreatedBy := user, tn_Status := ''created''\<rparr>)"

subsection \<open>configinstance.go\<close>

definition CreateConfigInstance :: "'d gorm \<Rightarrow> ConfigInstance \<Rightarrow> conn \<Rightarrow> ('d, ConfigInstance) proc" where
  "CreateConfigInstance G configInstance tx =
     andthen (t_create (t_instance G) tx configInstance) (\<lambda>i. ret (configInstance\<lparr>in_ID := i\<rparr>))"

definition GetConfigInstanceByID :: "'d gorm \<Rightarrow> u64 \<Rightarrow> ('d, ConfigInstance) proc" where
  "GetConfigInstanceByID G i = t_first (t_instance G) DB (\<lambda>r. in_ID r = i)"

definition GetConfigInstanceByConfigID ::
  "'d gorm \<Rightarrow> u64 \<Rightarrow> string \<Rightarrow> ('d, ConfigInstance list) proc" where
  "GetConfigInstanceByConfigID G i connKey =
     t_find (t_instance G) DB (\<lambda>r. in_ConfigInfoID r = i \<and> in_ConnKey r = connKey)"

definition GetConfigInstanceByNameHostnameSiteIDConnAndConfig ::
  "'d gorm \<Rightarrow> string \<Rightarrow> string \<Rightarrow> string \<Rightarrow> string \<Rightarrow> u64 \<Rightarrow> ('d, ConfigInstance) proc" where
  "GetConfigInstanceByNameHostnameSiteIDConnAndConfig G name hostname siteID connKey configID =
     t_first (t_instance G) DB (\<lambda>r. in_Name r = name \<and> in_Hostname r = hostname \<and> in_SiteID r = siteID
       \<and> in_ConnKey r = connKey \<and> in_ConfigInfoID r = configID)"

definition UpdateConfigInstance :: "'d gorm \<Rightarrow> ConfigInstance \<Rightarrow> conn \<Rightarrow> ('d, unit) proc" where
  "UpdateConfigInstance G configInstance tx =
     updates_by_id (t_instance G) in_ID tx (in_ID configInstance) configInstance"

definition SaveConfigInstance :: "'d gorm \<Rightarrow> ConfigInstance \<Rightarrow> conn \<Rightarrow> ('d, unit) proc" where
  "SaveConfigInstance G configInstance tx =
     attempt (GetConfigInstanceByNameHostnameSiteIDConnAndConfig G (in_Name configInstance)
         (in_Hostname configInstance) (in_SiteID configInstance) (in_ConnKey configInstance)
         (in_ConfigInfoID configInstance))
       (\<lambda>err. if err = ErrRecordNotFound
              then andthen (t_create (t_instance G) tx configInstance) (\<lambda>_. ret ())
              else fail err) (\<lambda>cur.
     let cur' = cur\<lparr>in_IP := in_IP configInstance, in_Digest := in_Digest configInstance\<rparr>
     in updates_by_id (t_instance G) in_ID tx (in_ID cur') cur')"

definition DeleteConfigInstance ::
  "'d gorm \<Rightarrow> string \<Rightarrow> string \<Rightarrow> string \<Rightarrow> string \<Rightarrow> conn \<Rightarrow> ('d, unit) proc" where
  "DeleteConfigInstance G name hostname siteID connKey tx =
     attempt (t_delete (t_instance G) tx (\<lambda>r. in_Name r = name \<and> in_Hostname r = hostname
         \<and> in_SiteID r = siteID \<and> in_ConnKey r = connKey))
       (\<lambda>err. if err = ErrRecordNotFound then ret () else fail err) ret"

definition DeleteConfigInstanceByConnKey :: "'d gorm \<Rightarrow> string \<Rightarrow> ('d, unit) proc" where
  "DeleteConfigInstanceByConnKey G connKey =
     attempt (t_delete (t_instance G) DB (\<lambda>r. in_ConnKey r = connKey))
       (\<lambda>err. if err = ErrRecordNotFound then ret () else fail err) ret"

subsection \<open>template.go and templateversion.go\<close>

definition CreateTemplate :: "'d gorm \<Rightarrow> Template \<Rightarrow> conn \<Rightarrow> ('d, Template) proc" where
  "CreateTemplate G template tx =
     andthen (t_create (t_template G) tx template) (\<lambda>i. ret (template\<lparr>tp_ID := i\<rparr>))"

definition ListAllTemplate :: "'d gorm \<Rightarrow> ('d, Template list) proc" where
  "ListAllTemplate G = t_find (t_template G) DB (\<lambda>r. not_deleted (tp_Status r))"

definition GetTemplateByID :: "'d gorm \<Rightarrow> u64 \<Rightarrow> ('d, Template) proc" where
  "GetTemplateByID G i = t_first (t_template G) DB (\<lambda>r. tp_ID r = i \<and> not_deleted (tp_Status r))"

definition GetTemplateByNameNamespace :: "'d gorm \<Rightarrow> string \<Rightarrow> string \<Rightarrow> ('d, Template) proc" where
  "GetTemplateByNameNamespace G name ns =
     t_first (t_template G) DB (\<lambda>r. tp_Name r = name \<and> tp_Namespace r = ns \<and> not_deleted (tp_Status r))"

definition UpdateTemplateRow :: "'d gorm \<Rightarrow> Template \<Rightarrow> conn \<Rightarrow> ('d, unit) proc" where
  "UpdateTemplateRow G template tx = updates_by_id (t_template G) tp_ID tx (tp_ID template) template"

definition DeleteTemplateRow :: "'d gorm \<Rightarrow> nat \<Rightarrow> string \<Rightarrow> u64 \<Rightarrow> ('d, unit) proc" where
  "DeleteTemplateRow G now uuid i =
     attempt (t_first (t_template G) DB (\<lambda>r. tp_ID r = i))
       (\<lambda>err. if err = ErrRecordNotFound then ret () else fail err) (\<lambda>template.
     t_updates (t_template G) DB (\<lambda>r. tp_ID r = i)
       (Template_zero\<lparr>tp_DeletedAt := Some now, tp_Status := ''deleted'',
          tp_Name := tp_Name template @ ''-'' @ uuid\<rparr>))"

definition CreateTemplateVersion :: "'d gorm \<Rightarrow> TemplateVersion \<Rightarrow> conn \<Rightarrow> ('d, TemplateVersion) proc" where
  "CreateTemplateVersion G templateVersion tx =
     andthen (t_create (t_tversion G) tx templateVersion) (\<lambda>i. ret (templateVersion\<lparr>tv_ID := i\<rparr>))"

definition GetTemplateVersionByID :: "'d gorm \<Rightarrow> u64 \<Rightarrow> ('d, TemplateVersion) proc" where
  "GetTemplateVersionByID G i = t_first (t_tversion G) DB (\<lambda>r. tv_ID r = i \<and> not_deleted (tv_Status r))"

definition GetTemplateVersionByTemplateIDAndVersion ::
  "'d gorm \<Rightarrow> u64 \<Rightarrow> u64 \<Rightarrow> ('d, TemplateVersion) proc" where
  "GetTemplateVersionByTemplateIDAndVersion G i version =
     t_first (t_tversion G) DB (\<lambda>r. tv_TemplateID r = i \<and> tv_Version r = version)"

definition UpdateTemplateVersion :: "'d gorm \<Rightarrow> TemplateVersion \<Rightarrow> conn \<Rightarrow> ('d, unit) proc" where
  "UpdateTemplateVersion G templateVersion tx =
     updates_by_id (t_tversion G) tv_ID tx (tv_ID templateVersion) templateVersion"

definition DeleteTemplateVersion :: "'d gorm \<Rightarrow> nat \<Rightarrow> string \<Rightarrow> u64 \<Rightarrow> ('d, unit) proc" where
  "DeleteTemplateVersion G now uuid i =
     attempt (t_first (t_tversion G) DB (\<lambda>r. tv_ID r = i))
       (\<lambda>err. if err = ErrRecordNotFound then ret () else fail err) (\<lambda>templateVersion.
     t_updates (t_tversion G) DB (\<lambda>r. tv_ID r = i)
       (TemplateVersion_zero\<lparr>tv_DeletedAt := Some now, tv_Status := ''deleted'',
          tv_Name := tv_Name templateVersion @ ''-'' @ uuid\<rparr>))"

subsection \<open>cluster.go\<close>

definition CreateCluster :: "'d gorm \<Rightarrow> Cluster \<Rightarrow> ('d, Cluster) proc" where
  "CreateCluster G cluster = andthen (t_create (t_cluster G) DB cluster) (\<lambda>i. ret (cluster\<lparr>cl_ID := i\<rparr>))"

definition GetClusterBySiteID :: "'d gorm \<Rightarrow> string \<Rightarrow> ('d, Cluster) proc" where
  "GetClusterBySiteID G siteID =
     t_first (t_cluster G) DB (\<lambda>r. cl_SiteID r = siteID \<and> not_deleted (cl_Status r))"

text \<open>
  \<open>Find\<close> into one struct: the last of the found rows stays in it (at most one, the site
  being unique), and none leaves it zero.
\<close>

definition GetClusterEnvBySiteID :: "'d gorm \<Rightarrow> string \<Rightarrow> ('d, string) proc" where
  "GetClusterEnvBySiteID G siteID =
     andthen (t_find (t_cluster G) DB (\<lambda>r. cl_SiteID r = siteID)) (\<lambda>rs.
     ret (if rs = [] then [] else cl_Env (last rs)))"

definition DeleteCluster :: "'d gorm \<Rightarrow> u64 \<Rightarrow> ('d, unit) proc" where
  "DeleteCluster G i =
     andthen (t_first (t_cluster G) DB (\<lambda>r. cl_ID r = i)) (\<lambda>_.
     t_delete (t_cluster G) DB (\<lambda>r. cl_ID r = i))"

text \<open>The separator of a connection key, and \<open>strings.Split\<close> at it.\<close>

definition ConnectionSplit :: string where "ConnectionSplit = ''@@''"

fun split_at2 :: "string \<Rightarrow> string list" where
  "split_at2 (a # b # s) =
     (if a = CHR ''@'' \<and> b = CHR ''@'' then [] # split_at2 s
      else (case split_at2 (b # s) of [] \<Rightarrow> [[a]] | p # ps \<Rightarrow> (a # p) # ps))"
| "split_at2 s = [s]"

text \<open>\<open>strings.Compare(a, b) > -1\<close>: byte-wise lexicographic order.\<close>

fun str_geq :: "string \<Rightarrow> string \<Rightarrow> bool" where
  "str_geq a [] = True"
| "str_geq [] (y # b) = False"
| "str_geq (x # a) (y # b) =
     (if x = y then str_geq a b else (of_char y :: nat) < of_char x)"

text \<open>\<open>Transaction(fn)\<close>: committed when \<open>fn\<close> returns without error, else rolled back.\<close>

definition Transaction :: "'d gorm \<Rightarrow> (conn \<Rightarrow> ('d, unit) proc) \<Rightarrow> ('d, unit) proc" where
  "Transaction G fn =
     andthen (begin_tx (g_tx G)) (\<lambda>tx.
     attempt (fn tx)
       (\<lambda>err. attempt (rollback_tx (g_tx G) tx) (\<lambda>_. fail err) (\<lambda>_. fail err))
       (\<lambda>_. commit_tx (g_tx G) tx))"

definition UpdateClusterStatus :: "'d gorm \<Rightarrow> string \<Rightarrow> string \<Rightarrow> ('d, unit) proc" where
  "UpdateClusterStatus G connKey status = Transaction G (\<lambda>tx.
     case split_at2 connKey of
       [siteID, timeStamp] \<Rightarrow>
         andthen (t_first (t_cluster G) tx (\<lambda>r. cl_SiteID r = siteID \<and> not_deleted (cl_Status r))) (\<lambda>cluster.
         let update = t_updates (t_cluster G) tx (\<lambda>r. cl_SiteID r = siteID)
               (Cluster_zero\<lparr>cl_ConnKey := connKey, cl_Status := status\<rparr>)
         in if cl_ConnKey cluster = [] then update
            else case split_at2 (cl_ConnKey cluster) of
                [_, oldStamp] \<Rightarrow> if str_geq timeStamp oldStamp then update else ret ()
              | _ \<Rightarrow> fail (Errorf ''invalid old conn key''))
     | _ \<Rightarrow> fail (Errorf ''invalid conn key''))"

subsection \<open>pkg/manager/cluster: the connection callbacks\<close>

definition cluster_onReady :: "'d gorm \<Rightarrow> string \<Rightarrow> ('d, unit) proc" where
  "cluster_onReady G connKey =
     attempt (UpdateClusterStatus G connKey ClusterStatusReady) (\<lambda>_. ret ()) ret"

definition cluster_onNotReady :: "'d gorm \<Rightarrow> string \<Rightarrow> ('d, unit) proc" where
  "cluster_onNotReady G connKey =
     andthen (attempt (UpdateClusterStatus G connKey ClusterStatusNotReady) (\<lambda>_. ret ()) ret) (\<lambda>_.
     attempt (DeleteConfigInstanceByConnKey G connKey) (\<lambda>_. ret ()) ret)"

end
