(* ===== verification/Os_Files.thy ===== *)
theory Os_Files
  imports Go_Prelude
begin

section \<open>Paths and files: packages path, path/filepath, os and ioutil\<close>

text \<open>
  The standard library the stores use. A path string is cleaned as \<open>path.Clean\<close> does;
  the file system is a map from the cleaned component list to a file or a directory,
  and the calls \<open>MkdirAll\<close>, \<open>Create\<close>, \<open>WriteFile\<close>, \<open>ReadFile\<close>, \<open>Stat\<close>,
  \<open>Rename\<close> and \<open>Remove\<close> fail where the system's do: a missing parent, a file where
  a directory is needed, a missing file. Permissions, links and full disks are not
  modelled. The lemmas compute the key of a joined path, show that paths of distinct
  plain names are distinct, and give the frame of each call.
\<close>

subsection \<open>path.Clean and path.Join\<close>

fun clean_comps :: "bool \<Rightarrow> string list \<Rightarrow> string list \<Rightarrow> string list" where
  "clean_comps rooted out [] = rev out"
| "clean_comps rooted out (c # cs) =
     (if c = [] \<or> c = ''.'' then clean_comps rooted out cs
      else if c = ''..'' then
        (case out of
           [] \<Rightarrow> if rooted then clean_comps rooted [] cs else clean_comps rooted [''..''] cs
         | p # ps \<Rightarrow> if p = ''..'' then clean_comps rooted (''..'' # out) cs
                    else clean_comps rooted ps cs)
      else clean_comps rooted (c # out) cs)"

definition rooted :: "string \<Rightarrow> bool" where
  "rooted s \<longleftrightarrow> s \<noteq> [] \<and> hd s = CHR ''/''"

text \<open>The components of a cleaned path: the key of the file in the file system.\<close>

definition file_key :: "string \<Rightarrow> string list" where
  "file_key s = clean_comps (rooted s) [] (split_on CHR ''/'' s)"

definition path_clean :: "string \<Rightarrow> string" where
  "path_clean s =
     (let cs = file_key s
      in if cs = [] then (if rooted s then ''/'' else ''.'')
         else (if rooted s then ''/'' else []) @ join_with ''/'' cs)"

definition path_join :: "string list \<Rightarrow> string" where
  "path_join elems =
     (case dropWhile (\<lambda>e. e = []) elems of
        [] \<Rightarrow> []
      | es \<Rightarrow> path_clean (join_with ''/'' es))"

text \<open>A plain name is one component; a plain relative path is plain names with slashes.\<close>

definition plain :: "string \<Rightarrow> bool" where
  "plain c \<longleftrightarrow> c \<noteq> [] \<and> c \<noteq> ''.'' \<and> c \<noteq> ''..'' \<and> CHR ''/'' \<notin> set c"

definition plain_rel :: "string \<Rightarrow> bool" where
  "plain_rel s \<longleftrightarrow> list_all plain (split_on CHR ''/'' s)"

definition parts :: "string \<Rightarrow> string list" where
  "parts s = split_on CHR ''/'' s"

lemma plain_parts: "plain c \<Longrightarrow> parts c = [c]"
  by (simp add: plain_def parts_def split_on_absent)

lemma plain_imp_rel: "plain c \<Longrightarrow> plain_rel c"
  by (simp add: plain_rel_def plain_def split_on_absent)

lemma plain_nat_str [simp]: "plain (nat_str n)"
proof -
  have "CHR ''/'' \<notin> set (nat_str n)" "CHR ''.'' \<notin> set (nat_str n)"
    by (simp_all add: nat_str_no_char is_digit_def)
  then show ?thesis by (auto simp: plain_def)
qed

lemma plain_u64_str [simp]: "plain (u64_str w)"
  by (simp add: u64_str_def)

lemma plain_rel_nonempty: "plain_rel s \<Longrightarrow> s \<noteq> []"
  by (auto simp: plain_rel_def plain_def)

lemma parts_inject: "parts s = parts t \<Longrightarrow> s = t"
  by (metis join_split parts_def)

lemma clean_comps_append:
  "clean_comps r out (a @ b) = clean_comps r (rev (clean_comps r out a)) b"
  by (induction r out a rule: clean_comps.induct) (auto split: list.splits)

lemma clean_comps_plain:
  "list_all plain cs \<Longrightarrow> clean_comps r out cs = rev out @ cs"
  by (induction cs arbitrary: out) (auto simp: plain_def)

lemma clean_comps_drop_empty: "clean_comps r out ([] # cs) = clean_comps r out cs"
  by simp

text \<open>Cleaned components: some \<open>..\<close> in front (none in a rooted path), then plain names.\<close>

definition normal :: "bool \<Rightarrow> string list \<Rightarrow> bool" where
  "normal r cs \<longleftrightarrow> (\<exists>k ps. cs = replicate k ''..'' @ ps \<and> list_all plain ps \<and> (r \<longrightarrow> k = 0))"

lemma normal_Nil [simp]: "normal r []"
  by (simp add: normal_def)

lemma normal_snoc: "normal r cs \<Longrightarrow> plain c \<Longrightarrow> normal r (cs @ [c])"
proof -
  assume "normal r cs" "plain c"
  then obtain k ps where "cs = replicate k ''..'' @ ps" "list_all plain (ps @ [c])" "r \<longrightarrow> k = 0"
    by (auto simp: normal_def)
  then show ?thesis
    unfolding normal_def by (intro exI [of _ k] exI [of _ "ps @ [c]"]) simp
qed

lemma normal_butlast:
  assumes "normal r (cs @ [c])" "c \<noteq> ''..''"
  shows "normal r cs"
proof -
  from assms(1) obtain k ps where
    ps: "cs @ [c] = replicate k ''..'' @ ps" "list_all plain ps" "r \<longrightarrow> k = 0"
    by (auto simp: normal_def)
  show ?thesis
  proof (cases ps rule: rev_cases)
    case Nil
    with ps(1) have "c \<in> set (replicate k ''..'')"
      by (metis append_Nil2 in_set_conv_decomp)
    with assms(2) show ?thesis by simp
  next
    case (snoc qs d)
    with ps show ?thesis by (auto simp: normal_def)
  qed
qed

lemma normal_dots:
  assumes "normal False (cs @ [''..''])"
  shows "normal False (cs @ [''..'', ''..''])"
proof -
  from assms obtain k ps where ps: "cs @ [''..''] = replicate k ''..'' @ ps" "list_all plain ps"
    by (auto simp: normal_def)
  then have "ps = []"
    by (cases ps rule: rev_cases) (auto simp: plain_def)
  with ps have "cs @ [''..'', ''..''] = replicate (Suc k) ''..''"
    by (metis append.assoc append_Cons append_Nil append_Nil2 replicate_append_same replicate_Suc)
  then show ?thesis
    unfolding normal_def by (intro exI [of _ "Suc k"] exI [of _ "[]"]) simp
qed

lemma normal_not_rooted_dots: "normal True (cs @ [''..'']) \<Longrightarrow> False"
  by (auto simp: normal_def plain_def)

lemma clean_comps_normal:
  "normal r (rev out) \<Longrightarrow> list_all (\<lambda>c. CHR ''/'' \<notin> set c) cs \<Longrightarrow> normal r (clean_comps r out cs)"
proof (induction r out cs rule: clean_comps.induct)
  case (2 r out c cs)
  have dots: "normal False [''..'']"
    unfolding normal_def by (rule exI [of _ 1]) simp
  consider "c = [] \<or> c = ''.''" | "c = ''..''" | "plain c"
    using "2.prems"(2) by (auto simp: plain_def)
  then show ?case
  proof cases
    case 2
    with "2.prems" "2.IH" dots show ?thesis
      by (cases out; cases r)
        (auto dest: normal_butlast normal_dots normal_not_rooted_dots)
  next
    case 3
    with "2.prems" "2.IH" normal_snoc [of r "rev out" c] show ?thesis
      by (auto simp: plain_def)
  qed (use "2.prems" "2.IH" in auto)
qed simp

lemma clean_comps_dots:
  "clean_comps False (replicate n ''..'') (replicate k ''..'' @ ps)
     = clean_comps False (replicate (n + k) ''..'') ps"
proof (induction k arbitrary: n)
  case (Suc k)
  have "clean_comps False (replicate n ''..'') (''..'' # replicate k ''..'' @ ps)
      = clean_comps False (replicate (Suc n) ''..'') (replicate k ''..'' @ ps)"
    by (cases n) simp_all
  with Suc [of "Suc n"] show ?case by simp
qed simp

lemma clean_comps_of_normal:
  assumes "normal r cs"
  shows "clean_comps r [] cs = cs"
proof -
  from assms obtain k ps where ps: "cs = replicate k ''..'' @ ps" "list_all plain ps" "r \<longrightarrow> k = 0"
    by (auto simp: normal_def)
  show ?thesis
  proof (cases r)
    case True
    with ps show ?thesis by (simp add: clean_comps_plain)
  next
    case False
    then show ?thesis
      using ps clean_comps_dots [of 0 k ps] by (simp add: clean_comps_plain)
  qed
qed

lemma file_key_normal: "normal (rooted s) (file_key s)"
proof -
  have "list_all (\<lambda>c. CHR ''/'' \<notin> set c) (split_on CHR ''/'' s)"
    unfolding list_all_iff using split_on_parts by blast
  then show ?thesis unfolding file_key_def by (rule clean_comps_normal [rotated]) simp
qed

lemma normal_no_slash:
  assumes "normal r cs" "c \<in> set cs"
  shows "CHR ''/'' \<notin> set c" "c \<noteq> []"
proof -
  from assms have "c = ''..'' \<or> plain c"
    unfolding normal_def list_all_iff by (metis Un_iff in_set_replicate set_append)
  then show "CHR ''/'' \<notin> set c" "c \<noteq> []" by (auto simp: plain_def)
qed

lemma file_key_clean [simp]: "file_key (path_clean s) = file_key s"
proof -
  let ?cs = "file_key s"
  have nm: "normal (rooted s) ?cs" by (rule file_key_normal)
  show ?thesis
  proof (cases "?cs = []")
    case True
    then show ?thesis
      by (cases "rooted s") (simp_all add: path_clean_def file_key_def rooted_def)
  next
    case False
    then have sp: "split_on CHR ''/'' (join_with ''/'' ?cs) = ?cs"
      using normal_no_slash [OF nm] by (intro split_join) auto
    have head: "CHR ''/'' \<notin> set (hd ?cs)" "hd ?cs \<noteq> []"
      using False normal_no_slash [OF nm] by simp_all
    then have "hd (hd ?cs) \<noteq> CHR ''/''" using hd_in_set by metis
    then have first: "\<not> rooted (join_with ''/'' ?cs)"
      using False head(2) by (cases ?cs rule: remdups_adj.cases) (simp_all add: rooted_def hd_append)
    show ?thesis
    proof (cases "rooted s")
      case True
      then have "file_key (path_clean s) = clean_comps True [] ([] # ?cs)"
        using False sp by (simp add: path_clean_def file_key_def [of "CHR ''/'' # _"] rooted_def)
      with True nm show ?thesis by (simp add: clean_comps_of_normal)
    next
      case False
      with \<open>?cs \<noteq> []\<close> sp first nm show ?thesis
        by (simp add: path_clean_def file_key_def [of "join_with _ _"] clean_comps_of_normal)
    qed
  qed
qed

lemma split_on_join_concat:
  "ps \<noteq> [] \<Longrightarrow> split_on c (join_with [c] ps) = concat (map (split_on c) ps)"
proof (induction "[c]" ps rule: join_with.induct)
  case (3 p q ps)
  have "split_on c (p @ c # t) = split_on c p @ split_on c t" for t
    by (induction p) (auto split: list.splits)
  with 3 show ?case by simp
qed auto

text \<open>The key of a joined path: the key of the first element, then the plain names.\<close>

lemma file_key_join:
  assumes "w \<noteq> []" "list_all plain_rel ps"
  shows "file_key (path_join (w # ps)) = file_key w @ concat (map parts ps)"
proof -
  have "rooted (join_with ''/'' (w # ps)) = rooted w"
    using assms(1) by (cases ps) (auto simp: rooted_def)
  moreover have "list_all plain (concat (map (split_on CHR ''/'') ps))"
    using assms(2) by (induction ps) (auto simp: plain_rel_def)
  ultimately show ?thesis
    using assms(1)
    by (simp add: path_join_def file_key_def [of "join_with _ _"] split_on_join_concat
        clean_comps_append clean_comps_plain file_key_def [of w] parts_def [abs_def])
qed

subsection \<open>The file system and its calls\<close>

type_synonym fkey = "string list"

datatype node = Dir | File bytes

type_synonym fsys = "fkey \<Rightarrow> node option"

definition is_dir :: "fsys \<Rightarrow> fkey \<Rightarrow> bool" where
  "is_dir fs k \<longleftrightarrow> k = [] \<or> fs k = Some Dir"

definition is_file :: "fsys \<Rightarrow> fkey \<Rightarrow> bool" where
  "is_file fs k \<longleftrightarrow> k \<noteq> [] \<and> (case fs k of Some (File d) \<Rightarrow> True | _ \<Rightarrow> False)"

text \<open>The non-empty prefixes of a key, itself included.\<close>

definition ancestors :: "fkey \<Rightarrow> fkey list" where
  "ancestors k = map (\<lambda>n. take n k) [1..<Suc (length k)]"

text \<open>\<open>os.MkdirAll\<close>: creates the missing directories, fails if one of them is a file.\<close>

definition os_mkdir_all :: "fkey \<Rightarrow> (fsys, unit) proc" where
  "os_mkdir_all k = (\<lambda>fs.
     if list_ex (is_file fs) (ancestors k) then (Err (PathError ''mkdir''), fs)
     else (Ok (), \<lambda>q. if q \<in> set (ancestors k) then Some Dir else fs q))"

text \<open>\<open>ioutil.WriteFile\<close> and \<open>os.Create\<close>: the parent must be a directory.\<close>

definition os_write_file :: "fkey \<Rightarrow> bytes \<Rightarrow> (fsys, unit) proc" where
  "os_write_file k data = (\<lambda>fs.
     if is_dir fs k \<or> \<not> is_dir fs (butlast k) then (Err (PathError ''open''), fs)
     else (Ok (), fs(k \<mapsto> File data)))"

definition os_create :: "fkey \<Rightarrow> (fsys, unit) proc" where
  "os_create k = os_write_file k []"

text \<open>A write through an open file descriptor appends to what was written so far.\<close>

definition file_append :: "fkey \<Rightarrow> bytes \<Rightarrow> (fsys, unit) proc" where
  "file_append k p = (\<lambda>fs. case fs k of
       Some (File d) \<Rightarrow> (Ok (), fs(k \<mapsto> File (d @ p)))
     | _ \<Rightarrow> (Err (PathError ''write''), fs))"

definition os_read_file :: "fkey \<Rightarrow> (fsys, bytes) proc" where
  "os_read_file k = (\<lambda>fs. case fs k of
       Some (File d) \<Rightarrow> (Ok d, fs)
     | _ \<Rightarrow> (Err (PathError ''open''), fs))"

text \<open>
  \<open>os.Stat\<close>: the error is \<open>not exist\<close> (\<open>os.IsNotExist\<close> accepts it) unless a file
  stands where a directory of the path should be.
\<close>

definition os_stat :: "fkey \<Rightarrow> (fsys, node) proc" where
  "os_stat k = (\<lambda>fs.
     if k = [] then (Ok Dir, fs)
     else case fs k of
         Some n \<Rightarrow> (Ok n, fs)
       | None \<Rightarrow> (Err (PathError (if list_ex (is_file fs) (ancestors (butlast k))
                                 then ''not a directory'' else ''not exist'')), fs))"

definition is_not_exist :: "goerr \<Rightarrow> bool" where
  "is_not_exist e \<longleftrightarrow> e = PathError ''not exist''"

definition os_rename :: "fkey \<Rightarrow> fkey \<Rightarrow> (fsys, unit) proc" where
  "os_rename src dst = (\<lambda>fs. case fs src of
       Some (File d) \<Rightarrow>
         if is_dir fs dst \<or> \<not> is_dir fs (butlast dst) then (Err (PathError ''rename''), fs)
         else (Ok (), (fs(src := None))(dst \<mapsto> File d))
     | _ \<Rightarrow> (Err (PathError ''rename''), fs))"

text \<open>\<open>os.Remove\<close> removes a file or an empty directory.\<close>

definition os_remove :: "fkey \<Rightarrow> (fsys, unit) proc" where
  "os_remove k = (\<lambda>fs. case fs k of
       None \<Rightarrow> (Err (PathError ''remove''), fs)
     | Some (File d) \<Rightarrow> (Ok (), fs(k := None))
     | Some Dir \<Rightarrow> if \<exists>c. fs (k @ [c]) \<noteq> None then (Err (PathError ''remove''), fs)
                  else (Ok (), fs(k := None)))"

lemma ancestors_mem: "q \<in> set (ancestors k) \<longleftrightarrow> q \<noteq> [] \<and> (\<exists>t. k = q @ t)"
proof
  assume "q \<in> set (ancestors k)"
  then obtain n where "1 \<le> n" "n \<le> length k" "q = take n k"
    by (auto simp: ancestors_def)
  then show "q \<noteq> [] \<and> (\<exists>t. k = q @ t)"
    by (auto intro: exI [of _ "drop n k"])
next
  assume "q \<noteq> [] \<and> (\<exists>t. k = q @ t)"
  then obtain t where t: "k = q @ t" and "q \<noteq> []" by blast
  then have "Suc 0 \<le> length q" "length q \<le> length k" "q = take (length q) k"
    by (auto simp: Suc_le_eq)
  then show "q \<in> set (ancestors k)"
    unfolding ancestors_def by (auto intro!: image_eqI [of _ _ "length q"] simp: t)
qed

text \<open>A file system is well formed if what lies above an entry is a directory.\<close>

definition fs_ok :: "fsys \<Rightarrow> bool" where
  "fs_ok fs \<longleftrightarrow> (\<forall>k c. fs (k @ [c]) \<noteq> None \<longrightarrow> is_dir fs k)"

text \<open>
  What a call changes: \<open>fs'\<close> has the entries of \<open>fs\<close> but at the keys in \<open>K\<close>, and
  new directories above them.
\<close>

definition grows :: "fsys \<Rightarrow> fsys \<Rightarrow> fkey set \<Rightarrow> bool" where
  "grows fs fs' K \<longleftrightarrow>
     (\<forall>q. q \<notin> K \<longrightarrow> fs' q = fs q
        \<or> fs q = None \<and> fs' q = Some Dir \<and> (\<exists>k\<in>K. q \<in> set (ancestors (butlast k))))"

lemma growsD:
  "grows fs fs' K \<Longrightarrow> q \<notin> K \<Longrightarrow>
     fs' q = fs q \<or> fs q = None \<and> fs' q = Some Dir \<and> (\<exists>k\<in>K. q \<in> set (ancestors (butlast k)))"
  unfolding grows_def by blast

lemma grows_refl [simp]: "grows fs fs K"
  by (simp add: grows_def)

lemma grows_trans: "grows fs fs' K \<Longrightarrow> grows fs' fs'' K \<Longrightarrow> grows fs fs'' K"
  unfolding grows_def by (metis option.distinct(1))

lemma grows_mono: "grows fs fs' K \<Longrightarrow> K \<subseteq> L \<Longrightarrow> grows fs fs' L"
  unfolding grows_def by blast

lemma grows_upd: "k \<in> K \<Longrightarrow> grows fs (fs(k := v)) K"
  by (auto simp: grows_def)

lemma grows_file: "grows fs fs' K \<Longrightarrow> q \<notin> K \<Longrightarrow> fs q = Some (File d) \<Longrightarrow> fs' q = Some (File d)"
  by (auto dest: growsD)

lemma grows_file_back: "grows fs fs' K \<Longrightarrow> q \<notin> K \<Longrightarrow> fs' q = Some (File d) \<Longrightarrow> fs q = Some (File d)"
  by (auto dest: growsD)

lemma os_mkdir_all_grows:
  assumes "os_mkdir_all (butlast k) fs = (r, fs')" "k \<in> K"
  shows "grows fs fs' K"
proof (cases "list_ex (is_file fs) (ancestors (butlast k))")
  case False
  have "fs q = None \<or> fs q = Some Dir" if "q \<in> set (ancestors (butlast k))" for q
  proof -
    from False that have "\<not> is_file fs q" "q \<noteq> []"
      by (auto simp: list_ex_iff ancestors_mem)
    then show ?thesis by (auto simp: is_file_def split: option.splits node.splits)
  qed
  with assms False show ?thesis
    by (fastforce simp: os_mkdir_all_def grows_def split: if_splits)
qed (use assms in \<open>simp add: os_mkdir_all_def\<close>)

lemma os_mkdir_all_Ok: "os_mkdir_all k fs = (Ok u, fs') \<Longrightarrow> is_dir fs' k"
  by (auto simp: os_mkdir_all_def is_dir_def ancestors_mem split: if_splits)

lemma os_write_file_cases:
  assumes "os_write_file k d fs = (r, fs')"
  shows "r = Ok () \<and> fs' = fs(k \<mapsto> File d) \<or> r = Err (PathError ''open'') \<and> fs' = fs"
  using assms by (auto simp: os_write_file_def split: if_splits)

lemma os_read_file_cases:
  assumes "os_read_file k fs = (r, fs')"
  shows "fs' = fs \<and> (case fs k of Some (File d) \<Rightarrow> r = Ok d | _ \<Rightarrow> r = Err (PathError ''open''))"
  using assms by (auto simp: os_read_file_def split: option.splits node.splits)

lemma os_stat_fs [simp]: "snd (os_stat k fs) = fs"
  by (auto simp: os_stat_def split: option.splits)

lemma os_stat_Ok: "os_stat k fs = (Ok n, fs') \<Longrightarrow> k \<noteq> [] \<Longrightarrow> fs k = Some n"
  by (auto simp: os_stat_def split: option.splits)

lemma os_rename_cases:
  assumes "os_rename src dst fs = (r, fs')"
  shows "(\<exists>d. fs src = Some (File d) \<and> r = Ok () \<and> fs' = (fs(src := None))(dst \<mapsto> File d))
    \<or> r = Err (PathError ''rename'') \<and> fs' = fs"
  using assms by (auto simp: os_rename_def split: option.splits node.splits if_splits)

lemma os_remove_cases:
  assumes "os_remove k fs = (r, fs')"
  shows "r = Ok () \<and> fs' = fs(k := None) \<or> r = Err (PathError ''remove'') \<and> fs' = fs"
  using assms by (auto simp: os_remove_def split: option.splits node.splits if_splits)

end
