(* ===== verification/Cas_Storage.thy ===== *)
theory Cas_Storage
  imports Os_Files
begin

section \<open>The content-addressed store (pkg/component/storage/cas)\<close>

text \<open>
  \<open>crypt.go\<close> and \<open>digest.go\<close>: the encrypting and hashing writers and the decrypting
  reader; \<open>cas.go\<close>: \<open>NewStorage\<close>, \<open>Put\<close>, \<open>Get\<close>, \<open>Exist\<close>, \<open>ExistPath\<close>,
  \<open>GetByDigest\<close> and the deletions, over the file system of \<open>Os_Files\<close>. SHA-256, the
  AES-CTR key stream and \<open>encoding/json\<close> are parameters (the record \<open>cas_env\<close>); what
  the store relies on is the locale \<open>cas_laws\<close> of \<open>Cas_Correct\<close>. Compression is not modelled:
  \<open>NewFileDB\<close>, the only caller of \<open>NewStorage\<close>, switches it off.
\<close>

subsection \<open>Parameters and configuration\<close>

record FileMetaInfo =
  Digest :: string
  Name :: string
  Extend :: "string gomap option"

text \<open>
  \<open>aes_stream secret iv i\<close> is byte \<open>i\<close> of the key stream of AES in counter mode;
  \<open>sha256_hex\<close> is \<open>digest.Canonical\<close>'s hash in hexadecimal.
\<close>

record cas_env =
  sha256_hex :: "bytes \<Rightarrow> string"
  aes_stream :: "string \<Rightarrow> bytes \<Rightarrow> nat \<Rightarrow> char"
  json_meta :: "FileMetaInfo \<Rightarrow> bytes"
  unjson_meta :: "bytes \<Rightarrow> goerr + FileMetaInfo"

record StorageConfig =
  Workdir :: string
  PrefixLength :: nat
  Secret :: string
  Encrypt :: bool

definition DirBlobs :: string where "DirBlobs = ''blobs''"
definition DirStoreTmp :: string where "DirStoreTmp = ''plate''"
definition DirMetaInfo :: string where "DirMetaInfo = ''metadata''"

subsection \<open>crypt.go: AES in counter mode\<close>

fun xor_char :: "char \<Rightarrow> char \<Rightarrow> char" where
  "xor_char (Char a0 a1 a2 a3 a4 a5 a6 a7) (Char b0 b1 b2 b3 b4 b5 b6 b7) =
     Char (a0 \<noteq> b0) (a1 \<noteq> b1) (a2 \<noteq> b2) (a3 \<noteq> b3) (a4 \<noteq> b4) (a5 \<noteq> b5) (a6 \<noteq> b6) (a7 \<noteq> b7)"

text \<open>\<open>XORKeyStream\<close> on a buffer, the stream being at position \<open>pos\<close>.\<close>

fun xor_stream :: "(nat \<Rightarrow> char) \<Rightarrow> nat \<Rightarrow> bytes \<Rightarrow> bytes" where
  "xor_stream ks pos [] = []"
| "xor_stream ks pos (b # bs) = xor_char b (ks pos) # xor_stream ks (Suc pos) bs"

text \<open>
  \<open>make([]byte, c.BlockSize(), '4')\<close> is a slice of 16 zero bytes with capacity 52: the
  third argument of \<open>make\<close> is the capacity.
\<close>

definition aes_iv :: bytes where
  "aes_iv = replicate 16 (char_of (0 :: nat))"

definition ctr :: "cas_env \<Rightarrow> string \<Rightarrow> nat \<Rightarrow> char" where
  "ctr env secret = aes_stream env secret aes_iv"

text \<open>\<open>aes.NewCipher\<close> accepts keys of 16, 24 and 32 bytes.\<close>

definition aes_key_ok :: "string \<Rightarrow> bool" where
  "aes_key_ok secret \<longleftrightarrow> length secret \<in> {16, 24, 32}"

definition key_size_error :: goerr where
  "key_size_error = Errorf ''crypto/aes: invalid key size''"

lemma xor_char_involutive [simp]: "xor_char (xor_char a b) b = a"
  by (cases a; cases b) auto

lemma xor_stream_involutive [simp]: "xor_stream ks pos (xor_stream ks pos bs) = bs"
  by (induction bs arbitrary: pos) auto

lemma length_xor_stream [simp]: "length (xor_stream ks pos bs) = length bs"
  by (induction bs arbitrary: pos) auto

lemma xor_stream_append:
  "xor_stream ks pos (a @ b) = xor_stream ks pos a @ xor_stream ks (pos + length a) b"
  by (induction a arbitrary: pos) auto

lemma xor_stream_inject [simp]: "xor_stream ks pos a = xor_stream ks pos b \<longleftrightarrow> a = b"
  by (metis xor_stream_involutive)

subsection \<open>digest.go and the writers\<close>

text \<open>
  A writer under way: the position of the key stream and the bytes the digester has
  seen. \<open>DigestWriter.Write\<close> writes to the file and hashes what it wrote;
  \<open>EncryptWriter.Write\<close> encrypts and passes on.
\<close>

record writer =
  w_pos :: nat
  w_hashed :: bytes

definition new_writer :: writer where
  "new_writer = \<lparr>w_pos = 0, w_hashed = []\<rparr>"

definition DigestWriter_Write :: "fkey \<Rightarrow> writer \<Rightarrow> bytes \<Rightarrow> (fsys, writer) proc" where
  "DigestWriter_Write k w p =
     andthen (file_append k p) (\<lambda>_. ret (w\<lparr>w_hashed := w_hashed w @ p\<rparr>))"

definition EncryptWriter_Write ::
  "(nat \<Rightarrow> char) \<Rightarrow> fkey \<Rightarrow> writer \<Rightarrow> bytes \<Rightarrow> (fsys, writer) proc" where
  "EncryptWriter_Write ks k w p =
     DigestWriter_Write k (w\<lparr>w_pos := w_pos w + length p\<rparr>) (xor_stream ks (w_pos w) p)"

text \<open>
  An \<open>io.Reader\<close>: the chunks its reads return, and the error that ends them (\<open>None\<close>
  for \<open>io.EOF\<close>). \<open>io.Copy\<close> writes each chunk.
\<close>

type_synonym reader = "bytes list \<times> goerr option"

definition string_reader :: "string \<Rightarrow> reader" where
  "string_reader s = ([s], None)"

fun io_copy :: "(writer \<Rightarrow> bytes \<Rightarrow> (fsys, writer) proc) \<Rightarrow> writer \<Rightarrow> reader \<Rightarrow> (fsys, writer) proc" where
  "io_copy wr w ([], None) = ret w"
| "io_copy wr w ([], Some e) = fail e"
| "io_copy wr w (c # cs, e) = andthen (wr w c) (\<lambda>w'. io_copy wr w' (cs, e))"

text \<open>\<open>DigestWriter.Digest\<close>: the hash of the bytes written so far.\<close>

definition DigestWriter_Digest :: "cas_env \<Rightarrow> writer \<Rightarrow> string" where
  "DigestWriter_Digest env w = sha256_hex env (w_hashed w)"

text \<open>What a store writes for a content: the encrypted bytes, or the bytes themselves.\<close>

definition sealed :: "cas_env \<Rightarrow> StorageConfig \<Rightarrow> bytes \<Rightarrow> bytes" where
  "sealed env c content =
     (if Encrypt c then xor_stream (ctr env (Secret c)) 0 content else content)"

definition store_writer ::
  "cas_env \<Rightarrow> StorageConfig \<Rightarrow> fkey \<Rightarrow> writer \<Rightarrow> bytes \<Rightarrow> (fsys, writer) proc" where
  "store_writer env c k =
     (if Encrypt c then EncryptWriter_Write (ctr env (Secret c)) k else DigestWriter_Write k)"

text \<open>However the reader cuts the content, the file and the digester see the sealed bytes.\<close>

lemma io_copy_plain:
  assumes "fs k = Some (File d)"
  shows "io_copy (DigestWriter_Write k) w (cs, None) fs
    = (Ok (w\<lparr>w_hashed := w_hashed w @ concat cs\<rparr>), fs(k \<mapsto> File (d @ concat cs)))"
  using assms
proof (induction cs arbitrary: w fs d)
  case Nil
  then show ?case by (auto simp: go_exec fun_upd_idem)
next
  case (Cons c cs)
  have "DigestWriter_Write k w c fs = (Ok (w\<lparr>w_hashed := w_hashed w @ c\<rparr>), fs(k \<mapsto> File (d @ c)))"
    using Cons.prems by (simp add: DigestWriter_Write_def file_append_def andthen_def attempt_def ret_def)
  moreover have "io_copy (DigestWriter_Write k) (w\<lparr>w_hashed := w_hashed w @ c\<rparr>) (cs, None)
        (fs(k \<mapsto> File (d @ c)))
      = (Ok (w\<lparr>w_hashed := w_hashed w @ c @ concat cs\<rparr>), fs(k \<mapsto> File (d @ c @ concat cs)))"
    by (subst Cons.IH [of _ "d @ c"]) simp_all
  ultimately show ?case by (simp add: andthen_Ok fun_upd_def)
qed

lemma io_copy_encrypted:
  assumes "fs k = Some (File d)"
  shows "io_copy (EncryptWriter_Write ks k) w (cs, None) fs
    = (Ok (w\<lparr>w_pos := w_pos w + length (concat cs),
             w_hashed := w_hashed w @ xor_stream ks (w_pos w) (concat cs)\<rparr>),
       fs(k \<mapsto> File (d @ xor_stream ks (w_pos w) (concat cs))))"
  using assms
proof (induction cs arbitrary: w fs d)
  case Nil
  then show ?case by (auto simp: go_exec fun_upd_idem)
next
  case (Cons c cs)
  let ?x = "xor_stream ks (w_pos w) c"
  let ?w = "w\<lparr>w_pos := w_pos w + length c, w_hashed := w_hashed w @ ?x\<rparr>"
  have "EncryptWriter_Write ks k w c fs = (Ok ?w, fs(k \<mapsto> File (d @ ?x)))"
    using Cons.prems
    by (simp add: EncryptWriter_Write_def DigestWriter_Write_def file_append_def andthen_def
        attempt_def ret_def)
  moreover have "io_copy (EncryptWriter_Write ks k) ?w (cs, None) (fs(k \<mapsto> File (d @ ?x)))
      = (Ok (w\<lparr>w_pos := w_pos w + length (concat (c # cs)),
             w_hashed := w_hashed w @ xor_stream ks (w_pos w) (concat (c # cs))\<rparr>),
         fs(k \<mapsto> File (d @ xor_stream ks (w_pos w) (concat (c # cs)))))"
    by (subst Cons.IH [of _ "d @ ?x"]) (simp_all add: xor_stream_append add.assoc)
  ultimately show ?case by (simp add: andthen_Ok fun_upd_def)
qed

lemma io_copy_sealed:
  assumes "fs k = Some (File [])"
  shows "\<exists>w. io_copy (store_writer env c k) new_writer (cs, None) fs
      = (Ok w, fs(k \<mapsto> File (sealed env c (concat cs))))
    \<and> w_hashed w = sealed env c (concat cs)"
  using assms io_copy_plain [of fs k "[]" new_writer cs]
    io_copy_encrypted [of fs k "[]" "ctr env (Secret c)" new_writer cs]
  by (auto simp: store_writer_def sealed_def new_writer_def)

subsection \<open>The decrypting reader\<close>

text \<open>
  \<open>DecryptReader.Read(p)\<close> with a buffer of \<open>len\<close> bytes, of which the underlying reader
  fills \<open>n\<close>: it runs \<open>XORKeyStream(p, p)\<close> over the whole buffer, so the key stream
  moves on by \<open>len\<close> whatever was read.
\<close>

definition DecryptReader_Read :: "(nat \<Rightarrow> char) \<Rightarrow> nat \<Rightarrow> nat \<Rightarrow> bytes \<Rightarrow> bytes \<times> nat" where
  "DecryptReader_Read ks pos len got = (xor_stream ks pos got, pos + len)"

text \<open>
  Reading to the end with buffers of the given lengths, from an underlying reader that
  fills each buffer while it has bytes (a regular file does).
\<close>

fun decrypt_all :: "(nat \<Rightarrow> char) \<Rightarrow> nat \<Rightarrow> nat list \<Rightarrow> bytes \<Rightarrow> bytes" where
  "decrypt_all ks pos [] rest = []"
| "decrypt_all ks pos (len # lens) rest =
     (let (out, pos') = DecryptReader_Read ks pos len (take len rest)
      in out @ decrypt_all ks pos' lens (drop len rest))"

lemma decrypt_all_correct:
  assumes "length rest \<le> sum_list lens"
  shows "decrypt_all ks pos lens rest = xor_stream ks pos rest"
  using assms
proof (induction lens arbitrary: pos rest)
  case (Cons len lens)
  show ?case
  proof (cases "len \<le> length rest")
    case True
    with Cons show ?thesis
      using xor_stream_append [of ks pos "take len rest" "drop len rest"]
      by (simp add: DecryptReader_Read_def)
  next
    case False
    with Cons.IH [of "[]" "pos + len"] show ?thesis by (simp add: DecryptReader_Read_def)
  qed
qed simp

text \<open>An underlying reader that fills only part of a buffer: the reads it returns.\<close>

fun decrypt_chunks :: "(nat \<Rightarrow> char) \<Rightarrow> nat \<Rightarrow> (nat \<times> bytes) list \<Rightarrow> bytes" where
  "decrypt_chunks ks pos [] = []"
| "decrypt_chunks ks pos ((len, got) # reads) =
     (let (out, pos') = DecryptReader_Read ks pos len got in out @ decrypt_chunks ks pos' reads)"

text \<open>
  The buffers of \<open>io.Copy\<close> (32 KiB each) that read a file of \<open>n\<close> bytes to the end.
\<close>

definition copy_buffers :: "nat \<Rightarrow> nat list" where
  "copy_buffers n = replicate (Suc (n div 32768)) 32768"

lemma copy_buffers_enough: "n \<le> sum_list (copy_buffers n)"
  by (simp add: copy_buffers_def sum_list_replicate)

subsection \<open>cas.go\<close>

definition ignore_err :: "('s, 'a) proc \<Rightarrow> ('s, unit) proc" where
  "ignore_err m = attempt m (\<lambda>_. ret ()) (\<lambda>_. ret ())"

text \<open>The slices \<open>digest[:2]\<close> and \<open>digest[2:]\<close> panic on a shorter string.\<close>

definition sliced :: "string \<Rightarrow> ('s, 'a) proc \<Rightarrow> ('s, 'a) proc" where
  "sliced digest m = (if length digest < 2 then panic else m)"

definition blob_path :: "StorageConfig \<Rightarrow> string \<Rightarrow> fkey" where
  "blob_path c digest = file_key (path_join [Workdir c, DirBlobs, take 2 digest, drop 2 digest])"

definition meta_path :: "StorageConfig \<Rightarrow> string \<Rightarrow> fkey" where
  "meta_path c name = file_key (path_join [Workdir c, DirMetaInfo, name])"

definition NewStorage :: "StorageConfig \<Rightarrow> (fsys, StorageConfig) proc" where
  "NewStorage config0 =
     (if Workdir config0 = [] then fail (Errorf ''Invalid Workdir'')
      else
        let config = (if PrefixLength config0 = 0 then config0\<lparr>PrefixLength := 2\<rparr> else config0);
            mkdir = (\<lambda>d k. attempt (os_mkdir_all (file_key (path_join [Workdir config, d])))
                       (\<lambda>err. fail (Wrap ''mkdir for filedb failed:'' err)) (\<lambda>_. k))
        in mkdir DirBlobs (mkdir DirMetaInfo (mkdir DirStoreTmp
             (if Encrypt config \<and> Secret config = [] then fail (Errorf ''secret is empty'')
              else ret config))))"

definition Storage_Exist :: "StorageConfig \<Rightarrow> string \<Rightarrow> (fsys, bool) proc" where
  "Storage_Exist c digest =
     sliced digest (attempt (os_stat (blob_path c digest)) (\<lambda>_. ret False) (\<lambda>_. ret True))"

text \<open>The blob is moved into its place, or the temporary file is dropped.\<close>

definition place_blob :: "StorageConfig \<Rightarrow> fkey \<Rightarrow> string \<Rightarrow> (fsys, unit) proc" where
  "place_blob c tmpPath digestEnc =
     andthen (Storage_Exist c digestEnc) (\<lambda>exist.
       if \<not> exist then
         let prefixPath = file_key (path_join [Workdir c, DirBlobs, take 2 digestEnc])
         in andthen
              (attempt (os_stat prefixPath)
                 (\<lambda>err. if is_not_exist err then ignore_err (os_mkdir_all prefixPath) else ret ())
                 (\<lambda>_. ret ()))
              (\<lambda>_. attempt (os_rename tmpPath (blob_path c digestEnc))
                     (\<lambda>err. fail (Wrap ''move file failed:'' err)) ret)
       else ignore_err (os_remove tmpPath))"

definition put_meta :: "cas_env \<Rightarrow> StorageConfig \<Rightarrow> FileMetaInfo \<Rightarrow> string \<Rightarrow> (fsys, string) proc" where
  "put_meta env c metainfo digestEnc =
     (let data = json_meta env (metainfo\<lparr>Digest := digestEnc\<rparr>);
          fullPath = meta_path c (Name metainfo)
      in attempt (os_mkdir_all (butlast fullPath))
           (\<lambda>err. fail (Wrap ''create metadata folder failed:'' err)) (\<lambda>_.
         attempt (os_write_file fullPath data)
           (\<lambda>err. fail (Wrap ''create metadata folder failed:'' err)) (\<lambda>_.
         ret digestEnc)))"

text \<open>\<open>tmp\<close> is the name \<open>Put\<close> makes from the clock and \<open>rand.Int31\<close>.\<close>

definition Storage_Put ::
  "cas_env \<Rightarrow> StorageConfig \<Rightarrow> string \<Rightarrow> FileMetaInfo \<Rightarrow> reader \<Rightarrow> (fsys, string) proc" where
  "Storage_Put env c tmp metainfo src =
     (let tmpPath = file_key (path_join [Workdir c, DirStoreTmp, tmp])
      in attempt (os_create tmpPath)
           (\<lambda>err. fail (Wrap ''create tmporary file failed:'' err)) (\<lambda>_.
         if Encrypt c \<and> \<not> aes_key_ok (Secret c)
         then fail (Wrap ''get new encrypt writer failed:'' key_size_error)
         else attempt (io_copy (store_writer env c tmpPath) new_writer src)
           (\<lambda>err. andthen (ignore_err (os_remove tmpPath))
                    (\<lambda>_. fail (Wrap ''copy data failed:'' err))) (\<lambda>w.
         let digestEnc = DigestWriter_Digest env w
         in andthen (place_blob c tmpPath digestEnc) (\<lambda>_.
            put_meta env c metainfo digestEnc))))"

text \<open>
  \<open>getMetaInfo\<close> also returns the size of the blob, which it keeps in \<open>Finfo\<close>.
\<close>

definition getMetaInfo ::
  "cas_env \<Rightarrow> StorageConfig \<Rightarrow> string \<Rightarrow> (fsys, FileMetaInfo \<times> nat) proc" where
  "getMetaInfo env c name =
     attempt (os_read_file (meta_path c name))
       (\<lambda>err. fail (Wrap ''read metadata failed:'' err)) (\<lambda>metadata.
     case unjson_meta env metadata of
       Inl err \<Rightarrow> fail (Wrap ''unmarshal metadata failed:'' err)
     | Inr metainfo0 \<Rightarrow>
         let metainfo = (if Extend metainfo0 = None then metainfo0\<lparr>Extend := Some []\<rparr>
                         else metainfo0);
             digest = Digest metainfo
         in attempt (os_stat (meta_path c name))
              (\<lambda>err. fail (Wrap ''stat metadata failed:'' err)) (\<lambda>_.
            sliced digest (attempt (os_stat (blob_path c digest))
              (\<lambda>err. fail (Wrap ''read blob files failed:'' err)) (\<lambda>blobinfo.
            ret (metainfo, case blobinfo of File d \<Rightarrow> length d | Dir \<Rightarrow> 0)))))"

text \<open>The content a reader of \<open>getDatareader\<close> yields when it is read to the end.\<close>

definition getDatareader :: "cas_env \<Rightarrow> StorageConfig \<Rightarrow> string \<Rightarrow> (fsys, bytes) proc" where
  "getDatareader env c digest =
     sliced digest (attempt (os_read_file (blob_path c digest))
       (\<lambda>err. fail (Wrap ''open data file failed:'' err)) (\<lambda>data.
     if Encrypt c then
       if aes_key_ok (Secret c)
       then ret (decrypt_all (ctr env (Secret c)) 0 (copy_buffers (length data)) data)
       else fail (Wrap ''open encrypt failed:'' key_size_error)
     else ret data))"

definition Storage_Get ::
  "cas_env \<Rightarrow> StorageConfig \<Rightarrow> string \<Rightarrow> (fsys, bytes \<times> FileMetaInfo \<times> nat) proc" where
  "Storage_Get env c name =
     andthen (getMetaInfo env c name) (\<lambda>(metainfo, size).
     andthen (getDatareader env c (Digest metainfo)) (\<lambda>reader.
     ret (reader, metainfo, size)))"

definition Storage_ExistPath ::
  "cas_env \<Rightarrow> StorageConfig \<Rightarrow> string \<Rightarrow> (fsys, string gomap) proc" where
  "Storage_ExistPath env c rawPath =
     andthen (getMetaInfo env c rawPath) (\<lambda>(metainfo, _).
     sliced (Digest metainfo) (andthen (os_stat (blob_path c (Digest metainfo))) (\<lambda>_.
     ret (the (Extend metainfo)))))"

definition Storage_GetByDigest :: "cas_env \<Rightarrow> StorageConfig \<Rightarrow> string \<Rightarrow> (fsys, bytes) proc" where
  "Storage_GetByDigest env c digest = getDatareader env c digest"

definition deleteBlobData :: "StorageConfig \<Rightarrow> string \<Rightarrow> (fsys, unit) proc" where
  "deleteBlobData c digest = sliced digest (os_remove (blob_path c digest))"

text \<open>\<open>DeleteByDigest\<close> calls itself, not \<open>deleteBlobData\<close>; \<open>None\<close> is a call that never returns.\<close>

partial_function (option) Storage_DeleteByDigest ::
  "StorageConfig \<Rightarrow> string \<Rightarrow> fsys \<Rightarrow> (unit outcome \<times> fsys) option" where
  "Storage_DeleteByDigest c digest fs = Storage_DeleteByDigest c digest fs"

lemma DeleteByDigest_diverges: "Storage_DeleteByDigest c digest fs = None"
proof (rule ccontr)
  assume "Storage_DeleteByDigest c digest fs \<noteq> None"
  then obtain r where "Storage_DeleteByDigest c digest fs = Some r" by blast
  then show False
    by (rule Storage_DeleteByDigest.raw_induct [where P = "\<lambda>_ _ _ _. False", rotated])
qed

end
