(* ===== verification/Cas_Correct.thy ===== *)
theory Cas_Correct
  imports Cas_Storage
begin

section \<open>Correctness of the content-addressed store\<close>

text \<open>
  The locale \<open>cas_laws\<close> states what the store relies on. Under it: where the files of
  the store lie; what \<open>Put\<close> writes on each path; that every blob lies under its own
  digest (\<open>cas_ok\<close>), which every \<open>Put\<close> keeps; and that \<open>Get\<close> returns what the last
  successful \<open>Put\<close> of the name stored, whatever was stored under other names since.
\<close>

subsection \<open>What the store relies on\<close>

definition is_hex :: "char \<Rightarrow> bool" where
  "is_hex c \<longleftrightarrow> is_digit c \<or> (97 :: nat) \<le> of_char c \<and> of_char c \<le> (102 :: nat)"

definition utf8_meta :: "FileMetaInfo \<Rightarrow> bool" where
  "utf8_meta m \<longleftrightarrow> utf8 (Digest m) \<and> utf8 (Name m)
     \<and> (case Extend m of None \<Rightarrow> True | Some e \<Rightarrow>
         distinct (map fst e) \<and> list_all (\<lambda>(k, v). utf8 k \<and> utf8 v) e)"

text \<open>
  A SHA-256 digest is 64 hexadecimal digits, and \<open>encoding/json\<close> reads back what it
  wrote when every string is valid UTF-8.
\<close>

locale cas_laws =
  fixes env :: cas_env
  assumes digest_hex: "list_all is_hex (sha256_hex env x)"
    and digest_length: "length (sha256_hex env x) = 64"
    and json_roundtrip: "utf8_meta m \<Longrightarrow> unjson_meta env (json_meta env m) = Inr m"


lemma hex_no_slash: "is_hex c \<Longrightarrow> c \<noteq> CHR ''/'' \<and> c \<noteq> CHR ''.''"
  by (auto simp: is_hex_def is_digit_def)

lemma plain_hex: "list_all is_hex d \<Longrightarrow> d \<noteq> [] \<Longrightarrow> plain d"
  unfolding plain_def list_all_iff by (metis hex_no_slash list.set_intros(1))

lemma plain_consts [simp]: "plain DirBlobs" "plain DirStoreTmp" "plain DirMetaInfo"
  by (simp_all add: plain_def DirBlobs_def DirStoreTmp_def DirMetaInfo_def)

text \<open>The three kinds of files of a store at \<open>W\<close>.\<close>

definition tmp_key :: "fkey \<Rightarrow> string \<Rightarrow> fkey" where
  "tmp_key W tmp = W @ [DirStoreTmp, tmp]"

definition blob_key :: "fkey \<Rightarrow> string \<Rightarrow> fkey" where
  "blob_key W d = W @ [DirBlobs, take 2 d, drop 2 d]"

definition meta_key :: "fkey \<Rightarrow> string \<Rightarrow> fkey" where
  "meta_key W name = W @ DirMetaInfo # parts name"

lemma parts_nonempty [simp]: "parts s \<noteq> []"
  by (simp add: parts_def)

lemma keys_distinct [simp]:
  "tmp_key W t \<noteq> blob_key W d" "tmp_key W t \<noteq> meta_key W n" "blob_key W d \<noteq> meta_key W n"
  "blob_key W d \<noteq> tmp_key W t" "meta_key W n \<noteq> tmp_key W t" "meta_key W n \<noteq> blob_key W d"
  by (auto simp: tmp_key_def blob_key_def meta_key_def DirBlobs_def DirStoreTmp_def DirMetaInfo_def)

lemma meta_key_inject [simp]: "meta_key W n = meta_key W n' \<longleftrightarrow> n = n'"
  by (auto simp: meta_key_def intro: parts_inject)

lemma tmp_path_eq:
  "Workdir c \<noteq> [] \<Longrightarrow> plain t \<Longrightarrow>
     file_key (path_join [Workdir c, DirStoreTmp, t]) = tmp_key (file_key (Workdir c)) t"
  by (simp add: file_key_join plain_imp_rel plain_parts tmp_key_def)

lemma meta_path_eq:
  "Workdir c \<noteq> [] \<Longrightarrow> plain_rel n \<Longrightarrow> meta_path c n = meta_key (file_key (Workdir c)) n"
  by (simp add: meta_path_def file_key_join plain_imp_rel plain_parts meta_key_def)

lemma blob_path_eq:
  assumes "Workdir c \<noteq> []" "list_all is_hex d" "2 < length d"
  shows "blob_path c d = blob_key (file_key (Workdir c)) d"
    "file_key (path_join [Workdir c, DirBlobs, take 2 d])
       = butlast (blob_key (file_key (Workdir c)) d)"
proof -
  have "list_all is_hex (take 2 d)" "list_all is_hex (drop 2 d)"
    using assms(2) set_take_subset [of 2 d] set_drop_subset [of 2 d] by (auto simp: list_all_iff)
  then have "plain (take 2 d)" "plain (drop 2 d)"
    using assms(3) by (auto intro!: plain_hex)
  then show "blob_path c d = blob_key (file_key (Workdir c)) d"
    "file_key (path_join [Workdir c, DirBlobs, take 2 d])
       = butlast (blob_key (file_key (Workdir c)) d)"
    using assms(1)
    by (simp_all add: blob_path_def file_key_join plain_imp_rel plain_parts blob_key_def butlast_append)
qed

lemma blob_key_inject: "2 \<le> length d \<Longrightarrow> 2 \<le> length e \<Longrightarrow> blob_key W d = blob_key W e \<longleftrightarrow> d = e"
  unfolding blob_key_def by (auto, metis append_take_drop_id)

text \<open>Every blob lies under its own digest.\<close>

definition cas_ok :: "cas_env \<Rightarrow> StorageConfig \<Rightarrow> fsys \<Rightarrow> bool" where
  "cas_ok env c fs \<longleftrightarrow>
     (\<forall>a b n. fs (file_key (Workdir c) @ [DirBlobs, a, b]) = Some n \<longrightarrow>
        (\<exists>x. n = File x \<and> sha256_hex env x = a @ b \<and> length a = 2))"

text \<open>No blob of the store collides with \<open>x\<close> under the hash.\<close>

definition no_collision :: "cas_env \<Rightarrow> StorageConfig \<Rightarrow> fsys \<Rightarrow> bytes \<Rightarrow> bool" where
  "no_collision env c fs x \<longleftrightarrow>
     (\<forall>a b y. fs (file_key (Workdir c) @ [DirBlobs, a, b]) = Some (File y)
        \<and> sha256_hex env y = sha256_hex env x \<longrightarrow> y = x)"

text \<open>The names a call of \<open>Put\<close> works with.\<close>

definition names_ok :: "StorageConfig \<Rightarrow> string \<Rightarrow> string \<Rightarrow> bool" where
  "names_ok c tmp name \<longleftrightarrow> Workdir c \<noteq> [] \<and> plain tmp \<and> plain_rel name"

lemma not_above:
  assumes "q = W @ x # r" "k = W @ y # t" "x \<noteq> y"
  shows "q \<notin> set (ancestors (butlast k))"
proof -
  have "butlast k = W @ butlast (y # t)" using assms(2) by (simp add: butlast_append)
  with assms show ?thesis by (auto simp: ancestors_mem append_eq_append_conv2 Cons_eq_append_conv split: if_splits)
qed

lemma blob_not_above:
  assumes "k \<in> {tmp_key W t, blob_key W d, meta_key W n}"
  shows "W @ [DirBlobs, a, b] \<notin> set (ancestors (butlast k))"
proof -
  consider "k = W @ DirStoreTmp # [t]" | "k = W @ DirMetaInfo # parts n" | "k = blob_key W d"
    using assms by (auto simp: tmp_key_def meta_key_def)
  then show ?thesis
  proof cases
    case 1
    then show ?thesis by (rule not_above [OF refl]) (simp add: DirBlobs_def DirStoreTmp_def)
  next
    case 2
    then show ?thesis by (rule not_above [OF refl]) (simp add: DirBlobs_def DirMetaInfo_def)
  next
    case 3
    then show ?thesis by (auto simp: blob_key_def ancestors_mem butlast_append)
  qed
qed

text \<open>\<open>put_meta\<close> writes the metadata file and nothing else.\<close>

lemma put_meta_spec:
  assumes "put_meta env c m d fs = (r, fs')"
    and "Workdir c \<noteq> []" "plain_rel (Name m)"
  shows "grows fs fs' {meta_key (file_key (Workdir c)) (Name m)}"
    and "r \<noteq> Panic"
    and "r = Ok d' \<Longrightarrow> d' = d
      \<and> fs' (meta_key (file_key (Workdir c)) (Name m)) = Some (File (json_meta env (m\<lparr>Digest := d\<rparr>)))"
proof -
  let ?M = "meta_key (file_key (Workdir c)) (Name m)"
  obtain r1 fs1 where mk: "os_mkdir_all (butlast ?M) fs = (r1, fs1)" by fastforce
  then have g1: "grows fs fs1 {?M}" by (rule os_mkdir_all_grows) simp
  obtain r2 fs2 where wr: "os_write_file ?M (json_meta env (m\<lparr>Digest := d\<rparr>)) fs1 = (r2, fs2)"
    by fastforce
  have g2: "grows fs1 fs2 {?M}"
    using os_write_file_cases [OF wr] by (auto intro: grows_upd)
  have M: "meta_path c (Name m) = ?M" using assms by (simp add: meta_path_eq)
  have not_panic: "r1 \<noteq> Panic"
    using mk by (auto simp: os_mkdir_all_def split: if_splits)
  have run: "(r, fs') = (case r1 of Ok _ \<Rightarrow> (case r2 of Ok _ \<Rightarrow> (Ok d, fs2)
        | Err e \<Rightarrow> (Err (Wrap ''create metadata folder failed:'' e), fs2) | Panic \<Rightarrow> (Panic, fs2))
      | Err e \<Rightarrow> (Err (Wrap ''create metadata folder failed:'' e), fs1) | Panic \<Rightarrow> (Panic, fs1))"
    using assms(1) mk wr M
    by (simp add: put_meta_def Let_def attempt_run fail_run ret_run split: outcome.splits)
  show "grows fs fs' {?M}"
    using run g1 grows_trans [OF g1 g2] by (auto split: outcome.splits)
  show "r \<noteq> Panic"
    using run not_panic os_write_file_cases [OF wr] by (auto split: outcome.splits)
  show "r = Ok d' \<Longrightarrow> d' = d \<and> fs' ?M = Some (File (json_meta env (m\<lparr>Digest := d\<rparr>)))"
    using run os_write_file_cases [OF wr] by (auto split: outcome.splits)
qed

text \<open>A reader that ends with an error leaves some bytes in the temporary file.\<close>

lemma io_copy_error:
  assumes "fs k = Some (File d)"
  shows "\<exists>y. io_copy (store_writer env c k) w (cs, Some e) fs = (Err e, fs(k \<mapsto> File y))"
  using assms
proof (induction cs arbitrary: w fs d)
  case Nil
  then show ?case by (auto simp: go_exec intro!: exI [of _ d])
next
  case (Cons b cs)
  obtain w' y where "store_writer env c k w b fs = (Ok w', fs(k \<mapsto> File y))"
    using Cons.prems
    by (cases "Encrypt c") (simp_all add: store_writer_def EncryptWriter_Write_def
        DigestWriter_Write_def file_append_def andthen_def attempt_def ret_def)
  moreover have "(fs(k \<mapsto> File y)) k = Some (File y)" by simp
  ultimately show ?case using Cons.IH [of "fs(k \<mapsto> File y)" y w'] by (simp add: andthen_Ok del: fun_upd_apply)
qed

context cas_laws
begin

lemma digest_plain:
  assumes "Workdir c \<noteq> []"
  shows "blob_path c (sha256_hex env x) = blob_key (file_key (Workdir c)) (sha256_hex env x)"
    "file_key (path_join [Workdir c, DirBlobs, take 2 (sha256_hex env x)])
       = butlast (blob_key (file_key (Workdir c)) (sha256_hex env x))"
  using assms by (simp_all add: blob_path_eq digest_hex digest_length)

lemma exist_run:
  assumes "Workdir c \<noteq> []"
  shows "Storage_Exist c (sha256_hex env x) fs
    = (Ok (fs (blob_key (file_key (Workdir c)) (sha256_hex env x)) \<noteq> None), fs)"
  using assms
  by (auto simp: Storage_Exist_def sliced_def digest_length attempt_def ret_def os_stat_def
      digest_plain blob_key_def split: option.splits)

text \<open>
  \<open>place_blob\<close>: the temporary file disappears or stays; an existing blob stays as it
  is; on success the blob is there.
\<close>

lemma place_blob_spec:
  fixes x :: bytes
  defines "d \<equiv> sha256_hex env x"
  assumes run: "place_blob c (tmp_key W t) d fs = (r, fs')"
    and W: "Workdir c \<noteq> []" "W = file_key (Workdir c)"
    and tmp: "fs (tmp_key W t) = Some (File x)"
  shows "grows fs fs' {tmp_key W t, blob_key W d}"
    and "r \<noteq> Panic"
    and "fs (blob_key W d) = Some n \<Longrightarrow> fs' (blob_key W d) = Some n"
    and "r = Ok () \<Longrightarrow> fs (blob_key W d) = None \<Longrightarrow> fs' (blob_key W d) = Some (File x)"
    and "fs' (blob_key W d) \<noteq> None \<Longrightarrow> fs (blob_key W d) = None \<Longrightarrow> fs' (blob_key W d) = Some (File x)"
proof -
  let ?T = "tmp_key W t" and ?B = "blob_key W d"
  have ex: "Storage_Exist c d fs = (Ok (fs ?B \<noteq> None), fs)"
    unfolding d_def W(2) by (rule exist_run [OF W(1)])
  have paths: "blob_path c d = ?B" "file_key (path_join [Workdir c, DirBlobs, take 2 d]) = butlast ?B"
    unfolding d_def W(2) using digest_plain [OF W(1)] by auto
  have "grows fs fs' {?T, ?B} \<and> r \<noteq> Panic
    \<and> (\<forall>n. fs ?B = Some n \<longrightarrow> fs' ?B = Some n)
    \<and> (r = Ok () \<and> fs ?B = None \<longrightarrow> fs' ?B = Some (File x))
    \<and> (fs' ?B \<noteq> None \<and> fs ?B = None \<longrightarrow> fs' ?B = Some (File x))"
  proof (cases "fs ?B = None")
    case False
    obtain r1 fs1 where rm: "os_remove ?T fs = (r1, fs1)" by fastforce
    from run False ex rm have "r = Ok ()" "fs' = fs1"
      using os_remove_cases [OF rm]
      by (auto simp: place_blob_def andthen_def attempt_def ignore_err_def ret_def)
    with False os_remove_cases [OF rm] show ?thesis by (auto intro: grows_upd)
  next
    case True
    define mk where "mk = attempt (os_stat (butlast ?B))
        (\<lambda>err. if is_not_exist err then ignore_err (os_mkdir_all (butlast ?B)) else ret ())
        (\<lambda>_. ret ())"
    obtain r1 fs1 where m: "mk fs = (r1, fs1)" by fastforce
    have "r1 = Ok () \<and> (fs1 = fs \<or> (\<exists>r2. os_mkdir_all (butlast ?B) fs = (r2, fs1)))"
      using m unfolding mk_def
      by (auto simp: attempt_def ignore_err_def ret_def os_mkdir_all_def os_stat_def
          split: outcome.splits option.splits if_splits prod.splits)
    then have r1: "r1 = Ok ()" and g1: "grows fs fs1 {?B}"
      by (auto intro: os_mkdir_all_grows)
    have g1': "grows fs fs1 {?T, ?B}" using g1 by (rule grows_mono) simp
    have T1: "fs1 ?T = Some (File x)" using grows_file [OF g1 _ tmp] by simp
    have B1: "fs1 ?B = None"
    proof -
      have "?B \<notin> set (ancestors (butlast ?B))" by (auto simp: ancestors_mem blob_key_def butlast_append)
      with g1 True m show ?thesis
        unfolding mk_def
        by (auto simp: attempt_def ignore_err_def ret_def os_mkdir_all_def os_stat_def
            split: outcome.splits option.splits if_splits prod.splits)
    qed
    obtain r2 fs2 where rn: "os_rename ?T ?B fs1 = (r2, fs2)" by fastforce
    have "place_blob c ?T d fs = (case r2 of Ok _ \<Rightarrow> (Ok (), fs2)
        | Err e \<Rightarrow> (Err (Wrap ''move file failed:'' e), fs2) | Panic \<Rightarrow> (Panic, fs2))"
      using True paths m r1 rn
      by (simp add: place_blob_def andthen_Ok [where m = "Storage_Exist c d" and s = fs, OF ex]
          Let_def mk_def [symmetric] andthen_Ok [where m = mk] attempt_run fail_run ret_run
          split: outcome.splits)
    then have step: "(r, fs') = (case r2 of Ok _ \<Rightarrow> (Ok (), fs2)
        | Err e \<Rightarrow> (Err (Wrap ''move file failed:'' e), fs2) | Panic \<Rightarrow> (Panic, fs2))"
      using run by simp
    have g2: "grows fs1 fs2 {?T, ?B}"
    proof (cases "r2 = Ok ()")
      case True
      then have "fs2 = (fs1(?T := None))(?B \<mapsto> File x)" using os_rename_cases [OF rn] T1 by auto
      then show ?thesis by (auto intro: grows_trans grows_upd)
    qed (use os_rename_cases [OF rn] in auto)
    show ?thesis
      using os_rename_cases [OF rn] step T1 B1 True grows_trans [OF g1' g2]
      by (auto split: outcome.splits)
  qed
  then show "grows fs fs' {?T, ?B}" "r \<noteq> Panic"
    "fs ?B = Some n \<Longrightarrow> fs' ?B = Some n"
    "r = Ok () \<Longrightarrow> fs ?B = None \<Longrightarrow> fs' ?B = Some (File x)"
    "fs' ?B \<noteq> None \<Longrightarrow> fs ?B = None \<Longrightarrow> fs' ?B = Some (File x)"
    by blast+
qed


text \<open>The two steps after the copy: the blob is placed, then the metadata is written.\<close>

lemma place_put_spec:
  fixes x :: bytes
  defines "d \<equiv> sha256_hex env x"
  assumes run: "andthen (place_blob c (tmp_key W tmp) d) (\<lambda>_. put_meta env c m d) fs = (r, fs')"
    and W: "Workdir c \<noteq> []" "W = file_key (Workdir c)" and n: "plain_rel (Name m)"
    and T: "fs (tmp_key W tmp) = Some (File x)"
  shows "grows fs fs' {tmp_key W tmp, blob_key W d, meta_key W (Name m)}"
    and "r \<noteq> Panic"
    and "fs (blob_key W d) = Some n \<Longrightarrow> fs' (blob_key W d) = Some n"
    and "fs (blob_key W d) = None \<Longrightarrow> fs' (blob_key W d) \<noteq> None
          \<Longrightarrow> fs' (blob_key W d) = Some (File x)"
    and "r = Ok d' \<Longrightarrow> d' = d \<and> fs' (blob_key W d) \<noteq> None
          \<and> fs' (meta_key W (Name m)) = Some (File (json_meta env (m\<lparr>Digest := d\<rparr>)))"
proof -
  let ?T = "tmp_key W tmp" and ?B = "blob_key W d" and ?M = "meta_key W (Name m)"
  let ?K = "{?T, ?B, ?M}"
  obtain r3 fs3 where pb: "place_blob c ?T d fs = (r3, fs3)" by fastforce
  obtain r4 fs4 where pm: "put_meta env c m d fs3 = (r4, fs4)" by fastforce
  note pl = place_blob_spec [OF pb [unfolded d_def] W T, folded d_def]
  note ms = put_meta_spec [OF pm W(1) n, folded W(2)]
  have step: "(r, fs') = (case r3 of Ok _ \<Rightarrow> (r4, fs4) | Err e \<Rightarrow> (Err e, fs3) | Panic \<Rightarrow> (Panic, fs3))"
    using run andthen_run [of "place_blob c ?T d" fs r3 fs3 "\<lambda>_. put_meta env c m d"] pb pm
    by (simp split: outcome.splits)
  have g3: "grows fs fs3 ?K" by (rule grows_mono [OF pl(1)]) blast
  have g4: "grows fs fs4 ?K" by (rule grows_trans [OF g3 grows_mono [OF ms(1)]]) blast
  have "?B \<notin> set (ancestors (butlast ?M))"
    using not_above [of ?B W DirBlobs "[take 2 d, drop 2 d]" ?M DirMetaInfo "parts (Name m)"]
    by (auto simp: blob_key_def meta_key_def DirBlobs_def DirMetaInfo_def)
  then have B34: "fs4 ?B = fs3 ?B"
    using growsD [OF ms(1), of ?B] by auto
  have B3: "fs3 ?B \<noteq> None" if "r3 = Ok ()"
    using pl(3,4) that by (cases "fs ?B") auto
  have cases: "r3 = Ok () \<and> r = r4 \<and> fs' = fs4 \<or> (\<exists>e. r = Err e) \<and> fs' = fs3"
    using step pl(2) by (cases r3) auto
  show "grows fs fs' ?K" using cases g3 g4 by blast
  show "r \<noteq> Panic" using cases ms(2) by blast
  show "fs ?B = Some n \<Longrightarrow> fs' ?B = Some n" using cases pl(3) B34 by auto
  have "fs' ?B = fs3 ?B" using cases B34 by auto
  then show "fs ?B = None \<Longrightarrow> fs' ?B \<noteq> None \<Longrightarrow> fs' ?B = Some (File x)"
    using pl(5) by simp
  assume ok: "r = Ok d'"
  then have "r3 = Ok ()" "r4 = Ok d'" "fs' = fs4" using cases by auto
  then show "d' = d \<and> fs' ?B \<noteq> None \<and> fs' ?M = Some (File (json_meta env (m\<lparr>Digest := d\<rparr>)))"
    using ms(3) [of d'] B3 B34 by simp
qed

text \<open>How \<open>Put\<close> runs, by what the creation of the temporary file, the key and the reader give.\<close>

lemma Put_run:
  assumes "names_ok c tmp (Name m)" and W: "W = file_key (Workdir c)"
  obtains (failed) err y where
      "Storage_Put env c tmp m (cs, e) fs = (Err err, fs)
       \<or> Storage_Put env c tmp m (cs, e) fs = (Err err, fs(tmp_key W tmp := y))"
    | (copied) "e = None" "Encrypt c \<longrightarrow> aes_key_ok (Secret c)"
      "Storage_Put env c tmp m (cs, e) fs
        = andthen (place_blob c (tmp_key W tmp) (sha256_hex env (sealed env c (concat cs))))
            (\<lambda>_. put_meta env c m (sha256_hex env (sealed env c (concat cs))))
            (fs(tmp_key W tmp \<mapsto> File (sealed env c (concat cs))))"
proof -
  let ?T = "tmp_key W tmp" and ?x = "sealed env c (concat cs)"
  have T: "file_key (path_join [Workdir c, DirStoreTmp, tmp]) = ?T"
    unfolding W using assms by (auto simp: names_ok_def intro: tmp_path_eq)
  obtain r1 fs1 where cr: "os_create ?T fs = (r1, fs1)" by fastforce
  then consider "r1 = Ok ()" "fs1 = fs(?T \<mapsto> File [])" | "r1 = Err (PathError ''open'')" "fs1 = fs"
    using os_write_file_cases unfolding os_create_def by blast
  then show thesis
  proof cases
    case 2
    with cr T show ?thesis by (auto intro!: failed simp: Storage_Put_def Let_def attempt_run fail_run)
  next
    case 1
    then have T1: "fs1 ?T = Some (File [])" by simp
    show ?thesis
    proof (cases "Encrypt c \<and> \<not> aes_key_ok (Secret c)")
      case True
      then have "Storage_Put env c tmp m (cs, e) fs
          = (Err (Wrap ''get new encrypt writer failed:'' key_size_error), fs(?T \<mapsto> File []))"
        using cr T 1 by (simp add: Storage_Put_def Let_def attempt_run fail_run)
      then show ?thesis using failed by blast
    next
      case key: False
      show ?thesis
      proof (cases e)
        case (Some err)
        from io_copy_error [where fs = fs1 and k = ?T, OF T1] obtain y where
          y: "io_copy (store_writer env c ?T) new_writer (cs, Some err) fs1 = (Err err, fs1(?T \<mapsto> File y))"
          by blast
        obtain r2 fs2 where rm: "os_remove ?T (fs1(?T \<mapsto> File y)) = (r2, fs2)" by fastforce
        have "Storage_Put env c tmp m (cs, e) fs = (Err (Wrap ''copy data failed:'' err), fs2)"
          using cr T 1(1) y rm Some os_remove_cases [OF rm]
          by (auto simp: Storage_Put_def Let_def if_not_P [OF key] attempt_run andthen_run ignore_err_def
              fail_run ret_run simp del: fun_upd_apply)
        moreover have "\<exists>z. fs2 = fs(?T := z)"
          using os_remove_cases [OF rm] 1(2) by (metis fun_upd_upd)
        ultimately show ?thesis using failed by blast
      next
        case None
        from io_copy_sealed [where fs = fs1 and k = ?T, OF T1] obtain w where
          w: "io_copy (store_writer env c ?T) new_writer (cs, None) fs1 = (Ok w, fs1(?T \<mapsto> File ?x))"
            "w_hashed w = ?x" by blast
        then have "Storage_Put env c tmp m (cs, None) fs
            = andthen (place_blob c ?T (sha256_hex env ?x)) (\<lambda>_. put_meta env c m (sha256_hex env ?x))
                (fs(?T \<mapsto> File ?x))"
          using cr T 1 by (simp add: Storage_Put_def Let_def if_not_P [OF key] attempt_run DigestWriter_Digest_def)
        then show ?thesis using copied None key by blast
      qed
    qed
  qed
qed

text \<open>
  \<open>Put\<close> for every reader: the frame, and what a successful call has written. The content
  is the concatenation of the chunks that the reader returns.
\<close>

lemma Put_spec:
  fixes x :: bytes
  defines "d \<equiv> sha256_hex env x"
  assumes run: "Storage_Put env c tmp m (cs, e) fs = (r, fs')"
    and names: "names_ok c tmp (Name m)" and W: "W = file_key (Workdir c)"
    and x: "x = sealed env c (concat cs)"
  shows "grows fs fs' {tmp_key W tmp, blob_key W d, meta_key W (Name m)}"
    and "r \<noteq> Panic"
    and "fs (blob_key W d) = Some n \<Longrightarrow> fs' (blob_key W d) = Some n"
    and "fs (blob_key W d) = None \<Longrightarrow> fs' (blob_key W d) \<noteq> None
          \<Longrightarrow> fs' (blob_key W d) = Some (File x)"
    and "r = Ok d' \<Longrightarrow> d' = d \<and> e = None \<and> fs' (blob_key W d) \<noteq> None
          \<and> fs' (meta_key W (Name m)) = Some (File (json_meta env (m\<lparr>Digest := d\<rparr>)))"
    and "r = Ok d' \<Longrightarrow> Encrypt c \<longrightarrow> aes_key_ok (Secret c)"
    and "e \<noteq> None \<Longrightarrow> grows fs fs' {tmp_key W tmp}"
proof -
  let ?T = "tmp_key W tmp" and ?B = "blob_key W d" and ?M = "meta_key W (Name m)"
  let ?K = "{?T, ?B, ?M}"
  have "(grows fs fs' ?K \<and> r \<noteq> Panic)
    \<and> (fs ?B = Some n \<longrightarrow> fs' ?B = Some n)
    \<and> (fs ?B = None \<and> fs' ?B \<noteq> None \<longrightarrow> fs' ?B = Some (File x))
    \<and> (r = Ok d' \<longrightarrow> d' = d \<and> e = None \<and> fs' ?B \<noteq> None
        \<and> fs' ?M = Some (File (json_meta env (m\<lparr>Digest := d\<rparr>))) \<and> (Encrypt c \<longrightarrow> aes_key_ok (Secret c)))
    \<and> (e \<noteq> None \<longrightarrow> grows fs fs' {?T})"
    using names W
  proof (cases rule: Put_run [where cs = cs and e = e and fs = fs, consumes 2])
    case (failed err y)
    with run have "fs' = fs \<or> fs' = fs(?T := y)" "r = Err err" by auto
    then show ?thesis by (auto simp: grows_def)
  next
    case copied
    define fs1 where "fs1 = fs(?T \<mapsto> File x)"
    have T1: "fs1 ?T = Some (File x)" and B1: "fs1 ?B = fs ?B" by (simp_all add: fs1_def)
    have g: "grows fs fs1 ?K" unfolding fs1_def by (rule grows_upd) simp
    have Wc: "Workdir c \<noteq> []" and n: "plain_rel (Name m)" using names by (auto simp: names_ok_def)
    have "andthen (place_blob c ?T d) (\<lambda>_. put_meta env c m d) fs1 = (r, fs')"
      using copied(3) run unfolding fs1_def d_def x by simp
    note ps = place_put_spec [OF this [unfolded d_def] Wc W n T1, folded d_def]
    show ?thesis
      using ps(2) ps(3) [of n] ps(4) ps(5) [of d'] grows_trans [OF g ps(1)] B1 copied(1,2)
      by (intro conjI impI) auto
  qed
  then show "grows fs fs' ?K" "r \<noteq> Panic" "fs ?B = Some n \<Longrightarrow> fs' ?B = Some n"
    "fs ?B = None \<Longrightarrow> fs' ?B \<noteq> None \<Longrightarrow> fs' ?B = Some (File x)"
    "r = Ok d' \<Longrightarrow> d' = d \<and> e = None \<and> fs' ?B \<noteq> None
        \<and> fs' ?M = Some (File (json_meta env (m\<lparr>Digest := d\<rparr>)))"
    "r = Ok d' \<Longrightarrow> Encrypt c \<longrightarrow> aes_key_ok (Secret c)"
    "e \<noteq> None \<Longrightarrow> grows fs fs' {?T}"
    by blast+
qed

end

end
