(* ===== verification/Cas_Contract.thy ===== *)
theory Cas_Contract
  imports Cas_Correct
begin

section \<open>The contract of the content-addressed store\<close>

text \<open>
  What the callers of the store get, over the lemmas of \<open>Cas_Correct\<close>: a layout that
  \<open>NewStorage\<close> makes, a content that \<open>Put\<close> stores and \<open>Get\<close> reads back, whatever is
  stored under other names in between, the invariant of the blobs, and that a \<open>Put\<close>
  succeeds where nothing is in its way. Two behaviours of \<open>crypt.go\<close> and one of
  \<open>DeleteByDigest\<close> are stated as the code has them. The witnesses run on \<open>demo_env\<close>, a
  concrete instance of the parameters, on which the laws are interpreted.
\<close>

subsection \<open>A concrete instance of the parameters\<close>

definition demo_hash :: "bytes \<Rightarrow> nat" where
  "demo_hash x = foldl (\<lambda>a c. (31 * a + of_char c) mod 65536) 7 x"

definition hex_char :: "nat \<Rightarrow> char" where
  "hex_char n = (if n < 10 then char_of (48 + n) else char_of (87 + n))"

definition demo_sha :: "bytes \<Rightarrow> string" where
  "demo_sha x =
     (let h = demo_hash x
      in map hex_char [h div 4096 mod 16, h div 256 mod 16, h div 16 mod 16, h mod 16]
         @ replicate 60 CHR ''0'')"

fun enc_str :: "string \<Rightarrow> bytes" where
  "enc_str [] = ''e''"
| "enc_str (c # s) = CHR ''c'' # c # enc_str s"

fun dec_str :: "bytes \<Rightarrow> (string \<times> bytes) option" where
  "dec_str (t # r) =
     (if t = CHR ''e'' then Some ([], r)
      else (case r of [] \<Rightarrow> None | c # r' \<Rightarrow> map_option (\<lambda>(s, q). (c # s, q)) (dec_str r')))"
| "dec_str [] = None"

fun enc_map :: "string gomap \<Rightarrow> bytes" where
  "enc_map [] = ''z''"
| "enc_map ((k, v) # m) = CHR ''k'' # enc_str k @ enc_str v @ enc_map m"

fun dec_map :: "nat \<Rightarrow> bytes \<Rightarrow> string gomap option" where
  "dec_map 0 r = None"
| "dec_map (Suc n) [] = None"
| "dec_map (Suc n) (t # r) =
     (if t = CHR ''z'' then Some []
      else case dec_str r of None \<Rightarrow> None
        | Some (k, r1) \<Rightarrow> (case dec_str r1 of None \<Rightarrow> None
            | Some (v, r2) \<Rightarrow> map_option ((#) (k, v)) (dec_map n r2)))"

definition demo_json :: "FileMetaInfo \<Rightarrow> bytes" where
  "demo_json m = enc_str (Digest m) @ enc_str (Name m)
     @ (case Extend m of None \<Rightarrow> ''n'' | Some e \<Rightarrow> enc_map e)"

definition demo_unjson :: "bytes \<Rightarrow> goerr + FileMetaInfo" where
  "demo_unjson b =
     (case dec_str b of None \<Rightarrow> Inl (External ''json'')
      | Some (d, r) \<Rightarrow> (case dec_str r of None \<Rightarrow> Inl (External ''json'')
          | Some (n, r') \<Rightarrow>
              if r' = ''n'' then Inr \<lparr>Digest = d, Name = n, Extend = None\<rparr>
              else (case dec_map (length r') r' of None \<Rightarrow> Inl (External ''json'')
                | Some e \<Rightarrow> Inr \<lparr>Digest = d, Name = n, Extend = Some e\<rparr>)))"

definition demo_env :: cas_env where
  "demo_env = \<lparr>sha256_hex = demo_sha, aes_stream = (\<lambda>secret iv i. char_of (7 * i + length secret)),
     json_meta = demo_json, unjson_meta = demo_unjson\<rparr>"

lemma dec_enc_str [simp]: "dec_str (enc_str s @ r) = Some (s, r)"
  by (induction s) auto

lemma dec_enc_map: "length m < n \<Longrightarrow> dec_map n (enc_map m) = Some m"
proof (induction m arbitrary: n)
  case Nil
  then show ?case by (cases n) auto
next
  case (Cons a m)
  then show ?case by (cases n; cases a) auto
qed

lemma enc_map_length: "length m < length (enc_map m)"
  by (induction m rule: enc_map.induct) auto

lemma enc_map_not_n: "enc_map m \<noteq> ''n''"
  by (cases m rule: enc_map.cases) auto

lemma demo_json_roundtrip: "demo_unjson (demo_json m) = Inr m"
  by (cases m; cases "Extend m")
    (auto simp: demo_json_def demo_unjson_def enc_map_not_n dec_enc_map enc_map_length)

lemma hex_char_is_hex: "n < 16 \<Longrightarrow> is_hex (hex_char n)"
  by (auto simp: is_hex_def hex_char_def is_digit_def)

lemma zero_is_hex: "is_hex CHR ''0''"
  by (simp add: is_hex_def is_digit_def)

interpretation demo: cas_laws demo_env
proof
  fix x m
  show "list_all is_hex (sha256_hex demo_env x)"
    by (simp add: demo_env_def demo_sha_def Let_def hex_char_is_hex list_all_iff zero_is_hex)
  show "length (sha256_hex demo_env x) = 64"
    by (simp add: demo_env_def demo_sha_def Let_def)
  show "utf8_meta m \<Longrightarrow> unjson_meta demo_env (json_meta demo_env m) = Inr m"
    by (simp add: demo_env_def demo_json_roundtrip)
qed

subsection \<open>Reading back\<close>

text \<open>A content is stored under the name of \<open>m\<close>.\<close>

definition digest_of :: "cas_env \<Rightarrow> StorageConfig \<Rightarrow> bytes \<Rightarrow> string" where
  "digest_of env c content = sha256_hex env (sealed env c content)"

definition stored :: "cas_env \<Rightarrow> StorageConfig \<Rightarrow> FileMetaInfo \<Rightarrow> bytes \<Rightarrow> fsys \<Rightarrow> bool" where
  "stored env c m content fs \<longleftrightarrow>
     fs (meta_key (file_key (Workdir c)) (Name m))
       = Some (File (json_meta env (m\<lparr>Digest := digest_of env c content\<rparr>)))
   \<and> fs (blob_key (file_key (Workdir c)) (digest_of env c content))
       = Some (File (sealed env c content))"

text \<open>The metadata \<open>Get\<close> returns: the digest, and an empty map where there was none.\<close>

definition read_back :: "string \<Rightarrow> FileMetaInfo \<Rightarrow> FileMetaInfo" where
  "read_back d m = m\<lparr>Digest := d, Extend := Some (case Extend m of None \<Rightarrow> [] | Some e \<Rightarrow> e)\<rparr>"

lemma hex_utf8: "list_all is_hex d \<Longrightarrow> utf8 d"
  by (rule utf8_ascii) (auto simp: list_all_iff is_hex_def is_digit_def)

lemma sealed_length [simp]: "length (sealed env c x) = length x"
  by (simp add: sealed_def)

lemma unsealed:
  "decrypt_all (ctr env (Secret c)) 0 (copy_buffers (length x)) (xor_stream (ctr env (Secret c)) 0 x) = x"
  by (simp add: decrypt_all_correct copy_buffers_enough)

context cas_laws
begin

lemma Get_stored:
  assumes st: "stored env c m content fs" and names: "Workdir c \<noteq> []" "plain_rel (Name m)"
    and u: "utf8_meta m" and key: "Encrypt c \<longrightarrow> aes_key_ok (Secret c)"
  shows "Storage_Get env c (Name m) fs
    = (Ok (content, read_back (digest_of env c content) m, length content), fs)"
proof -
  let ?d = "digest_of env c content" and ?W = "file_key (Workdir c)"
  have hex: "list_all is_hex ?d" "length ?d = 64" by (simp_all add: digest_of_def digest_hex digest_length)
  have js: "unjson_meta env (json_meta env (m\<lparr>Digest := ?d\<rparr>)) = Inr (m\<lparr>Digest := ?d\<rparr>)"
    using u hex_utf8 [OF hex(1)] by (intro json_roundtrip) (auto simp: utf8_meta_def)
  have mp: "meta_path c (Name m) = meta_key ?W (Name m)" by (rule meta_path_eq [OF names])
  have bp: "blob_path c ?d = blob_key ?W ?d" using blob_path_eq(1) [OF names(1) hex(1)] hex(2) by simp
  have ne: "meta_key ?W (Name m) \<noteq> []" "blob_key ?W ?d \<noteq> []" by (simp_all add: meta_key_def blob_key_def)
  have "getMetaInfo env c (Name m) fs = (Ok (read_back ?d m, length content), fs)"
    using st js hex(2) ne
    by (cases "Extend m") (auto simp: getMetaInfo_def attempt_def mp bp os_read_file_def os_stat_def stored_def Let_def
        sliced_def ret_def read_back_def split: option.splits)
  moreover have "getDatareader env c ?d fs = (Ok content, fs)"
    using st hex(2) key unsealed [of env c content]
    by (auto simp: getDatareader_def sliced_def attempt_def ret_def os_read_file_def bp stored_def sealed_def)
  ultimately show ?thesis by (simp add: Storage_Get_def andthen_Ok ret_def read_back_def)
qed

lemma Put_stored:
  assumes run: "Storage_Put env c tmp m (cs, e) fs = (Ok d, fs')"
    and names: "names_ok c tmp (Name m)"
    and ok: "cas_ok env c fs" "no_collision env c fs (sealed env c (concat cs))"
  shows "stored env c m (concat cs) fs'" "d = digest_of env c (concat cs)"
    "Encrypt c \<longrightarrow> aes_key_ok (Secret c)"
proof -
  let ?x = "sealed env c (concat cs)" and ?W = "file_key (Workdir c)"
  let ?B = "blob_key ?W (sha256_hex env ?x)"
  note ps = Put_spec [OF run names refl refl]
  have "fs' ?B = Some (File ?x)"
  proof (cases "fs ?B")
    case None
    then show ?thesis using ps(4,5) by blast
  next
    case (Some n)
    then obtain y where "n = File y" "sha256_hex env y = sha256_hex env ?x"
      using ok(1) unfolding cas_ok_def blob_key_def by (metis append_take_drop_id)
    then have "n = File ?x" using ok(2) Some unfolding no_collision_def blob_key_def by blast
    then show ?thesis using ps(3) Some by simp
  qed
  then show "stored env c m (concat cs) fs'" "d = digest_of env c (concat cs)"
    "Encrypt c \<longrightarrow> aes_key_ok (Secret c)"
    using ps(5,6) by (auto simp: stored_def digest_of_def)
qed

lemma Put_keeps_stored:
  assumes run: "Storage_Put env c tmp m' (cs, e) fs = (r, fs')"
    and names: "names_ok c tmp (Name m')" and other: "Name m' \<noteq> Name m"
    and st: "stored env c m content fs"
  shows "stored env c m content fs'"
proof -
  let ?W = "file_key (Workdir c)" and ?x = "sealed env c (concat cs)"
  note ps = Put_spec [OF run names refl refl]
  have "fs' (meta_key ?W (Name m)) = fs (meta_key ?W (Name m))"
    using st other grows_file [OF ps(1), of "meta_key ?W (Name m)"] by (auto simp: stored_def)
  moreover have "fs' (blob_key ?W (digest_of env c content)) = fs (blob_key ?W (digest_of env c content))"
  proof (cases "blob_key ?W (digest_of env c content) = blob_key ?W (sha256_hex env ?x)")
    case True
    then show ?thesis using st ps(3) by (auto simp: stored_def)
  next
    case False
    then show ?thesis using st grows_file [OF ps(1), of "blob_key ?W (digest_of env c content)"]
      by (auto simp: stored_def)
  qed
  ultimately show ?thesis using st by (simp add: stored_def)
qed

lemma Put_cas_ok:
  assumes run: "Storage_Put env c tmp m (cs, e) fs = (r, fs')"
    and names: "names_ok c tmp (Name m)" and ok: "cas_ok env c fs"
  shows "cas_ok env c fs'"
  unfolding cas_ok_def
proof (intro allI impI)
  fix a b n
  let ?W = "file_key (Workdir c)" and ?x = "sealed env c (concat cs)"
  let ?q = "?W @ [DirBlobs, a, b]"
  assume q: "fs' ?q = Some n"
  note ps = Put_spec [OF run names refl refl]
  have len: "length (sha256_hex env ?x) = 64" by (rule digest_length)
  show "\<exists>x. n = File x \<and> sha256_hex env x = a @ b \<and> length a = 2"
  proof (cases "?q = blob_key ?W (sha256_hex env ?x)")
    case True
    then have "a = take 2 (sha256_hex env ?x)" "b = drop 2 (sha256_hex env ?x)"
      by (auto simp: blob_key_def)
    then have ab: "a @ b = sha256_hex env ?x" "length a = 2" using len by simp_all
    show ?thesis
    proof (cases "fs ?q")
      case None
      with q True ps(4) ab show ?thesis by auto
    next
      case (Some n')
      with q True ps(3) have "n' = n" by auto
      with Some ok show ?thesis unfolding cas_ok_def by blast
    qed
  next
    case False
    moreover have "?q \<noteq> tmp_key ?W tmp" "?q \<noteq> meta_key ?W (Name m)"
      by (auto simp: tmp_key_def meta_key_def DirBlobs_def DirStoreTmp_def DirMetaInfo_def)
    ultimately have "fs' ?q = fs ?q"
      using growsD [OF ps(1), of ?q] blob_not_above by blast
    with q ok show ?thesis by (auto simp: cas_ok_def)
  qed
qed

end


subsection \<open>Progress\<close>

text \<open>No file stands where a directory above \<open>k\<close> is needed.\<close>

definition clear_above :: "fsys \<Rightarrow> fkey \<Rightarrow> bool" where
  "clear_above fs k \<longleftrightarrow> list_all (\<lambda>q. \<not> is_file fs q) (ancestors (butlast k))"

lemma clear_above_mkdir:
  assumes "clear_above fs k"
  shows "\<exists>fs'. os_mkdir_all (butlast k) fs = (Ok (), fs')
    \<and> is_dir fs' (butlast k) \<and> (fs k \<noteq> Some Dir \<longrightarrow> k \<noteq> [] \<longrightarrow> fs' k \<noteq> Some Dir)"
proof -
  have "\<not> list_ex (is_file fs) (ancestors (butlast k))"
    using assms by (auto simp: clear_above_def list_all_iff list_ex_iff)
  moreover have "k \<notin> set (ancestors (butlast k))" if "k \<noteq> []"
  proof
    assume "k \<in> set (ancestors (butlast k))"
    then obtain t where "butlast k = k @ t" by (auto simp: ancestors_mem)
    then have "length (butlast k) = length k + length t" by (metis length_append)
    then show False using that by (cases k rule: rev_cases) auto
  qed
  ultimately show ?thesis
    by (auto simp: os_mkdir_all_def is_dir_def ancestors_mem)
qed

lemma put_meta_progress:
  assumes "Workdir c \<noteq> []" "plain_rel (Name m)" "M = meta_key (file_key (Workdir c)) (Name m)"
    and "clear_above fs M" "fs M \<noteq> Some Dir"
  shows "\<exists>fs'. put_meta env c m d fs = (Ok d, fs')"
proof -
  have M: "meta_path c (Name m) = M" "M \<noteq> []" using assms by (simp_all add: meta_path_eq meta_key_def)
  with clear_above_mkdir [OF assms(4)] assms(5) obtain fs1 where
    "os_mkdir_all (butlast M) fs = (Ok (), fs1)" "is_dir fs1 (butlast M)" "\<not> is_dir fs1 M"
    by (auto simp: is_dir_def)
  then show ?thesis
    using M by (simp add: put_meta_def Let_def attempt_run os_write_file_def ret_run)
qed

context cas_laws
begin

lemma place_blob_progress:
  fixes x :: bytes
  defines "d \<equiv> sha256_hex env x"
  assumes W: "Workdir c \<noteq> []" "W = file_key (Workdir c)" and tmp: "fs (tmp_key W t) = Some (File x)"
    and clear: "clear_above fs (blob_key W d)"
  shows "\<exists>fs'. place_blob c (tmp_key W t) d fs = (Ok (), fs')"
proof -
  let ?T = "tmp_key W t" and ?B = "blob_key W d" and ?P = "butlast (blob_key W d)"
  have ex: "Storage_Exist c d fs = (Ok (fs ?B \<noteq> None), fs)"
    unfolding d_def W(2) by (rule exist_run [OF W(1)])
  have paths: "blob_path c d = ?B" "file_key (path_join [Workdir c, DirBlobs, take 2 d]) = ?P"
    unfolding d_def W(2) using digest_plain [OF W(1)] by auto
  show ?thesis
  proof (cases "fs ?B")
    case (Some n)
    then show ?thesis
      using ex by (auto simp: place_blob_def andthen_def attempt_def ignore_err_def ret_def
          split: outcome.splits prod.splits dest: os_remove_cases)
  next
    case None
    define mk where "mk = attempt (os_stat ?P)
        (\<lambda>err. if is_not_exist err then ignore_err (os_mkdir_all ?P) else ret ()) (\<lambda>_. ret ())"
    have nf: "\<not> list_ex (is_file fs) (ancestors ?P)"
      using clear by (auto simp: clear_above_def list_all_iff list_ex_iff)
    have P: "?P \<noteq> []" "?P \<in> set (ancestors ?P)" by (simp_all add: blob_key_def butlast_append ancestors_mem)
    have sub: "\<not> list_ex (is_file fs) (ancestors (butlast ?P))"
    proof
      assume "list_ex (is_file fs) (ancestors (butlast ?P))"
      then obtain q t where "is_file fs q" "q \<noteq> []" "butlast ?P = q @ t"
        by (auto simp: list_ex_iff ancestors_mem)
      then have "q \<in> set (ancestors ?P)" using P(1)
        by (metis ancestors_mem append.assoc append_butlast_last_id)
      with nf \<open>is_file fs q\<close> show False by (auto simp: list_ex_iff)
    qed
    have "\<exists>fs1. mk fs = (Ok (), fs1) \<and> is_dir fs1 ?P \<and> fs1 ?B \<noteq> Some Dir \<and> fs1 ?T = Some (File x)"
    proof (cases "fs ?P")
      case None
      obtain fs1 where fs1: "os_mkdir_all ?P fs = (Ok (), fs1)" "is_dir fs1 ?P" "fs1 ?B \<noteq> Some Dir"
        using clear_above_mkdir [OF clear] \<open>fs ?B = None\<close> by (auto simp: blob_key_def)
      then have "grows fs fs1 {?B}" using os_mkdir_all_grows [of ?B fs] by blast
      then have "fs1 ?T = Some (File x)" by (rule grows_file) (use tmp in auto)
      with fs1 None P sub show ?thesis
        by (simp add: mk_def attempt_def os_stat_def is_not_exist_def ignore_err_def ret_def)
    next
      case (Some n)
      with nf P have "n = Dir"
        by (cases n) (auto simp: list_ex_iff is_file_def)
      with Some P tmp \<open>fs ?B = None\<close> show ?thesis
        by (simp add: mk_def attempt_def os_stat_def ret_def is_dir_def)
    qed
    then obtain fs1 where m: "mk fs = (Ok (), fs1)" and "is_dir fs1 ?P" "fs1 ?B \<noteq> Some Dir" "fs1 ?T = Some (File x)"
      by blast
    then have "os_rename ?T ?B fs1 = (Ok (), (fs1(?T := None))(?B \<mapsto> File x))"
      by (simp add: os_rename_def is_dir_def [of _ ?B]) (simp add: blob_key_def)
    with None paths m show ?thesis
      by (simp add: place_blob_def andthen_Ok [where m = "Storage_Exist c d" and s = fs, OF ex]
          Let_def mk_def [symmetric] andthen_Ok [where m = mk] attempt_run ret_run)
  qed
qed

lemma Put_progress:
  assumes names: "names_ok c tmp (Name m)" and W: "W = file_key (Workdir c)"
    and x: "x = sealed env c (concat cs)"
    and key: "Encrypt c \<longrightarrow> aes_key_ok (Secret c)"
    and T: "is_dir fs (W @ [DirStoreTmp])" "fs (tmp_key W tmp) \<noteq> Some Dir"
    and B: "clear_above fs (blob_key W (sha256_hex env x))"
    and M: "clear_above fs (meta_key W (Name m))" "fs (meta_key W (Name m)) \<noteq> Some Dir"
  shows "\<exists>fs'. Storage_Put env c tmp m (cs, None) fs = (Ok (sha256_hex env x), fs')"
proof -
  let ?T = "tmp_key W tmp" and ?d = "sha256_hex env x" and ?M = "meta_key W (Name m)"
  have Wc: "Workdir c \<noteq> []" and n: "plain tmp" "plain_rel (Name m)"
    using names by (auto simp: names_ok_def)
  have Tp: "file_key (path_join [Workdir c, DirStoreTmp, tmp]) = ?T"
    unfolding W by (rule tmp_path_eq [OF Wc n(1)])
  have cr: "os_create ?T fs = (Ok (), fs(?T \<mapsto> File []))"
    using T by (auto simp: os_create_def os_write_file_def is_dir_def [of fs ?T])
      (auto simp: tmp_key_def butlast_append)
  define fs1 where "fs1 = fs(?T \<mapsto> File x)"
  have T1: "fs1 ?T = Some (File x)" by (simp add: fs1_def)
  have fs1: "Storage_Put env c tmp m (cs, None) fs
      = andthen (place_blob c ?T ?d) (\<lambda>_. put_meta env c m ?d) fs1"
    using io_copy_sealed [of "fs(?T \<mapsto> File [])" ?T env c cs] cr key Tp
    by (auto simp: Storage_Put_def Let_def attempt_run DigestWriter_Digest_def fs1_def x)
  have notT: "?T \<notin> set (ancestors (butlast (blob_key W ?d)))" "?T \<notin> set (ancestors (butlast ?M))"
    using not_above [of ?T W DirStoreTmp "[tmp]" "blob_key W ?d" DirBlobs "[take 2 ?d, drop 2 ?d]"]
      not_above [of ?T W DirStoreTmp "[tmp]" ?M DirMetaInfo "parts (Name m)"]
    by (auto simp: tmp_key_def blob_key_def meta_key_def DirBlobs_def DirStoreTmp_def DirMetaInfo_def)
  have "clear_above fs1 (blob_key W ?d)"
    using B notT unfolding clear_above_def list_all_iff by (auto simp: fs1_def is_file_def)
  from place_blob_progress [OF Wc W T1 this] obtain fs2 where pb: "place_blob c ?T ?d fs1 = (Ok (), fs2)"
    by blast
  note g = place_blob_spec(1) [OF pb Wc W T1]
  have Bn: "blob_key W ?d \<notin> set (ancestors (butlast ?M))"
    using not_above [of "blob_key W ?d" W DirBlobs "[take 2 ?d, drop 2 ?d]" ?M DirMetaInfo "parts (Name m)"]
    by (auto simp: blob_key_def meta_key_def DirBlobs_def DirMetaInfo_def)
  have clear2: "clear_above fs2 ?M"
    unfolding clear_above_def list_all_iff
  proof
    fix q assume q: "q \<in> set (ancestors (butlast ?M))"
    then have "q \<noteq> ?T" "q \<noteq> blob_key W ?d" "\<not> is_file fs q"
      using notT Bn M(1) by (auto simp: clear_above_def list_all_iff)
    with growsD [OF g, of q] show "\<not> is_file fs2 q" by (auto simp: fs1_def is_file_def)
  qed
  have "?M \<notin> set (ancestors (butlast ?T))" "?M \<notin> set (ancestors (butlast (blob_key W ?d)))"
    using not_above [of ?M W DirMetaInfo "parts (Name m)" ?T DirStoreTmp "[tmp]"]
      not_above [of ?M W DirMetaInfo "parts (Name m)" "blob_key W ?d" DirBlobs "[take 2 ?d, drop 2 ?d]"]
    by (auto simp: tmp_key_def blob_key_def meta_key_def DirBlobs_def DirStoreTmp_def DirMetaInfo_def)
  then have "fs2 ?M = fs ?M" using growsD [OF g, of ?M] by (auto simp: fs1_def)
  with M(2) have "fs2 ?M \<noteq> Some Dir" by simp
  from put_meta_progress [OF Wc n(2) _ clear2 this] W obtain fs3 where
    "put_meta env c m ?d fs2 = (Ok ?d, fs3)" by blast
  with fs1 pb show ?thesis by (simp add: andthen_run)
qed

end


subsection \<open>The properties\<close>

text \<open>A sequence of calls of \<open>Put\<close>, each ending however it may.\<close>

fun put_all :: "cas_env \<Rightarrow> StorageConfig \<Rightarrow> (string \<times> FileMetaInfo \<times> reader) list \<Rightarrow> fsys \<Rightarrow> fsys" where
  "put_all env c [] fs = fs"
| "put_all env c ((tmp, m, src) # rest) fs = put_all env c rest (snd (Storage_Put env c tmp m src fs))"

lemma put_all_keeps_stored:
  assumes "cas_laws env" "stored env c m content fs"
    and "\<forall>(tmp, m', src)\<in>set others. names_ok c tmp (Name m') \<and> Name m' \<noteq> Name m"
  shows "stored env c m content (put_all env c others fs)"
  using assms(2,3)
proof (induction others arbitrary: fs)
  case (Cons a others)
  obtain tmp m' cs e where a: "a = (tmp, m', cs, e)" by (metis prod.collapse)
  have "stored env c m content (snd (Storage_Put env c tmp m' (cs, e) fs))"
    by (rule cas_laws.Put_keeps_stored [OF assms(1) prod.collapse [symmetric] _ _ Cons.prems(1)])
      (use Cons.prems(2) a in auto)
  with Cons a show ?case by simp
qed simp



text \<open>
  C37: when the reader fails, \<open>Put\<close> returns an error and nothing but its temporary file
  can differ: no blob and no metadata is written.
\<close>

theorem put_failed_reader:
  assumes "cas_laws env" "names_ok c tmp (Name m)"
    and "Storage_Put env c tmp m (cs, Some err) fs = (r, fs')"
    and "q \<noteq> tmp_key (file_key (Workdir c)) tmp" "\<not> is_dir fs' q"
  shows "(\<exists>e. r = Err e) \<and> fs' q = fs q"
proof -
  note ps = cas_laws.Put_spec [OF assms(1,3,2) refl refl]
  have "\<exists>e. r = Err e" using ps(2,5) by (cases r) auto
  moreover have "fs' q = fs q"
    using growsD [OF ps(7), of q] assms(4,5) by (auto simp: is_dir_def)
  ultimately show ?thesis by blast
qed

text \<open>
  C40: \<open>Put\<close> succeeds, and returns the digest of the bytes it stores, when the reader
  ends without error, the key is valid, the layout is there and no file or directory is
  in the way of the files it writes.
\<close>

theorem put_succeeds:
  assumes "cas_laws env" "names_ok c tmp (Name m)" "W = file_key (Workdir c)"
    and "Encrypt c \<longrightarrow> aes_key_ok (Secret c)"
    and "is_dir fs (W @ [DirStoreTmp])" "fs (tmp_key W tmp) \<noteq> Some Dir"
    and "clear_above fs (blob_key W (digest_of env c (concat cs)))"
    and "clear_above fs (meta_key W (Name m))" "fs (meta_key W (Name m)) \<noteq> Some Dir"
  shows "\<exists>fs'. Storage_Put env c tmp m (cs, None) fs = (Ok (digest_of env c (concat cs)), fs')"
  unfolding digest_of_def
  by (rule cas_laws.Put_progress [OF assms(1-3) refl assms(4-6) _ assms(8,9)])
    (use assms(7) in \<open>simp add: digest_of_def\<close>)

text \<open>
  Equal contents share a blob: a second successful \<open>Put\<close> of the content, under
  whatever name and however its reader cuts it, returns the same digest and leaves the
  blob as the first one stored it.
\<close>

theorem put_dedupe:
  assumes "cas_laws env" "names_ok c tmp1 (Name m1)" "names_ok c tmp2 (Name m2)"
    and "cas_ok env c fs" "no_collision env c fs (sealed env c (concat cs1))"
    and "Storage_Put env c tmp1 m1 (cs1, e1) fs = (Ok d1, fs1)"
    and "Storage_Put env c tmp2 m2 (cs2, e2) fs1 = (Ok d2, fs2)"
    and "concat cs1 = concat cs2"
  shows "d1 = d2 \<and> fs2 (blob_key (file_key (Workdir c)) d1) = Some (File (sealed env c (concat cs1)))"
proof -
  note st = cas_laws.Put_stored [OF assms(1,6,2,4,5)]
  note ps = cas_laws.Put_spec [OF assms(1,7,3) refl refl]
  have "fs1 (blob_key (file_key (Workdir c)) d1) = Some (File (sealed env c (concat cs1)))"
    using st(1,2) by (simp add: stored_def)
  moreover have "d2 = d1" using ps(5) st(2) assms(8) by (simp add: digest_of_def)
  ultimately show ?thesis using ps(3) st(2) assms(8) by (simp add: digest_of_def)
qed

lemma mkdir_is_dir: "os_mkdir_all k fs = (Ok u, fs') \<Longrightarrow> is_dir fs q \<Longrightarrow> is_dir fs' q"
  by (auto simp: os_mkdir_all_def is_dir_def split: if_splits)

lemma mkdir_keeps: "os_mkdir_all k fs = (Ok u, fs') \<Longrightarrow> fs q = Some n \<Longrightarrow> fs' q = Some n"
proof (cases "n = Dir")
  case False
  assume run: "os_mkdir_all k fs = (Ok u, fs')" and q: "fs q = Some n"
  have "q \<notin> set (ancestors k)"
  proof
    assume "q \<in> set (ancestors k)"
    moreover from this have "is_file fs q"
      using q False by (cases n) (auto simp: is_file_def ancestors_mem)
    ultimately show False using run by (auto simp: os_mkdir_all_def list_ex_iff split: if_splits)
  qed
  with run q show ?thesis by (auto simp: os_mkdir_all_def split: if_splits)
qed (auto simp: os_mkdir_all_def split: if_splits)

text \<open>
  After \<open>NewStorage\<close> succeeds, the three directories of the store exist, the prefix
  length is set, and an encrypting store has a secret; an existing file or directory is
  not changed.
\<close>

theorem new_storage_layout:
  assumes "NewStorage c0 fs = (Ok c, fs')" "W = file_key (Workdir c0)"
  shows "is_dir fs' (W @ [DirBlobs]) \<and> is_dir fs' (W @ [DirMetaInfo]) \<and> is_dir fs' (W @ [DirStoreTmp])
    \<and> PrefixLength c \<noteq> 0 \<and> Workdir c = Workdir c0 \<and> (Encrypt c \<longrightarrow> Secret c \<noteq> [])
    \<and> (fs q = Some n \<longrightarrow> fs' q = Some n)"
proof -
  define c1 where "c1 = (if PrefixLength c0 = 0 then c0\<lparr>PrefixLength := 2\<rparr> else c0)"
  have W0: "Workdir c0 \<noteq> []" using assms(1) by (auto simp: NewStorage_def fail_def split: if_splits)
  have W1: "Workdir c1 = Workdir c0" "PrefixLength c1 \<noteq> 0" by (auto simp: c1_def)
  have k: "file_key (path_join [Workdir c1, d]) = W @ [d]" if "plain d" for d
    using W0 W1 that assms(2) by (simp add: file_key_join plain_imp_rel plain_parts)
  obtain fs1 fs2 where "os_mkdir_all (W @ [DirBlobs]) fs = (Ok (), fs1)"
    "os_mkdir_all (W @ [DirMetaInfo]) fs1 = (Ok (), fs2)"
    "os_mkdir_all (W @ [DirStoreTmp]) fs2 = (Ok (), fs')"
    "c = c1" "Encrypt c1 \<longrightarrow> Secret c1 \<noteq> []"
    using assms(1) W0 k
    by (auto simp: NewStorage_def c1_def [symmetric] Let_def attempt_def fail_def ret_def
        split: prod.splits outcome.splits if_splits)
  then show ?thesis
    using W1 by (metis mkdir_is_dir mkdir_keeps os_mkdir_all_Ok)
qed

lemma map2_xor_stream:
  "map2 xor_char (xor_stream ks p a) (xor_stream ks p b) = map2 xor_char a b"
proof (induction a arbitrary: b p)
  case (Cons x a)
  have "xor_char (xor_char x k) (xor_char y k) = xor_char x y" for y k
    by (cases x; cases y; cases k) auto
  with Cons show ?case by (cases b) auto
qed simp

text \<open>
  The key stream of an encrypting store depends on its secret alone, the
  initialisation vector being constant: the XOR of two stored contents is the XOR of
  the contents.
\<close>

theorem two_time_pad:
  assumes "Encrypt c"
  shows "map2 xor_char (sealed env c a) (sealed env c b) = map2 xor_char a b"
  using assms by (simp add: sealed_def map2_xor_stream)

lemma decrypt_chunks_full:
  "\<forall>(len, got)\<in>set reads. length got = len \<Longrightarrow>
     decrypt_chunks ks pos (reads @ [(n, last_got)])
       = xor_stream ks pos (concat (map snd reads) @ last_got)"
  by (induction reads arbitrary: pos) (auto simp: DecryptReader_Read_def xor_stream_append)

text \<open>
  Reading through \<open>DecryptReader\<close> gives back the content when every read but the
  last fills its buffer.
\<close>

theorem decrypt_full_reads:
  assumes "\<forall>(len, got)\<in>set reads. length got = len"
    and "concat (map snd reads) @ last_got = xor_stream ks 0 content"
  shows "decrypt_chunks ks 0 (reads @ [(n, last_got)]) = content"
  using decrypt_chunks_full [OF assms(1)] assms(2) by simp

text \<open>
  After a read that fills less than its buffer, \<open>DecryptReader\<close> has moved its key
  stream past the bytes it read: the bytes of the next read are decrypted with a key
  stream shifted by what was left of the buffer.
\<close>

theorem decrypt_short_read:
  "decrypt_chunks ks 0 [(length got + k, xor_stream ks 0 got), (n, xor_stream ks (length got) rest)]
     = got @ xor_stream ks (length got + k) (xor_stream ks (length got) rest)"
  by (simp add: DecryptReader_Read_def)

text \<open>\<open>DeleteByDigest\<close> never returns.\<close>

theorem delete_by_digest_never_returns: "Storage_DeleteByDigest c digest fs = None"
  by (rule DeleteByDigest_diverges)


subsection \<open>Witnesses\<close>

lemma dirs_distinct:
  "DirBlobs \<noteq> DirMetaInfo" "DirBlobs \<noteq> DirStoreTmp" "DirMetaInfo \<noteq> DirStoreTmp"
  by (simp_all add: DirStoreTmp_def DirBlobs_def DirMetaInfo_def)

text \<open>An encrypting store at \<open>/d\<close>, laid out and empty.\<close>

definition demo_c :: StorageConfig where
  "demo_c = \<lparr>Workdir = ''/d'', PrefixLength = 2, Secret = ''XSxHhsgsYfL928dv'', Encrypt = True\<rparr>"

definition demo_fs :: fsys where
  "demo_fs = (\<lambda>k. if k \<in> {[''d''], [''d'', DirBlobs], [''d'', DirMetaInfo], [''d'', DirStoreTmp]}
                   then Some Dir else None)"

definition demo_m :: "string \<Rightarrow> FileMetaInfo" where
  "demo_m n = \<lparr>Digest = [], Name = n, Extend = None\<rparr>"

lemma demo_W: "file_key (Workdir demo_c) = [''d'']"
  by (simp add: demo_c_def file_key_def rooted_def)

lemma demo_names: "names_ok demo_c ''t1'' ''a/b''" "names_ok demo_c ''t2'' ''c''"
  by (simp_all add: names_ok_def demo_c_def plain_def plain_rel_def)

lemma demo_name [simp]: "Name (demo_m n) = n"
  by (simp add: demo_m_def)

lemma demo_clear: "clear_above demo_fs k"
  by (auto simp: clear_above_def is_file_def demo_fs_def list_all_iff)

lemma demo_key: "Encrypt demo_c \<longrightarrow> aes_key_ok (Secret demo_c)"
  by (simp add: demo_c_def aes_key_ok_def)

lemma demo_cas_ok: "cas_ok demo_env demo_c demo_fs" "no_collision demo_env demo_c demo_fs x"
  by (auto simp: cas_ok_def no_collision_def demo_W demo_fs_def)

lemma demo_laws: "cas_laws demo_env"
  by unfold_locales

lemma demo_utf8: "utf8_meta (demo_m ''a/b'')"
  by (simp add: utf8_meta_def demo_m_def utf8_def)

lemma demo_paths:
  "is_dir demo_fs ([''d''] @ [DirStoreTmp])" "demo_fs (tmp_key [''d''] t) \<noteq> Some Dir"
  "demo_fs (meta_key [''d''] n) \<noteq> Some Dir"
  by (auto simp: demo_fs_def is_dir_def tmp_key_def meta_key_def)

lemma demo_put:
  obtains fs1 where "Storage_Put demo_env demo_c ''t1'' (demo_m ''a/b'') ([''he'', ''llo''], None) demo_fs
    = (Ok (digest_of demo_env demo_c ''hello''), fs1)"
  using demo.Put_progress [of demo_c "''t1''" "demo_m ''a/b''" "[''d'']" _ "[''he'', ''llo'']" demo_fs]
    demo_names demo_paths demo_clear demo_key
  by (auto simp: demo_W digest_of_def)



theorem put_failed_reader_witness:
  "\<exists>e fs1. Storage_Put demo_env demo_c ''t1'' (demo_m ''a/b'') ([''he''], Some (External ''x'')) demo_fs = (Err e, fs1)
    \<and> fs1 [''d'', DirMetaInfo] = Some Dir \<and> fs1 [''d'', DirMetaInfo, ''c''] = None"
proof -
  let ?q = "[''d'', DirMetaInfo, ''c'']"
  obtain r fs1 where put: "Storage_Put demo_env demo_c ''t1'' (demo_m ''a/b'')
      ([''he''], Some (External ''x'')) demo_fs = (r, fs1)" by fastforce
  have g: "grows demo_fs fs1 {tmp_key [''d''] ''t1''}"
    using cas_laws.Put_spec(7) [OF demo_laws put _ refl refl] demo_names by (simp add: demo_W)
  have nd: "\<not> is_dir fs1 ?q" "fs1 [''d'', DirMetaInfo] = Some Dir"
    using growsD [OF g, of ?q] growsD [OF g, of "[''d'', DirMetaInfo]"]
    by (auto simp: is_dir_def demo_fs_def tmp_key_def ancestors_def)
  have "(\<exists>e. r = Err e) \<and> fs1 ?q = demo_fs ?q"
    by (rule put_failed_reader [OF demo_laws _ put]) (use demo_names nd in \<open>auto simp: demo_W tmp_key_def\<close>)
  with put nd show ?thesis by (auto simp: demo_fs_def)
qed

theorem put_succeeds_witness:
  "\<exists>fs1. Storage_Put demo_env demo_c ''t2'' (demo_m ''c'') ([''he'', ''llo''], None) demo_fs
     = (Ok (digest_of demo_env demo_c ''hello''), fs1)"
  using put_succeeds [OF demo_laws, of demo_c "''t2''" "demo_m ''c''" "[''d'']" demo_fs "[''he'', ''llo'']"]
    demo_names demo_paths demo_clear demo_key by (auto simp: demo_W)

theorem put_dedupe_witness:
  "\<exists>fs1 fs2. Storage_Put demo_env demo_c ''t1'' (demo_m ''a/b'') ([''he'', ''llo''], None) demo_fs
      = (Ok (digest_of demo_env demo_c ''hello''), fs1)
    \<and> Storage_Put demo_env demo_c ''t2'' (demo_m ''c'') ([''hello''], None) fs1
      = (Ok (digest_of demo_env demo_c ''hello''), fs2)
    \<and> fs2 (blob_key [''d''] (digest_of demo_env demo_c ''hello''))
      = Some (File (sealed demo_env demo_c ''hello''))"
proof -
  let ?d = "digest_of demo_env demo_c ''hello''"
  let ?K = "{tmp_key [''d''] ''t1'', blob_key [''d''] ?d, meta_key [''d''] ''a/b''}"
  obtain fs1 where put: "Storage_Put demo_env demo_c ''t1'' (demo_m ''a/b'') ([''he'', ''llo''], None) demo_fs
    = (Ok ?d, fs1)" by (rule demo_put)
  have g: "grows demo_fs fs1 ?K"
    using demo.Put_spec(1) [OF put _ refl refl] demo_names by (simp add: demo_W digest_of_def)
  have noF: "\<not> is_file fs1 q" if "q \<notin> ?K" for q
    using growsD [OF g that] by (auto simp: is_file_def demo_fs_def split: if_splits)
  have other: "[''d''] \<notin> ?K" "[''d'', x] \<notin> ?K" for x
    by (simp_all add: blob_key_def tmp_key_def meta_key_def parts_def)
  have blobs: "[''d'', DirBlobs, a] \<notin> ?K" for a
    using dirs_distinct by (simp add: blob_key_def tmp_key_def meta_key_def parts_def)
  have "ancestors (butlast (blob_key [''d''] ?d)) = [[''d''], [''d'', DirBlobs], [''d'', DirBlobs, take 2 ?d]]"
    "ancestors (butlast (meta_key [''d''] ''c'')) = [[''d''], [''d'', DirMetaInfo]]"
    by (simp_all add: blob_key_def meta_key_def parts_def ancestors_def)
  then have clear: "clear_above fs1 (blob_key [''d''] ?d)" "clear_above fs1 (meta_key [''d''] ''c'')"
    unfolding clear_above_def using noF [OF other(1)] noF [OF other(2)] noF [OF blobs] by simp_all
  have above: "ancestors (butlast (tmp_key [''d''] ''t1'')) = [[''d''], [''d'', DirStoreTmp]]"
    "ancestors (butlast (blob_key [''d''] ?d)) = [[''d''], [''d'', DirBlobs], [''d'', DirBlobs, take 2 ?d]]"
    "ancestors (butlast (meta_key [''d''] ''a/b'')) = [[''d''], [''d'', DirMetaInfo], [''d'', DirMetaInfo, ''a'']]"
    by (simp_all add: blob_key_def meta_key_def tmp_key_def parts_def ancestors_def)
  have free: "is_dir fs1 ([''d''] @ [DirStoreTmp])" "fs1 (tmp_key [''d''] ''t2'') \<noteq> Some Dir"
    "fs1 (meta_key [''d''] ''c'') \<noteq> Some Dir"
    subgoal using growsD [OF g other(2), of DirStoreTmp] by (auto simp: is_dir_def demo_fs_def)
    subgoal using growsD [OF g, of "tmp_key [''d''] ''t2''"] above dirs_distinct
      by (simp add: demo_fs_def) (auto simp: tmp_key_def)
    subgoal using growsD [OF g, of "meta_key [''d''] ''c''"] above dirs_distinct
      by (simp add: demo_fs_def parts_def) (auto simp: meta_key_def parts_def)
    done
  obtain fs2 where put2: "Storage_Put demo_env demo_c ''t2'' (demo_m ''c'') ([''hello''], None) fs1 = (Ok ?d, fs2)"
    using demo.Put_progress [of demo_c "''t2''" "demo_m ''c''" "[''d'']" _ "[''hello'']" fs1]
      demo_names free clear demo_key by (auto simp: demo_W digest_of_def)
  show ?thesis
    using put put2 put_dedupe [OF demo_laws _ _ demo_cas_ok put put2] demo_names by (auto simp: demo_W)
qed

text \<open>\<open>NewStorage\<close> on a file system that has nothing but a file.\<close>

definition one_file :: fsys where
  "one_file = (\<lambda>k. if k = [''x''] then Some (File ''y'') else None)"

theorem new_storage_layout_witness:
  "\<exists>c fs'. NewStorage demo_c one_file = (Ok c, fs') \<and> is_dir fs' [''d'', DirBlobs] \<and> fs' [''x''] = Some (File ''y'')"
proof -
  have k: "file_key (path_join [Workdir demo_c, d]) = [''d'', d]" if "plain d" for d
    using that file_key_join [of "Workdir demo_c" "[d]"]
    by (simp add: plain_imp_rel plain_parts demo_W) (simp add: demo_c_def)
  have "PrefixLength demo_c \<noteq> 0" "Secret demo_c \<noteq> []" "Workdir demo_c \<noteq> []"
    by (simp_all add: demo_c_def)
  then obtain fs' where run: "NewStorage demo_c one_file = (Ok demo_c, fs')"
    using k [of DirBlobs] k [of DirMetaInfo] k [of DirStoreTmp] dirs_distinct dirs_distinct [symmetric]
    by (simp add: NewStorage_def Let_def attempt_def os_mkdir_all_def ancestors_def is_file_def
        one_file_def ret_def split: if_splits option.splits node.splits)
  show ?thesis
    using run new_storage_layout [OF run refl, of "[''x'']" "File ''y''"]
    by (auto simp: demo_W one_file_def)
qed

theorem two_time_pad_witness:
  "map2 xor_char (sealed demo_env demo_c ''secret'') (sealed demo_env demo_c ''public'')
     = map2 xor_char ''secret'' ''public''"
  by (rule two_time_pad) (simp add: demo_c_def)

theorem decrypt_full_reads_witness:
  "decrypt_chunks (ctr demo_env ''k'') 0
     ([(2, xor_stream (ctr demo_env ''k'') 0 ''ab'')] @ [(4, xor_stream (ctr demo_env ''k'') 2 ''c'')]) = ''abc''"
  by (rule decrypt_full_reads) (simp_all add: numeral_2_eq_2)

end
