(* ===== verification/File_DB.thy ===== *)
theory File_DB
  imports Cas_Contract
begin

section \<open>The file database (pkg/component/storage/filedb)\<close>

text \<open>
  \<open>storage.go\<close>: \<open>FSStorage\<close>, which keeps each file under its own name; \<open>db.go\<close>:
  \<open>CASStorage\<close>, which wraps the content-addressed store, the interface
  \<open>StorageDriver\<close> (a record of its methods), and \<open>FileDB\<close>, which maps configs,
  templates, packages and replacements to path names of a driver.
\<close>

subsection \<open>path.Dir and path.Base\<close>

text \<open>The string up to and including the last slash, and what follows it.\<close>

definition path_split :: "string \<Rightarrow> string \<times> string" where
  "path_split s =
     (let b = takeWhile (\<lambda>c. c \<noteq> CHR ''/'') (rev s)
      in (take (length s - length b) s, rev b))"

definition path_dir :: "string \<Rightarrow> string" where
  "path_dir s = path_clean (fst (path_split s))"

definition path_base :: "string \<Rightarrow> string" where
  "path_base s =
     (if s = [] then ''.''
      else let t = rev (dropWhile (\<lambda>c. c = CHR ''/'') (rev s));
               b = snd (path_split t)
           in if b = [] then ''/'' else b)"

lemma path_split_append: "CHR ''/'' \<notin> set b \<Longrightarrow> path_split (a @ CHR ''/'' # b) = (a @ ''/'', b)"
proof -
  assume b: "CHR ''/'' \<notin> set b"
  have "takeWhile (\<lambda>c. c \<noteq> CHR ''/'') (rev b @ CHR ''/'' # rev a) = rev b"
    using b by (subst takeWhile_append2) auto
  then show ?thesis by (simp add: path_split_def Let_def)
qed

lemma path_split_plain: "CHR ''/'' \<notin> set b \<Longrightarrow> path_split b = ([], b)"
proof -
  assume "CHR ''/'' \<notin> set b"
  then have "takeWhile (\<lambda>c. c \<noteq> CHR ''/'') (rev b) = rev b" by (auto simp: takeWhile_eq_all_conv)
  then show ?thesis unfolding path_split_def by (simp only: Let_def) simp
qed

lemma last_slash:
  assumes "split_on CHR ''/'' s = ps @ [b]"
  shows "CHR ''/'' \<notin> set b" "ps = [] \<Longrightarrow> s = b"
    "ps \<noteq> [] \<Longrightarrow> s = join_with ''/'' ps @ CHR ''/'' # b"
proof -
  have s: "s = join_with ''/'' (ps @ [b])" using join_split assms by metis
  show "CHR ''/'' \<notin> set b" using split_on_parts [of b "CHR ''/''" s] assms by simp
  show "ps = [] \<Longrightarrow> s = b" using s by simp
  have "qs \<noteq> [] \<Longrightarrow> join_with ''/'' (qs @ [b]) = join_with ''/'' qs @ CHR ''/'' # b" for qs
    by (induction "''/''" qs rule: join_with.induct) auto
  then show "ps \<noteq> [] \<Longrightarrow> s = join_with ''/'' ps @ CHR ''/'' # b" using s by simp
qed

lemma split_on_snoc: "split_on c (s @ [c]) = split_on c s @ [[]]"
  by (induction s) (auto split: list.splits)

lemma join_with_snoc: "ks \<noteq> [] \<Longrightarrow> join_with ''/'' (ks @ [b]) = join_with ''/'' ks @ CHR ''/'' # b"
  by (induction "''/''" ks rule: join_with.induct) auto

lemma path_clean_nonempty [simp]: "path_clean s \<noteq> []"
proof (cases "file_key s")
  case (Cons c cs)
  have "c \<noteq> []" using normal_no_slash(2) [OF file_key_normal [of s]] Cons by simp
  with Cons show ?thesis by (cases cs) (simp_all add: path_clean_def)
qed (simp add: path_clean_def)

text \<open>The key of the parent of a cleaned path whose last component is plain.\<close>

lemma file_key_dir:
  assumes key: "file_key s = ks @ [b]" and b: "plain b" and ks: "ks \<noteq> []"
  shows "file_key (path_dir (path_clean s)) = ks"
proof -
  let ?pre = "if rooted s then ''/'' else []"
  let ?j = "join_with ''/'' ks"
  have nm: "normal (rooted s) ks"
    using normal_butlast [of "rooted s" ks b] file_key_normal [of s] key b by (simp add: plain_def)
  have "path_clean s = (?pre @ ?j) @ CHR ''/'' # b"
    using key ks by (simp add: path_clean_def join_with_snoc)
  then have "path_split (path_clean s) = ((?pre @ ?j) @ ''/'', b)"
    using path_split_append [of b "?pre @ ?j"] b by (simp add: plain_def)
  then have dir: "file_key (path_dir (path_clean s)) = file_key ((?pre @ ?j) @ ''/'')"
    by (simp only: path_dir_def fst_conv file_key_clean)
  have sp: "split_on CHR ''/'' ?j = ks"
    using ks normal_no_slash [OF nm] by (intro split_join) auto
  have "hd (hd ks) \<noteq> CHR ''/''" "hd ks \<noteq> []"
    using ks normal_no_slash [OF nm, of "hd ks"] by (auto dest: hd_in_set)
  then have first: "\<not> rooted (?j @ ''/'')"
    using ks by (cases ks rule: remdups_adj.cases) (simp_all add: rooted_def hd_append)
  show ?thesis
  proof (cases "rooted s")
    case True
    then have "file_key ((?pre @ ?j) @ ''/'') = clean_comps True [] ([] # ks @ [[]])"
      using sp by (simp add: file_key_def rooted_def split_on_snoc)
    with True nm dir show ?thesis by (simp add: clean_comps_append clean_comps_of_normal)
  next
    case False
    then have "file_key ((?pre @ ?j) @ ''/'') = clean_comps False [] (ks @ [[]])"
      using sp first by (simp add: file_key_def split_on_snoc)
    with False nm dir show ?thesis by (simp add: clean_comps_append clean_comps_of_normal)
  qed
qed

lemma path_base_plain:
  assumes "split_on CHR ''/'' s = ps @ [b]" "plain b"
  shows "path_base s = b"
proof -
  note ls = last_slash [OF assms(1)]
  have b: "b \<noteq> []" "last b \<noteq> CHR ''/''"
    using assms(2) ls(1) by (auto simp: plain_def) (metis last_in_set)
  have "s \<noteq> [] \<and> last s \<noteq> CHR ''/''" using b ls(2,3) by (cases "ps = []") auto
  then have "dropWhile (\<lambda>c. c = CHR ''/'') (rev s) = rev s"
    by (cases s rule: rev_cases) auto
  moreover have "snd (path_split s) = b"
    using ls path_split_append [OF ls(1)] path_split_plain [OF ls(1)] by (cases "ps = []") auto
  ultimately show ?thesis using b \<open>s \<noteq> [] \<and> _\<close> by (simp add: path_base_def)
qed


subsection \<open>storage.go: FSStorage\<close>

text \<open>
  \<open>filedb.StorageConfig\<close> has the fields of the store's configuration but for the
  prefix length, which is not used here. The record \<open>file_env\<close> adds to the parameters of the
  store the JSON text of \<open>filedb.FileMetaInfo\<close>, the same struct without \<open>Finfo\<close>.
\<close>

record file_env =
  fe_cas :: cas_env
  fe_json :: "FileMetaInfo \<Rightarrow> bytes"
  fe_unjson :: "bytes \<Rightarrow> goerr + FileMetaInfo"

definition fs_DirBlobs :: string where "fs_DirBlobs = ''contents''"
definition fs_DirStoreTmp :: string where "fs_DirStoreTmp = ''desktop''"
definition fs_DirMetaInfo :: string where "fs_DirMetaInfo = ''metadata''"

definition NewFSStorage :: "StorageConfig \<Rightarrow> (fsys, StorageConfig) proc" where
  "NewFSStorage config =
     (if Workdir config = [] then fail (Errorf ''Invalid Workdir'')
      else
        let mkdir = (\<lambda>d k. attempt (os_mkdir_all (file_key (path_join [Workdir config, d])))
                       (\<lambda>err. fail (Wrap '' mkdir failed, '' err)) (\<lambda>_. k))
        in mkdir fs_DirBlobs (mkdir fs_DirMetaInfo (mkdir fs_DirStoreTmp
             (if Encrypt config \<and> Secret config = [] then fail (Errorf ''secret is empty'')
              else ret config))))"

definition getDatapath :: "StorageConfig \<Rightarrow> string \<Rightarrow> string" where
  "getDatapath c filename = path_join [Workdir c, fs_DirBlobs, filename]"

definition getMetapath :: "StorageConfig \<Rightarrow> string \<Rightarrow> string" where
  "getMetapath c filename = path_join [Workdir c, fs_DirMetaInfo, filename]"

definition FS_deleteData :: "StorageConfig \<Rightarrow> string \<Rightarrow> (fsys, unit) proc" where
  "FS_deleteData c filename = os_remove (file_key (path_join [Workdir c, fs_DirBlobs, filename]))"

definition FS_getMetainfo :: "file_env \<Rightarrow> StorageConfig \<Rightarrow> string \<Rightarrow> (fsys, FileMetaInfo) proc" where
  "FS_getMetainfo env c filename =
     andthen (os_read_file (file_key (path_join [Workdir c, fs_DirMetaInfo, filename]))) (\<lambda>metadata.
     lift_sum (fe_unjson env metadata))"

text \<open>The directory of the data file is made when it is missing.\<close>

definition FS_ensure_dir :: "fkey \<Rightarrow> (fsys, unit) proc" where
  "FS_ensure_dir prefixPath =
     attempt (os_stat prefixPath)
       (\<lambda>err. if is_not_exist err
              then attempt (os_mkdir_all prefixPath)
                     (\<lambda>err. fail (Wrap ''mkdir for file failed, '' err)) ret
              else ret ())
       (\<lambda>_. ret ())"

definition FS_storageData ::
  "file_env \<Rightarrow> StorageConfig \<Rightarrow> string \<Rightarrow> string \<Rightarrow> reader \<Rightarrow> (fsys, string) proc" where
  "FS_storageData env c tmp filename src =
     (let tmpPath = file_key (path_join [Workdir c, fs_DirStoreTmp, tmp])
      in attempt (os_create tmpPath)
           (\<lambda>err. fail (Wrap '' new store tmp for file failed, '' err)) (\<lambda>_.
         if Encrypt c \<and> \<not> aes_key_ok (Secret c)
         then fail (Wrap '' new encrypt for file failed, '' key_size_error)
         else attempt (io_copy (store_writer (fe_cas env) c tmpPath) new_writer src)
           (\<lambda>err. andthen (ignore_err (os_remove tmpPath))
                    (\<lambda>_. fail (Wrap ''copy data for file failed, '' err))) (\<lambda>w.
         let digestEnc = DigestWriter_Digest (fe_cas env) w;
             prefixPath = path_dir (getDatapath c filename)
         in andthen (FS_ensure_dir (file_key prefixPath)) (\<lambda>_.
            attempt (os_rename tmpPath (file_key (path_join [prefixPath, path_base filename])))
              (\<lambda>err. fail (Wrap ''move to target file failed, '' err)) (\<lambda>_.
            ret digestEnc)))))"

text \<open>A read of a map that may be \<open>nil\<close>.\<close>

definition ext_get :: "string gomap option \<Rightarrow> string \<Rightarrow> string" where
  "ext_get e k = (case e of None \<Rightarrow> [] | Some m \<Rightarrow> map_get m k)"

definition FS_Put ::
  "file_env \<Rightarrow> StorageConfig \<Rightarrow> string \<Rightarrow> string \<Rightarrow> string gomap option \<Rightarrow> reader \<Rightarrow> (fsys, string) proc" where
  "FS_Put env c tmp filename ext data =
     andthen (if ext_get ext ''deleted'' = ''true''
              then andthen (FS_deleteData c filename) (\<lambda>_. ret [])
              else FS_storageData env c tmp filename data) (\<lambda>digestEnc.
     let metadata = fe_json env \<lparr>Digest = digestEnc, Name = filename, Extend = ext\<rparr>;
         fullPath = getMetapath c filename
     in andthen (os_mkdir_all (file_key (path_dir fullPath))) (\<lambda>_.
        andthen (os_write_file (file_key fullPath) metadata) (\<lambda>_.
        ret digestEnc)))"

text \<open>\<open>metainfo.Extend["digest"] = metainfo.Digest\<close>, on a map that is made when it is \<open>nil\<close>.\<close>

definition with_digest :: "FileMetaInfo \<Rightarrow> string gomap" where
  "with_digest m = map_set ''digest'' (Digest m) (case Extend m of None \<Rightarrow> [] | Some e \<Rightarrow> e)"

text \<open>The bytes a reader over a stored file yields.\<close>

definition FS_open :: "file_env \<Rightarrow> StorageConfig \<Rightarrow> bytes \<Rightarrow> goerr + bytes" where
  "FS_open env c data =
     (if Encrypt c then
        if aes_key_ok (Secret c)
        then Inr (decrypt_all (ctr (fe_cas env) (Secret c)) 0 (copy_buffers (length data)) data)
        else Inl key_size_error
      else Inr data)"

definition FS_Get :: "file_env \<Rightarrow> StorageConfig \<Rightarrow> string \<Rightarrow> (fsys, string gomap \<times> bytes) proc" where
  "FS_Get env c filename =
     andthen (FS_getMetainfo env c filename) (\<lambda>metainfo.
     attempt (os_read_file (file_key (getDatapath c filename)))
       (\<lambda>err. fail (Wrap ''file Data Missing: '' err)) (\<lambda>data.
     andthen (lift_sum (FS_open env c data)) (\<lambda>reader.
     ret (with_digest metainfo, reader))))"

definition FS_Exists :: "file_env \<Rightarrow> StorageConfig \<Rightarrow> string \<Rightarrow> (fsys, string gomap) proc" where
  "FS_Exists env c filename =
     andthen (FS_getMetainfo env c filename) (\<lambda>metainfo.
     andthen (os_stat (file_key (getDatapath c filename))) (\<lambda>_.
     ret (with_digest metainfo)))"

text \<open>
  A tar archive under way is the list of its entries, name and content. The pairs
  of a map are visited in the order of the list; an error leaves an archive that no caller keeps.
\<close>

type_synonym tar = "(string \<times> bytes) list"

fun FS_Package :: "file_env \<Rightarrow> StorageConfig \<Rightarrow> tar \<Rightarrow> (string \<times> string) list \<Rightarrow> (fsys, tar) proc" where
  "FS_Package env c dst [] = ret dst"
| "FS_Package env c dst ((fullPath, filename) # pairs) =
     andthen (os_read_file (file_key (getDatapath c fullPath))) (\<lambda>data.
     andthen (lift_sum (FS_open env c data)) (\<lambda>reader.
     if length reader \<noteq> length data then fail (Errorf ''write data not correct'')
     else FS_Package env c (dst @ [(filename, reader)]) pairs))"

definition FS_GetByDigest :: "string \<Rightarrow> (fsys, bytes) proc" where
  "FS_GetByDigest digest = fail (Errorf ''not implement'')"

definition FS_DeleteByDigest :: "string \<Rightarrow> (fsys, unit) proc" where
  "FS_DeleteByDigest digest = fail (Errorf ''not implement'')"

subsection \<open>db.go: CASStorage and the interface StorageDriver\<close>

definition CAS_Put ::
  "file_env \<Rightarrow> StorageConfig \<Rightarrow> string \<Rightarrow> string \<Rightarrow> string gomap option \<Rightarrow> reader \<Rightarrow> (fsys, string) proc" where
  "CAS_Put env c tmp filepath ext data =
     Storage_Put (fe_cas env) c tmp \<lparr>Digest = [], Name = filepath, Extend = ext\<rparr> data"

definition CAS_Get :: "file_env \<Rightarrow> StorageConfig \<Rightarrow> string \<Rightarrow> (fsys, string gomap \<times> bytes) proc" where
  "CAS_Get env c filepath =
     andthen (Storage_Get (fe_cas env) c filepath) (\<lambda>(file, meta, _).
     ret (with_digest meta, file))"

definition CAS_Exists :: "file_env \<Rightarrow> StorageConfig \<Rightarrow> string \<Rightarrow> (fsys, string gomap) proc" where
  "CAS_Exists env c filepath = Storage_ExistPath (fe_cas env) c filepath"

definition CAS_GetByDigest :: "file_env \<Rightarrow> StorageConfig \<Rightarrow> string \<Rightarrow> (fsys, bytes) proc" where
  "CAS_GetByDigest env c digest = Storage_GetByDigest (fe_cas env) c digest"

fun CAS_Package :: "file_env \<Rightarrow> StorageConfig \<Rightarrow> tar \<Rightarrow> (string \<times> string) list \<Rightarrow> (fsys, tar) proc" where
  "CAS_Package env c dst [] = ret dst"
| "CAS_Package env c dst ((fullpath, filename) # pairs) =
     andthen (Storage_Get (fe_cas env) c fullpath) (\<lambda>(r, meta, size).
     if length r \<noteq> size then fail (Errorf ''write data not correct'')
     else CAS_Package env c (dst @ [(filename, r)]) pairs)"

text \<open>
  The methods of the interface. \<open>DeleteByDigest\<close> may never return (\<open>None\<close>): that is
  what the method of the content-addressed store does.
\<close>

record StorageDriver =
  drv_Put :: "string \<Rightarrow> string \<Rightarrow> string gomap option \<Rightarrow> reader \<Rightarrow> (fsys, string) proc"
  drv_Get :: "string \<Rightarrow> (fsys, string gomap \<times> bytes) proc"
  drv_GetByDigest :: "string \<Rightarrow> (fsys, bytes) proc"
  drv_DeleteByDigest :: "string \<Rightarrow> fsys \<Rightarrow> (unit outcome \<times> fsys) option"
  drv_Exists :: "string \<Rightarrow> (fsys, string gomap) proc"
  drv_Package :: "tar \<Rightarrow> (string \<times> string) list \<Rightarrow> (fsys, tar) proc"

definition CASStorage :: "file_env \<Rightarrow> StorageConfig \<Rightarrow> StorageDriver" where
  "CASStorage env c = \<lparr>drv_Put = CAS_Put env c, drv_Get = CAS_Get env c,
     drv_GetByDigest = CAS_GetByDigest env c, drv_DeleteByDigest = Storage_DeleteByDigest c,
     drv_Exists = CAS_Exists env c, drv_Package = CAS_Package env c\<rparr>"

definition FSStorage :: "file_env \<Rightarrow> StorageConfig \<Rightarrow> StorageDriver" where
  "FSStorage env c = \<lparr>drv_Put = FS_Put env c, drv_Get = FS_Get env c,
     drv_GetByDigest = FS_GetByDigest, drv_DeleteByDigest = (\<lambda>d fs. Some (FS_DeleteByDigest d fs)),
     drv_Exists = FS_Exists env c, drv_Package = FS_Package env c\<rparr>"

subsection \<open>db.go: FileDB\<close>

definition ConfigTopFolder :: string where "ConfigTopFolder = ''configv1''"
definition ConfigTemplateFolder :: string where "ConfigTemplateFolder = ''templatev1''"
definition ConfigPackageFolder :: string where "ConfigPackageFolder = ''packagev1''"
definition ConfigReplacementFolder :: string where "ConfigReplacementFolder = ''replacementv1''"
definition EncryptSecret :: string where "EncryptSecret = ''XSxHhsgsYfL928dv''"
definition ErrFilePathEmpty :: goerr where "ErrFilePathEmpty = Errorf ''Filepath is empty''"

record filedb_Config =
  db_Workdir :: string
  db_CasDisable :: bool

definition NewFileDB :: "file_env \<Rightarrow> filedb_Config \<Rightarrow> (fsys, StorageDriver) proc" where
  "NewFileDB env config =
     (let c = \<lparr>Workdir = db_Workdir config, PrefixLength = 0, Secret = EncryptSecret, Encrypt = True\<rparr>
      in if \<not> db_CasDisable config
         then andthen (NewStorage c) (\<lambda>casDriver. ret (CASStorage env casDriver))
         else andthen (NewFSStorage c) (\<lambda>driver. ret (FSStorage env driver)))"

definition GetFilePath :: "string \<Rightarrow> string \<Rightarrow> string \<Rightarrow> string \<Rightarrow> string" where
  "GetFilePath site namespace name version = path_join [ConfigTopFolder, site, namespace, name, version]"

definition GetTemplateFilePath :: "string \<Rightarrow> string \<Rightarrow> string \<Rightarrow> string" where
  "GetTemplateFilePath namespace name version = path_join [ConfigTemplateFolder, namespace, name, version]"

definition GetPackagePath :: "string \<Rightarrow> string \<Rightarrow> string" where
  "GetPackagePath site namespace = path_join [ConfigPackageFolder, site, namespace @ ''.tar.gz'']"

definition GetReplacementFilePath :: "string \<Rightarrow> string \<Rightarrow> string \<Rightarrow> string \<Rightarrow> string" where
  "GetReplacementFilePath site namespace name version =
     path_join [ConfigReplacementFolder, site, namespace, name, version]"

text \<open>An absent reader (\<open>nil\<close>) stores the empty content.\<close>

definition StoreRawFile ::
  "StorageDriver \<Rightarrow> string \<Rightarrow> string \<Rightarrow> string gomap option \<Rightarrow> reader option \<Rightarrow> (fsys, string) proc" where
  "StoreRawFile f tmp filepath ext data =
     drv_Put f tmp filepath ext (case data of None \<Rightarrow> string_reader [] | Some r \<Rightarrow> r)"

definition VisitRawFile :: "StorageDriver \<Rightarrow> string \<Rightarrow> (fsys, string gomap \<times> bytes) proc" where
  "VisitRawFile f filepath = drv_Get f filepath"

definition ExistsFile :: "StorageDriver \<Rightarrow> string \<Rightarrow> (fsys, string gomap) proc" where
  "ExistsFile f filepath = drv_Exists f filepath"

definition PackRawFiles :: "StorageDriver \<Rightarrow> tar option \<Rightarrow> (string \<times> string) list \<Rightarrow> (fsys, tar) proc" where
  "PackRawFiles f dst filePairs =
     (case dst of None \<Rightarrow> fail (Errorf ''invalid target tar'') | Some t \<Rightarrow> drv_Package f t filePairs)"

text \<open>The check every named operation begins with: the name without one leading slash.\<close>

definition with_name :: "string \<Rightarrow> (string \<Rightarrow> (fsys, 'a) proc) \<Rightarrow> (fsys, 'a) proc" where
  "with_name name k =
     (if name = [] then fail ErrFilePathEmpty
      else if hd name = CHR ''/'' then k (tl name) else k name)"

definition StoreConfig :: "StorageDriver \<Rightarrow> string \<Rightarrow> string \<Rightarrow> string \<Rightarrow> string \<Rightarrow> string
    \<Rightarrow> string gomap option \<Rightarrow> reader option \<Rightarrow> (fsys, string) proc" where
  "StoreConfig f tmp site namespace name version ext data =
     with_name name (\<lambda>name. StoreRawFile f tmp (GetFilePath site namespace name version) ext data)"

definition VisitConfig ::
  "StorageDriver \<Rightarrow> string \<Rightarrow> string \<Rightarrow> string \<Rightarrow> string \<Rightarrow> (fsys, string gomap \<times> bytes) proc" where
  "VisitConfig f site namespace name version =
     with_name name (\<lambda>name. VisitRawFile f (GetFilePath site namespace name version))"

definition ExistsConfig ::
  "StorageDriver \<Rightarrow> string \<Rightarrow> string \<Rightarrow> string \<Rightarrow> string \<Rightarrow> (fsys, string gomap) proc" where
  "ExistsConfig f site namespace name version = ExistsFile f (GetFilePath site namespace name version)"

definition StoreTemplate :: "StorageDriver \<Rightarrow> string \<Rightarrow> string \<Rightarrow> string \<Rightarrow> string
    \<Rightarrow> string gomap option \<Rightarrow> reader option \<Rightarrow> (fsys, string) proc" where
  "StoreTemplate f tmp namespace name version ext data =
     with_name name (\<lambda>name. StoreRawFile f tmp (GetTemplateFilePath namespace name version) ext data)"

definition VisitTemplate ::
  "StorageDriver \<Rightarrow> string \<Rightarrow> string \<Rightarrow> string \<Rightarrow> (fsys, string gomap \<times> bytes) proc" where
  "VisitTemplate f namespace name version =
     with_name name (\<lambda>name. VisitRawFile f (GetTemplateFilePath namespace name version))"

definition StoreReplacement :: "StorageDriver \<Rightarrow> string \<Rightarrow> string \<Rightarrow> string \<Rightarrow> string \<Rightarrow> string
    \<Rightarrow> string gomap option \<Rightarrow> reader option \<Rightarrow> (fsys, string) proc" where
  "StoreReplacement f tmp site namespace name version ext data =
     with_name name (\<lambda>name.
       StoreRawFile f tmp (GetReplacementFilePath site namespace name version) ext data)"

definition VisitReplacement ::
  "StorageDriver \<Rightarrow> string \<Rightarrow> string \<Rightarrow> string \<Rightarrow> string \<Rightarrow> (fsys, string gomap \<times> bytes) proc" where
  "VisitReplacement f site namespace name version =
     with_name name (\<lambda>name. VisitRawFile f (GetReplacementFilePath site namespace name version))"

definition StorePackage :: "StorageDriver \<Rightarrow> string \<Rightarrow> string \<Rightarrow> string \<Rightarrow> reader option \<Rightarrow> (fsys, string) proc" where
  "StorePackage f tmp site namespace data = StoreRawFile f tmp (GetPackagePath site namespace) None data"

definition VisitPackage :: "StorageDriver \<Rightarrow> string \<Rightarrow> string \<Rightarrow> (fsys, string \<times> bytes) proc" where
  "VisitPackage f site namespace =
     andthen (VisitRawFile f (GetPackagePath site namespace)) (\<lambda>(meta, r). ret (map_get meta ''digest'', r))"

definition VisitPackageByDigest :: "StorageDriver \<Rightarrow> string \<Rightarrow> (fsys, bytes) proc" where
  "VisitPackageByDigest f digest = drv_GetByDigest f digest"

definition CleanPackageDirtyData ::
  "StorageDriver \<Rightarrow> string \<Rightarrow> string \<Rightarrow> string \<Rightarrow> fsys \<Rightarrow> (unit outcome \<times> fsys) option" where
  "CleanPackageDirtyData f site namespace digest fs =
     (case drv_Exists f (GetPackagePath site namespace) fs of
        (Err err, fs') \<Rightarrow> Some (Err err, fs')
      | (Panic, fs') \<Rightarrow> Some (Panic, fs')
      | (Ok meta, fs') \<Rightarrow>
          if map_get meta ''digest'' \<noteq> digest then drv_DeleteByDigest f digest fs'
          else Some (Ok (), fs'))"

end
