(* ===== verification/File_Store.thy ===== *)
theory File_Store
  imports File_DB
begin

section \<open>The contract of a storage driver\<close>

text \<open>
  The locale \<open>file_store\<close> is what \<open>FileDB\<close> needs of a \<open>StorageDriver\<close>: what was
  put under a path is what \<open>Get\<close> of that path returns until something is put under it
  again. Both drivers, \<open>CASStorage\<close> and \<open>FSStorage\<close>, satisfy it (\<open>sublocale\<close>), so the
  operations of \<open>FileDB\<close> are proved once. The rest is about the path names: which
  configs they keep apart, and which they do not.
\<close>

subsection \<open>Path names\<close>

lemma path_join_plain:
  assumes "list_all plain_rel ps" "ps \<noteq> []"
  shows "path_join ps = join_with ''/'' ps"
proof -
  have ne: "\<forall>p\<in>set ps. p \<noteq> []" using assms(1) by (auto simp: list_all_iff dest: plain_rel_nonempty)
  let ?j = "join_with ''/'' ps"
  have sp: "split_on CHR ''/'' ?j = concat (map (split_on CHR ''/'') ps)"
    using split_on_join_concat [OF assms(2)] by simp
  have pl: "list_all plain (concat (map (split_on CHR ''/'') ps))"
    using assms(1) by (induction ps) (auto simp: plain_rel_def)
  obtain p qs where ps: "ps = p # qs" using assms(2) by (cases ps) auto
  have "plain (hd (split_on CHR ''/'' p))"
    using assms(1) ps by (auto simp: plain_rel_def list_all_iff)
  moreover have "hd p \<noteq> CHR ''/''" if "plain (hd (split_on CHR ''/'' p))"
    using that ne ps by (cases p) (auto simp: plain_def split: if_splits)
  ultimately have "\<not> rooted ?j"
    using ne ps by (cases qs) (auto simp: rooted_def hd_append)
  then have key: "file_key ?j = split_on CHR ''/'' ?j"
    using pl sp by (simp add: file_key_def clean_comps_plain)
  have "path_join ps = path_clean ?j"
    using ne ps by (simp add: path_join_def)
  also have "\<dots> = ?j"
    using key \<open>\<not> rooted ?j\<close> by (simp add: path_clean_def)
  finally show ?thesis .
qed

lemma plain_rel_join:
  assumes "list_all plain_rel ps" "ps \<noteq> []"
  shows "plain_rel (join_with ''/'' ps)"
proof -
  have "list_all plain (concat (map (split_on CHR ''/'') ps))"
    using assms(1) by (induction ps) (auto simp: plain_rel_def)
  with assms(2) show ?thesis by (simp add: plain_rel_def split_on_join_concat)
qed

lemma parts_join: "ps \<noteq> [] \<Longrightarrow> parts (join_with ''/'' ps) = concat (map parts ps)"
  by (simp add: parts_def [abs_def] split_on_join_concat)

lemma folders_plain [simp]: "plain ConfigTopFolder" "plain ConfigTemplateFolder"
  "plain ConfigPackageFolder" "plain ConfigReplacementFolder"
  by (simp_all add: plain_def ConfigTopFolder_def ConfigTemplateFolder_def ConfigPackageFolder_def
      ConfigReplacementFolder_def)

lemma folders_utf8 [simp]: "utf8 ConfigTopFolder" "utf8 ConfigTemplateFolder"
  "utf8 ConfigPackageFolder" "utf8 ConfigReplacementFolder"
  by (simp_all add: utf8_def ConfigTopFolder_def ConfigTemplateFolder_def ConfigPackageFolder_def
      ConfigReplacementFolder_def)

text \<open>The identity of a stored config: plain site, namespace and version, a plain relative name.\<close>

definition config_id_ok :: "string \<Rightarrow> string \<Rightarrow> string \<Rightarrow> string \<Rightarrow> bool" where
  "config_id_ok site namespace name version \<longleftrightarrow>
     plain site \<and> plain namespace \<and> plain_rel name \<and> plain version
     \<and> utf8 site \<and> utf8 namespace \<and> utf8 name \<and> utf8 version"

lemma GetFilePath_parts:
  assumes "config_id_ok s n f v"
  shows "plain_rel (GetFilePath s n f v)" "utf8 (GetFilePath s n f v)"
    "parts (GetFilePath s n f v) = [ConfigTopFolder, s, n] @ parts f @ [v]"
  using assms
  by (simp_all add: config_id_ok_def GetFilePath_def path_join_plain plain_imp_rel
      plain_rel_join [of "[ConfigTopFolder, s, n, f, v]", simplified]
      utf8_join [of "[ConfigTopFolder, s, n, f, v]", simplified]
      parts_join [of "[ConfigTopFolder, s, n, f, v]", simplified] plain_parts)

lemma GetTemplateFilePath_parts:
  assumes "config_id_ok n n f v"
  shows "plain_rel (GetTemplateFilePath n f v)" "utf8 (GetTemplateFilePath n f v)"
    "parts (GetTemplateFilePath n f v) = [ConfigTemplateFolder, n] @ parts f @ [v]"
  using assms
  by (simp_all add: config_id_ok_def GetTemplateFilePath_def path_join_plain plain_imp_rel
      plain_rel_join [of "[ConfigTemplateFolder, n, f, v]", simplified]
      utf8_join [of "[ConfigTemplateFolder, n, f, v]", simplified]
      parts_join [of "[ConfigTemplateFolder, n, f, v]", simplified] plain_parts)

lemma GetFilePath_inject:
  assumes "config_id_ok s n f v" "config_id_ok s' n' f' v'"
  shows "GetFilePath s n f v = GetFilePath s' n' f' v' \<longleftrightarrow> s = s' \<and> n = n' \<and> f = f' \<and> v = v'"
  using GetFilePath_parts(3) [OF assms(1)] GetFilePath_parts(3) [OF assms(2)]
  by (auto intro: parts_inject)

lemma config_not_template:
  assumes "config_id_ok s n f v" "config_id_ok n' n' f' v'"
  shows "GetFilePath s n f v \<noteq> GetTemplateFilePath n' f' v'"
  using GetFilePath_parts(3) [OF assms(1)] GetTemplateFilePath_parts(3) [OF assms(2)]
  by (auto simp: ConfigTopFolder_def ConfigTemplateFolder_def)

subsection \<open>The interface\<close>

definition ext_ok :: "string gomap option \<Rightarrow> bool" where
  "ext_ok e \<longleftrightarrow> (case e of None \<Rightarrow> True | Some m \<Rightarrow>
     distinct (map fst m) \<and> list_all (\<lambda>(k, v). utf8 k \<and> utf8 v) m)"

definition path_ok :: "string \<Rightarrow> bool" where
  "path_ok p \<longleftrightarrow> plain_rel p \<and> utf8 p"

definition ext_map :: "string gomap option \<Rightarrow> string gomap" where
  "ext_map e = (case e of None \<Rightarrow> [] | Some m \<Rightarrow> m)"

locale file_store =
  fixes D :: StorageDriver
    and ok :: "fsys \<Rightarrow> bool"
    and fresh :: "bytes \<Rightarrow> fsys \<Rightarrow> bool"
    and digest :: "bytes \<Rightarrow> string"
    and holds :: "string \<Rightarrow> string gomap option \<Rightarrow> bytes \<Rightarrow> fsys \<Rightarrow> bool"
  assumes put_holds: "drv_Put D t p e (cs, err) fs = (Ok d, fs') \<Longrightarrow> ok fs \<Longrightarrow> path_ok p \<Longrightarrow> plain t
      \<Longrightarrow> ext_get e ''deleted'' \<noteq> ''true'' \<Longrightarrow> fresh (concat cs) fs
      \<Longrightarrow> holds p e (concat cs) fs' \<and> d = digest (concat cs)"
    and put_keeps: "drv_Put D t p' e' src fs = (r, fs') \<Longrightarrow> path_ok p' \<Longrightarrow> plain t
      \<Longrightarrow> p' \<noteq> p \<Longrightarrow> holds p e x fs \<Longrightarrow> holds p e x fs'"
    and put_ok: "drv_Put D t p e src fs = (r, fs') \<Longrightarrow> path_ok p \<Longrightarrow> plain t \<Longrightarrow> ok fs \<Longrightarrow> ok fs'"
    and get_holds: "holds p e x fs \<Longrightarrow> path_ok p \<Longrightarrow> ext_ok e
      \<Longrightarrow> drv_Get D p fs = (Ok (map_set ''digest'' (digest x) (ext_map e), x), fs)"

text \<open>The writes of a history: configs and templates, each under its identity.\<close>

datatype store_op =
    Op_config string string string string string "string gomap option" reader
  | Op_template string string string string "string gomap option" reader

fun run_op :: "StorageDriver \<Rightarrow> store_op \<Rightarrow> (fsys, string) proc" where
  "run_op f (Op_config t s n name v e src) = StoreConfig f t s n name v e (Some src)"
| "run_op f (Op_template t n name v e src) = StoreTemplate f t n name v e (Some src)"

text \<open>The name of a store operation: without its leading slash.\<close>

definition base_name :: "string \<Rightarrow> string" where
  "base_name name = (if name \<noteq> [] \<and> hd name = CHR ''/'' then tl name else name)"

fun op_ok :: "store_op \<Rightarrow> bool" where
  "op_ok (Op_config t s n name v e src) \<longleftrightarrow> plain t \<and> config_id_ok s n (base_name name) v"
| "op_ok (Op_template t n name v e src) \<longleftrightarrow> plain t \<and> config_id_ok n n (base_name name) v"

text \<open>The operation writes another config than the one named.\<close>

fun op_other :: "string \<Rightarrow> string \<Rightarrow> string \<Rightarrow> string \<Rightarrow> store_op \<Rightarrow> bool" where
  "op_other s n name v (Op_config t s' n' name' v' e src) \<longleftrightarrow>
     (s', n', base_name name', v') \<noteq> (s, n, base_name name, v)"
| "op_other s n name v (Op_template t n' name' v' e src) \<longleftrightarrow> True"

fun run_ops :: "StorageDriver \<Rightarrow> store_op list \<Rightarrow> fsys \<Rightarrow> fsys" where
  "run_ops f [] fs = fs"
| "run_ops f (op # ops) fs = run_ops f ops (snd (run_op f op fs))"

lemma with_name_base:
  "with_name name k = (if name = [] then fail ErrFilePathEmpty else k (base_name name))"
  by (simp add: with_name_def base_name_def)

lemma config_id_nonempty: "config_id_ok s n (base_name name) v \<Longrightarrow> name \<noteq> []"
  by (auto simp: config_id_ok_def base_name_def plain_rel_def plain_def)

context file_store
begin

lemma op_keeps:
  assumes "holds (GetFilePath s n (base_name name) v) e x fs"
    and "config_id_ok s n (base_name name) v" "op_ok op" "op_other s n name v op"
  shows "holds (GetFilePath s n (base_name name) v) e x (snd (run_op D op fs))"
proof (cases op)
  case (Op_config t s' n' name' v' e' src)
  let ?p = "GetFilePath s' n' (base_name name') v'"
  have id: "config_id_ok s' n' (base_name name') v'" "plain t" using assms(3) Op_config by auto
  have "?p \<noteq> GetFilePath s n (base_name name) v"
    using GetFilePath_inject [OF id(1) assms(2)] assms(4) Op_config by auto
  moreover have "run_op D op fs = drv_Put D t ?p e' src fs"
    using config_id_nonempty [OF id(1)] Op_config
    by (simp add: StoreConfig_def StoreRawFile_def with_name_base)
  ultimately show ?thesis
    using put_keeps [OF prod.collapse [symmetric] _ id(2) _ assms(1)] GetFilePath_parts [OF id(1)]
    by (simp add: path_ok_def)
next
  case (Op_template t n' name' v' e' src)
  let ?p = "GetTemplateFilePath n' (base_name name') v'"
  have id: "config_id_ok n' n' (base_name name') v'" "plain t" using assms(3) Op_template by auto
  have "?p \<noteq> GetFilePath s n (base_name name) v"
    using config_not_template [OF assms(2) id(1)] by metis
  moreover have "run_op D op fs = drv_Put D t ?p e' src fs"
    using config_id_nonempty [OF id(1)] Op_template
    by (simp add: StoreTemplate_def StoreRawFile_def with_name_base)
  ultimately show ?thesis
    using put_keeps [OF prod.collapse [symmetric] _ id(2) _ assms(1)] GetTemplateFilePath_parts [OF id(1)]
    by (simp add: path_ok_def)
qed

lemma ops_keep:
  assumes "holds (GetFilePath s n (base_name name) v) e x fs"
    and "config_id_ok s n (base_name name) v" "\<forall>op\<in>set ops. op_ok op \<and> op_other s n name v op"
  shows "holds (GetFilePath s n (base_name name) v) e x (run_ops D ops fs)"
  using assms(1,3) by (induction ops arbitrary: fs) (auto intro: op_keeps assms(2))

text \<open>A stored config is read back after any writes of other configs and of templates.\<close>

lemma store_visit_config:
  assumes "StoreConfig D t s n name v e (Some (cs, err)) fs = (Ok d, fs1)"
    and "config_id_ok s n (base_name name) v" "plain t" "ext_ok e" "ext_get e ''deleted'' \<noteq> ''true''"
    and "ok fs" "fresh (concat cs) fs"
    and "\<forall>op\<in>set ops. op_ok op \<and> op_other s n name v op"
  shows "d = digest (concat cs)"
    and "VisitConfig D s n name v (run_ops D ops fs1)
      = (Ok (map_set ''digest'' d (ext_map e), concat cs), run_ops D ops fs1)"
proof -
  let ?p = "GetFilePath s n (base_name name) v"
  have ne: "name \<noteq> []" by (rule config_id_nonempty [OF assms(2)])
  have p: "path_ok ?p" using GetFilePath_parts [OF assms(2)] by (simp add: path_ok_def)
  have "drv_Put D t ?p e (cs, err) fs = (Ok d, fs1)"
    using assms(1) ne by (simp add: StoreConfig_def StoreRawFile_def with_name_base)
  from put_holds [OF this assms(6) p assms(3,5,7)] have h: "holds ?p e (concat cs) fs1" "d = digest (concat cs)"
    by blast+
  then show "d = digest (concat cs)" by blast
  show "VisitConfig D s n name v (run_ops D ops fs1)
      = (Ok (map_set ''digest'' d (ext_map e), concat cs), run_ops D ops fs1)"
    using get_holds [OF ops_keep [OF h(1) assms(2,8)] p assms(4)] ne h(2)
    by (simp add: VisitConfig_def VisitRawFile_def with_name_base)
qed

end


subsection \<open>The driver over the content-addressed store\<close>

locale file_laws =
  fixes env :: file_env and c :: StorageConfig
  assumes cas: "cas_laws (fe_cas env)"
    and fs_json: "utf8_meta m \<Longrightarrow> fe_unjson env (fe_json env m) = Inr m"
    and workdir: "Workdir c \<noteq> []"

definition file_meta :: "string \<Rightarrow> string \<Rightarrow> string gomap option \<Rightarrow> FileMetaInfo" where
  "file_meta d p e = \<lparr>Digest = d, Name = p, Extend = e\<rparr>"

definition key_valid :: "StorageConfig \<Rightarrow> bool" where
  "key_valid c \<longleftrightarrow> (Encrypt c \<longrightarrow> aes_key_ok (Secret c))"

definition cas_holds :: "file_env \<Rightarrow> StorageConfig \<Rightarrow> string \<Rightarrow> string gomap option \<Rightarrow> bytes \<Rightarrow> fsys \<Rightarrow> bool" where
  "cas_holds env c p e x fs \<longleftrightarrow> stored (fe_cas env) c (file_meta [] p e) x fs \<and> key_valid c"

definition cas_fresh :: "file_env \<Rightarrow> StorageConfig \<Rightarrow> bytes \<Rightarrow> fsys \<Rightarrow> bool" where
  "cas_fresh env c x fs \<longleftrightarrow> no_collision (fe_cas env) c fs (sealed (fe_cas env) c x)"

lemma file_meta_simps [simp]:
  "Name (file_meta d p e) = p" "Digest (file_meta d p e) = d" "Extend (file_meta d p e) = e"
  "file_meta d p e\<lparr>Digest := d'\<rparr> = file_meta d' p e"
  by (simp_all add: file_meta_def)

lemma file_meta_utf8: "path_ok p \<Longrightarrow> ext_ok e \<Longrightarrow> utf8 d \<Longrightarrow> utf8_meta (file_meta d p e)"
  by (auto simp: utf8_meta_def path_ok_def ext_ok_def split: option.splits)

lemma with_digest_meta: "with_digest (file_meta d p e) = map_set ''digest'' d (ext_map e)"
  by (simp add: with_digest_def ext_map_def)

lemma CASStorage_simps [simp]:
  "drv_Put (CASStorage env c) t p e src = Storage_Put (fe_cas env) c t (file_meta [] p e) src"
  "drv_Get (CASStorage env c) = CAS_Get env c"
  "drv_Exists (CASStorage env c) p = Storage_ExistPath (fe_cas env) c p"
  "drv_DeleteByDigest (CASStorage env c) = Storage_DeleteByDigest c"
  "drv_Package (CASStorage env c) = CAS_Package env c"
  by (simp_all add: CASStorage_def CAS_Put_def CAS_Exists_def file_meta_def)

sublocale file_laws \<subseteq> cas: file_store "CASStorage env c" "cas_ok (fe_cas env) c" "cas_fresh env c"
  "digest_of (fe_cas env) c" "cas_holds env c"
proof
  fix t p e cs err fs d fs' p' e' src r x
  show "cas_holds env c p e (concat cs) fs' \<and> d = digest_of (fe_cas env) c (concat cs)"
    if "drv_Put (CASStorage env c) t p e (cs, err) fs = (Ok d, fs')" "cas_ok (fe_cas env) c fs"
      "path_ok p" "plain t" "cas_fresh env c (concat cs) fs"
    using cas_laws.Put_stored [OF cas, of c t "file_meta [] p e"] that workdir
    by (auto simp: cas_holds_def cas_fresh_def key_valid_def names_ok_def path_ok_def)
  show "cas_holds env c p e x fs'"
    if "drv_Put (CASStorage env c) t p' e' src fs = (r, fs')" "path_ok p'" "plain t" "p' \<noteq> p"
      "cas_holds env c p e x fs"
    using cas_laws.Put_keeps_stored [OF cas, of c t "file_meta [] p' e'" "fst src" "snd src" fs r fs' "file_meta [] p e" x]
      that workdir by (auto simp: cas_holds_def names_ok_def path_ok_def)
  show "cas_ok (fe_cas env) c fs'"
    if "drv_Put (CASStorage env c) t p e src fs = (r, fs')" "path_ok p" "plain t" "cas_ok (fe_cas env) c fs"
    using cas_laws.Put_cas_ok [OF cas, of c t "file_meta [] p e" "fst src" "snd src" fs r fs'] that workdir
    by (auto simp: names_ok_def path_ok_def)
  show "drv_Get (CASStorage env c) p fs
      = (Ok (map_set ''digest'' (digest_of (fe_cas env) c x) (ext_map e), x), fs)"
    if "cas_holds env c p e x fs" "path_ok p" "ext_ok e"
    using cas_laws.Get_stored [OF cas, of c "file_meta [] p e" x fs] that workdir file_meta_utf8 [of p e "[]"]
    by (auto simp: cas_holds_def key_valid_def path_ok_def CAS_Get_def andthen_run ret_run utf8_def
        read_back_def with_digest_def ext_map_def split: option.splits)
qed


subsection \<open>The driver that keeps files under their names\<close>

definition data_key :: "fkey \<Rightarrow> string \<Rightarrow> fkey" where
  "data_key W p = W @ fs_DirBlobs # parts p"

definition fsmeta_key :: "fkey \<Rightarrow> string \<Rightarrow> fkey" where
  "fsmeta_key W p = W @ fs_DirMetaInfo # parts p"

definition desk_key :: "fkey \<Rightarrow> string \<Rightarrow> fkey" where
  "desk_key W t = W @ [fs_DirStoreTmp, t]"

definition fs_holds :: "file_env \<Rightarrow> StorageConfig \<Rightarrow> string \<Rightarrow> string gomap option \<Rightarrow> bytes \<Rightarrow> fsys \<Rightarrow> bool" where
  "fs_holds env c p e x fs \<longleftrightarrow>
     fs (data_key (file_key (Workdir c)) p) = Some (File (sealed (fe_cas env) c x))
   \<and> fs (fsmeta_key (file_key (Workdir c)) p)
       = Some (File (fe_json env (file_meta (digest_of (fe_cas env) c x) p e)))
   \<and> key_valid c"

lemma fs_dirs [simp]: "plain fs_DirBlobs" "plain fs_DirStoreTmp" "plain fs_DirMetaInfo"
  "fs_DirBlobs \<noteq> fs_DirMetaInfo" "fs_DirBlobs \<noteq> fs_DirStoreTmp" "fs_DirMetaInfo \<noteq> fs_DirStoreTmp"
  by (simp_all add: plain_def fs_DirBlobs_def fs_DirStoreTmp_def fs_DirMetaInfo_def)

lemma fs_keys_distinct [simp]:
  "desk_key W t \<noteq> data_key W p" "desk_key W t \<noteq> fsmeta_key W p" "data_key W p \<noteq> fsmeta_key W q"
  "data_key W p \<noteq> desk_key W t" "fsmeta_key W p \<noteq> desk_key W t" "fsmeta_key W q \<noteq> data_key W p"
  "data_key W p = data_key W q \<longleftrightarrow> p = q" "fsmeta_key W p = fsmeta_key W q \<longleftrightarrow> p = q"
  using fs_dirs(4-6) fs_dirs(4-6) [symmetric]
  by (auto simp: desk_key_def data_key_def fsmeta_key_def intro: parts_inject)

lemma fs_paths:
  assumes "Workdir c \<noteq> []" "W = file_key (Workdir c)"
  shows "plain t \<Longrightarrow> file_key (path_join [Workdir c, fs_DirStoreTmp, t]) = desk_key W t"
    and "plain_rel p \<Longrightarrow> file_key (path_join [Workdir c, fs_DirBlobs, p]) = data_key W p"
    and "plain_rel p \<Longrightarrow> file_key (path_join [Workdir c, fs_DirMetaInfo, p]) = fsmeta_key W p"
  using assms by (simp_all add: file_key_join plain_imp_rel plain_parts desk_key_def data_key_def fsmeta_key_def)

lemma plain_rel_last:
  assumes "plain_rel p"
  shows "plain (last (parts p))" "parts p = butlast (parts p) @ [last (parts p)]"
    "path_base p = last (parts p)"
proof -
  show l: "plain (last (parts p))" using assms by (simp add: plain_rel_def parts_def list_all_iff)
  show e: "parts p = butlast (parts p) @ [last (parts p)]" by simp
  show "path_base p = last (parts p)"
    using path_base_plain [of p "butlast (parts p)" "last (parts p)"] l e by (simp add: parts_def)
qed

lemma fs_dir_paths:
  assumes "Workdir c \<noteq> []" "W = file_key (Workdir c)" "plain_rel p"
  shows "file_key (path_dir (getDatapath c p)) = butlast (data_key W p)"
    and "file_key (path_dir (getMetapath c p)) = butlast (fsmeta_key W p)"
    and "file_key (path_join [path_dir (getDatapath c p), path_base p]) = data_key W p"
proof -
  note last = plain_rel_last [OF assms(3)]
  have dir: "file_key (path_dir (path_join [Workdir c, d, p])) = W @ d # butlast (parts p)" if "plain d" for d
  proof -
    let ?j = "join_with ''/'' [Workdir c, d, p]"
    have pj: "path_join [Workdir c, d, p] = path_clean ?j" using assms(1) by (simp add: path_join_def)
    have "file_key ?j = W @ d # parts p"
      using file_key_join [of "Workdir c" "[d, p]"] assms that
      by (simp add: pj plain_imp_rel plain_parts)
    then have "file_key ?j = (W @ d # butlast (parts p)) @ [last (parts p)]" using last(2) by simp
    from file_key_dir [OF this last(1)] pj show ?thesis by simp
  qed
  show d1: "file_key (path_dir (getDatapath c p)) = butlast (data_key W p)"
    using dir [of fs_DirBlobs] by (simp add: getDatapath_def data_key_def butlast_append)
  show "file_key (path_dir (getMetapath c p)) = butlast (fsmeta_key W p)"
    using dir [of fs_DirMetaInfo] by (simp add: getMetapath_def fsmeta_key_def butlast_append)
  have "path_dir (getDatapath c p) \<noteq> []" by (simp add: path_dir_def)
  then have "file_key (path_join [path_dir (getDatapath c p), path_base p]) = butlast (data_key W p) @ [last (parts p)]"
    using file_key_join [of "path_dir (getDatapath c p)" "[path_base p]"] last d1
    by (simp add: plain_imp_rel plain_parts)
  also have "\<dots> = data_key W p"
    using last(2) by (simp add: data_key_def butlast_append)
  finally show "file_key (path_join [path_dir (getDatapath c p), path_base p]) = data_key W p" .
qed

lemma FS_storageData_spec:
  assumes run: "FS_storageData env c t p (cs, e) fs = (r, fs')"
    and c: "Workdir c \<noteq> []" "W = file_key (Workdir c)" and n: "plain t" "plain_rel p"
  shows "grows fs fs' {desk_key W t, data_key W p} \<and> r \<noteq> Panic
    \<and> (\<forall>d. r = Ok d \<longrightarrow> key_valid c \<and> d = digest_of (fe_cas env) c (concat cs)
          \<and> fs' (data_key W p) = Some (File (sealed (fe_cas env) c (concat cs))))"
    (is "?post r fs'")
proof -
  let ?T = "desk_key W t" and ?D = "data_key W p" and ?x = "sealed (fe_cas env) c (concat cs)"
  let ?wr = "store_writer (fe_cas env) c ?T"
  note T = fs_paths(1) [OF c n(1)] and dirs = fs_dir_paths [OF c n(2)]
  obtain r1 fs1 where cr: "os_create ?T fs = (r1, fs1)" by fastforce
  then consider "r1 = Ok ()" "fs1 = fs(?T \<mapsto> File [])" | "r1 = Err (PathError ''open'')" "fs1 = fs"
    using os_write_file_cases unfolding os_create_def by blast
  then show ?thesis
  proof cases
    case 2
    with cr T run show ?thesis by (auto simp: FS_storageData_def Let_def attempt_run fail_run)
  next
    case 1
    then have T1: "fs1 ?T = Some (File [])" and g1: "grows fs fs1 {?T, ?D}" by (auto intro: grows_upd)
    show ?thesis
    proof (cases "Encrypt c \<and> \<not> aes_key_ok (Secret c)")
      case True
      with cr T 1 run g1 show ?thesis by (auto simp: FS_storageData_def Let_def attempt_run fail_run)
    next
      case key: False
      show ?thesis
      proof (cases e)
        case (Some err)
        from io_copy_error [where fs = fs1 and k = ?T, OF T1] obtain y where
          y: "io_copy ?wr new_writer (cs, Some err) fs1 = (Err err, fs1(?T \<mapsto> File y))" by blast
        obtain r2 fs2 where rm: "os_remove ?T (fs1(?T \<mapsto> File y)) = (r2, fs2)" by fastforce
        have "r = Err (Wrap ''copy data for file failed, '' err)" "fs' = fs2"
          using run cr T 1(1) y rm Some os_remove_cases [OF rm]
          by (auto simp: FS_storageData_def Let_def if_not_P [OF key] attempt_run andthen_run
              ignore_err_def fail_run ret_run simp del: fun_upd_apply)
        with os_remove_cases [OF rm] 1(2) show ?thesis by (auto simp: grows_def)
      next
        case None
        from io_copy_sealed [where fs = fs1 and k = ?T, OF T1] obtain w where
          w: "io_copy ?wr new_writer (cs, None) fs1 = (Ok w, fs1(?T \<mapsto> File ?x))" "w_hashed w = ?x"
          by blast
        define fs2 where "fs2 = fs1(?T \<mapsto> File ?x)"
        obtain r3 fs3 where m: "FS_ensure_dir (butlast ?D) fs2 = (r3, fs3)" by fastforce
        have mks: "(fs3 = fs2 \<or> (\<exists>q. os_mkdir_all (butlast ?D) fs2 = (q, fs3))) \<and> r3 \<noteq> Panic"
          using m unfolding FS_ensure_dir_def
          by (auto simp: attempt_def ret_def fail_def os_mkdir_all_def os_stat_def
              split: outcome.splits option.splits if_splits prod.splits)
        have g2: "grows fs fs2 {?T, ?D}" unfolding fs2_def using g1 by (auto intro: grows_trans grows_upd)
        have g23: "grows fs2 fs3 {?D}" using mks by (auto intro: os_mkdir_all_grows)
        have g3: "grows fs fs3 {?T, ?D}" using grows_trans [OF g2 grows_mono [OF g23]] by simp
        have T3: "fs3 ?T = Some (File ?x)" by (rule grows_file [OF g23]) (simp_all add: fs2_def)
        obtain r4 fs4 where rn: "os_rename ?T ?D fs3 = (r4, fs4)" by fastforce
        have step: "FS_storageData env c t p (cs, e) fs
            = (case r3 of Ok _ \<Rightarrow> (case r4 of Ok _ \<Rightarrow> (Ok (sha256_hex (fe_cas env) ?x), fs4)
                  | Err e \<Rightarrow> (Err (Wrap ''move to target file failed, '' e), fs4) | Panic \<Rightarrow> (Panic, fs4))
               | Err e \<Rightarrow> (Err e, fs3) | Panic \<Rightarrow> (Panic, fs3))"
          using cr T 1(1) w(1) m rn None dirs(1,3) unfolding fs2_def
          by (simp add: FS_storageData_def Let_def if_not_P [OF key] attempt_run [of "os_create _"]
              attempt_run [of "io_copy _ _ _"] andthen_run [of "FS_ensure_dir _"]
              attempt_run [of "os_rename _ _"] DigestWriter_Digest_def w(2) fail_run ret_run
              split: outcome.splits)
        have g4: "grows fs fs4 {?T, ?D}"
          using os_rename_cases [OF rn] g3 grows_trans [OF g3 grows_trans [OF grows_upd grows_upd]] by blast
        show ?thesis
          using step run mks g3 g4 os_rename_cases [OF rn] T3 key
          by (auto simp: digest_of_def key_valid_def simp del: fun_upd_apply simp: fun_upd_same split: outcome.splits)
      qed
    qed
  qed
qed


lemma FS_Put_spec:
  assumes run: "FS_Put env c t p e (cs, err) fs = (r, fs')"
    and c: "Workdir c \<noteq> []" "W = file_key (Workdir c)" and n: "plain t" "plain_rel p"
  shows "grows fs fs' {desk_key W t, data_key W p, fsmeta_key W p}"
    and "r \<noteq> Panic"
    and "r = Ok d \<Longrightarrow> ext_get e ''deleted'' \<noteq> ''true''
      \<Longrightarrow> fs_holds env c p e (concat cs) fs' \<and> d = digest_of (fe_cas env) c (concat cs)"
proof -
  let ?T = "desk_key W t" and ?D = "data_key W p" and ?M = "fsmeta_key W p"
  let ?K = "{?T, ?D, ?M}" and ?del = "ext_get e ''deleted'' = ''true''"
  note dirs = fs_dir_paths [OF c n(2)] and paths = fs_paths(2,3) [OF c n(2)]
  define step1 where "step1 = (if ?del then andthen (FS_deleteData c p) (\<lambda>_. ret [])
      else FS_storageData env c t p (cs, err))"
  obtain r1 fs1 where s1: "step1 fs = (r1, fs1)" by fastforce
  have P1: "grows fs fs1 ?K \<and> r1 \<noteq> Panic \<and> (\<forall>d. r1 = Ok d \<and> \<not> ?del \<longrightarrow> key_valid c
      \<and> d = digest_of (fe_cas env) c (concat cs)
      \<and> fs1 ?D = Some (File (sealed (fe_cas env) c (concat cs))))"
  proof (cases ?del)
    case True
    obtain r2 fs2 where "os_remove ?D fs = (r2, fs2)" by fastforce
    with True s1 os_remove_cases [OF this] paths show ?thesis
      by (auto simp: step1_def FS_deleteData_def andthen_run ret_run intro: grows_upd)
  next
    case False
    then have "FS_storageData env c t p (cs, err) fs = (r1, fs1)" using s1 by (simp add: step1_def)
    from FS_storageData_spec [OF this c n] show ?thesis by (auto intro: grows_mono)
  qed
  obtain r2 fs2 where mk: "os_mkdir_all (butlast ?M) fs1 = (r2, fs2)" by fastforce
  then have g2: "grows fs1 fs2 {?M}" and np: "r2 \<noteq> Panic"
    by (auto intro: os_mkdir_all_grows simp: os_mkdir_all_def split: if_splits)
  obtain d1 where d1: "r1 = Ok d1 \<or> (\<exists>e. r1 = Err e)" using P1 by (cases r1) auto
  obtain r3 fs3 where wr: "os_write_file ?M (fe_json env (file_meta d1 p e)) fs2 = (r3, fs3)" by fastforce
  have g3: "grows fs2 fs3 {?M}" using os_write_file_cases [OF wr] by (auto intro: grows_upd)
  have step: "FS_Put env c t p e (cs, err) fs
      = (case r1 of Ok d \<Rightarrow> (case r2 of Ok _ \<Rightarrow>
            (case r3 of Ok _ \<Rightarrow> (Ok d1, fs3) | Err e \<Rightarrow> (Err e, fs3) | Panic \<Rightarrow> (Panic, fs3))
            | Err e \<Rightarrow> (Err e, fs2) | Panic \<Rightarrow> (Panic, fs2))
         | Err e \<Rightarrow> (Err e, fs1) | Panic \<Rightarrow> (Panic, fs1))"
    using s1 mk wr d1 dirs(2) paths(2) unfolding FS_Put_def step1_def [symmetric]
    by (auto simp: Let_def andthen_run ret_run getMetapath_def file_meta_def split: outcome.splits)
  have G: "grows fs fs2 ?K" "grows fs fs3 ?K"
    using grows_trans [OF conjunct1 [OF P1] grows_mono [OF g2, of ?K]]
      grows_mono [OF g3, of ?K] grows_trans by blast+
  show "grows fs fs' ?K" using step run P1 G by (auto split: outcome.splits)
  show "r \<noteq> Panic" using step run P1 np os_write_file_cases [OF wr] by (auto split: outcome.splits)
  assume ok: "r = Ok d" and del: "\<not> ?del"
  then have R: "r1 = Ok d1" "r2 = Ok ()" "r3 = Ok ()" "d = d1" "fs' = fs3"
    using step run d1 by (auto split: outcome.splits)
  have D: "fs1 ?D = Some (File (sealed (fe_cas env) c (concat cs)))"
    "d1 = digest_of (fe_cas env) c (concat cs)" "key_valid c" using P1 R(1) del by auto
  have "fs3 ?D = Some (File (sealed (fe_cas env) c (concat cs)))"
    using grows_file [OF g3 _ grows_file [OF g2 _ D(1)]] by simp
  moreover have "fs3 ?M = Some (File (fe_json env (file_meta d1 p e)))"
    using os_write_file_cases [OF wr] R(3) by auto
  ultimately show "fs_holds env c p e (concat cs) fs' \<and> d = digest_of (fe_cas env) c (concat cs)"
    using D R c by (simp add: fs_holds_def)
qed

text \<open>Where the directories are there and nothing is in the way, \<open>FSStorage.Put\<close> succeeds.\<close>

lemma FS_Put_progress:
  assumes c: "Workdir c \<noteq> []" "W = file_key (Workdir c)" and n: "plain t" "plain_rel p"
    and key: "key_valid c" and del: "ext_get e ''deleted'' \<noteq> ''true''"
    and T: "is_dir fs (W @ [fs_DirStoreTmp])" "fs (desk_key W t) \<noteq> Some Dir"
    and D: "fs (butlast (data_key W p)) = Some Dir" "fs (data_key W p) \<noteq> Some Dir"
    and M: "clear_above fs (fsmeta_key W p)" "fs (fsmeta_key W p) \<noteq> Some Dir"
  shows "\<exists>fs'. FS_Put env c t p e (cs, None) fs = (Ok (digest_of (fe_cas env) c (concat cs)), fs')"
proof -
  let ?T = "desk_key W t" and ?D = "data_key W p" and ?M = "fsmeta_key W p"
  let ?x = "sealed (fe_cas env) c (concat cs)"
  note dirs = fs_dir_paths [OF c n(2)] and paths = fs_paths [OF c]
  have ne: "?T \<noteq> []" "?D \<noteq> []" "?M \<noteq> []" "butlast ?D \<noteq> []"
    using n(2) plain_rel_nonempty by (auto simp: desk_key_def data_key_def fsmeta_key_def butlast_append)
  have cr: "os_create ?T fs = (Ok (), fs(?T \<mapsto> File []))"
    using T ne by (auto simp: os_create_def os_write_file_def is_dir_def [of fs ?T])
      (auto simp: desk_key_def butlast_append)
  obtain w where w: "io_copy (store_writer (fe_cas env) c ?T) new_writer (cs, None) (fs(?T \<mapsto> File []))
      = (Ok w, fs(?T \<mapsto> File ?x))" "w_hashed w = ?x"
    using io_copy_sealed [of "fs(?T \<mapsto> File [])" ?T "fe_cas env" c cs] by auto
  have "?T \<noteq> butlast ?D" using D(1) T(2) by auto
  then have mk: "FS_ensure_dir (butlast ?D) (fs(?T \<mapsto> File ?x)) = (Ok (), fs(?T \<mapsto> File ?x))"
    using D(1) ne by (simp add: FS_ensure_dir_def attempt_run os_stat_def ret_run)
  define fs2 where "fs2 = (fs(?T := None))(?D \<mapsto> File ?x)"
  have rn: "os_rename ?T ?D (fs(?T \<mapsto> File ?x)) = (Ok (), fs2)"
    using D ne \<open>?T \<noteq> butlast ?D\<close> by (simp add: os_rename_def is_dir_def fs2_def)
  have st: "FS_storageData env c t p (cs, None) fs = (Ok (sha256_hex (fe_cas env) ?x), fs2)"
    using cr w mk rn key paths(1) [OF n(1)] dirs
    by (auto simp: FS_storageData_def Let_def attempt_run andthen_run DigestWriter_Digest_def key_valid_def ret_run)
  have "?D \<notin> set (ancestors (butlast ?M))" "?T \<notin> set (ancestors (butlast ?M))"
    using not_above [of ?D W fs_DirBlobs "parts p" ?M fs_DirMetaInfo "parts p"]
      not_above [of ?T W fs_DirStoreTmp "[t]" ?M fs_DirMetaInfo "parts p"] fs_dirs(4-6)
    by (auto simp: data_key_def fsmeta_key_def desk_key_def)
  then have "clear_above fs2 ?M" using M(1)
    by (auto simp: clear_above_def list_all_iff fs2_def is_file_def)
  moreover have "fs2 ?M \<noteq> Some Dir" using M(2) by (simp add: fs2_def)
  ultimately obtain fs3 where "os_mkdir_all (butlast ?M) fs2 = (Ok (), fs3)" "is_dir fs3 (butlast ?M)"
    "\<not> is_dir fs3 ?M"
    using clear_above_mkdir [of fs2 ?M] ne by (auto simp: is_dir_def)
  then show ?thesis
    using st del dirs(2) paths(3) [OF n(2)] n(1) fs_paths(3) [OF c n(2)]
    by (simp add: FS_Put_def andthen_run Let_def getMetapath_def os_write_file_def ret_run digest_of_def)
qed

lemma FSStorage_simps [simp]:
  "drv_Put (FSStorage env c) = FS_Put env c" "drv_Get (FSStorage env c) = FS_Get env c"
  "drv_Exists (FSStorage env c) = FS_Exists env c"
  by (simp_all add: FSStorage_def)

sublocale file_laws \<subseteq> raw: file_store "FSStorage env c" "\<lambda>_. True" "\<lambda>_ _. True"
  "digest_of (fe_cas env) c" "fs_holds env c"
proof
  fix t p e cs err fs d fs' p' e' src r x
  show "fs_holds env c p e (concat cs) fs' \<and> d = digest_of (fe_cas env) c (concat cs)"
    if "drv_Put (FSStorage env c) t p e (cs, err) fs = (Ok d, fs')" "path_ok p" "plain t"
      "ext_get e ''deleted'' \<noteq> ''true''"
    using FS_Put_spec(3) [OF _ workdir refl] that by (simp add: path_ok_def)
  show "fs_holds env c p e x fs'"
    if "drv_Put (FSStorage env c) t p' e' src fs = (r, fs')" "path_ok p'" "plain t" "p' \<noteq> p"
      "fs_holds env c p e x fs"
  proof -
    let ?W = "file_key (Workdir c)"
    have "grows fs fs' {desk_key ?W t, data_key ?W p', fsmeta_key ?W p'}"
      using FS_Put_spec(1) [OF _ workdir refl, of env t p' e' "fst src" "snd src"] that by (simp add: path_ok_def)
    with that(4,5) show ?thesis
      using grows_file [of fs fs' _ "data_key ?W p"] grows_file [of fs fs' _ "fsmeta_key ?W p"]
      by (auto simp: fs_holds_def)
  qed
  show "drv_Get (FSStorage env c) p fs
      = (Ok (map_set ''digest'' (digest_of (fe_cas env) c x) (ext_map e), x), fs)"
    if h: "fs_holds env c p e x fs" and p: "path_ok p" and e: "ext_ok e"
  proof -
    let ?d = "digest_of (fe_cas env) c x"
    have "utf8 ?d" using cas_laws.digest_hex [OF cas] by (simp add: digest_of_def hex_utf8)
    then have "fe_unjson env (fe_json env (file_meta ?d p e)) = Inr (file_meta ?d p e)"
      using file_meta_utf8 [OF p e] by (intro fs_json)
    moreover have "FS_open env c (sealed (fe_cas env) c x) = Inr x"
      using h unsealed [of "fe_cas env" c x] by (simp add: FS_open_def fs_holds_def key_valid_def sealed_def)
    ultimately show ?thesis
      using h p fs_paths(2,3) [OF workdir refl, of p]
      by (simp add: FS_Get_def FS_getMetainfo_def getDatapath_def andthen_run attempt_run os_read_file_def
          fs_holds_def path_ok_def lift_sum_Inr ret_run with_digest_meta)
  qed
qed simp


context file_laws
begin

lemmas cas_store_visit = cas.store_visit_config
lemmas raw_store_visit = raw.store_visit_config

lemma exists_package:
  assumes h: "cas_holds env c p None x fs" and p: "path_ok p"
  shows "drv_Exists (CASStorage env c) p fs = (Ok [], fs)"
proof -
  let ?d = "digest_of (fe_cas env) c x" and ?W = "file_key (Workdir c)"
  have hex: "list_all is_hex ?d" "length ?d = 64"
    using cas_laws.digest_hex [OF cas] cas_laws.digest_length [OF cas] by (simp_all add: digest_of_def)
  have js: "unjson_meta (fe_cas env) (json_meta (fe_cas env) (file_meta ?d p None)) = Inr (file_meta ?d p None)"
    using hex_utf8 [OF hex(1)] file_meta_utf8 [OF p, of None] by (intro cas_laws.json_roundtrip [OF cas]) (simp add: ext_ok_def)
  have paths: "meta_path c p = meta_key ?W p" "blob_path c ?d = blob_key ?W ?d"
    using meta_path_eq [OF workdir] blob_path_eq(1) [OF workdir hex(1)] hex(2) p by (simp_all add: path_ok_def)
  have "meta_key ?W p \<noteq> []" "blob_key ?W ?d \<noteq> []" by (simp_all add: meta_key_def blob_key_def)
  then show ?thesis
    using h js hex(2)
    by (simp add: cas_holds_def stored_def Storage_ExistPath_def getMetaInfo_def paths attempt_run andthen_run
        os_read_file_def os_stat_def Let_def sliced_def ret_run file_meta_def)
qed

end

subsection \<open>A concrete instance\<close>

definition demo_file_env :: file_env where
  "demo_file_env = \<lparr>fe_cas = demo_env, fe_json = demo_json, fe_unjson = demo_unjson\<rparr>"

interpretation demo_files: file_laws demo_file_env demo_c
  by unfold_locales
    (simp_all add: demo_file_env_def demo.digest_hex demo.digest_length demo.json_roundtrip
      demo_json_roundtrip, simp add: demo_c_def)

subsection \<open>The properties\<close>


text \<open>The same for the driver that keeps each file under its own name.\<close>

theorem fs_store_visit_config:
  assumes "file_laws env c"
    and "StoreConfig (FSStorage env c) t s n name v e (Some (cs, err)) fs = (Ok d, fs1)"
    and "config_id_ok s n (base_name name) v" "plain t" "ext_ok e" "ext_get e ''deleted'' \<noteq> ''true''"
    and "\<forall>op\<in>set ops. op_ok op \<and> op_other s n name v op"
    and "fs2 = run_ops (FSStorage env c) ops fs1"
  shows "d = digest_of (fe_cas env) c (concat cs)
    \<and> VisitConfig (FSStorage env c) s n name v fs2
      = (Ok (map_set ''digest'' d (ext_map e), concat cs), fs2)"
  using file_laws.raw_store_visit [OF assms(1-6) _ _ assms(7)] assms(8) by simp

text \<open>
  The operations on a named file refuse the empty name and leave the files alone.
\<close>

theorem empty_name_refused:
  "StoreConfig f t s n [] v e src fs = (Err ErrFilePathEmpty, fs)
   \<and> VisitConfig f s n [] v fs = (Err ErrFilePathEmpty, fs)
   \<and> StoreTemplate f t n [] v e src fs = (Err ErrFilePathEmpty, fs)
   \<and> VisitTemplate f n [] v fs = (Err ErrFilePathEmpty, fs)
   \<and> StoreReplacement f t s n [] v e src fs = (Err ErrFilePathEmpty, fs)
   \<and> VisitReplacement f s n [] v fs = (Err ErrFilePathEmpty, fs)"
  by (simp add: StoreConfig_def VisitConfig_def StoreTemplate_def VisitTemplate_def
      StoreReplacement_def VisitReplacement_def with_name_def fail_run)

text \<open>
  The path of a config is not confined to its site and namespace: a name that begins
  with \<open>../../\<close> is the path of a config of another site.
\<close>

theorem config_path_escapes:
  assumes "plain s" "plain n" "config_id_ok s' n' f v"
  shows "GetFilePath s n (join_with ''/'' [''..'', ''..'', s', n', f]) v = GetFilePath s' n' f v"
proof -
  let ?name = "join_with ''/'' [''..'', ''..'', s', n', f]"
  let ?j = "join_with ''/'' [ConfigTopFolder, s, n, ?name, v]"
  have id: "plain s'" "plain n'" "plain_rel f" "plain v" using assms(3) by (simp_all add: config_id_ok_def)
  have T: "split_on CHR ''/'' ConfigTopFolder = [ConfigTopFolder]" "ConfigTopFolder \<noteq> []"
    "ConfigTopFolder \<noteq> ''.''" "ConfigTopFolder \<noteq> ''..''" "hd ConfigTopFolder \<noteq> CHR ''/''"
    by (simp_all add: ConfigTopFolder_def)
  have sp: "split_on CHR ''/'' ?name = [''..'', ''..'', s', n'] @ parts f"
    using id split_on_join_concat [of "[''..'', ''..'', s', n', f]" "CHR ''/''"]
    by (simp add: plain_def split_on_absent parts_def)
  have "split_on CHR ''/'' ?j = [ConfigTopFolder, s, n, ''..'', ''..'', s', n'] @ parts f @ [v]"
    using split_on_join_concat [of "[ConfigTopFolder, s, n, ?name, v]" "CHR ''/''"] sp T assms id
    by (simp add: plain_def split_on_absent)
  moreover have "\<not> rooted ?j" using T by (simp add: rooted_def)
  moreover have "list_all plain (parts f @ [v])" using id by (simp add: plain_rel_def parts_def)
  ultimately have "file_key ?j = [ConfigTopFolder, s', n'] @ parts f @ [v]"
    using T assms(1,2) id by (simp add: file_key_def plain_def clean_comps_plain)
  moreover have "path_join [ConfigTopFolder, s, n, ?name, v] = path_clean ?j"
    using T by (simp add: path_join_def)
  ultimately have "GetFilePath s n ?name v = join_with ''/'' ([ConfigTopFolder, s', n'] @ parts f @ [v])"
    using \<open>\<not> rooted ?j\<close> by (simp add: GetFilePath_def path_clean_def)
  also have "\<dots> = join_with ''/'' (parts (GetFilePath s' n' f v))"
    using GetFilePath_parts(3) [OF assms(3)] by simp
  also have "\<dots> = GetFilePath s' n' f v" by (simp add: parts_def)
  finally show ?thesis .
qed

text \<open>
  With a content-addressed store, \<open>CleanPackageDirtyData\<close> never returns for a stored
  package, the current digest included: \<open>Exists\<close> does not report the digest, so every
  digest but the empty one differs, and \<open>DeleteByDigest\<close> does not return.
\<close>

theorem clean_package_never_returns:
  assumes "file_laws env c"
    and "cas_holds env c (GetPackagePath s n) None x fs" "path_ok (GetPackagePath s n)"
    and "d \<noteq> []"
  shows "CleanPackageDirtyData (CASStorage env c) s n d fs = None"
  using file_laws.exists_package [OF assms(1-3)] assms(4)
  by (simp add: CleanPackageDirtyData_def map_get_def DeleteByDigest_diverges)

subsection \<open>Witnesses\<close>


definition demo_reader :: reader where
  "demo_reader = ([''he'', ''llo''], None)"

definition demo_path :: string where
  "demo_path = GetFilePath ''s1'' ''ns'' ''conf/a'' ''1''"

lemma demo_id: "config_id_ok ''s1'' ''ns'' (base_name ''/conf/a'') ''1''"
  "config_id_ok ''s1'' ''ns'' (base_name ''conf/b'') ''2''"
  by (simp_all add: config_id_ok_def plain_def plain_rel_def utf8_def base_name_def)

lemma demo_path_ok: "path_ok demo_path" "plain_rel demo_path" "plain ''t1''"
  using GetFilePath_parts [OF demo_id(1)]
  by (simp_all add: path_ok_def demo_path_def base_name_def plain_def)

lemma demo_ops: "\<forall>op\<in>set [Op_config ''t2'' ''s1'' ''ns'' ''conf/b'' ''2'' None ([], None)].
    op_ok op \<and> op_other ''s1'' ''ns'' ''/conf/a'' ''1'' op"
  using demo_id(2) by (simp add: base_name_def plain_def)

lemma demo_ext: "ext_ok None" "ext_get None ''deleted'' \<noteq> ''true''"
  by (simp_all add: ext_ok_def ext_get_def)

lemma demo_file_laws: "file_laws demo_file_env demo_c"
  by unfold_locales

lemma demo_store:
  obtains fs1 where "StoreConfig (CASStorage demo_file_env demo_c) ''t1'' ''s1'' ''ns'' ''/conf/a'' ''1''
      None (Some demo_reader) demo_fs = (Ok (digest_of demo_env demo_c ''hello''), fs1)"
proof -
  have "Name (file_meta [] demo_path None) = demo_path" by simp
  have "Workdir demo_c \<noteq> []" by (simp add: demo_c_def)
  then have "names_ok demo_c ''t1'' (Name (file_meta [] demo_path None))"
    using demo_path_ok by (simp add: names_ok_def)
  from demo.Put_progress [OF this refl refl demo_key, of demo_fs "[''he'', ''llo'']"]
  obtain fs1 where "Storage_Put demo_env demo_c ''t1'' (file_meta [] demo_path None) demo_reader demo_fs
      = (Ok (digest_of demo_env demo_c ''hello''), fs1)"
    using demo_paths demo_clear by (auto simp: demo_W digest_of_def demo_reader_def)
  then show thesis
    using that by (simp add: StoreConfig_def with_name_def StoreRawFile_def demo_path_def demo_file_env_def)
qed


text \<open>A directory tree laid out for the config.\<close>

definition demo_tree :: fsys where
  "demo_tree = (\<lambda>k. if k \<in> {[''d''], [''d'', fs_DirStoreTmp], butlast (data_key [''d''] demo_path)}
                   then Some Dir else None)"

lemma demo_tree_free:
  "is_dir demo_tree ([''d''] @ [fs_DirStoreTmp])" "demo_tree (desk_key [''d''] ''t1'') \<noteq> Some Dir"
  "demo_tree (butlast (data_key [''d''] demo_path)) = Some Dir"
  "demo_tree (data_key [''d''] demo_path) \<noteq> Some Dir" "demo_tree (fsmeta_key [''d''] demo_path) \<noteq> Some Dir"
  "clear_above demo_tree k"
proof -
  have "parts demo_path = [ConfigTopFolder, ''s1'', ''ns'', ''conf'', ''a'', ''1'']"
    using GetFilePath_parts(3) [OF demo_id(1)] by (simp add: demo_path_def base_name_def parts_def)
  then have k: "data_key [''d''] demo_path = [''d'', fs_DirBlobs, ConfigTopFolder, ''s1'', ''ns'', ''conf'', ''a'', ''1'']"
    "fsmeta_key [''d''] demo_path = [''d'', fs_DirMetaInfo, ConfigTopFolder, ''s1'', ''ns'', ''conf'', ''a'', ''1'']"
    by (simp_all add: data_key_def fsmeta_key_def)
  show "is_dir demo_tree ([''d''] @ [fs_DirStoreTmp])" "demo_tree (desk_key [''d''] ''t1'') \<noteq> Some Dir"
    "demo_tree (butlast (data_key [''d''] demo_path)) = Some Dir"
    "demo_tree (data_key [''d''] demo_path) \<noteq> Some Dir" "demo_tree (fsmeta_key [''d''] demo_path) \<noteq> Some Dir"
    by (simp_all add: demo_tree_def is_dir_def desk_key_def k)
  show "clear_above demo_tree k"
    by (auto simp: clear_above_def is_file_def demo_tree_def list_all_iff split: if_splits)
qed

theorem fs_store_visit_config_witness:
  "\<exists>fs1 d. StoreConfig (FSStorage demo_file_env demo_c) ''t1'' ''s1'' ''ns'' ''/conf/a'' ''1''
      None (Some demo_reader) demo_tree = (Ok d, fs1)
    \<and> fst (VisitConfig (FSStorage demo_file_env demo_c) ''s1'' ''ns'' ''/conf/a'' ''1''
        (run_ops (FSStorage demo_file_env demo_c)
          [Op_config ''t2'' ''s1'' ''ns'' ''conf/b'' ''2'' None ([], None)] fs1))
      = Ok ([(''digest'', d)], ''hello'')"
proof -
  have "Workdir demo_c \<noteq> []" "key_valid demo_c" by (simp_all add: demo_c_def key_valid_def aes_key_ok_def)
  from FS_Put_progress [OF this(1) refl demo_path_ok(3,2) this(2) demo_ext(2),
      unfolded demo_W, OF demo_tree_free(1-4) demo_tree_free(6,5), of demo_file_env "[''he'', ''llo'']"]
  obtain fs1 where "FS_Put demo_file_env demo_c ''t1'' demo_path None ([''he'', ''llo''], None) demo_tree
      = (Ok (digest_of demo_env demo_c ''hello''), fs1)"
    by (auto simp: demo_file_env_def)
  then have st: "StoreConfig (FSStorage demo_file_env demo_c) ''t1'' ''s1'' ''ns'' ''/conf/a'' ''1''
      None (Some ([''he'', ''llo''], None)) demo_tree = (Ok (digest_of demo_env demo_c ''hello''), fs1)"
    by (simp add: StoreConfig_def with_name_def StoreRawFile_def demo_path_def)
  from fs_store_visit_config [OF demo_file_laws st demo_id(1) demo_path_ok(3) demo_ext demo_ops refl]
  show ?thesis using st by (auto simp: demo_file_env_def demo_reader_def ext_map_def map_set_def)
qed

theorem config_path_escapes_witness:
  "GetFilePath ''s1'' ''ns'' ''../../s2/other/app.yml'' ''3'' = GetFilePath ''s2'' ''other'' ''app.yml'' ''3''"
  using config_path_escapes [of "''s1''" "''ns''" "''s2''" "''other''" "''app.yml''" "''3''"]
  by (simp add: config_id_ok_def plain_def plain_rel_def utf8_def)

theorem clean_package_never_returns_witness:
  "\<exists>fs1 d. StorePackage (CASStorage demo_file_env demo_c) ''t1'' ''s1'' ''ns'' (Some demo_reader) demo_fs = (Ok d, fs1)
    \<and> CleanPackageDirtyData (CASStorage demo_file_env demo_c) ''s1'' ''ns'' d fs1 = None"
proof -
  let ?p = "GetPackagePath ''s1'' ''ns''" and ?d = "digest_of demo_env demo_c ''hello''"
  have "?p = ''packagev1/s1/ns.tar.gz''"
    by (simp add: GetPackagePath_def path_join_plain plain_rel_def plain_def ConfigPackageFolder_def)
  then have p: "path_ok ?p" by (simp add: path_ok_def plain_rel_def plain_def utf8_def)
  have "Workdir demo_c \<noteq> []" by (simp add: demo_c_def)
  then have "names_ok demo_c ''t1'' (Name (file_meta [] ?p None))"
    using demo_path_ok(3) p by (simp add: names_ok_def path_ok_def)
  from demo.Put_progress [OF this refl refl demo_key, of demo_fs "[''he'', ''llo'']"]
  obtain fs1 where "Storage_Put demo_env demo_c ''t1'' (file_meta [] ?p None) ([''he'', ''llo''], None) demo_fs
      = (Ok ?d, fs1)"
    using demo_paths demo_clear by (auto simp: demo_W digest_of_def)
  then have st: "drv_Put (CASStorage demo_file_env demo_c) ''t1'' ?p None ([''he'', ''llo''], None) demo_fs = (Ok ?d, fs1)"
    by (simp add: demo_file_env_def)
  have h: "cas_holds demo_file_env demo_c ?p None ''hello'' fs1"
    using demo_files.cas.put_holds [OF st _ p demo_path_ok(3) demo_ext(2)] demo_cas_ok
    by (simp add: demo_file_env_def cas_fresh_def)
  have "?d \<noteq> []" using demo.digest_length by (metis digest_of_def list.size(3) zero_neq_numeral)
  from clean_package_never_returns [OF demo_file_laws h p this] st show ?thesis
    by (auto simp: StorePackage_def StoreRawFile_def demo_reader_def)
qed

end
