(* ===== verification/Manager_World.thy ===== *)
theory Manager_World
  imports Config_Models File_Store
begin

section \<open>The world of the config manager\<close>

text \<open>
  \<open>pkg/manager/configserver\<close> works on three stores: the database (\<open>w_db\<close>), the files
  (\<open>w_fs\<close>) and the commands sent to the agents (\<open>w_sent\<close>). This theory holds that state, the record of the
  manager with its parameters, and the two patterns every operation is made of: a step whose error is
  returned, and a step whose error rolls the transaction back first.
\<close>

subsection \<open>Commands (pkg/component/cmd)\<close>

record cmd_req =
  rq_name :: string
  rq_args :: "string gomap"
  rq_peer :: string

record cmd_resp =
  rs_code :: int
  rs_msg :: string
  rs_data :: string

definition FailCode :: int where "FailCode = 500"
definition SuccessCode :: int where "SuccessCode = 200"
definition RespError :: "string \<Rightarrow> cmd_resp" where "RespError m = \<lparr>rs_code = FailCode, rs_msg = m, rs_data = []\<rparr>"
definition RespSucceed :: "string \<Rightarrow> cmd_resp" where "RespSucceed d = \<lparr>rs_code = SuccessCode, rs_msg = ''ok'', rs_data = d\<rparr>"

text \<open>\<open>err.Error()\<close>, and the error response with it.\<close>

fun err_text :: "goerr \<Rightarrow> string" where
  "err_text ErrRecordNotFound = ''record not found''"
| "err_text (Errorf s) = s"
| "err_text (NumError s r) = ''strconv: parsing '' @ s @ '': '' @ r"
| "err_text (PathError s) = s"
| "err_text (Wrap p e) = p @ err_text e"
| "err_text (External s) = s"

record ConfigInstanceUpdateInfo =
  up_SiteID :: string
  up_App :: string
  up_Hostname :: string
  up_IP :: string
  up_Namespace :: string
  up_Filenames :: "string gomap"

subsection \<open>The state and the parameters\<close>

record 'd world =
  w_db :: 'd
  w_fs :: fsys
  w_ticks :: nat
  w_sent :: "cmd_req list"

text \<open>
  The parameters: the database; the file database; the names of temporary files;
  \<open>encoding/json\<close> for the texts the manager reads and writes (a decoded map is the
  list of its entries in the order in which it is iterated); the agent's answers;
  the package \<open>properties\<close>; the textual diff, base64, tar with gzip, and the order in which a
  map of files is packed.
\<close>

record 'd manager =
  m_db :: "'d gorm"
  m_files :: StorageDriver
  m_tmp :: "nat \<Rightarrow> string"
  m_map_json :: "string \<Rightarrow> goerr + string gomap"
  m_content_json :: "string \<Rightarrow> goerr + string gomap gomap"
  m_update_json :: "string \<Rightarrow> goerr + ConfigInstanceUpdateInfo"
  m_show_content :: "string gomap gomap \<Rightarrow> string"
  m_agent :: "cmd_req \<Rightarrow> cmd_req list \<Rightarrow> goerr + cmd_resp"
  m_prop_load :: "string \<Rightarrow> goerr + string gomap"
  m_prop_get :: "string gomap \<Rightarrow> string \<Rightarrow> string"
  m_prop_set :: "string gomap \<Rightarrow> string \<Rightarrow> string \<Rightarrow> goerr + string gomap"
  m_prop_show :: "string gomap \<Rightarrow> string"
  m_diff :: "string \<Rightarrow> string \<Rightarrow> string"
  m_base64 :: "bytes \<Rightarrow> string"
  m_pack :: "tar \<Rightarrow> bytes"
  m_order :: "string gomap \<Rightarrow> string gomap"

subsection \<open>Steps\<close>

definition on_db :: "('d, 'a) proc \<Rightarrow> ('d world, 'a) proc" where
  "on_db m = (\<lambda>w. case m (w_db w) of (r, d) \<Rightarrow> (r, w\<lparr>w_db := d\<rparr>))"

definition on_fs :: "(fsys, 'a) proc \<Rightarrow> ('d world, 'a) proc" where
  "on_fs m = (\<lambda>w. case m (w_fs w) of (r, fs) \<Rightarrow> (r, w\<lparr>w_fs := fs\<rparr>))"

text \<open>A call of \<open>Put\<close>, with the next temporary name.\<close>

definition put_fs :: "'d manager \<Rightarrow> (string \<Rightarrow> (fsys, 'a) proc) \<Rightarrow> ('d world, 'a) proc" where
  "put_fs M f = (\<lambda>w. case f (m_tmp M (w_ticks w)) (w_fs w) of
     (r, fs) \<Rightarrow> (r, w\<lparr>w_fs := fs, w_ticks := Suc (w_ticks w)\<rparr>))"

definition tx_begin :: "'d manager \<Rightarrow> ('d world, conn) proc" where
  "tx_begin M = on_db (begin_tx (g_tx (m_db M)))"

text \<open>\<open>tx.Rollback()\<close> and \<open>tx.Commit()\<close>: the result is not looked at.\<close>

definition tx_rollback :: "'d manager \<Rightarrow> conn \<Rightarrow> ('d world, unit) proc" where
  "tx_rollback M tx = attempt (on_db (rollback_tx (g_tx (m_db M)) tx)) (\<lambda>_. ret ()) ret"

definition tx_commit :: "'d manager \<Rightarrow> conn \<Rightarrow> ('d world, unit) proc" where
  "tx_commit M tx = attempt (on_db (commit_tx (g_tx (m_db M)) tx)) (\<lambda>_. ret ()) ret"

text \<open>\<open>if err != nil { tx.Rollback(); return err }\<close>\<close>

definition rollback_err :: "'d manager \<Rightarrow> conn \<Rightarrow> goerr \<Rightarrow> ('d world, 'a) proc" where
  "rollback_err M tx err = andthen (tx_rollback M tx) (\<lambda>_. fail err)"

definition or_rollback ::
  "'d manager \<Rightarrow> conn \<Rightarrow> ('d world, 'a) proc \<Rightarrow> ('a \<Rightarrow> ('d world, 'b) proc) \<Rightarrow> ('d world, 'b) proc" where
  "or_rollback M tx m k = attempt m (rollback_err M tx) k"

text \<open>\<open>SendSync\<close>: the request is sent, and the agent answers or the call fails.\<close>

definition SendSync :: "'d manager \<Rightarrow> cmd_req \<Rightarrow> ('d world, cmd_resp) proc" where
  "SendSync M c = (\<lambda>w.
     (case m_agent M c (w_sent w) of Inl e \<Rightarrow> Err e | Inr resp \<Rightarrow> Ok resp,
      w\<lparr>w_sent := w_sent w @ [c]\<rparr>))"

subsection \<open>Lemmas of the steps\<close>

lemma on_db_Ok: "on_db m w = (Ok a, w') \<longleftrightarrow> (\<exists>d. m (w_db w) = (Ok a, d) \<and> w' = w\<lparr>w_db := d\<rparr>)"
  by (auto simp: on_db_def split: prod.splits)

lemma attempt_Ok_iff:
  assumes "\<And>e w b w'. h e w \<noteq> (Ok b, w')"
  shows "attempt m h k w = (Ok b, w'') \<longleftrightarrow> (\<exists>a w'. m w = (Ok a, w') \<and> k a w' = (Ok b, w''))"
  using assms by (auto simp: attempt_def split: prod.splits outcome.splits)

lemma rollback_err_not_Ok: "rollback_err M tx e w \<noteq> (Ok b, w')"
  by (auto simp: rollback_err_def andthen_def attempt_def fail_def split: prod.splits outcome.splits)

lemma or_rollback_Ok_iff:
  "or_rollback M tx m k w = (Ok b, w'') \<longleftrightarrow> (\<exists>a w'. m w = (Ok a, w') \<and> k a w' = (Ok b, w''))"
  unfolding or_rollback_def by (rule attempt_Ok_iff) (rule rollback_err_not_Ok)

lemma fail_not_Ok [simp]: "fail e w \<noteq> (Ok b, w')"
  by (simp add: fail_def)

lemma attempt_fail_Ok_iff:
  "attempt m (\<lambda>e. fail (f e)) k w = (Ok b, w'') \<longleftrightarrow> (\<exists>a w'. m w = (Ok a, w') \<and> k a w' = (Ok b, w''))"
  by (rule attempt_Ok_iff) simp

lemma ret_Ok_iff: "ret a w = (Ok b, w') \<longleftrightarrow> b = a \<and> w' = w"
  by (auto simp: ret_def)

end
