(* ===== verification/Config_Manager.thy ===== *)
theory Config_Manager
  imports Manager_World
begin

section \<open>The config manager (pkg/manager/configserver/configserver.go)\<close>

text \<open>
  The helpers and the operations of \<open>configManager\<close>, in the shape of the code: each
  step that may fail is an \<open>or_rollback\<close> inside a transaction and an \<open>andthen\<close> outside
  one. Logging is left out. All reads go to the committed data (\<open>db.Get()\<close>), all
  writes of an operation to its transaction.
\<close>

subsection \<open>Checks and small helpers\<close>

definition checkConfigValidity :: "ConfigInfo option \<Rightarrow> goerr option" where
  "checkConfigValidity config = (case config of
      None \<Rightarrow> Some (Errorf ''config entity can not be nil '')
    | Some c \<Rightarrow>
        if ci_Name c = [] then Some (Errorf ''config name can not be nil '')
        else if ci_Namespace c = [] then Some (Errorf ''config namespace can not be nil '')
        else if ci_SiteID c = [] then Some (Errorf ''config site_id can not be nil '')
        else if ci_CreatedBy c = [] then Some (Errorf ''config creator can not be nil '')
        else if ci_Format c = [] then Some (Errorf ''config format can not be nil '')
        else None)"

definition checkTemplateValidity :: "Template option \<Rightarrow> goerr option" where
  "checkTemplateValidity template = (case template of
      None \<Rightarrow> Some (Errorf ''template entity can not be nil '')
    | Some t \<Rightarrow>
        if tp_Name t = [] then Some (Errorf ''template name can not be nil '')
        else if tp_Namespace t = [] then Some (Errorf ''template namespace can not be nil '')
        else if tp_CreatedBy t = [] then Some (Errorf ''template creator can not be nil '')
        else None)"

text \<open>\<open>path.Ext\<close>: from the last dot after the last slash.\<close>

definition path_ext :: "string \<Rightarrow> string" where
  "path_ext s =
     (let t = takeWhile (\<lambda>c. c \<noteq> CHR ''.'' \<and> c \<noteq> CHR ''/'') (rev s);
          r = drop (length t) (rev s)
      in if r \<noteq> [] \<and> hd r = CHR ''.'' then CHR ''.'' # rev t else [])"

definition formatMap :: "string gomap" where
  "formatMap =
     [(''.properties'', ConfigFormatProperties), (''.text'', ConfigFormatTxt), (''.txt'', ConfigFormatTxt),
      (''.yaml'', ConfigFormatYAML), (''.yml'', ConfigFormatYAML), (''.json'', ConfigFormatJSON),
      (''.csv'', ConfigFormatCSV), (''.png'', ConfigFormatJPG), (''.jpeg'', ConfigFormatJPG),
      (''.jpg'', ConfigFormatJPG)]"

definition getConfigFormat :: "string \<Rightarrow> string" where
  "getConfigFormat name = map_get formatMap (path_ext name)"

definition isConfigNeedNewVersion ::
  "ConfigVersion \<Rightarrow> ConfigInfo \<Rightarrow> string \<Rightarrow> string \<Rightarrow> bool" where
  "isConfigNeedNewVersion old new digest replaceDigest \<longleftrightarrow>
     \<not> (cv_Namespace old = ci_Namespace new \<and> cv_Name old = ci_Name new \<and> cv_Desc old = ci_Desc new
        \<and> cv_Digest old = digest \<and> cv_ReplaceDigest old = replaceDigest
        \<and> cv_TemplateVersionID old = ci_TemplateVersionID new)"

definition isTemplateNeedNewVersion :: "TemplateVersion \<Rightarrow> Template \<Rightarrow> string \<Rightarrow> bool" where
  "isTemplateNeedNewVersion old new digest \<longleftrightarrow>
     \<not> (tv_Namespace old = tp_Namespace new \<and> tv_Name old = tp_Name new \<and> tv_Desc old = tp_Desc new
        \<and> tv_Digest old = digest)"

text \<open>
  The labels of \<open>diffConfigMeta\<close>, in UTF-8. The old value comes first.
\<close>

definition label_namespace :: string where
  "label_namespace = [CHR 0xE5, CHR 0x91, CHR 0xBD, CHR 0xE5, CHR 0x90, CHR 0x8D, CHR 0xE7, CHR 0xA9, CHR 0xBA, CHR 0xE9, CHR 0x97, CHR 0xB4]"

definition label_name :: string where
  "label_name = [CHR 0xE5, CHR 0x90, CHR 0x8D, CHR 0xE7, CHR 0xA7, CHR 0xB0]"

definition label_desc :: string where
  "label_desc = [CHR 0xE6, CHR 0x8F, CHR 0x8F, CHR 0xE8, CHR 0xBF, CHR 0xB0]"

definition label_template_namespace :: string where
  "label_template_namespace = [CHR 0xE6, CHR 0xA8, CHR 0xA1, CHR 0xE6, CHR 0x9D, CHR 0xBF, CHR 0xE5, CHR 0x91, CHR 0xBD, CHR 0xE5, CHR 0x90, CHR 0x8D, CHR 0xE7, CHR 0xA9, CHR 0xBA, CHR 0xE9, CHR 0x97, CHR 0xB4]"

definition label_template_name :: string where
  "label_template_name = [CHR 0xE6, CHR 0xA8, CHR 0xA1, CHR 0xE6, CHR 0x9D, CHR 0xBF, CHR 0xE5, CHR 0x90, CHR 0x8D, CHR 0xE7, CHR 0xA7, CHR 0xB0]"

definition meta_line :: "string \<Rightarrow> string \<Rightarrow> string \<Rightarrow> string" where
  "meta_line label cur pre =
     (if cur \<noteq> pre then label @ '': '' @ pre @ '' -> '' @ cur @ [CHR 0x0A] else [])"

definition diffConfigMeta :: "ConfigVersion \<Rightarrow> ConfigVersion \<Rightarrow> string" where
  "diffConfigMeta cur pre =
     meta_line label_namespace (cv_Namespace cur) (cv_Namespace pre)
     @ meta_line label_name (cv_Name cur) (cv_Name pre)
     @ meta_line label_desc (cv_Desc cur) (cv_Desc pre)
     @ meta_line label_template_namespace (cv_TemplateNamespace cur) (cv_TemplateNamespace pre)
     @ meta_line label_template_name (cv_TemplateName cur) (cv_TemplateName pre)"

definition diffConfigData :: "'d manager \<Rightarrow> string \<Rightarrow> string \<Rightarrow> string \<Rightarrow> string" where
  "diffConfigData M cur pre format = (if format = ConfigFormatJPG then pre else m_diff M pre cur)"

text \<open>
  \<open>mergeTemplateAndReplace\<close>: the template's properties with those of the replacement
  set over them.
\<close>

fun set_properties :: "'d manager \<Rightarrow> string gomap \<Rightarrow> string list \<Rightarrow> string gomap \<Rightarrow> goerr + string gomap" where
  "set_properties M repl [] tmpl = Inr tmpl"
| "set_properties M repl (k # ks) tmpl =
     (case m_prop_set M tmpl k (m_prop_get M repl k) of
        Inl err \<Rightarrow> Inl err | Inr tmpl' \<Rightarrow> set_properties M repl ks tmpl')"

definition mergeTemplateAndReplace :: "'d manager \<Rightarrow> string \<Rightarrow> string \<Rightarrow> goerr + string" where
  "mergeTemplateAndReplace M templateData replaceData =
     (if templateData = [] \<and> replaceData = [] then Inr []
      else if templateData = [] then Inr replaceData
      else if replaceData = [] then Inr templateData
      else case m_prop_load M (trim_suffix templateData [CHR 0x0A]) of
          Inl err \<Rightarrow> Inl err
        | Inr templateProperties \<Rightarrow>
            (case m_prop_load M (trim_suffix replaceData [CHR 0x0A]) of
               Inl err \<Rightarrow> Inl err
             | Inr replaceProperties \<Rightarrow>
                 (case set_properties M replaceProperties (map fst replaceProperties) templateProperties of
                    Inl err \<Rightarrow> Inl err
                  | Inr p \<Rightarrow> Inr (m_prop_show M p))))"

text \<open>\<open>${KEY}\<close> in the template namespace is looked up in the environment of the cluster.\<close>

definition env_key :: "string \<Rightarrow> string option" where
  "env_key s = (if has_prefix s ''${'' \<and> has_suffix s ''}''
     then Some (trim_suffix (trim_prefix s ''${'') ''}'') else None)"

definition render_namespace :: "string gomap \<Rightarrow> string \<Rightarrow> string" where
  "render_namespace envMap ns = (case env_key ns of
      None \<Rightarrow> ns
    | Some k \<Rightarrow> (case map_of envMap k of None \<Rightarrow> ns | Some v \<Rightarrow> v))"

definition renderClusterEnv :: "'d manager \<Rightarrow> ConfigInfo \<Rightarrow> ('d world, ConfigInfo) proc" where
  "renderClusterEnv M config =
     andthen (on_db (GetClusterEnvBySiteID (m_db M) (ci_SiteID config))) (\<lambda>env.
     if env = [] then ret config
     else andthen (lift_sum (m_map_json M env)) (\<lambda>envMap.
       ret (config\<lparr>ci_TemplateNamespace := render_namespace envMap (ci_TemplateNamespace config)\<rparr>)))"

definition getConfigTemplate :: "'d manager \<Rightarrow> ConfigInfo \<Rightarrow> ('d world, TemplateVersion) proc" where
  "getConfigTemplate M config =
     (if ci_TemplateName config = [] then fail (Errorf ''config template name can't be null'')
      else if ci_TemplateNamespace config = [] then fail (Errorf ''config template namespace can't be null'')
      else attempt (on_db (GetTemplateByNameNamespace (m_db M) (ci_TemplateName config) (ci_TemplateNamespace config)))
        (\<lambda>err. fail (Wrap ''get template error: '' err)) (\<lambda>template.
      attempt (on_db (GetTemplateVersionByID (m_db M) (tp_LatestVersionID template)))
        (\<lambda>err. fail (Wrap ''get template version error: '' err)) ret))"

definition checkIsTemplateChange :: "'d manager \<Rightarrow> ConfigInfo \<Rightarrow> ('d world, ConfigInfo) proc" where
  "checkIsTemplateChange M config =
     (if ci_TemplateVersionID config = 0 \<or> ci_TemplateName config = [] \<or> ci_TemplateNamespace config = []
      then ret (config\<lparr>ci_IsTemplateChange := False\<rparr>)
      else andthen (renderClusterEnv M config) (\<lambda>renderConfig.
        andthen (getConfigTemplate M renderConfig) (\<lambda>templateVersion.
        ret (config\<lparr>ci_IsTemplateChange := (ci_TemplateVersionID config \<noteq> tv_ID templateVersion)\<rparr>))))"

text \<open>The config has a template.\<close>

definition has_template :: "ConfigInfo \<Rightarrow> bool" where
  "has_template c \<longleftrightarrow> ci_TemplateName c \<noteq> [] \<and> ci_TemplateNamespace c \<noteq> []"

subsection \<open>Storing and reading the data\<close>

definition storeConfigData :: "'d manager \<Rightarrow> ConfigInfo \<Rightarrow> u64 \<Rightarrow> ('d world, string \<times> string) proc" where
  "storeConfigData M config version =
     (let store = (\<lambda>data replaceDigest.
            andthen (put_fs M (\<lambda>tmp. StoreConfig (m_files M) tmp (ci_SiteID config) (ci_Namespace config)
               (ci_Name config) (u64_str version) None (Some (string_reader data)))) (\<lambda>digest.
            ret (digest, replaceDigest)))
      in if ci_Format config = ConfigFormatProperties \<and> ci_TemplateData config \<noteq> []
         then andthen (lift_sum (mergeTemplateAndReplace M (ci_TemplateData config) (ci_ReplaceData config))) (\<lambda>data.
              andthen (put_fs M (\<lambda>tmp. StoreReplacement (m_files M) tmp (ci_SiteID config) (ci_Namespace config)
                 (ci_Name config) (u64_str version) None (Some (string_reader (ci_ReplaceData config))))) (\<lambda>replaceDigest.
              store data replaceDigest))
         else store (ci_Data config) [])"

text \<open>The data, and the template and the replacement when the version has a template.\<close>

definition visitConfigVersionData ::
  "'d manager \<Rightarrow> ConfigVersion \<Rightarrow> ('d world, bytes \<times> bytes option \<times> bytes option) proc" where
  "visitConfigVersionData M configVersion =
     andthen (on_fs (VisitConfig (m_files M) (cv_SiteID configVersion) (cv_Namespace configVersion)
        (cv_Name configVersion) (u64_str (cv_Version configVersion)))) (\<lambda>(_, file).
     if cv_TemplateVersionID configVersion \<noteq> 0
     then andthen (on_db (GetTemplateVersionByID (m_db M) (cv_TemplateVersionID configVersion))) (\<lambda>templateVersion.
          andthen (on_fs (VisitTemplate (m_files M) (tv_Namespace templateVersion) (tv_Name templateVersion)
             (u64_str (tv_Version templateVersion)))) (\<lambda>(_, tempFile).
          andthen (on_fs (VisitReplacement (m_files M) (cv_SiteID configVersion) (cv_Namespace configVersion)
             (cv_Name configVersion) (u64_str (cv_Version configVersion)))) (\<lambda>(_, replaceFile).
          ret (file, Some tempFile, Some replaceFile))))
     else ret (file, None, None))"

definition visitConfigData ::
  "'d manager \<Rightarrow> ConfigInfo \<Rightarrow> ('d world, bytes \<times> bytes option \<times> bytes option) proc" where
  "visitConfigData M config =
     andthen (on_db (GetConfigCurrentByConfigID (m_db M) (ci_ID config))) (\<lambda>configCurrent.
     andthen (on_db (GetConfigVersionByID (m_db M) (cc_LatestConfigVersionID configCurrent))) (\<lambda>configVersion.
     visitConfigVersionData M configVersion))"

definition storeTemplateData :: "'d manager \<Rightarrow> Template \<Rightarrow> u64 \<Rightarrow> ('d world, string) proc" where
  "storeTemplateData M template version =
     put_fs M (\<lambda>tmp. StoreTemplate (m_files M) tmp (tp_Namespace template) (tp_Name template)
       (u64_str version) None (Some (string_reader (trim_suffix (tp_Data template) [CHR 0x0A]))))"

definition visitTemplateVersionData :: "'d manager \<Rightarrow> TemplateVersion \<Rightarrow> ('d world, string) proc" where
  "visitTemplateVersionData M templateVersion =
     andthen (on_fs (VisitTemplate (m_files M) (tv_Namespace templateVersion) (tv_Name templateVersion)
        (u64_str (tv_Version templateVersion)))) (\<lambda>(_, file). ret file)"

definition visitTemplateData :: "'d manager \<Rightarrow> Template \<Rightarrow> ('d world, string) proc" where
  "visitTemplateData M template =
     andthen (on_db (GetTemplateVersionByID (m_db M) (tp_LatestVersionID template))) (\<lambda>templateVersion.
     visitTemplateVersionData M templateVersion)"

text \<open>Text as it is, images in base64.\<close>

definition show_data :: "'d manager \<Rightarrow> string \<Rightarrow> bytes \<Rightarrow> string" where
  "show_data M format data = (if format = ConfigFormatJPG then m_base64 M data else data)"

subsection \<open>AddConfig and UpdateConfig\<close>

text \<open>The steps of \<open>AddConfig\<close> after the config is stored: its first version and its current state.\<close>

definition AddConfig_version ::
  "'d manager \<Rightarrow> conn \<Rightarrow> ConfigInfo \<Rightarrow> ConfigVersion \<Rightarrow> ('d world, unit) proc" where
  "AddConfig_version M tx configInfo configVersion =
     or_rollback M tx (on_db (CreateConfigVersion (m_db M) configVersion tx)) (\<lambda>configVersion.
     or_rollback M tx (on_db (CreateConfigCurrent (m_db M)
        (ConfigCurrent_zero\<lparr>cc_ConfigInfoID := ci_ID configInfo,
           cc_LatestConfigVersionID := cv_ID configVersion, cc_Status := ''created''\<rparr>) tx)) (\<lambda>_.
     tx_commit M tx))"

definition AddConfig :: "'d manager \<Rightarrow> ConfigInfo option \<Rightarrow> ('d world, unit) proc" where
  "AddConfig M config0 = (case checkConfigValidity config0 of
     Some err \<Rightarrow> fail err
   | None \<Rightarrow> let config = the config0 in
     andthen (tx_begin M) (\<lambda>tx.
     or_rollback M tx (on_db (FindOrCreateConfigNamespace (m_db M) (ci_Namespace config) (ci_SiteID config)
        (ci_CreatedBy config) tx)) (\<lambda>_.
     or_rollback M tx (on_db (CreateConfigInfo (m_db M) (config\<lparr>ci_Status := ConfigStatusCreated\<rparr>) tx)) (\<lambda>configInfo.
     or_rollback M tx (renderClusterEnv M configInfo) (\<lambda>renderConfig.
     or_rollback M tx (storeConfigData M renderConfig 1) (\<lambda>(digest, replaceDigest).
     let configVersion = ConfigVersion_zero\<lparr>cv_ConfigInfoID := ci_ID configInfo,
           cv_SiteID := ci_SiteID renderConfig, cv_Name := ci_Name renderConfig,
           cv_Namespace := ci_Namespace renderConfig, cv_Version := 1, cv_Desc := ci_Desc renderConfig,
           cv_CreatedBy := ci_CreatedBy renderConfig, cv_Digest := digest, cv_Status := ConfigVersionCreate\<rparr>
     in if has_template renderConfig
        then or_rollback M tx (getConfigTemplate M renderConfig) (\<lambda>templateVersion.
             AddConfig_version M tx configInfo (configVersion\<lparr>cv_TemplateVersionID := tv_ID templateVersion,
               cv_TemplateNamespace := ci_TemplateNamespace renderConfig,
               cv_TemplateName := ci_TemplateName renderConfig, cv_ReplaceDigest := replaceDigest\<rparr>))
        else AddConfig_version M tx configInfo configVersion))))))"

text \<open>The last steps of \<open>UpdateConfig\<close>: the rows of the config and of its current state.\<close>

definition UpdateConfig_rows ::
  "'d manager \<Rightarrow> conn \<Rightarrow> ConfigInfo \<Rightarrow> ConfigCurrent \<Rightarrow> ('d world, unit) proc" where
  "UpdateConfig_rows M tx config configCurrent =
     or_rollback M tx (on_db (UpdateConfigInfo (m_db M) config tx)) (\<lambda>_.
     or_rollback M tx (on_db (UpdateConfigCurrent (m_db M) configCurrent tx)) (\<lambda>_.
     tx_commit M tx))"

text \<open>A new version of the config, when one is needed.\<close>

definition UpdateConfig_version ::
  "'d manager \<Rightarrow> conn \<Rightarrow> ConfigInfo \<Rightarrow> ConfigCurrent \<Rightarrow> ConfigVersion \<Rightarrow> ('d world, unit) proc" where
  "UpdateConfig_version M tx config configCurrent newConfigVersion =
     or_rollback M tx (on_db (CreateConfigVersion (m_db M) newConfigVersion tx)) (\<lambda>newConfigVersion.
     UpdateConfig_rows M tx
       (if ci_Status config \<noteq> ConfigStatusCreated then config\<lparr>ci_Status := ConfigStatusUpdated\<rparr> else config)
       (configCurrent\<lparr>cc_LatestConfigVersionID := cv_ID newConfigVersion\<rparr>))"

definition UpdateConfig :: "'d manager \<Rightarrow> ConfigInfo option \<Rightarrow> ('d world, unit) proc" where
  "UpdateConfig M config0 = (case checkConfigValidity config0 of
     Some err \<Rightarrow> fail err
   | None \<Rightarrow> let config = the config0 in
     andthen (renderClusterEnv M config) (\<lambda>renderConfig.
     andthen (tx_begin M) (\<lambda>tx.
     or_rollback M tx (on_db (GetConfigCurrentByConfigID (m_db M) (ci_ID config))) (\<lambda>configCurrent.
     or_rollback M tx (on_db (GetConfigVersionByID (m_db M) (cc_LatestConfigVersionID configCurrent))) (\<lambda>oldConfigVersion.
     or_rollback M tx (storeConfigData M renderConfig (cv_Version oldConfigVersion + 1)) (\<lambda>(digest, replaceDigest).
     if isConfigNeedNewVersion oldConfigVersion renderConfig digest replaceDigest
     then
       let newConfigVersion = ConfigVersion_zero\<lparr>cv_ConfigInfoID := ci_ID renderConfig,
             cv_SiteID := ci_SiteID renderConfig, cv_Name := ci_Name renderConfig,
             cv_Namespace := ci_Namespace renderConfig, cv_Version := cv_Version oldConfigVersion + 1,
             cv_Desc := ci_Desc renderConfig, cv_CreatedBy := ci_CreatedBy renderConfig,
             cv_Digest := digest, cv_Status := ConfigVersionUpdate\<rparr>
       in if ci_Format renderConfig = ConfigFormatProperties \<and> ci_TemplateVersionID renderConfig \<noteq> 0
             \<and> has_template renderConfig
          then or_rollback M tx (on_db (GetTemplateVersionByID (m_db M) (ci_TemplateVersionID config))) (\<lambda>templateVersion.
               UpdateConfig_version M tx (config\<lparr>ci_TemplateVersionID := tv_ID templateVersion\<rparr>) configCurrent
                 (newConfigVersion\<lparr>cv_TemplateVersionID := tv_ID templateVersion,
                    cv_TemplateNamespace := tv_Namespace templateVersion,
                    cv_TemplateName := tv_Name templateVersion, cv_ReplaceDigest := replaceDigest\<rparr>))
          else UpdateConfig_version M tx config configCurrent newConfigVersion
     else UpdateConfig_rows M tx config configCurrent))))))"

end
