(* ===== verification/Config_Release.thy ===== *)
theory Config_Release
  imports Config_Manager
begin

section \<open>Releases, rollbacks, imports and the queries of the config manager\<close>

text \<open>
  The rest of \<open>configserver.go\<close>: \<open>releaseConfig\<close> and the operations over it, the
  rollback, the import of one config, the template operations and the reading operations.
\<close>

subsection \<open>Connection keys\<close>

definition getSiteIDFromConnKey :: "string \<Rightarrow> goerr + string" where
  "getSiteIDFromConnKey connKey = (case split_at2 connKey of
      [site, _] \<Rightarrow> Inr site
    | _ \<Rightarrow> Inl (Errorf (''invalid conn key: '' @ connKey)))"

definition getConnKeyFromSiteID :: "'d manager \<Rightarrow> string \<Rightarrow> ('d world, string) proc" where
  "getConnKeyFromSiteID M siteID =
     andthen (on_db (GetClusterBySiteID (m_db M) siteID)) (\<lambda>cluster.
     if cl_ConnKey cluster = [] then fail (Errorf ''cluster miss'') else ret (cl_ConnKey cluster))"

subsection \<open>Releases\<close>

text \<open>The version and the id of the current release; zero when there is none.\<close>

definition old_release :: "'d manager \<Rightarrow> ConfigCurrent \<Rightarrow> ('d world, u64 \<times> u64) proc" where
  "old_release M configCurrent =
     (if cc_LatestReleaseID configCurrent \<noteq> 0
      then andthen (on_db (GetReleaseByID (m_db M) (cc_LatestReleaseID configCurrent))) (\<lambda>oldRelease.
           if rl_ConfigVersionID oldRelease = cc_LatestConfigVersionID configCurrent
           then fail (Errorf ''this config has not new updates'')
           else ret (rl_Version oldRelease, rl_ID oldRelease))
      else ret (0, 0))"

definition releaseConfig :: "'d manager \<Rightarrow> ConfigInfo \<Rightarrow> conn \<Rightarrow> ('d world, Release) proc" where
  "releaseConfig M configInfo tx =
     andthen (on_db (GetConfigCurrentByConfigID (m_db M) (ci_ID configInfo))) (\<lambda>configCurrent.
     andthen (on_db (GetConfigVersionByID (m_db M) (cc_LatestConfigVersionID configCurrent))) (\<lambda>configVersion.
     andthen (old_release M configCurrent) (\<lambda>(oldVersion, oldReleaseID).
     andthen (on_db (CreateRelease (m_db M)
        (Release_zero\<lparr>rl_Version := oldVersion + 1, rl_Desc := ci_Desc configInfo,
           rl_CreatedBy := ci_CreatedBy configInfo, rl_Status := ''created'',
           rl_ConfigInfoID := ci_ID configInfo,
           rl_ConfigVersionID := cc_LatestConfigVersionID configCurrent,
           rl_Digest := cv_Digest configVersion\<rparr>) tx)) (\<lambda>newRelease.
     andthen (on_db (UpdateConfigCurrent (m_db M)
        (configCurrent\<lparr>cc_LatestReleaseID := rl_ID newRelease, cc_PreReleaseID := oldReleaseID\<rparr>) tx)) (\<lambda>_.
     andthen (on_db (UpdateConfigInfo (m_db M)
        (configInfo\<lparr>ci_Status := ConfigStatusReleased\<rparr>) tx)) (\<lambda>_.
     ret newRelease))))))"

text \<open>The agent is told, and a failure it reports is an error.\<close>

definition notify_agent :: "'d manager \<Rightarrow> conn \<Rightarrow> cmd_req \<Rightarrow> ('d world, unit) proc" where
  "notify_agent M tx c =
     or_rollback M tx (SendSync M c) (\<lambda>resp.
     if rs_code resp = FailCode then rollback_err M tx (Errorf (rs_msg resp))
     else tx_commit M tx)"

definition ReleaseConfig :: "'d manager \<Rightarrow> u64 \<Rightarrow> ('d world, unit) proc" where
  "ReleaseConfig M i =
     andthen (tx_begin M) (\<lambda>tx.
     or_rollback M tx (on_db (GetConfigInfoByID (m_db M) i)) (\<lambda>configInfo.
     or_rollback M tx (releaseConfig M configInfo tx) (\<lambda>release.
     or_rollback M tx (on_db (GetConfigVersionByID (m_db M) (rl_ConfigVersionID release))) (\<lambda>configVersion.
     or_rollback M tx (getConnKeyFromSiteID M (ci_SiteID configInfo)) (\<lambda>executor.
     notify_agent M tx \<lparr>rq_name = ''nsfile'',
       rq_args = [(''namespace'', cv_Namespace configVersion), (''filename'', cv_Name configVersion),
                  (''version'', u64_str (cv_Version configVersion))],
       rq_peer = executor\<rparr>)))))"

text \<open>\<open>packConfigs\<close>: every config is released, and the data files of the releases are packed.\<close>

fun release_all :: "'d manager \<Rightarrow> conn \<Rightarrow> ConfigInfo list \<Rightarrow> string gomap \<Rightarrow> ('d world, string gomap) proc" where
  "release_all M tx [] filePaths = ret filePaths"
| "release_all M tx (configInfo # rest) filePaths =
     andthen (releaseConfig M configInfo tx) (\<lambda>release.
     andthen (on_db (GetConfigVersionByID (m_db M) (rl_ConfigVersionID release))) (\<lambda>configVersion.
     release_all M tx rest (map_set
       (GetFilePath (ci_SiteID configInfo) (cv_Namespace configVersion) (cv_Name configVersion)
          (u64_str (cv_Version configVersion)))
       (cv_Name configVersion) filePaths)))"

definition packConfigs :: "'d manager \<Rightarrow> ConfigInfo list \<Rightarrow> fkey \<Rightarrow> conn \<Rightarrow> ('d world, unit) proc" where
  "packConfigs M configInfos file tx =
     andthen (on_fs (os_create file)) (\<lambda>_.
     andthen (release_all M tx configInfos []) (\<lambda>filePaths.
     andthen (on_fs (PackRawFiles (m_files M) (Some []) (m_order M filePaths))) (\<lambda>tarred.
     on_fs (file_append file (m_pack M tarred)))))"

text \<open>\<open>defer os.RemoveAll(dir)\<close>.\<close>

definition remove_all :: "fkey \<Rightarrow> fsys \<Rightarrow> fsys" where
  "remove_all dir fs = (\<lambda>k. if take (length dir) k = dir then None else fs k)"

definition with_removed :: "fkey \<Rightarrow> ('d world, 'a) proc \<Rightarrow> ('d world, 'a) proc" where
  "with_removed dir m = (\<lambda>w. case m w of (r, w') \<Rightarrow> (r, w'\<lparr>w_fs := remove_all dir (w_fs w')\<rparr>))"

text \<open>The configs of a namespace that have something to release.\<close>

definition pending :: "string \<Rightarrow> string \<Rightarrow> ConfigInfo \<Rightarrow> bool" where
  "pending siteID ns r \<longleftrightarrow> ci_SiteID r = siteID \<and> ci_Namespace r = ns
     \<and> (ci_Status r = ''created'' \<or> ci_Status r = ''updated'')"

text \<open>\<open>distDir\<close> is the time in seconds, a relative directory.\<close>

definition ReleaseNamespace :: "'d manager \<Rightarrow> string \<Rightarrow> string \<Rightarrow> string \<Rightarrow> ('d world, unit) proc" where
  "ReleaseNamespace M distDir siteID ns =
     andthen (on_db (GetAllConfigInfos (m_db M) (pending siteID ns))) (\<lambda>configInfos.
     andthen (on_fs (os_mkdir_all (file_key distDir))) (\<lambda>_.
     with_removed (file_key distDir) (
       let distFile = file_key (path_join [distDir, ns @ ''.tar.gz''])
       in andthen (tx_begin M) (\<lambda>tx.
          or_rollback M tx (packConfigs M configInfos distFile tx) (\<lambda>_.
          or_rollback M tx (on_fs (os_read_file distFile)) (\<lambda>data.
          or_rollback M tx (put_fs M (\<lambda>tmp. StorePackage (m_files M) tmp siteID ns (Some (string_reader data)))) (\<lambda>digest.
          or_rollback M tx (getConnKeyFromSiteID M siteID) (\<lambda>executor.
          notify_agent M tx \<lparr>rq_name = ''nspackage'',
            rq_args = [(''namespace'', ns), (''digest'', digest)], rq_peer = executor\<rparr>))))))))"

subsection \<open>Rollback\<close>

definition RollbackConfig :: "'d manager \<Rightarrow> u64 \<Rightarrow> u64 \<Rightarrow> string \<Rightarrow> ('d world, unit) proc" where
  "RollbackConfig M i versionID creator =
     (if versionID \<noteq> 0 then fail (Errorf ''rollback to the specified version is not currently supported'')
      else andthen (tx_begin M) (\<lambda>tx.
      or_rollback M tx (on_db (GetConfigInfoByID (m_db M) i)) (\<lambda>configInfo.
      or_rollback M tx (on_db (GetConfigCurrentByConfigID (m_db M) i)) (\<lambda>configCurrent.
      if cc_PreReleaseID configCurrent = 0
      then rollback_err M tx (Errorf ''there are no more rollback versions'')
      else
      or_rollback M tx (on_db (GetReleaseByID (m_db M) (cc_PreReleaseID configCurrent))) (\<lambda>preRelease.
      or_rollback M tx (on_db (GetConfigVersionByID (m_db M) (rl_ConfigVersionID preRelease))) (\<lambda>pre.
      or_rollback M tx (visitConfigVersionData M pre) (\<lambda>(data, _, replaceData).
      or_rollback M tx (on_db (GetConfigVersionByID (m_db M) (cc_LatestConfigVersionID configCurrent))) (\<lambda>latest.
      or_rollback M tx (on_db (CreateConfigVersion (m_db M)
         (ConfigVersion_zero\<lparr>cv_Version := cv_Version latest + 1, cv_Name := cv_Name pre,
            cv_Namespace := cv_Namespace pre, cv_SiteID := cv_SiteID pre, cv_Desc := cv_Desc pre,
            cv_CreatedBy := creator, cv_Group := cv_Group pre, cv_Digest := cv_Digest pre,
            cv_Status := ConfigVersionRollback, cv_ConfigInfoID := cv_ConfigInfoID pre,
            cv_TemplateVersionID := cv_TemplateVersionID pre, cv_TemplateName := cv_TemplateName pre,
            cv_TemplateNamespace := cv_TemplateNamespace pre, cv_ReplaceDigest := cv_ReplaceDigest pre\<rparr>) tx)) (\<lambda>new.
      or_rollback M tx (put_fs M (\<lambda>tmp. StoreConfig (m_files M) tmp (cv_SiteID new) (cv_Namespace new)
         (cv_Name new) (u64_str (cv_Version new)) None (Some (string_reader data)))) (\<lambda>_.
      or_rollback M tx (put_fs M (\<lambda>tmp. StoreReplacement (m_files M) tmp (cv_SiteID new) (cv_Namespace new)
         (cv_Name new) (u64_str (cv_Version new)) None (map_option string_reader replaceData))) (\<lambda>_.
      or_rollback M tx (on_db (UpdateConfigCurrent (m_db M)
         (configCurrent\<lparr>cc_LatestConfigVersionID := cv_ID new\<rparr>) tx)) (\<lambda>_.
      or_rollback M tx (on_db (UpdateConfigInfo (m_db M)
         (configInfo\<lparr>ci_Status := ConfigStatusUpdated\<rparr>) tx)) (\<lambda>_.
      tx_commit M tx)))))))))))))"

subsection \<open>Import of one config\<close>

text \<open>
  \<open>createOrUpdateConfig\<close>. In the branch for another error than \<open>not found\<close> the code
  logs \<open>configInfo.Name\<close> of the \<open>nil\<close> pointer that came with the error, and panics before it rolls
  back. A config whose digest has not changed returns without ending the transaction.
  \<open>oldVersion\<close> stays zero in the code.
\<close>

definition import_info ::
  "'d manager \<Rightarrow> conn \<Rightarrow> string \<Rightarrow> string \<Rightarrow> string \<Rightarrow> string \<Rightarrow> string \<Rightarrow> ('d world, ConfigInfo) proc" where
  "import_info M tx name namespace siteID desc creator =
     attempt (on_db (GetConfigInfoByNamespaceNameSiteID (m_db M) namespace name siteID))
       (\<lambda>err. if err = ErrRecordNotFound
              then attempt (on_db (CreateConfigInfo (m_db M)
                     (ConfigInfo_zero\<lparr>ci_Name := name, ci_Namespace := namespace, ci_CreatedBy := creator,
                        ci_Desc := desc, ci_SiteID := siteID, ci_Format := getConfigFormat name,
                        ci_Status := ConfigStatusCreated\<rparr>) tx)) (rollback_err M tx) ret
              else panic)
       ret"

definition import_current :: "'d manager \<Rightarrow> conn \<Rightarrow> ConfigInfo \<Rightarrow> ('d world, ConfigCurrent) proc" where
  "import_current M tx configInfo =
     attempt (on_db (GetConfigCurrentByConfigID (m_db M) (ci_ID configInfo)))
       (\<lambda>err. if err = ErrRecordNotFound
              then attempt (on_db (CreateConfigCurrent (m_db M)
                     (ConfigCurrent_zero\<lparr>cc_ConfigInfoID := ci_ID configInfo, cc_Status := ''created''\<rparr>) tx))
                     (rollback_err M tx) ret
              else rollback_err M tx err)
       ret"

definition createOrUpdateConfig ::
  "'d manager \<Rightarrow> string \<Rightarrow> string \<Rightarrow> string \<Rightarrow> string \<Rightarrow> string \<Rightarrow> reader \<Rightarrow> ('d world, unit) proc" where
  "createOrUpdateConfig M name namespace siteID desc creator data =
     andthen (tx_begin M) (\<lambda>tx.
     andthen (import_info M tx name namespace siteID desc creator) (\<lambda>configInfo.
     andthen (import_current M tx configInfo) (\<lambda>configCurrent.
     andthen (if cc_LatestConfigVersionID configCurrent \<noteq> 0
              then or_rollback M tx (on_db (GetConfigVersionByID (m_db M) (cc_LatestConfigVersionID configCurrent)))
                     (\<lambda>configVersion. ret (cv_Digest configVersion))
              else ret []) (\<lambda>oldDigest.
     or_rollback M tx (put_fs M (\<lambda>tmp. StoreConfig (m_files M) tmp (ci_SiteID configInfo)
        (ci_Namespace configInfo) (ci_Name configInfo) (u64_str (0 + 1)) None (Some data))) (\<lambda>digest.
     if oldDigest = digest then ret ()
     else
     or_rollback M tx (on_db (CreateConfigVersion (m_db M)
        (ConfigVersion_zero\<lparr>cv_Name := ci_Name configInfo, cv_Namespace := ci_Namespace configInfo,
           cv_Version := 0 + 1, cv_Desc := ci_Desc configInfo, cv_CreatedBy := ci_CreatedBy configInfo,
           cv_SiteID := ci_SiteID configInfo, cv_Digest := digest, cv_Status := ConfigVersionCreate,
           cv_ConfigInfoID := ci_ID configInfo\<rparr>) tx)) (\<lambda>newConfigVersion.
     or_rollback M tx (on_db (UpdateConfigInfo (m_db M)
        (if ci_Status configInfo \<noteq> ConfigStatusCreated
         then configInfo\<lparr>ci_Status := ConfigStatusUpdated\<rparr> else configInfo) tx)) (\<lambda>_.
     or_rollback M tx (on_db (UpdateConfigCurrent (m_db M)
        (configCurrent\<lparr>cc_LatestConfigVersionID := cv_ID newConfigVersion\<rparr>) tx)) (\<lambda>_.
     tx_commit M tx))))))))"

subsection \<open>Templates\<close>

definition AddTemplate :: "'d manager \<Rightarrow> Template option \<Rightarrow> ('d world, unit) proc" where
  "AddTemplate M template0 = (case checkTemplateValidity template0 of
     Some err \<Rightarrow> fail err
   | None \<Rightarrow> let template = the template0 in
     andthen (tx_begin M) (\<lambda>tx.
     or_rollback M tx (on_db (FindOrCreateTemplateNamespace (m_db M) (tp_Namespace template)
        (tp_CreatedBy template) tx)) (\<lambda>_.
     or_rollback M tx (on_db (CreateTemplate (m_db M) (template\<lparr>tp_Status := ''created''\<rparr>) tx)) (\<lambda>template.
     or_rollback M tx (storeTemplateData M template 1) (\<lambda>digest.
     or_rollback M tx (on_db (CreateTemplateVersion (m_db M)
        (TemplateVersion_zero\<lparr>tv_Name := tp_Name template, tv_Namespace := tp_Namespace template,
           tv_Version := 1, tv_Desc := tp_Desc template, tv_CreatedBy := tp_CreatedBy template,
           tv_Group := tp_Group template, tv_Digest := digest, tv_Status := ''created'',
           tv_TemplateID := tp_ID template\<rparr>) tx)) (\<lambda>templateVersion.
     or_rollback M tx (on_db (UpdateTemplateRow (m_db M)
        (template\<lparr>tp_LatestVersionID := tv_ID templateVersion\<rparr>) tx)) (\<lambda>_.
     tx_commit M tx)))))))"

definition UpdateTemplate_row :: "'d manager \<Rightarrow> conn \<Rightarrow> Template \<Rightarrow> ('d world, unit) proc" where
  "UpdateTemplate_row M tx template =
     or_rollback M tx (on_db (UpdateTemplateRow (m_db M) template tx)) (\<lambda>_. tx_commit M tx)"

definition UpdateTemplate :: "'d manager \<Rightarrow> Template option \<Rightarrow> ('d world, unit) proc" where
  "UpdateTemplate M template0 = (case checkTemplateValidity template0 of
     Some err \<Rightarrow> fail err
   | None \<Rightarrow> let new = the template0 in
     andthen (on_db (GetTemplateByID (m_db M) (tp_ID new))) (\<lambda>stored.
     let template = stored\<lparr>tp_Data := tp_Data new, tp_CreatedBy := tp_CreatedBy new\<rparr> in
     andthen (tx_begin M) (\<lambda>tx.
     or_rollback M tx (on_db (GetTemplateVersionByID (m_db M) (tp_LatestVersionID template))) (\<lambda>old.
     or_rollback M tx (storeTemplateData M template (tv_Version old + 1)) (\<lambda>digest.
     if isTemplateNeedNewVersion old template digest
     then or_rollback M tx (on_db (CreateTemplateVersion (m_db M)
            (TemplateVersion_zero\<lparr>tv_Name := tp_Name template, tv_Namespace := tp_Namespace template,
               tv_Version := tv_Version old + 1, tv_Desc := tp_Desc template,
               tv_CreatedBy := tp_CreatedBy template, tv_Group := tp_Group template, tv_Digest := digest,
               tv_Status := ''created'', tv_TemplateID := tp_ID template\<rparr>) tx)) (\<lambda>v.
          UpdateTemplate_row M tx (template\<lparr>tp_LatestVersionID := tv_ID v\<rparr>))
     else UpdateTemplate_row M tx template)))))"

text \<open>
  \<open>ReloadTemplate\<close>: for another format than properties it returns the \<open>nil\<close> error of the
  step before. The error of \<open>getConfigTemplate\<close> is overwritten, and its \<open>nil\<close> result is
  dereferenced: a panic.
\<close>

definition ReloadTemplate :: "'d manager \<Rightarrow> u64 \<Rightarrow> ('d world, unit) proc" where
  "ReloadTemplate M i =
     andthen (on_db (GetConfigInfoByID (m_db M) i)) (\<lambda>configInfo.
     if ci_Format configInfo \<noteq> ConfigFormatProperties then ret ()
     else
     andthen (renderClusterEnv M configInfo) (\<lambda>renderConfig.
     andthen (visitConfigData M renderConfig) (\<lambda>(_, _, replaceFile).
     attempt (getConfigTemplate M renderConfig) (\<lambda>_. panic) (\<lambda>templateVersion.
     andthen (on_fs (VisitTemplate (m_files M) (tv_Namespace templateVersion) (tv_Name templateVersion)
        (u64_str (tv_Version templateVersion)))) (\<lambda>(_, tmpFile).
     UpdateConfig M (Some (configInfo\<lparr>ci_TemplateVersionID := tv_ID templateVersion,
        ci_TemplateData := tmpFile,
        ci_ReplaceData := (case replaceFile of None \<Rightarrow> [] | Some d \<Rightarrow> d)\<rparr>)))))))"

subsection \<open>Reading operations\<close>

definition GetConfigDetail :: "'d manager \<Rightarrow> u64 \<Rightarrow> ('d world, ConfigInfo) proc" where
  "GetConfigDetail M i =
     andthen (on_db (GetConfigInfoByID (m_db M) i)) (\<lambda>config.
     andthen (visitConfigData M config) (\<lambda>(file, templateFile, replaceFile).
     ret (config\<lparr>ci_Data := show_data M (ci_Format config) file,
        ci_TemplateData := (case templateFile of None \<Rightarrow> ci_TemplateData config | Some d \<Rightarrow> d),
        ci_ReplaceData := (case replaceFile of None \<Rightarrow> ci_ReplaceData config | Some d \<Rightarrow> d)\<rparr>)))"

text \<open>Whether an instance has the digest of the current release; on a failed read it stays as it is.\<close>

definition check_sync :: "'d manager \<Rightarrow> ConfigInfo \<Rightarrow> ConfigInstance \<Rightarrow> ('d world, ConfigInstance) proc" where
  "check_sync M configInfo x =
     attempt (on_db (GetConfigCurrentByConfigID (m_db M) (ci_ID configInfo))) (\<lambda>_. ret x) (\<lambda>configCurrent.
     attempt (on_db (GetReleaseByID (m_db M) (cc_LatestReleaseID configCurrent))) (\<lambda>_. ret x) (\<lambda>release.
     ret (x\<lparr>in_IsSync := (rl_Digest release = in_Digest x)\<rparr>)))"

fun check_all_sync :: "'d manager \<Rightarrow> ConfigInfo \<Rightarrow> ConfigInstance list \<Rightarrow> ('d world, ConfigInstance list) proc" where
  "check_all_sync M configInfo [] = ret []"
| "check_all_sync M configInfo (x # xs) =
     andthen (check_sync M configInfo x) (\<lambda>y.
     andthen (check_all_sync M configInfo xs) (\<lambda>ys. ret (y # ys)))"

definition getConfigInstances :: "'d manager \<Rightarrow> ConfigInfo \<Rightarrow> ('d world, ConfigInstance list) proc" where
  "getConfigInstances M configInfo =
     andthen (on_db (GetClusterBySiteID (m_db M) (ci_SiteID configInfo))) (\<lambda>cluster.
     andthen (on_db (GetConfigInstanceByConfigID (m_db M) (ci_ID configInfo) (cl_ConnKey cluster))) (\<lambda>instances.
     check_all_sync M configInfo instances))"

definition GetConfigInstances :: "'d manager \<Rightarrow> u64 \<Rightarrow> ('d world, ConfigInstance list) proc" where
  "GetConfigInstances M i =
     andthen (on_db (GetConfigInfoByID (m_db M) i)) (\<lambda>configInfo. getConfigInstances M configInfo)"

definition getReleaseConfigDetail ::
  "'d manager \<Rightarrow> ConfigInfo \<Rightarrow> ('d world, string \<times> ConfigInstance list) proc" where
  "getReleaseConfigDetail M configInfo =
     andthen (on_db (GetConfigCurrentByConfigID (m_db M) (ci_ID configInfo))) (\<lambda>configCurrent.
     andthen (on_db (GetConfigVersionByID (m_db M) (cc_LatestConfigVersionID configCurrent))) (\<lambda>configVersion.
     andthen (visitConfigVersionData M configVersion) (\<lambda>(cur, _, _).
     andthen (if cc_LatestReleaseID configCurrent \<noteq> 0
              then andthen (on_db (GetReleaseByID (m_db M) (cc_LatestReleaseID configCurrent))) (\<lambda>oldRelease.
                   andthen (on_db (GetConfigVersionByID (m_db M) (rl_ConfigVersionID oldRelease))) (\<lambda>oldConfigVersion.
                   andthen (visitConfigVersionData M oldConfigVersion) (\<lambda>(pre, _, _). ret pre)))
              else ret []) (\<lambda>pre.
     let data = (if ci_Format configInfo = ConfigFormatJPG then m_base64 M cur
                 else diffConfigData M cur pre (ci_Format configInfo))
     in andthen (getConfigInstances M configInfo) (\<lambda>instances. ret (data, instances))))))"

definition ReleaseConfigDetail :: "'d manager \<Rightarrow> u64 \<Rightarrow> ('d world, string \<times> ConfigInstance list) proc" where
  "ReleaseConfigDetail M i =
     andthen (on_db (GetConfigInfoByID (m_db M) i)) (\<lambda>configInfo. getReleaseConfigDetail M configInfo)"

fun namespace_details ::
  "'d manager \<Rightarrow> ConfigInfo list \<Rightarrow> ('d world, (ConfigInfo \<times> ConfigInstance list) list) proc" where
  "namespace_details M [] = ret []"
| "namespace_details M (configInfo # rest) =
     andthen (getConfigInstances M configInfo) (\<lambda>instances.
     andthen (namespace_details M rest) (\<lambda>ds. ret ((configInfo, instances) # ds)))"

definition ReleaseNamespaceDetail ::
  "'d manager \<Rightarrow> string \<Rightarrow> string \<Rightarrow> ('d world, (ConfigInfo \<times> ConfigInstance list) list) proc" where
  "ReleaseNamespaceDetail M siteID ns =
     andthen (on_db (GetAllConfigInfos (m_db M) (pending siteID ns))) (\<lambda>configInfos. namespace_details M configInfos)"

text \<open>The difference between two versions of a config: data, diff, meta.\<close>

definition history_diff ::
  "'d manager \<Rightarrow> string \<Rightarrow> string \<Rightarrow> ConfigVersion \<Rightarrow> ConfigVersion \<Rightarrow> ('d world, string \<times> string \<times> string) proc" where
  "history_diff M format data configVersion preConfigVersion =
     (let meta = diffConfigMeta configVersion preConfigVersion
      in if cv_Digest configVersion = cv_Digest preConfigVersion then ret (data, [], meta)
         else andthen (visitConfigVersionData M preConfigVersion) (\<lambda>(preFile, _, _).
              ret (data, diffConfigData M data (show_data M format preFile) format, meta)))"

definition GetChangeHistoryDetail ::
  "'d manager \<Rightarrow> u64 \<Rightarrow> u64 \<Rightarrow> ('d world, string \<times> string \<times> string) proc" where
  "GetChangeHistoryDetail M i configVersionID =
     andthen (on_db (GetConfigInfoByID (m_db M) i)) (\<lambda>configInfo.
     andthen (on_db (GetConfigVersionByID (m_db M) configVersionID)) (\<lambda>configVersion.
     andthen (visitConfigVersionData M configVersion) (\<lambda>(file, _, _).
     let data = show_data M (ci_Format configInfo) file
     in if cv_Version configVersion < 2 then ret (data, data, [])
        else andthen (on_db (GetConfigVersionByConfigInfoIDAndVersion (m_db M) i (cv_Version configVersion - 1)))
               (\<lambda>preConfigVersion. history_diff M (ci_Format configInfo) data configVersion preConfigVersion))))"

definition GetReleaseHistoryDetail ::
  "'d manager \<Rightarrow> u64 \<Rightarrow> u64 \<Rightarrow> ('d world, string \<times> string \<times> string) proc" where
  "GetReleaseHistoryDetail M i releaseID =
     andthen (on_db (GetConfigInfoByID (m_db M) i)) (\<lambda>configInfo.
     andthen (on_db (GetReleaseByID (m_db M) releaseID)) (\<lambda>release.
     andthen (on_db (GetConfigVersionByID (m_db M) (rl_ConfigVersionID release))) (\<lambda>configVersion.
     andthen (visitConfigVersionData M configVersion) (\<lambda>(file, _, _).
     let data = show_data M (ci_Format configInfo) file
     in if rl_Version release < 2 then ret (data, data, [])
        else andthen (on_db (GetReleaseByConfigInfoIDAndVersion (m_db M) i (rl_Version release - 1))) (\<lambda>preRelease.
             andthen (on_db (GetConfigVersionByID (m_db M) (rl_ConfigVersionID preRelease)))
               (\<lambda>preConfigVersion. history_diff M (ci_Format configInfo) data configVersion preConfigVersion))))))"

definition GetTemplateDetail :: "'d manager \<Rightarrow> u64 \<Rightarrow> ('d world, Template) proc" where
  "GetTemplateDetail M i =
     andthen (on_db (GetTemplateByID (m_db M) i)) (\<lambda>template.
     andthen (visitTemplateData M template) (\<lambda>data. ret (template\<lparr>tp_Data := data\<rparr>)))"

definition GetTemplateDetailByNameAndNamespace ::
  "'d manager \<Rightarrow> string \<Rightarrow> string \<Rightarrow> string \<Rightarrow> ('d world, Template) proc" where
  "GetTemplateDetailByNameAndNamespace M name namespace siteID =
     andthen (on_db (GetClusterEnvBySiteID (m_db M) siteID)) (\<lambda>env.
     andthen (if env = [] then ret namespace
              else andthen (lift_sum (m_map_json M env)) (\<lambda>envMap. ret (render_namespace envMap namespace))) (\<lambda>ns.
     andthen (on_db (GetTemplateByNameNamespace (m_db M) name ns)) (\<lambda>template.
     andthen (visitTemplateData M template) (\<lambda>data. ret (template\<lparr>tp_Data := data\<rparr>)))))"

definition GetTemplateHistoryDetail :: "'d manager \<Rightarrow> u64 \<Rightarrow> u64 \<Rightarrow> ('d world, string) proc" where
  "GetTemplateHistoryDetail M i versionID =
     andthen (on_db (GetTemplateVersionByID (m_db M) versionID)) (\<lambda>templateVersion.
     andthen (visitTemplateVersionData M templateVersion) (\<lambda>cur.
     if tv_Version templateVersion < 2 then ret cur
     else andthen (on_db (GetTemplateVersionByTemplateIDAndVersion (m_db M) i (tv_Version templateVersion - 1))) (\<lambda>preVersion.
          if tv_Digest templateVersion = tv_Digest preVersion then ret []
          else andthen (visitTemplateVersionData M preVersion) (\<lambda>pre.
               ret (diffConfigData M cur pre ConfigFormatProperties)))))"

text \<open>The template names by namespace, and under \<open>${KEY}\<close> for the environment's \<open>CONFIG_\<close> keys.\<close>

fun template_options :: "Template list \<Rightarrow> string list gomap \<Rightarrow> string list gomap" where
  "template_options [] options = options"
| "template_options (t # ts) options =
     template_options ts (map_set (tp_Namespace t)
       ((case map_of options (tp_Namespace t) of None \<Rightarrow> [] | Some ns \<Rightarrow> ns) @ [tp_Name t]) options)"

fun env_options :: "string gomap \<Rightarrow> string list gomap \<Rightarrow> string list gomap" where
  "env_options [] options = options"
| "env_options ((k, v) # rest) options =
     env_options rest
       (if has_prefix k ''CONFIG_''
        then (case map_of options v of
                None \<Rightarrow> options
              | Some ops \<Rightarrow> map_set (''${'' @ k @ ''}'') ops options)
        else options)"

definition GetTemplateOption :: "'d manager \<Rightarrow> string \<Rightarrow> ('d world, string list gomap) proc" where
  "GetTemplateOption M siteID =
     andthen (on_db (ListAllTemplate (m_db M))) (\<lambda>templates.
     let options = template_options templates []
     in andthen (on_db (GetClusterEnvBySiteID (m_db M) siteID)) (\<lambda>env.
        if env = [] then ret options
        else andthen (lift_sum (m_map_json M env)) (\<lambda>envMap. ret (env_options envMap options))))"

definition GetDefaultImportAddress :: "string \<Rightarrow> string \<Rightarrow> goerr + string" where
  "GetDefaultImportAddress siteID source =
     (if siteID = [] then Inl (Errorf ''site_id can not be null'')
      else if source = ''image''
           then Inr (''harbor.xxxxx.cn/online-pipeline/camerainfos/'' @ siteID @ '':1.0.0'')
           else Inr [])"

end
