(* ===== verification/Config_Handlers.thy ===== *)
theory Config_Handlers
  imports Config_Release
begin

section \<open>The command handlers of the config manager (cmdhandler.go)\<close>

text \<open>
  What an agent asks of the manager: drop the instances of an application, record the
  files an application has, and compare the files an agent has with the released ones
  (\<open>filerefresh\<close>: the files of a request; \<open>fileresync\<close>: all released files of the site). A
  handler answers with a response and never fails itself; \<open>Caller\<close> is the connection key of the
  agent. A map of maps is an association list of association lists.
\<close>

definition respond :: "cmd_resp \<Rightarrow> ('d world, cmd_resp) proc" where
  "respond r = ret r"

definition appCancelHandler :: "'d manager \<Rightarrow> cmd_req \<Rightarrow> ('d world, cmd_resp) proc" where
  "appCancelHandler M req = (case getSiteIDFromConnKey (rq_peer req) of
     Inl _ \<Rightarrow> respond (RespError (''invalid request caller: '' @ rq_peer req))
   | Inr siteID \<Rightarrow>
       attempt (on_db (DeleteConfigInstance (m_db M) (map_get (rq_args req) ''app'')
           (map_get (rq_args req) ''hostname'') siteID (rq_peer req) DB))
         (\<lambda>err. respond (RespError (err_text err)))
         (\<lambda>_. respond (RespSucceed ''success'')))"

text \<open>The file names whose instance could not be saved.\<close>

fun update_instances ::
  "'d manager \<Rightarrow> string \<Rightarrow> ConfigInstanceUpdateInfo \<Rightarrow> string gomap \<Rightarrow> ('d world, string list) proc" where
  "update_instances M caller info [] = ret []"
| "update_instances M caller info ((filename, digest) # rest) =
     andthen
       (attempt (on_db (GetConfigInfoByNamespaceNameSiteID (m_db M) (up_Namespace info) filename (up_SiteID info)))
          (\<lambda>_. ret [filename]) (\<lambda>configInfo.
        attempt (on_db (SaveConfigInstance (m_db M)
             (\<lparr>in_ID = 0, in_Name = up_App info, in_SiteID = up_SiteID info, in_Hostname = up_Hostname info,
                in_IP = up_IP info, in_Digest = digest, in_ConfigInfoID = ci_ID configInfo,
                in_ConnKey = caller, in_IsSync = False\<rparr>) DB))
          (\<lambda>_. ret [filename]) (\<lambda>_. ret [])))
       (\<lambda>bad. andthen (update_instances M caller info rest) (\<lambda>bads. ret (bad @ bads)))"

definition fileUpdateHandler :: "'d manager \<Rightarrow> cmd_req \<Rightarrow> ('d world, cmd_resp) proc" where
  "fileUpdateHandler M req = (case m_update_json M (map_get (rq_args req) ''updateinfo'') of
     Inl err \<Rightarrow> respond (RespError (err_text err))
   | Inr info \<Rightarrow>
       andthen (update_instances M (rq_peer req) info (up_Filenames info)) (\<lambda>errList.
       if errList \<noteq> []
       then respond (RespError (''FileUpdateHandler: update instance errList: ['' @ join_with '' '' errList @ '']''))
       else respond (RespSucceed ''success'')))"

subsection \<open>Maps of maps\<close>

definition map2_get :: "string gomap gomap \<Rightarrow> string \<Rightarrow> string \<Rightarrow> string option" where
  "map2_get m ns f = (case map_of m ns of None \<Rightarrow> None | Some fs \<Rightarrow> map_of fs f)"

text \<open>\<open>if _, ok := m[ns]; !ok { m[ns] = make(...) }; m[ns][f] = v\<close>\<close>

definition map2_set :: "string \<Rightarrow> string \<Rightarrow> string \<Rightarrow> string gomap gomap \<Rightarrow> string gomap gomap" where
  "map2_set ns f v m = map_set ns (map_set f v (case map_of m ns of None \<Rightarrow> [] | Some fs \<Rightarrow> fs)) m"

text \<open>\<open>delete(m[ns], f)\<close>\<close>

definition map2_del :: "string \<Rightarrow> string \<Rightarrow> string gomap gomap \<Rightarrow> string gomap gomap" where
  "map2_del ns f m = (case map_of m ns of None \<Rightarrow> m | Some fs \<Rightarrow> map_set ns (map_del f fs) m)"

lemma map2_get_set:
  "map2_get (map2_set ns f v m) ns' f' = (if ns' = ns \<and> f' = f then Some v else map2_get m ns' f')"
  by (auto simp: map2_get_def map2_set_def split: option.splits)

lemma map2_get_del:
  "map2_get (map2_del ns f m) ns' f' = (if ns' = ns \<and> f' = f then None else map2_get m ns' f')"
  by (auto simp: map2_get_def map2_del_def split: option.splits)

subsection \<open>filerefresh\<close>

text \<open>The released digest and version of a config, or why there is none.\<close>

definition released_of :: "'d manager \<Rightarrow> ConfigInfo \<Rightarrow> ('d world, Release \<times> ConfigVersion) proc" where
  "released_of M configInfo =
     andthen (on_db (GetConfigCurrentByConfigID (m_db M) (ci_ID configInfo))) (\<lambda>configCurrent.
     andthen (on_db (GetReleaseByID (m_db M) (cc_LatestReleaseID configCurrent))) (\<lambda>release.
     andthen (on_db (GetConfigVersionByID (m_db M) (rl_ConfigVersionID release))) (\<lambda>configVersion.
     ret (release, configVersion))))"

text \<open>One file of a request: a failed read skips it.\<close>

definition refresh_file ::
  "'d manager \<Rightarrow> string \<Rightarrow> string \<Rightarrow> string \<Rightarrow> string \<Rightarrow> string gomap gomap \<Rightarrow> ('d world, string gomap gomap) proc" where
  "refresh_file M siteID ns filename digest diff =
     attempt (andthen (on_db (GetConfigInfoByNamespaceNameSiteID (m_db M) ns filename siteID))
                (\<lambda>configInfo. released_of M configInfo))
       (\<lambda>_. ret diff) (\<lambda>(release, configVersion).
     ret (if rl_Digest release \<noteq> digest
          then map2_set ns filename (u64_str (cv_Version configVersion)) diff else diff))"

fun refresh_files ::
  "'d manager \<Rightarrow> string \<Rightarrow> string \<Rightarrow> string gomap \<Rightarrow> string gomap gomap \<Rightarrow> ('d world, string gomap gomap) proc" where
  "refresh_files M siteID ns [] diff = ret diff"
| "refresh_files M siteID ns ((filename, digest) # rest) diff =
     andthen (refresh_file M siteID ns filename digest diff) (\<lambda>diff'. refresh_files M siteID ns rest diff')"

fun refresh_all ::
  "'d manager \<Rightarrow> string \<Rightarrow> string gomap gomap \<Rightarrow> string gomap gomap \<Rightarrow> ('d world, string gomap gomap) proc" where
  "refresh_all M siteID [] diff = ret diff"
| "refresh_all M siteID ((ns, file) # rest) diff =
     andthen (refresh_files M siteID ns file diff) (\<lambda>diff'. refresh_all M siteID rest diff')"

text \<open>The answer is the JSON text of a map of maps, which \<open>encoding/json\<close> always writes.\<close>

definition fileRefreshHandler :: "'d manager \<Rightarrow> cmd_req \<Rightarrow> ('d world, cmd_resp) proc" where
  "fileRefreshHandler M req = (case getSiteIDFromConnKey (rq_peer req) of
     Inl err \<Rightarrow> respond (RespError (err_text err))
   | Inr siteID \<Rightarrow>
       (case m_content_json M (map_get (rq_args req) ''filecontents'') of
          Inl err \<Rightarrow> respond (RespError (err_text err))
        | Inr content \<Rightarrow>
            andthen (refresh_all M siteID content []) (\<lambda>diff.
            respond (RespSucceed (m_show_content M diff)))))"

subsection \<open>fileresync\<close>

text \<open>The released digests and versions of the configs; a config that cannot be read is skipped.\<close>

definition collect_one ::
  "'d manager \<Rightarrow> ConfigInfo \<Rightarrow> string gomap gomap \<times> string gomap gomap
     \<Rightarrow> ('d world, string gomap gomap \<times> string gomap gomap) proc" where
  "collect_one M configInfo acc =
     attempt (on_db (GetConfigCurrentByConfigID (m_db M) (ci_ID configInfo))) (\<lambda>_. ret acc) (\<lambda>configCurrent.
     if cc_LatestReleaseID configCurrent = 0 then ret acc
     else attempt (on_db (GetReleaseByID (m_db M) (cc_LatestReleaseID configCurrent))) (\<lambda>_. ret acc) (\<lambda>release.
     attempt (on_db (GetConfigVersionByID (m_db M) (rl_ConfigVersionID release))) (\<lambda>_. ret acc) (\<lambda>configVersion.
     ret (map2_set (ci_Namespace configInfo) (ci_Name configInfo) (rl_Digest release) (fst acc),
          map2_set (ci_Namespace configInfo) (ci_Name configInfo) (u64_str (cv_Version configVersion)) (snd acc)))))"

fun collect_released ::
  "'d manager \<Rightarrow> ConfigInfo list \<Rightarrow> string gomap gomap \<times> string gomap gomap
     \<Rightarrow> ('d world, string gomap gomap \<times> string gomap gomap) proc" where
  "collect_released M [] acc = ret acc"
| "collect_released M (configInfo # rest) acc =
     andthen (collect_one M configInfo acc) (\<lambda>acc'. collect_released M rest acc')"

text \<open>
  The files the agent has with the released digest are taken out. A file that is not
  released has the empty digest in the comparison.
\<close>

fun drop_files :: "string gomap gomap \<Rightarrow> string \<Rightarrow> string gomap \<Rightarrow> string gomap gomap \<Rightarrow> string gomap gomap" where
  "drop_files releasedDigest ns [] rv = rv"
| "drop_files releasedDigest ns ((filename, digest) # rest) rv =
     drop_files releasedDigest ns rest
       (if (case map2_get releasedDigest ns filename of None \<Rightarrow> [] | Some d \<Rightarrow> d) = digest
        then map2_del ns filename rv else rv)"

fun drop_current :: "string gomap gomap \<Rightarrow> string gomap gomap \<Rightarrow> string gomap gomap \<Rightarrow> string gomap gomap" where
  "drop_current releasedDigest [] rv = rv"
| "drop_current releasedDigest ((ns, file) # rest) rv =
     drop_current releasedDigest rest
       (if map_of releasedDigest ns = None then rv else drop_files releasedDigest ns file rv)"

definition fileSyncHandler :: "'d manager \<Rightarrow> cmd_req \<Rightarrow> ('d world, cmd_resp) proc" where
  "fileSyncHandler M req = (case getSiteIDFromConnKey (rq_peer req) of
     Inl err \<Rightarrow> respond (RespError (err_text err))
   | Inr siteID \<Rightarrow>
       (case m_content_json M (map_get (rq_args req) ''filecontents'') of
          Inl err \<Rightarrow> respond (RespError (err_text err))
        | Inr content \<Rightarrow>
            attempt (on_db (GetAllConfigInfos (m_db M) (\<lambda>r. ci_SiteID r = siteID \<and> not_deleted (ci_Status r))))
              (\<lambda>err. respond (RespError (err_text err))) (\<lambda>configInfos.
            andthen (collect_released M configInfos ([], [])) (\<lambda>(releasedDigest, releasedVersion).
            respond (RespSucceed (m_show_content M (drop_current releasedDigest content releasedVersion)))))))"

end
