(* ===== verification/Manager_Laws.thy ===== *)
theory Manager_Laws
  imports Config_Handlers
begin

section \<open>The laws of the database, and transactions that end\<close>

text \<open>
  The locale \<open>gorm_db\<close> puts the laws of the ten tables and of the transactions
  together. Under it: \<open>calm\<close> (a step leaves the database as it is), \<open>local\<close> (a step
  works within one transaction), \<open>ends\<close> (a body commits or rolls back on every path) and
  \<open>atomic\<close> (an operation that returns an error has changed nothing, and no operation leaves a
  transaction open), with one rule per way a step is put together. Every operation of the manager is then
  \<open>atomic\<close> or \<open>calm\<close> by these rules.
\<close>

record db_view =
  v_info :: "ConfigInfo list"
  v_version :: "ConfigVersion list"
  v_current :: "ConfigCurrent list"
  v_release :: "Release list"
  v_instance :: "ConfigInstance list"
  v_cns :: "ConfigNamespace list"
  v_template :: "Template list"
  v_tversion :: "TemplateVersion list"
  v_tns :: "TemplateNamespace list"
  v_cluster :: "Cluster list"

locale gorm_db =
  tx: db_transactions "g_tx (m_db M)" obs
  + info: db_table "t_info (m_db M)" obs v_info "\<lambda>xs v. v\<lparr>v_info := xs\<rparr>" ci_ID
      "\<lambda>i r. r\<lparr>ci_ID := i\<rparr>" ConfigInfo_persist ConfigInfo_merge ConfigInfo_clash
  + version: db_table "t_version (m_db M)" obs v_version "\<lambda>xs v. v\<lparr>v_version := xs\<rparr>" cv_ID
      "\<lambda>i r. r\<lparr>cv_ID := i\<rparr>" ConfigVersion_persist ConfigVersion_merge ConfigVersion_clash
  + current: db_table "t_current (m_db M)" obs v_current "\<lambda>xs v. v\<lparr>v_current := xs\<rparr>" cc_ID
      "\<lambda>i r. r\<lparr>cc_ID := i\<rparr>" ConfigCurrent_persist ConfigCurrent_merge ConfigCurrent_clash
  + release: db_table "t_release (m_db M)" obs v_release "\<lambda>xs v. v\<lparr>v_release := xs\<rparr>" rl_ID
      "\<lambda>i r. r\<lparr>rl_ID := i\<rparr>" Release_persist Release_merge Release_clash
  + inst: db_table "t_instance (m_db M)" obs v_instance "\<lambda>xs v. v\<lparr>v_instance := xs\<rparr>" in_ID
      "\<lambda>i r. r\<lparr>in_ID := i\<rparr>" ConfigInstance_persist ConfigInstance_merge ConfigInstance_clash
  + cns: db_table "t_cns (m_db M)" obs v_cns "\<lambda>xs v. v\<lparr>v_cns := xs\<rparr>" cn_ID
      "\<lambda>i r. r\<lparr>cn_ID := i\<rparr>" ConfigNamespace_persist ConfigNamespace_merge ConfigNamespace_clash
  + template: db_table "t_template (m_db M)" obs v_template "\<lambda>xs v. v\<lparr>v_template := xs\<rparr>" tp_ID
      "\<lambda>i r. r\<lparr>tp_ID := i\<rparr>" Template_persist Template_merge Template_clash
  + tversion: db_table "t_tversion (m_db M)" obs v_tversion "\<lambda>xs v. v\<lparr>v_tversion := xs\<rparr>" tv_ID
      "\<lambda>i r. r\<lparr>tv_ID := i\<rparr>" TemplateVersion_persist TemplateVersion_merge TemplateVersion_clash
  + tns: db_table "t_tns (m_db M)" obs v_tns "\<lambda>xs v. v\<lparr>v_tns := xs\<rparr>" tn_ID
      "\<lambda>i r. r\<lparr>tn_ID := i\<rparr>" TemplateNamespace_persist TemplateNamespace_merge TemplateNamespace_clash
  + cluster: db_table "t_cluster (m_db M)" obs v_cluster "\<lambda>xs v. v\<lparr>v_cluster := xs\<rparr>" cl_ID
      "\<lambda>i r. r\<lparr>cl_ID := i\<rparr>" Cluster_persist Cluster_merge Cluster_clash
  for M :: "'d manager" and obs :: "'d \<Rightarrow> db_view db_abs"

named_theorems tx_rules "steps, bodies and operations that respect transactions"

subsection \<open>One table\<close>

context db_table
begin

lemma first_run: "t_first T c P d = (r, d') \<Longrightarrow> obs d' = obs d"
  using first_abs [of c P d] by simp

lemma find_run: "t_find T c P d = (r, d') \<Longrightarrow> obs d' = obs d"
  using find_abs [of c P d] by simp

lemma create_alters: "\<exists>f. obs (snd (t_create T c r d)) = alter c f (obs d) \<or> obs (snd (t_create T c r d)) = obs d"
  using create_no_panic [of c r d]
  by (cases "t_create T c r d"; cases "fst (t_create T c r d)") (auto dest: create_Ok create_Err)

lemma updates_alters: "\<exists>f. obs (snd (t_updates T c P r d)) = alter c f (obs d) \<or> obs (snd (t_updates T c P r d)) = obs d"
  using updates_no_panic [of c P r d]
  by (cases "t_updates T c P r d"; cases "fst (t_updates T c P r d)") (auto dest: updates_Ok updates_Err)

lemma first_or_create_alters:
  "\<exists>f. obs (snd (t_first_or_create T c P r d)) = alter c f (obs d) \<or> obs (snd (t_first_or_create T c P r d)) = obs d"
  using first_or_create_no_panic [of c P r d]
  by (cases "t_first_or_create T c P r d"; cases "fst (t_first_or_create T c P r d)")
    (auto dest!: first_or_create_Ok first_or_create_Err)

lemma updates_by_id_alters:
  "\<exists>f. obs (snd (updates_by_id T pk c i r d)) = alter c f (obs d) \<or> obs (snd (updates_by_id T pk c i r d)) = obs d"
  using updates_alters by (simp add: updates_by_id_def fail_def)

end


subsection \<open>Steps and transactions\<close>

definition calm :: "('d \<Rightarrow> db_view db_abs) \<Rightarrow> ('d world, 'a) proc \<Rightarrow> bool" where
  "calm obs m \<longleftrightarrow> (\<forall>w. obs (w_db (snd (m w))) = obs (w_db w))"

text \<open>
  The database of an operation that began in \<open>a0\<close> and has transaction \<open>n\<close>: apart from the
  transaction it is \<open>a0\<close>, and the transaction began on the committed data.
\<close>

definition inside :: "nat \<Rightarrow> db_view db_abs \<Rightarrow> db_view db_abs \<Rightarrow> bool" where
  "inside n a0 a \<longleftrightarrow> close_tx n a = a0 \<and> (\<forall>b v. a_tx a n = Some (b, v) \<longrightarrow> b = a_db a0)"

definition local :: "('d \<Rightarrow> db_view db_abs) \<Rightarrow> nat \<Rightarrow> db_view db_abs \<Rightarrow> ('d world, 'a) proc \<Rightarrow> bool" where
  "local obs n a0 m \<longleftrightarrow> (\<forall>w. inside n a0 (obs (w_db w)) \<longrightarrow> inside n a0 (obs (w_db (snd (m w)))))"

text \<open>How a body ends, and how an operation ends, by its outcome.\<close>

definition ended :: "nat \<Rightarrow> db_view db_abs \<Rightarrow> 'a outcome \<Rightarrow> db_view db_abs \<Rightarrow> bool" where
  "ended n a0 r a = (case r of
      Ok x \<Rightarrow> a_tx a = a_tx a0 | Err e \<Rightarrow> a = a0 | Panic \<Rightarrow> inside n a0 a)"

definition ends :: "('d \<Rightarrow> db_view db_abs) \<Rightarrow> nat \<Rightarrow> db_view db_abs \<Rightarrow> ('d world, 'a) proc \<Rightarrow> bool" where
  "ends obs n a0 m \<longleftrightarrow> (\<forall>w. inside n a0 (obs (w_db w)) \<longrightarrow>
     ended n a0 (fst (m w)) (obs (w_db (snd (m w)))))"

definition done_op :: "db_view db_abs \<Rightarrow> 'a outcome \<Rightarrow> db_view db_abs \<Rightarrow> bool" where
  "done_op a0 r a = (case r of
      Ok x \<Rightarrow> a_tx a = a_tx a0 | Err e \<Rightarrow> a = a0 | Panic \<Rightarrow> a_db a = a_db a0)"

definition atomic :: "('d \<Rightarrow> db_view db_abs) \<Rightarrow> ('d world, 'a) proc \<Rightarrow> bool" where
  "atomic obs m \<longleftrightarrow> (\<forall>w. done_op (obs (w_db w)) (fst (m w)) (obs (w_db (snd (m w)))))"

lemma calmD: "calm obs m \<Longrightarrow> m w = (r, w') \<Longrightarrow> obs (w_db w') = obs (w_db w)"
  unfolding calm_def by (metis snd_conv)

lemma localD: "local obs n a0 m \<Longrightarrow> m w = (r, w') \<Longrightarrow> inside n a0 (obs (w_db w)) \<Longrightarrow> inside n a0 (obs (w_db w'))"
  unfolding local_def by (metis snd_conv)

lemma insideD: "inside n a0 a \<Longrightarrow> a_db a = a_db a0"
  unfolding inside_def by (metis close_tx_simps(1))

lemma inside_alter: "inside n a0 a \<Longrightarrow> inside n a0 (alter (TX n) f a)"
  unfolding inside_def close_alter by auto

lemma snd_on_db: "w_db (snd (on_db m w)) = snd (m (w_db w))"
  by (simp add: on_db_def split: prod.split)

text \<open>Steps that leave the database alone.\<close>

lemma calm_attempt [tx_rules]:
  fixes m :: "('d world, 'a) proc"
  assumes "calm obs m" "\<And>e. calm obs (h e)" "\<And>x. calm obs (k x)"
  shows "calm obs (attempt m h k)"
  unfolding calm_def
proof
  fix w :: "'d world"
  obtain r w1 where m: "m w = (r, w1)" by fastforce
  with calmD [OF assms(1) m] show "obs (w_db (snd (attempt m h k w))) = obs (w_db w)"
    using assms(2,3) unfolding attempt_run [of m, OF m] calm_def by (cases r) auto
qed

lemma calm_basic [tx_rules]:
  "calm obs (ret x)" "calm obs (fail e)" "calm obs panic" "calm obs (on_fs f)" "calm obs (put_fs M g)"
  "calm obs (SendSync M c)"
  by (simp_all add: calm_def ret_def fail_def panic_def on_fs_def put_fs_def SendSync_def split: prod.split)

lemma calm_combine [tx_rules]:
  "calm obs m \<Longrightarrow> (\<And>x. calm obs (k x)) \<Longrightarrow> calm obs (andthen m k)"
  "calm obs (lift_sum s)"
  "calm obs m1 \<Longrightarrow> calm obs m2 \<Longrightarrow> calm obs (if b then m1 else m2)"
  "(\<And>x y. calm obs (c2 x y)) \<Longrightarrow> calm obs (case p of (x, y) \<Rightarrow> c2 x y)"
  "calm obs (l v) \<Longrightarrow> calm obs (Let v l)"
  subgoal unfolding andthen_def by (intro calm_attempt calm_basic)
  by (simp_all add: lift_sum_def calm_basic split: prod.split sum.split)

lemma calm_on_db: "(\<And>d. obs (snd (m d)) = obs d) \<Longrightarrow> calm obs (on_db m)"
  by (simp add: calm_def snd_on_db)

text \<open>Steps within one transaction.\<close>

lemma local_calm: "calm obs m \<Longrightarrow> local obs n a0 m"
  by (simp add: calm_def local_def)

lemma local_attempt [tx_rules]:
  fixes m :: "('d world, 'a) proc"
  assumes "local obs n a0 m" "\<And>e. local obs n a0 (h e)" "\<And>x. local obs n a0 (k x)"
  shows "local obs n a0 (attempt m h k)"
  unfolding local_def
proof (intro allI impI)
  fix w :: "'d world"
  assume ins: "inside n a0 (obs (w_db w))"
  obtain r w1 where m: "m w = (r, w1)" by fastforce
  have "inside n a0 (obs (w_db w1))" by (rule localD [OF assms(1) m ins])
  then show "inside n a0 (obs (w_db (snd (attempt m h k w))))"
    using assms(2,3) unfolding attempt_run [of m, OF m] local_def by (cases r) auto
qed

lemma local_basic [tx_rules]:
  "local obs n a0 (ret x)" "local obs n a0 (fail e)" "local obs n a0 (on_fs f)" "local obs n a0 (put_fs M g)"
  "local obs n a0 (lift_sum s)" "local obs n a0 (SendSync M c)"
  by (rule local_calm, rule calm_basic calm_combine)+

lemma local_combine [tx_rules]:
  "local obs n a0 m \<Longrightarrow> (\<And>x. local obs n a0 (k x)) \<Longrightarrow> local obs n a0 (andthen m k)"
  "local obs n a0 m1 \<Longrightarrow> local obs n a0 m2 \<Longrightarrow> local obs n a0 (if b then m1 else m2)"
  "(\<And>x y. local obs n a0 (c2 x y)) \<Longrightarrow> local obs n a0 (case p of (x, y) \<Rightarrow> c2 x y)"
  "local obs n a0 (l v) \<Longrightarrow> local obs n a0 (Let v l)"
  subgoal unfolding andthen_def by (intro local_attempt local_basic)
  by (simp_all split: prod.split)

lemma local_on_db:
  assumes "\<And>d. \<exists>f. obs (snd (m d)) = alter (TX n) f (obs d) \<or> obs (snd (m d)) = obs d"
  shows "local obs n a0 (on_db m)"
  unfolding local_def snd_on_db using assms inside_alter by metis

text \<open>Bodies of a transaction, and operations.\<close>

lemma ends_attempt [tx_rules]:
  fixes m :: "('d world, 'a) proc"
  assumes "local obs n a0 m" "\<And>e. ends obs n a0 (h e)" "\<And>x. ends obs n a0 (k x)"
  shows "ends obs n a0 (attempt m h k)"
  unfolding ends_def
proof (intro allI impI)
  fix w :: "'d world"
  assume ins: "inside n a0 (obs (w_db w))"
  obtain r w1 where m: "m w = (r, w1)" by fastforce
  have "inside n a0 (obs (w_db w1))" by (rule localD [OF assms(1) m ins])
  then show "ended n a0 (fst (attempt m h k w)) (obs (w_db (snd (attempt m h k w))))"
    using assms(2,3) unfolding attempt_run [of m, OF m] ends_def by (cases r) (auto simp: ended_def)
qed

lemma ends_combine [tx_rules]:
  "ends obs n a0 m1 \<Longrightarrow> ends obs n a0 m2 \<Longrightarrow> ends obs n a0 (if b then m1 else m2)"
  "(\<And>x y. ends obs n a0 (c2 x y)) \<Longrightarrow> ends obs n a0 (case p of (x, y) \<Rightarrow> c2 x y)"
  "ends obs n a0 (l v) \<Longrightarrow> ends obs n a0 (Let v l)"
  by (simp_all split: prod.split)

lemma atomicD: "atomic obs m \<Longrightarrow> done_op (obs (w_db w)) (fst (m w)) (obs (w_db (snd (m w))))"
  by (simp add: atomic_def)

lemma atomic_attempt:
  fixes m :: "('d world, 'a) proc"
  assumes "calm obs m" "\<And>e. atomic obs (h e)" "\<And>x. atomic obs (k x)"
  shows "atomic obs (attempt m h k)"
  unfolding atomic_def
proof
  fix w :: "'d world"
  obtain r w1 where m: "m w = (r, w1)" by fastforce
  have eq: "obs (w_db w1) = obs (w_db w)" by (rule calmD [OF assms(1) m])
  show "done_op (obs (w_db w)) (fst (attempt m h k w)) (obs (w_db (snd (attempt m h k w))))"
  proof (cases r)
    case (Ok x)
    then show ?thesis using atomicD [OF assms(3), of w1 x] eq by (simp add: attempt_run [of m, OF m])
  next
    case (Err e)
    then show ?thesis using atomicD [OF assms(2), of w1 e] eq by (simp add: attempt_run [of m, OF m])
  next
    case Panic
    then show ?thesis using eq by (simp add: attempt_run [of m, OF m] done_op_def)
  qed
qed

lemma atomic_combine [tx_rules]:
  "atomic obs (fail e)"
  "calm obs m \<Longrightarrow> (\<And>x. atomic obs (k x)) \<Longrightarrow> atomic obs (andthen m k)"
  "atomic obs m1 \<Longrightarrow> atomic obs m2 \<Longrightarrow> atomic obs (if b then m1 else m2)"
  "(\<And>x y. atomic obs (c2 x y)) \<Longrightarrow> atomic obs (case p of (x, y) \<Rightarrow> c2 x y)"
  "atomic obs (l v) \<Longrightarrow> atomic obs (Let v l)"
  "(\<And>e. atomic obs (s e)) \<Longrightarrow> atomic obs t \<Longrightarrow> atomic obs (case q of Some e \<Rightarrow> s e | None \<Rightarrow> t)"
proof -
  show f: "atomic obs (fail e)" for e by (simp add: atomic_def done_op_def fail_def)
  show "calm obs m \<Longrightarrow> (\<And>x. atomic obs (k x)) \<Longrightarrow> atomic obs (andthen m k)"
    unfolding andthen_def by (intro atomic_attempt f)
qed (simp_all split: prod.split option.split)

lemma atomic_removed [tx_rules]: "atomic obs m \<Longrightarrow> atomic obs (with_removed dir m)"
  unfolding atomic_def with_removed_def by (simp split: prod.split) (metis fst_conv snd_conv)

lemma atomic_calm: "calm obs m \<Longrightarrow> atomic obs m"
  by (simp add: atomic_def calm_def done_op_def split: outcome.split)

context gorm_db
begin

lemma reads [tx_rules]:
  "calm obs (on_db (GetConfigInfoByID (m_db M) i))"
  "calm obs (on_db (GetConfigInfoByNamespaceNameSiteID (m_db M) s1 s2 s3))"
  "calm obs (on_db (GetAllConfigInfos (m_db M) q))"
  "calm obs (on_db (GetConfigVersionByID (m_db M) i))"
  "calm obs (on_db (GetConfigVersionByConfigInfoIDAndVersion (m_db M) i j))"
  "calm obs (on_db (GetConfigCurrentByConfigID (m_db M) i))"
  "calm obs (on_db (GetReleaseByID (m_db M) i))"
  "calm obs (on_db (GetReleaseByConfigInfoIDAndVersion (m_db M) i j))"
  "calm obs (on_db (GetConfigInstanceByConfigID (m_db M) i s1))"
  "calm obs (on_db (ListAllTemplate (m_db M)))"
  "calm obs (on_db (GetTemplateByID (m_db M) i))"
  "calm obs (on_db (GetTemplateByNameNamespace (m_db M) s1 s2))"
  "calm obs (on_db (GetTemplateVersionByID (m_db M) i))"
  "calm obs (on_db (GetTemplateVersionByTemplateIDAndVersion (m_db M) i j))"
  "calm obs (on_db (GetClusterBySiteID (m_db M) s1))"
  by (rule calm_on_db, simp add: GetConfigInfoByID_def GetConfigInfoByNamespaceNameSiteID_def
      GetAllConfigInfos_def GetConfigVersionByID_def GetConfigVersionByConfigInfoIDAndVersion_def
      GetConfigCurrentByConfigID_def GetReleaseByID_def GetReleaseByConfigInfoIDAndVersion_def
      GetConfigInstanceByConfigID_def ListAllTemplate_def GetTemplateByID_def
      GetTemplateByNameNamespace_def GetTemplateVersionByID_def
      GetTemplateVersionByTemplateIDAndVersion_def GetClusterBySiteID_def
      info.first_abs info.find_abs version.first_abs current.first_abs release.first_abs
      inst.find_abs template.first_abs template.find_abs tversion.first_abs cluster.first_abs)+

lemma andthen_ret_snd: "snd (andthen m (\<lambda>i. ret (g i)) d) = snd (m d)"
  by (auto simp: andthen_def attempt_def ret_def fail_def split: prod.splits outcome.splits)

lemma read_env [tx_rules]: "calm obs (on_db (GetClusterEnvBySiteID (m_db M) s1))"
  by (rule calm_on_db) (simp add: GetClusterEnvBySiteID_def andthen_ret_snd cluster.find_abs)

lemma writes [tx_rules]:
  "local obs n a0 (on_db (CreateConfigInfo (m_db M) r1 (TX n)))"
  "local obs n a0 (on_db (UpdateConfigInfo (m_db M) r1 (TX n)))"
  "local obs n a0 (on_db (CreateConfigVersion (m_db M) r2 (TX n)))"
  "local obs n a0 (on_db (CreateConfigCurrent (m_db M) r3 (TX n)))"
  "local obs n a0 (on_db (UpdateConfigCurrent (m_db M) r3 (TX n)))"
  "local obs n a0 (on_db (CreateRelease (m_db M) r4 (TX n)))"
  "local obs n a0 (on_db (CreateTemplate (m_db M) r5 (TX n)))"
  "local obs n a0 (on_db (UpdateTemplateRow (m_db M) r5 (TX n)))"
  "local obs n a0 (on_db (CreateTemplateVersion (m_db M) r6 (TX n)))"
  "local obs n a0 (on_db (FindOrCreateConfigNamespace (m_db M) s1 s2 s3 (TX n)))"
  "local obs n a0 (on_db (FindOrCreateTemplateNamespace (m_db M) s1 s2 (TX n)))"
  subgoal unfolding CreateConfigInfo_def by (rule local_on_db) (simp only: andthen_ret_snd info.create_alters)
  subgoal unfolding UpdateConfigInfo_def by (rule local_on_db) (simp only: info.updates_by_id_alters)
  subgoal unfolding CreateConfigVersion_def by (rule local_on_db) (simp only: andthen_ret_snd version.create_alters)
  subgoal unfolding CreateConfigCurrent_def by (rule local_on_db) (simp only: andthen_ret_snd current.create_alters)
  subgoal unfolding UpdateConfigCurrent_def by (rule local_on_db) (simp only: current.updates_by_id_alters)
  subgoal unfolding CreateRelease_def by (rule local_on_db) (simp only: andthen_ret_snd release.create_alters)
  subgoal unfolding CreateTemplate_def by (rule local_on_db) (simp only: andthen_ret_snd template.create_alters)
  subgoal unfolding UpdateTemplateRow_def by (rule local_on_db) (simp only: template.updates_by_id_alters)
  subgoal unfolding CreateTemplateVersion_def by (rule local_on_db) (simp only: andthen_ret_snd tversion.create_alters)
  subgoal unfolding FindOrCreateConfigNamespace_def by (rule local_on_db) (simp only: cns.first_or_create_alters)
  subgoal unfolding FindOrCreateTemplateNamespace_def by (rule local_on_db) (simp only: tns.first_or_create_alters)
  done

lemma ends_rollback [tx_rules]: "ends obs n a0 (rollback_err M (TX n) e :: ('d world, 'b) proc)"
  unfolding ends_def
proof (intro allI impI)
  fix w :: "'d world"
  assume ins: "inside n a0 (obs (w_db w))"
  obtain r d where rb: "rollback_tx (g_tx (m_db M)) (TX n) (w_db w) = (r, d)" by fastforce
  have d: "obs d = a0" "r \<noteq> Panic" using tx.rollback_run [OF rb] ins by (auto simp: inside_def)
  have "rollback_err M (TX n) e w = ((Err e, w\<lparr>w_db := d\<rparr>) :: 'b outcome \<times> 'd world)"
    using d(2) rb by (cases r) (simp_all add: rollback_err_def tx_rollback_def on_db_def andthen_def
        attempt_def ret_def fail_def)
  then show "ended n a0 (fst (rollback_err M (TX n) e w :: 'b outcome \<times> 'd world))
    (obs (w_db (snd (rollback_err M (TX n) e w :: 'b outcome \<times> 'd world))))"
    using d(1) by (simp add: ended_def)
qed

lemma commit_closes:
  assumes cm: "commit_tx (g_tx (m_db M)) (TX n) d0 = (r, d)" and ins: "inside n a0 (obs d0)"
  shows "a_tx (obs d) = a_tx a0 \<and> r \<noteq> Panic"
proof (cases r)
  case (Ok u)
  then obtain b v where bv: "a_tx (obs d0) n = Some (b, v)"
    "b = a_db (obs d0) \<longrightarrow> obs d = close_tx n ((obs d0)\<lparr>a_db := v\<rparr>)"
    using tx.commit_Ok cm by blast
  with ins insideD [OF ins] have "obs d = close_tx n ((obs d0)\<lparr>a_db := v\<rparr>)" by (simp add: inside_def)
  moreover have "a_tx a0 = a_tx (close_tx n (obs d0))" using ins by (simp add: inside_def)
  ultimately show ?thesis using Ok by simp
next
  case (Err e)
  then have "obs d = close_tx n (obs d0)" using tx.commit_Err cm by blast
  then show ?thesis using ins Err by (simp add: inside_def)
next
  case Panic
  then show ?thesis using tx.commit_no_panic [of "TX n" d0] cm by simp
qed

lemma ends_commit [tx_rules]: "ends obs n a0 (tx_commit M (TX n))"
  unfolding ends_def
proof (intro allI impI)
  fix w :: "'d world"
  assume ins: "inside n a0 (obs (w_db w))"
  obtain r d where cm: "commit_tx (g_tx (m_db M)) (TX n) (w_db w) = (r, d)" by fastforce
  note d = commit_closes [OF cm ins]
  have "tx_commit M (TX n) w = (Ok (), w\<lparr>w_db := d\<rparr>)"
    using d cm by (cases r) (simp_all add: tx_commit_def on_db_def attempt_def ret_def)
  then show "ended n a0 (fst (tx_commit M (TX n) w)) (obs (w_db (snd (tx_commit M (TX n) w))))"
    using d by (simp add: ended_def)
qed

lemma ends_or_rollback [tx_rules]:
  "local obs n a0 m \<Longrightarrow> (\<And>x. ends obs n a0 (k x)) \<Longrightarrow> ends obs n a0 (or_rollback M (TX n) m k)"
  unfolding or_rollback_def by (intro tx_rules)

lemma atomic_begin [tx_rules]:
  assumes "\<And>n a0. ends obs n a0 (k (TX n))"
  shows "atomic obs (andthen (tx_begin M) k)"
  unfolding atomic_def
proof
  fix w :: "'d world"
  obtain r d where bg: "begin_tx (g_tx (m_db M)) (w_db w) = (r, d)" by fastforce
  let ?a = "obs (w_db w)"
  obtain n where n: "r = Ok (TX n)" "a_tx ?a n = None" "obs d = open_tx n ?a \<or> obs d = ?a"
    using tx.begin_run [OF bg] by blast
  have "inside n ?a (obs d)"
    using n by (auto simp: inside_def close_open close_unused)
  then have "ended n ?a (fst (k (TX n) (w\<lparr>w_db := d\<rparr>))) (obs (w_db (snd (k (TX n) (w\<lparr>w_db := d\<rparr>)))))"
    using assms [of n ?a] unfolding ends_def by (elim allE [of _ "w\<lparr>w_db := d\<rparr>"]) simp
  moreover have "andthen (tx_begin M) k w = k (TX n) (w\<lparr>w_db := d\<rparr>)"
    using bg n(1) by (simp add: tx_begin_def on_db_def andthen_def attempt_def)
  ultimately show "done_op ?a (fst (andthen (tx_begin M) k w)) (obs (w_db (snd (andthen (tx_begin M) k w))))"
    by (simp add: ended_def done_op_def insideD split: outcome.splits)
qed

end

end
