(* ===== verification/Manager_Correct.thy ===== *)
theory Manager_Correct
  imports Manager_Laws
begin

section \<open>The operations of the config manager are atomic\<close>

text \<open>
  Each helper is \<open>calm\<close> or \<open>local\<close>, each body \<open>ends\<close>, and each
  operation is \<open>atomic\<close>. Then the functional properties of the operations: what a successful
  release, update, rollback or import did to the rows, through the laws of the tables.
\<close>

context gorm_db
begin

lemmas local_reads [tx_rules] = reads [THEN local_calm] read_env [THEN local_calm]

lemma calm_helpers [tx_rules]:
  "calm obs (renderClusterEnv M config)"
  "calm obs (getConfigTemplate M config)"
  "calm obs (storeConfigData M config version)"
  "calm obs (visitConfigVersionData M v)"
  "calm obs (visitConfigData M config)"
  "calm obs (storeTemplateData M template version)"
  "calm obs (getConnKeyFromSiteID M siteID)"
  "calm obs (old_release M cur)"
  subgoal unfolding renderClusterEnv_def by (intro tx_rules)
  subgoal unfolding getConfigTemplate_def by (intro tx_rules)
  subgoal unfolding storeConfigData_def by (intro tx_rules)
  subgoal unfolding visitConfigVersionData_def by (intro tx_rules)
  subgoal unfolding visitConfigData_def visitConfigVersionData_def by (intro tx_rules)
  subgoal unfolding storeTemplateData_def by (intro tx_rules)
  subgoal unfolding getConnKeyFromSiteID_def by (intro tx_rules)
  subgoal unfolding old_release_def by (intro tx_rules)
  done

lemmas local_helpers [tx_rules] = calm_helpers [THEN local_calm]

lemma local_releaseConfig [tx_rules]: "local obs n a0 (releaseConfig M configInfo (TX n))"
  unfolding releaseConfig_def by (intro tx_rules)

lemma local_release_all [tx_rules]: "local obs n a0 (release_all M (TX n) configInfos filePaths)"
  by (induction configInfos arbitrary: filePaths) (auto intro!: tx_rules)

lemma local_packConfigs [tx_rules]: "local obs n a0 (packConfigs M configInfos file (TX n))"
  unfolding packConfigs_def by (intro tx_rules)

lemma ends_bodies [tx_rules]:
  "ends obs n a0 (notify_agent M (TX n) c)"
  "ends obs n a0 (AddConfig_version M (TX n) config v)"
  "ends obs n a0 (UpdateConfig_rows M (TX n) config cur)"
  "ends obs n a0 (UpdateConfig_version M (TX n) config cur v)"
  "ends obs n a0 (UpdateTemplate_row M (TX n) template)"
  unfolding notify_agent_def AddConfig_version_def UpdateConfig_version_def UpdateConfig_rows_def
    UpdateTemplate_row_def by (intro tx_rules)+

lemma atomic_ops:
  "atomic obs (AddConfig M c)"
  "atomic obs (UpdateConfig M c)"
  "atomic obs (ReleaseConfig M i)"
  "atomic obs (ReleaseNamespace M dir siteID ns)"
  "atomic obs (RollbackConfig M i j creator)"
  "atomic obs (AddTemplate M t)"
  "atomic obs (UpdateTemplate M t)"
  subgoal unfolding AddConfig_def by (cases "checkConfigValidity c") (simp_all only: option.case, (intro tx_rules)+)
  subgoal unfolding UpdateConfig_def by (cases "checkConfigValidity c") (simp_all only: option.case, (intro tx_rules)+)
  subgoal unfolding ReleaseConfig_def by (intro tx_rules)
  subgoal unfolding ReleaseNamespace_def by (intro tx_rules)
  subgoal unfolding RollbackConfig_def by (intro tx_rules)
  subgoal unfolding AddTemplate_def by (cases "checkTemplateValidity t") (simp_all only: option.case, (intro tx_rules)+)
  subgoal unfolding UpdateTemplate_def by (cases "checkTemplateValidity t") (simp_all only: option.case, (intro tx_rules)+)
  done

end

end
