(* ===== verification/Manager_Effects.thy ===== *)
theory Manager_Effects
  imports Manager_Correct
begin

section \<open>What the operations of the config manager do to the rows\<close>

text \<open>
  The state of an operation inside its transaction is a \<open>tx_view\<close>: the database is
  the one it began in but for the transaction, which sees the contents so far (\<open>None\<close> when
  the handle is dead, so that no write succeeds). Each model function has one lemma that says what its success
  shows, and an operation's effect follows step by step. A commit installs the
  contents or, when it fails, nothing: the code does not look at its error.
\<close>

definition tx_view :: "nat \<Rightarrow> 'v db_abs \<Rightarrow> 'v option \<Rightarrow> 'v db_abs \<Rightarrow> bool" where
  "tx_view n a0 ov a \<longleftrightarrow> a_tx a0 n = None
     \<and> a = a0\<lparr>a_tx := (a_tx a0)(n := map_option (Pair (a_db a0)) ov)\<rparr>"

lemma tx_view_db: "tx_view n a0 ov a \<Longrightarrow> a_db a = a_db a0"
  by (simp add: tx_view_def)

lemma tx_view_sees: "tx_view n a0 ov a \<Longrightarrow> sees (TX n) a = ov"
  by (cases ov) (simp_all add: tx_view_def)

lemma tx_view_alter: "tx_view n a0 ov a \<Longrightarrow> tx_view n a0 (map_option f ov) (alter (TX n) f a)"
  by (cases ov) (auto simp: tx_view_def intro!: db_abs_eqI)

lemma tx_view_open: "a_tx a0 n = None \<Longrightarrow> tx_view n a0 (Some (a_db a0)) (open_tx n a0)"
  by (simp add: tx_view_def open_tx_def)

lemma tx_view_dead: "a_tx a0 n = None \<Longrightarrow> tx_view n a0 None a0"
  by (rule tx_view_def [THEN iffD2]) (auto intro!: db_abs_eqI)

lemma tx_view_inside: "tx_view n a0 ov a \<Longrightarrow> inside n a0 a"
  by (cases ov) (auto simp: tx_view_def inside_def close_tx_def intro!: db_abs_eqI)

context db_table
begin

lemma first_row:
  assumes "t_first T DB P d = (Ok x, d')"
  shows "obs d' = obs d" "x \<in> set (rows (a_db (obs d)))" "P x"
  using first_Ok [OF assms] first_run [OF assms] by auto

lemma create_view:
  assumes run: "t_create T (TX n) r d = (Ok i, d')" and v: "tx_view n a0 ov (obs d)"
  obtains u where "ov = Some u" "tx_view n a0 (Some (put (rows u @ [set_pk i (persist r)]) u)) (obs d')"
    "i \<noteq> 0" "i \<notin> pk ` set (rows u)" "\<forall>x\<in>set (rows u). \<not> clash x r"
proof -
  note ok = create_Ok [OF run]
  obtain u where u: "ov = Some u" "i \<noteq> 0" "i \<notin> pk ` set (rows u)" "\<forall>x\<in>set (rows u). \<not> clash x r"
    using ok tx_view_sees [OF v] by auto
  have "tx_view n a0 (map_option (\<lambda>v. put (rows v @ [set_pk i (persist r)]) v) ov) (obs d')"
    using ok tx_view_alter [OF v] by simp
  with u that show thesis by simp
qed

lemma updates_view:
  assumes run: "updates_by_id T pk (TX n) i r d = (Ok x, d')" and v: "tx_view n a0 ov (obs d)"
  obtains u where "ov = Some u"
    "tx_view n a0 (Some (put (map (\<lambda>x. if pk x = i then merge x r else x) (rows u)) u)) (obs d')" "i \<noteq> 0"
proof -
  have i: "i \<noteq> 0" using run by (auto simp: updates_by_id_def fail_def)
  with run have ok: "t_updates T (TX n) (\<lambda>x. pk x = i) r d = (Ok x, d')" by (simp add: updates_by_id_def)
  obtain u where u: "ov = Some u" using updates_Ok [OF ok] tx_view_sees [OF v] by auto
  have "tx_view n a0 (map_option (\<lambda>u. put (map (\<lambda>x. if pk x = i then merge x r else x) (rows u)) u) ov) (obs d')"
    using updates_Ok [OF ok] tx_view_alter [OF v] by simp
  with u i that show thesis by simp
qed

end

text \<open>The parts of the world that a database step leaves alone.\<close>

definition same :: "'d world \<Rightarrow> 'd world \<Rightarrow> bool" where
  "same w w' \<longleftrightarrow> w_fs w' = w_fs w \<and> w_ticks w' = w_ticks w \<and> w_sent w' = w_sent w"

lemma same_refl [simp]: "same w w"
  by (simp add: same_def)

lemma same_trans [trans]: "same a b \<Longrightarrow> same b c \<Longrightarrow> same a c"
  by (simp add: same_def)

lemma on_db_same: "on_db m w = (r, w') \<Longrightarrow> same w w'"
  by (auto simp: on_db_def same_def split: prod.splits)

lemma on_db_run: "on_db m w = (r, w') \<Longrightarrow> m (w_db w) = (r, w_db w')"
  by (auto simp: on_db_def split: prod.splits)

text \<open>What a commit leaves: the new contents, or the old ones.\<close>

definition committed :: "'v db_abs \<Rightarrow> 'v \<Rightarrow> 'v db_abs \<Rightarrow> bool" where
  "committed a0 v a \<longleftrightarrow> a = a0 \<or> a = a0\<lparr>a_db := v\<rparr>"

lemma create_ret: "andthen m (\<lambda>i. ret (f i)) d = (Ok r, d') \<longleftrightarrow> (\<exists>i. m d = (Ok i, d') \<and> r = f i)"
  by (auto simp: andthen_Ok_iff ret_def)

context gorm_db
begin

lemma begin_view:
  assumes "tx_begin M w = (Ok tx, w')"
  obtains n ov where "tx = TX n" "tx_view n (obs (w_db w)) ov (obs (w_db w'))"
    "ov = None \<or> ov = Some (a_db (obs (w_db w)))" "same w w'"
proof -
  obtain n where n: "tx = TX n" "a_tx (obs (w_db w)) n = None"
    "obs (w_db w') = open_tx n (obs (w_db w)) \<or> obs (w_db w') = obs (w_db w)"
    using tx.begin_run [OF on_db_run [OF assms [unfolded tx_begin_def]]] by auto
  have s: "same w w'" using on_db_same assms unfolding tx_begin_def by blast
  from n(3) show thesis
  proof
    assume "obs (w_db w') = open_tx n (obs (w_db w))"
    with tx_view_open [OF n(2)] n(1) s that show thesis by simp
  next
    assume "obs (w_db w') = obs (w_db w)"
    with tx_view_dead [OF n(2)] n(1) s that show thesis by simp
  qed
qed

lemma commit_view:
  assumes run: "tx_commit M (TX n) w = (Ok x, w')" and v: "tx_view n a0 (Some u) (obs (w_db w))"
  shows "committed a0 u (obs (w_db w'))" "same w w'"
proof -
  obtain r d where cm: "commit_tx (g_tx (m_db M)) (TX n) (w_db w) = (r, d)" by fastforce
  have w': "w' = w\<lparr>w_db := d\<rparr>"
    using run cm by (cases r) (auto simp: tx_commit_def on_db_def attempt_def ret_def)
  then show "same w w'" by (simp add: same_def)
  note vd = v [unfolded tx_view_def]
  show "committed a0 u (obs (w_db w'))"
  proof (cases r)
    case (Ok q)
    then have "obs d = close_tx n ((obs (w_db w))\<lparr>a_db := u\<rparr>)"
      using tx.commit_Ok [of n "w_db w" q d] cm vd by auto
    then have "obs d = a0\<lparr>a_db := u\<rparr>" using vd by (auto intro!: db_abs_eqI)
    with w' show ?thesis by (simp add: committed_def)
  next
    case (Err e)
    then have "obs d = close_tx n (obs (w_db w))" using tx.commit_Err cm by blast
    then have "obs d = a0" using vd by (auto intro!: db_abs_eqI)
    with w' show ?thesis by (simp add: committed_def)
  next
    case Panic
    then show ?thesis using tx.commit_no_panic [of "TX n" "w_db w"] cm by simp
  qed
qed

text \<open>A successful read: its row, and nothing else changed.\<close>

lemma read_row:
  assumes "on_db (G :: ('d, 'r) proc) w = (Ok x, w')"
    and "\<And>d x d'. G d = (Ok x, d') \<Longrightarrow> obs d' = obs d \<and> Q x (a_db (obs d))"
  shows "Q x (a_db (obs (w_db w)))" "obs (w_db w') = obs (w_db w)" "same w w'"
  using assms(2) [OF on_db_run [OF assms(1)]] on_db_same [OF assms(1)] by auto

lemma GetConfigInfoByID_row:
  assumes "on_db (GetConfigInfoByID (m_db M) i) w = (Ok c, w')"
  shows "c \<in> set (v_info (a_db (obs (w_db w)))) \<and> ci_ID c = i \<and> not_deleted (ci_Status c)"
    "obs (w_db w') = obs (w_db w)" "same w w'"
  using read_row [OF assms, of "\<lambda>c v. c \<in> set (v_info v) \<and> ci_ID c = i \<and> not_deleted (ci_Status c)"]
    info.first_row unfolding GetConfigInfoByID_def by blast+

lemma GetConfigCurrent_row:
  assumes "on_db (GetConfigCurrentByConfigID (m_db M) i) w = (Ok c, w')"
  shows "c \<in> set (v_current (a_db (obs (w_db w)))) \<and> cc_ConfigInfoID c = i \<and> not_deleted (cc_Status c)"
    "obs (w_db w') = obs (w_db w)" "same w w'"
  using read_row [OF assms, of "\<lambda>c v. c \<in> set (v_current v) \<and> cc_ConfigInfoID c = i \<and> not_deleted (cc_Status c)"]
    current.first_row unfolding GetConfigCurrentByConfigID_def by blast+

lemma GetConfigVersionByID_row:
  assumes "on_db (GetConfigVersionByID (m_db M) i) w = (Ok c, w')"
  shows "c \<in> set (v_version (a_db (obs (w_db w)))) \<and> cv_ID c = i \<and> not_deleted (cv_Status c)"
    "obs (w_db w') = obs (w_db w)" "same w w'"
  using read_row [OF assms, of "\<lambda>c v. c \<in> set (v_version v) \<and> cv_ID c = i \<and> not_deleted (cv_Status c)"]
    version.first_row unfolding GetConfigVersionByID_def by blast+

lemma GetReleaseByID_row:
  assumes "on_db (GetReleaseByID (m_db M) i) w = (Ok c, w')"
  shows "c \<in> set (v_release (a_db (obs (w_db w)))) \<and> rl_ID c = i \<and> not_deleted (rl_Status c)"
    "obs (w_db w') = obs (w_db w)" "same w w'"
  using read_row [OF assms, of "\<lambda>c v. c \<in> set (v_release v) \<and> rl_ID c = i \<and> not_deleted (rl_Status c)"]
    release.first_row unfolding GetReleaseByID_def by blast+

lemma GetClusterBySiteID_row:
  assumes "on_db (GetClusterBySiteID (m_db M) s) w = (Ok c, w')"
  shows "c \<in> set (v_cluster (a_db (obs (w_db w)))) \<and> cl_SiteID c = s \<and> not_deleted (cl_Status c)"
    "obs (w_db w') = obs (w_db w)" "same w w'"
  using read_row [OF assms, of "\<lambda>c v. c \<in> set (v_cluster v) \<and> cl_SiteID c = s \<and> not_deleted (cl_Status c)"]
    cluster.first_row unfolding GetClusterBySiteID_def by blast+

text \<open>A successful write: the contents the transaction sees.\<close>

lemma CreateRelease_view:
  assumes "on_db (CreateRelease (m_db M) r (TX n)) w = (Ok r', w')" "tx_view n a0 ov (obs (w_db w))"
  obtains u where "ov = Some u" "tx_view n a0 (Some (u\<lparr>v_release := v_release u @ [r']\<rparr>)) (obs (w_db w'))"
    "rl_ID r' \<noteq> 0" "r' = r\<lparr>rl_ID := rl_ID r'\<rparr>" "rl_ID r' \<notin> rl_ID ` set (v_release u)"
    "\<forall>x\<in>set (v_release u). \<not> Release_clash x r" "same w w'"
proof -
  obtain i where i: "t_create (t_release (m_db M)) (TX n) r (w_db w) = (Ok i, w_db w')" "r' = r\<lparr>rl_ID := i\<rparr>"
    using on_db_run [OF assms(1)] unfolding CreateRelease_def create_ret by blast
  from release.create_view [OF i(1) assms(2)] show thesis
    using that i(2) on_db_same [OF assms(1)] by (auto simp: Release_persist_def)
qed

lemma CreateConfigVersion_view:
  assumes "on_db (CreateConfigVersion (m_db M) r (TX n)) w = (Ok r', w')" "tx_view n a0 ov (obs (w_db w))"
  obtains u where "ov = Some u" "tx_view n a0 (Some (u\<lparr>v_version := v_version u @ [r']\<rparr>)) (obs (w_db w'))"
    "cv_ID r' \<noteq> 0" "r' = r\<lparr>cv_ID := cv_ID r'\<rparr>" "cv_ID r' \<notin> cv_ID ` set (v_version u)"
    "\<forall>x\<in>set (v_version u). \<not> ConfigVersion_clash x r" "same w w'"
proof -
  obtain i where i: "t_create (t_version (m_db M)) (TX n) r (w_db w) = (Ok i, w_db w')" "r' = r\<lparr>cv_ID := i\<rparr>"
    using on_db_run [OF assms(1)] unfolding CreateConfigVersion_def create_ret by blast
  from version.create_view [OF i(1) assms(2)] show thesis
    using that i(2) on_db_same [OF assms(1)] by (auto simp: ConfigVersion_persist_def)
qed

lemma UpdateConfigCurrent_view:
  assumes "on_db (UpdateConfigCurrent (m_db M) r (TX n)) w = (Ok x, w')" "tx_view n a0 ov (obs (w_db w))"
  obtains u where "ov = Some u" "tx_view n a0 (Some (u\<lparr>v_current := map (\<lambda>x. if cc_ID x = cc_ID r
      then ConfigCurrent_merge x r else x) (v_current u)\<rparr>)) (obs (w_db w'))" "cc_ID r \<noteq> 0" "same w w'"
  using current.updates_view [OF on_db_run [OF assms(1), unfolded UpdateConfigCurrent_def] assms(2)]
    that on_db_same [OF assms(1)] by blast

lemma UpdateConfigInfo_view:
  assumes "on_db (UpdateConfigInfo (m_db M) r (TX n)) w = (Ok x, w')" "tx_view n a0 ov (obs (w_db w))"
  obtains u where "ov = Some u" "tx_view n a0 (Some (u\<lparr>v_info := map (\<lambda>x. if ci_ID x = ci_ID r
      then ConfigInfo_merge x r else x) (v_info u)\<rparr>)) (obs (w_db w'))" "ci_ID r \<noteq> 0" "same w w'"
  using info.updates_view [OF on_db_run [OF assms(1), unfolded UpdateConfigInfo_def] assms(2)]
    that on_db_same [OF assms(1)] by blast

end

end
