(* ===== verification/Mem_DB.thy ===== *)
theory Mem_DB
  imports Manager_Effects
begin

section \<open>A database in memory\<close>

text \<open>
  An executable database for the interface of the manager's rows: the committed contents, and an
  association list with, per open transaction, the contents it began with and the ones it sees. It
  satisfies the laws of \<open>gorm_db\<close>, so that they are consistent, and the witnesses run on it. A commit
  fails when something was committed since the transaction began.
\<close>

record mem_db =
  mem_rows :: db_view
  mem_txs :: "(nat \<times> db_view \<times> db_view) list"

definition mem_obs :: "mem_db \<Rightarrow> db_view db_abs" where
  "mem_obs d = \<lparr>a_db = mem_rows d, a_tx = map_of (mem_txs d)\<rparr>"

fun mem_sees :: "conn \<Rightarrow> mem_db \<Rightarrow> db_view option" where
  "mem_sees DB d = Some (mem_rows d)"
| "mem_sees (TX n) d = map_option snd (map_of (mem_txs d) n)"

fun mem_alter :: "conn \<Rightarrow> (db_view \<Rightarrow> db_view) \<Rightarrow> mem_db \<Rightarrow> mem_db" where
  "mem_alter DB f d = d\<lparr>mem_rows := f (mem_rows d)\<rparr>"
| "mem_alter (TX n) f d = d\<lparr>mem_txs := map (\<lambda>(k, b, v). (k, b, if k = n then f v else v)) (mem_txs d)\<rparr>"

definition mem_close :: "nat \<Rightarrow> mem_db \<Rightarrow> mem_db" where
  "mem_close n d = d\<lparr>mem_txs := filter (\<lambda>p. fst p \<noteq> n) (mem_txs d)\<rparr>"

definition mem_fresh :: "mem_db \<Rightarrow> nat" where
  "mem_fresh d = Suc (sum_list (map fst (mem_txs d)))"

lemma mem_obs_simps [simp]: "a_db (mem_obs d) = mem_rows d" "a_tx (mem_obs d) = map_of (mem_txs d)"
  by (simp_all add: mem_obs_def)

lemma mem_sees [simp]: "mem_sees c d = sees c (mem_obs d)"
  by (cases c) simp_all

lemma map_of_alter:
  "map_of (map (\<lambda>(k, b, v). (k, b, if k = n then f v else v)) xs)
    = (map_of xs)(n := map_option (\<lambda>(b, v). (b, f v)) (map_of xs n))"
  by (induction xs) (auto simp: fun_eq_iff)

lemma map_of_close: "map_of (filter (\<lambda>p. fst p \<noteq> n) xs) = (map_of xs)(n := None)"
  by (induction xs) (auto simp: fun_eq_iff)

lemma mem_alter [simp]: "mem_obs (mem_alter c f d) = alter c f (mem_obs d)"
  by (cases c) (auto simp: map_of_alter intro!: db_abs_eqI)

lemma mem_close [simp]: "mem_obs (mem_close n d) = close_tx n (mem_obs d)"
  by (rule db_abs_eqI) (simp_all add: mem_close_def map_of_close)

lemma mem_fresh: "map_of (mem_txs d) (mem_fresh d) = None"
proof -
  have "n \<in> set (map fst (mem_txs d)) \<Longrightarrow> n \<le> sum_list (map fst (mem_txs d))" for n
    by (simp add: member_le_sum_list)
  then have "mem_fresh d \<notin> fst ` set (mem_txs d)"
    by (force simp: mem_fresh_def)
  then show ?thesis by (simp add: map_of_eq_None_iff)
qed

definition mem_transactions :: "mem_db transactions" where
  "mem_transactions = \<lparr>
     begin_tx = (\<lambda>d. let n = mem_fresh d in
       (Ok (TX n), d\<lparr>mem_txs := (n, mem_rows d, mem_rows d) # mem_txs d\<rparr>)),
     commit_tx = (\<lambda>c d. case c of
         DB \<Rightarrow> (Err (External ''no transaction''), d)
       | TX n \<Rightarrow> (case map_of (mem_txs d) n of
             None \<Rightarrow> (Err (External ''invalid transaction''), mem_close n d)
           | Some (b, v) \<Rightarrow>
               if b = mem_rows d then (Ok (), mem_close n (d\<lparr>mem_rows := v\<rparr>))
               else (Err (External ''conflict''), mem_close n d))),
     rollback_tx = (\<lambda>c d. case c of
         DB \<Rightarrow> (Err (External ''no transaction''), d)
       | TX n \<Rightarrow> (Ok (), mem_close n d))\<rparr>"

lemma mem_transactions_laws: "db_transactions mem_transactions mem_obs"
proof
  fix d d' :: mem_db and r
  assume "begin_tx mem_transactions d = (r, d')"
  then have "r = Ok (TX (mem_fresh d))" "mem_obs d' = open_tx (mem_fresh d) (mem_obs d)"
    by (auto simp: mem_transactions_def Let_def intro!: db_abs_eqI)
  then show "\<exists>n. r = Ok (TX n) \<and> a_tx (mem_obs d) n = None \<and>
      (mem_obs d' = open_tx n (mem_obs d) \<or> mem_obs d' = mem_obs d)"
    using mem_fresh by auto
next
  have obs: "mem_obs (d\<lparr>mem_rows := v\<rparr>) = (mem_obs d)\<lparr>a_db := v\<rparr>" for d v
    by (rule db_abs_eqI) simp_all
  fix n d u d'
  assume "commit_tx mem_transactions (TX n) d = (Ok u, d')"
  then show "\<exists>b v. a_tx (mem_obs d) n = Some (b, v) \<and>
      (b = a_db (mem_obs d) \<longrightarrow> mem_obs d' = close_tx n ((mem_obs d)\<lparr>a_db := v\<rparr>))"
    by (auto simp: mem_transactions_def obs split: option.splits if_splits prod.splits)
next
  fix n e and d d' :: mem_db
  assume "commit_tx mem_transactions (TX n) d = (Err e, d')"
  then show "mem_obs d' = close_tx n (mem_obs d)"
    by (auto simp: mem_transactions_def split: option.splits if_splits prod.splits)
next
  fix c and d :: mem_db
  show "fst (commit_tx mem_transactions c d) \<noteq> Panic"
    by (auto simp: mem_transactions_def split: option.split conn.split)
next
  fix n q and d d' :: mem_db
  assume "rollback_tx mem_transactions (TX n) d = (q, d')"
  then show "mem_obs d' = close_tx n (mem_obs d) \<and> q \<noteq> Panic"
    by (auto simp: mem_transactions_def)
qed

text \<open>The row with the least key, and a key that is free.\<close>

fun least_row :: "('r \<Rightarrow> u64) \<Rightarrow> 'r list \<Rightarrow> 'r option" where
  "least_row pk [] = None"
| "least_row pk (x # xs) = (case least_row pk xs of
     None \<Rightarrow> Some x | Some y \<Rightarrow> Some (if pk x \<le> pk y then x else y))"

lemma least_row_None [simp]: "least_row pk xs = None \<longleftrightarrow> xs = []"
  by (cases xs) (auto split: option.split)

lemma least_row_Some: "least_row pk xs = Some x \<Longrightarrow> x \<in> set xs \<and> (\<forall>y\<in>set xs. pk x \<le> pk y)"
  by (induction xs arbitrary: x) (fastforce split: option.splits if_splits)+

definition free_key :: "('r \<Rightarrow> u64) \<Rightarrow> 'r \<Rightarrow> 'r list \<Rightarrow> u64 option" where
  "free_key pk r xs =
     (let used = map pk xs
      in if pk r \<noteq> 0 then (if pk r \<in> set used then None else Some (pk r))
         else find (\<lambda>i. i \<noteq> 0 \<and> i \<notin> set used) (map of_nat [1..<length xs + 2]))"

lemma free_key_Some:
  "free_key pk r xs = Some i \<Longrightarrow> i \<noteq> 0 \<and> i \<notin> pk ` set xs \<and> (pk r \<noteq> 0 \<longrightarrow> i = pk r)"
  by (auto simp: free_key_def Let_def find_Some_iff split: if_splits)

definition mem_table ::
  "(db_view \<Rightarrow> 'r list) \<Rightarrow> ('r list \<Rightarrow> db_view \<Rightarrow> db_view) \<Rightarrow> ('r \<Rightarrow> u64) \<Rightarrow> (u64 \<Rightarrow> 'r \<Rightarrow> 'r)
    \<Rightarrow> ('r \<Rightarrow> 'r) \<Rightarrow> ('r \<Rightarrow> 'r \<Rightarrow> 'r) \<Rightarrow> ('r \<Rightarrow> 'r \<Rightarrow> bool) \<Rightarrow> (mem_db, 'r) table" where
  "mem_table rows put pk set_pk persist merge clash =
     (let dead = External ''invalid transaction'';
          dup = External ''duplicate key'';
          create = (\<lambda>c r d. case mem_sees c d of
              None \<Rightarrow> (Err dead, d)
            | Some v \<Rightarrow> (case free_key pk r (rows v) of
                None \<Rightarrow> (Err dup, d)
              | Some i \<Rightarrow>
                  if list_ex (\<lambda>x. clash x r) (rows v) then (Err dup, d)
                  else (Ok i, mem_alter c (\<lambda>v. put (rows v @ [set_pk i (persist r)]) v) d)))
      in \<lparr>t_create = create,
          t_first = (\<lambda>c P d. case mem_sees c d of
              None \<Rightarrow> (Err dead, d)
            | Some v \<Rightarrow> (case least_row pk (filter P (rows v)) of
                None \<Rightarrow> (Err ErrRecordNotFound, d) | Some x \<Rightarrow> (Ok x, d))),
          t_find = (\<lambda>c P d. case mem_sees c d of
              None \<Rightarrow> (Err dead, d) | Some v \<Rightarrow> (Ok (filter P (rows v)), d)),
          t_updates = (\<lambda>c P r d. case mem_sees c d of
              None \<Rightarrow> (Err dead, d)
            | Some v \<Rightarrow>
                if table_ok pk clash (rows v)
                   \<and> \<not> table_ok pk clash (map (\<lambda>x. if P x then merge x r else x) (rows v))
                then (Err dup, d)
                else (Ok (), mem_alter c (\<lambda>v. put (map (\<lambda>x. if P x then merge x r else x) (rows v)) v) d)),
          t_first_or_create = (\<lambda>c P r d. case mem_sees c d of
              None \<Rightarrow> (Err dead, d)
            | Some v \<Rightarrow> (case least_row pk (filter P (rows v)) of
                Some x \<Rightarrow> (Ok x, d)
              | None \<Rightarrow> (case create c r d of
                  (Ok i, d') \<Rightarrow> (Ok (set_pk i (persist r)), d')
                | (Err e, d') \<Rightarrow> (Err e, d')
                | (Panic, d') \<Rightarrow> (Panic, d')))),
          t_delete = (\<lambda>c P d. case mem_sees c d of
              None \<Rightarrow> (Err dead, d)
            | Some v \<Rightarrow> (Ok (), mem_alter c (\<lambda>v. put (filter (\<lambda>x. \<not> P x) (rows v)) v) d))\<rparr>)"

lemmas mem_splits = option.splits if_splits prod.splits

lemma mem_table_laws:
  "db_table (mem_table rows put pk set_pk persist merge clash) mem_obs rows put pk set_pk persist merge clash"
  by standard
    (auto simp: mem_table_def Let_def list_ex_iff filter_empty_conv free_key_Some
      split: option.splits if_splits prod.splits dest!: least_row_Some free_key_Some)

definition mem_gorm :: "mem_db gorm" where
  "mem_gorm = \<lparr>g_tx = mem_transactions,
     t_info = mem_table v_info (\<lambda>xs v. v\<lparr>v_info := xs\<rparr>) ci_ID (\<lambda>i r. r\<lparr>ci_ID := i\<rparr>)
       ConfigInfo_persist ConfigInfo_merge ConfigInfo_clash,
     t_version = mem_table v_version (\<lambda>xs v. v\<lparr>v_version := xs\<rparr>) cv_ID (\<lambda>i r. r\<lparr>cv_ID := i\<rparr>)
       ConfigVersion_persist ConfigVersion_merge ConfigVersion_clash,
     t_current = mem_table v_current (\<lambda>xs v. v\<lparr>v_current := xs\<rparr>) cc_ID (\<lambda>i r. r\<lparr>cc_ID := i\<rparr>)
       ConfigCurrent_persist ConfigCurrent_merge ConfigCurrent_clash,
     t_release = mem_table v_release (\<lambda>xs v. v\<lparr>v_release := xs\<rparr>) rl_ID (\<lambda>i r. r\<lparr>rl_ID := i\<rparr>)
       Release_persist Release_merge Release_clash,
     t_instance = mem_table v_instance (\<lambda>xs v. v\<lparr>v_instance := xs\<rparr>) in_ID (\<lambda>i r. r\<lparr>in_ID := i\<rparr>)
       ConfigInstance_persist ConfigInstance_merge ConfigInstance_clash,
     t_cns = mem_table v_cns (\<lambda>xs v. v\<lparr>v_cns := xs\<rparr>) cn_ID (\<lambda>i r. r\<lparr>cn_ID := i\<rparr>)
       ConfigNamespace_persist ConfigNamespace_merge ConfigNamespace_clash,
     t_template = mem_table v_template (\<lambda>xs v. v\<lparr>v_template := xs\<rparr>) tp_ID (\<lambda>i r. r\<lparr>tp_ID := i\<rparr>)
       Template_persist Template_merge Template_clash,
     t_tversion = mem_table v_tversion (\<lambda>xs v. v\<lparr>v_tversion := xs\<rparr>) tv_ID (\<lambda>i r. r\<lparr>tv_ID := i\<rparr>)
       TemplateVersion_persist TemplateVersion_merge TemplateVersion_clash,
     t_tns = mem_table v_tns (\<lambda>xs v. v\<lparr>v_tns := xs\<rparr>) tn_ID (\<lambda>i r. r\<lparr>tn_ID := i\<rparr>)
       TemplateNamespace_persist TemplateNamespace_merge TemplateNamespace_clash,
     t_cluster = mem_table v_cluster (\<lambda>xs v. v\<lparr>v_cluster := xs\<rparr>) cl_ID (\<lambda>i r. r\<lparr>cl_ID := i\<rparr>)
       Cluster_persist Cluster_merge Cluster_clash\<rparr>"

lemma mem_gorm_laws: "m_db M = mem_gorm \<Longrightarrow> gorm_db M mem_obs"
  unfolding gorm_db_def by (simp add: mem_gorm_def mem_table_laws mem_transactions_laws)

subsection \<open>A manager with that database\<close>

text \<open>Files under their own names, for the driver of the witnesses.\<close>

definition mem_driver :: StorageDriver where
  "mem_driver = \<lparr>
     drv_Put = (\<lambda>tmp path ext src fs. case snd src of
         Some err \<Rightarrow> (Err err, fs)
       | None \<Rightarrow> (Ok (''digest of '' @ concat (fst src)), fs([path] := Some (File (concat (fst src)))))),
     drv_Get = (\<lambda>path fs. case fs [path] of
         Some (File data) \<Rightarrow> (Ok ([], data), fs)
       | _ \<Rightarrow> (Err (PathError ''open''), fs)),
     drv_GetByDigest = (\<lambda>digest. fail (Errorf ''not implement'')),
     drv_DeleteByDigest = (\<lambda>digest fs. Some (fail (Errorf ''not implement'') fs)),
     drv_Exists = (\<lambda>path. fail (Errorf ''not implement'')),
     drv_Package = (\<lambda>dst pairs. ret dst)\<rparr>"

definition demo_manager :: "mem_db manager" where
  "demo_manager = \<lparr>m_db = mem_gorm, m_files = mem_driver, m_tmp = (\<lambda>n. ''t'' @ nat_str n),
     m_map_json = (\<lambda>s. Inr []), m_content_json = (\<lambda>s. Inr []),
     m_update_json = (\<lambda>s. Inl (External ''json'')), m_show_content = (\<lambda>c. []),
     m_agent = (\<lambda>c sent. Inr (RespSucceed [])), m_prop_load = (\<lambda>s. Inr []), m_prop_get = map_get,
     m_prop_set = (\<lambda>p k v. Inr (map_set k v p)), m_prop_show = (\<lambda>p. []), m_diff = (\<lambda>a b. a @ b),
     m_base64 = (\<lambda>b. b), m_pack = (\<lambda>t. []), m_order = (\<lambda>m. m)\<rparr>"

interpretation demo_manager: gorm_db demo_manager mem_obs
  by (rule mem_gorm_laws) (simp add: demo_manager_def)

definition demo_config :: ConfigInfo where
  "demo_config = ConfigInfo_zero\<lparr>ci_ID := 1, ci_Name := ''app.txt'', ci_Namespace := ''ns'',
     ci_SiteID := ''s1'', ci_CreatedBy := ''u'', ci_Format := ConfigFormatTxt,
     ci_Status := ConfigStatusCreated\<rparr>"

definition demo_version :: ConfigVersion where
  "demo_version = ConfigVersion_zero\<lparr>cv_ID := 5, cv_ConfigInfoID := 1, cv_SiteID := ''s1'',
     cv_Name := ''app.txt'', cv_Namespace := ''ns'', cv_Version := 1, cv_CreatedBy := ''u'',
     cv_Digest := ''digest of a'', cv_Status := ConfigVersionCreate\<rparr>"

definition demo_current :: ConfigCurrent where
  "demo_current = ConfigCurrent_zero\<lparr>cc_ID := 9, cc_ConfigInfoID := 1, cc_LatestConfigVersionID := 5,
     cc_Status := ''created''\<rparr>"

definition demo_cluster :: Cluster where
  "demo_cluster = Cluster_zero\<lparr>cl_ID := 2, cl_SiteID := ''s1'', cl_Status := ClusterStatusReady,
     cl_ConnKey := ''s1@@100''\<rparr>"

definition demo_rows :: db_view where
  "demo_rows = \<lparr>v_info = [demo_config], v_version = [demo_version], v_current = [demo_current],
     v_release = [], v_instance = [], v_cns = [], v_template = [], v_tversion = [], v_tns = [],
     v_cluster = [demo_cluster]\<rparr>"

definition demo_world :: "db_view \<Rightarrow> mem_db world" where
  "demo_world v = \<lparr>w_db = \<lparr>mem_rows = v, mem_txs = []\<rparr>,
     w_fs = (\<lambda>k. if k = [GetFilePath ''s1'' ''ns'' ''app.txt'' ''1''] then Some (File ''a'') else None),
     w_ticks = 0, w_sent = []\<rparr>"

lemmas demo_defs = demo_manager_def demo_config_def demo_version_def demo_current_def demo_cluster_def
  demo_rows_def demo_world_def

lemmas model_defs = CreateConfigInfo_def GetConfigInfoByID_def GetConfigInfoByNamespaceNameSiteID_def
  GetAllConfigInfos_def UpdateConfigInfo_def CreateConfigVersion_def GetConfigVersionByID_def
  CreateConfigCurrent_def GetConfigCurrentByConfigID_def UpdateConfigCurrent_def CreateRelease_def
  GetReleaseByID_def FindOrCreateConfigNamespace_def FindOrCreateTemplateNamespace_def
  CreateTemplate_def GetTemplateByID_def GetTemplateByNameNamespace_def UpdateTemplateRow_def
  CreateTemplateVersion_def GetTemplateVersionByID_def GetClusterBySiteID_def GetClusterEnvBySiteID_def
  updates_by_id_def

lemmas row_defs = ConfigInfo_zero_def ConfigInfo_persist_def ConfigInfo_merge_def ConfigInfo_clash_def
  ConfigVersion_zero_def ConfigVersion_persist_def ConfigVersion_merge_def ConfigVersion_clash_def
  ConfigCurrent_zero_def ConfigCurrent_persist_def ConfigCurrent_merge_def ConfigCurrent_clash_def
  Release_zero_def Release_persist_def Release_merge_def Release_clash_def
  ConfigNamespace_zero_def ConfigNamespace_persist_def ConfigNamespace_merge_def ConfigNamespace_clash_def
  Cluster_zero_def not_deleted_def nz_str_def nz_id_def nz_opt_def

lemmas run_defs = on_db_def andthen_def attempt_def or_rollback_def rollback_err_def tx_begin_def
  tx_rollback_def tx_commit_def ret_def fail_def panic_def SendSync_def mem_gorm_def mem_table_def
  mem_transactions_def mem_fresh_def mem_close_def free_key_def table_ok_def RespSucceed_def

lemmas status_defs = ConfigStatusCreated_def ConfigStatusReleased_def ConfigStatusUpdated_def
  ConfigFormatProperties_def ConfigFormatTxt_def ConfigVersionCreate_def ConfigVersionUpdate_def
  ConfigVersionRollback_def ClusterStatusReady_def SuccessCode_def FailCode_def

end
