(* ===== verification/Agent_World.thy ===== *)
theory Agent_World
  imports Mem_DB
begin

section \<open>The world of the agent\<close>

text \<open>
  The agent of a site (\<open>pkg/agent\<close>) holds the map of the files it knows (\<open>updater.FileMapper\<close>),
  the applications connected to it (\<open>syncer.Syncer\<close>), the queues of the update hub and of the
  downloads (\<open>vm.VersionManager\<close>), and its file database. This theory has the records of these states, the
  parameters of the agent and the basic steps. Mutexes protect each access of the code to one of
  these states; an operation of the model is one such access or a sequence of them.
\<close>

subsection \<open>syncer.Syncer\<close>

record AppDescribe =
  ap_AppID :: string
  ap_PodIP :: string
  ap_Hostname :: string
  ap_Namespaces :: "string list"
  ap_Files :: "string list"
  ap_conn :: string

record notifyTask =
  nt_conn :: string
  nt_namespace :: string
  nt_files :: "string list"

record scheduleNotifyTask =
  st_task :: notifyTask
  st_nextScheduleTime :: int
  st_failedCount :: int

text \<open>
  A set of strings (\<open>map[string]struct{}\<close>) is the list of its members, without
  repetition. A map is iterated in the order of its list: one of the orders Go may take.
\<close>

record Syncer =
  sy_regNSToApp :: "string list gomap"
  sy_regFileToApp :: "string list gomap"
  sy_apps :: "string list gomap"
  sy_conn2App :: "AppDescribe gomap"
  sy_notifyQueue :: "scheduleNotifyTask list"

definition set_add :: "'a \<Rightarrow> 'a list \<Rightarrow> 'a list" where
  "set_add x xs = (if x \<in> set xs then xs else xs @ [x])"

lemma set_set_add [simp]: "set (set_add x xs) = insert x (set xs)"
  by (auto simp: set_add_def)

lemma distinct_set_add [simp]: "distinct xs \<Longrightarrow> distinct (set_add x xs)"
  by (simp add: set_add_def)

text \<open>The value of a map of slices or sets; a missing key is the empty one.\<close>

definition map_list :: "'a list gomap \<Rightarrow> string \<Rightarrow> 'a list" where
  "map_list m k = (case map_of m k of None \<Rightarrow> [] | Some xs \<Rightarrow> xs)"

lemma map_list_set [simp]: "map_list (map_set k xs m) k' = (if k' = k then xs else map_list m k')"
  by (simp add: map_list_def)

subsection \<open>vm.VersionManager and updater.UpdateHub\<close>

record DownloadTask =
  dt_Callback :: string
  dt_URL :: string
  dt_Failed :: int
  dt_Args :: "string list"

record VersionManager =
  vm_downloadQueue :: "DownloadTask list"
  vm_downloadMap :: "string list"
  vm_failureQueue :: "DownloadTask list"

record UpdateHub =
  hub_packages :: "(string \<times> string) list"
  hub_files :: "(string \<times> string \<times> string) list"

subsection \<open>The state and the parameters\<close>

record agent =
  ag_fs :: fsys
  ag_ticks :: nat
  ag_fm :: "string gomap gomap"
  ag_syncer :: Syncer
  ag_vm :: VersionManager
  ag_hub :: UpdateHub
  ag_up :: "cmd_req list"
  ag_sdk :: "cmd_req list"
  ag_http :: "string list"

record http_resp =
  hr_StatusCode :: int
  hr_digest :: string
  hr_extend :: string
  hr_Body :: reader

text \<open>
  The parameters: the site of the agent and the address of the provider; its file database and the
  names of temporary files; the answers of the manager, of the applications and of the provider;
  \<open>encoding/json\<close> for the texts the agent reads and writes; and \<open>gzip\<close> with \<open>tar\<close>, which
  yields the entries of an archive (name, whether it is a regular file, content) and the error it ends with, if any.
\<close>

record agent_env =
  ae_ID :: string
  ae_ProviderAddress :: string
  ae_files :: StorageDriver
  ae_tmp :: "nat \<Rightarrow> string"
  ae_manager :: "cmd_req \<Rightarrow> cmd_req list \<Rightarrow> goerr + cmd_resp"
  ae_app :: "cmd_req \<Rightarrow> cmd_req list \<Rightarrow> goerr + cmd_resp"
  ae_get :: "string \<Rightarrow> string list \<Rightarrow> goerr + http_resp"
  ae_show_configs :: "string \<Rightarrow> string list \<Rightarrow> string"
  ae_show_files :: "string list gomap \<Rightarrow> string"
  ae_show_content :: "string gomap gomap \<Rightarrow> string"
  ae_content_json :: "string \<Rightarrow> goerr + string gomap gomap"
  ae_map_json :: "string \<Rightarrow> goerr + string gomap"
  ae_show_update :: "ConfigInstanceUpdateInfo \<Rightarrow> string"
  ae_show_file :: "string gomap \<Rightarrow> bytes \<Rightarrow> string \<Rightarrow> string"
  ae_untar :: "bytes \<Rightarrow> (string \<times> bool \<times> bytes) list \<times> goerr option"

definition FdbSite :: string where "FdbSite = ''local''"
definition FdbVersion :: string where "FdbVersion = ''latest''"

subsection \<open>Steps\<close>

definition get_state :: "('s \<Rightarrow> 'a) \<Rightarrow> ('s, 'a) proc" where
  "get_state f = (\<lambda>s. (Ok (f s), s))"

definition change :: "('s \<Rightarrow> 's) \<Rightarrow> ('s, unit) proc" where
  "change f = (\<lambda>s. (Ok (), f s))"

definition on_files :: "(fsys, 'a) proc \<Rightarrow> (agent, 'a) proc" where
  "on_files m = (\<lambda>a. case m (ag_fs a) of (r, fs) \<Rightarrow> (r, a\<lparr>ag_fs := fs\<rparr>))"

text \<open>A call of \<open>Put\<close>, with the next temporary name.\<close>

definition put_file :: "agent_env \<Rightarrow> (string \<Rightarrow> (fsys, 'a) proc) \<Rightarrow> (agent, 'a) proc" where
  "put_file E f = (\<lambda>a. case f (ae_tmp E (ag_ticks a)) (ag_fs a) of
     (r, fs) \<Rightarrow> (r, a\<lparr>ag_fs := fs, ag_ticks := Suc (ag_ticks a)\<rparr>))"

text \<open>\<open>SendSync\<close> to the manager and to an application, and the request of a download.\<close>

definition send_manager :: "agent_env \<Rightarrow> cmd_req \<Rightarrow> (agent, cmd_resp) proc" where
  "send_manager E c = (\<lambda>a.
     (case ae_manager E c (ag_up a) of Inl e \<Rightarrow> Err e | Inr resp \<Rightarrow> Ok resp, a\<lparr>ag_up := ag_up a @ [c]\<rparr>))"

definition send_app :: "agent_env \<Rightarrow> cmd_req \<Rightarrow> (agent, cmd_resp) proc" where
  "send_app E c = (\<lambda>a.
     (case ae_app E c (ag_sdk a) of Inl e \<Rightarrow> Err e | Inr resp \<Rightarrow> Ok resp, a\<lparr>ag_sdk := ag_sdk a @ [c]\<rparr>))"

definition http_get :: "agent_env \<Rightarrow> string \<Rightarrow> (agent, http_resp) proc" where
  "http_get E url = (\<lambda>a.
     (case ae_get E url (ag_http a) of Inl e \<Rightarrow> Err e | Inr resp \<Rightarrow> Ok resp, a\<lparr>ag_http := ag_http a @ [url]\<rparr>))"

text \<open>A loop over a list whose body may fail, and one whose body's errors are only logged.\<close>

fun each :: "('a \<Rightarrow> ('s, unit) proc) \<Rightarrow> 'a list \<Rightarrow> ('s, unit) proc" where
  "each f [] = ret ()"
| "each f (x # xs) = andthen (f x) (\<lambda>_. each f xs)"

definition logged :: "('s, 'a) proc \<Rightarrow> ('s, unit) proc" where
  "logged m = attempt m (\<lambda>_. ret ()) (\<lambda>_. ret ())"

lemma get_state_run [go_exec]: "get_state f s = (Ok (f s), s)"
  by (simp add: get_state_def)

lemma change_run [go_exec]: "change f s = (Ok (), f s)"
  by (simp add: change_def)

text \<open>Runs whose steps cannot fail or panic.\<close>

definition total :: "('s, 'a) proc \<Rightarrow> bool" where
  "total m \<longleftrightarrow> (\<forall>s. \<exists>x s'. m s = (Ok x, s'))"

definition no_panic :: "('s, 'a) proc \<Rightarrow> bool" where
  "no_panic m \<longleftrightarrow> (\<forall>s. fst (m s) \<noteq> Panic)"

lemma total_logged: "no_panic m \<Longrightarrow> total (logged m)"
  unfolding total_def no_panic_def logged_def
proof
  fix s
  assume "\<forall>s. fst (m s) \<noteq> Panic"
  moreover obtain r s1 where "m s = (r, s1)" by fastforce
  ultimately show "\<exists>x s'. attempt m (\<lambda>_. ret ()) (\<lambda>_. ret ()) s = (Ok x, s')"
    by (cases r) (auto simp: attempt_def ret_def dest: spec [of _ s])
qed

lemma total_each: "(\<And>x. x \<in> set xs \<Longrightarrow> total (f x)) \<Longrightarrow> total (each f xs)"
proof (induction xs)
  case (Cons x xs)
  then have "total (f x)" "total (each f xs)" by simp_all
  then show ?case by (simp add: total_def) (metis andthen_Ok)
qed (simp add: total_def ret_def)

text \<open>A loop keeps what its body keeps, whatever the body returns.\<close>

lemma each_keeps:
  assumes "\<And>x s r s'. x \<in> set xs \<Longrightarrow> f x s = (r, s') \<Longrightarrow> P s \<Longrightarrow> P s'" and "each f xs s = (r, s')" and "P s"
  shows "P s'"
  using assms
proof (induction xs arbitrary: s)
  case (Cons x xs)
  obtain q s1 where one: "f x s = (q, s1)" by fastforce
  have s1: "P s1" by (rule Cons.prems(1) [OF _ one Cons.prems(3)]) simp
  show ?case
  proof (cases q)
    case (Ok u)
    with Cons.prems(2) one have "each f xs s1 = (r, s')" by (simp add: andthen_run)
    then show ?thesis by (rule Cons.IH [rotated]) (use Cons.prems(1) s1 in auto)
  qed (use Cons.prems(2) one s1 in \<open>auto simp: andthen_run\<close>)
qed (simp add: ret_def)

subsection \<open>An agent for the witnesses\<close>

text \<open>A driver that meets the contract of the file store: contents and metadata under flat keys.\<close>

definition kv_digest :: "bytes \<Rightarrow> string" where
  "kv_digest x = ''digest of '' @ x"

definition kv_driver :: StorageDriver where
  "kv_driver = \<lparr>
     drv_Put = (\<lambda>tmp path ext src fs. case snd src of
         Some err \<Rightarrow> (Err err, fs)
       | None \<Rightarrow> (let x = concat (fst src)
                 in (Ok (kv_digest x), fs([path] := Some (File x),
                      [path, ''meta''] := Some (File (demo_json (file_meta (kv_digest x) path ext))))))),
     drv_Get = (\<lambda>path fs. case (fs [path], fs [path, ''meta'']) of
         (Some (File x), Some (File m)) \<Rightarrow> (case demo_unjson m of
             Inr meta \<Rightarrow> (Ok (with_digest meta, x), fs) | Inl e \<Rightarrow> (Err e, fs))
       | _ \<Rightarrow> (Err (PathError ''open''), fs)),
     drv_GetByDigest = (\<lambda>digest. fail (Errorf ''not implement'')),
     drv_DeleteByDigest = (\<lambda>digest fs. Some (fail (Errorf ''not implement'') fs)),
     drv_Exists = (\<lambda>path fs. case fs [path, ''meta''] of
         Some (File m) \<Rightarrow> (case demo_unjson m of
             Inr meta \<Rightarrow> (Ok (with_digest meta), fs) | Inl e \<Rightarrow> (Err e, fs))
       | _ \<Rightarrow> (Err (PathError ''open''), fs)),
     drv_Package = (\<lambda>dst pairs. ret dst)\<rparr>"

definition kv_holds :: "string \<Rightarrow> string gomap option \<Rightarrow> bytes \<Rightarrow> fsys \<Rightarrow> bool" where
  "kv_holds p e x fs \<longleftrightarrow> fs [p] = Some (File x)
     \<and> fs [p, ''meta''] = Some (File (demo_json (file_meta (kv_digest x) p e)))"

lemma kv_store: "file_store kv_driver (\<lambda>_. True) (\<lambda>_ _. True) kv_digest kv_holds"
  by unfold_locales
    (auto simp: kv_driver_def kv_holds_def Let_def demo_json_roundtrip with_digest_meta split: option.splits)

interpretation kv: file_store kv_driver "\<lambda>_. True" "\<lambda>_ _. True" kv_digest kv_holds
  by (rule kv_store)

text \<open>An application whose connection is \<open>down\<close> does not answer.\<close>

definition demo_agent_env :: agent_env where
  "demo_agent_env = \<lparr>ae_ID = ''s1'', ae_ProviderAddress = ''http://m'', ae_files = kv_driver,
     ae_tmp = (\<lambda>n. ''t'' @ nat_str n), ae_manager = (\<lambda>c sent. Inr (RespSucceed [])),
     ae_app = (\<lambda>c sent. if rq_peer c = ''down'' then Inl (External ''down'') else Inr (RespSucceed [])),
     ae_get = (\<lambda>u sent. Inl (External ''down'')), ae_show_configs = (\<lambda>ns fs. ns @ concat fs),
     ae_show_files = (\<lambda>m. concat (map fst m)), ae_show_content = (\<lambda>m. concat (map fst m)),
     ae_content_json = (\<lambda>s. Inr []), ae_map_json = (\<lambda>s. Inr []), ae_show_update = up_App,
     ae_show_file = (\<lambda>e c d. c), ae_untar = (\<lambda>b. ([], None))\<rparr>"

definition demo_agent :: agent where
  "demo_agent = \<lparr>ag_fs = Map.empty, ag_ticks = 0, ag_fm = [],
     ag_syncer = \<lparr>sy_regNSToApp = [], sy_regFileToApp = [], sy_apps = [], sy_conn2App = [], sy_notifyQueue = []\<rparr>,
     ag_vm = \<lparr>vm_downloadQueue = [], vm_downloadMap = [], vm_failureQueue = []\<rparr>,
     ag_hub = \<lparr>hub_packages = [], hub_files = []\<rparr>, ag_up = [], ag_sdk = [], ag_http = []\<rparr>"

end
