(* ===== verification/Agent_Syncer.thy ===== *)
theory Agent_Syncer
  imports Agent_World
begin

section \<open>Notifying the applications (pkg/agent/syncer)\<close>

text \<open>
  The syncer keeps which application uses which file and by which connections an application is reached.
  A change of files is sent to every connection of every application that uses one of
  them; a notification that fails is queued, and workers take it from the queue, put it back until it is due,
  and give it up after \<open>MAXFailedCount\<close> failures. The states of syncer and workers are the reachable
  states of a step relation whose steps are the critical sections of the code.
\<close>

definition DefualtDelayTime :: int where "DefualtDelayTime = 30"
definition MAXDeltaTime :: int where "MAXDeltaTime = 86400"
definition MAXFailedCount :: int where "MAXFailedCount = 64"
definition SDKFileCMD :: string where "SDKFileCMD = ''fileupdated''"

definition NewSyncer :: Syncer where
  "NewSyncer = \<lparr>sy_regNSToApp = [], sy_regFileToApp = [], sy_apps = [], sy_conn2App = [], sy_notifyQueue = []\<rparr>"

subsection \<open>Registration\<close>

text \<open>\<open>if _, ok := m[k]; !ok { m[k] = map[string]struct{}{} }; m[k][app] = struct{}{}\<close>\<close>

definition reg_add :: "string \<Rightarrow> string \<Rightarrow> string list gomap \<Rightarrow> string list gomap" where
  "reg_add app k m = map_set k (set_add app (map_list m k)) m"

definition RegisterApp :: "AppDescribe \<Rightarrow> string \<Rightarrow> Syncer \<Rightarrow> Syncer" where
  "RegisterApp app0 conn s =
     (let app = app0\<lparr>ap_conn := conn\<rparr>
      in s\<lparr>sy_apps := map_set (ap_AppID app) (map_list (sy_apps s) (ap_AppID app) @ [conn]) (sy_apps s),
           sy_conn2App := map_set conn app (sy_conn2App s),
           sy_regFileToApp := fold (reg_add (ap_AppID app)) (ap_Files app) (sy_regFileToApp s),
           sy_regNSToApp := fold (reg_add (ap_AppID app)) (ap_Namespaces app) (sy_regNSToApp s)\<rparr>)"

text \<open>Only the first task of the connection is taken out of the queue.\<close>

fun drop_first :: "('a \<Rightarrow> bool) \<Rightarrow> 'a list \<Rightarrow> 'a list" where
  "drop_first p [] = []"
| "drop_first p (x # xs) = (if p x then xs else x # drop_first p xs)"

definition CancelApp :: "string \<Rightarrow> Syncer \<Rightarrow> Syncer" where
  "CancelApp conn s =
     (let s1 = (case map_of (sy_conn2App s) conn of
            None \<Rightarrow> s
          | Some app \<Rightarrow>
              s\<lparr>sy_conn2App := map_del conn (sy_conn2App s),
                sy_apps := (if conn \<in> set (map_list (sy_apps s) (ap_AppID app))
                            then map_set (ap_AppID app) (remove1 conn (map_list (sy_apps s) (ap_AppID app))) (sy_apps s)
                            else sy_apps s)\<rparr>)
      in s1\<lparr>sy_notifyQueue := drop_first (\<lambda>t. nt_conn (st_task t) = conn) (sy_notifyQueue s1)\<rparr>)"

definition GetAppByConn :: "string \<Rightarrow> Syncer \<Rightarrow> AppDescribe option" where
  "GetAppByConn conn s = map_of (sy_conn2App s) conn"

definition GetAllAppsCopy :: "Syncer \<Rightarrow> AppDescribe list" where
  "GetAllAppsCopy s = map snd (sy_conn2App s)"

text \<open>
  \<open>app\<close> is \<open>nil\<close> for a connection that is not registered: \<open>app.AppID\<close> panics, after the
  set of the file has been made.
\<close>

definition RegisterFileToApp :: "string \<Rightarrow> string \<Rightarrow> string \<Rightarrow> (Syncer, unit) proc" where
  "RegisterFileToApp conn namespace filename =
     (\<lambda>s. let fullname = namespace @ ''/'' @ filename;
              s1 = s\<lparr>sy_regFileToApp := map_set fullname (map_list (sy_regFileToApp s) fullname) (sy_regFileToApp s)\<rparr>
          in case GetAppByConn conn s of
               None \<Rightarrow> (Panic, s1)
             | Some app \<Rightarrow>
                 (Ok (), s1\<lparr>sy_regFileToApp := reg_add (ap_AppID app) fullname (sy_regFileToApp s1),
                    sy_conn2App := map_set conn (app\<lparr>ap_Files := set_add fullname (ap_Files app)\<rparr>) (sy_conn2App s1)\<rparr>))"

subsection \<open>Notification\<close>

definition addNotifyConnFileUpdateTask :: "scheduleNotifyTask \<Rightarrow> Syncer \<Rightarrow> Syncer" where
  "addNotifyConnFileUpdateTask t s = s\<lparr>sy_notifyQueue := sy_notifyQueue s @ [t]\<rparr>"

definition popNotifyConnFileUpdateTask :: "Syncer \<Rightarrow> scheduleNotifyTask option \<times> Syncer" where
  "popNotifyConnFileUpdateTask s = (case sy_notifyQueue s of
     [] \<Rightarrow> (None, s) | n # q \<Rightarrow> (Some n, s\<lparr>sy_notifyQueue := q\<rparr>))"

definition on_syncer :: "(Syncer \<Rightarrow> Syncer) \<Rightarrow> agent \<Rightarrow> agent" where
  "on_syncer f a = a\<lparr>ag_syncer := f (ag_syncer a)\<rparr>"

definition notify_request :: "agent_env \<Rightarrow> notifyTask \<Rightarrow> cmd_req" where
  "notify_request E task = \<lparr>rq_name = SDKFileCMD,
     rq_args = [(''configs'', ae_show_configs E (nt_namespace task) (nt_files task))], rq_peer = nt_conn task\<rparr>"

definition doNotify :: "agent_env \<Rightarrow> notifyTask \<Rightarrow> (agent, unit) proc" where
  "doNotify E task =
     andthen (send_app E (notify_request E task)) (\<lambda>resp.
     if rs_code resp = FailCode then fail (Errorf (rs_msg resp)) else ret ())"

text \<open>The changed files of each application that uses one of them.\<close>

definition app_add :: "string \<Rightarrow> string \<Rightarrow> string list gomap \<Rightarrow> string list gomap" where
  "app_add f app m = map_set app (map_list m app @ [f]) m"

definition app2Files :: "Syncer \<Rightarrow> string \<Rightarrow> string list \<Rightarrow> string list gomap" where
  "app2Files s namespace files =
     fold (\<lambda>f m. fold (app_add f) (map_list (sy_regFileToApp s) (path_join [namespace, f])) m) files []"

definition notify_conn :: "agent_env \<Rightarrow> notifyTask \<Rightarrow> (agent, unit) proc" where
  "notify_conn E task =
     attempt (doNotify E task)
       (\<lambda>_. change (on_syncer (addNotifyConnFileUpdateTask
              \<lparr>st_task = task, st_nextScheduleTime = 0, st_failedCount = 1\<rparr>)))
       ret"

definition NotifyUpdate :: "agent_env \<Rightarrow> string \<Rightarrow> string list \<Rightarrow> (agent, unit) proc" where
  "NotifyUpdate E namespace files =
     andthen (get_state ag_syncer) (\<lambda>s.
     each (\<lambda>(app, fs). each (\<lambda>con. notify_conn E \<lparr>nt_conn = con, nt_namespace = namespace, nt_files = fs\<rparr>)
        (map_list (sy_apps s) app)) (app2Files s namespace files))"

text \<open>The attempt of a worker for a task that was due; \<open>now\<close> is the time when it has failed.\<close>

definition delay :: "scheduleNotifyTask \<Rightarrow> int" where
  "delay t = (let deltaTime = DefualtDelayTime * st_failedCount t
              in if deltaTime > MAXDeltaTime then MAXDeltaTime else deltaTime)"

definition run_task :: "agent_env \<Rightarrow> int \<Rightarrow> scheduleNotifyTask \<Rightarrow> (agent, unit) proc" where
  "run_task E now t =
     attempt (doNotify E (st_task t))
       (\<lambda>_. if st_failedCount t > MAXFailedCount then ret ()
            else change (on_syncer (addNotifyConnFileUpdateTask
              \<lparr>st_task = st_task t, st_nextScheduleTime = now + delay t, st_failedCount = st_failedCount t + 1\<rparr>)))
       ret"

subsection \<open>Syncer and workers together\<close>

text \<open>\<open>held\<close> are the tasks that workers have taken from the queue.\<close>

record sync_run =
  run_agent :: agent
  run_held :: "scheduleNotifyTask list"
  run_now :: int

inductive sync_step :: "agent_env \<Rightarrow> sync_run \<Rightarrow> sync_run \<Rightarrow> bool" for E where
  register: "sync_step E r (r\<lparr>run_agent := on_syncer (RegisterApp app conn) (run_agent r)\<rparr>)"
| register_file: "RegisterFileToApp conn ns f (ag_syncer (run_agent r)) = (Ok (), s) \<Longrightarrow>
    sync_step E r (r\<lparr>run_agent := on_syncer (\<lambda>_. s) (run_agent r)\<rparr>)"
| cancel: "sync_step E r (r\<lparr>run_agent := on_syncer (CancelApp conn) (run_agent r)\<rparr>)"
| notify: "NotifyUpdate E ns files (run_agent r) = (q, a) \<Longrightarrow> sync_step E r (r\<lparr>run_agent := a\<rparr>)"
| take_task: "popNotifyConnFileUpdateTask (ag_syncer (run_agent r)) = (Some t, s) \<Longrightarrow>
    sync_step E r (r\<lparr>run_agent := on_syncer (\<lambda>_. s) (run_agent r), run_held := t # run_held r\<rparr>)"
| put_back: "t \<in> set (run_held r) \<Longrightarrow> st_nextScheduleTime t > run_now r \<Longrightarrow>
    sync_step E r (r\<lparr>run_agent := on_syncer (addNotifyConnFileUpdateTask t) (run_agent r),
      run_held := remove1 t (run_held r)\<rparr>)"
| attempt_task: "t \<in> set (run_held r) \<Longrightarrow> st_nextScheduleTime t \<le> run_now r \<Longrightarrow>
    now \<ge> run_now r \<Longrightarrow> run_task E now t (run_agent r) = (q, a) \<Longrightarrow>
    sync_step E r (r\<lparr>run_agent := a, run_held := remove1 t (run_held r), run_now := now\<rparr>)"
| tick: "d \<ge> 0 \<Longrightarrow> sync_step E r (r\<lparr>run_now := run_now r + d\<rparr>)"

inductive sync_reachable :: "agent_env \<Rightarrow> sync_run \<Rightarrow> bool" for E where
  start: "ag_syncer (run_agent r) = NewSyncer \<Longrightarrow> run_held r = [] \<Longrightarrow> 0 \<le> run_now r \<Longrightarrow> sync_reachable E r"
| step: "sync_reachable E r \<Longrightarrow> sync_step E r r' \<Longrightarrow> sync_reachable E r'"

subsection \<open>Invariants\<close>

text \<open>A connected application is reached by its connection and registered for its files.\<close>

definition registered :: "Syncer \<Rightarrow> bool" where
  "registered s \<longleftrightarrow> (\<forall>conn app. map_of (sy_conn2App s) conn = Some app \<longrightarrow>
     conn \<in> set (map_list (sy_apps s) (ap_AppID app))
     \<and> (\<forall>f\<in>set (ap_Files app). ap_AppID app \<in> set (map_list (sy_regFileToApp s) f)))"

definition tasks_ok :: "int \<Rightarrow> scheduleNotifyTask list \<Rightarrow> bool" where
  "tasks_ok now ts \<longleftrightarrow> (\<forall>t\<in>set ts. 1 \<le> st_failedCount t \<and> st_failedCount t \<le> MAXFailedCount + 1
     \<and> st_nextScheduleTime t \<le> now + DefualtDelayTime * MAXFailedCount)"

definition sync_inv :: "int \<Rightarrow> Syncer \<Rightarrow> bool" where
  "sync_inv now s \<longleftrightarrow> 0 \<le> now \<and> registered s \<and> tasks_ok now (sy_notifyQueue s)"

lemma fold_reg_add:
  "set (map_list (fold (reg_add a) ks m) k)
    = (if k \<in> set ks then insert a (set (map_list m k)) else set (map_list m k))"
  by (induction ks arbitrary: m) (auto simp: reg_add_def)

lemma registeredI:
  assumes "\<And>conn app. map_of (sy_conn2App s) conn = Some app \<Longrightarrow> conn \<in> set (map_list (sy_apps s) (ap_AppID app))"
    and "\<And>conn app f. map_of (sy_conn2App s) conn = Some app \<Longrightarrow> f \<in> set (ap_Files app) \<Longrightarrow>
      ap_AppID app \<in> set (map_list (sy_regFileToApp s) f)"
  shows "registered s"
  using assms by (simp add: registered_def)

lemma registeredD:
  assumes "registered s" "map_of (sy_conn2App s) conn = Some app" "ap_AppID app = i"
  shows "conn \<in> set (map_list (sy_apps s) i)"
    "f \<in> set (ap_Files app) \<Longrightarrow> i \<in> set (map_list (sy_regFileToApp s) f)"
  using assms by (auto simp: registered_def)

lemma registered_RegisterApp: "registered s \<Longrightarrow> registered (RegisterApp app conn s)"
  by (rule registeredI) (auto simp: RegisterApp_def Let_def fold_reg_add intro: registeredD split: if_splits)

lemma drop_first_subset: "set (drop_first p xs) \<subseteq> set xs"
  by (induction xs) auto

lemma registered_CancelApp: "registered s \<Longrightarrow> registered (CancelApp conn s)"
  by (rule registeredI) (auto simp: CancelApp_def Let_def intro: registeredD split: option.splits if_splits)

lemma CancelApp_queue: "set (sy_notifyQueue (CancelApp conn s)) \<subseteq> set (sy_notifyQueue s)"
  unfolding CancelApp_def Let_def
  by (cases "map_of (sy_conn2App s) conn") (auto dest: subsetD [OF drop_first_subset])

lemma RegisterFileToApp_keeps:
  assumes "RegisterFileToApp conn ns f s = (Ok (), s')" and "registered s"
  shows "registered s'" "sy_notifyQueue s' = sy_notifyQueue s"
  using assms unfolding registered_def RegisterFileToApp_def GetAppByConn_def Let_def reg_add_def
  by (auto split: option.splits if_splits)

lemma inv_add:
  assumes "sync_inv now s" and "tasks_ok now [t]"
  shows "sync_inv now (addNotifyConnFileUpdateTask t s)"
  using assms by (auto simp: sync_inv_def addNotifyConnFileUpdateTask_def registered_def tasks_ok_def)

lemma send_app_syncer: "send_app E c a = (r, a') \<Longrightarrow> ag_syncer a' = ag_syncer a"
  by (auto simp: send_app_def)

lemma doNotify_syncer: "doNotify E t a = (r, a') \<Longrightarrow> ag_syncer a' = ag_syncer a \<and> r \<noteq> Panic"
  by (auto simp: doNotify_def andthen_def attempt_def ret_def fail_def send_app_def
      split: prod.splits outcome.splits if_splits sum.splits)

lemma first_task_ok: "0 \<le> now \<Longrightarrow> tasks_ok now [\<lparr>st_task = k, st_nextScheduleTime = 0, st_failedCount = 1\<rparr>]"
  by (simp add: tasks_ok_def MAXFailedCount_def DefualtDelayTime_def)

lemma notify_conn_run:
  assumes "notify_conn E k a = (r, a')"
  shows "r = Ok ()" "sync_inv now (ag_syncer a) \<Longrightarrow> sync_inv now (ag_syncer a')"
proof -
  obtain q a1 where d: "doNotify E k a = (q, a1)" by fastforce
  note ds = doNotify_syncer [OF d]
  show "r = Ok ()" using assms d ds by (cases q) (auto simp: notify_conn_def attempt_def change_def ret_def)
  show "sync_inv now (ag_syncer a')" if inv: "sync_inv now (ag_syncer a)"
  proof (cases q)
    case (Err e)
    then have "ag_syncer a' = addNotifyConnFileUpdateTask
        \<lparr>st_task = k, st_nextScheduleTime = 0, st_failedCount = 1\<rparr> (ag_syncer a)"
      using assms d ds by (auto simp: notify_conn_def attempt_def change_def on_syncer_def)
    with inv_add [OF inv first_task_ok [of now k]] inv show ?thesis by (simp add: sync_inv_def)
  qed (use assms d ds inv in \<open>auto simp: notify_conn_def attempt_def ret_def\<close>)
qed

lemma NotifyUpdate_inv:
  assumes "NotifyUpdate E ns files a = (r, a')" and "sync_inv now (ag_syncer a)"
  shows "sync_inv now (ag_syncer a')"
proof -
  let ?body = "\<lambda>(app, fs). each (\<lambda>con. notify_conn E \<lparr>nt_conn = con, nt_namespace = ns, nt_files = fs\<rparr>)
        (map_list (sy_apps (ag_syncer a)) app)"
  have run: "each ?body (app2Files (ag_syncer a) ns files) a = (r, a')"
    using assms(1) by (simp add: NotifyUpdate_def andthen_def attempt_def get_state_def)
  show ?thesis
  proof (rule each_keeps [where P = "\<lambda>a. sync_inv now (ag_syncer a)", OF _ run assms(2)])
    fix x s q s'
    assume one: "?body x s = (q, s')" and P: "sync_inv now (ag_syncer s)"
    obtain app fs where x: "x = (app, fs)" by fastforce
    show "sync_inv now (ag_syncer s')"
      by (rule each_keeps [where P = "\<lambda>a. sync_inv now (ag_syncer a)", OF _ one [unfolded x prod.case] P])
        (rule notify_conn_run(2))
  qed
qed

lemma run_task_inv:
  assumes "run_task E now t a = (r, a')" and inv: "sync_inv now (ag_syncer a)" and t: "tasks_ok now [t]"
  shows "sync_inv now (ag_syncer a')"
proof -
  obtain q a1 where d: "doNotify E (st_task t) a = (q, a1)" by fastforce
  note ds = doNotify_syncer [OF d]
  show ?thesis
  proof (cases "\<exists>e. q = Err e \<and> \<not> st_failedCount t > MAXFailedCount")
    case True
    let ?t = "\<lparr>st_task = st_task t, st_nextScheduleTime = now + delay t, st_failedCount = st_failedCount t + 1\<rparr>"
    have "ag_syncer a' = addNotifyConnFileUpdateTask ?t (ag_syncer a)"
      using True assms(1) d ds by (auto simp: run_task_def attempt_def change_def on_syncer_def)
    moreover have "tasks_ok now [?t]"
      using True t by (auto simp: tasks_ok_def delay_def DefualtDelayTime_def MAXDeltaTime_def MAXFailedCount_def)
    ultimately show ?thesis using inv_add [OF inv] by simp
  next
    case False
    then show ?thesis
      using assms(1) d ds inv by (cases q) (auto simp: run_task_def attempt_def ret_def)
  qed
qed

lemma sync_inv_later: "sync_inv now s \<Longrightarrow> now \<le> now' \<Longrightarrow> sync_inv now' s"
  by (fastforce simp: sync_inv_def tasks_ok_def)

lemma tasks_ok_later: "tasks_ok now ts \<Longrightarrow> now \<le> now' \<Longrightarrow> tasks_ok now' ts"
  by (fastforce simp: tasks_ok_def)

lemma tasks_ok_subset: "tasks_ok now ts \<Longrightarrow> set us \<subseteq> set ts \<Longrightarrow> tasks_ok now us"
  by (auto simp: tasks_ok_def)

lemma sync_step_inv:
  assumes "sync_step E r r'" and "sync_inv (run_now r) (ag_syncer (run_agent r))" and "tasks_ok (run_now r) (run_held r)"
  shows "sync_inv (run_now r') (ag_syncer (run_agent r')) \<and> tasks_ok (run_now r') (run_held r')"
  using assms
proof induction
  case (register r app conn)
  with registered_RegisterApp show ?case
    by (auto simp: sync_inv_def on_syncer_def RegisterApp_def Let_def)
next
  case (register_file conn ns f r s)
  with RegisterFileToApp_keeps show ?case
    by (auto simp: sync_inv_def on_syncer_def)
next
  case (cancel r conn)
  with registered_CancelApp tasks_ok_subset [OF _ CancelApp_queue] show ?case
    by (auto simp: sync_inv_def on_syncer_def)
next
  case (notify ns files r q a)
  with NotifyUpdate_inv show ?case by auto
next
  case (take_task r t s)
  from take_task.hyps obtain q where "sy_notifyQueue (ag_syncer (run_agent r)) = t # q"
    "s = (ag_syncer (run_agent r))\<lparr>sy_notifyQueue := q\<rparr>"
    by (auto simp: popNotifyConnFileUpdateTask_def split: list.splits)
  with take_task.prems show ?case
    by (auto simp: sync_inv_def on_syncer_def tasks_ok_def registered_def)
next
  case (put_back t r)
  then have "tasks_ok (run_now r) [t]" by (simp add: tasks_ok_def)
  with put_back inv_add [OF put_back.prems(1)] tasks_ok_subset [OF put_back.prems(2) set_remove1_subset] show ?case
    by (auto simp: on_syncer_def)
next
  case (attempt_task t r now q a)
  then have "tasks_ok now [t]" using tasks_ok_later by (fastforce simp: tasks_ok_def)
  from run_task_inv [OF attempt_task.hyps(4) sync_inv_later [OF attempt_task.prems(1) attempt_task.hyps(3)] this]
    tasks_ok_later [OF tasks_ok_subset [OF attempt_task.prems(2) set_remove1_subset] attempt_task.hyps(3)]
  show ?case by auto
next
  case (tick d r)
  with sync_inv_later [OF tick.prems(1), of "run_now r + d"] tasks_ok_later [OF tick.prems(2), of "run_now r + d"]
  show ?case by auto
qed

lemma reachable_inv:
  assumes "sync_reachable E r"
  shows "sync_inv (run_now r) (ag_syncer (run_agent r)) \<and> tasks_ok (run_now r) (run_held r)"
  using assms
proof induction
  case (start r)
  then show ?case by (simp add: sync_inv_def registered_def tasks_ok_def NewSyncer_def)
next
  case (step r r')
  then show ?case using sync_step_inv by blast
qed

subsection \<open>Every registered connection is notified\<close>

text \<open>
  The request of task \<open>k\<close> was sent after the first \<open>m\<close> requests, and it was answered without failure or
  the task waits in the queue.
\<close>

definition notified :: "agent_env \<Rightarrow> nat \<Rightarrow> notifyTask \<Rightarrow> agent \<Rightarrow> bool" where
  "notified E m k a \<longleftrightarrow> (\<exists>n. m \<le> n \<and> n < length (ag_sdk a) \<and> ag_sdk a ! n = notify_request E k
     \<and> ((\<exists>resp. ae_app E (notify_request E k) (take n (ag_sdk a)) = Inr resp \<and> rs_code resp \<noteq> FailCode)
        \<or> k \<in> st_task ` set (sy_notifyQueue (ag_syncer a))))"

lemma notify_conn_cases:
  assumes "notify_conn E k a = (r, a')"
  shows "ag_sdk a' = ag_sdk a @ [notify_request E k]"
    "(\<exists>resp. ae_app E (notify_request E k) (ag_sdk a) = Inr resp \<and> rs_code resp \<noteq> FailCode
        \<and> sy_notifyQueue (ag_syncer a') = sy_notifyQueue (ag_syncer a))
     \<or> (\<exists>t. st_task t = k \<and> sy_notifyQueue (ag_syncer a') = sy_notifyQueue (ag_syncer a) @ [t])"
  using assms
  by (auto simp: notify_conn_def doNotify_def send_app_def andthen_def attempt_def ret_def fail_def change_def
      on_syncer_def addNotifyConnFileUpdateTask_def split: sum.splits if_splits)

lemma notify_conn_notified:
  assumes "notify_conn E k a = (r, a')" and "m \<le> length (ag_sdk a)"
  shows "notified E m k a'"
  unfolding notified_def
  by (rule exI [of _ "length (ag_sdk a)"]) (use notify_conn_cases [OF assms(1)] assms(2) in auto)

lemma notified_mono:
  assumes "notify_conn E k a = (r, a')" and "notified E m j a"
  shows "notified E m j a'"
proof -
  from assms(2) obtain n where n: "m \<le> n" "n < length (ag_sdk a)" "ag_sdk a ! n = notify_request E j"
    "(\<exists>resp. ae_app E (notify_request E j) (take n (ag_sdk a)) = Inr resp \<and> rs_code resp \<noteq> FailCode)
        \<or> j \<in> st_task ` set (sy_notifyQueue (ag_syncer a))"
    by (auto simp: notified_def)
  note c = notify_conn_cases [OF assms(1)]
  have "set (sy_notifyQueue (ag_syncer a)) \<subseteq> set (sy_notifyQueue (ag_syncer a'))" using c(2) by auto
  then show ?thesis
    unfolding notified_def by (intro exI [of _ n]) (use n c(1) in \<open>auto simp: nth_append\<close>)
qed

text \<open>A loop whose body never fails, and makes \<open>Q x\<close> true, which every other round keeps.\<close>

lemma each_all:
  assumes "\<And>x s r s'. x \<in> set xs \<Longrightarrow> f x s = (r, s') \<Longrightarrow> I s \<Longrightarrow> r = Ok () \<and> I s' \<and> Q x s'"
    and "\<And>x y s r s'. x \<in> set xs \<Longrightarrow> y \<in> set xs \<Longrightarrow> f y s = (r, s') \<Longrightarrow> I s \<Longrightarrow> Q x s \<Longrightarrow> Q x s'"
    and "each f xs s = (r, s')" "I s"
  shows "r = Ok () \<and> I s' \<and> (\<forall>x\<in>set xs. Q x s')"
  using assms
proof (induction xs arbitrary: s)
  case (Cons x xs)
  obtain q s1 where one: "f x s = (q, s1)" by fastforce
  with Cons.prems(1) [OF _ one Cons.prems(4)] have q: "q = Ok ()" "I s1" "Q x s1" by simp_all
  with Cons.prems(3) one have rest: "each f xs s1 = (r, s')" by (simp add: andthen_run)
  have "I s' \<and> Q x s'"
    by (rule each_keeps [where P = "\<lambda>s. I s \<and> Q x s", OF _ rest])
      (use Cons.prems(1,2) q in \<open>meson list.set_intros\<close>)+
  moreover have "r = Ok () \<and> I s' \<and> (\<forall>x\<in>set xs. Q x s')"
    by (rule Cons.IH [OF _ _ rest q(2)]) (use Cons.prems(1,2) in \<open>meson list.set_intros\<close>)+
  ultimately show ?case by simp
qed (simp add: ret_def)

lemma each_notify:
  assumes run: "each (\<lambda>con. notify_conn E (task con)) conns a = (r, a')" and m: "m \<le> length (ag_sdk a)"
  shows "r = Ok () \<and> m \<le> length (ag_sdk a') \<and> (\<forall>con\<in>set conns. notified E m (task con) a')"
proof (rule each_all [where I = "\<lambda>a. m \<le> length (ag_sdk a)", OF _ _ run m])
  fix con s q s'
  assume c: "notify_conn E (task con) s = (q, s')" and l: "m \<le> length (ag_sdk s)"
  show "q = Ok () \<and> m \<le> length (ag_sdk s') \<and> notified E m (task con) s'"
    using notify_conn_run(1) [OF c] notify_conn_cases(1) [OF c] l notify_conn_notified [OF c l] by simp
next
  fix x y s q s'
  assume "notify_conn E (task y) s = (q, s')" "notified E m (task x) s"
  then show "notified E m (task x) s'" by (rule notified_mono)
qed

lemma NotifyUpdate_all:
  assumes run: "NotifyUpdate E ns files a = (r, a')"
  shows "r = Ok () \<and> (\<forall>(app, fs)\<in>set (app2Files (ag_syncer a) ns files).
      \<forall>con\<in>set (map_list (sy_apps (ag_syncer a)) app).
        notified E (length (ag_sdk a)) \<lparr>nt_conn = con, nt_namespace = ns, nt_files = fs\<rparr> a')"
proof -
  let ?task = "\<lambda>fs con. \<lparr>nt_conn = con, nt_namespace = ns, nt_files = fs\<rparr>"
  let ?conns = "\<lambda>app. map_list (sy_apps (ag_syncer a)) app"
  let ?body = "\<lambda>(app, fs). each (\<lambda>con. notify_conn E (?task fs con)) (?conns app)"
  let ?m = "length (ag_sdk a)"
  let ?Q = "\<lambda>(app, fs) s. \<forall>con\<in>set (?conns app). notified E ?m (?task fs con) s"
  have each: "each ?body (app2Files (ag_syncer a) ns files) a = (r, a')"
    using run by (simp add: NotifyUpdate_def andthen_def attempt_def get_state_def)
  have "r = Ok () \<and> ?m \<le> length (ag_sdk a') \<and> (\<forall>x\<in>set (app2Files (ag_syncer a) ns files). ?Q x a')"
  proof (rule each_all [where I = "\<lambda>s. ?m \<le> length (ag_sdk s)" and Q = ?Q, OF _ _ each])
    fix x s q s'
    assume "?body x s = (q, s')" "?m \<le> length (ag_sdk s)"
    then show "q = Ok () \<and> ?m \<le> length (ag_sdk s') \<and> ?Q x s'"
      using each_notify [of E "?task (snd x)" "?conns (fst x)" s q s' ?m] by (cases x) simp
  next
    fix x y s q s'
    assume run: "?body y s = (q, s')" and Q: "?Q x s"
    obtain app fs where y: "y = (app, fs)" by fastforce
    show "?Q x s'"
      by (rule each_keeps [where P = "?Q x", OF _ run [unfolded y prod.case] Q])
        (use notified_mono in \<open>fastforce split: prod.splits\<close>)
  qed simp
  then show ?thesis by (auto split: prod.splits)
qed

lemma fold_app_add:
  "set (map_list (fold (app_add f) as m) a) = (if a \<in> set as then insert f (set (map_list m a)) else set (map_list m a))"
  by (induction as arbitrary: m) (auto simp: app_add_def)

lemma app2Files_fold:
  "f \<in> set (map_list (fold (\<lambda>f m. fold (app_add f) (g f) m) files m) a)
    \<longleftrightarrow> f \<in> set (map_list m a) \<or> f \<in> set files \<and> a \<in> set (g f)"
  by (induction files arbitrary: m) (auto simp: fold_app_add)

lemma app2Files_entry:
  assumes "f \<in> set files" "a \<in> set (map_list (sy_regFileToApp s) (path_join [ns, f]))"
  shows "\<exists>fs. (a, fs) \<in> set (app2Files s ns files) \<and> f \<in> set fs"
proof -
  have "f \<in> set (map_list (app2Files s ns files) a)"
    unfolding app2Files_def app2Files_fold using assms by simp
  then show ?thesis
    by (cases "map_of (app2Files s ns files) a") (auto simp: map_list_def dest: map_of_SomeD)
qed



lemma clean_no_double_slash:
  assumes "a \<noteq> []"
  shows "path_clean s \<noteq> a @ ''//'' @ b"
proof
  assume eq: "path_clean s = a @ ''//'' @ b"
  let ?ks = "file_key s"
  have nm: "normal (rooted s) ?ks" by (rule file_key_normal)
  have "?ks \<noteq> []" using eq assms by (cases a) (auto simp: path_clean_def split: if_splits)
  then have sp: "split_on CHR ''/'' (join_with ''/'' ?ks) = ?ks"
    using normal_no_slash [OF nm] by (intro split_join) auto
  have "split_on CHR ''/'' (path_clean s) = (if rooted s then [] # ?ks else ?ks)"
    using sp \<open>?ks \<noteq> []\<close> by (simp add: path_clean_def)
  moreover have "split_on CHR ''/'' (x @ CHR ''/'' # y) = split_on CHR ''/'' x @ split_on CHR ''/'' y" for x y
    by (induction x) (auto split: list.splits)
  then have "split_on CHR ''/'' (a @ ''//'' @ b) = split_on CHR ''/'' a @ [] # split_on CHR ''/'' b"
    by simp
  ultimately have "split_on CHR ''/'' a @ [] # split_on CHR ''/'' b = (if rooted s then [] # ?ks else ?ks)"
    using eq by simp
  moreover have "[] \<notin> set ?ks" using normal_no_slash(2) [OF nm] by auto
  moreover have "split_on CHR ''/'' a \<noteq> []" by simp
  ultimately show False by (cases "split_on CHR ''/'' a") (auto split: if_splits dest!: arg_cong [where f = set])
qed

lemma path_join_no_double_slash:
  assumes "a \<noteq> []"
  shows "path_join es \<noteq> a @ ''//'' @ b"
  unfolding path_join_def using clean_no_double_slash [OF assms] by (auto split: list.split)

text \<open>
  A file that an application asks for by a name with a leading slash is registered under a name
  that no change is looked up by: the application is not told of its changes.
\<close>

theorem slash_file_not_matched:
  assumes "namespace \<noteq> []" and "RegisterFileToApp conn namespace (CHR ''/'' # name) s = (Ok (), s')"
  shows "\<exists>app. map_of (sy_conn2App s') conn = Some app \<and> namespace @ ''//'' @ name \<in> set (ap_Files app)
    \<and> (\<forall>ns f. path_join [ns, f] \<noteq> namespace @ ''//'' @ name)"
  using assms(2) path_join_no_double_slash [OF assms(1)]
  by (auto simp: RegisterFileToApp_def Let_def split: option.splits)

subsection \<open>Witnesses\<close>

definition demo_app :: AppDescribe where
  "demo_app = \<lparr>ap_AppID = ''web'', ap_PodIP = ''10.0.0.1'', ap_Hostname = ''h'', ap_Namespaces = [''ns''],
     ap_Files = [''ns/app.txt''], ap_conn = []\<rparr>"

definition demo_run :: sync_run where
  "demo_run = \<lparr>run_agent = on_syncer (RegisterApp demo_app ''down'') demo_agent, run_held = [], run_now = 0\<rparr>"

lemma demo_run_reachable: "sync_reachable E demo_run"
proof -
  let ?r = "\<lparr>run_agent = demo_agent, run_held = [], run_now = 0\<rparr> :: sync_run"
  have "sync_reachable E ?r"
    by (rule sync_reachable.start) (simp_all add: demo_agent_def NewSyncer_def)
  from sync_reachable.step [OF this sync_step.register [of E ?r demo_app "''down''"]]
  show ?thesis by (simp add: demo_run_def)
qed

lemma demo_path_join: "path_join [''ns'', ''app.txt''] = ''ns/app.txt''"
  by code_simp


definition demo_task :: scheduleNotifyTask where
  "demo_task = \<lparr>st_task = \<lparr>nt_conn = ''down'', nt_namespace = ''ns'', nt_files = [''app.txt'']\<rparr>,
     st_nextScheduleTime = 0, st_failedCount = 1\<rparr>"


theorem slash_file_not_matched_witness:
  "\<exists>s'. RegisterFileToApp ''down'' ''ns'' ''/app.txt'' (ag_syncer (run_agent demo_run)) = (Ok (), s')
    \<and> (\<exists>app. map_of (sy_conn2App s') ''down'' = Some app \<and> ''ns//app.txt'' \<in> set (ap_Files app))"
proof -
  let ?r = "RegisterFileToApp ''down'' ''ns'' ''/app.txt'' (ag_syncer (run_agent demo_run))"
  have "fst ?r = Ok ()" by code_simp
  then have run: "?r = (Ok (), snd ?r)" by (simp add: prod_eq_iff)
  from slash_file_not_matched [OF _ run] run show ?thesis by fastforce
qed

end
