(* ===== verification/Agent_Updater.thy ===== *)
theory Agent_Updater
  imports Agent_Syncer
begin

section \<open>Files that have changed (pkg/agent/updater)\<close>

text \<open>
  \<open>FileMapper\<close> keeps the digest of every file the agent has announced, per namespace;
  \<open>UpdateHub\<close> takes packages and files from its queues, stores the files of a package, and tells the
  syncer which files have a new digest. A namespace is made in the map by reading it.
\<close>

subsection \<open>FileMapper\<close>

definition FmDataPath :: string where "FmDataPath = ''vmqueue_v1/filemapper.json''"

definition EnsureNamespace :: "string \<Rightarrow> string gomap gomap \<Rightarrow> string gomap gomap" where
  "EnsureNamespace namespace m = (if map_of m namespace = None then map_set namespace [] m else m)"

definition fm_files :: "string gomap gomap \<Rightarrow> string \<Rightarrow> string gomap" where
  "fm_files m namespace = (case map_of m namespace of None \<Rightarrow> [] | Some fs \<Rightarrow> fs)"

definition FM_Update :: "string \<Rightarrow> string gomap \<Rightarrow> string gomap gomap \<Rightarrow> string gomap gomap" where
  "FM_Update namespace target m0 =
     (let m = EnsureNamespace namespace m0
      in map_set namespace (fold (\<lambda>(k, v). map_set k v) target (fm_files m namespace)) m)"

definition FM_Get :: "string \<Rightarrow> string \<Rightarrow> string gomap gomap \<Rightarrow> string \<times> string gomap gomap" where
  "FM_Get namespace key m0 =
     (let m = EnsureNamespace namespace m0 in (map_get (fm_files m namespace) key, m))"

definition FM_GetAll :: "string gomap gomap \<Rightarrow> string gomap gomap" where
  "FM_GetAll m = m"

definition FM_Set :: "string \<Rightarrow> string \<Rightarrow> string \<Rightarrow> string gomap gomap \<Rightarrow> string gomap gomap" where
  "FM_Set namespace key v m0 =
     (let m = EnsureNamespace namespace m0 in map_set namespace (map_set key v (fm_files m namespace)) m)"

text \<open>The files with another digest (and the agent's digest), and the files it does not have.\<close>

fun diff_files :: "string gomap \<Rightarrow> string gomap \<Rightarrow> string gomap \<times> string gomap \<Rightarrow> string gomap \<times> string gomap" where
  "diff_files content [] acc = acc"
| "diff_files content ((k, v) # target) (diffed, missed) =
     diff_files content target
       (case map_of content k of
          None \<Rightarrow> (diffed, map_set k [] missed)
        | Some cv \<Rightarrow> if cv \<noteq> v then (map_set k cv diffed, missed) else (diffed, missed))"

definition FM_Diff ::
  "string \<Rightarrow> string gomap \<Rightarrow> string gomap gomap \<Rightarrow> (string gomap \<times> string gomap) \<times> string gomap gomap" where
  "FM_Diff namespace target m0 =
     (let m = EnsureNamespace namespace m0 in (diff_files (fm_files m namespace) target ([], []), m))"

definition on_fm :: "(string gomap gomap \<Rightarrow> 'a \<times> string gomap gomap) \<Rightarrow> (agent, 'a) proc" where
  "on_fm f = (\<lambda>a. case f (ag_fm a) of (x, m) \<Rightarrow> (Ok x, a\<lparr>ag_fm := m\<rparr>))"

definition upd_fm :: "(string gomap gomap \<Rightarrow> string gomap gomap) \<Rightarrow> (agent, unit) proc" where
  "upd_fm f = change (\<lambda>a. a\<lparr>ag_fm := f (ag_fm a)\<rparr>)"

definition FM_dump :: "agent_env \<Rightarrow> (agent, unit) proc" where
  "FM_dump E =
     andthen (get_state ag_fm) (\<lambda>content.
     logged (put_file E (\<lambda>tmp. StoreRawFile (ae_files E) tmp FmDataPath None
       (Some (string_reader (ae_show_content E content))))))"

text \<open>A content that is no map of maps leaves the mapper as it is.\<close>

definition FM_load :: "agent_env \<Rightarrow> (agent, unit) proc" where
  "FM_load E =
     attempt (on_files (VisitRawFile (ae_files E) FmDataPath)) (\<lambda>_. ret ()) (\<lambda>(_, data).
     case ae_content_json E data of Inl _ \<Rightarrow> ret () | Inr content \<Rightarrow> upd_fm (\<lambda>_. content))"

definition NewFileMapper :: "agent_env \<Rightarrow> (agent, unit) proc" where
  "NewFileMapper E = andthen (upd_fm (\<lambda>_. [])) (\<lambda>_. FM_load E)"

subsection \<open>UpdateHub\<close>

definition on_hub :: "(UpdateHub \<Rightarrow> UpdateHub) \<Rightarrow> (agent, unit) proc" where
  "on_hub f = change (\<lambda>a. a\<lparr>ag_hub := f (ag_hub a)\<rparr>)"

definition PackageUpdated :: "string \<Rightarrow> string \<Rightarrow> (agent, unit) proc" where
  "PackageUpdated namespace digest = on_hub (\<lambda>h. h\<lparr>hub_packages := hub_packages h @ [(namespace, digest)]\<rparr>)"

definition FileUpdated :: "string \<Rightarrow> string \<Rightarrow> string \<Rightarrow> (agent, unit) proc" where
  "FileUpdated namespace name digest = on_hub (\<lambda>h. h\<lparr>hub_files := hub_files h @ [(namespace, name, digest)]\<rparr>)"

text \<open>The regular files of an archive are stored in order; an error ends the loop.\<close>

fun untar_files ::
  "agent_env \<Rightarrow> string \<Rightarrow> (string \<times> bool \<times> bytes) list \<Rightarrow> string gomap \<Rightarrow> (agent, string gomap) proc" where
  "untar_files E namespace [] diffed = ret diffed"
| "untar_files E namespace ((filename, regular, data) # rest) diffed =
     (if regular
      then andthen (put_file E (\<lambda>tmp. StoreConfig (ae_files E) tmp FdbSite namespace filename FdbVersion None
                      (Some (string_reader data)))) (\<lambda>dg.
           andthen (on_fm (FM_Get namespace filename)) (\<lambda>dgInMem.
           untar_files E namespace rest (if dg \<noteq> dgInMem then map_set filename dg diffed else diffed)))
      else untar_files E namespace rest diffed)"

definition untar :: "agent_env \<Rightarrow> string \<Rightarrow> bytes \<Rightarrow> (agent, string gomap) proc" where
  "untar E namespace r =
     (case ae_untar E r of (entries, err) \<Rightarrow>
        andthen (untar_files E namespace entries []) (\<lambda>diffed.
        case err of Some e \<Rightarrow> fail e | None \<Rightarrow> ret diffed))"

definition runPackageUpdated :: "agent_env \<Rightarrow> string \<Rightarrow> string \<Rightarrow> (agent, unit) proc" where
  "runPackageUpdated E namespace digest =
     attempt (on_files (VisitPackage (ae_files E) FdbSite namespace)) (\<lambda>_. ret ()) (\<lambda>(_, r).
     attempt (untar E namespace r) (\<lambda>_. ret ()) (\<lambda>diffedFile.
     andthen (upd_fm (FM_Update namespace diffedFile)) (\<lambda>_.
     NotifyUpdate E namespace (map fst diffedFile))))"

text \<open>The digest in the mapper is looked up in the namespace named by the new digest.\<close>

definition notify_file :: "agent_env \<Rightarrow> string \<Rightarrow> string \<Rightarrow> string \<Rightarrow> (agent, unit) proc" where
  "notify_file E namespace name digest =
     andthen (upd_fm (FM_Update namespace [(name, digest)])) (\<lambda>_. NotifyUpdate E namespace [name])"

definition runFileUpdated :: "agent_env \<Rightarrow> string \<Rightarrow> string \<Rightarrow> string \<Rightarrow> (agent, unit) proc" where
  "runFileUpdated E namespace name digest =
     andthen (on_fm (FM_Get digest name)) (\<lambda>fmdigest.
     if fmdigest = digest
     then attempt (on_files (ExistsConfig (ae_files E) FdbSite namespace name FdbVersion))
            (\<lambda>_. notify_file E namespace name digest) (\<lambda>_. ret ())
     else notify_file E namespace name digest)"

text \<open>One turn of the loops of \<open>Start\<close> and of the workers: an element from a queue, in order.\<close>

definition hub_package_turn :: "agent_env \<Rightarrow> (agent, unit) proc" where
  "hub_package_turn E =
     andthen (get_state (\<lambda>a. hub_packages (ag_hub a))) (\<lambda>q.
     case q of [] \<Rightarrow> ret ()
     | (namespace, digest) # rest \<Rightarrow>
         andthen (on_hub (\<lambda>h. h\<lparr>hub_packages := rest\<rparr>)) (\<lambda>_. runPackageUpdated E namespace digest))"

definition hub_file_turn :: "agent_env \<Rightarrow> (agent, unit) proc" where
  "hub_file_turn E =
     andthen (get_state (\<lambda>a. hub_files (ag_hub a))) (\<lambda>q.
     case q of [] \<Rightarrow> ret ()
     | (namespace, name, digest) # rest \<Rightarrow>
         andthen (on_hub (\<lambda>h. h\<lparr>hub_files := rest\<rparr>)) (\<lambda>_. runFileUpdated E namespace name digest))"

subsection \<open>Laws of the mapper\<close>

definition fm_digest :: "string gomap gomap \<Rightarrow> string \<Rightarrow> string \<Rightarrow> string" where
  "fm_digest m namespace name = map_get (fm_files m namespace) name"

lemma fm_files_set [simp]: "fm_files (map_set ns fs m) ns' = (if ns' = ns then fs else fm_files m ns')"
  by (simp add: fm_files_def)

lemma fm_files_ensure [simp]: "fm_files (EnsureNamespace ns m) ns' = fm_files m ns'"
  by (auto simp: EnsureNamespace_def fm_files_def)

lemma FM_Get_value: "fst (FM_Get ns k m) = fm_digest m ns k" "fm_digest (snd (FM_Get ns k m)) ns' k' = fm_digest m ns' k'"
  by (simp_all add: FM_Get_def fm_digest_def Let_def)

lemma fold_map_set:
  "distinct (map fst t) \<Longrightarrow> map_of (fold (\<lambda>(k, v). map_set k v) t m) = map_of m ++ map_of t"
proof (induction t arbitrary: m)
  case (Cons e t)
  obtain k v where e: "e = (k, v)" by fastforce
  from Cons have "map_of (fold (\<lambda>(k, v). map_set k v) t (map_set k v m)) = (map_of m)(k \<mapsto> v) ++ map_of t"
    by simp
  moreover have "map_of t k = None" using Cons.prems e by (simp add: map_of_eq_None_iff)
  ultimately show ?case using e by (auto simp: map_add_def fun_eq_iff split: option.split)
qed simp

lemma FM_Update_digest:
  assumes "distinct (map fst t)"
  shows "fm_digest (FM_Update ns t m) ns' k =
    (if ns' = ns then (case map_of t k of Some v \<Rightarrow> v | None \<Rightarrow> fm_digest m ns k) else fm_digest m ns' k)"
  using fold_map_set [OF assms, of "fm_files m ns"]
  by (auto simp: FM_Update_def fm_digest_def map_get_def Let_def map_add_def split: option.splits)

lemma diff_files_spec:
  assumes "distinct (map fst target)"
  shows "map_of (fst (diff_files content target (d, m))) k =
      (case map_of target k of None \<Rightarrow> map_of d k
       | Some v \<Rightarrow> (case map_of content k of Some cv \<Rightarrow> if cv \<noteq> v then Some cv else map_of d k | None \<Rightarrow> map_of d k))"
    and "map_of (snd (diff_files content target (d, m))) k =
      (case map_of target k of None \<Rightarrow> map_of m k
       | Some v \<Rightarrow> (case map_of content k of None \<Rightarrow> Some [] | Some cv \<Rightarrow> map_of m k))"
  using assms
proof (induction target arbitrary: d m)
  case (Cons e target)
  obtain k0 v0 where e: "e = (k0, v0)" by fastforce
  { case 1
    with Cons.IH(1) e show ?case
      by (auto split: option.splits dest!: map_of_SomeD) (force+)?
  next
    case 2
    with Cons.IH(2) e show ?case
      by (auto split: option.splits dest!: map_of_SomeD) (force+)?
  }
qed simp_all

end
