(* ===== verification/Agent_Files.thy ===== *)
theory Agent_Files
  imports Agent_Updater
begin

section \<open>What the agent's file database holds after an update\<close>

text \<open>
  The agent keeps the latest content of every file under the site \<open>local\<close> and the version \<open>latest\<close>. The lemmas
  are proved once, for any driver that meets the contract \<open>file_store\<close>, and hold for the
  driver of the agent, \<open>FSStorage\<close>, by its interpretation.
\<close>

definition agent_path :: "string \<Rightarrow> string \<Rightarrow> string" where
  "agent_path ns name = GetFilePath FdbSite ns (base_name name) FdbVersion"

definition file_ok :: "string \<Rightarrow> string \<Rightarrow> bool" where
  "file_ok ns name \<longleftrightarrow> config_id_ok FdbSite ns (base_name name) FdbVersion"

lemma file_ok_props:
  assumes "file_ok ns name"
  shows "name \<noteq> []" "path_ok (agent_path ns name)"
  using config_id_nonempty GetFilePath_parts assms by (auto simp: file_ok_def agent_path_def path_ok_def)

lemma agent_path_inject:
  "file_ok ns name \<Longrightarrow> file_ok ns' name' \<Longrightarrow>
    agent_path ns name = agent_path ns' name' \<longleftrightarrow> ns = ns' \<and> base_name name = base_name name'"
  by (simp add: file_ok_def agent_path_def GetFilePath_inject)

text \<open>The parts of the agent that its file operations leave alone.\<close>

definition same_but_files :: "agent \<Rightarrow> agent \<Rightarrow> bool" where
  "same_but_files a a' \<longleftrightarrow> a' = a\<lparr>ag_fs := ag_fs a', ag_ticks := ag_ticks a'\<rparr>"

lemma same_but_files_simps:
  assumes "same_but_files a a'"
  shows "ag_fm a' = ag_fm a" "ag_syncer a' = ag_syncer a" "ag_vm a' = ag_vm a" "ag_hub a' = ag_hub a"
    "ag_up a' = ag_up a" "ag_sdk a' = ag_sdk a" "ag_http a' = ag_http a"
  using assms unfolding same_but_files_def by (metis agent.select_convs agent.surjective agent.update_convs)+

lemma put_file_same: "put_file E f a = (r, a') \<Longrightarrow> same_but_files a a'"
  by (auto simp: put_file_def same_but_files_def split: prod.splits)

lemma on_files_same: "on_files m a = (r, a') \<Longrightarrow> same_but_files a a'"
  by (auto simp: on_files_def same_but_files_def split: prod.splits)

context file_store
begin

lemma store_file:
  assumes run: "put_file E (\<lambda>tmp. StoreConfig D tmp FdbSite ns name FdbVersion e (Some (cs, err))) a = (r, a')"
    and tmp: "\<forall>n. plain (ae_tmp E n)" and name: "file_ok ns name" and okf: "ok (ag_fs a)"
  shows "ok (ag_fs a')" "same_but_files a a'"
    "r = Ok d \<Longrightarrow> ext_get e ''deleted'' \<noteq> ''true'' \<Longrightarrow> fresh (concat cs) (ag_fs a) \<Longrightarrow>
      holds (agent_path ns name) e (concat cs) (ag_fs a') \<and> d = digest (concat cs)"
    "holds (agent_path ns' name') e' x (ag_fs a) \<Longrightarrow> file_ok ns' name' \<Longrightarrow>
      (ns', base_name name') \<noteq> (ns, base_name name) \<Longrightarrow> holds (agent_path ns' name') e' x (ag_fs a')"
proof -
  note props = file_ok_props [OF name]
  have put: "drv_Put D (ae_tmp E (ag_ticks a)) (agent_path ns name) e (cs, err) (ag_fs a) = (r, ag_fs a')"
    using run props(1)
    by (auto simp: put_file_def StoreConfig_def StoreRawFile_def with_name_base agent_path_def split: prod.splits)
  show "ok (ag_fs a')" by (rule put_ok [OF put props(2) _ okf]) (use tmp in simp)
  show "same_but_files a a'" by (rule put_file_same [OF run])
  show "holds (agent_path ns name) e (concat cs) (ag_fs a') \<and> d = digest (concat cs)"
    if "r = Ok d" "ext_get e ''deleted'' \<noteq> ''true''" "fresh (concat cs) (ag_fs a)"
    by (rule put_holds [OF put [unfolded that(1)] okf props(2) _ that(2,3)]) (use tmp in simp)
  show "holds (agent_path ns' name') e' x (ag_fs a')"
    if "holds (agent_path ns' name') e' x (ag_fs a)" "file_ok ns' name'"
      "(ns', base_name name') \<noteq> (ns, base_name name)"
    by (rule put_keeps [OF put props(2) _ _ that(1)])
      (use tmp agent_path_inject [OF name that(2)] that(3) in auto)
qed

end

text \<open>The loop of \<open>untar\<close> over the regular files alone.\<close>

definition regular_files :: "(string \<times> bool \<times> bytes) list \<Rightarrow> (string \<times> bytes) list" where
  "regular_files es = map (\<lambda>(name, _, data). (name, data)) (filter (\<lambda>(_, regular, _). regular) es)"

fun store_all :: "agent_env \<Rightarrow> string \<Rightarrow> (string \<times> bytes) list \<Rightarrow> string gomap \<Rightarrow> (agent, string gomap) proc" where
  "store_all E ns [] diffed = ret diffed"
| "store_all E ns ((name, data) # rest) diffed =
     andthen (put_file E (\<lambda>tmp. StoreConfig (ae_files E) tmp FdbSite ns name FdbVersion None (Some (string_reader data)))) (\<lambda>dg.
     andthen (on_fm (FM_Get ns name)) (\<lambda>dgInMem.
     store_all E ns rest (if dg \<noteq> dgInMem then map_set name dg diffed else diffed)))"

lemma untar_files_store_all: "untar_files E ns es diffed = store_all E ns (regular_files es) diffed"
  by (induction es arbitrary: diffed) (auto simp: regular_files_def)

lemma store_all_dom:
  "store_all E ns files diffed a = (Ok d, a') \<Longrightarrow> map_of d k \<noteq> None \<Longrightarrow> map_of diffed k \<noteq> None \<or> k \<in> fst ` set files"
proof (induction files arbitrary: diffed a)
  case (Cons f files)
  obtain name data where f: "f = (name, data)" by fastforce
  from Cons.prems(1) obtain diffed1 a1 where rest: "store_all E ns files diffed1 a1 = (Ok d, a')"
    and new: "diffed1 = diffed \<or> (\<exists>dg. diffed1 = map_set name dg diffed)"
    by (fastforce simp: f andthen_Ok_iff)
  from Cons.IH [OF rest Cons.prems(2)] new f show ?case by (cases "k = name") auto
qed (simp add: ret_def)

lemma distinct_map_set: "distinct (map fst m) \<Longrightarrow> distinct (map fst (map_set k v m))"
  by (simp add: map_set_def distinct_update)

lemma on_fm_get_run:
  "on_fm (FM_Get ns name) a = (Ok v, a') \<longleftrightarrow>
     v = fm_digest (ag_fm a) ns name \<and> a' = a\<lparr>ag_fm := EnsureNamespace ns (ag_fm a)\<rparr>"
  by (auto simp: on_fm_def FM_Get_def Let_def fm_digest_def)

lemma fm_digest_ensure [simp]: "fm_digest (EnsureNamespace ns m) = fm_digest m"
  by (intro ext) (simp add: fm_digest_def)

context file_store
begin

text \<open>What the loop has done after it stored \<open>files\<close>.\<close>

definition package_stored ::
  "string \<Rightarrow> (string \<times> bytes) list \<Rightarrow> agent \<Rightarrow> string gomap \<Rightarrow> agent \<Rightarrow> bool" where
  "package_stored ns files a diffed a' \<longleftrightarrow>
     ok (ag_fs a') \<and> ag_syncer a' = ag_syncer a \<and> ag_sdk a' = ag_sdk a \<and> fm_digest (ag_fm a') = fm_digest (ag_fm a)
     \<and> distinct (map fst diffed)
     \<and> (\<forall>(name, data)\<in>set files. holds (agent_path ns name) None data (ag_fs a')
         \<and> map_of diffed name = (if digest data \<noteq> fm_digest (ag_fm a) ns name then Some (digest data) else None))"

lemma store_all_keeps:
  assumes "store_all E ns files diffed a = (r, a')" and "ae_files E = D" and "\<forall>n. plain (ae_tmp E n)"
    and "\<forall>(name, data)\<in>set files. file_ok ns name \<and> base_name name \<noteq> base_name k" and "ok (ag_fs a)"
    and "file_ok ns k" "holds (agent_path ns k) None x (ag_fs a)"
  shows "holds (agent_path ns k) None x (ag_fs a') \<and> (\<forall>d. r = Ok d \<longrightarrow> map_of d k = map_of diffed k)"
  using assms
proof (induction files arbitrary: diffed a)
  case (Cons f files)
  obtain name data where f: "f = (name, data)" by fastforce
  obtain q a1 where put: "put_file E (\<lambda>tmp. StoreConfig D tmp FdbSite ns name FdbVersion None (Some ([data], None))) a = (q, a1)"
    by fastforce
  have name: "file_ok ns name" "base_name name \<noteq> base_name k" using Cons.prems(4) f by auto
  note st = store_file [OF put Cons.prems(3) name(1) Cons.prems(5)]
  have h: "holds (agent_path ns k) None x (ag_fs a1)"
    using st(4) [OF Cons.prems(7,6)] name(2) by auto
  show ?case
  proof (cases q)
    case (Ok dg)
    let ?a2 = "a1\<lparr>ag_fm := EnsureNamespace ns (ag_fm a1)\<rparr>"
    let ?d = "if dg \<noteq> fm_digest (ag_fm a1) ns name then map_set name dg diffed else diffed"
    have "on_fm (FM_Get ns name) a1 = (Ok (fm_digest (ag_fm a1) ns name), ?a2)" by (simp add: on_fm_get_run)
    then have "store_all E ns files ?d ?a2 = (r, a')"
      using Cons.prems(1,2) put Ok f by (simp add: andthen_run string_reader_def)
    moreover have "map_of ?d k = map_of diffed k" using name(2) by auto
    ultimately show ?thesis
      using Cons.IH [of ?d ?a2] Cons.prems st(1) h by auto
  qed (use Cons.prems put f h in \<open>auto simp: andthen_run string_reader_def\<close>)
qed (auto simp: ret_def)

lemma store_all_effect:
  assumes "store_all E ns files diffed a = (Ok diffed', a')" and "ae_files E = D"
    and "\<forall>n. plain (ae_tmp E n)" and "\<forall>x fs. fresh x fs"
    and "\<forall>(name, data)\<in>set files. file_ok ns name \<and> map_of diffed name = None"
    and "distinct (map (base_name \<circ> fst) files)" and "ok (ag_fs a)" and "distinct (map fst diffed)"
  shows "package_stored ns files a diffed' a'"
  using assms
proof (induction files arbitrary: diffed a)
  case (Cons f files)
  obtain name data where f: "f = (name, data)" by fastforce
  from Cons.prems(1,2) obtain dg a1 where
    put: "put_file E (\<lambda>tmp. StoreConfig D tmp FdbSite ns name FdbVersion None (Some ([data], None))) a = (Ok dg, a1)"
    and rest: "store_all E ns files (if dg \<noteq> fm_digest (ag_fm a1) ns name then map_set name dg diffed else diffed)
        (a1\<lparr>ag_fm := EnsureNamespace ns (ag_fm a1)\<rparr>) = (Ok diffed', a')"
    by (auto simp: f andthen_Ok_iff string_reader_def on_fm_get_run)
  let ?d = "if dg \<noteq> fm_digest (ag_fm a1) ns name then map_set name dg diffed else diffed"
  let ?a2 = "a1\<lparr>ag_fm := EnsureNamespace ns (ag_fm a1)\<rparr>"
  have name: "file_ok ns name" "map_of diffed name = None" using Cons.prems(5) f by auto
  note st = store_file [OF put Cons.prems(3) name(1) Cons.prems(7)]
  note same = same_but_files_simps [OF st(2)]
  have h: "holds (agent_path ns name) None data (ag_fs a1)" "dg = digest data"
    using st(3) [OF refl] Cons.prems(4) by (simp_all add: ext_get_def)
  have others: "\<forall>(k, x)\<in>set files. file_ok ns k \<and> base_name k \<noteq> base_name name"
    using Cons.prems(5,6) f by force
  then have none: "\<forall>(k, x)\<in>set files. file_ok ns k \<and> map_of ?d k = None"
    using Cons.prems(5) f by fastforce
  have dist: "distinct (map fst ?d)" "distinct (map (base_name \<circ> fst) files)"
    using Cons.prems(6,8) distinct_map_set by (auto simp: comp_def)
  have okf: "ok (ag_fs ?a2)" using st(1) by simp
  note IH = Cons.IH [OF rest Cons.prems(2-4) none dist(2) okf dist(1)]
  have kept: "holds (agent_path ns name) None data (ag_fs a') \<and> map_of diffed' name = map_of ?d name"
    using store_all_keeps [OF rest Cons.prems(2,3) _ okf name(1)] h(1) others by fastforce
  show ?case
    using IH kept h(2) name(2) same f unfolding package_stored_def by auto
qed (simp add: ret_def package_stored_def)

lemma runPackageUpdated_effect:
  assumes run: "runPackageUpdated E ns dg a = (r, a')" and D: "ae_files E = D"
    and tmp: "\<forall>n. plain (ae_tmp E n)" and fresh: "\<forall>x fs. fresh x fs" and okf: "ok (ag_fs a)"
    and pack: "on_files (VisitPackage D FdbSite ns) a = (Ok (d, x), a)" and archive: "ae_untar E x = (es, None)"
    and names: "\<forall>(name, data)\<in>set (regular_files es). file_ok ns name"
      "distinct (map (base_name \<circ> fst) (regular_files es))"
    and all: "untar_files E ns es [] a = (Ok diffed, a1)"
  shows "NotifyUpdate E ns (map fst diffed) (a1\<lparr>ag_fm := FM_Update ns diffed (ag_fm a1)\<rparr>) = (r, a')"
    "package_stored ns (regular_files es) a diffed a1"
    "\<forall>(name, data)\<in>set (regular_files es). fm_digest (FM_Update ns diffed (ag_fm a1)) ns name = digest data"
proof -
  show st: "package_stored ns (regular_files es) a diffed a1"
    by (rule store_all_effect [OF all [unfolded untar_files_store_all] D tmp fresh _ names(2) okf]) (use names(1) in auto)
  show "NotifyUpdate E ns (map fst diffed) (a1\<lparr>ag_fm := FM_Update ns diffed (ag_fm a1)\<rparr>) = (r, a')"
    using run pack all archive D
    by (simp add: runPackageUpdated_def untar_def attempt_run andthen_run upd_fm_def change_def ret_def)
  show "\<forall>(name, data)\<in>set (regular_files es). fm_digest (FM_Update ns diffed (ag_fm a1)) ns name = digest data"
    using st unfolding package_stored_def by (auto simp: FM_Update_digest)
qed

end

subsection \<open>Packages\<close>

text \<open>\<open>NotifyUpdate\<close> sends and queues, and leaves the files and the mapper alone.\<close>

lemma NotifyUpdate_parts:
  assumes "NotifyUpdate E ns files a = (r, a')"
  shows "ag_fs a' = ag_fs a" "ag_fm a' = ag_fm a" "ag_hub a' = ag_hub a" "ag_vm a' = ag_vm a"
proof -
  define P :: "agent \<Rightarrow> bool" where "P b \<longleftrightarrow> ag_fs b = ag_fs a \<and> ag_fm b = ag_fm a \<and> ag_hub b = ag_hub a \<and> ag_vm b = ag_vm a" for b
  have conn: "P b'" if "notify_conn E k b = (q, b')" "P b" for k b q b'
    using that by (auto simp: P_def notify_conn_def doNotify_def send_app_def andthen_def attempt_def ret_def
        fail_def change_def on_syncer_def split: sum.splits if_splits)
  have "P a'"
  proof (rule each_keeps [where P = P])
    show "each (\<lambda>(app, fs). each (\<lambda>con. notify_conn E \<lparr>nt_conn = con, nt_namespace = ns, nt_files = fs\<rparr>)
        (map_list (sy_apps (ag_syncer a)) app)) (app2Files (ag_syncer a) ns files) a = (r, a')"
      using assms by (simp add: NotifyUpdate_def andthen_def attempt_def get_state_def)
    show "P a" by (simp add: P_def)
    fix x b q b'
    assume run: "(case x of (app, fs) \<Rightarrow> each (\<lambda>con. notify_conn E \<lparr>nt_conn = con, nt_namespace = ns, nt_files = fs\<rparr>)
        (map_list (sy_apps (ag_syncer a)) app)) b = (q, b')" and P: "P b"
    obtain app fs where x: "x = (app, fs)" by fastforce
    show "P b'" by (rule each_keeps [where P = P, OF _ run [unfolded x prod.case] P]) (rule conn)
  qed
  then show "ag_fs a' = ag_fs a" "ag_fm a' = ag_fm a" "ag_hub a' = ag_hub a" "ag_vm a' = ag_vm a"
    by (simp_all add: P_def)
qed

text \<open>The files of an archive whose digest the mapper does not have.\<close>

definition changed_files :: "(bytes \<Rightarrow> string) \<Rightarrow> string \<Rightarrow> (string \<times> bytes) list \<Rightarrow> string gomap gomap \<Rightarrow> string list" where
  "changed_files digest ns files m = map fst (filter (\<lambda>(name, data). digest data \<noteq> fm_digest m ns name) files)"

text \<open>
  C13: when the files of a downloaded package could be stored, each of them is what a visit of the file returns
  and has its digest in the mapper, and the applications are notified of those whose digest has changed.
  The driver is any that meets the contract of the file store, as the agent's \<open>FSStorage\<close> does.
\<close>

theorem package_update_effect:
  assumes "file_store (ae_files E) (\<lambda>_. True) (\<lambda>_ _. True) digest holds" and "\<forall>n. plain (ae_tmp E n)"
    and "on_files (VisitPackage (ae_files E) FdbSite ns) a = (Ok (d, x), a)" and "ae_untar E x = (es, None)"
    and "\<forall>(name, data)\<in>set (regular_files es). file_ok ns name"
    and "distinct (map (base_name \<circ> fst) (regular_files es))"
    and "untar_files E ns es [] a = (Ok diffed, a1)"
    and "runPackageUpdated E ns dg a = (r, a')"
  shows "(\<forall>(name, data)\<in>set (regular_files es). fm_digest (ag_fm a') ns name = digest data
        \<and> VisitConfig (ae_files E) FdbSite ns name FdbVersion (ag_fs a') = (Ok ([(''digest'', digest data)], data), ag_fs a'))
    \<and> (\<exists>files a2. set files = set (changed_files digest ns (regular_files es) (ag_fm a))
        \<and> ag_syncer a2 = ag_syncer a \<and> NotifyUpdate E ns files a2 = (r, a'))"
proof -
  note eff = file_store.runPackageUpdated_effect [OF assms(1) assms(8) refl assms(2) _ _ assms(3,4,5,6,7)]
  let ?a2 = "a1\<lparr>ag_fm := FM_Update ns diffed (ag_fm a1)\<rparr>"
  have notify: "NotifyUpdate E ns (map fst diffed) ?a2 = (r, a')"
    and st: "file_store.package_stored (\<lambda>_. True) digest holds ns (regular_files es) a diffed a1"
    and fm: "\<forall>(name, data)\<in>set (regular_files es). fm_digest (FM_Update ns diffed (ag_fm a1)) ns name = digest data"
    using eff by simp_all
  note st = st [unfolded file_store.package_stored_def [OF assms(1)]]
  note parts = NotifyUpdate_parts [OF notify]
  have val: "map_of diffed name = (if digest data \<noteq> fm_digest (ag_fm a) ns name then Some (digest data) else None)"
    if "(name, data) \<in> set (regular_files es)" for name data
    using st that by auto
  have "set (map fst diffed) = set (changed_files digest ns (regular_files es) (ag_fm a))"
  proof (intro set_eqI iffI)
    fix k
    assume "k \<in> set (map fst diffed)"
    then have some: "map_of diffed k \<noteq> None" by (auto simp: map_of_eq_None_iff)
    then obtain data where "(k, data) \<in> set (regular_files es)"
      using store_all_dom [OF assms(7) [unfolded untar_files_store_all], of k] by auto
    with val some show "k \<in> set (changed_files digest ns (regular_files es) (ag_fm a))"
      by (force simp: changed_files_def split: if_splits)
  next
    fix k
    assume "k \<in> set (changed_files digest ns (regular_files es) (ag_fm a))"
    then obtain data where "(k, data) \<in> set (regular_files es)" "digest data \<noteq> fm_digest (ag_fm a) ns k"
      by (auto simp: changed_files_def)
    with val have "map_of diffed k = Some (digest data)" by simp
    then show "k \<in> set (map fst diffed)" by (force dest: map_of_SomeD)
  qed
  moreover have "VisitConfig (ae_files E) FdbSite ns name FdbVersion (ag_fs a') = (Ok ([(''digest'', digest data)], data), ag_fs a')"
    if "(name, data) \<in> set (regular_files es)" for name data
  proof -
    have "holds (agent_path ns name) None data (ag_fs a')" "file_ok ns name"
      using st that parts(1) assms(5) by auto
    with file_store.get_holds [OF assms(1) this(1)] file_ok_props [OF this(2)] show ?thesis
      by (simp add: VisitConfig_def VisitRawFile_def with_name_base agent_path_def ext_ok_def ext_map_def map_set_def)
  qed
  ultimately show ?thesis using fm parts(2) notify st by (auto simp del: set_map intro!: exI [of _ "map fst diffed"] exI [of _ ?a2])
qed

subsection \<open>Single files\<close>

text \<open>
  The update of a file compares its digest with what the mapper has under a namespace named by the digest:
  unless that happens to be the digest, the applications are notified even when nothing has
  changed, and the mapper has a namespace named by the digest afterwards.
\<close>

theorem file_update_always_notifies:
  assumes "fm_digest (ag_fm a) digest name \<noteq> digest"
    and "runFileUpdated E ns name digest a = (r, a')"
  shows "\<exists>a1. ag_syncer a1 = ag_syncer a \<and> NotifyUpdate E ns [name] a1 = (r, a')
    \<and> fm_digest (ag_fm a') ns name = digest \<and> map_of (ag_fm a') digest \<noteq> None"
proof -
  let ?fm = "FM_Update ns [(name, digest)] (EnsureNamespace digest (ag_fm a))"
  have run: "NotifyUpdate E ns [name] (a\<lparr>ag_fm := ?fm\<rparr>) = (r, a')"
    using assms by (simp add: runFileUpdated_def notify_file_def on_fm_def FM_Get_def Let_def fm_digest_def
        andthen_run upd_fm_def change_def)
  have "map_of ?fm digest \<noteq> None" by (auto simp: FM_Update_def EnsureNamespace_def Let_def)
  with run NotifyUpdate_parts(2) [OF run] show ?thesis
    by (intro exI [of _ "a\<lparr>ag_fm := ?fm\<rparr>"]) (simp add: FM_Update_digest)
qed

text \<open>
  \<open>Diff\<close> tells apart the reported files that the agent has with another digest, with
  the agent's digest, and those it does not have.
\<close>

theorem file_mapper_diff:
  assumes "distinct (map fst target)" and "FM_Diff ns target m = ((diffed, missed), m')"
  shows "(map_of diffed k = Some cv \<longleftrightarrow> (\<exists>v. map_of target k = Some v \<and> map_of (fm_files m ns) k = Some cv \<and> cv \<noteq> v))
    \<and> (map_of missed k \<noteq> None \<longleftrightarrow> map_of target k \<noteq> None \<and> map_of (fm_files m ns) k = None)"
proof -
  have d: "diff_files (fm_files m ns) target ([], []) = (diffed, missed)"
    using assms(2) by (simp add: FM_Diff_def Let_def)
  from diff_files_spec [OF assms(1), of "fm_files m ns" "[]" "[]" k] show ?thesis
    unfolding d by (auto split: option.splits if_splits)
qed

subsection \<open>Witnesses\<close>

definition pack_env :: agent_env where
  "pack_env = demo_agent_env\<lparr>ae_untar := (\<lambda>b. ([(''dir'', False, []), (''b.txt'', True, b)], None))\<rparr>"

text \<open>The agent after a package has been downloaded; it already knows \<open>a.txt\<close>.\<close>

definition pack_agent :: agent where
  "pack_agent = (snd (put_file pack_env (\<lambda>tmp. StorePackage kv_driver tmp FdbSite ''ns'' (Some (string_reader ''two''))) demo_agent))
     \<lparr>ag_fm := [(''ns'', [(''a.txt'', ''digest of one'')])]\<rparr>"

lemma plain_tmp: "plain (''t'' @ nat_str n)"
proof -
  have "CHR ''/'' \<notin> set (nat_str n)" by (rule nat_str_no_char) (simp add: is_digit_def)
  moreover have "''t'' @ nat_str n \<noteq> ''.''" "''t'' @ nat_str n \<noteq> ''..''" by simp_all
  ultimately show ?thesis by (simp add: plain_def)
qed

theorem package_update_effect_witness:
  "\<exists>a' files a2. runPackageUpdated pack_env ''ns'' ''d'' pack_agent = (Ok (), a')
    \<and> fm_digest (ag_fm a') ''ns'' ''b.txt'' = ''digest of two'' \<and> set files = {''b.txt''}
    \<and> NotifyUpdate pack_env ''ns'' files a2 = (Ok (), a')"
proof -
  let ?r = "runPackageUpdated pack_env ''ns'' ''d'' pack_agent"
  let ?u = "untar_files pack_env ''ns'' (fst (ae_untar pack_env ''two'')) [] pack_agent"
  let ?v = "on_files (VisitPackage (ae_files pack_env) FdbSite ''ns'') pack_agent"
  have run: "?r = (fst ?r, snd ?r)" by simp
  have "fst ?v = Ok (''digest of two'', ''two'')" by code_simp
  moreover have "snd ?v = pack_agent"
    by (simp add: on_files_def VisitPackage_def VisitRawFile_def andthen_def attempt_def ret_def fail_def pack_env_def
        demo_agent_env_def kv_driver_def split: option.splits node.splits sum.splits)
  ultimately have visit: "?v = (Ok (''digest of two'', ''two''), pack_agent)" by (simp add: prod_eq_iff)
  have "fst ?u = Ok [(''b.txt'', ''digest of two'')]" by code_simp
  then have untar: "?u = (Ok [(''b.txt'', ''digest of two'')], snd ?u)" by (simp add: prod_eq_iff)
  have archive: "ae_untar pack_env ''two'' = (fst (ae_untar pack_env ''two''), None)"
    by (simp add: pack_env_def)
  have files: "regular_files (fst (ae_untar pack_env ''two'')) = [(''b.txt'', ''two'')]"
    by (simp add: pack_env_def regular_files_def)
  have store: "file_store (ae_files pack_env) (\<lambda>_. True) (\<lambda>_ _. True) kv_digest kv_holds"
    using kv_store by (simp add: pack_env_def demo_agent_env_def)
  have tmp: "\<forall>n. plain (ae_tmp pack_env n)" using plain_tmp by (simp add: pack_env_def demo_agent_env_def)
  have ok: "\<forall>(name, data)\<in>set (regular_files (fst (ae_untar pack_env ''two''))). file_ok ''ns'' name"
    unfolding files by (simp add: file_ok_def config_id_ok_def FdbSite_def FdbVersion_def base_name_def plain_def
        plain_rel_def utf8_def)
  have dist: "distinct (map (base_name \<circ> fst) (regular_files (fst (ae_untar pack_env ''two''))))"
    unfolding files by (simp add: base_name_def)
  have changed: "set (changed_files kv_digest ''ns'' [(''b.txt'', ''two'')] (ag_fm pack_agent)) = {''b.txt''}"
    by code_simp
  note eff = package_update_effect [OF store tmp visit archive ok dist untar run, unfolded files changed]
  have "fm_digest (ag_fm (snd ?r)) ''ns'' ''b.txt'' = kv_digest ''two''"
    using eff [THEN conjunct1] by (elim ballE [where x = "(''b.txt'', ''two'')"]) simp_all
  then have "fm_digest (ag_fm (snd ?r)) ''ns'' ''b.txt'' = ''digest of two''" by (simp add: kv_digest_def)
  moreover obtain fs a2 where n: "set fs = {''b.txt''}" "NotifyUpdate pack_env ''ns'' fs a2 = (fst ?r, snd ?r)"
    using eff [THEN conjunct2] by (elim exE conjE)
  moreover have "fst ?r = Ok ()" using NotifyUpdate_all [OF n(2)] by (rule conjunct1)
  ultimately show ?thesis by (intro exI conjI) (simp_all add: prod_eq_iff)
qed

theorem file_update_always_notifies_witness:
  "\<exists>a' a1. runFileUpdated demo_agent_env ''ns'' ''a.txt'' ''digest of one'' pack_agent = (Ok (), a')
    \<and> fm_digest (ag_fm pack_agent) ''ns'' ''a.txt'' = ''digest of one''
    \<and> NotifyUpdate demo_agent_env ''ns'' [''a.txt''] a1 = (Ok (), a')"
proof -
  let ?r = "runFileUpdated demo_agent_env ''ns'' ''a.txt'' ''digest of one'' pack_agent"
  have "fst ?r = Ok ()" by code_simp
  then have run: "?r = (Ok (), snd ?r)" by (simp add: prod_eq_iff)
  have "fm_digest (ag_fm pack_agent) ''digest of one'' ''a.txt'' \<noteq> ''digest of one''"
    "fm_digest (ag_fm pack_agent) ''ns'' ''a.txt'' = ''digest of one''"
    by (simp_all add: pack_agent_def fm_digest_def fm_files_def map_get_def)
  with file_update_always_notifies [OF this(1) run] run show ?thesis by blast
qed

theorem file_mapper_diff_witness:
  "map_of (fst (fst (FM_Diff ''ns'' [(''a.txt'', ''old''), (''c.txt'', ''x'')] (ag_fm pack_agent)))) ''a.txt''
     = Some ''digest of one''"
proof -
  let ?d = "FM_Diff ''ns'' [(''a.txt'', ''old''), (''c.txt'', ''x'')] (ag_fm pack_agent)"
  have "?d = ((fst (fst ?d), snd (fst ?d)), snd ?d)" by simp
  from file_mapper_diff [OF _ this, of "''a.txt''" "''digest of one''"] show ?thesis
    by (simp add: pack_agent_def fm_files_def)
qed

end
