(* ===== verification/Agent_Downloads.thy ===== *)
theory Agent_Downloads
  imports Agent_Files
begin

section \<open>Downloads (pkg/agent/vm)\<close>

text \<open>
  \<open>VersionManager\<close> keeps a queue of downloads, merges a task with one of the same key that is still in
  the queue, takes the tasks in order, and tries those that failed again, at most \<open>MaxFailedThreshold\<close>
  times. The answer of the provider is a parameter; that \<open>http.NewRequest\<close> refuses a URL counts as a
  failed request.
\<close>

definition DownloadPackageCallback :: string where "DownloadPackageCallback = ''package''"
definition DownloadFileCallback :: string where "DownloadFileCallback = ''file''"
definition MaxFailedThreshold :: int where "MaxFailedThreshold = 10"
definition ErrDigestNotMatch :: goerr where "ErrDigestNotMatch = Errorf ''Digest not match''"
definition PackageURLPrefix :: string where "PackageURLPrefix = ''/content/package/''"
definition FileURLPrefix :: string where "FileURLPrefix = ''/content/file/''"

text \<open>\<open>url.QueryEscape\<close>\<close>

definition hex_digit :: "nat \<Rightarrow> char" where
  "hex_digit n = (if n < 10 then char_of (48 + n) else char_of (55 + n))"

definition query_escape :: "string \<Rightarrow> string" where
  "query_escape s = concat (map (\<lambda>c.
     let n = of_char c :: nat
     in if is_digit c \<or> 65 \<le> n \<and> n \<le> 90 \<or> 97 \<le> n \<and> n \<le> 122 \<or> c \<in> set ''-_.~'' then [c]
        else if c = CHR '' '' then ''+''
        else [CHR ''%'', hex_digit (n div 16), hex_digit (n mod 16)]) s)"

definition task_key :: "string list \<Rightarrow> string" where
  "task_key args = join_with ''/'' args"

subsection \<open>The queue\<close>

definition enqueue :: "string \<Rightarrow> DownloadTask \<Rightarrow> VersionManager \<Rightarrow> VersionManager" where
  "enqueue key task vm =
     (if key \<in> set (vm_downloadMap vm) then vm
      else vm\<lparr>vm_downloadMap := set_add key (vm_downloadMap vm), vm_downloadQueue := vm_downloadQueue vm @ [task]\<rparr>)"

definition AddDownloadPackageTask :: "agent_env \<Rightarrow> string \<Rightarrow> string \<Rightarrow> VersionManager \<Rightarrow> VersionManager" where
  "AddDownloadPackageTask E namespace digest =
     enqueue (task_key [namespace, digest])
       \<lparr>dt_Callback = DownloadPackageCallback,
        dt_URL = PackageURLPrefix @ ae_ID E @ ''/'' @ namespace @ ''?digest='' @ query_escape digest,
        dt_Failed = 0, dt_Args = [namespace]\<rparr>"

definition AddDownloadFileTask :: "agent_env \<Rightarrow> string \<Rightarrow> string \<Rightarrow> string \<Rightarrow> VersionManager \<Rightarrow> VersionManager" where
  "AddDownloadFileTask E namespace filename version =
     enqueue (task_key [namespace, filename, version])
       \<lparr>dt_Callback = DownloadFileCallback,
        dt_URL = FileURLPrefix @ ae_ID E @ ''/'' @ namespace @ ''?version='' @ version @ ''&name='' @ query_escape filename,
        dt_Failed = 0, dt_Args = [namespace, filename, version]\<rparr>"

text \<open>The queue is not empty when its only consumer takes a task.\<close>

definition popDownloadTask :: "VersionManager \<Rightarrow> DownloadTask option \<times> VersionManager" where
  "popDownloadTask vm = (case vm_downloadQueue vm of
     [] \<Rightarrow> (None, vm)
   | task # q \<Rightarrow> (Some task, vm\<lparr>vm_downloadQueue := q,
        vm_downloadMap := filter (\<lambda>k. k \<noteq> task_key (dt_Args task)) (vm_downloadMap vm)\<rparr>))"

definition on_vm :: "(VersionManager \<Rightarrow> VersionManager) \<Rightarrow> (agent, unit) proc" where
  "on_vm f = change (\<lambda>a. a\<lparr>ag_vm := f (ag_vm a)\<rparr>)"

subsection \<open>One download\<close>

definition download_package :: "agent_env \<Rightarrow> DownloadTask \<Rightarrow> http_resp \<Rightarrow> (agent, unit) proc" where
  "download_package E task resp =
     (if hr_StatusCode resp \<noteq> 200 then fail (Errorf (''Download request failed code: '' @ itoa (hr_StatusCode resp)))
      else case dt_Args task of
        [] \<Rightarrow> fail (Errorf ''Empty Callback Args'')
      | namespace # _ \<Rightarrow>
          andthen (put_file E (\<lambda>tmp. StorePackage (ae_files E) tmp FdbSite namespace (Some (hr_Body resp)))) (\<lambda>storedDigest.
          if hr_digest resp \<noteq> storedDigest then fail ErrDigestNotMatch
          else PackageUpdated namespace (hr_digest resp)))"

definition not_found_ext :: "string gomap option" where
  "not_found_ext = Some [(''_status'', ''404'')]"

definition download_file :: "agent_env \<Rightarrow> DownloadTask \<Rightarrow> http_resp \<Rightarrow> (agent, unit) proc" where
  "download_file E task resp =
     (case dt_Args task of
        namespace # filename # _ \<Rightarrow>
          if hr_StatusCode resp = 404
          then attempt (put_file E (\<lambda>tmp. StoreConfig (ae_files E) tmp FdbSite namespace filename FdbVersion
                          not_found_ext (Some (hr_Body resp))))
                 (\<lambda>err. fail (Wrap ''storage not found flag failed: '' err)) (\<lambda>_. ret ())
          else if hr_StatusCode resp \<noteq> 200 then fail (Errorf ''download code not correct'')
          else (case ae_map_json E (hr_extend resp) of
              Inl err \<Rightarrow> fail (Wrap ''unmarshal extend data failed: '' err)
            | Inr ext \<Rightarrow>
                attempt (put_file E (\<lambda>tmp. StoreConfig (ae_files E) tmp FdbSite namespace filename FdbVersion
                           (Some ext) (Some (hr_Body resp))))
                  (\<lambda>err. fail (Wrap ''storage config data failed: '' err)) (\<lambda>storedDigest.
                case map_of ext ''digest'' of
                  None \<Rightarrow> fail ErrDigestNotMatch
                | Some digest \<Rightarrow> if digest \<noteq> storedDigest then fail ErrDigestNotMatch
                                 else FileUpdated namespace filename digest))
      | _ \<Rightarrow> fail (Errorf ''Missed Callback Args''))"

definition doDownload :: "agent_env \<Rightarrow> DownloadTask \<Rightarrow> (agent, unit) proc" where
  "doDownload E task =
     attempt (http_get E (ae_ProviderAddress E @ dt_URL task)) (\<lambda>err. fail (Wrap ''do request failed: '' err)) (\<lambda>resp.
     if dt_Callback task = DownloadPackageCallback then download_package E task resp
     else if dt_Callback task = DownloadFileCallback then download_file E task resp
     else ret ())"

subsection \<open>The two loops\<close>

text \<open>A turn of the consumer of the queue.\<close>

definition download_turn :: "agent_env \<Rightarrow> (agent, unit) proc" where
  "download_turn E =
     andthen (get_state (\<lambda>a. popDownloadTask (ag_vm a))) (\<lambda>(t, vm).
     case t of None \<Rightarrow> ret ()
     | Some task \<Rightarrow>
         andthen (on_vm (\<lambda>_. vm)) (\<lambda>_.
         attempt (doDownload E task)
           (\<lambda>_. on_vm (\<lambda>v. v\<lparr>vm_failureQueue := vm_failureQueue v @ [task\<lparr>dt_Failed := dt_Failed task + 1\<rparr>]\<rparr>))
           ret))"

text \<open>A round over the failed tasks: those to try again; a key is tried once.\<close>

fun retry_tasks :: "agent_env \<Rightarrow> string list \<Rightarrow> DownloadTask list \<Rightarrow> (agent, DownloadTask list) proc" where
  "retry_tasks E done_keys [] = ret []"
| "retry_tasks E done_keys (t # ts) =
     (let key = task_key (dt_Args t)
      in if key \<in> set done_keys then retry_tasks E done_keys ts
         else attempt (doDownload E t)
           (\<lambda>_. let t' = t\<lparr>dt_Failed := dt_Failed t + 1\<rparr>
                in andthen (retry_tasks E (key # done_keys) ts) (\<lambda>failed.
                   ret (if dt_Failed t' > MaxFailedThreshold then failed else t' # failed)))
           (\<lambda>_. retry_tasks E (key # done_keys) ts))"

definition retry_turn :: "agent_env \<Rightarrow> (agent, unit) proc" where
  "retry_turn E =
     andthen (get_state (\<lambda>a. vm_failureQueue (ag_vm a))) (\<lambda>tasks.
     if tasks = [] then ret ()
     else andthen (on_vm (\<lambda>v. v\<lparr>vm_failureQueue := []\<rparr>)) (\<lambda>_.
          andthen (retry_tasks E [] tasks) (\<lambda>failed.
          on_vm (\<lambda>v. v\<lparr>vm_failureQueue := vm_failureQueue v @ failed\<rparr>))))"

subsection \<open>Lemmas\<close>

lemma task_key_inject:
  assumes "\<forall>x\<in>set xs. CHR ''/'' \<notin> set x" "\<forall>y\<in>set ys. CHR ''/'' \<notin> set y" "xs \<noteq> []" "ys \<noteq> []"
  shows "task_key xs = task_key ys \<longleftrightarrow> xs = ys"
  using split_join [OF assms(3,1)] split_join [OF assms(4,2)] unfolding task_key_def by metis

text \<open>What a download does to the queues of the downloads: nothing.\<close>

lemma put_file_vm: "put_file E f a = (r, a') \<Longrightarrow> ag_vm a' = ag_vm a"
  using same_but_files_simps(3) [OF put_file_same] .

lemma doDownload_vm: "doDownload E t a = (r, a') \<Longrightarrow> ag_vm a' = ag_vm a"
  by (auto simp: doDownload_def download_package_def download_file_def http_get_def andthen_def attempt_def fail_def
      ret_def PackageUpdated_def FileUpdated_def on_hub_def change_def
      dest!: put_file_vm split: prod.splits outcome.splits if_splits sum.splits list.splits option.splits)

text \<open>The tasks to try again have failed at most ten times.\<close>

definition failures_ok :: "DownloadTask list \<Rightarrow> bool" where
  "failures_ok ts \<longleftrightarrow> (\<forall>t\<in>set ts. 1 \<le> dt_Failed t \<and> dt_Failed t \<le> MaxFailedThreshold)"

definition vm_ok :: "VersionManager \<Rightarrow> bool" where
  "vm_ok vm \<longleftrightarrow> (\<forall>t\<in>set (vm_downloadQueue vm). dt_Failed t = 0) \<and> failures_ok (vm_failureQueue vm)"

lemma retry_tasks_ok:
  assumes "retry_tasks E ks ts a = (Ok failed, a')" and "failures_ok ts"
  shows "failures_ok failed \<and> ag_vm a' = ag_vm a"
  using assms
proof (induction ts arbitrary: ks failed a)
  case (Cons t ts)
  let ?k = "task_key (dt_Args t)"
  have ts: "failures_ok ts" and t: "1 \<le> dt_Failed t" using Cons.prems(2) by (auto simp: failures_ok_def)
  show ?case
  proof (cases "?k \<in> set ks")
    case True
    with Cons.IH [where ks = ks and failed = failed and a = a] Cons.prems(1) ts show ?thesis by simp
  next
    case False
    obtain q a1 where d: "doDownload E t a = (q, a1)" by fastforce
    note vm = doDownload_vm [OF d]
    show ?thesis
    proof (cases q)
      case (Ok u)
      with Cons.IH [where ks = "?k # ks" and failed = failed and a = a1] Cons.prems(1) ts d vm False show ?thesis
        by (simp add: attempt_run Let_def)
    next
      case (Err e)
      with Cons.prems(1) d False obtain rest where rest: "retry_tasks E (?k # ks) ts a1 = (Ok rest, a')"
        and failed: "failed = (if dt_Failed t + 1 > MaxFailedThreshold then rest else t\<lparr>dt_Failed := dt_Failed t + 1\<rparr> # rest)"
        by (auto simp: attempt_run Let_def andthen_Ok_iff ret_def)
      with Cons.IH [OF rest ts] vm t show ?thesis by (auto simp: failures_ok_def)
    next
      case Panic
      with Cons.prems(1) d False show ?thesis by (simp add: attempt_run Let_def)
    qed
  qed
qed (simp add: ret_def)

lemma enqueue_ok: "vm_ok vm \<Longrightarrow> dt_Failed t = 0 \<Longrightarrow> vm_ok (enqueue k t vm)"
  by (auto simp: vm_ok_def enqueue_def)

lemma pop_ok: "popDownloadTask vm = (t, vm') \<Longrightarrow> vm_ok vm \<Longrightarrow> vm_ok vm' \<and> (\<forall>x. t = Some x \<longrightarrow> dt_Failed x = 0)"
  by (auto simp: popDownloadTask_def vm_ok_def split: list.splits)

subsection \<open>Retries are bounded\<close>

text \<open>The steps of the manager; a round of retries is one step.\<close>

inductive vm_step :: "agent_env \<Rightarrow> agent \<Rightarrow> agent \<Rightarrow> bool" for E where
  add_package: "vm_step E a (a\<lparr>ag_vm := AddDownloadPackageTask E ns d (ag_vm a)\<rparr>)"
| add_file: "vm_step E a (a\<lparr>ag_vm := AddDownloadFileTask E ns f v (ag_vm a)\<rparr>)"
| download: "download_turn E a = (Ok u, a') \<Longrightarrow> vm_step E a a'"
| retry: "retry_turn E a = (Ok u, a') \<Longrightarrow> vm_step E a a'"

inductive vm_reachable :: "agent_env \<Rightarrow> agent \<Rightarrow> bool" for E where
  start: "ag_vm a = \<lparr>vm_downloadQueue = [], vm_downloadMap = [], vm_failureQueue = []\<rparr> \<Longrightarrow> vm_reachable E a"
| step: "vm_reachable E a \<Longrightarrow> vm_step E a a' \<Longrightarrow> vm_reachable E a'"

lemma download_turn_ok:
  assumes "download_turn E a = (Ok u, a')" and "vm_ok (ag_vm a)"
  shows "vm_ok (ag_vm a')"
proof -
  obtain t vm where pop: "popDownloadTask (ag_vm a) = (t, vm)" by fastforce
  note ok = pop_ok [OF pop assms(2)]
  show ?thesis
  proof (cases t)
    case None
    with assms pop show ?thesis by (simp add: download_turn_def andthen_def attempt_def get_state_def ret_def)
  next
    case (Some task)
    obtain q a1 where d: "doDownload E task (a\<lparr>ag_vm := vm\<rparr>) = (q, a1)" by fastforce
    have vm: "ag_vm a1 = vm" using doDownload_vm [OF d] by simp
    with assms(1) pop Some d ok show ?thesis
      by (cases q) (auto simp: download_turn_def andthen_def attempt_def get_state_def ret_def on_vm_def change_def
          vm_ok_def failures_ok_def MaxFailedThreshold_def)
  qed
qed

lemma retry_turn_ok:
  assumes "retry_turn E a = (Ok u, a')" and "vm_ok (ag_vm a)"
  shows "vm_ok (ag_vm a')"
proof (cases "vm_failureQueue (ag_vm a) = []")
  case True
  with assms show ?thesis by (simp add: retry_turn_def andthen_def attempt_def get_state_def ret_def)
next
  case False
  let ?a = "a\<lparr>ag_vm := (ag_vm a)\<lparr>vm_failureQueue := []\<rparr>\<rparr>"
  have "retry_turn E a = andthen (retry_tasks E [] (vm_failureQueue (ag_vm a)))
      (\<lambda>failed. on_vm (\<lambda>v. v\<lparr>vm_failureQueue := vm_failureQueue v @ failed\<rparr>)) ?a"
    using False by (simp add: retry_turn_def andthen_Ok [OF get_state_run] on_vm_def andthen_Ok [OF change_run])
  with assms(1) obtain failed a1 where r: "retry_tasks E [] (vm_failureQueue (ag_vm a)) ?a = (Ok failed, a1)"
    and "on_vm (\<lambda>v. v\<lparr>vm_failureQueue := vm_failureQueue v @ failed\<rparr>) a1 = (Ok u, a')"
    by (simp only: andthen_Ok_iff) blast
  then have a': "a' = a1\<lparr>ag_vm := (ag_vm a1)\<lparr>vm_failureQueue := vm_failureQueue (ag_vm a1) @ failed\<rparr>\<rparr>"
    by (simp add: on_vm_def change_def)
  have "failures_ok (vm_failureQueue (ag_vm a))" using assms(2) by (simp add: vm_ok_def)
  from retry_tasks_ok [OF r this] have f: "failures_ok failed" "ag_vm a1 = (ag_vm a)\<lparr>vm_failureQueue := []\<rparr>"
    by simp_all
  have "vm_failureQueue (ag_vm a') = failed" "vm_downloadQueue (ag_vm a') = vm_downloadQueue (ag_vm a)"
    unfolding a' by (simp_all add: f(2))
  with f(1) assms(2) show ?thesis by (simp add: vm_ok_def)
qed

lemma vm_reachable_ok: "vm_reachable E a \<Longrightarrow> vm_ok (ag_vm a)"
proof (induction rule: vm_reachable.induct)
  case (step a a')
  from step(2,3) show ?case
  proof induction
    case (download a u a')
    then show ?case by (rule download_turn_ok)
  next
    case (retry a u a')
    then show ?case by (rule retry_turn_ok)
  qed (auto simp: AddDownloadPackageTask_def AddDownloadFileTask_def intro: enqueue_ok)
qed (simp add: vm_ok_def failures_ok_def)

text \<open>
  In every reachable state a download that waits to be tried again has failed between one and
  ten times, and one in the queue has not failed.
\<close>

theorem download_retries_bounded:
  assumes "vm_reachable E a"
  shows "(\<forall>t\<in>set (vm_failureQueue (ag_vm a)). 1 \<le> dt_Failed t \<and> dt_Failed t \<le> 10)
    \<and> (\<forall>t\<in>set (vm_downloadQueue (ag_vm a)). dt_Failed t = 0)"
  using vm_reachable_ok [OF assms] by (simp add: vm_ok_def failures_ok_def MaxFailedThreshold_def)

subsection \<open>A package is downloaded once\<close>

datatype vm_op = Add_package string string | Add_file string string string | Pop

fun run_vm_op :: "agent_env \<Rightarrow> vm_op \<Rightarrow> VersionManager \<Rightarrow> VersionManager" where
  "run_vm_op E (Add_package ns d) vm = AddDownloadPackageTask E ns d vm"
| "run_vm_op E (Add_file ns f v) vm = AddDownloadFileTask E ns f v vm"
| "run_vm_op E Pop vm = snd (popDownloadTask vm)"

definition slash_free :: "string \<Rightarrow> bool" where
  "slash_free s \<longleftrightarrow> CHR ''/'' \<notin> set s"

fun op_slash_free :: "vm_op \<Rightarrow> bool" where
  "op_slash_free (Add_package ns d) = slash_free ns"
| "op_slash_free _ = True"

lemma task_key_parts: "args \<noteq> [] \<Longrightarrow> split_on CHR ''/'' (task_key args) = concat (map (split_on CHR ''/'') args)"
  by (simp add: task_key_def split_on_join_concat)

text \<open>No task of the queue has a key of two parts.\<close>

definition queue_ok :: "VersionManager \<Rightarrow> bool" where
  "queue_ok vm \<longleftrightarrow> (\<forall>t\<in>set (vm_downloadQueue vm). length (split_on CHR ''/'' (task_key (dt_Args t))) \<noteq> 2)"

lemma split_length: "1 \<le> length (split_on c s)"
  by (cases "split_on c s") simp_all

lemma queue_ok_op:
  assumes "queue_ok vm" "op_slash_free op"
  shows "queue_ok (run_vm_op E op vm)"
proof (cases op)
  case (Add_package ns d)
  with assms have "split_on CHR ''/'' (task_key [ns]) = [ns]"
    by (simp add: task_key_parts slash_free_def split_on_absent)
  with Add_package assms show ?thesis
    by (auto simp: queue_ok_def AddDownloadPackageTask_def enqueue_def)
next
  case (Add_file ns f v)
  have "3 \<le> length (split_on CHR ''/'' (task_key [ns, f, v]))"
    using split_length [of "CHR ''/''" ns] split_length [of "CHR ''/''" f] split_length [of "CHR ''/''" v]
    by (simp add: task_key_parts)
  with Add_file assms show ?thesis
    by (auto simp: queue_ok_def AddDownloadFileTask_def enqueue_def)
next
  case Pop
  with assms show ?thesis by (auto simp: queue_ok_def popDownloadTask_def split: list.splits)
qed

lemma key_stays:
  assumes "queue_ok vm" "key \<in> set (vm_downloadMap vm)" "length (split_on CHR ''/'' key) = 2"
  shows "key \<in> set (vm_downloadMap (run_vm_op E op vm))"
  using assms
  by (cases op) (auto simp: AddDownloadPackageTask_def AddDownloadFileTask_def enqueue_def popDownloadTask_def
      queue_ok_def split: list.splits)

lemma run_ops_keep:
  assumes "queue_ok vm" "\<forall>op\<in>set ops. op_slash_free op"
  shows "queue_ok (fold (run_vm_op E) ops vm)"
    "key \<in> set (vm_downloadMap vm) \<Longrightarrow> length (split_on CHR ''/'' key) = 2 \<Longrightarrow>
      key \<in> set (vm_downloadMap (fold (run_vm_op E) ops vm))"
  using assms by (induction ops arbitrary: vm) (auto intro: queue_ok_op key_stays)

text \<open>
  Once a package of a digest was put into the queue, a request to download it is
  dropped as a duplicate for as long as the agent runs, also after the task was taken from the queue
  and has failed for good: its key is never taken out of the map.
\<close>

theorem package_downloaded_once:
  assumes "slash_free ns" "slash_free d" "\<forall>op\<in>set ops. op_slash_free op"
    and "vm = fold (run_vm_op E) (ops1 @ Add_package ns d # ops2)
      \<lparr>vm_downloadQueue = [], vm_downloadMap = [], vm_failureQueue = []\<rparr>"
    and "ops = ops1 @ ops2"
  shows "AddDownloadPackageTask E ns d vm = vm"
proof -
  let ?vm0 = "\<lparr>vm_downloadQueue = [], vm_downloadMap = [], vm_failureQueue = []\<rparr> :: VersionManager"
  let ?vm1 = "fold (run_vm_op E) ops1 ?vm0" and ?key = "task_key [ns, d]"
  have q1: "queue_ok ?vm1" by (rule run_ops_keep) (use assms(3,5) in \<open>auto simp: queue_ok_def\<close>)
  have q2: "queue_ok (AddDownloadPackageTask E ns d ?vm1)"
    using queue_ok_op [OF q1, of "Add_package ns d"] assms(1) by simp
  have "?key \<in> set (vm_downloadMap (AddDownloadPackageTask E ns d ?vm1))"
    by (auto simp: AddDownloadPackageTask_def enqueue_def)
  moreover have "length (split_on CHR ''/'' ?key) = 2"
    using assms(1,2) by (simp add: task_key_parts slash_free_def split_on_absent)
  ultimately have "?key \<in> set (vm_downloadMap vm)"
    using run_ops_keep(2) [OF q2, of ops2] assms(3,4,5) by simp
  then show ?thesis by (simp add: AddDownloadPackageTask_def enqueue_def)
qed

subsection \<open>What a download of a file does\<close>

lemma file_effect:
  assumes "file_store (ae_files E) (\<lambda>_. True) (\<lambda>_ _. True) digest holds" and "\<forall>n. plain (ae_tmp E n)"
    and "file_ok ns f" and "dt_Callback t = DownloadFileCallback" and "dt_Args t = [ns, f, v]"
    and "http_get E (ae_ProviderAddress E @ dt_URL t) a = (Ok resp, a1)" and "hr_StatusCode resp = 200"
    and "hr_Body resp = (cs, None)" and "ae_map_json E (hr_extend resp) = Inr ext" and "ext_ok (Some ext)"
    and "map_get ext ''deleted'' \<noteq> ''true''"
    and "put_file E (\<lambda>tmp. StoreConfig (ae_files E) tmp FdbSite ns f FdbVersion (Some ext) (Some (cs, None))) a1 = (Ok d, a2)"
    and "doDownload E t a = (r, a')"
  shows "VisitConfig (ae_files E) FdbSite ns f FdbVersion (ag_fs a')
      = (Ok (map_set ''digest'' (digest (concat cs)) ext, concat cs), ag_fs a')
    \<and> (if map_of ext ''digest'' = Some (digest (concat cs))
       then r = Ok () \<and> hub_files (ag_hub a') = hub_files (ag_hub a) @ [(ns, f, digest (concat cs))]
       else r = Err ErrDigestNotMatch \<and> ag_hub a' = ag_hub a)"
proof -
  note st = file_store.store_file [OF assms(1) assms(12) assms(2,3) TrueI]
  have h: "holds (agent_path ns f) (Some ext) (concat cs) (ag_fs a2)" "d = digest (concat cs)"
    using st(3) [OF refl _ TrueI] assms(11) by (simp_all add: ext_get_def)
  have hub: "ag_hub a2 = ag_hub a" using same_but_files_simps(4) [OF st(2)] assms(6) by (auto simp: http_get_def)
  have "VisitConfig (ae_files E) FdbSite ns f FdbVersion (ag_fs a2)
      = (Ok (map_set ''digest'' (digest (concat cs)) ext, concat cs), ag_fs a2)"
    using file_store.get_holds [OF assms(1) h(1) file_ok_props(2) [OF assms(3)] assms(10)] file_ok_props(1) [OF assms(3)]
    by (simp add: VisitConfig_def VisitRawFile_def with_name_base agent_path_def ext_map_def)
  then show ?thesis
    using assms(13) assms(4-9,12) h(2) hub
    by (auto simp: doDownload_def download_file_def attempt_run FileUpdated_def on_hub_def change_def fail_def
        DownloadFileCallback_def DownloadPackageCallback_def split: option.splits if_splits)
qed

text \<open>
  C14: a download whose content was stored replaces the file, whatever its digest; it succeeds
  and announces the file to the update hub exactly when the digest of the answer is the one of the
  stored content. Otherwise the new content stays, with an error.
\<close>

theorem download_file_effect:
  assumes "file_store (ae_files E) (\<lambda>_. True) (\<lambda>_ _. True) digest holds" and "\<forall>n. plain (ae_tmp E n)"
    and "file_ok ns f" and "dt_Callback t = DownloadFileCallback" and "dt_Args t = [ns, f, v]"
    and "http_get E (ae_ProviderAddress E @ dt_URL t) a = (Ok resp, a1)" and "hr_StatusCode resp = 200"
    and "hr_Body resp = (cs, None)" and "ae_map_json E (hr_extend resp) = Inr ext" and "ext_ok (Some ext)"
    and "map_get ext ''deleted'' \<noteq> ''true''"
    and "put_file E (\<lambda>tmp. StoreConfig (ae_files E) tmp FdbSite ns f FdbVersion (Some ext) (Some (cs, None))) a1 = (Ok d, a2)"
    and "doDownload E t a = (r, a')"
  shows "VisitConfig (ae_files E) FdbSite ns f FdbVersion (ag_fs a')
      = (Ok (map_set ''digest'' (digest (concat cs)) ext, concat cs), ag_fs a')
    \<and> (if map_of ext ''digest'' = Some (digest (concat cs))
       then r = Ok () \<and> hub_files (ag_hub a') = hub_files (ag_hub a) @ [(ns, f, digest (concat cs))]
       else r = Err ErrDigestNotMatch \<and> ag_hub a' = ag_hub a)"
  by (rule file_effect [OF assms])

subsection \<open>Witnesses\<close>

definition download_env :: agent_env where
  "download_env = demo_agent_env\<lparr>
     ae_get := (\<lambda>u sent. Inr \<lparr>hr_StatusCode = 200, hr_digest = [], hr_extend = ''{}'', hr_Body = string_reader ''new''\<rparr>),
     ae_map_json := (\<lambda>s. Inr [(''digest'', ''digest of old'')])\<rparr>"

definition file_task :: DownloadTask where
  "file_task = \<lparr>dt_Callback = DownloadFileCallback, dt_URL = ''/content/file/s1/ns?version=1&name=a.txt'',
     dt_Failed = 0, dt_Args = [''ns'', ''a.txt'', ''1'']\<rparr>"

text \<open>A content with another digest than the one announced.\<close>

theorem download_file_effect_witness:
  "\<exists>a'. doDownload download_env file_task demo_agent = (Err ErrDigestNotMatch, a')
    \<and> fst (VisitConfig kv_driver FdbSite ''ns'' ''a.txt'' FdbVersion (ag_fs a')) = Ok ([(''digest'', ''digest of new'')], ''new'')"
proof -
  let ?resp = "\<lparr>hr_StatusCode = 200, hr_digest = [], hr_extend = ''{}'', hr_Body = ([''new''], None)\<rparr>"
  let ?ext = "[(''digest'', ''digest of old'')] :: string gomap"
  let ?a1 = "demo_agent\<lparr>ag_http := ag_http demo_agent @ [ae_ProviderAddress download_env @ dt_URL file_task]\<rparr>"
  let ?p = "put_file download_env (\<lambda>tmp. StoreConfig (ae_files download_env) tmp FdbSite ''ns'' ''a.txt'' FdbVersion
      (Some ?ext) (Some ([''new''], None))) ?a1"
  let ?r = "doDownload download_env file_task demo_agent"
  have store: "file_store (ae_files download_env) (\<lambda>_. True) (\<lambda>_ _. True) kv_digest kv_holds"
    "ae_files download_env = kv_driver"
    using kv_store by (simp_all add: download_env_def demo_agent_env_def)
  have tmp: "\<forall>n. plain (ae_tmp download_env n)" using plain_tmp by (simp add: download_env_def demo_agent_env_def)
  have name: "file_ok ''ns'' ''a.txt''"
    by (simp add: file_ok_def config_id_ok_def FdbSite_def FdbVersion_def base_name_def plain_def plain_rel_def utf8_def)
  have get: "http_get download_env (ae_ProviderAddress download_env @ dt_URL file_task) demo_agent = (Ok ?resp, ?a1)"
    by (simp add: http_get_def download_env_def string_reader_def)
  have json: "ae_map_json download_env (hr_extend ?resp) = Inr ?ext" by (simp add: download_env_def)
  have ext: "ext_ok (Some ?ext)" "map_get ?ext ''deleted'' \<noteq> ''true''"
    by (simp_all add: ext_ok_def map_get_def utf8_def)
  have "fst ?p = Ok (kv_digest ''new'')" by code_simp
  then have put: "?p = (Ok (kv_digest ''new''), snd ?p)" by (simp add: prod_eq_iff)
  have task: "dt_Callback file_task = DownloadFileCallback" "dt_Args file_task = [''ns'', ''a.txt'', ''1'']"
    by (simp_all add: file_task_def)
  have "?r = (fst ?r, snd ?r)" by simp
  from download_file_effect [OF store(1) tmp name task get _ _ json ext put this]
  have "fst ?r = Err ErrDigestNotMatch"
    "fst (VisitConfig kv_driver FdbSite ''ns'' ''a.txt'' FdbVersion (ag_fs (snd ?r))) = Ok ([(''digest'', ''digest of new'')], ''new'')"
    by (simp_all add: store(2) kv_digest_def map_set_def)
  then show ?thesis by (intro exI [of _ "snd ?r"]) (simp add: prod_eq_iff)
qed

theorem download_retries_bounded_witness:
  "\<exists>a t. vm_reachable demo_agent_env a \<and> vm_failureQueue (ag_vm a) = [t] \<and> dt_Failed t \<le> 10"
proof -
  let ?a = "demo_agent\<lparr>ag_vm := AddDownloadFileTask demo_agent_env ''ns'' ''a.txt'' ''1'' (ag_vm demo_agent)\<rparr>"
  let ?r = "download_turn demo_agent_env ?a"
  have "fst ?r = Ok ()" by code_simp
  then have "?r = (Ok (), snd ?r)" by (simp add: prod_eq_iff)
  then have "vm_step demo_agent_env ?a (snd ?r)" by (rule vm_step.download)
  moreover have "vm_reachable demo_agent_env ?a"
    by (rule vm_reachable.step [OF vm_reachable.start vm_step.add_file]) (simp add: demo_agent_def)
  ultimately have reach: "vm_reachable demo_agent_env (snd ?r)" by (rule vm_reachable.step [rotated])
  have "length (vm_failureQueue (ag_vm (snd ?r))) = 1" by code_simp
  then obtain t where "vm_failureQueue (ag_vm (snd ?r)) = [t]" by (auto simp: length_Suc_conv)
  with download_retries_bounded [OF reach] reach show ?thesis by fastforce
qed

theorem package_downloaded_once_witness:
  "AddDownloadPackageTask demo_agent_env ''ns'' ''d''
      (fold (run_vm_op demo_agent_env) [Add_package ''ns'' ''d'', Pop] \<lparr>vm_downloadQueue = [], vm_downloadMap = [], vm_failureQueue = []\<rparr>)
    = \<lparr>vm_downloadQueue = [], vm_downloadMap = [''ns/d''], vm_failureQueue = []\<rparr>"
proof -
  let ?vm = "fold (run_vm_op demo_agent_env) [Add_package ''ns'' ''d'', Pop] \<lparr>vm_downloadQueue = [], vm_downloadMap = [], vm_failureQueue = []\<rparr>"
  have "?vm = \<lparr>vm_downloadQueue = [], vm_downloadMap = [''ns/d''], vm_failureQueue = []\<rparr>"
    by (simp add: AddDownloadPackageTask_def enqueue_def popDownloadTask_def task_key_def set_add_def)
  with package_downloaded_once [of "''ns''" "''d''" "[Pop]" ?vm demo_agent_env "[]" "[Pop]"] show ?thesis
    by (simp add: slash_free_def)
qed

end
