(* ===== verification/Go_Loops.thy ===== *)
theory Go_Loops
  imports Go_Prelude
begin

section \<open>Loops that repeat a call until it succeeds\<close>

text \<open>
  A call is made again until it succeeds; \<open>None\<close> when it never does. The loop returns exactly when one of the
  repetitions does not fail.
\<close>

partial_function (option) until_ok :: "('s, 'a) proc \<Rightarrow> 's \<Rightarrow> ('a outcome \<times> 's) option" where
  "until_ok m s = (case m s of
      (Ok x, s') \<Rightarrow> Some (Ok x, s')
    | (Err e, s') \<Rightarrow> until_ok m s'
    | (Panic, s') \<Rightarrow> Some (Panic, s'))"

definition nth_try :: "('s, 'a) proc \<Rightarrow> nat \<Rightarrow> 's \<Rightarrow> 's" where
  "nth_try m n s = ((\<lambda>s. snd (m s)) ^^ n) s"

lemma nth_try_Suc: "m s = (r, s') \<Longrightarrow> nth_try m (Suc n) s = nth_try m n s'"
  by (simp add: nth_try_def funpow_Suc_right del: funpow.simps)

lemma until_ok_Some:
  "until_ok m s = Some r \<Longrightarrow> \<exists>n. \<forall>e. fst (m (nth_try m n s)) \<noteq> Err e"
proof (induction m s r rule: until_ok.raw_induct [rotated, consumes 1, case_names step])
  case (step f m s r)
  obtain q s' where run: "m s = (q, s')" by fastforce
  show ?case
  proof (cases q)
    case (Err e)
    with step run have "\<exists>n. \<forall>e. fst (m (nth_try m n s')) \<noteq> Err e" by simp
    then obtain n where "\<forall>e. fst (m (nth_try m n s')) \<noteq> Err e" ..
    then show ?thesis unfolding nth_try_Suc [of m, OF run, symmetric] by (rule exI)
  qed (use run in \<open>auto intro!: exI [of _ 0] simp: nth_try_def\<close>)
qed

lemma until_ok_enough:
  "\<forall>e. fst (m (nth_try m n s)) \<noteq> Err e \<Longrightarrow> \<exists>r. until_ok m s = Some r"
proof (induction n arbitrary: s)
  case 0
  then show ?case
    by (subst until_ok.simps) (auto simp: nth_try_def split: prod.splits outcome.splits)
next
  case (Suc n)
  obtain q s' where run: "m s = (q, s')" by fastforce
  from Suc nth_try_Suc [of "m", OF run] have "\<exists>r. until_ok m s' = Some r" by simp
  then show ?case by (subst until_ok.simps) (auto simp: run split: outcome.splits)
qed

lemma until_ok_iff:
  "(\<exists>r. until_ok m s = Some r) \<longleftrightarrow> (\<exists>n. \<forall>e. fst (m (nth_try m n s)) \<noteq> Err e)"
  using until_ok_Some until_ok_enough by meson

end
