(* ===== verification/Agent_Handlers.thy ===== *)
theory Agent_Handlers
  imports Agent_Downloads Config_Handlers Go_Loops
begin

section \<open>The handlers of the agent (pkg/agent/cmdhandler.go, agent.go)\<close>

text \<open>
  Commands come from the manager (\<open>nspackage\<close>, \<open>nsfile\<close>) and from the applications
  (\<open>filerefresh\<close>, \<open>filecontent\<close>); the agent reports to the manager what its applications use, and synchronises
  its files with the manager when it has connected. What a handler starts in the background is
  returned as a list of jobs, and what it leaves to do after the answer was sent as a callback.
\<close>

definition resp_code :: "int \<Rightarrow> cmd_resp" where
  "resp_code c = \<lparr>rs_code = c, rs_msg = [], rs_data = []\<rparr>"

definition CmdHelloWorldHandler :: "agent_env \<Rightarrow> cmd_req \<Rightarrow> cmd_resp" where
  "CmdHelloWorldHandler E req =
     (let name = map_get (rq_args req) ''name''
      in if name = [] then RespError ''i don't know your name''
         else RespSucceed (''hello '' @ name @ '', i am '' @ ae_ID E))"

definition CmdPackageHandler :: "agent_env \<Rightarrow> cmd_req \<Rightarrow> (agent, cmd_resp) proc" where
  "CmdPackageHandler E req =
     andthen (on_vm (AddDownloadPackageTask E (map_get (rq_args req) ''namespace'') (map_get (rq_args req) ''digest'')))
       (\<lambda>_. ret (RespSucceed []))"

definition CmdNSFileHandler :: "agent_env \<Rightarrow> cmd_req \<Rightarrow> (agent, cmd_resp) proc" where
  "CmdNSFileHandler E req =
     (let namespace = map_get (rq_args req) ''namespace''; filename = map_get (rq_args req) ''filename'';
          version = map_get (rq_args req) ''version''
      in if version = [] \<or> filename = [] \<or> namespace = []
         then ret \<lparr>rs_code = 400, rs_msg = ''Invalid Args: ns: '' @ namespace @ '', filename: '' @ filename @ '', version: '' @ version,
                   rs_data = []\<rparr>
         else andthen (on_vm (AddDownloadFileTask E namespace filename version)) (\<lambda>_. ret (RespSucceed [])))"

subsection \<open>Reports and synchronisation\<close>

definition reportUpdatedInfoToRemote :: "agent_env \<Rightarrow> AppDescribe \<Rightarrow> string \<Rightarrow> string gomap \<Rightarrow> (agent, unit) proc" where
  "reportUpdatedInfoToRemote E app ns diffed =
     logged (send_manager E \<lparr>rq_name = ''fileupdated'',
       rq_args = [(''updateinfo'', ae_show_update E \<lparr>up_SiteID = ae_ID E, up_App = ap_AppID app, up_Hostname = ap_Hostname app,
          up_IP = ap_PodIP app, up_Namespace = ns, up_Filenames = diffed\<rparr>)], rq_peer = []\<rparr>)"

text \<open>The required files that the answer does not name are stored as files that do not exist.\<close>

definition missed_files :: "string gomap gomap \<Rightarrow> string \<Rightarrow> string gomap \<Rightarrow> string list" where
  "missed_files data ns files =
     (case map_of data ns of
        Some existedData \<Rightarrow> filter (\<lambda>f. map_of existedData f = None) (map fst files)
      | None \<Rightarrow> map fst files)"

definition store_not_found :: "agent_env \<Rightarrow> string \<Rightarrow> string \<Rightarrow> (agent, unit) proc" where
  "store_not_found E ns f =
     logged (put_file E (\<lambda>tmp. StoreConfig (ae_files E) tmp FdbSite ns f FdbVersion not_found_ext (Some (string_reader []))))"

definition refreshAgentFDBFromRemote :: "agent_env \<Rightarrow> string gomap gomap \<Rightarrow> bool \<Rightarrow> (agent, unit) proc" where
  "refreshAgentFDBFromRemote E required full =
     andthen (send_manager E \<lparr>rq_name = (if full then ''fileresync'' else ''filerefresh''),
        rq_args = [(''siteid'', ae_ID E), (''filecontents'', ae_show_content E required)], rq_peer = []\<rparr>) (\<lambda>resp.
     case ae_content_json E (rs_data resp) of
       Inl err \<Rightarrow> fail err
     | Inr data \<Rightarrow>
         andthen (each (\<lambda>(ns, files). each (\<lambda>(filename, version). on_vm (AddDownloadFileTask E ns filename version)) files) data) (\<lambda>_.
         each (\<lambda>(ns, files). each (store_not_found E ns) (missed_files data ns files)) required))"

text \<open>The files of the mapper whose stored digest is another one, with the stored digest.\<close>

fun local_files :: "agent_env \<Rightarrow> string \<Rightarrow> string gomap \<Rightarrow> string gomap gomap \<Rightarrow> (agent, string gomap gomap) proc" where
  "local_files E ns [] acc = ret acc"
| "local_files E ns ((f, dg) # files) acc =
     (let path = GetFilePath FdbSite ns f FdbVersion
      in attempt (on_files (ExistsFile (ae_files E) path))
           (\<lambda>_. local_files E ns files (map2_set ns f [] acc))
           (\<lambda>ext. if dg = map_get ext ''digest'' then local_files E ns files acc
                  else local_files E ns files (map2_set ns f (map_get ext ''digest'') acc)))"

fun local_all :: "agent_env \<Rightarrow> string gomap gomap \<Rightarrow> string gomap gomap \<Rightarrow> (agent, string gomap gomap) proc" where
  "local_all E [] acc = ret acc"
| "local_all E ((ns, files) # rest) acc = andthen (local_files E ns files acc) (\<lambda>acc'. local_all E rest acc')"

definition refreshFilemapperFromLocal :: "agent_env \<Rightarrow> (agent, string gomap gomap) proc" where
  "refreshFilemapperFromLocal E = andthen (get_state ag_fm) (\<lambda>current. local_all E current [])"

definition syncLocalData :: "agent_env \<Rightarrow> agent \<Rightarrow> (unit outcome \<times> agent) option" where
  "syncLocalData E a =
     (case until_ok (andthen (get_state ag_fm) (\<lambda>fm. refreshAgentFDBFromRemote E fm True)) a of
        Some (Ok _, a1) \<Rightarrow>
          (case refreshFilemapperFromLocal E a1 of
             (Ok missing, a2) \<Rightarrow>
               if missing \<noteq> [] then until_ok (refreshAgentFDBFromRemote E missing False) a2 else Some (Ok (), a2)
           | (Err e, a2) \<Rightarrow> Some (Err e, a2)
           | (Panic, a2) \<Rightarrow> Some (Panic, a2))
      | r \<Rightarrow> r)"

subsection \<open>Connections (agent.go)\<close>

definition on_app_ready :: "string gomap \<Rightarrow> string \<Rightarrow> Syncer \<Rightarrow> Syncer" where
  "on_app_ready info key =
     RegisterApp \<lparr>ap_AppID = map_get info ''appName'', ap_PodIP = map_get info ''ip'', ap_Hostname = map_get info ''hostname'',
        ap_Namespaces = split_on CHR '','' (map_get info ''namespaces''),
        ap_Files = fold set_add (filter (\<lambda>f. f \<noteq> []) (split_on CHR '','' (map_get info ''files''))) [],
        ap_conn = []\<rparr> key"

definition on_app_not_ready :: "agent_env \<Rightarrow> string \<Rightarrow> (agent, unit) proc" where
  "on_app_not_ready E key =
     andthen (get_state (\<lambda>a. GetAppByConn key (ag_syncer a))) (\<lambda>app.
     case app of None \<Rightarrow> ret ()
     | Some app \<Rightarrow>
         andthen (change (on_syncer (CancelApp key))) (\<lambda>_.
         logged (send_manager E \<lparr>rq_name = ''appcancel'',
           rq_args = [(''site'', ae_ID E), (''app'', ap_AppID app), (''hostname'', ap_Hostname app), (''ip'', ap_PodIP app)],
           rq_peer = []\<rparr>)))"

text \<open>The files of an application by namespace, with the digests of the mapper; of a name only the
  first component is kept.\<close>

fun report_files :: "string list \<Rightarrow> string gomap gomap \<Rightarrow> (agent, string gomap gomap) proc" where
  "report_files [] acc = ret acc"
| "report_files (f # fs) acc =
     (case split_on CHR ''/'' f of
        ns # name # _ \<Rightarrow> andthen (on_fm (FM_Get ns name)) (\<lambda>dg. report_files fs (map2_set ns name dg acc))
      | _ \<Rightarrow> report_files fs acc)"

definition report_app :: "agent_env \<Rightarrow> AppDescribe \<Rightarrow> (agent, unit) proc" where
  "report_app E app =
     andthen (report_files (ap_Files app) []) (\<lambda>filesMap.
     each (\<lambda>(ns, files). reportUpdatedInfoToRemote E app ns files) filesMap)"

definition on_manager_ready :: "agent_env \<Rightarrow> agent \<Rightarrow> (unit outcome \<times> agent) option" where
  "on_manager_ready E a =
     (case syncLocalData E a of
        Some (Ok _, a1) \<Rightarrow> Some (andthen (get_state (\<lambda>a. GetAllAppsCopy (ag_syncer a))) (each (report_app E)) a1)
      | r \<Rightarrow> r)"

subsection \<open>Requests of the applications\<close>

text \<open>\<open>filerefresh\<close>: the reported files that are different or missing.\<close>

fun diff_all :: "string gomap gomap \<Rightarrow> string list gomap \<times> string list gomap \<Rightarrow> (agent, string list gomap \<times> string list gomap) proc" where
  "diff_all [] acc = ret acc"
| "diff_all ((ns, reported) # infos) (different, missed) =
     andthen (on_fm (FM_Diff ns reported)) (\<lambda>(df, mf).
     diff_all infos (if df \<noteq> [] then map_set ns (map fst df) different else different,
                     if mf \<noteq> [] then map_set ns (map fst mf) missed else missed))"

definition report_job :: "agent_env \<Rightarrow> string \<Rightarrow> string gomap gomap \<Rightarrow> (agent, unit) proc" where
  "report_job E conn infos =
     andthen (get_state (\<lambda>a. GetAppByConn conn (ag_syncer a))) (\<lambda>app.
     case app of None \<Rightarrow> ret ()
     | Some app \<Rightarrow> each (\<lambda>(ns, reported). reportUpdatedInfoToRemote E app ns reported) infos)"

definition CmdFileRefreshHandler :: "agent_env \<Rightarrow> cmd_req \<Rightarrow> (agent, cmd_resp \<times> (agent, unit) proc list) proc" where
  "CmdFileRefreshHandler E req =
     (case ae_content_json E (map_get (rq_args req) ''filecontents'') of
        Inl err \<Rightarrow> ret (\<lparr>rs_code = 400, rs_msg = err_text err, rs_data = []\<rparr>, [])
      | Inr infos \<Rightarrow>
          andthen (diff_all infos ([], [])) (\<lambda>(different, missed).
          let required = map (\<lambda>(ns, fs). (ns, map (\<lambda>f. (f, [])) fs)) missed;
              jobs = report_job E (rq_peer req) infos
                # (if missed \<noteq> [] then [logged (refreshAgentFDBFromRemote E required False)] else []);
              answer = fold (\<lambda>(ns, fs) d. map_set ns (map_list d ns @ fs) d) missed different
          in ret (RespSucceed (ae_show_files E answer), jobs)))"

text \<open>\<open>filecontent\<close>: the content of a file, or why there is none.\<close>

definition register_request :: "cmd_req \<Rightarrow> (agent, unit) proc" where
  "register_request req = (\<lambda>a.
     case RegisterFileToApp (rq_peer req) (map_get (rq_args req) ''namespace'') (map_get (rq_args req) ''filename'') (ag_syncer a) of
       (r, s) \<Rightarrow> (r, a\<lparr>ag_syncer := s\<rparr>))"

definition content_sent :: "agent_env \<Rightarrow> string \<Rightarrow> string \<Rightarrow> string \<Rightarrow> string \<Rightarrow> goerr option \<Rightarrow> (agent, unit) proc" where
  "content_sent E conn namespace filename digest err =
     (case err of Some _ \<Rightarrow> ret ()
      | None \<Rightarrow>
          andthen (get_state (\<lambda>a. GetAppByConn conn (ag_syncer a))) (\<lambda>app.
          case app of None \<Rightarrow> ret ()
          | Some describe \<Rightarrow> reportUpdatedInfoToRemote E describe namespace [(filename, digest)]))"

definition CmdContentHandler ::
  "agent_env \<Rightarrow> cmd_req \<Rightarrow> (agent, cmd_resp \<times> (goerr option \<Rightarrow> (agent, unit) proc) option) proc" where
  "CmdContentHandler E req =
     (let namespace = map_get (rq_args req) ''namespace''; filename = map_get (rq_args req) ''filename'';
          digest = map_get (rq_args req) ''digest''
      in andthen (register_request req) (\<lambda>_.
         attempt (on_files (VisitConfig (ae_files E) FdbSite namespace filename FdbVersion))
           (\<lambda>_. andthen (logged (refreshAgentFDBFromRemote E [(namespace, [(filename, digest)])] False))
                  (\<lambda>_. ret (resp_code 204, None)))
           (\<lambda>(ext, data).
             if map_of ext ''_status'' = Some ''404'' then ret (resp_code 404, None)
             else if map_of ext ''digest'' = Some digest then ret (resp_code 304, None)
             else ret (RespSucceed (ae_show_file E ext data (map_get ext ''digest'')),
                       Some (content_sent E (rq_peer req) namespace filename (map_get ext ''digest''))))))"

end
