(* ===== verification/Manager_Links.thy ===== *)
theory Manager_Links
  imports Manager_Effects
begin

section \<open>The references between the rows\<close>

text \<open>
  The invariant of the config manager's tables, which the database does not enforce: a current
  state refers to a version and to releases of its own config, a release to a version of its own
  config, and the keys are distinct. \<open>grown D v\<close> holds of the contents \<open>v\<close> of a transaction that began
  on \<open>D\<close>: they satisfy the invariant, and nothing an operation read from \<open>D\<close> has been lost.
\<close>

definition version_of :: "db_view \<Rightarrow> u64 \<Rightarrow> u64 \<Rightarrow> bool" where
  "version_of v i c \<longleftrightarrow> (\<exists>ver\<in>set (v_version v). cv_ID ver = i \<and> cv_ConfigInfoID ver = c)"

definition release_of :: "db_view \<Rightarrow> u64 \<Rightarrow> u64 \<Rightarrow> bool" where
  "release_of v i c \<longleftrightarrow> (\<exists>rel\<in>set (v_release v). rl_ID rel = i \<and> rl_ConfigInfoID rel = c)"

definition linked_cur :: "db_view \<Rightarrow> ConfigCurrent \<Rightarrow> bool" where
  "linked_cur v cur \<longleftrightarrow>
     (cc_LatestConfigVersionID cur \<noteq> 0 \<longrightarrow> version_of v (cc_LatestConfigVersionID cur) (cc_ConfigInfoID cur))
     \<and> (cc_LatestReleaseID cur \<noteq> 0 \<longrightarrow> release_of v (cc_LatestReleaseID cur) (cc_ConfigInfoID cur))
     \<and> (cc_PreReleaseID cur \<noteq> 0 \<longrightarrow> release_of v (cc_PreReleaseID cur) (cc_ConfigInfoID cur))"

definition linked :: "db_view \<Rightarrow> bool" where
  "linked v \<longleftrightarrow> inj_on cv_ID (set (v_version v)) \<and> inj_on rl_ID (set (v_release v))
     \<and> inj_on cc_ID (set (v_current v)) \<and> 0 \<notin> cv_ID ` set (v_version v)
     \<and> (\<forall>rel\<in>set (v_release v). version_of v (rl_ConfigVersionID rel) (rl_ConfigInfoID rel))
     \<and> (\<forall>cur\<in>set (v_current v). linked_cur v cur)"

definition grown :: "db_view \<Rightarrow> db_view \<Rightarrow> bool" where
  "grown D v \<longleftrightarrow> linked v \<and> set (v_version D) \<subseteq> set (v_version v) \<and> set (v_release D) \<subseteq> set (v_release v)
     \<and> cc_ID ` set (v_current D) \<subseteq> cc_ID ` set (v_current v)
     \<and> (\<forall>x\<in>set (v_current v). \<forall>y\<in>set (v_current D). cc_ID x = cc_ID y \<longrightarrow> cc_ConfigInfoID x = cc_ConfigInfoID y)"

lemma grown_refl: "linked D \<Longrightarrow> grown D D"
  by (auto simp: grown_def linked_def dest: inj_onD)

lemma grown_linked: "grown D v \<Longrightarrow> linked v"
  by (simp add: grown_def)

lemma linked_version: "linked v \<Longrightarrow> version_of v i c \<Longrightarrow> ver \<in> set (v_version v) \<Longrightarrow> cv_ID ver = i \<Longrightarrow> cv_ConfigInfoID ver = c"
  unfolding linked_def version_of_def by (auto dest: inj_onD)

lemma linked_release: "linked v \<Longrightarrow> release_of v i c \<Longrightarrow> rel \<in> set (v_release v) \<Longrightarrow> rl_ID rel = i \<Longrightarrow> rl_ConfigInfoID rel = c"
  unfolding linked_def release_of_def by (auto dest: inj_onD)

lemma linked_frame [simp]:
  "linked (v\<lparr>v_info := a\<rparr>) = linked v" "linked (v\<lparr>v_cns := b\<rparr>) = linked v"
  "linked (v\<lparr>v_template := c\<rparr>) = linked v" "linked (v\<lparr>v_tversion := d\<rparr>) = linked v"
  "linked (v\<lparr>v_tns := e\<rparr>) = linked v"
  by (simp_all add: linked_def linked_cur_def version_of_def release_of_def)

lemma grown_frame [simp]:
  "grown D (v\<lparr>v_info := a\<rparr>) = grown D v" "grown D (v\<lparr>v_cns := b\<rparr>) = grown D v"
  "grown D (v\<lparr>v_template := c\<rparr>) = grown D v" "grown D (v\<lparr>v_tversion := d\<rparr>) = grown D v"
  "grown D (v\<lparr>v_tns := e\<rparr>) = grown D v"
  by (simp_all add: grown_def)

lemma version_of_mono: "set (v_version v) \<subseteq> set (v_version v') \<Longrightarrow> version_of v i c \<Longrightarrow> version_of v' i c"
  by (auto simp: version_of_def)

lemma release_of_mono: "set (v_release v) \<subseteq> set (v_release v') \<Longrightarrow> release_of v i c \<Longrightarrow> release_of v' i c"
  by (auto simp: release_of_def)

lemma linked_cur_mono:
  "set (v_version v) \<subseteq> set (v_version v') \<Longrightarrow> set (v_release v) \<subseteq> set (v_release v') \<Longrightarrow>
    linked_cur v cur \<Longrightarrow> linked_cur v' cur"
  by (auto simp: linked_cur_def intro: version_of_mono release_of_mono)

lemma grown_cur: "grown D v \<Longrightarrow> linked D \<Longrightarrow> cur \<in> set (v_current D) \<Longrightarrow> linked_cur v cur"
  by (rule linked_cur_mono [of D]) (simp_all add: grown_def linked_def)

lemma grown_version_of: "grown D v \<Longrightarrow> version_of D i c \<Longrightarrow> version_of v i c"
  by (rule version_of_mono [of D]) (simp_all add: grown_def)

lemma grown_release_of: "grown D v \<Longrightarrow> release_of D i c \<Longrightarrow> release_of v i c"
  by (rule release_of_mono [of D]) (simp_all add: grown_def)

lemma grown_add_version:
  assumes "grown D v" "cv_ID r \<notin> cv_ID ` set (v_version v)" "cv_ID r \<noteq> 0"
  shows "grown D (v\<lparr>v_version := v_version v @ [r]\<rparr>)"
proof -
  let ?v = "v\<lparr>v_version := v_version v @ [r]\<rparr>"
  have "linked_cur v c \<Longrightarrow> linked_cur ?v c" "version_of v i j \<Longrightarrow> version_of ?v i j" for c i j
    using linked_cur_mono [of v ?v] version_of_mono [of v ?v] by auto
  with assms show ?thesis unfolding grown_def linked_def by (auto simp: inj_on_insert)
qed

lemma grown_add_release:
  assumes "grown D v" "rl_ID r \<notin> rl_ID ` set (v_release v)" "version_of v (rl_ConfigVersionID r) (rl_ConfigInfoID r)"
  shows "grown D (v\<lparr>v_release := v_release v @ [r]\<rparr>)"
proof -
  let ?v = "v\<lparr>v_release := v_release v @ [r]\<rparr>"
  have "linked_cur v c \<Longrightarrow> linked_cur ?v c" "version_of v i j \<Longrightarrow> version_of ?v i j" for c i j
    using linked_cur_mono [of v ?v] by (auto simp: version_of_def)
  with assms show ?thesis unfolding grown_def linked_def by (auto simp: inj_on_insert)
qed

lemma grown_add_current:
  assumes "grown D v" "cc_ID r \<notin> cc_ID ` set (v_current v)" "linked_cur v r"
  shows "grown D (v\<lparr>v_current := v_current v @ [r]\<rparr>)"
proof -
  let ?v = "v\<lparr>v_current := v_current v @ [r]\<rparr>"
  have "linked_cur ?v c = linked_cur v c" "version_of ?v i j = version_of v i j" for c i j
    by (simp_all add: linked_cur_def version_of_def release_of_def)
  moreover have "cc_ID r \<noteq> cc_ID y" if "y \<in> set (v_current D)" for y
    using assms(1,2) that unfolding grown_def by auto
  ultimately show ?thesis using assms unfolding grown_def linked_def by (auto simp: inj_on_insert)
qed

lemma inj_on_image_same:
  assumes "inj_on g A" "\<And>x. g (f x) = g x"
  shows "inj_on g (f ` A)"
  using assms(1) unfolding inj_on_def by (simp add: assms(2)) metis

lemma linked_cur_merge:
  "linked_cur v x \<Longrightarrow> linked_cur v r \<Longrightarrow> cc_ConfigInfoID x = cc_ConfigInfoID r \<Longrightarrow>
    linked_cur v (ConfigCurrent_merge x r)"
  by (simp add: linked_cur_def ConfigCurrent_merge_def nz_id_def)

lemma grown_merge_current:
  assumes g: "grown D v" and y: "y \<in> set (v_current D)" "cc_ID y = cc_ID r" "cc_ConfigInfoID y = cc_ConfigInfoID r"
    and r: "linked_cur v r"
  shows "grown D (v\<lparr>v_current := map (\<lambda>x. if cc_ID x = cc_ID r then ConfigCurrent_merge x r else x) (v_current v)\<rparr>)"
proof -
  let ?f = "\<lambda>x. if cc_ID x = cc_ID r then ConfigCurrent_merge x r else x"
  let ?v = "v\<lparr>v_current := map ?f (v_current v)\<rparr>"
  have frame: "linked_cur ?v c = linked_cur v c" "version_of ?v i j = version_of v i j" for c i j
    by (simp_all add: linked_cur_def version_of_def release_of_def)
  have id: "cc_ID (?f x) = cc_ID x" for x by (simp add: ConfigCurrent_merge_def)
  have cfg: "cc_ConfigInfoID (?f x) = cc_ConfigInfoID x" "linked_cur v (?f x)" if "x \<in> set (v_current v)" for x
  proof -
    have "cc_ID x = cc_ID r \<Longrightarrow> cc_ConfigInfoID x = cc_ConfigInfoID r"
      using g y that unfolding grown_def by metis
    moreover have "linked_cur v x" using g that unfolding grown_def linked_def by blast
    ultimately show "cc_ConfigInfoID (?f x) = cc_ConfigInfoID x" "linked_cur v (?f x)"
      using linked_cur_merge [OF _ r, of x] by (auto simp: ConfigCurrent_merge_def nz_id_def)
  qed
  have inj: "inj_on cc_ID (set (v_current v))"
    using g unfolding grown_def linked_def by blast
  have inj': "inj_on cc_ID (set (v_current ?v))"
    using inj_on_image_same [OF inj, of ?f] id by simp
  have "\<forall>c\<in>set (v_current ?v). linked_cur ?v c"
  proof
    fix c assume "c \<in> set (v_current ?v)"
    then obtain x where x: "x \<in> set (v_current v)" "c = ?f x" by auto
    show "linked_cur ?v c" unfolding frame x(2) by (rule cfg(2) [OF x(1)])
  qed
  moreover have "\<forall>rel\<in>set (v_release ?v). version_of ?v (rl_ConfigVersionID rel) (rl_ConfigInfoID rel)"
    unfolding frame using g by (simp add: grown_def linked_def)
  ultimately have "linked ?v"
    using g inj' unfolding linked_def [of ?v] by (simp add: grown_def linked_def [of v])
  moreover have "cc_ID ` set (v_current ?v) = cc_ID ` set (v_current v)"
  proof -
    have "v_current ?v = map ?f (v_current v)" by simp
    then show ?thesis unfolding set_map image_image id by (simp only: set_map image_image id)
  qed
  moreover have "\<forall>a\<in>set (v_current ?v). \<forall>b\<in>set (v_current D). cc_ID a = cc_ID b \<longrightarrow> cc_ConfigInfoID a = cc_ConfigInfoID b"
  proof (intro ballI impI)
    fix a b assume a: "a \<in> set (v_current ?v)" and b: "b \<in> set (v_current D)" "cc_ID a = cc_ID b"
    from a obtain x where x: "x \<in> set (v_current v)" "a = ?f x" by auto
    have "cc_ID a = cc_ID x" unfolding x(2) by (rule id)
    then have "cc_ConfigInfoID x = cc_ConfigInfoID b" using g x(1) b unfolding grown_def by simp
    moreover have "cc_ConfigInfoID a = cc_ConfigInfoID x" unfolding x(2) by (rule cfg(1) [OF x(1)])
    ultimately show "cc_ConfigInfoID a = cc_ConfigInfoID b" by simp
  qed
  ultimately show ?thesis using g unfolding grown_def by simp
qed

end
