(* ===== verification/Manager_Calls.thy ===== *)
theory Manager_Calls
  imports Manager_Links
begin

section \<open>The state-changing calls of the interface configserver.Manager\<close>

text \<open>
  One constructor per method of the interface that changes the state (the imports
  apart), run in any order: a sequence of calls keeps the references between the rows and leaves no transaction
  open. \<open>ReleaseNamespace\<close> carries the name of its working directory, the time it runs at.
\<close>

definition DeleteConfig :: "'d manager \<Rightarrow> u64 \<Rightarrow> ('d world, unit) proc" where
  "DeleteConfig M i = ret ()"

definition DeleteTemplate :: "'d manager \<Rightarrow> u64 \<Rightarrow> ('d world, unit) proc" where
  "DeleteTemplate M i = ret ()"

datatype manager_call =
    Call_AddConfig "ConfigInfo option"
  | Call_UpdateConfig "ConfigInfo option"
  | Call_ReleaseConfig u64
  | Call_ReleaseNamespace string string string
  | Call_RollbackConfig u64 u64 string
  | Call_DeleteConfig u64
  | Call_ReloadTemplate u64
  | Call_AddTemplate "Template option"
  | Call_UpdateTemplate "Template option"
  | Call_DeleteTemplate u64

fun handle :: "'d manager \<Rightarrow> manager_call \<Rightarrow> ('d world, unit) proc" where
  "handle M (Call_AddConfig c) = AddConfig M c"
| "handle M (Call_UpdateConfig c) = UpdateConfig M c"
| "handle M (Call_ReleaseConfig i) = ReleaseConfig M i"
| "handle M (Call_ReleaseNamespace dir siteID ns) = ReleaseNamespace M dir siteID ns"
| "handle M (Call_RollbackConfig i versionID creator) = RollbackConfig M i versionID creator"
| "handle M (Call_DeleteConfig i) = DeleteConfig M i"
| "handle M (Call_ReloadTemplate i) = ReloadTemplate M i"
| "handle M (Call_AddTemplate t) = AddTemplate M t"
| "handle M (Call_UpdateTemplate t) = UpdateTemplate M t"
| "handle M (Call_DeleteTemplate i) = DeleteTemplate M i"

fun run_calls :: "'d manager \<Rightarrow> manager_call list \<Rightarrow> 'd world \<Rightarrow> 'd world" where
  "run_calls M [] w = w"
| "run_calls M (c # cs) w = run_calls M cs (snd (handle M c w))"

subsection \<open>The references are kept\<close>

text \<open>
  Inside a transaction: the contents it sees are \<open>grown\<close>, and satisfy \<open>P\<close>, what the step
  before has shown of the row it wrote.
\<close>

definition jview :: "nat \<Rightarrow> db_view db_abs \<Rightarrow> (db_view \<Rightarrow> bool) \<Rightarrow> db_view db_abs \<Rightarrow> bool" where
  "jview n a0 P a \<longleftrightarrow> linked (a_db a0)
     \<and> (\<exists>ov. tx_view n a0 ov a \<and> (\<forall>v. ov = Some v \<longrightarrow> grown (a_db a0) v \<and> P v))"

abbreviation any_view :: "db_view \<Rightarrow> bool" where
  "any_view \<equiv> \<lambda>_. True"

context db_table
begin

lemma first_or_create_view:
  assumes run: "t_first_or_create T (TX n) P r d = (Ok x, d')" and v: "tx_view n a0 ov (obs d)"
  obtains u u' where "ov = Some u" "tx_view n a0 (Some u') (obs d')" "u' = u \<or> u' = put (rows u @ [x]) u"
proof -
  consider (found) u where "ov = Some u" "obs d' = obs d"
    | (made) u where "ov = Some u" "obs d' = alter (TX n) (\<lambda>v. put (rows v @ [x]) v) (obs d)"
    using first_or_create_Ok [OF run] tx_view_sees [OF v] by metis
  then show thesis
  proof cases
    case found
    then show thesis using that [of u u] v by simp
  next
    case made
    then show thesis
      using that [of u "put (rows u @ [x]) u"] tx_view_alter [OF v, of "\<lambda>v. put (rows v @ [x]) v"] by simp
  qed
qed

end

context gorm_db
begin

lemma atomic_ReloadTemplate: "atomic obs (ReloadTemplate M i)"
proof -
  have [tx_rules]: "atomic obs (ret () :: ('d world, unit) proc)" "atomic obs (panic :: ('d world, unit) proc)"
    by (rule atomic_calm, rule calm_basic)+
  show ?thesis
    unfolding ReloadTemplate_def by (intro tx_rules atomic_attempt atomic_ops)
qed

lemma atomic_handle: "atomic obs (handle M c)"
proof (cases c)
  case (Call_DeleteConfig i)
  then show ?thesis by (simp add: DeleteConfig_def atomic_calm calm_basic)
next
  case (Call_DeleteTemplate i)
  then show ?thesis by (simp add: DeleteTemplate_def atomic_calm calm_basic)
qed (simp_all add: atomic_ops atomic_ReloadTemplate)

lemma jview_db: "jview n a0 P a \<Longrightarrow> a_db a = a_db a0"
  by (auto simp: jview_def dest: tx_view_db)

lemma jview_begin:
  assumes "tx_begin M w = (Ok tx, w')" "linked (a_db (obs (w_db w)))"
  obtains n where "tx = TX n" "jview n (obs (w_db w)) any_view (obs (w_db w'))"
proof -
  obtain n ov where v: "tx = TX n" "tx_view n (obs (w_db w)) ov (obs (w_db w'))"
    "ov = None \<or> ov = Some (a_db (obs (w_db w)))"
    using begin_view [OF assms(1)] by blast
  from v(3) have "\<forall>v. ov = Some v \<longrightarrow> grown (a_db (obs (w_db w))) v \<and> any_view v"
    using grown_refl [OF assms(2)] by auto
  with v(1,2) assms(2) that show thesis unfolding jview_def by blast
qed

lemma jview_calm: "calm obs m \<Longrightarrow> m w = (r, w') \<Longrightarrow> jview n a0 P (obs (w_db w)) \<Longrightarrow> jview n a0 P (obs (w_db w'))"
  using calmD by metis

lemma jview_commit:
  assumes run: "tx_commit M (TX n) w = (Ok x, w')" and v: "jview n a0 P (obs (w_db w))"
  shows "linked (a_db (obs (w_db w')))"
proof -
  obtain ov where ov: "tx_view n a0 ov (obs (w_db w))" "\<forall>v. ov = Some v \<longrightarrow> grown (a_db a0) v" "linked (a_db a0)"
    using v unfolding jview_def by blast
  show ?thesis
  proof (cases ov)
    case None
    obtain q d where cm: "commit_tx (g_tx (m_db M)) (TX n) (w_db w) = (q, d)" by fastforce
    then have w': "w_db w' = d"
      using run by (cases q) (auto simp: tx_commit_def on_db_def attempt_def ret_def)
    have "obs d = close_tx n (obs (w_db w))"
      using tx.commit_Err [of n "w_db w" _ d] tx.commit_Ok [of n "w_db w" _ d] cm
        tx.commit_no_panic [of "TX n" "w_db w"] None ov(1)
      by (cases q) (auto simp: tx_view_def)
    then show ?thesis using tx_view_db [OF ov(1)] ov(3) w' by simp
  next
    case (Some u)
    then show ?thesis
      using commit_view(1) [OF run, of a0 u] ov grown_linked [of "a_db a0" u] by (auto simp: committed_def)
  qed
qed

lemma jview_weaken: "jview n a0 P a \<Longrightarrow> jview n a0 any_view a"
  unfolding jview_def by blast

lemma jview_step:
  assumes "jview n a0 P a"
    and "\<And>ov. tx_view n a0 ov a \<Longrightarrow> \<exists>u v. ov = Some u \<and> tx_view n a0 (Some v) a'
           \<and> (grown (a_db a0) u \<and> P u \<longrightarrow> grown (a_db a0) v \<and> Q v)"
  shows "jview n a0 Q a'"
proof -
  obtain ov where ov: "linked (a_db a0)" "tx_view n a0 ov a" "\<forall>v. ov = Some v \<longrightarrow> grown (a_db a0) v \<and> P v"
    using assms(1) unfolding jview_def by blast
  from assms(2) [OF ov(2)] ov show ?thesis unfolding jview_def by auto
qed

lemma jview_CreateConfigVersion:
  assumes run: "on_db (CreateConfigVersion (m_db M) r (TX n)) w = (Ok r', w')" and v: "jview n a0 P (obs (w_db w))"
  shows "jview n a0 (\<lambda>v. version_of v (cv_ID r') (cv_ConfigInfoID r)) (obs (w_db w'))"
  using v
proof (rule jview_step)
  fix ov assume ov: "tx_view n a0 ov (obs (w_db w))"
  obtain u where u: "ov = Some u" "tx_view n a0 (Some (u\<lparr>v_version := v_version u @ [r']\<rparr>)) (obs (w_db w'))"
    "cv_ID r' \<noteq> 0" "r' = r\<lparr>cv_ID := cv_ID r'\<rparr>" "cv_ID r' \<notin> cv_ID ` set (v_version u)"
    using CreateConfigVersion_view [OF run ov] by blast
  have "cv_ConfigInfoID r' = cv_ConfigInfoID r" using arg_cong [OF u(4), of cv_ConfigInfoID] by simp
  then have "version_of (u\<lparr>v_version := v_version u @ [r']\<rparr>) (cv_ID r') (cv_ConfigInfoID r)"
    by (simp add: version_of_def)
  with u grown_add_version [of "a_db a0" u r']
  show "\<exists>u v. ov = Some u \<and> tx_view n a0 (Some v) (obs (w_db w'))
           \<and> (grown (a_db a0) u \<and> P u \<longrightarrow> grown (a_db a0) v \<and> version_of v (cv_ID r') (cv_ConfigInfoID r))"
    by blast
qed

lemma jview_CreateRelease:
  assumes run: "on_db (CreateRelease (m_db M) r (TX n)) w = (Ok r', w')" and v: "jview n a0 P (obs (w_db w))"
    and ver: "version_of (a_db a0) (rl_ConfigVersionID r) (rl_ConfigInfoID r)"
  shows "jview n a0 (\<lambda>v. release_of v (rl_ID r') (rl_ConfigInfoID r)) (obs (w_db w'))"
  using v
proof (rule jview_step)
  fix ov assume ov: "tx_view n a0 ov (obs (w_db w))"
  obtain u where u: "ov = Some u" "tx_view n a0 (Some (u\<lparr>v_release := v_release u @ [r']\<rparr>)) (obs (w_db w'))"
    "r' = r\<lparr>rl_ID := rl_ID r'\<rparr>" "rl_ID r' \<notin> rl_ID ` set (v_release u)"
    using CreateRelease_view [OF run ov] by blast
  have r': "rl_ConfigInfoID r' = rl_ConfigInfoID r" "rl_ConfigVersionID r' = rl_ConfigVersionID r"
    using arg_cong [OF u(3), of rl_ConfigInfoID] arg_cong [OF u(3), of rl_ConfigVersionID] by simp_all
  then have "release_of (u\<lparr>v_release := v_release u @ [r']\<rparr>) (rl_ID r') (rl_ConfigInfoID r)"
    by (simp add: release_of_def)
  moreover have "grown (a_db a0) u \<Longrightarrow> grown (a_db a0) (u\<lparr>v_release := v_release u @ [r']\<rparr>)"
    by (rule grown_add_release [OF _ u(4)]) (use grown_version_of ver r' in auto)
  ultimately show "\<exists>u v. ov = Some u \<and> tx_view n a0 (Some v) (obs (w_db w'))
           \<and> (grown (a_db a0) u \<and> P u \<longrightarrow> grown (a_db a0) v \<and> release_of v (rl_ID r') (rl_ConfigInfoID r))"
    using u(1,2) by blast
qed

lemma jview_UpdateConfigCurrent:
  assumes run: "on_db (UpdateConfigCurrent (m_db M) r (TX n)) w = (Ok x, w')" and v: "jview n a0 P (obs (w_db w))"
    and y: "y \<in> set (v_current (a_db a0))" "cc_ID y = cc_ID r" "cc_ConfigInfoID y = cc_ConfigInfoID r"
    and cur: "\<And>u. grown (a_db a0) u \<Longrightarrow> P u \<Longrightarrow> linked_cur u r"
  shows "jview n a0 any_view (obs (w_db w'))"
  using v
proof (rule jview_step)
  fix ov assume ov: "tx_view n a0 ov (obs (w_db w))"
  obtain u where u: "ov = Some u" "tx_view n a0 (Some (u\<lparr>v_current := map (\<lambda>x. if cc_ID x = cc_ID r
      then ConfigCurrent_merge x r else x) (v_current u)\<rparr>)) (obs (w_db w'))"
    by (rule UpdateConfigCurrent_view [OF run ov])
  with grown_merge_current [OF _ y, of u] cur [of u]
  show "\<exists>u v. ov = Some u \<and> tx_view n a0 (Some v) (obs (w_db w'))
           \<and> (grown (a_db a0) u \<and> P u \<longrightarrow> grown (a_db a0) v \<and> True)"
    by blast
qed

lemma jview_UpdateConfigInfo:
  assumes run: "on_db (UpdateConfigInfo (m_db M) r (TX n)) w = (Ok x, w')" and v: "jview n a0 P (obs (w_db w))"
    and frame: "\<And>u xs. P u \<Longrightarrow> P (u\<lparr>v_info := xs\<rparr>)"
  shows "jview n a0 P (obs (w_db w'))"
  using v
proof (rule jview_step)
  fix ov assume ov: "tx_view n a0 ov (obs (w_db w))"
  obtain u where u: "ov = Some u" "tx_view n a0 (Some (u\<lparr>v_info := map (\<lambda>x. if ci_ID x = ci_ID r
      then ConfigInfo_merge x r else x) (v_info u)\<rparr>)) (obs (w_db w'))"
    by (rule UpdateConfigInfo_view [OF run ov])
  show "\<exists>u v. ov = Some u \<and> tx_view n a0 (Some v) (obs (w_db w'))
           \<and> (grown (a_db a0) u \<and> P u \<longrightarrow> grown (a_db a0) v \<and> P v)"
    by (rule exI, rule exI, rule conjI [OF u(1)], rule conjI [OF u(2)]) (simp add: frame)
qed

text \<open>The writes to tables without references.\<close>

lemma jview_other:
  assumes "jview n a0 P a"
    and "\<And>ov. tx_view n a0 ov a \<Longrightarrow>
      \<exists>u v. ov = Some u \<and> tx_view n a0 (Some v) a' \<and> grown (a_db a0) v = grown (a_db a0) u"
  shows "jview n a0 any_view a'"
  using jview_step [OF assms(1), of a' any_view] assms(2) by meson

lemma jview_CreateConfigInfo:
  assumes run: "on_db (CreateConfigInfo (m_db M) r (TX n)) w = (Ok r', w')" and v: "jview n a0 P (obs (w_db w))"
  shows "jview n a0 any_view (obs (w_db w'))"
  using v
proof (rule jview_other)
  fix ov assume ov: "tx_view n a0 ov (obs (w_db w))"
  obtain i where i: "t_create (t_info (m_db M)) (TX n) r (w_db w) = (Ok i, w_db w')"
    using on_db_run [OF run] unfolding CreateConfigInfo_def create_ret by blast
  show "\<exists>u v. ov = Some u \<and> tx_view n a0 (Some v) (obs (w_db w')) \<and> grown (a_db a0) v = grown (a_db a0) u"
    by (rule info.create_view [OF i ov], rule exI, rule exI, rule conjI, assumption, rule conjI, assumption) simp
qed

lemma jview_CreateTemplate:
  assumes run: "on_db (CreateTemplate (m_db M) r (TX n)) w = (Ok r', w')" and v: "jview n a0 P (obs (w_db w))"
  shows "jview n a0 any_view (obs (w_db w'))"
  using v
proof (rule jview_other)
  fix ov assume ov: "tx_view n a0 ov (obs (w_db w))"
  obtain i where i: "t_create (t_template (m_db M)) (TX n) r (w_db w) = (Ok i, w_db w')"
    using on_db_run [OF run] unfolding CreateTemplate_def create_ret by blast
  show "\<exists>u v. ov = Some u \<and> tx_view n a0 (Some v) (obs (w_db w')) \<and> grown (a_db a0) v = grown (a_db a0) u"
    by (rule template.create_view [OF i ov], rule exI, rule exI, rule conjI, assumption, rule conjI, assumption) simp
qed

lemma jview_CreateTemplateVersion:
  assumes run: "on_db (CreateTemplateVersion (m_db M) r (TX n)) w = (Ok r', w')" and v: "jview n a0 P (obs (w_db w))"
  shows "jview n a0 any_view (obs (w_db w'))"
  using v
proof (rule jview_other)
  fix ov assume ov: "tx_view n a0 ov (obs (w_db w))"
  obtain i where i: "t_create (t_tversion (m_db M)) (TX n) r (w_db w) = (Ok i, w_db w')"
    using on_db_run [OF run] unfolding CreateTemplateVersion_def create_ret by blast
  show "\<exists>u v. ov = Some u \<and> tx_view n a0 (Some v) (obs (w_db w')) \<and> grown (a_db a0) v = grown (a_db a0) u"
    by (rule tversion.create_view [OF i ov], rule exI, rule exI, rule conjI, assumption, rule conjI, assumption) simp
qed

lemma jview_UpdateTemplateRow:
  assumes run: "on_db (UpdateTemplateRow (m_db M) r (TX n)) w = (Ok x, w')" and v: "jview n a0 P (obs (w_db w))"
  shows "jview n a0 any_view (obs (w_db w'))"
  using v
proof (rule jview_other)
  fix ov assume ov: "tx_view n a0 ov (obs (w_db w))"
  show "\<exists>u v. ov = Some u \<and> tx_view n a0 (Some v) (obs (w_db w')) \<and> grown (a_db a0) v = grown (a_db a0) u"
    by (rule template.updates_view [OF on_db_run [OF run, unfolded UpdateTemplateRow_def] ov],
        rule exI, rule exI, rule conjI, assumption, rule conjI, assumption) simp
qed

lemma jview_CreateConfigCurrent:
  assumes run: "on_db (CreateConfigCurrent (m_db M) r (TX n)) w = (Ok r', w')" and v: "jview n a0 P (obs (w_db w))"
    and cur: "\<And>u i. P u \<Longrightarrow> linked_cur u (r\<lparr>cc_ID := i\<rparr>)"
  shows "jview n a0 any_view (obs (w_db w'))"
  using v
proof (rule jview_step)
  fix ov assume ov: "tx_view n a0 ov (obs (w_db w))"
  obtain i where i: "t_create (t_current (m_db M)) (TX n) r (w_db w) = (Ok i, w_db w')"
    using on_db_run [OF run] unfolding CreateConfigCurrent_def create_ret by blast
  obtain u where u: "ov = Some u"
    "tx_view n a0 (Some (u\<lparr>v_current := v_current u @ [r\<lparr>cc_ID := i\<rparr>]\<rparr>)) (obs (w_db w'))"
    "i \<notin> cc_ID ` set (v_current u)"
    using current.create_view [OF i ov] unfolding ConfigCurrent_persist_def by blast
  from grown_add_current [of "a_db a0" u "r\<lparr>cc_ID := i\<rparr>"] u(3) cur [of u i]
  have "grown (a_db a0) u \<and> P u \<longrightarrow> grown (a_db a0) (u\<lparr>v_current := v_current u @ [r\<lparr>cc_ID := i\<rparr>]\<rparr>)"
    by simp
  with u show "\<exists>u v. ov = Some u \<and> tx_view n a0 (Some v) (obs (w_db w'))
           \<and> (grown (a_db a0) u \<and> P u \<longrightarrow> grown (a_db a0) v \<and> True)"
    by blast
qed

lemma jview_FindOrCreateConfigNamespace:
  assumes run: "on_db (FindOrCreateConfigNamespace (m_db M) s1 s2 s3 (TX n)) w = (Ok r', w')" and v: "jview n a0 P (obs (w_db w))"
  shows "jview n a0 any_view (obs (w_db w'))"
  using v
proof (rule jview_other)
  fix ov assume ov: "tx_view n a0 ov (obs (w_db w))"
  obtain u v where u: "ov = Some u" "tx_view n a0 (Some v) (obs (w_db w'))" "v = u \<or> v = u\<lparr>v_cns := v_cns u @ [r']\<rparr>"
    by (rule cns.first_or_create_view [OF on_db_run [OF run, unfolded FindOrCreateConfigNamespace_def] ov])
  from u(3) have "grown (a_db a0) v = grown (a_db a0) u" by auto
  with u show "\<exists>u v. ov = Some u \<and> tx_view n a0 (Some v) (obs (w_db w')) \<and> grown (a_db a0) v = grown (a_db a0) u"
    by blast
qed

lemma jview_FindOrCreateTemplateNamespace:
  assumes run: "on_db (FindOrCreateTemplateNamespace (m_db M) s1 s2 (TX n)) w = (Ok r', w')" and v: "jview n a0 P (obs (w_db w))"
  shows "jview n a0 any_view (obs (w_db w'))"
  using v
proof (rule jview_other)
  fix ov assume ov: "tx_view n a0 ov (obs (w_db w))"
  obtain u v where u: "ov = Some u" "tx_view n a0 (Some v) (obs (w_db w'))" "v = u \<or> v = u\<lparr>v_tns := v_tns u @ [r']\<rparr>"
    by (rule tns.first_or_create_view [OF on_db_run [OF run, unfolded FindOrCreateTemplateNamespace_def] ov])
  from u(3) have "grown (a_db a0) v = grown (a_db a0) u" by auto
  with u show "\<exists>u v. ov = Some u \<and> tx_view n a0 (Some v) (obs (w_db w')) \<and> grown (a_db a0) v = grown (a_db a0) u"
    by blast
qed

lemma AddConfig_version_linked:
  assumes run: "AddConfig_version M (TX n) c ver w = (Ok x, w')" and v: "jview n a0 P (obs (w_db w))"
    and id: "cv_ConfigInfoID ver = ci_ID c"
  shows "linked (a_db (obs (w_db w')))"
proof -
  obtain v1 w1 cur w2 where 1: "on_db (CreateConfigVersion (m_db M) ver (TX n)) w = (Ok v1, w1)"
    and 2: "on_db (CreateConfigCurrent (m_db M) (ConfigCurrent_zero\<lparr>cc_ConfigInfoID := ci_ID c,
           cc_LatestConfigVersionID := cv_ID v1, cc_Status := ''created''\<rparr>) (TX n)) w1 = (Ok cur, w2)"
    and 3: "tx_commit M (TX n) w2 = (Ok x, w')"
    using run unfolding AddConfig_version_def or_rollback_Ok_iff by blast
  note j1 = jview_CreateConfigVersion [OF 1 v]
  have "jview n a0 any_view (obs (w_db w2))"
    by (rule jview_CreateConfigCurrent [OF 2 j1]) (simp add: linked_cur_def ConfigCurrent_zero_def id)
  then show ?thesis by (rule jview_commit [OF 3])
qed

lemma AddConfig_linked:
  assumes run: "AddConfig M c w = (Ok x, w')" and lk: "linked (a_db (obs (w_db w)))"
  shows "linked (a_db (obs (w_db w')))"
proof -
  have valid: "checkConfigValidity c = None"
    using run by (cases "checkConfigValidity c") (simp_all add: AddConfig_def)
  from run [unfolded AddConfig_def valid option.case Let_def andthen_Ok_iff or_rollback_Ok_iff]
  show ?thesis
  proof (elim exE conjE, goal_cases)
    case (1 tx w1 cns w2 ci w3 rc w4 p w5)
    obtain n where n: "tx = TX n" and j1: "jview n (obs (w_db w)) any_view (obs (w_db w1))"
      by (rule jview_begin [OF 1(1) lk])
    note j2 = jview_FindOrCreateConfigNamespace [OF 1(2) [unfolded n] j1]
    note j3 = jview_CreateConfigInfo [OF 1(3) [unfolded n] j2]
    note j5 = jview_calm [OF calm_helpers(3) 1(5) jview_calm [OF calm_helpers(1) 1(4) j3]]
    obtain dg rd where p: "p = (dg, rd)" by fastforce
    note 6 = 1(6) [unfolded p prod.case n]
    show ?thesis
    proof (cases "has_template rc")
      case True
      from 6 [unfolded if_P [OF True] or_rollback_Ok_iff] show ?thesis
      proof (elim exE conjE, goal_cases)
        case (1 t w6)
        show ?case
          by (rule AddConfig_version_linked [OF 1(2) jview_calm [OF calm_helpers(2) 1(1) j5]]) simp
      qed
    next
      case False
      show ?thesis by (rule AddConfig_version_linked [OF 6 [unfolded if_not_P [OF False]] j5]) simp
    qed
  qed
qed

lemma UpdateConfig_rows_linked:
  assumes run: "UpdateConfig_rows M (TX n) c cur w = (Ok x, w')" and v: "jview n a0 P (obs (w_db w))"
    and y: "y \<in> set (v_current (a_db a0))" "cc_ID y = cc_ID cur" "cc_ConfigInfoID y = cc_ConfigInfoID cur"
    and cur: "\<And>u. grown (a_db a0) u \<Longrightarrow> P u \<Longrightarrow> linked_cur u cur"
    and frame: "\<And>u xs. P u \<Longrightarrow> P (u\<lparr>v_info := xs\<rparr>)"
  shows "linked (a_db (obs (w_db w')))"
proof -
  obtain u w1 u' w2 where 1: "on_db (UpdateConfigInfo (m_db M) c (TX n)) w = (Ok u, w1)"
    and 2: "on_db (UpdateConfigCurrent (m_db M) cur (TX n)) w1 = (Ok u', w2)"
    and 3: "tx_commit M (TX n) w2 = (Ok x, w')"
    using run unfolding UpdateConfig_rows_def or_rollback_Ok_iff by blast
  note j1 = jview_UpdateConfigInfo [OF 1 v frame]
  from jview_UpdateConfigCurrent [OF 2 j1 y cur] show ?thesis by (rule jview_commit [OF 3])
qed

lemma linked_cur_newer:
  assumes "grown D u" "linked D" "cur \<in> set (v_current D)" "version_of u i (cc_ConfigInfoID cur)"
  shows "linked_cur u (cur\<lparr>cc_LatestConfigVersionID := i\<rparr>)"
  using grown_cur [OF assms(1-3)] assms(4) by (simp add: linked_cur_def)

lemma version_of_info: "version_of u i c \<Longrightarrow> version_of (u\<lparr>v_info := xs\<rparr>) i c"
  by (simp add: version_of_def)

lemma UpdateConfig_version_linked:
  assumes run: "UpdateConfig_version M (TX n) c cur ver w = (Ok x, w')" and v: "jview n a0 P (obs (w_db w))"
    and cur: "cur \<in> set (v_current (a_db a0))" "cv_ConfigInfoID ver = cc_ConfigInfoID cur"
  shows "linked (a_db (obs (w_db w')))"
proof -
  obtain v1 w1 c' where 1: "on_db (CreateConfigVersion (m_db M) ver (TX n)) w = (Ok v1, w1)"
    and 2: "UpdateConfig_rows M (TX n) c' (cur\<lparr>cc_LatestConfigVersionID := cv_ID v1\<rparr>) w1 = (Ok x, w')"
    using run unfolding UpdateConfig_version_def or_rollback_Ok_iff by blast
  note j1 = jview_CreateConfigVersion [OF 1 v]
  have lk: "linked (a_db a0)" using v by (simp add: jview_def)
  show ?thesis
    by (rule UpdateConfig_rows_linked [OF 2 j1, of cur])
      (use cur in \<open>auto intro: version_of_info linked_cur_newer [OF _ lk cur(1)]\<close>)
qed

lemma jview_read_current:
  assumes "on_db (GetConfigCurrentByConfigID (m_db M) i) w = (Ok cur, w')" "jview n a0 P (obs (w_db w))"
  shows "cur \<in> set (v_current (a_db a0))" "cc_ConfigInfoID cur = i" "jview n a0 P (obs (w_db w'))"
  using GetConfigCurrent_row [OF assms(1)] assms(2) jview_db [OF assms(2)] by simp_all

lemma jview_read_version:
  assumes "on_db (GetConfigVersionByID (m_db M) i) w = (Ok ver, w')" "jview n a0 P (obs (w_db w))"
  shows "ver \<in> set (v_version (a_db a0))" "cv_ID ver = i" "jview n a0 P (obs (w_db w'))"
  using GetConfigVersionByID_row [OF assms(1)] assms(2) jview_db [OF assms(2)] by simp_all

lemma jview_read_release:
  assumes "on_db (GetReleaseByID (m_db M) i) w = (Ok rel, w')" "jview n a0 P (obs (w_db w))"
  shows "rel \<in> set (v_release (a_db a0))" "rl_ID rel = i" "jview n a0 P (obs (w_db w'))"
  using GetReleaseByID_row [OF assms(1)] assms(2) jview_db [OF assms(2)] by simp_all

lemma renderClusterEnv_ID: "renderClusterEnv M c w = (Ok rc, w') \<Longrightarrow> ci_ID rc = ci_ID c"
  unfolding renderClusterEnv_def andthen_Ok_iff
  by (auto simp: ret_def andthen_Ok_iff split: if_splits)

lemma UpdateConfig_linked:
  assumes run: "UpdateConfig M c w = (Ok x, w')" and lk: "linked (a_db (obs (w_db w)))"
  shows "linked (a_db (obs (w_db w')))"
proof -
  have valid: "checkConfigValidity c = None"
    using run by (cases "checkConfigValidity c") (simp_all add: UpdateConfig_def)
  from run [unfolded UpdateConfig_def valid option.case Let_def andthen_Ok_iff or_rollback_Ok_iff]
  show ?thesis
  proof (elim exE conjE, goal_cases)
    case (1 rc w0 tx w1 cur w2 old w3 p w4)
    have eq: "obs (w_db w0) = obs (w_db w)" by (rule calmD [OF calm_helpers(1) 1(1)])
    have id: "ci_ID rc = ci_ID (the c)" by (rule renderClusterEnv_ID [OF 1(1)])
    obtain n where n: "tx = TX n" and j1: "jview n (obs (w_db w0)) any_view (obs (w_db w1))"
      by (rule jview_begin [OF 1(2) lk [folded eq]])
    note cur = jview_read_current [OF 1(3) j1]
    have lk0: "linked (a_db (obs (w_db w0)))" using lk eq by simp
    note j4 = jview_calm [OF calm_helpers(3) 1(5) jview_read_version(3) [OF 1(4) cur(3)]]
    obtain dg rd where p: "p = (dg, rd)" by fastforce
    note 6 = 1(6) [unfolded p prod.case n]
    have id': "ci_ID rc = cc_ConfigInfoID cur" using cur(2) id by simp
    show ?thesis
    proof (cases "isConfigNeedNewVersion old rc dg rd")
      case False
      show ?thesis
        by (rule UpdateConfig_rows_linked [OF 6 [unfolded if_not_P [OF False]] j4 cur(1)])
          (simp_all add: grown_cur [OF _ lk0 cur(1)])
    next
      case True
      note 6 = 6 [unfolded if_P [OF True]]
      show ?thesis
      proof (cases "ci_Format rc = ConfigFormatProperties \<and> ci_TemplateVersionID rc \<noteq> 0 \<and> has_template rc")
        case True
        from 6 [unfolded if_P [OF True] or_rollback_Ok_iff] show ?thesis
        proof (elim exE conjE, goal_cases)
          case (1 t w5)
          have "jview n (obs (w_db w0)) any_view (obs (w_db w5))"
            using j4 calmD [OF reads(13) 1(1)] by simp
          from UpdateConfig_version_linked [OF 1(2) this cur(1)] show ?case by (simp add: id')
        qed
      next
        case False
        from UpdateConfig_version_linked [OF 6 [unfolded if_not_P [OF False]] j4 cur(1)]
        show ?thesis by (simp add: id')
      qed
    qed
  qed
qed

lemma old_release_Ok:
  assumes "old_release M cur w = (Ok (v, i), w')"
  shows "i = cc_LatestReleaseID cur"
proof (cases "cc_LatestReleaseID cur = 0")
  case False
  then obtain old w1 where "on_db (GetReleaseByID (m_db M) (cc_LatestReleaseID cur)) w = (Ok old, w1)" "i = rl_ID old"
    using assms unfolding old_release_def andthen_def
    by (auto simp: attempt_fail_Ok_iff [where f = "\<lambda>e. e", simplified] ret_def split: if_splits)
  then show ?thesis using GetReleaseByID_row by simp
qed (use assms in \<open>simp add: old_release_def ret_def\<close>)

lemma jview_releaseConfig:
  assumes run: "releaseConfig M c (TX n) w = (Ok r, w')" and v: "jview n a0 P (obs (w_db w))"
  shows "jview n a0 any_view (obs (w_db w'))"
  using run [unfolded releaseConfig_def andthen_Ok_iff]
proof (elim exE conjE, goal_cases)
  case (1 cur w1 ver w2 p w3)
  note cur = jview_read_current [OF 1(1) v]
  note ver = jview_read_version [OF 1(2) cur(3)]
  obtain ov oi where p: "p = (ov, oi)" by fastforce
  note j3 = jview_calm [OF calm_helpers(8) 1(3) ver(3)]
  have oi: "oi = cc_LatestReleaseID cur" by (rule old_release_Ok [OF 1(3) [unfolded p]])
  have lk: "linked (a_db a0)" using v by (simp add: jview_def)
  then have lc: "linked_cur (a_db a0) cur" using cur(1) by (simp add: linked_def)
  have "cv_ID ver \<noteq> 0" using lk ver(1) unfolding linked_def by auto
  then have vo: "version_of (a_db a0) (cc_LatestConfigVersionID cur) (ci_ID c)"
    using lc ver(2) cur(2) by (simp add: linked_cur_def)
  note 4 = 1(4) [unfolded p prod.case andthen_Ok_iff]
  from 4 show ?case
  proof (elim exE conjE, goal_cases)
    case (1 new w4 u w5 u' w6)
    note j4 = jview_CreateRelease [OF 1(1) j3, simplified, OF vo]
    have "linked_cur u (cur\<lparr>cc_LatestReleaseID := rl_ID new, cc_PreReleaseID := oi\<rparr>)"
      if "grown (a_db a0) u" "release_of u (rl_ID new) (ci_ID c)" for u
      using grown_cur [OF that(1) lk cur(1)] that(2) cur(2) oi by (simp add: linked_cur_def)
    then have "jview n a0 any_view (obs (w_db w5))"
      by (rule jview_UpdateConfigCurrent [OF 1(2) j4 cur(1), rotated -1]) simp_all
    from jview_UpdateConfigInfo [OF 1(3) this] 1(4) show ?case by (simp add: ret_def)
  qed
qed

lemma jview_release_all:
  "release_all M (TX n) cs fp w = (Ok fp', w') \<Longrightarrow> jview n a0 P (obs (w_db w)) \<Longrightarrow>
    jview n a0 any_view (obs (w_db w'))"
proof (induction cs arbitrary: fp w P)
  case Nil
  then show ?case by (auto simp: ret_def intro: jview_weaken)
next
  case (Cons c cs)
  from Cons.prems(1) [unfolded release_all.simps andthen_Ok_iff] show ?case
  proof (elim exE conjE, goal_cases)
    case (1 r w1 ver w2)
    show ?case
      by (rule Cons.IH [OF 1(3) jview_read_version(3) [OF 1(2) jview_releaseConfig [OF 1(1) Cons.prems(2)]]])
  qed
qed

lemma notify_agent_linked:
  assumes run: "notify_agent M (TX n) c w = (Ok x, w')" and v: "jview n a0 P (obs (w_db w))"
  shows "linked (a_db (obs (w_db w')))"
  using run [unfolded notify_agent_def or_rollback_Ok_iff]
proof (elim exE conjE, goal_cases)
  case (1 resp w1)
  then have "tx_commit M (TX n) w1 = (Ok x, w')"
    by (auto simp: rollback_err_not_Ok split: if_splits)
  then show ?case by (rule jview_commit) (rule jview_calm [OF calm_basic(6) 1(1) v])
qed

lemma ReleaseConfig_linked:
  assumes run: "ReleaseConfig M i w = (Ok x, w')" and lk: "linked (a_db (obs (w_db w)))"
  shows "linked (a_db (obs (w_db w')))"
  using run [unfolded ReleaseConfig_def andthen_Ok_iff or_rollback_Ok_iff]
proof (elim exE conjE, goal_cases)
  case (1 tx w1 c w2 r w3 ver w4 ex w5)
  obtain n where n: "tx = TX n" and j1: "jview n (obs (w_db w)) any_view (obs (w_db w1))"
    by (rule jview_begin [OF 1(1) lk])
  note j2 = jview_calm [OF reads(1) 1(2) j1]
  note j4 = jview_read_version(3) [OF 1(4) jview_releaseConfig [OF 1(3) [unfolded n] j2]]
  show ?case
    by (rule notify_agent_linked [OF 1(6) [unfolded n] jview_calm [OF calm_helpers(7) 1(5) j4]])
qed

lemma with_removed_Ok_iff:
  "with_removed dir m w = (Ok x, w') \<longleftrightarrow>
    (\<exists>w1. m w = (Ok x, w1) \<and> w' = w1\<lparr>w_fs := remove_all dir (w_fs w1)\<rparr>)"
  by (auto simp: with_removed_def split: prod.splits)

lemma ReleaseNamespace_linked:
  assumes run: "ReleaseNamespace M dir siteID ns w = (Ok x, w')" and lk: "linked (a_db (obs (w_db w)))"
  shows "linked (a_db (obs (w_db w')))"
  using run [unfolded ReleaseNamespace_def Let_def andthen_Ok_iff with_removed_Ok_iff]
proof (elim exE conjE, goal_cases)
  case (1 cs w1 u w2 w3 tx w4)
  have eq: "obs (w_db w2) = obs (w_db w)"
    using calmD [OF reads(3) 1(1)] calmD [OF calm_basic(4) [where obs = obs] 1(2)] by simp
  obtain n where n: "tx = TX n" and j1: "jview n (obs (w_db w2)) any_view (obs (w_db w4))"
    by (rule jview_begin [OF 1(4) lk [folded eq]])
  from 1(5) [unfolded or_rollback_Ok_iff] have "linked (a_db (obs (w_db w3)))"
  proof (elim exE conjE, goal_cases)
    case (1 u1 w5 data w6 dg w7 ex w8)
    from 1(1) [unfolded packConfigs_def andthen_Ok_iff]
    have j2: "jview n (obs (w_db w2)) any_view (obs (w_db w5))"
    proof (elim exE conjE, goal_cases)
      case (1 u2 v1 fp v2 t v3)
      note q = jview_release_all [OF 1(2) [unfolded n] jview_calm [OF calm_basic(4) 1(1) j1]]
      show ?case by (rule jview_calm [OF calm_basic(4) 1(4) jview_calm [OF calm_basic(4) 1(3) q]])
    qed
    note j4 = jview_calm [OF calm_basic(5) 1(3) jview_calm [OF calm_basic(4) 1(2) j2]]
    show ?case
      by (rule notify_agent_linked [OF 1(5) [unfolded n] jview_calm [OF calm_helpers(7) 1(4) j4]])
  qed
  then show ?case by (simp add: 1(3))
qed

lemma RollbackConfig_linked:
  assumes run: "RollbackConfig M i j creator w = (Ok x, w')" and lk: "linked (a_db (obs (w_db w)))"
  shows "linked (a_db (obs (w_db w')))"
proof -
  have j: "\<not> j \<noteq> 0"
  proof
    assume "j \<noteq> 0"
    with run show False by (simp add: RollbackConfig_def)
  qed
  from run [unfolded RollbackConfig_def if_not_P [OF j] andthen_Ok_iff or_rollback_Ok_iff] show ?thesis
  proof (elim exE conjE, goal_cases)
    case (1 tx w1 c w2 cur w3)
    obtain n where n: "tx = TX n" and j1: "jview n (obs (w_db w)) any_view (obs (w_db w1))"
      by (rule jview_begin [OF 1(1) lk])
    note cur = jview_read_current [OF 1(3) jview_calm [OF reads(1) 1(2) j1]]
    have pre: "\<not> cc_PreReleaseID cur = 0"
      using 1(4) by (auto simp: rollback_err_not_Ok)
    have lc: "linked_cur (a_db (obs (w_db w))) cur" using lk cur(1) by (simp add: linked_def)
    from 1(4) [unfolded if_not_P [OF pre] n or_rollback_Ok_iff] show ?case
    proof (elim exE conjE, goal_cases)
      case (1 rel w4 ver w5 p w6)
      note rel = jview_read_release [OF 1(1) cur(3)]
      note ver = jview_read_version [OF 1(2) rel(3)]
      note j6 = jview_calm [OF calm_helpers(4) 1(3) ver(3)]
      have "release_of (a_db (obs (w_db w))) (cc_PreReleaseID cur) (cc_ConfigInfoID cur)"
        using lc pre by (simp add: linked_cur_def)
      then have "rl_ConfigInfoID rel = cc_ConfigInfoID cur"
        using linked_release [OF lk _ rel(1,2)] by simp
      then have "version_of (a_db (obs (w_db w))) (rl_ConfigVersionID rel) (cc_ConfigInfoID cur)"
        using lk rel(1) unfolding linked_def by metis
      then have id: "cv_ConfigInfoID ver = cc_ConfigInfoID cur"
        using linked_version [OF lk _ ver(1,2)] by simp
      obtain d t q where p: "p = (d, t, q)" by (cases p) auto
      from 1(4) [unfolded p prod.case or_rollback_Ok_iff] show ?case
      proof (elim exE conjE, goal_cases)
        case (1 late v1 new v2 d1 v3 d2 v4 u v5 u' v6)
        note k1 = jview_read_version(3) [OF 1(1) j6]
        note k2 = jview_CreateConfigVersion [OF 1(2) k1, simplified]
        note k4 = jview_calm [OF calm_basic(5) 1(4) jview_calm [OF calm_basic(5) 1(3) k2]]
        have "jview n (obs (w_db w)) any_view (obs (w_db v5))"
          by (rule jview_UpdateConfigCurrent [OF 1(5) k4 cur(1)])
            (simp_all add: linked_cur_newer [OF _ lk cur(1)] id)
        from jview_commit [OF 1(7) jview_UpdateConfigInfo [OF 1(6) this]] show ?case by simp
      qed
    qed
  qed
qed

text \<open>The template operations do not touch the tables with references.\<close>

lemma AddTemplate_linked:
  assumes run: "AddTemplate M t w = (Ok x, w')" and lk: "linked (a_db (obs (w_db w)))"
  shows "linked (a_db (obs (w_db w')))"
proof -
  have valid: "checkTemplateValidity t = None"
    using run by (cases "checkTemplateValidity t") (simp_all add: AddTemplate_def)
  from run [unfolded AddTemplate_def valid option.case Let_def andthen_Ok_iff or_rollback_Ok_iff]
  show ?thesis
  proof (elim exE conjE, goal_cases)
    case (1 tx w1 tns w2 tp w3 dg w4 tv w5 u w6)
    obtain n where n: "tx = TX n" and j1: "jview n (obs (w_db w)) any_view (obs (w_db w1))"
      by (rule jview_begin [OF 1(1) lk])
    note j3 = jview_CreateTemplate [OF 1(3) [unfolded n] jview_FindOrCreateTemplateNamespace [OF 1(2) [unfolded n] j1]]
    note j5 = jview_CreateTemplateVersion [OF 1(5) [unfolded n] jview_calm [OF calm_helpers(6) 1(4) j3]]
    show ?case by (rule jview_commit [OF 1(7) [unfolded n] jview_UpdateTemplateRow [OF 1(6) [unfolded n] j5]])
  qed
qed

lemma UpdateTemplate_row_linked:
  assumes "UpdateTemplate_row M (TX n) t w = (Ok x, w')" "jview n a0 P (obs (w_db w))"
  shows "linked (a_db (obs (w_db w')))"
  using assms(1) [unfolded UpdateTemplate_row_def or_rollback_Ok_iff]
proof (elim exE conjE, goal_cases)
  case (1 u w1)
  show ?case by (rule jview_commit [OF 1(2) jview_UpdateTemplateRow [OF 1(1) assms(2)]])
qed

lemma UpdateTemplate_linked:
  assumes run: "UpdateTemplate M t w = (Ok x, w')" and lk: "linked (a_db (obs (w_db w)))"
  shows "linked (a_db (obs (w_db w')))"
proof -
  have valid: "checkTemplateValidity t = None"
    using run by (cases "checkTemplateValidity t") (simp_all add: UpdateTemplate_def)
  from run [unfolded UpdateTemplate_def valid option.case Let_def andthen_Ok_iff or_rollback_Ok_iff]
  show ?thesis
  proof (elim exE conjE, goal_cases)
    case (1 st w0 tx w1 old w2 dg w3)
    have eq: "obs (w_db w0) = obs (w_db w)" by (rule calmD [OF reads(11) 1(1)])
    obtain n where n: "tx = TX n" and j1: "jview n (obs (w_db w0)) any_view (obs (w_db w1))"
      by (rule jview_begin [OF 1(2) lk [folded eq]])
    note j3 = jview_calm [OF calm_helpers(6) 1(4) jview_calm [OF reads(13) 1(3) j1]]
    show ?case
    proof (cases "isTemplateNeedNewVersion old (st\<lparr>tp_Data := tp_Data (the t), tp_CreatedBy := tp_CreatedBy (the t)\<rparr>) dg")
      case True
      from 1(5) [unfolded if_P [OF True] n or_rollback_Ok_iff] show ?thesis
      proof (elim exE conjE, goal_cases)
        case (1 v w4)
        show ?case by (rule UpdateTemplate_row_linked [OF 1(2) jview_CreateTemplateVersion [OF 1(1) j3]])
      qed
    next
      case False
      show ?thesis by (rule UpdateTemplate_row_linked [OF 1(5) [unfolded if_not_P [OF False] n] j3])
    qed
  qed
qed

lemma ReloadTemplate_linked:
  assumes run: "ReloadTemplate M i w = (Ok x, w')" and lk: "linked (a_db (obs (w_db w)))"
  shows "linked (a_db (obs (w_db w')))"
  using run [unfolded ReloadTemplate_def andthen_Ok_iff]
proof (elim exE conjE, goal_cases)
  case (1 c w1)
  have eq1: "obs (w_db w1) = obs (w_db w)" by (rule calmD [OF reads(1) 1(1)])
  show ?case
  proof (cases "ci_Format c \<noteq> ConfigFormatProperties")
    case True
    then show ?thesis using 1(2) [unfolded if_P [OF True]] eq1 lk by (simp add: ret_def)
  next
    case False
    have np: "attempt m (\<lambda>_. panic) k s = (Ok y, s'') \<longleftrightarrow> (\<exists>a s'. m s = (Ok a, s') \<and> k a s' = (Ok y, s''))"
      for m :: "('d world, TemplateVersion) proc" and k :: "TemplateVersion \<Rightarrow> ('d world, unit) proc" and s y s''
      by (rule attempt_Ok_iff) (simp add: panic_def)
    from 1(2) [unfolded if_not_P [OF False] andthen_Ok_iff] show ?thesis
    proof (elim exE conjE, goal_cases)
      case (1 rc w2 p w3)
      obtain a b r where p: "p = (a, b, r)" by (cases p) auto
      from 1(3) [unfolded p prod.case np andthen_Ok_iff] show ?case
      proof (elim exE conjE, goal_cases)
        case (1 tv w4 q w5)
        have "obs (w_db w5) = obs (w_db w)"
          using eq1 calmD [OF calm_helpers(1) \<open>renderClusterEnv M c w1 = (Ok rc, w2)\<close>]
            calmD [OF calm_helpers(5) \<open>visitConfigData M rc w2 = (Ok p, w3)\<close>]
            calmD [OF calm_helpers(2) 1(1)] calmD [OF calm_basic(4) [where obs = obs] 1(2)] by simp
        moreover obtain s t where q: "q = (s, t)" by fastforce
        ultimately show ?case using UpdateConfig_linked [OF 1(3) [unfolded q prod.case]] lk by simp
      qed
    qed
  qed
qed

lemma handle_linked:
  assumes lk: "linked (a_db (obs (w_db w)))"
  shows "linked (a_db (obs (w_db (snd (handle M c w)))))"
proof -
  obtain r w' where run: "handle M c w = (r, w')" by fastforce
  have d: "done_op (obs (w_db w)) r (obs (w_db w'))"
    using atomicD [OF atomic_handle [of c], of w] run by simp
  show ?thesis
  proof (cases r)
    case (Ok x)
    have "linked (a_db (obs (w_db w')))"
    proof (cases c)
      case (Call_DeleteConfig i)
      then show ?thesis using run lk by (simp add: DeleteConfig_def ret_def)
    next
      case (Call_DeleteTemplate i)
      then show ?thesis using run lk by (simp add: DeleteTemplate_def ret_def)
    qed (use run Ok lk in \<open>auto intro: AddConfig_linked UpdateConfig_linked ReleaseConfig_linked
          ReleaseNamespace_linked RollbackConfig_linked ReloadTemplate_linked AddTemplate_linked UpdateTemplate_linked\<close>)
    then show ?thesis by (simp add: run)
  next
    case (Err e)
    then show ?thesis using d lk by (simp add: done_op_def run)
  next
    case Panic
    then show ?thesis using d lk by (simp add: done_op_def run)
  qed
qed

lemma run_calls_linked:
  "linked (a_db (obs (w_db w))) \<Longrightarrow> linked (a_db (obs (w_db (run_calls M cs w))))"
  by (induction cs arbitrary: w) (simp_all add: handle_linked)

end

end
