(* ===== verification/Manager_Spec.thy ===== *)
theory Manager_Spec
  imports Manager_Calls Mem_DB
begin

section \<open>Properties of the config manager\<close>

text \<open>
  The calls of the interface as the code promises them: they fail without a trace, they keep
  the references between the rows, and a successful release, update or rollback has
  the stated rows. All of it holds for every database with the laws of \<open>gorm_db\<close>; the witnesses
  run on the database in memory.
\<close>

subsection \<open>Effects of a release, an update and a rollback\<close>

text \<open>The contents after a release \<open>r\<close> of the config \<open>c\<close> with the current state \<open>cur\<close>.\<close>

definition released :: "ConfigInfo \<Rightarrow> ConfigCurrent \<Rightarrow> Release \<Rightarrow> db_view \<Rightarrow> db_view" where
  "released c cur r v = v\<lparr>v_release := v_release v @ [r],
     v_current := map (\<lambda>x. if cc_ID x = cc_ID cur then ConfigCurrent_merge x
       (cur\<lparr>cc_LatestReleaseID := rl_ID r, cc_PreReleaseID := cc_LatestReleaseID cur\<rparr>) else x) (v_current v),
     v_info := map (\<lambda>x. if ci_ID x = ci_ID c then ConfigInfo_merge x (c\<lparr>ci_Status := ConfigStatusReleased\<rparr>)
       else x) (v_info v)\<rparr>"

text \<open>What a release is made from: the config's current version, and the number after the last release.\<close>

definition release_ok :: "db_view \<Rightarrow> ConfigInfo \<Rightarrow> ConfigCurrent \<Rightarrow> ConfigVersion \<Rightarrow> Release \<Rightarrow> bool" where
  "release_ok D c cur ver r \<longleftrightarrow> cur \<in> set (v_current D) \<and> cc_ConfigInfoID cur = ci_ID c
     \<and> ver \<in> set (v_version D) \<and> cv_ID ver = cc_LatestConfigVersionID cur
     \<and> rl_ConfigInfoID r = ci_ID c \<and> rl_ConfigVersionID r = cv_ID ver \<and> rl_Digest r = cv_Digest ver
     \<and> rl_ID r \<noteq> 0 \<and> rl_ID r \<notin> rl_ID ` set (v_release D)
     \<and> (if cc_LatestReleaseID cur = 0 then rl_Version r = 1
        else \<exists>old\<in>set (v_release D). rl_ID old = cc_LatestReleaseID cur
               \<and> rl_ConfigVersionID old \<noteq> cv_ID ver \<and> rl_Version r = rl_Version old + 1)"

definition nsfile_req :: "ConfigVersion \<Rightarrow> string \<Rightarrow> cmd_req" where
  "nsfile_req ver peer = \<lparr>rq_name = ''nsfile'',
     rq_args = [(''namespace'', cv_Namespace ver), (''filename'', cv_Name ver),
                (''version'', u64_str (cv_Version ver))], rq_peer = peer\<rparr>"

text \<open>The contents after the new version \<open>ver\<close> became current, and after the config's row was saved as \<open>c\<close>.\<close>

definition versioned :: "ConfigInfo \<Rightarrow> ConfigCurrent \<Rightarrow> ConfigVersion \<Rightarrow> db_view \<Rightarrow> db_view" where
  "versioned c cur ver v = v\<lparr>v_version := v_version v @ [ver],
     v_current := map (\<lambda>x. if cc_ID x = cc_ID cur then ConfigCurrent_merge x
       (cur\<lparr>cc_LatestConfigVersionID := cv_ID ver\<rparr>) else x) (v_current v),
     v_info := map (\<lambda>x. if ci_ID x = ci_ID c then ConfigInfo_merge x c else x) (v_info v)\<rparr>"

definition resaved :: "ConfigInfo \<Rightarrow> ConfigCurrent \<Rightarrow> db_view \<Rightarrow> db_view" where
  "resaved c cur v = v\<lparr>
     v_current := map (\<lambda>x. if cc_ID x = cc_ID cur then ConfigCurrent_merge x cur else x) (v_current v),
     v_info := map (\<lambda>x. if ci_ID x = ci_ID c then ConfigInfo_merge x c else x) (v_info v)\<rparr>"

text \<open>A rollback makes a new version out of the one released before.\<close>

definition rolled_back :: "ConfigVersion \<Rightarrow> u64 \<Rightarrow> string \<Rightarrow> u64 \<Rightarrow> ConfigVersion" where
  "rolled_back pre number creator i = pre\<lparr>cv_ID := i, cv_DeletedAt := None, cv_Version := number + 1,
     cv_CreatedBy := creator, cv_Status := ConfigVersionRollback\<rparr>"

definition update_ok :: "db_view \<Rightarrow> ConfigInfo \<Rightarrow> ConfigVersion \<Rightarrow> string \<Rightarrow> ConfigVersion \<Rightarrow> bool" where
  "update_ok D c old digest ver \<longleftrightarrow> cv_ID ver \<notin> cv_ID ` set (v_version D) \<and> cv_Version ver = cv_Version old + 1
     \<and> cv_ConfigInfoID ver = ci_ID c \<and> cv_Digest ver = digest \<and> cv_Status ver = ConfigVersionUpdate
     \<and> cv_Name ver = ci_Name c \<and> cv_Namespace ver = ci_Namespace c \<and> cv_SiteID ver = ci_SiteID c"

context gorm_db
begin

lemma old_release_cases:
  assumes "old_release M cur w = (Ok (v, i), w')"
  shows "if cc_LatestReleaseID cur = 0 then v = 0 \<and> i = 0
    else \<exists>old\<in>set (v_release (a_db (obs (w_db w)))). rl_ID old = cc_LatestReleaseID cur
      \<and> rl_ConfigVersionID old \<noteq> cc_LatestConfigVersionID cur \<and> v = rl_Version old \<and> i = rl_ID old"
    "same w w'"
proof -
  have "(if cc_LatestReleaseID cur = 0 then v = 0 \<and> i = 0
    else \<exists>old\<in>set (v_release (a_db (obs (w_db w)))). rl_ID old = cc_LatestReleaseID cur
      \<and> rl_ConfigVersionID old \<noteq> cc_LatestConfigVersionID cur \<and> v = rl_Version old \<and> i = rl_ID old)
    \<and> same w w'"
  proof (cases "cc_LatestReleaseID cur \<noteq> 0")
    case True
    from assms [unfolded old_release_def if_P [OF True] andthen_Ok_iff] show ?thesis
    proof (elim exE conjE, goal_cases)
      case (1 old w1)
      note row = GetReleaseByID_row [OF 1(1)]
      have "rl_ConfigVersionID old \<noteq> cc_LatestConfigVersionID cur \<and> v = rl_Version old \<and> i = rl_ID old \<and> w1 = w'"
        using 1(2) by (auto simp: ret_def split: if_splits)
      with row True show ?case by auto
    qed
  qed (use assms in \<open>simp add: old_release_def ret_def\<close>)
  then show "if cc_LatestReleaseID cur = 0 then v = 0 \<and> i = 0
    else \<exists>old\<in>set (v_release (a_db (obs (w_db w)))). rl_ID old = cc_LatestReleaseID cur
      \<and> rl_ConfigVersionID old \<noteq> cc_LatestConfigVersionID cur \<and> v = rl_Version old \<and> i = rl_ID old"
    "same w w'" by blast+
qed

lemma releaseConfig_view:
  assumes run: "releaseConfig M c (TX n) w = (Ok r, w')" and v: "tx_view n a0 ov (obs (w_db w))"
    and ov: "ov = None \<or> ov = Some (a_db a0)"
  obtains cur ver where "release_ok (a_db a0) c cur ver r"
    "tx_view n a0 (Some (released c cur r (a_db a0))) (obs (w_db w'))" "same w w'"
  using run [unfolded releaseConfig_def andthen_Ok_iff]
proof (elim exE conjE, goal_cases)
  case (1 cur w1 ver w2 p w3)
  let ?D = "a_db a0"
  note cur = GetConfigCurrent_row [OF 1(2)]
  note ver = GetConfigVersionByID_row [OF 1(3)]
  obtain nr oi where p: "p = (nr, oi)" by fastforce
  note old = old_release_cases [OF 1(4) [unfolded p]]
  have o3: "obs (w_db w3) = obs (w_db w)" using calmD [OF calm_helpers(8) 1(4)] ver(2) cur(2) by simp
  have D: "a_db (obs (w_db w)) = ?D" by (rule tx_view_db [OF v])
  have oi: "oi = cc_LatestReleaseID cur" using old(1) by (auto split: if_splits)
  from 1(5) [unfolded p oi prod.case andthen_Ok_iff] show ?case
  proof (elim exE conjE, goal_cases)
    case (1 new w4 u w5 u' w6)
    have r: "r = new" "w' = w6" using 1(4) by (simp_all add: ret_def)
    obtain v4: "tx_view n a0 (Some (?D\<lparr>v_release := v_release ?D @ [new]\<rparr>)) (obs (w_db w4))"
      and new: "rl_ID new \<noteq> 0" "rl_ID new \<notin> rl_ID ` set (v_release ?D)" "same w3 w4"
        "new = Release_zero\<lparr>rl_Version := nr + 1, rl_Desc := ci_Desc c, rl_CreatedBy := ci_CreatedBy c,
           rl_Status := ''created'', rl_ConfigInfoID := ci_ID c,
           rl_ConfigVersionID := cc_LatestConfigVersionID cur, rl_Digest := cv_Digest ver, rl_ID := rl_ID new\<rparr>"
      by (rule CreateRelease_view [OF 1(1) v [folded o3]]) (use ov in auto)
    have new': "rl_ConfigInfoID new = ci_ID c" "rl_ConfigVersionID new = cc_LatestConfigVersionID cur"
      "rl_Digest new = cv_Digest ver" "rl_Version new = nr + 1"
      using arg_cong [OF new(4), of rl_ConfigInfoID] arg_cong [OF new(4), of rl_ConfigVersionID]
        arg_cong [OF new(4), of rl_Digest] arg_cong [OF new(4), of rl_Version] by simp_all
    have "release_ok ?D c cur ver new"
      using cur(1) ver(1) old(1) new(1,2) new' D cur(2) ver(2) by (auto simp: release_ok_def split: if_splits)
    moreover obtain v5: "tx_view n a0 (Some (?D\<lparr>v_release := v_release ?D @ [new], v_current := map (\<lambda>x. if cc_ID x = cc_ID cur
        then ConfigCurrent_merge x (cur\<lparr>cc_LatestReleaseID := rl_ID new, cc_PreReleaseID := cc_LatestReleaseID cur\<rparr>) else x)
        (v_current ?D)\<rparr>)) (obs (w_db w5))" and s5: "same w4 w5"
      by (rule UpdateConfigCurrent_view [OF 1(2) v4]) auto
    moreover have "tx_view n a0 (Some (released c cur new ?D)) (obs (w_db w6)) \<and> same w5 w6"
      by (rule UpdateConfigInfo_view [OF 1(3) v5]) (simp add: released_def)
    moreover have "same w w6"
      using cur(3) ver(3) old(2) new(3) s5 calculation(4) by (auto simp: same_def)
    ultimately show ?case using 1 r that by blast
  qed
qed

lemma getConnKey_row:
  assumes "getConnKeyFromSiteID M s w = (Ok k, w')"
  shows "k \<noteq> [] \<and> (\<exists>cl\<in>set (v_cluster (a_db (obs (w_db w)))). cl_SiteID cl = s \<and> cl_ConnKey cl = k)"
    "same w w'"
proof -
  obtain cl where cl: "on_db (GetClusterBySiteID (m_db M) s) w = (Ok cl, w')" "cl_ConnKey cl \<noteq> []" "k = cl_ConnKey cl"
    using assms unfolding getConnKeyFromSiteID_def andthen_Ok_iff by (auto simp: ret_def split: if_splits)
  show "k \<noteq> [] \<and> (\<exists>cl\<in>set (v_cluster (a_db (obs (w_db w)))). cl_SiteID cl = s \<and> cl_ConnKey cl = k)" "same w w'"
    using GetClusterBySiteID_row [OF cl(1)] cl(2,3) by auto
qed

lemma notify_agent_view:
  assumes run: "notify_agent M (TX n) c w = (Ok x, w')" and v: "tx_view n a0 (Some u) (obs (w_db w))"
  shows "committed a0 u (obs (w_db w'))" "w_sent w' = w_sent w @ [c]" "w_fs w' = w_fs w"
proof -
  have "committed a0 u (obs (w_db w')) \<and> w_sent w' = w_sent w @ [c] \<and> w_fs w' = w_fs w"
    using run [unfolded notify_agent_def or_rollback_Ok_iff]
  proof (elim exE conjE, goal_cases)
    case (1 resp w1)
    then have cm: "tx_commit M (TX n) w1 = (Ok x, w')" by (auto simp: rollback_err_not_Ok split: if_splits)
    have w1: "w1 = w\<lparr>w_sent := w_sent w @ [c]\<rparr>" using 1(1) by (simp add: SendSync_def)
    have "tx_view n a0 (Some u) (obs (w_db w1))" using v w1 by simp
    from commit_view [OF cm this] w1 show ?case by (simp add: same_def)
  qed
  then show "committed a0 u (obs (w_db w'))" "w_sent w' = w_sent w @ [c]" "w_fs w' = w_fs w" by blast+
qed

lemma ReleaseConfig_effect:
  assumes run: "ReleaseConfig M i w = (Ok x, w')" and lk: "linked (a_db (obs (w_db w)))"
  shows "\<exists>c cur ver r peer. c \<in> set (v_info (a_db (obs (w_db w)))) \<and> ci_ID c = i
    \<and> release_ok (a_db (obs (w_db w))) c cur ver r
    \<and> committed (obs (w_db w)) (released c cur r (a_db (obs (w_db w)))) (obs (w_db w'))
    \<and> (\<exists>cl\<in>set (v_cluster (a_db (obs (w_db w)))). cl_SiteID cl = ci_SiteID c \<and> cl_ConnKey cl = peer)
    \<and> w_sent w' = w_sent w @ [nsfile_req ver peer] \<and> w_fs w' = w_fs w"
  using run [unfolded ReleaseConfig_def andthen_Ok_iff or_rollback_Ok_iff]
proof (elim exE conjE, goal_cases)
  case (1 tx w1 c w2 r w3 ver2 w4 peer w5)
  let ?D = "a_db (obs (w_db w))"
  obtain n ov where n: "tx = TX n" and v1: "tx_view n (obs (w_db w)) ov (obs (w_db w1))"
    and ov: "ov = None \<or> ov = Some ?D" and s1: "same w w1" by (rule begin_view [OF 1(1)])
  note c = GetConfigInfoByID_row [OF 1(2)]
  obtain cur ver where ok: "release_ok ?D c cur ver r"
    and v3: "tx_view n (obs (w_db w)) (Some (released c cur r ?D)) (obs (w_db w3))" and s3: "same w2 w3"
    by (rule releaseConfig_view [OF 1(3) [unfolded n] v1 [folded c(2)] ov])
  have D: "a_db (obs (w_db w1)) = ?D" "a_db (obs (w_db w3)) = ?D" using tx_view_db v1 v3 by blast+
  note ver2 = GetConfigVersionByID_row [OF 1(4)]
  have "ver2 = ver"
    by (rule inj_onD [of cv_ID "set (v_version ?D)"])
      (use lk ok ver2(1) D(2) in \<open>simp_all add: linked_def release_ok_def\<close>)
  note key = getConnKey_row [OF 1(5)]
  have o5: "obs (w_db w5) = obs (w_db w3)" using calmD [OF calm_helpers(7) 1(5)] ver2(2) by simp
  note nt = notify_agent_view [OF 1(6) [unfolded n] v3 [folded o5]]
  have "same w w5" using s1 c(3) s3 ver2(3) key(2) by (simp add: same_def)
  moreover have "a_db (obs (w_db w4)) = ?D" using ver2(2) D(2) by simp
  moreover have "c \<in> set (v_info ?D) \<and> ci_ID c = i" using c(1) D(1) by simp
  ultimately show ?case
    using ok nt [folded nsfile_req_def] key(1) \<open>ver2 = ver\<close> unfolding same_def by metis
qed

lemma info_current_commute:
  "(v :: db_view)\<lparr>v_info := a, v_current := b\<rparr> = v\<lparr>v_current := b, v_info := a\<rparr>"
  by (cases v) simp

lemma UpdateConfig_rows_view:
  assumes run: "UpdateConfig_rows M (TX n) c cur w = (Ok x, w')" and v: "tx_view n a0 ov (obs (w_db w))"
  obtains u where "ov = Some u" "committed a0 (resaved c cur u) (obs (w_db w'))" "same w w'"
  using run [unfolded UpdateConfig_rows_def or_rollback_Ok_iff]
proof (elim exE conjE, goal_cases)
  case (1 u1 w1 u2 w2)
  obtain u where u: "ov = Some u" and v1: "tx_view n a0 (Some (u\<lparr>v_info := map (\<lambda>x. if ci_ID x = ci_ID c
      then ConfigInfo_merge x c else x) (v_info u)\<rparr>)) (obs (w_db w1))" and s1: "same w w1"
    by (rule UpdateConfigInfo_view [OF 1(2) v])
  obtain v2: "tx_view n a0 (Some (resaved c cur u)) (obs (w_db w2))" and s2: "same w1 w2"
    by (rule UpdateConfigCurrent_view [OF 1(3) v1])
      (auto simp: resaved_def info_current_commute)
  from commit_view [OF 1(4) v2] s1 s2 u 1(1) show ?case by (simp add: same_def)
qed

lemma versioned_resaved:
  "resaved c (cur\<lparr>cc_LatestConfigVersionID := cv_ID ver\<rparr>) (v\<lparr>v_version := v_version v @ [ver]\<rparr>) = versioned c cur ver v"
  by (simp add: resaved_def versioned_def)

lemma UpdateConfig_version_view:
  assumes run: "UpdateConfig_version M (TX n) c cur r w = (Ok x, w')" and v: "tx_view n a0 ov (obs (w_db w))"
  obtains u ver where "ov = Some u" "ver = r\<lparr>cv_ID := cv_ID ver\<rparr>" "cv_ID ver \<notin> cv_ID ` set (v_version u)"
    "committed a0 (versioned (if ci_Status c \<noteq> ConfigStatusCreated then c\<lparr>ci_Status := ConfigStatusUpdated\<rparr> else c)
        cur ver u) (obs (w_db w'))" "same w w'"
  using run [unfolded UpdateConfig_version_def or_rollback_Ok_iff]
proof (elim exE conjE, goal_cases)
  case (1 ver w1)
  obtain u where u: "ov = Some u" and v1: "tx_view n a0 (Some (u\<lparr>v_version := v_version u @ [ver]\<rparr>)) (obs (w_db w1))"
    and ver: "ver = r\<lparr>cv_ID := cv_ID ver\<rparr>" "cv_ID ver \<notin> cv_ID ` set (v_version u)" and s1: "same w w1"
    by (rule CreateConfigVersion_view [OF 1(2) v])
  obtain u' where u': "Some (u\<lparr>v_version := v_version u @ [ver]\<rparr>) = Some u'"
    "committed a0 (resaved (if ci_Status c \<noteq> ConfigStatusCreated then c\<lparr>ci_Status := ConfigStatusUpdated\<rparr> else c)
        (cur\<lparr>cc_LatestConfigVersionID := cv_ID ver\<rparr>) u') (obs (w_db w'))" and s2: "same w1 w'"
    by (rule UpdateConfig_rows_view [OF 1(3) v1])
  have "u' = u\<lparr>v_version := v_version u @ [ver]\<rparr>" using u'(1) by simp
  from u'(2) [unfolded this versioned_resaved] 1(1) u ver s1 s2 show ?case by (simp add: same_def)
qed

lemma RollbackConfig_effect:
  assumes run: "RollbackConfig M i j creator w = (Ok x, w')" and lk: "linked (a_db (obs (w_db w)))"
  shows "j = 0 \<and> (\<exists>c cur rel pre late k. let D = a_db (obs (w_db w)) in
      c \<in> set (v_info D) \<and> ci_ID c = i \<and> cur \<in> set (v_current D) \<and> cc_ConfigInfoID cur = i
      \<and> cc_PreReleaseID cur \<noteq> 0 \<and> rel \<in> set (v_release D) \<and> rl_ID rel = cc_PreReleaseID cur
      \<and> pre \<in> set (v_version D) \<and> cv_ID pre = rl_ConfigVersionID rel \<and> cv_ConfigInfoID pre = i
      \<and> late \<in> set (v_version D) \<and> cv_ID late = cc_LatestConfigVersionID cur
      \<and> k \<notin> cv_ID ` set (v_version D)
      \<and> committed (obs (w_db w)) (versioned (c\<lparr>ci_Status := ConfigStatusUpdated\<rparr>) cur
          (rolled_back pre (cv_Version late) creator k) D) (obs (w_db w')))"
proof -
  let ?D = "a_db (obs (w_db w))"
  have j: "\<not> j \<noteq> 0"
  proof
    assume "j \<noteq> 0"
    with run show False by (simp add: RollbackConfig_def)
  qed
  from run [unfolded RollbackConfig_def if_not_P [OF j] andthen_Ok_iff or_rollback_Ok_iff] show ?thesis
  proof (elim exE conjE, goal_cases)
    case (1 tx w1 c w2 cur w3)
    obtain n ov where n: "tx = TX n" and v1: "tx_view n (obs (w_db w)) ov (obs (w_db w1))"
      and ov: "ov = None \<or> ov = Some ?D" by (rule begin_view [OF 1(1)])
    note c = GetConfigInfoByID_row [OF 1(2)] and cur = GetConfigCurrent_row [OF 1(3)]
    have D1: "a_db (obs (w_db w1)) = ?D" by (rule tx_view_db [OF v1])
    have p0: "\<not> cc_PreReleaseID cur = 0" using 1(4) by (auto simp: rollback_err_not_Ok)
    from 1(4) [unfolded if_not_P [OF p0] n or_rollback_Ok_iff] show ?case
    proof (elim exE conjE, goal_cases)
      case (1 rel w4 pre w5 p w6)
      note rel = GetReleaseByID_row [OF 1(1)] and pre = GetConfigVersionByID_row [OF 1(2)]
      have o6: "obs (w_db w6) = obs (w_db w1)"
        using calmD [OF calm_helpers(4) 1(3)] pre(2) rel(2) cur(2) c(2) by simp
      obtain d t q where p: "p = (d, t, q)" by (cases p) auto
      from 1(4) [unfolded p prod.case or_rollback_Ok_iff] show ?case
      proof (elim exE conjE, goal_cases)
        case (1 late y1 new y2 d1 y3 d2 y4 u y5 u' y6)
        note late = GetConfigVersionByID_row [OF 1(1)]
        have oy1: "obs (w_db y1) = obs (w_db w1)" using late(2) o6 by simp
        obtain v2: "tx_view n (obs (w_db w)) (Some (?D\<lparr>v_version := v_version ?D @ [new]\<rparr>)) (obs (w_db y2))"
          and new: "new = rolled_back pre (cv_Version late) creator (cv_ID new)" "cv_ID new \<notin> cv_ID ` set (v_version ?D)"
          by (rule CreateConfigVersion_view [OF 1(2) v1 [folded oy1]])
            (cases pre, use ov in \<open>auto simp: rolled_back_def ConfigVersion_zero_def\<close>)
        have oy4: "obs (w_db y4) = obs (w_db y2)"
          using calmD [OF calm_basic(5) [where obs = obs] 1(3)] calmD [OF calm_basic(5) [where obs = obs] 1(4)] by simp
        obtain v5: "tx_view n (obs (w_db w)) (Some (?D\<lparr>v_version := v_version ?D @ [new],
             v_current := map (\<lambda>x. if cc_ID x = cc_ID cur then ConfigCurrent_merge x
               (cur\<lparr>cc_LatestConfigVersionID := cv_ID new\<rparr>) else x) (v_current ?D)\<rparr>)) (obs (w_db y5))"
          by (rule UpdateConfigCurrent_view [OF 1(5) v2 [folded oy4]]) auto
        obtain v6: "tx_view n (obs (w_db w)) (Some (versioned (c\<lparr>ci_Status := ConfigStatusUpdated\<rparr>) cur new ?D)) (obs (w_db y6))"
          by (rule UpdateConfigInfo_view [OF 1(6) v5]) (auto simp: versioned_def)
        note cm = commit_view(1) [OF 1(7) v6]
        have Dv: "a_db (obs (w_db w2)) = ?D" "a_db (obs (w_db w3)) = ?D" "a_db (obs (w_db w4)) = ?D"
          "a_db (obs (w_db w6)) = ?D"
          using c(2) cur(2) rel(2) o6 D1 by simp_all
        have "linked_cur ?D cur" using lk cur(1) Dv by (simp add: linked_def)
        then have "release_of ?D (cc_PreReleaseID cur) i" using p0 cur(1) by (simp add: linked_cur_def)
        then have "rl_ConfigInfoID rel = i" using linked_release [OF lk] rel(1) Dv by simp
        then have "version_of ?D (rl_ConfigVersionID rel) i" using lk rel(1) Dv unfolding linked_def by metis
        then have "cv_ConfigInfoID pre = i" using linked_version [OF lk] pre(1) Dv by simp
        with j c(1) cur(1) p0 rel(1) pre(1) late(1) new(2) cm [folded new(1)] D1 Dv new show ?case
          unfolding Let_def by metis
      qed
    qed
  qed
qed

lemma renderClusterEnv_Ok:
  assumes "renderClusterEnv M c w = (Ok rc, w')"
  shows "\<exists>ns. rc = c\<lparr>ci_TemplateNamespace := ns\<rparr>"
proof -
  have "rc = c \<or> (\<exists>ns. rc = c\<lparr>ci_TemplateNamespace := ns\<rparr>)"
    using assms unfolding renderClusterEnv_def andthen_Ok_iff
    by (auto simp: ret_def andthen_Ok_iff split: if_splits)
  moreover have "c = c\<lparr>ci_TemplateNamespace := ci_TemplateNamespace c\<rparr>" by simp
  ultimately show ?thesis by blast
qed

text \<open>The new version of an update: the next number, of the rendered config, with the stored digest.\<close>

lemma UpdateConfig_effect:
  assumes run: "UpdateConfig M (Some c) w = (Ok x, w')"
  shows "\<exists>cur old rc digest repl ws ws'. let D = a_db (obs (w_db w)) in
      cur \<in> set (v_current D) \<and> cc_ConfigInfoID cur = ci_ID c
      \<and> old \<in> set (v_version D) \<and> cv_ID old = cc_LatestConfigVersionID cur
      \<and> (\<exists>ns. rc = c\<lparr>ci_TemplateNamespace := ns\<rparr>)
      \<and> storeConfigData M rc (cv_Version old + 1) ws = (Ok (digest, repl), ws')
      \<and> (if isConfigNeedNewVersion old rc digest repl
         then \<exists>ver c'. update_ok D c old digest ver \<and> ci_ID c' = ci_ID c
                \<and> committed (obs (w_db w)) (versioned c' cur ver D) (obs (w_db w'))
         else committed (obs (w_db w)) (resaved c cur D) (obs (w_db w')))"
proof -
  let ?D = "a_db (obs (w_db w))"
  have valid: "checkConfigValidity (Some c) = None"
    using run by (cases "checkConfigValidity (Some c)") (simp_all add: UpdateConfig_def)
  from run [unfolded UpdateConfig_def valid option.case Let_def option.sel andthen_Ok_iff or_rollback_Ok_iff]
  show ?thesis
  proof (elim exE conjE, goal_cases)
    case (1 rc w0 tx w1 cur w2 old w3 p w4)
    have eq: "obs (w_db w0) = obs (w_db w)" by (rule calmD [OF calm_helpers(1) 1(1)])
    obtain ns where rc: "rc = c\<lparr>ci_TemplateNamespace := ns\<rparr>" using renderClusterEnv_Ok [OF 1(1)] by blast
    obtain n ov where n: "tx = TX n" and v1: "tx_view n (obs (w_db w)) ov (obs (w_db w1))"
      and ov: "ov = None \<or> ov = Some ?D" by (rule begin_view [OF 1(2)]) (simp add: eq)
    have D1: "a_db (obs (w_db w1)) = ?D" by (rule tx_view_db [OF v1])
    note cur = GetConfigCurrent_row [OF 1(3)] and old = GetConfigVersionByID_row [OF 1(4)]
    have v4: "tx_view n (obs (w_db w)) ov (obs (w_db w4))"
      using v1 calmD [OF calm_helpers(3) 1(5)] old(2) cur(2) by simp
    obtain dg rd where p: "p = (dg, rd)" by fastforce
    note 6 = 1(6) [unfolded p prod.case n]
    have rows: "cur \<in> set (v_current ?D)" "cc_ConfigInfoID cur = ci_ID c" "old \<in> set (v_version ?D)"
      "cv_ID old = cc_LatestConfigVersionID cur"
      using cur old D1 by simp_all
    let ?done = "if isConfigNeedNewVersion old rc dg rd
         then \<exists>ver c'. update_ok ?D c old dg ver \<and> ci_ID c' = ci_ID c
                \<and> committed (obs (w_db w)) (versioned c' cur ver ?D) (obs (w_db w'))
         else committed (obs (w_db w)) (resaved c cur ?D) (obs (w_db w'))"
    have "?done"
    proof (cases "isConfigNeedNewVersion old rc dg rd")
      case False
      from UpdateConfig_rows_view [OF 6 [unfolded if_not_P [OF False]] v4] ov False show ?thesis by auto
    next
      case need: True
      note 6 = 6 [unfolded if_P [OF need]]
      have made: ?thesis if "UpdateConfig_version M (TX n) c1 cur r w5 = (Ok x, w')" "obs (w_db w5) = obs (w_db w4)"
        "ci_ID c1 = ci_ID c" "cv_ConfigInfoID r = ci_ID c" "cv_Version r = cv_Version old + 1"
        "cv_Digest r = dg" "cv_Status r = ConfigVersionUpdate" "cv_Name r = ci_Name c"
        "cv_Namespace r = ci_Namespace c" "cv_SiteID r = ci_SiteID c" for c1 r w5
      proof (rule UpdateConfig_version_view [OF that(1) v4 [folded that(2)]], goal_cases)
        case (1 u ver)
        have u: "u = ?D" using 1(1) ov by auto
        have f: "cv_ConfigInfoID ver = cv_ConfigInfoID r" "cv_Version ver = cv_Version r" "cv_Digest ver = cv_Digest r"
          "cv_Status ver = cv_Status r" "cv_Name ver = cv_Name r" "cv_Namespace ver = cv_Namespace r" "cv_SiteID ver = cv_SiteID r"
          by (subst 1(2), simp)+
        have "update_ok ?D c old dg ver" using 1(3) u that f by (simp add: update_ok_def)
        moreover have "ci_ID (if ci_Status c1 \<noteq> ConfigStatusCreated then c1\<lparr>ci_Status := ConfigStatusUpdated\<rparr> else c1) = ci_ID c"
          using that(3) by simp
        ultimately show ?case using 1(4) u need by (simp only: if_True) blast
      qed
      show ?thesis
      proof (cases "ci_Format rc = ConfigFormatProperties \<and> ci_TemplateVersionID rc \<noteq> 0 \<and> has_template rc")
        case True
        from 6 [unfolded if_P [OF True] or_rollback_Ok_iff] show ?thesis
        proof (elim exE conjE, goal_cases)
          case (1 t w5)
          have "obs (w_db w5) = obs (w_db w4)" using calmD [OF reads(13) 1(1)] .
          with 1(2) show ?case by (rule made) (simp_all add: rc)
        qed
      next
        case False
        from 6 [unfolded if_not_P [OF False]] show ?thesis by (rule made) (simp_all add: rc)
      qed
    qed
    with rows rc 1(5) [unfolded p] show ?case unfolding Let_def by blast
  qed
qed

end

end
