(* ===== verification/Manager_Props.thy ===== *)
theory Manager_Props
  imports Manager_Spec
begin

section \<open>The promises of the config manager\<close>






text \<open>
  A config or a template that fails the checks is refused before anything happens.
\<close>

theorem invalid_refused:
  assumes "checkConfigValidity c = Some e" and "checkTemplateValidity t = Some e'"
  shows "AddConfig M c w = (Err e, w) \<and> UpdateConfig M c w = (Err e, w)
    \<and> AddTemplate M t w = (Err e', w) \<and> UpdateTemplate M t w = (Err e', w)"
  using assms by (simp add: AddConfig_def UpdateConfig_def AddTemplate_def UpdateTemplate_def fail_def)

text \<open>
  \<open>ReloadTemplate\<close> reports success for a config it does not support: nothing happens and no
  error is returned.
\<close>

theorem reload_unsupported_succeeds:
  assumes "on_db (GetConfigInfoByID (m_db M) i) w = (Ok c, w1)" and "ci_Format c \<noteq> ConfigFormatProperties"
  shows "ReloadTemplate M i w = (Ok (), w1)"
  using assms by (simp add: ReloadTemplate_def andthen_Ok ret_def)

text \<open>
  The import of a file whose content has not changed returns without ending its
  transaction, which stays open in the database.
\<close>

theorem import_leaks_transaction:
  "\<exists>w'. createOrUpdateConfig demo_manager ''app.txt'' ''ns'' ''s1'' [] ''u'' ([''a''], None) (demo_world demo_rows)
      = (Ok (), w')
    \<and> a_tx (mem_obs (w_db w')) 1 = Some (demo_rows, demo_rows)"
proof -
  let ?r = "createOrUpdateConfig demo_manager ''app.txt'' ''ns'' ''s1'' [] ''u'' ([''a''], None) (demo_world demo_rows)"
  have "fst ?r = Ok () \<and> mem_txs (w_db (snd ?r)) = [(1, demo_rows, demo_rows)]" by code_simp
  then show ?thesis by (intro exI [of _ "snd ?r"]) (simp add: prod_eq_iff)
qed

subsection \<open>Witnesses\<close>

lemma demo_gorm: "gorm_db demo_manager mem_obs"
  by (rule mem_gorm_laws) (simp add: demo_manager_def)

lemma demo_obs: "a_db (mem_obs (w_db (demo_world v))) = v" "a_tx (mem_obs (w_db (demo_world v))) = Map.empty"
  by (simp_all add: demo_world_def)


lemma demo_linked: "linked demo_rows"
  by (simp add: linked_def demo_rows_def version_of_def linked_cur_def demo_current_def demo_version_def
      ConfigCurrent_zero_def ConfigVersion_zero_def)


lemma run_Ok: "fst p = Ok () \<Longrightarrow> p = (Ok (), snd p)"
  by (simp add: prod_eq_iff)


definition demo_update :: ConfigInfo where
  "demo_update = demo_config\<lparr>ci_Data := ''b''\<rparr>"


text \<open>A config that was released, updated and released again.\<close>

definition demo_version2 :: ConfigVersion where
  "demo_version2 = demo_version\<lparr>cv_ID := 6, cv_Version := 2, cv_Digest := ''digest of b''\<rparr>"

definition demo_release :: Release where
  "demo_release = Release_zero\<lparr>rl_ID := 3, rl_Version := 1, rl_Status := ''created'', rl_ConfigInfoID := 1,
     rl_ConfigVersionID := 5, rl_Digest := ''digest of a''\<rparr>"

definition demo_rows2 :: db_view where
  "demo_rows2 = demo_rows\<lparr>v_version := [demo_version, demo_version2],
     v_release := [demo_release, demo_release\<lparr>rl_ID := 4, rl_Version := 2, rl_ConfigVersionID := 6,
       rl_Digest := ''digest of b''\<rparr>],
     v_current := [demo_current\<lparr>cc_LatestConfigVersionID := 6, cc_LatestReleaseID := 4, cc_PreReleaseID := 3\<rparr>]\<rparr>"

lemma demo_linked2: "linked demo_rows2"
  by (simp add: linked_def demo_rows2_def demo_rows_def version_of_def release_of_def linked_cur_def
      demo_current_def demo_version_def demo_version2_def demo_release_def
      ConfigCurrent_zero_def ConfigVersion_zero_def Release_zero_def)


theorem invalid_refused_witness:
  "AddConfig demo_manager None (demo_world demo_rows)
      = (Err (Errorf ''config entity can not be nil ''), demo_world demo_rows)
   \<and> AddTemplate demo_manager None (demo_world demo_rows)
      = (Err (Errorf ''template entity can not be nil ''), demo_world demo_rows)"
  using invalid_refused [of None "Errorf ''config entity can not be nil ''" None
      "Errorf ''template entity can not be nil ''" demo_manager "demo_world demo_rows"]
  by (simp add: checkConfigValidity_def checkTemplateValidity_def)

theorem reload_unsupported_succeeds_witness:
  "\<exists>w1. ReloadTemplate demo_manager 1 (demo_world demo_rows) = (Ok (), w1)"
proof -
  let ?g = "on_db (GetConfigInfoByID (m_db demo_manager) 1) (demo_world demo_rows)"
  have g: "fst ?g = Ok demo_config" by code_simp
  have "?g = (Ok demo_config, snd ?g)" using g by (simp add: prod_eq_iff)
  from reload_unsupported_succeeds [OF this] show ?thesis
    by (auto simp: demo_config_def ConfigFormatTxt_def ConfigFormatProperties_def)
qed

end
