(* ===== verification/Sync_Handlers.thy ===== *)
theory Sync_Handlers
  imports Config_Handlers Manager_Props
begin

section \<open>What the manager tells an agent to fetch\<close>

text \<open>
  The handlers \<open>fileresync\<close> and \<open>filerefresh\<close> compare the files an agent reports with the
  released ones. A file in the answer is released for the agent's site, its value is the version of
  the release, and the agent does not have it with the released digest. The maps of the request have each key once.
\<close>

definition released_file ::
  "db_view \<Rightarrow> string \<Rightarrow> string \<Rightarrow> string \<Rightarrow> Release \<Rightarrow> ConfigVersion \<Rightarrow> bool" where
  "released_file D s ns f rel ver \<longleftrightarrow>
     (\<exists>c\<in>set (v_info D). ci_SiteID c = s \<and> ci_Namespace c = ns \<and> ci_Name c = f \<and> not_deleted (ci_Status c)
       \<and> (\<exists>cur\<in>set (v_current D). cc_ConfigInfoID cur = ci_ID c \<and> rl_ID rel = cc_LatestReleaseID cur))
     \<and> rel \<in> set (v_release D) \<and> ver \<in> set (v_version D) \<and> cv_ID ver = rl_ConfigVersionID rel"

text \<open>The entries of the two maps that are collected together.\<close>

definition files_ok :: "db_view \<Rightarrow> string \<Rightarrow> string gomap gomap \<times> string gomap gomap \<Rightarrow> bool" where
  "files_ok D s acc \<longleftrightarrow> (\<forall>ns f v. map2_get (snd acc) ns f = Some v \<longrightarrow>
     (\<exists>rel ver. released_file D s ns f rel ver \<and> map2_get (fst acc) ns f = Some (rl_Digest rel)
        \<and> v = u64_str (cv_Version ver)))"

lemma attempt_ret_Ok:
  "attempt m (\<lambda>_. ret x) k w = (Ok y, w'') \<longleftrightarrow>
     (\<exists>e w'. m w = (Err e, w') \<and> y = x \<and> w'' = w') \<or> (\<exists>a w'. m w = (Ok a, w') \<and> k a w' = (Ok y, w''))"
  by (auto simp: attempt_def ret_def split: prod.splits outcome.splits)

context gorm_db
begin

lemma calm_collect [tx_rules]: "calm obs (collect_one M c acc)" "calm obs (collect_released M cs acc)"
proof -
  show one: "calm obs (collect_one M c acc)" for c acc
    unfolding collect_one_def by (intro tx_rules)
  show "calm obs (collect_released M cs acc)"
    by (induction cs arbitrary: acc) (auto intro!: tx_rules one)
qed

lemma collect_one_ok:
  assumes run: "collect_one M c acc w = (Ok acc', w')" and D: "D = a_db (obs (w_db w))"
    and c: "c \<in> set (v_info D)" "ci_SiteID c = s" "not_deleted (ci_Status c)" and ok: "files_ok D s acc"
  shows "files_ok D s acc'"
proof -
  from run consider "acc' = acc"
    | cur w1 rel w2 ver w3 where "on_db (GetConfigCurrentByConfigID (m_db M) (ci_ID c)) w = (Ok cur, w1)"
      "on_db (GetReleaseByID (m_db M) (cc_LatestReleaseID cur)) w1 = (Ok rel, w2)"
      "on_db (GetConfigVersionByID (m_db M) (rl_ConfigVersionID rel)) w2 = (Ok ver, w3)"
      "acc' = (map2_set (ci_Namespace c) (ci_Name c) (rl_Digest rel) (fst acc),
          map2_set (ci_Namespace c) (ci_Name c) (u64_str (cv_Version ver)) (snd acc))"
    by (auto simp: collect_one_def attempt_ret_Ok ret_Ok_iff split: if_splits)
  then show ?thesis
  proof cases
    case 2
    note r1 = GetConfigCurrent_row [OF 2(1)] and r2 = GetReleaseByID_row [OF 2(2)]
      and r3 = GetConfigVersionByID_row [OF 2(3)]
    have "released_file D s (ci_Namespace c) (ci_Name c) rel ver"
      unfolding released_file_def using c D r1 r2 r3 by auto
    with ok 2(4) show ?thesis by (auto simp: files_ok_def map2_get_set)
  qed (use ok in simp)
qed

lemma collect_released_ok:
  assumes "collect_released M cs acc w = (Ok acc', w')" and "D = a_db (obs (w_db w))"
    and "\<forall>c\<in>set cs. c \<in> set (v_info D) \<and> ci_SiteID c = s \<and> not_deleted (ci_Status c)" and "files_ok D s acc"
  shows "files_ok D s acc'"
  using assms
proof (induction cs arbitrary: acc w)
  case (Cons c cs)
  from Cons.prems(1) obtain acc1 w1 where one: "collect_one M c acc w = (Ok acc1, w1)"
    and rest: "collect_released M cs acc1 w1 = (Ok acc', w')"
    by (auto simp: andthen_Ok_iff)
  have "files_ok D s acc1" by (rule collect_one_ok [OF one Cons.prems(2)]) (use Cons.prems in auto)
  with Cons.IH [OF rest] Cons.prems calmD [OF calm_collect(1) one] show ?case by simp
qed (simp add: ret_def)

end

subsection \<open>Taking out what the agent has\<close>

lemma drop_files_get:
  "map2_get (drop_files dig ns fs rv) ns' f = Some v \<Longrightarrow>
     map2_get rv ns' f = Some v \<and> (ns' = ns \<longrightarrow> (\<forall>d. (f, d) \<in> set fs \<longrightarrow> map2_get dig ns f \<noteq> Some d))"
proof (induction fs arbitrary: rv)
  case (Cons e fs)
  obtain f0 d0 where e: "e = (f0, d0)" by fastforce
  let ?rv = "if (case map2_get dig ns f0 of None \<Rightarrow> [] | Some d \<Rightarrow> d) = d0 then map2_del ns f0 rv else rv"
  note IH = Cons.IH [of ?rv, OF Cons.prems [unfolded e drop_files.simps]]
  from IH show ?case
    unfolding e by (auto simp: map2_get_del split: if_splits)
qed simp

lemma map2_get_ns: "map2_get m ns f = Some v \<Longrightarrow> map_of m ns \<noteq> None"
  by (auto simp: map2_get_def split: option.splits)

lemma drop_current_get:
  "map2_get (drop_current dig content rv) ns f = Some v \<Longrightarrow>
     map2_get rv ns f = Some v
     \<and> (\<forall>file d. (ns, file) \<in> set content \<longrightarrow> (f, d) \<in> set file \<longrightarrow> map2_get dig ns f \<noteq> Some d)"
proof (induction content arbitrary: rv)
  case (Cons e content)
  obtain ns0 file0 where e: "e = (ns0, file0)" by fastforce
  let ?rv = "if map_of dig ns0 = None then rv else drop_files dig ns0 file0 rv"
  have IH: "map2_get ?rv ns f = Some v"
    "\<forall>file d. (ns, file) \<in> set content \<longrightarrow> (f, d) \<in> set file \<longrightarrow> map2_get dig ns f \<noteq> Some d"
    using Cons.IH [of ?rv] Cons.prems e by simp_all
  have "map2_get rv ns f = Some v
    \<and> (ns = ns0 \<longrightarrow> (\<forall>d. (f, d) \<in> set file0 \<longrightarrow> map2_get dig ns f \<noteq> Some d))"
  proof (cases "map_of dig ns0 = None")
    case True
    with IH(1) map2_get_ns [of dig ns f] show ?thesis by auto
  next
    case False
    with IH(1) drop_files_get [of dig ns0 file0 rv ns f v] show ?thesis by auto
  qed
  with IH(2) e show ?case by auto
qed simp

subsection \<open>The answers\<close>

context gorm_db
begin

lemma fileSyncHandler_ok:
  assumes run: "fileSyncHandler M req w = (Ok resp, w')" and D: "D = a_db (obs (w_db w))"
    and site: "getSiteIDFromConnKey (rq_peer req) = Inr s"
    and content: "m_content_json M (map_get (rq_args req) ''filecontents'') = Inr content"
    and code: "rs_code resp = SuccessCode"
  shows "\<exists>diff. rs_data resp = m_show_content M diff \<and> obs (w_db w') = obs (w_db w)
    \<and> (\<forall>ns f v. map2_get diff ns f = Some v \<longrightarrow>
         (\<exists>rel ver. released_file D s ns f rel ver \<and> v = u64_str (cv_Version ver)
            \<and> (\<forall>file d. (ns, file) \<in> set content \<longrightarrow> (f, d) \<in> set file \<longrightarrow> d \<noteq> rl_Digest rel)))"
proof -
  let ?q = "\<lambda>r. ci_SiteID r = s \<and> not_deleted (ci_Status r)"
  from run site content code obtain infos w1 dig rv w2 where
    all: "on_db (GetAllConfigInfos (m_db M) ?q) w = (Ok infos, w1)"
    and coll: "collect_released M infos ([], []) w1 = (Ok (dig, rv), w2)"
    and res: "rs_data resp = m_show_content M (drop_current dig content rv)" "w' = w2"
    by (auto simp: fileSyncHandler_def attempt_def andthen_Ok_iff respond_def ret_def RespError_def
        RespSucceed_def SuccessCode_def FailCode_def split: prod.splits outcome.splits)
  have same: "obs (w_db w1) = obs (w_db w)" "obs (w_db w2) = obs (w_db w1)"
    using calmD [OF reads(3) all] calmD [OF calm_collect(2) coll] by auto
  have "infos = filter ?q (v_info D)"
    using info.find_Ok [OF on_db_run [OF all, unfolded GetAllConfigInfos_def]] D by auto
  then have "files_ok D s (dig, rv)"
    using collect_released_ok [OF coll, of D s] D same by (auto simp: files_ok_def map2_get_def)
  then have "\<exists>rel ver. released_file D s ns f rel ver \<and> v = u64_str (cv_Version ver)
      \<and> (\<forall>file d. (ns, file) \<in> set content \<longrightarrow> (f, d) \<in> set file \<longrightarrow> d \<noteq> rl_Digest rel)"
    if "map2_get (drop_current dig content rv) ns f = Some v" for ns f v
    using drop_current_get [OF that] unfolding files_ok_def by fastforce
  with res same show ?thesis by auto
qed

end

text \<open>
  C9: every file in the answer of \<open>fileresync\<close> is released for the site of the agent, with the
  version of its latest release, and is not among the agent's files with the released digest. The
  database is not changed.
\<close>

theorem file_sync_sound:
  assumes "gorm_db M obs" and "fileSyncHandler M req w = (Ok resp, w')"
    and "getSiteIDFromConnKey (rq_peer req) = Inr s"
    and "m_content_json M (map_get (rq_args req) ''filecontents'') = Inr content"
    and "rs_code resp = SuccessCode"
  shows "\<exists>diff. rs_data resp = m_show_content M diff \<and> obs (w_db w') = obs (w_db w)
    \<and> (\<forall>ns f v. map2_get diff ns f = Some v \<longrightarrow>
         (\<exists>rel ver. released_file (a_db (obs (w_db w))) s ns f rel ver \<and> v = u64_str (cv_Version ver)
            \<and> (\<forall>file d. (ns, file) \<in> set content \<longrightarrow> (f, d) \<in> set file \<longrightarrow> d \<noteq> rl_Digest rel)))"
  by (rule gorm_db.fileSyncHandler_ok [OF assms(1,2) refl assms(3-5)])

subsection \<open>The answer of \<open>filerefresh\<close>\<close>

text \<open>A file in the answer is released with another digest than the one reported.\<close>

definition refreshed :: "db_view \<Rightarrow> string \<Rightarrow> (string \<Rightarrow> string \<Rightarrow> string \<Rightarrow> bool) \<Rightarrow> string gomap gomap \<Rightarrow> bool" where
  "refreshed D s reported diff \<longleftrightarrow> (\<forall>ns f v. map2_get diff ns f = Some v \<longrightarrow>
     (\<exists>rel ver d. released_file D s ns f rel ver \<and> v = u64_str (cv_Version ver) \<and> reported ns f d \<and> d \<noteq> rl_Digest rel))"

context gorm_db
begin

lemma calm_refresh [tx_rules]:
  "calm obs (refresh_file M s ns f d diff)" "calm obs (refresh_files M s ns fs diff)"
  "calm obs (refresh_all M s content diff)"
proof -
  show one: "calm obs (refresh_file M s ns f d diff)" for ns f d diff
    unfolding refresh_file_def released_of_def by (intro tx_rules)
  show files: "calm obs (refresh_files M s ns fs diff)" for ns fs diff
    by (induction fs arbitrary: diff) (auto intro!: tx_rules one)
  show "calm obs (refresh_all M s content diff)"
    by (induction content arbitrary: diff) (auto intro!: tx_rules files)
qed

lemma released_of_row:
  assumes run: "released_of M c w = (Ok (rel, ver), w')" and D: "D = a_db (obs (w_db w))"
    and c: "c \<in> set (v_info D)" "not_deleted (ci_Status c)"
  shows "released_file D (ci_SiteID c) (ci_Namespace c) (ci_Name c) rel ver"
proof -
  from run obtain cur w1 w2 where reads: "on_db (GetConfigCurrentByConfigID (m_db M) (ci_ID c)) w = (Ok cur, w1)"
    "on_db (GetReleaseByID (m_db M) (cc_LatestReleaseID cur)) w1 = (Ok rel, w2)"
    "on_db (GetConfigVersionByID (m_db M) (rl_ConfigVersionID rel)) w2 = (Ok ver, w')"
    by (auto simp: released_of_def andthen_Ok_iff ret_Ok_iff)
  note r1 = GetConfigCurrent_row [OF reads(1)] and r2 = GetReleaseByID_row [OF reads(2)]
    and r3 = GetConfigVersionByID_row [OF reads(3)]
  show ?thesis unfolding released_file_def using c D r1 r2 r3 by auto
qed

lemma refresh_file_ok:
  assumes run: "refresh_file M s ns f d diff w = (Ok diff', w')" and D: "D = a_db (obs (w_db w))"
    and ok: "refreshed D s reported diff" and d: "reported ns f d"
  shows "refreshed D s reported diff'"
proof -
  from run consider "diff' = diff"
    | c w1 rel ver w2 where "on_db (GetConfigInfoByNamespaceNameSiteID (m_db M) ns f s) w = (Ok c, w1)"
      "released_of M c w1 = (Ok (rel, ver), w2)" "rl_Digest rel \<noteq> d"
      "diff' = map2_set ns f (u64_str (cv_Version ver)) diff"
    by (auto simp: refresh_file_def attempt_ret_Ok ret_Ok_iff andthen_Ok_iff split: if_splits)
  then show ?thesis
  proof cases
    case 2
    let ?P = "\<lambda>r. ci_Namespace r = ns \<and> ci_Name r = f \<and> ci_SiteID r = s \<and> not_deleted (ci_Status r)"
    note first = on_db_run [OF 2(1), unfolded GetConfigInfoByNamespaceNameSiteID_def]
    note c = info.first_row [OF first]
    have "released_file D s ns f rel ver"
      using released_of_row [OF 2(2), of D] c D by auto
    with ok d 2(3,4) show ?thesis by (auto simp: refreshed_def map2_get_set)
  qed (use ok in simp)
qed

lemma refresh_files_ok:
  assumes "refresh_files M s ns fs diff w = (Ok diff', w')" and "D = a_db (obs (w_db w))"
    and "refreshed D s reported diff" and "\<forall>(f, d)\<in>set fs. reported ns f d"
  shows "refreshed D s reported diff'"
  using assms
proof (induction fs arbitrary: diff w)
  case (Cons e fs)
  obtain f d where e: "e = (f, d)" by fastforce
  from Cons.prems(1) obtain diff1 w1 where one: "refresh_file M s ns f d diff w = (Ok diff1, w1)"
    and rest: "refresh_files M s ns fs diff1 w1 = (Ok diff', w')"
    by (auto simp: e andthen_Ok_iff)
  have "refreshed D s reported diff1"
    by (rule refresh_file_ok [OF one Cons.prems(2,3)]) (use Cons.prems(4) e in auto)
  with Cons.IH [OF rest] Cons.prems calmD [OF calm_refresh(1) one] show ?case by simp
qed (simp add: ret_def)

lemma refresh_all_ok:
  assumes "refresh_all M s content diff w = (Ok diff', w')" and "D = a_db (obs (w_db w))"
    and "refreshed D s reported diff" and "\<forall>(ns, fs)\<in>set content. \<forall>(f, d)\<in>set fs. reported ns f d"
  shows "refreshed D s reported diff'"
  using assms
proof (induction content arbitrary: diff w)
  case (Cons e content)
  obtain ns fs where e: "e = (ns, fs)" by fastforce
  from Cons.prems(1) obtain diff1 w1 where one: "refresh_files M s ns fs diff w = (Ok diff1, w1)"
    and rest: "refresh_all M s content diff1 w1 = (Ok diff', w')"
    by (auto simp: e andthen_Ok_iff)
  have "refreshed D s reported diff1"
    by (rule refresh_files_ok [OF one Cons.prems(2,3)]) (use Cons.prems(4) e in auto)
  with Cons.IH [OF rest] Cons.prems calmD [OF calm_refresh(2) one] show ?case by simp
qed (simp add: ret_def)

lemma fileRefreshHandler_ok:
  assumes run: "fileRefreshHandler M req w = (Ok resp, w')"
    and site: "getSiteIDFromConnKey (rq_peer req) = Inr s"
    and content: "m_content_json M (map_get (rq_args req) ''filecontents'') = Inr content"
  shows "\<exists>diff. resp = RespSucceed (m_show_content M diff) \<and> obs (w_db w') = obs (w_db w)
    \<and> refreshed (a_db (obs (w_db w))) s (\<lambda>ns f d. \<exists>fs. (ns, fs) \<in> set content \<and> (f, d) \<in> set fs) diff"
proof -
  from run site content obtain diff where all: "refresh_all M s content [] w = (Ok diff, w')"
    and res: "resp = RespSucceed (m_show_content M diff)"
    by (auto simp: fileRefreshHandler_def andthen_Ok_iff respond_def ret_def)
  have "refreshed (a_db (obs (w_db w))) s (\<lambda>ns f d. \<exists>fs. (ns, fs) \<in> set content \<and> (f, d) \<in> set fs) diff"
    by (rule refresh_all_ok [OF all refl]) (auto simp: refreshed_def map2_get_def)
  with res calmD [OF calm_refresh(3) all] show ?thesis by blast
qed

end

text \<open>
  C10: every file in the answer of \<open>filerefresh\<close> is one the agent reported, is released for its
  site, and has another digest than the one reported; the answer gives the released version.
\<close>

theorem file_refresh_sound:
  assumes "gorm_db M obs" and "fileRefreshHandler M req w = (Ok resp, w')"
    and "getSiteIDFromConnKey (rq_peer req) = Inr s"
    and "m_content_json M (map_get (rq_args req) ''filecontents'') = Inr content"
  shows "\<exists>diff. resp = RespSucceed (m_show_content M diff) \<and> obs (w_db w') = obs (w_db w)
    \<and> refreshed (a_db (obs (w_db w))) s (\<lambda>ns f d. \<exists>fs. (ns, fs) \<in> set content \<and> (f, d) \<in> set fs) diff"
  by (rule gorm_db.fileRefreshHandler_ok [OF assms])

subsection \<open>Witnesses\<close>

text \<open>An agent of the site \<open>s1\<close> that reports one file with an old digest.\<close>

definition sync_manager :: "mem_db manager" where
  "sync_manager = demo_manager\<lparr>m_content_json := (\<lambda>s. Inr [(''ns'', [(''app.txt'', ''old'')])]),
     m_show_content := (\<lambda>m. concat (map (\<lambda>(ns, fs). ns @ concat (map (\<lambda>(f, v). '' '' @ f @ '' '' @ v) fs)) m))\<rparr>"

definition sync_request :: cmd_req where
  "sync_request = \<lparr>rq_name = ''fileresync'', rq_args = [(''filecontents'', ''{}'')], rq_peer = ''s1@@100''\<rparr>"

lemma sync_gorm: "gorm_db sync_manager mem_obs"
  by (rule mem_gorm_laws) (simp add: sync_manager_def demo_manager_def)

lemma run_fst: "fst p = r \<Longrightarrow> p = (r, snd p)"
  by (simp add: prod_eq_iff)

lemma sync_site: "getSiteIDFromConnKey (rq_peer sync_request) = Inr ''s1''"
  by code_simp

lemma sync_content: "m_content_json sync_manager x = Inr [(''ns'', [(''app.txt'', ''old'')])]"
  by (simp add: sync_manager_def)

theorem file_sync_sound_witness:
  "\<exists>diff. m_show_content sync_manager diff = ''ns app.txt 2''
    \<and> (\<forall>v. map2_get diff ''ns'' ''app.txt'' = Some v \<longrightarrow>
        (\<exists>rel ver. released_file demo_rows2 ''s1'' ''ns'' ''app.txt'' rel ver \<and> v = u64_str (cv_Version ver)))"
proof -
  let ?r = "fileSyncHandler sync_manager sync_request (demo_world demo_rows2)"
  have "fst ?r = Ok (RespSucceed ''ns app.txt 2'')" by code_simp
  note run = run_fst [OF this]
  have "rs_code (RespSucceed ''ns app.txt 2'') = SuccessCode" by (simp add: RespSucceed_def)
  from file_sync_sound [OF sync_gorm run sync_site sync_content this] show ?thesis
    unfolding demo_obs by (force simp: RespSucceed_def)
qed

theorem file_refresh_sound_witness:
  "\<exists>diff. m_show_content sync_manager diff = ''ns app.txt 2''
    \<and> refreshed demo_rows2 ''s1'' (\<lambda>ns f d. \<exists>fs. (ns, fs) \<in> {(''ns'', [(''app.txt'', ''old'')])} \<and> (f, d) \<in> set fs) diff"
proof -
  let ?r = "fileRefreshHandler sync_manager sync_request (demo_world demo_rows2)"
  have "fst ?r = Ok (RespSucceed ''ns app.txt 2'')" by code_simp
  note run = run_fst [OF this]
  from file_refresh_sound [OF sync_gorm run sync_site sync_content] show ?thesis
    unfolding demo_obs by (auto simp: RespSucceed_def)
qed

end
