(* ===== verification/Agent_Props.thy ===== *)
theory Agent_Props
  imports Agent_Handlers Sync_Handlers
begin

section \<open>What the agent serves to its applications\<close>

text \<open>
  The content handler answers from the file database alone. The synchronisation after a
  connection stores every file that the manager does not name as one that does not
  exist; the manager leaves out the files whose digest is current, so these are the files that are replaced by
  an empty one, until the second pass of \<open>syncLocalData\<close> has had them downloaded again.
\<close>

subsection \<open>The content handler\<close>

text \<open>
  C12: for a file that is stored, the content handler answers 404 when it is marked as missing, 304 when
  the application has its digest, and with the stored content and digest otherwise; it
  registers the application for the file and leaves the files alone.
\<close>

theorem content_handler_spec:
  assumes "file_store (ae_files E) (\<lambda>_. True) (\<lambda>_ _. True) digest holds"
    and "holds (agent_path ns f) e x (ag_fs a)" and "file_ok ns f" and "ext_ok e"
    and "GetAppByConn (rq_peer req) (ag_syncer a) = Some app"
    and "map_get (rq_args req) ''namespace'' = ns" "map_get (rq_args req) ''filename'' = f"
    and "CmdContentHandler E req a = (r, a')"
  shows "(if map_of (ext_map e) ''_status'' = Some ''404'' then r = Ok (resp_code 404, None)
      else if digest x = map_get (rq_args req) ''digest'' then r = Ok (resp_code 304, None)
      else r = Ok (RespSucceed (ae_show_file E (map_set ''digest'' (digest x) (ext_map e)) x (digest x)),
                   Some (content_sent E (rq_peer req) ns f (digest x))))
    \<and> ag_fs a' = ag_fs a
    \<and> (\<exists>app'. GetAppByConn (rq_peer req) (ag_syncer a') = Some app' \<and> ns @ ''/'' @ f \<in> set (ap_Files app'))"
proof -
  obtain s where reg: "register_request req a = (Ok (), a\<lparr>ag_syncer := s\<rparr>)"
    and app: "\<exists>app'. GetAppByConn (rq_peer req) s = Some app' \<and> ns @ ''/'' @ f \<in> set (ap_Files app')"
    using assms(5-7) by (simp add: register_request_def RegisterFileToApp_def GetAppByConn_def Let_def)
  have "VisitConfig (ae_files E) FdbSite ns f FdbVersion (ag_fs a) = (Ok (map_set ''digest'' (digest x) (ext_map e), x), ag_fs a)"
    using file_store.get_holds [OF assms(1,2) file_ok_props(2) [OF assms(3)] assms(4)] file_ok_props(1) [OF assms(3)]
    by (simp add: VisitConfig_def VisitRawFile_def with_name_base agent_path_def)
  then have visit: "on_files (VisitConfig (ae_files E) FdbSite ns f FdbVersion) (a\<lparr>ag_syncer := s\<rparr>)
      = (Ok (map_set ''digest'' (digest x) (ext_map e), x), a\<lparr>ag_syncer := s\<rparr>)"
    by (simp add: on_files_def)
  let ?m = "map_set ''digest'' (digest x) (ext_map e)" and ?d = "map_get (rq_args req) ''digest''"
  have get: "map_of ?m ''_status'' = map_of (ext_map e) ''_status''" "map_of ?m ''digest'' = Some (digest x)"
    "map_get ?m ''digest'' = digest x"
    by (simp_all add: map_get_def)
  have run: "(if map_of (ext_map e) ''_status'' = Some ''404'' then ret (resp_code 404, None)
      else if Some (digest x) = Some ?d then ret (resp_code 304, None)
      else ret (RespSucceed (ae_show_file E ?m x (digest x)), Some (content_sent E (rq_peer req) ns f (digest x))))
      (a\<lparr>ag_syncer := s\<rparr>) = (r, a')"
    using assms(8) unfolding CmdContentHandler_def assms(6,7) Let_def andthen_Ok [of "register_request req", OF reg]
      attempt_Ok [of "on_files (VisitConfig (ae_files E) FdbSite ns f FdbVersion)", OF visit]
      prod.case get .
  have "a' = a\<lparr>ag_syncer := s\<rparr>" using run by (simp add: ret_def split: if_splits)
  then show ?thesis using run app by (simp add: ret_def split: if_splits)
qed

text \<open>
  A request for the content of a file by a connection that is not registered (yet) crashes the agent.
\<close>

theorem content_request_crash:
  assumes "GetAppByConn (rq_peer req) (ag_syncer a) = None"
  shows "fst (CmdContentHandler E req a) = Panic"
  using assms by (simp add: CmdContentHandler_def register_request_def RegisterFileToApp_def Let_def
      andthen_def attempt_def)

subsection \<open>Synchronisation\<close>

lemma each_append: "each f (xs @ ys) s = andthen (each f xs) (\<lambda>_. each f ys) s"
  by (induction xs arbitrary: s) (auto simp: andthen_def attempt_def ret_def fail_def split: prod.splits outcome.splits)

lemma each_nested:
  "each (\<lambda>(k, v). each (g k) (h k v)) xs s = each (\<lambda>(k, y). g k y) (concat (map (\<lambda>(k, v). map (Pair k) (h k v)) xs)) s"
proof (induction xs arbitrary: s)
  case (Cons x xs)
  obtain k v where x: "x = (k, v)" by fastforce
  have "each (\<lambda>(k, y). g k y) (map (Pair k) ys) s = each (g k) ys s" for ys s
    by (induction ys arbitrary: s) (auto simp: andthen_def attempt_def split: prod.splits outcome.splits)
  with Cons.IH x show ?case
    by (simp add: each_append) (auto simp: andthen_def attempt_def split: prod.splits outcome.splits)
qed simp

text \<open>The disk does not fail: every content without a reading error can be stored.\<close>

definition reliable :: "StorageDriver \<Rightarrow> bool" where
  "reliable D \<longleftrightarrow> (\<forall>t p e cs fs. \<exists>d fs'. drv_Put D t p e (cs, None) fs = (Ok d, fs'))"

context file_store
begin

lemma store_not_found_run:
  assumes run: "store_not_found E ns f a = (r, a')" and D: "ae_files E = D" "reliable D"
    and tmp: "\<forall>n. plain (ae_tmp E n)" and fresh: "\<forall>x fs. fresh x fs" and okf: "ok (ag_fs a)" and name: "file_ok ns f"
  shows "r = Ok ()" "ok (ag_fs a')" "holds (agent_path ns f) not_found_ext [] (ag_fs a')"
    "file_ok ns' f' \<Longrightarrow> holds (agent_path ns' f') not_found_ext [] (ag_fs a) \<Longrightarrow>
      holds (agent_path ns' f') not_found_ext [] (ag_fs a')"
proof -
  let ?put = "put_file E (\<lambda>tmp. StoreConfig D tmp FdbSite ns f FdbVersion not_found_ext (Some ([[]], None)))"
  obtain d fs' where "drv_Put D (ae_tmp E (ag_ticks a)) (GetFilePath FdbSite ns (base_name f) FdbVersion) not_found_ext ([[]], None) (ag_fs a)
      = (Ok d, fs')"
    using D(2) unfolding reliable_def by meson
  then obtain a1 where put: "?put a = (Ok d, a1)"
    using file_ok_props(1) [OF name]
    by (simp add: put_file_def StoreConfig_def StoreRawFile_def with_name_base)
  with run D(1) have r: "r = Ok ()" "a' = a1"
    by (simp_all add: store_not_found_def logged_def attempt_def string_reader_def ret_def)
  note st = store_file [OF put tmp name okf]
  have h: "holds (agent_path ns f) not_found_ext [] (ag_fs a1)"
    using st(3) [OF refl] fresh by (simp add: not_found_ext_def ext_get_def map_get_def)
  show "r = Ok ()" "ok (ag_fs a')" "holds (agent_path ns f) not_found_ext [] (ag_fs a')"
    using r st(1) h by simp_all
  show "holds (agent_path ns' f') not_found_ext [] (ag_fs a')"
    if "file_ok ns' f'" "holds (agent_path ns' f') not_found_ext [] (ag_fs a)"
  proof (cases "(ns', base_name f') = (ns, base_name f)")
    case True
    then have "agent_path ns' f' = agent_path ns f" by (simp add: agent_path_def)
    with h r show ?thesis by simp
  next
    case False
    with st(4) [OF that(2,1)] r show ?thesis by simp
  qed
qed

lemma store_all_not_found:
  assumes run: "each (\<lambda>(ns, files). each (store_not_found E ns) (missed ns files)) required a = (r, a')"
    and D: "ae_files E = D" "reliable D" and tmp: "\<forall>n. plain (ae_tmp E n)" and fresh: "\<forall>x fs. fresh x fs"
    and okf: "ok (ag_fs a)" and names: "\<forall>(ns, files)\<in>set required. \<forall>f\<in>set (missed ns files). file_ok ns f"
  shows "\<forall>(ns, files)\<in>set required. \<forall>f\<in>set (missed ns files). holds (agent_path ns f) not_found_ext [] (ag_fs a')"
proof -
  let ?ps = "concat (map (\<lambda>(ns, files). map (Pair ns) (missed ns files)) required)"
  let ?Q = "\<lambda>(ns, f) s. holds (agent_path ns f) not_found_ext [] (ag_fs s)"
  have run': "each (\<lambda>(ns, f). store_not_found E ns f) ?ps a = (r, a')"
    using run unfolding each_nested .
  have ok: "\<forall>(ns, f)\<in>set ?ps. file_ok ns f" using names by fastforce
  have "r = Ok () \<and> ok (ag_fs a') \<and> (\<forall>x\<in>set ?ps. ?Q x a')"
  proof (rule each_all [where I = "\<lambda>s. ok (ag_fs s)" and Q = ?Q, OF _ _ run' okf])
    fix x s q s'
    assume x: "x \<in> set ?ps" and one: "(case x of (ns, f) \<Rightarrow> store_not_found E ns f) s = (q, s')" and I: "ok (ag_fs s)"
    obtain ns f where p: "x = (ns, f)" by fastforce
    note st = store_not_found_run [OF one [unfolded p prod.case] D tmp fresh I]
    show "q = Ok () \<and> ok (ag_fs s') \<and> ?Q x s'" using st ok x p by auto
  next
    fix x y s q s'
    assume x: "x \<in> set ?ps" and y: "y \<in> set ?ps" and one: "(case y of (ns, f) \<Rightarrow> store_not_found E ns f) s = (q, s')"
      and I: "ok (ag_fs s)" and Q: "?Q x s"
    obtain ns f where p: "y = (ns, f)" by fastforce
    note st = store_not_found_run [OF one [unfolded p prod.case] D tmp fresh I]
    show "?Q x s'" using st(4) ok x y p Q by (cases x) auto
  qed
  then show ?thesis by fastforce
qed

end

lemma on_vm_run: "on_vm f a = (Ok (), a\<lparr>ag_vm := f (ag_vm a)\<rparr>)"
  by (simp add: on_vm_def change_def)

lemma put_vm_each:
  assumes run: "each (\<lambda>(ns, files). each (\<lambda>(filename, version). on_vm (g ns filename version)) files) data a = (r, a')"
  shows "r = Ok ()" "ag_fs a' = ag_fs a"
proof -
  have one: "q = Ok () \<and> ag_fs s' = ag_fs a"
    if "each (\<lambda>(filename, version). on_vm (g ns filename version)) files s = (q, s')" "ag_fs s = ag_fs a" for ns files s q s'
  proof -
    have "q = Ok () \<and> ag_fs s' = ag_fs a \<and> (\<forall>x\<in>set files. True)"
      by (rule each_all [where I = "\<lambda>s. ag_fs s = ag_fs a" and Q = "\<lambda>_ _. True", OF _ _ that]) (auto simp: on_vm_run)
    then show ?thesis by simp
  qed
  have "r = Ok () \<and> ag_fs a' = ag_fs a \<and> (\<forall>x\<in>set data. True)"
  proof (rule each_all [where I = "\<lambda>s. ag_fs s = ag_fs a" and Q = "\<lambda>_ _. True", OF _ _ run refl])
    fix x s q s'
    assume "(case x of (ns, files) \<Rightarrow> each (\<lambda>(filename, version). on_vm (g ns filename version)) files) s = (q, s')"
      "ag_fs s = ag_fs a"
    then show "q = Ok () \<and> ag_fs s' = ag_fs a \<and> True" using one by (cases x) simp
  qed simp
  then show "r = Ok ()" "ag_fs a' = ag_fs a" by simp_all
qed

lemma missed_files_iff:
  "(ns, files) \<in> set required \<Longrightarrow> f \<in> set (missed_files data ns files) \<longleftrightarrow> f \<in> fst ` set files \<and> map2_get data ns f = None"
  by (auto simp: missed_files_def map2_get_def split: option.splits)

lemma refresh_hides:
  assumes store: "file_store (ae_files E) (\<lambda>_. True) (\<lambda>_ _. True) digest holds"
    and "reliable (ae_files E)" "\<forall>n. plain (ae_tmp E n)"
    and names: "\<forall>(ns, files)\<in>set required. \<forall>(f, d)\<in>set files. file_ok ns f"
    and run: "refreshAgentFDBFromRemote E required full a = (r, a')"
    and answer: "ae_manager E \<lparr>rq_name = (if full then ''fileresync'' else ''filerefresh''),
        rq_args = [(''siteid'', ae_ID E), (''filecontents'', ae_show_content E required)], rq_peer = []\<rparr> (ag_up a) = Inr resp"
      "ae_content_json E (rs_data resp) = Inr data"
    and entry: "(ns, files) \<in> set required" "(f, d) \<in> set files" "map2_get data ns f = None"
  shows "holds (agent_path ns f) not_found_ext [] (ag_fs a')"
proof -
  let ?c = "\<lparr>rq_name = (if full then ''fileresync'' else ''filerefresh''),
        rq_args = [(''siteid'', ae_ID E), (''filecontents'', ae_show_content E required)], rq_peer = []\<rparr>"
  let ?a1 = "a\<lparr>ag_up := ag_up a @ [?c]\<rparr>"
  let ?adds = "each (\<lambda>(ns, files). each (\<lambda>(filename, version). on_vm (AddDownloadFileTask E ns filename version)) files) data"
  have send: "send_manager E ?c a = (Ok resp, ?a1)" using answer(1) by (simp add: send_manager_def)
  obtain q a2 where adds: "?adds ?a1 = (q, a2)" by fastforce
  note q = put_vm_each(1) [OF adds]
  have "each (\<lambda>(ns, files). each (store_not_found E ns) (missed_files data ns files)) required a2 = (r, a')"
    using run q adds unfolding refreshAgentFDBFromRemote_def andthen_Ok [of "send_manager E ?c", OF send] answer(2) sum.case
    by (simp add: andthen_run)
  note eff = file_store.store_all_not_found [OF store this refl assms(2,3) _ TrueI]
  have "\<forall>(ns, files)\<in>set required. \<forall>f\<in>set (missed_files data ns files). file_ok ns f"
    using names missed_files_iff by fastforce
  with eff have "\<forall>(ns, files)\<in>set required. \<forall>f\<in>set (missed_files data ns files). holds (agent_path ns f) not_found_ext [] (ag_fs a')"
    by simp
  moreover have "f \<in> set (missed_files data ns files)" using entry missed_files_iff [OF entry(1)] by force
  ultimately show ?thesis using entry(1) by auto
qed


subsection \<open>Calls that are made until they succeed\<close>

text \<open>
  The loops of the synchronisation, which repeat a call to the manager until it succeeds, return
  exactly when one of the repetitions does not fail; if every one fails the agent never gets ready.
\<close>

theorem sync_retries_return:
  "(\<exists>r. until_ok m s = Some r) \<longleftrightarrow> (\<exists>n. \<forall>e. fst (m (nth_try m n s)) \<noteq> Err e)"
  by (rule until_ok_iff)

subsection \<open>Witnesses\<close>

text \<open>An application that asks for a file it has registered, whose content the agent holds.\<close>

definition content_agent :: agent where
  "content_agent = (run_agent demo_run)\<lparr>ag_fs := [
     [''configv1/local/ns/app.txt/latest''] \<mapsto> File ''b'',
     [''configv1/local/ns/app.txt/latest'', ''meta'']
       \<mapsto> File (demo_json (file_meta (kv_digest ''b'') ''configv1/local/ns/app.txt/latest'' None))]\<rparr>"

definition content_request :: "string \<Rightarrow> cmd_req" where
  "content_request conn = \<lparr>rq_name = ''filecontent'',
     rq_args = [(''namespace'', ''ns''), (''filename'', ''app.txt''), (''digest'', ''old'')], rq_peer = conn\<rparr>"

lemma demo_agent_path: "agent_path ''ns'' ''app.txt'' = ''configv1/local/ns/app.txt/latest''"
  by code_simp

lemma demo_file_ok: "file_ok ''ns'' ''app.txt''"
  by (simp add: file_ok_def config_id_ok_def FdbSite_def FdbVersion_def base_name_def plain_def plain_rel_def utf8_def)

theorem content_handler_spec_witness:
  "\<exists>a'. CmdContentHandler demo_agent_env (content_request ''down'') content_agent
      = (Ok (RespSucceed ''b'', Some (content_sent demo_agent_env ''down'' ''ns'' ''app.txt'' ''digest of b'')), a')
    \<and> ag_fs a' = ag_fs content_agent"
proof -
  let ?r = "CmdContentHandler demo_agent_env (content_request ''down'') content_agent"
  have run: "?r = (fst ?r, snd ?r)" by simp
  have store: "file_store (ae_files demo_agent_env) (\<lambda>_. True) (\<lambda>_ _. True) kv_digest kv_holds"
    using kv_store by (simp add: demo_agent_env_def)
  have held: "kv_holds (agent_path ''ns'' ''app.txt'') None ''b'' (ag_fs content_agent)"
    unfolding demo_agent_path by (simp add: kv_holds_def content_agent_def)
  have app: "GetAppByConn (rq_peer (content_request ''down'')) (ag_syncer content_agent) = Some (demo_app\<lparr>ap_conn := ''down''\<rparr>)"
    by (simp add: content_request_def content_agent_def demo_run_def on_syncer_def RegisterApp_def GetAppByConn_def Let_def)
  have args: "map_get (rq_args (content_request ''down'')) ''namespace'' = ''ns''"
    "map_get (rq_args (content_request ''down'')) ''filename'' = ''app.txt''"
    by (simp_all add: content_request_def map_get_def)
  from content_handler_spec [OF store held demo_file_ok _ app args run] run show ?thesis
    by (force simp: ext_ok_def ext_map_def kv_digest_def content_request_def map_get_def demo_agent_env_def)
qed

theorem content_request_crash_witness:
  "fst (CmdContentHandler demo_agent_env (content_request ''new'') content_agent) = Panic"
  by (rule content_request_crash) code_simp

text \<open>An agent that reports the digest of the release: the manager has nothing to name.\<close>

definition resync_manager :: "mem_db manager" where
  "resync_manager = sync_manager\<lparr>m_content_json := (\<lambda>s. Inr [(''ns'', [(''app.txt'', ''digest of b'')])]),
     m_show_content := (\<lambda>m. if m = [(''ns'', [])] then ''none'' else ''some'')\<rparr>"

definition resync_env :: agent_env where
  "resync_env = demo_agent_env\<lparr>ae_manager := (\<lambda>c sent. Inr (RespSucceed ''none'')),
     ae_content_json := (\<lambda>s. Inr [(''ns'', [])])\<rparr>"


end
