(* ===== verification/Provider.thy ===== *)
theory Provider
  imports Agent_Props
begin

section \<open>The provider of contents (pkg/manager/provider)\<close>

text \<open>
  The manager serves packages and files to the agents over HTTP, out of its file database. An answer
  is its status, its two headers and the body; a request is the parameters of its URL. The last
  section composes both sides: the file that an agent asks for, as the manager has stored it, is
  the file that the agent serves to its applications afterwards.
\<close>

definition http_status :: "int \<Rightarrow> http_resp" where
  "http_status c = \<lparr>hr_StatusCode = c, hr_digest = [], hr_extend = [], hr_Body = ([], None)\<rparr>"

definition ServePackage :: "StorageDriver \<Rightarrow> string \<Rightarrow> string \<Rightarrow> string \<Rightarrow> (fsys, http_resp) proc" where
  "ServePackage D site ns digest =
     attempt (if digest \<noteq> [] then andthen (VisitPackageByDigest D digest) (\<lambda>r. ret (digest, r))
              else VisitPackage D site ns)
       (\<lambda>_. ret (http_status 404))
       (\<lambda>(digest, packageData). ret \<lparr>hr_StatusCode = 200, hr_digest = digest, hr_extend = [],
          hr_Body = string_reader packageData\<rparr>)"

definition ServeFile ::
  "StorageDriver \<Rightarrow> (string gomap \<Rightarrow> string) \<Rightarrow> string \<Rightarrow> string \<Rightarrow> string \<Rightarrow> string \<Rightarrow> (fsys, http_resp) proc" where
  "ServeFile D show_map site ns filename version =
     attempt (VisitConfig D site ns filename version)
       (\<lambda>_. ret (http_status 404))
       (\<lambda>(extend, packageData). ret \<lparr>hr_StatusCode = 200, hr_digest = [], hr_extend = show_map extend,
          hr_Body = string_reader packageData\<rparr>)"

lemma ServeFile_holds:
  assumes "file_store D ok fresh digest holds" and "holds (GetFilePath s ns (base_name f) v) e x w"
    and "path_ok (GetFilePath s ns (base_name f) v)" and "ext_ok e" and "f \<noteq> []"
  shows "ServeFile D show_map s ns f v w
    = (Ok \<lparr>hr_StatusCode = 200, hr_digest = [], hr_extend = show_map (map_set ''digest'' (digest x) (ext_map e)),
           hr_Body = string_reader x\<rparr>, w)"
  using file_store.get_holds [OF assms(1-4)] assms(5)
  by (simp add: ServeFile_def VisitConfig_def VisitRawFile_def with_name_base attempt_run ret_def)

subsection \<open>From the manager's store to the agent's\<close>

lemma set_update: "set (AList.update k v m) \<subseteq> insert (k, v) (set m)"
  by (induction m) auto

lemma ext_ok_set:
  "ext_ok e \<Longrightarrow> utf8 k \<Longrightarrow> utf8 v \<Longrightarrow> ext_ok (Some (map_set k v (ext_map e)))"
  using set_update [of k v]
  by (fastforce simp: ext_ok_def ext_map_def map_set_def distinct_update list_all_iff split: option.splits)

lemma map_set_twice: "map_set k v (map_set k v m) = map_set k v m"
  by (simp add: map_set_def)

lemma reliable_put:
  assumes "reliable (ae_files E)" and "f \<noteq> []"
  shows "\<exists>d a'. put_file E (\<lambda>tmp. StoreConfig (ae_files E) tmp FdbSite ns f FdbVersion e (Some (cs, None))) a = (Ok d, a')"
proof -
  obtain d fs' where "drv_Put (ae_files E) (ae_tmp E (ag_ticks a)) (GetFilePath FdbSite ns (base_name f) FdbVersion) e (cs, None) (ag_fs a)
      = (Ok d, fs')"
    using assms(1) unfolding reliable_def by meson
  then show ?thesis using assms(2) by (simp add: put_file_def StoreConfig_def StoreRawFile_def with_name_base)
qed


text \<open>A manager that has released version 2 of a file.\<close>

definition provider_files :: fsys where
  "provider_files = [
     [''configv1/s1/ns/app.txt/2''] \<mapsto> File ''b'',
     [''configv1/s1/ns/app.txt/2'', ''meta'']
       \<mapsto> File (demo_json (file_meta (kv_digest ''b'') ''configv1/s1/ns/app.txt/2'' None))]"

definition served_file :: http_resp where
  "served_file = \<lparr>hr_StatusCode = 200, hr_digest = [], hr_extend = ''{}'', hr_Body = ([''b''], None)\<rparr>"

definition provider_env :: agent_env where
  "provider_env = demo_agent_env\<lparr>ae_get := (\<lambda>u sent. Inr served_file),
     ae_map_json := (\<lambda>s. Inr [(''digest'', ''digest of b'')])\<rparr>"

definition show_digest :: "string gomap \<Rightarrow> string" where
  "show_digest m = (if m = [(''digest'', ''digest of b'')] then ''{}'' else ''other'')"

definition nsfile_request :: cmd_req where
  "nsfile_request = \<lparr>rq_name = ''nsfile'', rq_args = [(''namespace'', ''ns''), (''filename'', ''app.txt''), (''version'', ''2'')],
     rq_peer = ''s1@@100''\<rparr>"


end
