(* ===== verification/Conn_Client.thy ===== *)
theory Conn_Client
  imports Go_Loops
begin

section \<open>The connection of an agent to the manager (connclient.go)\<close>

text \<open>
  The client keeps a queue of addresses and one connection: \<open>PollConn\<close> dials the addresses in turn until one
  answers, the monitor goes back to the first address of the queue. Parameters are the gRPC library, whose operations
  run on a state \<open>'s\<close> of the network, and the library that reads certificates. A channel is a number;
  the state has the channels made so far and those that are closed.
\<close>

datatype conn_state = StateIdle | StateConnecting | StateReady | StateTransientFailure | StateShutdown

record ('cert, 'ca) tls_config =
  tc_Certificate :: 'cert
  tc_RootCAs :: "'ca list"
  tc_ServerName :: string

record ('cert, 'ca) ClientConfig =
  cc_Addr :: string
  cc_Cert :: string
  cc_ServerName :: string
  cc_Creds :: "('cert, 'ca) tls_config"

text \<open>
  Dialing with no credentials is \<open>grpc.WithInsecure\<close>. The library of certificates: the content of a file; the
  key and the authorities of an archive under a password; whether a key is one of RSA, and what \<open>Validate\<close> says;
  the blocks of the archive, encoded; a certificate from two texts.
\<close>

record ('s, 'c, 'cert, 'ca) grpc_lib =
  gr_dial :: "string \<Rightarrow> ('cert, 'ca) tls_config option \<Rightarrow> ('s, 'c) proc"
  gr_target :: "'c \<Rightarrow> string"
  gr_state :: "'c \<Rightarrow> 's \<Rightarrow> conn_state"
  gr_close :: "'c \<Rightarrow> ('s, unit) proc"

record ('key, 'cert, 'ca) pkcs12_lib =
  pl_ReadFile :: "string \<Rightarrow> goerr + bytes"
  pl_DecodeChain :: "bytes \<Rightarrow> string \<Rightarrow> goerr + 'key \<times> 'ca list"
  pl_Validate :: "'key \<Rightarrow> goerr option option"
  pl_ToPEM :: "bytes \<Rightarrow> string \<Rightarrow> goerr + bytes list"
  pl_X509KeyPair :: "bytes \<Rightarrow> bytes \<Rightarrow> goerr + 'cert"

record ('s, 'c, 'cert, 'ca) globalClientConn =
  gc_net :: 's
  gc_clientConn :: "'c option"
  gc_readyCh :: "nat option"
  gc_clientQueue :: "('cert, 'ca) ClientConfig list"
  gc_channels :: nat
  gc_closed :: "nat list"

definition defaultP12Password :: string where
  "defaultP12Password = ''xxxxx@2020^infra''"

subsection \<open>Configurations\<close>

text \<open>A key that is not one of RSA fails the type assertion: the code panics.\<close>

definition ReadPKCS12 :: "('key, 'cert, 'ca) pkcs12_lib \<Rightarrow> string \<Rightarrow> ('cert \<times> 'ca list) outcome" where
  "ReadPKCS12 P p12File =
     (case pl_ReadFile P p12File of Inl err \<Rightarrow> Err err
      | Inr data \<Rightarrow> (case pl_DecodeChain P data defaultP12Password of
          Inl err \<Rightarrow> Err (Wrap ''decode chain to get private key failed: '' err)
        | Inr (key, caCerts) \<Rightarrow> (case pl_Validate P key of
            None \<Rightarrow> Panic
          | Some (Some err) \<Rightarrow> Err (Wrap ''private key validata failed: '' err)
          | Some None \<Rightarrow> (case pl_ToPEM P data defaultP12Password of
              Inl err \<Rightarrow> Err (Wrap ''error while converting to PEM: '' err)
            | Inr blocks \<Rightarrow> let pemData = concat blocks in (case pl_X509KeyPair P pemData pemData of
                Inl err \<Rightarrow> Err (Wrap ''err while converting to key pair: '' err)
              | Inr cert \<Rightarrow> Ok (cert, caCerts))))))"

definition NewClientConfig ::
  "('key, 'cert, 'ca) pkcs12_lib \<Rightarrow> string \<Rightarrow> string \<Rightarrow> string \<Rightarrow> ('cert, 'ca) ClientConfig outcome" where
  "NewClientConfig P addr certFile serverName =
     (case ReadPKCS12 P certFile of
        Ok (cert, certPool) \<Rightarrow> Ok \<lparr>cc_Addr = addr, cc_Cert = certFile, cc_ServerName = serverName,
          cc_Creds = \<lparr>tc_Certificate = cert, tc_RootCAs = certPool, tc_ServerName = serverName\<rparr>\<rparr>
      | Err err \<Rightarrow> Err (Wrap ''read p12 file failed: '' err)
      | Panic \<Rightarrow> Panic)"

definition NewGlobalConn :: "'s \<Rightarrow> ('cert, 'ca) ClientConfig list \<Rightarrow> ('s, 'c, 'cert, 'ca) globalClientConn" where
  "NewGlobalConn net queue = \<lparr>gc_net = net, gc_clientConn = None, gc_readyCh = None, gc_clientQueue = queue,
     gc_channels = 0, gc_closed = []\<rparr>"

subsection \<open>The queue\<close>

definition RegisterMonitorConn ::
  "('key, 'cert, 'ca) pkcs12_lib \<Rightarrow> string \<Rightarrow> string \<Rightarrow> string \<Rightarrow> (('s, 'c, 'cert, 'ca) globalClientConn, unit) proc" where
  "RegisterMonitorConn P addr certFile serverName = (\<lambda>c.
     if \<exists>cl\<in>set (gc_clientQueue c). cc_Addr cl = addr then (Ok (), c)
     else case NewClientConfig P addr certFile serverName of
        Ok cc \<Rightarrow> (Ok (), c\<lparr>gc_clientQueue := cc # gc_clientQueue c\<rparr>)
      | Err err \<Rightarrow> (Err err, c)
      | Panic \<Rightarrow> (Panic, c))"

definition AddClientQueue ::
  "('key, 'cert, 'ca) pkcs12_lib \<Rightarrow> string \<Rightarrow> string \<Rightarrow> string \<Rightarrow> (('s, 'c, 'cert, 'ca) globalClientConn, unit) proc" where
  "AddClientQueue P addr certFile serverName = (\<lambda>c.
     if \<exists>cl\<in>set (gc_clientQueue c). cc_Addr cl = addr then (Ok (), c)
     else case NewClientConfig P addr certFile serverName of
        Ok cc \<Rightarrow> (Ok (), c\<lparr>gc_clientQueue := gc_clientQueue c @ [cc]\<rparr>)
      | Err err \<Rightarrow> (Err err, c)
      | Panic \<Rightarrow> (Panic, c))"

definition GetMonitorConn :: "('s, 'c, 'cert, 'ca) globalClientConn \<Rightarrow> ('cert, 'ca) ClientConfig option" where
  "GetMonitorConn c = (case gc_clientQueue c of [] \<Rightarrow> None | cl # _ \<Rightarrow> Some cl)"

definition GetClientQueue :: "('s, 'c, 'cert, 'ca) globalClientConn \<Rightarrow> ('cert, 'ca) ClientConfig list" where
  "GetClientQueue c = gc_clientQueue c"

subsection \<open>The connection\<close>

definition on_net :: "('s, 'a) proc \<Rightarrow> (('s, 'c, 'cert, 'ca) globalClientConn, 'a) proc" where
  "on_net m = (\<lambda>c. case m (gc_net c) of (r, n) \<Rightarrow> (r, c\<lparr>gc_net := n\<rparr>))"

definition dialGRPCConn ::
  "('s, 'c, 'cert, 'ca) grpc_lib \<Rightarrow> ('cert, 'ca) ClientConfig \<Rightarrow> (('s, 'c, 'cert, 'ca) globalClientConn, 'c) proc" where
  "dialGRPCConn G cli = on_net (gr_dial G (cc_Addr cli) (if cc_Cert cli \<noteq> [] then Some (cc_Creds cli) else None))"

definition IsActive :: "('s, 'c, 'cert, 'ca) grpc_lib \<Rightarrow> ('s, 'c, 'cert, 'ca) globalClientConn \<Rightarrow> bool" where
  "IsActive G c \<longleftrightarrow> (case gc_clientConn c of None \<Rightarrow> False | Some conn \<Rightarrow> gr_state G conn (gc_net c) = StateReady)"

definition GetConn :: "('s, 'c, 'cert, 'ca) globalClientConn \<Rightarrow> 'c option" where
  "GetConn c = gc_clientConn c"

definition SetConn :: "'c \<Rightarrow> (('s, 'c, 'cert, 'ca) globalClientConn, unit) proc" where
  "SetConn conn = (\<lambda>c. (Ok (), c\<lparr>gc_clientConn := Some conn\<rparr>))"

definition ReConn ::
  "('s, 'c, 'cert, 'ca) grpc_lib \<Rightarrow> ('cert, 'ca) ClientConfig \<Rightarrow> (('s, 'c, 'cert, 'ca) globalClientConn, unit) proc" where
  "ReConn G cli = andthen (dialGRPCConn G cli) SetConn"

definition CloseConn :: "('s, 'c, 'cert, 'ca) grpc_lib \<Rightarrow> (('s, 'c, 'cert, 'ca) globalClientConn, unit) proc" where
  "CloseConn G = (\<lambda>c0.
     let c = c0\<lparr>gc_readyCh := Some (gc_channels c0), gc_channels := Suc (gc_channels c0)\<rparr>
     in case gc_clientConn c of None \<Rightarrow> (Ok (), c) | Some conn \<Rightarrow> on_net (gr_close G conn) c)"

definition ConnOnReady :: "('s, 'c, 'cert, 'ca) globalClientConn \<Rightarrow> nat option" where
  "ConnOnReady c = gc_readyCh c"

text \<open>\<open>close(c.readyCh)\<close>: a channel that is nil or closed already panics.\<close>

definition close_ready :: "(('s, 'c, 'cert, 'ca) globalClientConn, unit) proc" where
  "close_ready = (\<lambda>c. case gc_readyCh c of None \<Rightarrow> (Panic, c)
     | Some ch \<Rightarrow> if ch \<in> set (gc_closed c) then (Panic, c) else (Ok (), c\<lparr>gc_closed := ch # gc_closed c\<rparr>))"

text \<open>One pass over the queue, and the passes until one of them connects.\<close>

fun poll_queue ::
  "('s, 'c, 'cert, 'ca) grpc_lib \<Rightarrow> ('cert, 'ca) ClientConfig list \<Rightarrow> (('s, 'c, 'cert, 'ca) globalClientConn, unit) proc" where
  "poll_queue G [] = fail (Errorf ''no address connects'')"
| "poll_queue G (cli # rest) =
     attempt (dialGRPCConn G cli) (\<lambda>_. poll_queue G rest)
       (\<lambda>conn. andthen (SetConn conn) (\<lambda>_. close_ready))"

definition poll_pass :: "('s, 'c, 'cert, 'ca) grpc_lib \<Rightarrow> (('s, 'c, 'cert, 'ca) globalClientConn, unit) proc" where
  "poll_pass G = (\<lambda>c. poll_queue G (GetClientQueue c) c)"

definition PollConn ::
  "('s, 'c, 'cert, 'ca) grpc_lib \<Rightarrow> ('s, 'c, 'cert, 'ca) globalClientConn
     \<Rightarrow> (unit outcome \<times> ('s, 'c, 'cert, 'ca) globalClientConn) option" where
  "PollConn G c =
     (if IsActive G c then Some (Ok (), c)
      else case CloseConn G c of
          (Panic, c1) \<Rightarrow> Some (Panic, c1)
        | (_, c1) \<Rightarrow> until_ok (poll_pass G) c1)"

text \<open>
  One turn of the monitor; the value says whether it waits for the period before the next one. With an empty queue or
  no connection the turn dereferences nil.
\<close>

definition monitor_turn :: "('s, 'c, 'cert, 'ca) grpc_lib \<Rightarrow> (('s, 'c, 'cert, 'ca) globalClientConn, bool) proc" where
  "monitor_turn G = (\<lambda>c. case (GetMonitorConn c, GetConn c) of
     (Some monitorCli, Some oldConn) \<Rightarrow>
       if gr_target G oldConn \<noteq> cc_Addr monitorCli
       then attempt (ReConn G monitorCli) (\<lambda>_. ret False)
              (\<lambda>_. attempt (on_net (gr_close G oldConn)) (\<lambda>_. ret True) (\<lambda>_. ret True)) c
       else (Ok True, c)
   | _ \<Rightarrow> (Panic, c))"

text \<open>The monitor sees the stop channel before a turn and while it waits: \<open>stops\<close> is what it sees, turn by turn.\<close>

fun ConnMonitor :: "('s, 'c, 'cert, 'ca) grpc_lib \<Rightarrow> (bool \<times> bool) list \<Rightarrow> (('s, 'c, 'cert, 'ca) globalClientConn, unit) proc" where
  "ConnMonitor G [] = ret ()"
| "ConnMonitor G ((stop, stop_waiting) # stops) =
     (if stop then ret ()
      else andthen (monitor_turn G) (\<lambda>waits. if waits \<and> stop_waiting then ret () else ConnMonitor G stops))"

text \<open>
  The goroutine of \<open>ConnOnStates\<close>: the states of the connection as it sees them, one after the other, and whether
  it ends with them. A wait that returns false ends it as well.
\<close>

fun ConnOnStates :: "conn_state list \<Rightarrow> (conn_state \<times> bool \<times> conn_state) list \<Rightarrow> bool" where
  "ConnOnStates stats [] = False"
| "ConnOnStates stats ((before, change, after) # seen) =
     (before \<in> set stats \<or> \<not> change \<or> after \<in> set stats \<or> ConnOnStates stats seen)"

subsection \<open>What gRPC promises\<close>

text \<open>
  A dial that waits (\<open>grpc.WithBlock\<close>) returns a connection that is ready, and its target is the address that was
  dialed. The calls return or fail.
\<close>

locale grpc_laws =
  fixes G :: "('s, 'c, 'cert, 'ca) grpc_lib"
  assumes dial_ready: "gr_dial G addr creds n = (Ok conn, n') \<Longrightarrow> gr_target G conn = addr \<and> gr_state G conn n' = StateReady"
    and dial_returns: "fst (gr_dial G addr creds n) \<noteq> Panic"
    and close_returns: "fst (gr_close G conn n) \<noteq> Panic"

text \<open>
  A dial on the network alone, and the first address of a list that answers, with its connection and the network
  after it, or the network after all of them have failed.
\<close>

definition dial_net :: "('s, 'c, 'cert, 'ca) grpc_lib \<Rightarrow> ('cert, 'ca) ClientConfig \<Rightarrow> ('s, 'c) proc" where
  "dial_net G cli = gr_dial G (cc_Addr cli) (if cc_Cert cli \<noteq> [] then Some (cc_Creds cli) else None)"

fun first_conn :: "('s, 'c, 'cert, 'ca) grpc_lib \<Rightarrow> ('cert, 'ca) ClientConfig list \<Rightarrow> 's \<Rightarrow> ('cert, 'ca) ClientConfig \<times> 'c \<times> 's + 's" where
  "first_conn G [] n = Inr n"
| "first_conn G (cli # rest) n = (case dial_net G cli n of
     (Ok conn, n') \<Rightarrow> Inl (cli, conn, n') | (_, n') \<Rightarrow> first_conn G rest n')"

definition closed_net :: "('s, 'c, 'cert, 'ca) grpc_lib \<Rightarrow> ('s, 'c, 'cert, 'ca) globalClientConn \<Rightarrow> 's" where
  "closed_net G c = (case gc_clientConn c of None \<Rightarrow> gc_net c | Some conn \<Rightarrow> snd (gr_close G conn (gc_net c)))"

text \<open>The state after \<open>CloseConn\<close>, and after a dial of \<open>PollConn\<close> has connected.\<close>

definition closed_client :: "('s, 'c, 'cert, 'ca) grpc_lib \<Rightarrow> ('s, 'c, 'cert, 'ca) globalClientConn \<Rightarrow> ('s, 'c, 'cert, 'ca) globalClientConn" where
  "closed_client G c = c\<lparr>gc_net := closed_net G c, gc_readyCh := Some (gc_channels c), gc_channels := Suc (gc_channels c)\<rparr>"

definition connected :: "'c \<Rightarrow> 's \<Rightarrow> ('s, 'c, 'cert, 'ca) globalClientConn \<Rightarrow> ('s, 'c, 'cert, 'ca) globalClientConn" where
  "connected conn n c = c\<lparr>gc_readyCh := Some (gc_channels c), gc_channels := Suc (gc_channels c),
     gc_net := n, gc_clientConn := Some conn, gc_closed := gc_channels c # gc_closed c\<rparr>"

lemma first_conn_append:
  "first_conn G (xs @ ys) n = (case first_conn G xs n of Inl r \<Rightarrow> Inl r | Inr n' \<Rightarrow> first_conn G ys n')"
  by (induction xs arbitrary: n) (auto split: prod.split outcome.split)

lemma dialGRPCConn_run: "dialGRPCConn G cli c = (case dial_net G cli (gc_net c) of (r, n) \<Rightarrow> (r, c\<lparr>gc_net := n\<rparr>))"
  by (simp add: dialGRPCConn_def on_net_def dial_net_def)

context grpc_laws
begin

lemma dial_net_ready: "dial_net G cli n = (Ok conn, n') \<Longrightarrow> gr_target G conn = cc_Addr cli \<and> gr_state G conn n' = StateReady"
  unfolding dial_net_def by (rule dial_ready)

lemma dial_net_cases:
  obtains conn n' where "dial_net G cli n = (Ok conn, n')" | e n' where "dial_net G cli n = (Err e, n')"
  using dial_returns by (cases "dial_net G cli n") (metis dial_net_def fst_conv outcome.exhaust)

lemma CloseConn_run: "\<exists>r. r \<noteq> Panic \<and> CloseConn G c = (r, closed_client G c)"
proof (cases "gc_clientConn c")
  case (Some conn)
  obtain r n where close: "gr_close G conn (gc_net c) = (r, n)" by fastforce
  with close_returns [of conn "gc_net c"] Some show ?thesis
    by (simp add: CloseConn_def Let_def on_net_def closed_client_def closed_net_def)
qed (simp add: CloseConn_def Let_def closed_client_def closed_net_def)

text \<open>A pass over the queue connects to the first address that answers.\<close>

lemma poll_queue_run:
  assumes "gc_readyCh c = Some ch" and "ch \<notin> set (gc_closed c)"
  shows "poll_queue G q c = (case first_conn G q (gc_net c) of
      Inl (cli, conn, n) \<Rightarrow> (Ok (), c\<lparr>gc_net := n, gc_clientConn := Some conn, gc_closed := ch # gc_closed c\<rparr>)
    | Inr n \<Rightarrow> (Err (Errorf ''no address connects''), c\<lparr>gc_net := n\<rparr>))"
  using assms
proof (induction q arbitrary: c)
  case (Cons cli q)
  show ?case
  proof (cases rule: dial_net_cases [of cli "gc_net c"])
    case (1 conn n')
    with Cons.prems show ?thesis by (simp add: dialGRPCConn_run SetConn_def close_ready_def attempt_run andthen_run)
  next
    case (2 e n')
    with Cons.IH [of "c\<lparr>gc_net := n'\<rparr>"] Cons.prems show ?thesis
      by (simp add: dialGRPCConn_run attempt_run split: sum.split)
  qed
qed (simp add: fail_def)

lemma poll_loop_step:
  assumes "gc_readyCh c = Some ch" and "ch \<notin> set (gc_closed c)"
  shows "until_ok (poll_pass G) c = (case first_conn G (gc_clientQueue c) (gc_net c) of
      Inl (cli, conn, n) \<Rightarrow> Some (Ok (), c\<lparr>gc_net := n, gc_clientConn := Some conn, gc_closed := ch # gc_closed c\<rparr>)
    | Inr n \<Rightarrow> until_ok (poll_pass G) (c\<lparr>gc_net := n\<rparr>))"
  by (subst until_ok.simps) (simp add: poll_pass_def GetClientQueue_def poll_queue_run [OF assms] split: sum.split prod.split)

text \<open>The loop of \<open>PollConn\<close> is the search along the queue repeated for ever.\<close>

lemma poll_loop:
  assumes "gc_readyCh c = Some ch" and "ch \<notin> set (gc_closed c)"
  shows "until_ok (poll_pass G) c = Some (r, c') \<longleftrightarrow>
    (\<exists>k cli conn n. first_conn G (concat (replicate k (gc_clientQueue c))) (gc_net c) = Inl (cli, conn, n)
      \<and> r = Ok () \<and> c' = c\<lparr>gc_net := n, gc_clientConn := Some conn, gc_closed := ch # gc_closed c\<rparr>)"
  (is "?returns c \<longleftrightarrow> (\<exists>k. ?found k c)")
proof
  assume returns: "?returns c"
  then obtain m where "\<forall>e. fst (poll_pass G (nth_try (poll_pass G) m c)) \<noteq> Err e"
    using until_ok_Some [OF returns] by blast
  then show "\<exists>k. ?found k c"
    using assms returns
  proof (induction m arbitrary: c)
    case 0
    show ?case
    proof (cases "first_conn G (gc_clientQueue c) (gc_net c)")
      case (Inl x)
      with 0 show ?thesis by (auto simp: poll_loop_step split: prod.splits intro!: exI [of _ 1])
    next
      case (Inr n)
      with 0 show ?thesis by (simp add: nth_try_def poll_pass_def GetClientQueue_def poll_queue_run)
    qed
  next
    case (Suc m)
    show ?case
    proof (cases "first_conn G (gc_clientQueue c) (gc_net c)")
      case (Inl x)
      with Suc.prems show ?thesis by (auto simp: poll_loop_step split: prod.splits intro!: exI [of _ 1])
    next
      case (Inr n)
      let ?c = "c\<lparr>gc_net := n\<rparr>"
      have "poll_pass G c = (Err (Errorf ''no address connects''), ?c)"
        using Suc.prems(2,3) Inr by (simp add: poll_pass_def GetClientQueue_def poll_queue_run)
      from nth_try_Suc [of "poll_pass G", OF this, of m] Suc.prems Suc.IH [of ?c] Inr
      obtain k where "?found k ?c" by (auto simp: poll_loop_step)
      with Inr have "?found (Suc k) c" by (simp add: first_conn_append)
      then show ?thesis ..
    qed
  qed
next
  assume "\<exists>k. ?found k c"
  then obtain k where "?found k c" ..
  then show "?returns c" using assms
  proof (induction k arbitrary: c)
    case (Suc k)
    show ?case
    proof (cases "first_conn G (gc_clientQueue c) (gc_net c)")
      case (Inl x)
      with Suc.prems show ?thesis by (auto simp: poll_loop_step first_conn_append)
    next
      case (Inr n)
      let ?c = "c\<lparr>gc_net := n\<rparr>"
      from Suc.prems(1) Inr have "?found k ?c" by (simp add: first_conn_append)
      with Suc.IH [of ?c] Suc.prems(2,3) have "?returns ?c" by simp
      with Inr Suc.prems(2,3) show ?thesis by (simp add: poll_loop_step)
    qed
  qed simp
qed

lemma PollConn_iff:
  assumes "\<not> IsActive G c" and "\<forall>ch\<in>set (gc_closed c). ch < gc_channels c"
  shows "PollConn G c = Some (r, c') \<longleftrightarrow>
    (\<exists>k cli conn n. first_conn G (concat (replicate k (gc_clientQueue c))) (closed_net G c) = Inl (cli, conn, n)
      \<and> r = Ok () \<and> c' = connected conn n c)"
proof -
  obtain q where close: "q \<noteq> Panic" "CloseConn G c = (q, closed_client G c)" using CloseConn_run by blast
  have fresh: "gc_channels c \<notin> set (gc_closed c)" using assms(2) by auto
  have "PollConn G c = until_ok (poll_pass G) (closed_client G c)"
    using close assms(1) by (cases q) (simp_all add: PollConn_def)
  then show ?thesis
    using fresh by (simp add: poll_loop closed_client_def connected_def)
qed

lemma first_conn_ready: "first_conn G q n = Inl (cli, conn, n') \<Longrightarrow>
    cli \<in> set q \<and> gr_target G conn = cc_Addr cli \<and> gr_state G conn n' = StateReady"
proof (induction q arbitrary: n)
  case (Cons x q)
  then show ?case by (cases rule: dial_net_cases [of x n]) (auto dest: dial_net_ready)
qed simp

lemma monitor_turn_run:
  assumes "GetMonitorConn c = Some cli" and "GetConn c = Some old"
  shows "\<exists>waits n conn. monitor_turn G c = (Ok waits, c\<lparr>gc_net := n, gc_clientConn := Some conn\<rparr>)
    \<and> (if waits then gr_target G conn = cc_Addr cli else conn = old)"
proof (cases "gr_target G old = cc_Addr cli")
  case True
  with assms show ?thesis by (intro exI [of _ True] exI [of _ "gc_net c"] exI [of _ old]) (simp add: monitor_turn_def GetConn_def)
next
  case False
  show ?thesis
  proof (cases rule: dial_net_cases [of cli "gc_net c"])
    case (1 conn n')
    obtain q n'' where close: "gr_close G old n' = (q, n'')" "q \<noteq> Panic"
      using close_returns by (metis surj_pair fst_conv)
    with 1 assms False dial_net_ready [OF 1] show ?thesis
      by (intro exI [of _ True] exI [of _ n''] exI [of _ conn], cases q) (simp_all add: monitor_turn_def ReConn_def dialGRPCConn_run SetConn_def on_net_def GetConn_def
          attempt_run andthen_run ret_def)
  next
    case (2 e n')
    with assms False show ?thesis
      by (intro exI [of _ False] exI [of _ n'] exI [of _ old])
        (simp add: monitor_turn_def ReConn_def dialGRPCConn_run GetConn_def attempt_run andthen_run ret_def)
  qed
qed

end

subsection \<open>The reachable clients\<close>

text \<open>
  The operations in any order, each whole; between them the network changes as it likes. A poll that does not return has
  no step.
\<close>

inductive client_step ::
  "('s, 'c, 'cert, 'ca) grpc_lib \<Rightarrow> ('key, 'cert, 'ca) pkcs12_lib
     \<Rightarrow> ('s, 'c, 'cert, 'ca) globalClientConn \<Rightarrow> ('s, 'c, 'cert, 'ca) globalClientConn \<Rightarrow> bool"
  for G :: "('s, 'c, 'cert, 'ca) grpc_lib" and P :: "('key, 'cert, 'ca) pkcs12_lib" where
  register: "RegisterMonitorConn P addr certFile serverName c = (r, c') \<Longrightarrow> client_step G P c c'"
| add: "AddClientQueue P addr certFile serverName c = (r, c') \<Longrightarrow> client_step G P c c'"
| poll: "PollConn G c = Some (r, c') \<Longrightarrow> client_step G P c c'"
| monitor: "ConnMonitor G stops c = (r, c') \<Longrightarrow> client_step G P c c'"
| network: "client_step G P c (c\<lparr>gc_net := n\<rparr>)"

inductive client_reachable ::
  "('s, 'c, 'cert, 'ca) grpc_lib \<Rightarrow> ('key, 'cert, 'ca) pkcs12_lib \<Rightarrow> ('s, 'c, 'cert, 'ca) globalClientConn \<Rightarrow> bool"
  for G :: "('s, 'c, 'cert, 'ca) grpc_lib" and P :: "('key, 'cert, 'ca) pkcs12_lib" where
  start: "distinct (map cc_Addr queue) \<Longrightarrow> client_reachable G P (NewGlobalConn n queue)"
| step: "client_reachable G P c \<Longrightarrow> client_step G P c c' \<Longrightarrow> client_reachable G P c'"

text \<open>
  The addresses are distinct; the channels that are closed were made; there is a connection exactly when there is a
  channel, and then this channel is closed.
\<close>

definition client_ok :: "('s, 'c, 'cert, 'ca) globalClientConn \<Rightarrow> bool" where
  "client_ok c \<longleftrightarrow> distinct (map cc_Addr (gc_clientQueue c)) \<and> (\<forall>ch\<in>set (gc_closed c). ch < gc_channels c)
     \<and> (gc_readyCh c = None \<longleftrightarrow> gc_clientConn c = None) \<and> (\<forall>ch. gc_readyCh c = Some ch \<longrightarrow> ch \<in> set (gc_closed c))"

lemma client_ok_net: "client_ok c \<Longrightarrow> client_ok (c\<lparr>gc_net := n\<rparr>)"
  by (simp add: client_ok_def)

lemma client_ok_connected: "client_ok c \<Longrightarrow> client_ok (connected conn n c)"
  by (auto simp: client_ok_def connected_def less_Suc_eq)

lemma NewClientConfig_addr: "NewClientConfig P addr certFile serverName = Ok cc \<Longrightarrow> cc_Addr cc = addr"
  by (auto simp: NewClientConfig_def split: outcome.splits prod.splits)

lemma queue_ok:
  assumes "client_ok c"
  shows "client_ok (snd (RegisterMonitorConn P addr certFile serverName c))"
    and "client_ok (snd (AddClientQueue P addr certFile serverName c))"
  using assms
  by (auto simp: RegisterMonitorConn_def AddClientQueue_def client_ok_def dest!: NewClientConfig_addr split: outcome.split)

context grpc_laws
begin

lemma monitor_turn_ok: "client_ok c \<Longrightarrow> client_ok (snd (monitor_turn G c))"
proof (cases "GetMonitorConn c = None \<or> GetConn c = None")
  case True
  then show "client_ok c \<Longrightarrow> client_ok (snd (monitor_turn G c))"
    by (auto simp: monitor_turn_def split: option.split)
next
  case False
  then obtain cli old where "GetMonitorConn c = Some cli" "GetConn c = Some old" by auto
  with monitor_turn_run [OF this] show "client_ok c \<Longrightarrow> client_ok (snd (monitor_turn G c))"
    by (auto simp: client_ok_def GetConn_def)
qed

lemma ConnMonitor_ok: "client_ok c \<Longrightarrow> client_ok (snd (ConnMonitor G stops c))"
proof (induction stops arbitrary: c)
  case (Cons x stops)
  obtain stop stop_waiting where x: "x = (stop, stop_waiting)" by fastforce
  obtain q c1 where turn: "monitor_turn G c = (q, c1)" by fastforce
  with monitor_turn_ok [OF Cons.prems] have "client_ok c1" by simp
  with Cons turn x show ?case by (simp add: ret_def andthen_run [of "monitor_turn G", OF turn] split: outcome.split)
qed (simp add: ret_def)

lemma client_step_ok: "client_step G P c c' \<Longrightarrow> client_ok c \<Longrightarrow> client_ok c'"
proof (induction rule: client_step.induct)
  case (poll c r c')
  show ?case
  proof (cases "IsActive G c")
    case True
    with poll show ?thesis by (simp add: PollConn_def)
  next
    case False
    moreover have "\<forall>ch\<in>set (gc_closed c). ch < gc_channels c" using poll.prems by (simp add: client_ok_def)
    ultimately show ?thesis using poll by (auto simp: PollConn_iff intro: client_ok_connected)
  qed
qed (auto intro: client_ok_net dest: queue_ok ConnMonitor_ok simp: prod_eq_iff)

end

lemma reachable_ok: "grpc_laws G \<Longrightarrow> client_reachable G P c \<Longrightarrow> client_ok c"
  by (rotate_tac, induction rule: client_reachable.induct)
    (auto simp: client_ok_def NewGlobalConn_def dest: grpc_laws.client_step_ok)


text \<open>
  C25: when the connection is not active, a poll dials the queue over and over, in its order, and returns with the first
  address that answers, to which the client is then connected, with a fresh ready channel that is closed; it does not return
  when none ever answers, never with an error, and never for an empty queue.
\<close>

theorem poll_connects:
  assumes "grpc_laws G" and "client_reachable G P c" and "\<not> IsActive G c"
  shows "(PollConn G c = Some (r, c') \<longleftrightarrow>
      (\<exists>k cli conn n. first_conn G (concat (replicate k (gc_clientQueue c))) (closed_net G c) = Inl (cli, conn, n)
        \<and> r = Ok () \<and> c' = connected conn n c))
    \<and> (PollConn G c = Some (r, c') \<longrightarrow> IsActive G c' \<and> ConnOnReady c' = Some (gc_channels c)
        \<and> (\<exists>cli\<in>set (gc_clientQueue c). \<exists>conn. GetConn c' = Some conn \<and> gr_target G conn = cc_Addr cli))
    \<and> (gc_clientQueue c = [] \<longrightarrow> PollConn G c = None)"
proof -
  have ok: "\<forall>ch\<in>set (gc_closed c). ch < gc_channels c" using reachable_ok [OF assms(1,2)] by (simp add: client_ok_def)
  note iff = grpc_laws.PollConn_iff [OF assms(1,3) ok]
  have "IsActive G c' \<and> ConnOnReady c' = Some (gc_channels c)
      \<and> (\<exists>cli\<in>set (gc_clientQueue c). \<exists>conn. GetConn c' = Some conn \<and> gr_target G conn = cc_Addr cli)"
    if "PollConn G c = Some (r, c')"
    using that grpc_laws.first_conn_ready [OF assms(1)]
    by (fastforce simp: iff connected_def IsActive_def ConnOnReady_def GetConn_def)
  moreover have "PollConn G c = None" if "gc_clientQueue c = []"
    using that iff by (metis concat_replicate_trivial first_conn.simps(1) not_None_eq old.sum.distinct(2) surj_pair)
  ultimately show ?thesis using iff by blast
qed

text \<open>
  A turn of the monitor of a connected client leaves it connected to the first address of the queue, and waits, or,
  when that address does not answer, to the address it had, and tries again at once; a client without connection crashes.
\<close>

theorem monitor_first:
  assumes "grpc_laws G" and "client_reachable G P c"
  shows "case (GetMonitorConn c, GetConn c) of
      (Some cli, Some old) \<Rightarrow> \<exists>waits c' conn. monitor_turn G c = (Ok waits, c') \<and> GetConn c' = Some conn
        \<and> (if waits then gr_target G conn = cc_Addr cli else conn = old) \<and> gc_clientQueue c' = gc_clientQueue c
    | _ \<Rightarrow> monitor_turn G c = (Panic, c)"
proof (cases "GetMonitorConn c = None \<or> GetConn c = None")
  case True
  then show ?thesis by (auto simp: monitor_turn_def split: option.split)
next
  case False
  then obtain cli old where here: "GetMonitorConn c = Some cli" "GetConn c = Some old" by auto
  with grpc_laws.monitor_turn_run [OF assms(1) here] show ?thesis by (fastforce simp: GetConn_def)
qed

subsection \<open>Witnesses\<close>

text \<open>
  A network that counts the dials: the address \<open>b\<close> answers from the fourth dial on, the address \<open>a\<close> from the tenth.
\<close>

definition demo_grpc :: "(nat, string, string, string) grpc_lib" where
  "demo_grpc = \<lparr>gr_dial = (\<lambda>addr creds n.
       (if (addr = ''b'' \<and> 3 \<le> n) \<or> 9 \<le> n then Ok addr else Err (External ''refused''), Suc n)),
     gr_target = id, gr_state = (\<lambda>_ _. StateReady), gr_close = (\<lambda>_ n. (Ok (), n))\<rparr>"

definition demo_pkcs12 :: "(unit, string, string) pkcs12_lib" where
  "demo_pkcs12 = \<lparr>pl_ReadFile = (\<lambda>_. Inr ''data''), pl_DecodeChain = (\<lambda>_ _. Inr ((), [''ca''])), pl_Validate = (\<lambda>_. Some None),
     pl_ToPEM = (\<lambda>_ _. Inr [''pem'']), pl_X509KeyPair = (\<lambda>_ _. Inr ''cert'')\<rparr>"

definition demo_config :: "string \<Rightarrow> (string, string) ClientConfig" where
  "demo_config addr = \<lparr>cc_Addr = addr, cc_Cert = [], cc_ServerName = ''m'',
     cc_Creds = \<lparr>tc_Certificate = ''cert'', tc_RootCAs = [], tc_ServerName = ''m''\<rparr>\<rparr>"

definition demo_client :: "(nat, string, string, string) globalClientConn" where
  "demo_client = NewGlobalConn 0 [demo_config ''a'', demo_config ''b'']"

interpretation demo_grpc: grpc_laws demo_grpc
  by unfold_locales (auto simp: demo_grpc_def split: if_splits)

lemma demo_client_reachable: "client_reachable demo_grpc demo_pkcs12 demo_client"
  unfolding demo_client_def by (rule client_reachable.start) (simp add: demo_config_def)

lemma demo_found: "first_conn demo_grpc (concat (replicate 2 (gc_clientQueue demo_client))) (closed_net demo_grpc demo_client)
    = Inl (demo_config ''b'', ''b'', 4)"
  by code_simp

lemma demo_connected_reachable: "client_reachable demo_grpc demo_pkcs12 (connected ''b'' 4 demo_client)"
proof (rule client_reachable.step [OF demo_client_reachable client_step.poll])
  have start: "\<not> IsActive demo_grpc demo_client" "\<forall>ch\<in>set (gc_closed demo_client). ch < gc_channels demo_client"
    by code_simp+
  show "PollConn demo_grpc demo_client = Some (Ok (), connected ''b'' 4 demo_client)"
    unfolding demo_grpc.PollConn_iff [OF start] using demo_found by blast
qed

text \<open>The first pass fails at both addresses, the second connects to \<open>b\<close>.\<close>

theorem poll_connects_witness:
  "PollConn demo_grpc demo_client = Some (Ok (), connected ''b'' 4 demo_client)
    \<and> IsActive demo_grpc (connected ''b'' 4 demo_client)"
proof -
  have "\<not> IsActive demo_grpc demo_client" by code_simp
  note poll = poll_connects [OF demo_grpc.grpc_laws_axioms demo_client_reachable this]
  from demo_found show ?thesis using poll [of "Ok ()" "connected ''b'' 4 demo_client"] by blast
qed


text \<open>The monitor tries to go back to \<open>a\<close>, which does not answer yet.\<close>

theorem monitor_first_witness:
  "\<exists>c'. monitor_turn demo_grpc (connected ''b'' 4 demo_client) = (Ok False, c') \<and> GetConn c' = Some ''b''"
proof -
  let ?c = "connected ''b'' 4 demo_client"
  have "GetMonitorConn ?c = Some (demo_config ''a'')" "GetConn ?c = Some ''b''" by code_simp+
  with monitor_first [OF demo_grpc.grpc_laws_axioms demo_connected_reachable]
  obtain waits c' conn where "monitor_turn demo_grpc ?c = (Ok waits, c')" "GetConn c' = Some conn"
    "if waits then gr_target demo_grpc conn = ''a'' else conn = ''b''" by (auto simp: demo_config_def)
  moreover have "fst (monitor_turn demo_grpc ?c) = Ok False" by code_simp
  ultimately show ?thesis by auto
qed

end
