(* ===== verification/Cluster_Status.thy ===== *)
theory Cluster_Status
  imports Mem_DB
begin

section \<open>Clusters and the status of their connection (pkg/manager/cluster, model/cluster.go)\<close>

text \<open>
  The status of a cluster follows the connections of its agent: the key of a connection is the site
  and a time stamp, and a change of status counts when its stamp is not older than the stamp of the key in
  the row. The abstract state of a cluster is that key with its status; a successful \<open>UpdateClusterStatus\<close>
  is one step \<open>newest\<close> of it.
\<close>

subsection \<open>The other operations on clusters\<close>

definition AddCluster :: "'d gorm \<Rightarrow> Cluster \<Rightarrow> ('d, Cluster) proc" where
  "AddCluster G cluster = CreateCluster G cluster"

text \<open>\<open>Model(&cluster).Updates(cluster)\<close>: the row with the key of \<open>cluster\<close>; without a key gorm refuses.\<close>

definition UpdateCluster :: "'d gorm \<Rightarrow> Cluster \<Rightarrow> ('d, unit) proc" where
  "UpdateCluster G cluster = updates_by_id (t_cluster G) cl_ID DB (cl_ID cluster) cluster"

text \<open>\<open>Find(&cluster)\<close> adds the key of \<open>cluster\<close>, when it has one, as a condition.\<close>

definition GetClusterEnvs :: "'d gorm \<Rightarrow> Cluster \<Rightarrow> ('d, Cluster) proc" where
  "GetClusterEnvs G cluster =
     andthen (t_find (t_cluster G) DB (\<lambda>r. cl_ID cluster = 0 \<or> cl_ID r = cl_ID cluster)) (\<lambda>rs.
     ret (if rs = [] then cluster else cluster\<lparr>cl_Env := cl_Env (last rs)\<rparr>))"

text \<open>An error other than a missing row is not looked at.\<close>

definition RsyncClusterBySyncID :: "'d gorm \<Rightarrow> Cluster \<Rightarrow> ('d, unit) proc" where
  "RsyncClusterBySyncID G cluster =
     attempt (t_first (t_cluster G) DB (\<lambda>r. cl_SyncID r = cl_SyncID cluster))
       (\<lambda>err. if err = ErrRecordNotFound then andthen (t_create (t_cluster G) DB cluster) (\<lambda>_. ret ()) else ret ())
       (\<lambda>row. t_updates (t_cluster G) DB (\<lambda>r. cl_ID r = cl_ID row \<and> cl_SyncID r = cl_SyncID row)
          (Cluster_zero\<lparr>cl_SiteID := cl_SiteID cluster, cl_Name := cl_Name cluster, cl_IP := cl_IP cluster\<rparr>))"

subsection \<open>One change of status\<close>

definition newer :: "Cluster \<Rightarrow> string \<Rightarrow> bool" where
  "newer c stamp \<longleftrightarrow> cl_ConnKey c = [] \<or> (\<exists>a old. split_at2 (cl_ConnKey c) = [a, old] \<and> str_geq stamp old)"

definition with_status :: "string \<Rightarrow> string \<Rightarrow> string \<Rightarrow> Cluster list \<Rightarrow> Cluster list" where
  "with_status site key status = map (\<lambda>r. if cl_SiteID r = site then r\<lparr>cl_ConnKey := key, cl_Status := status\<rparr> else r)"

lemma split_at2_nonempty: "split_at2 key = [a, b] \<Longrightarrow> key \<noteq> []"
  by auto

lemma merge_status:
  "key \<noteq> [] \<Longrightarrow> status \<noteq> [] \<Longrightarrow> map (\<lambda>r. if cl_SiteID r = site
     then Cluster_merge r (Cluster_zero\<lparr>cl_ConnKey := key, cl_Status := status\<rparr>) else r) rs = with_status site key status rs"
  by (simp add: with_status_def Cluster_merge_def Cluster_zero_def nz_str_def)

context gorm_db
begin

text \<open>A transaction whose body and commit succeed, and one that does not.\<close>

lemma Transaction_Ok:
  assumes "Transaction (m_db M) fn d = (Ok u, d')"
  obtains n d1 d2 x where "begin_tx (g_tx (m_db M)) d = (Ok (TX n), d1)" "fn (TX n) d1 = (Ok x, d2)"
    "commit_tx (g_tx (m_db M)) (TX n) d2 = (Ok u, d')"
proof -
  obtain r d1 where b: "begin_tx (g_tx (m_db M)) d = (r, d1)" by fastforce
  then obtain n where r: "r = Ok (TX n)" using tx.begin_run by blast
  obtain q d2 where f: "fn (TX n) d1 = (q, d2)" by fastforce
  obtain p d3 where rb: "rollback_tx (g_tx (m_db M)) (TX n) d2 = (p, d3)" by fastforce
  show thesis
    using assms b r f rb that by (cases q; cases p) (auto simp: Transaction_def andthen_run attempt_run fail_def)
qed

lemma Transaction_Err:
  assumes run: "Transaction (m_db M) fn d = (Err e, d')"
    and body: "\<And>n d1 d2 q. fn (TX n) d1 = (q, d2) \<Longrightarrow> q \<noteq> Panic \<and> (obs d2 = obs d1 \<or> (\<exists>f. obs d2 = alter (TX n) f (obs d1)))"
  shows "obs d' = obs d"
proof -
  obtain r d1 where b: "begin_tx (g_tx (m_db M)) d = (r, d1)" by fastforce
  then obtain n where r: "r = Ok (TX n)" "a_tx (obs d) n = None" "obs d1 = open_tx n (obs d) \<or> obs d1 = obs d"
    using tx.begin_run by blast
  obtain q d2 where f: "fn (TX n) d1 = (q, d2)" by fastforce
  obtain p d3 where rb: "rollback_tx (g_tx (m_db M)) (TX n) d2 = (p, d3)" by fastforce
  have closed: "close_tx n (obs d2) = obs d"
    using body [OF f] r(2,3) close_alter close_open close_unused by metis
  show ?thesis
  proof (cases q)
    case (Ok x)
    then have "commit_tx (g_tx (m_db M)) (TX n) d2 = (Err e, d')"
      using run b r(1) f by (simp add: Transaction_def andthen_run attempt_run)
    with closed show ?thesis using tx.commit_Err by metis
  next
    case (Err e')
    then have "d' = d3"
      using run b r(1) f rb tx.rollback_run [OF rb]
      by (cases p) (auto simp: Transaction_def andthen_run attempt_run fail_def)
    with closed show ?thesis using tx.rollback_run [OF rb] by simp
  qed (use body [OF f] in simp)
qed

lemma UpdateClusterStatus_Ok:
  assumes run: "UpdateClusterStatus (m_db M) key status d = (Ok u, d')" and status: "status \<noteq> []"
    and key: "split_at2 key = [site, stamp]"
  obtains c where "c \<in> set (v_cluster (a_db (obs d)))" "cl_SiteID c = site" "not_deleted (cl_Status c)"
    "a_db (obs d') = (if newer c stamp then (a_db (obs d))\<lparr>v_cluster := with_status site key status (v_cluster (a_db (obs d)))\<rparr>
                      else a_db (obs d))"
proof -
  let ?P = "\<lambda>r. cl_SiteID r = site \<and> not_deleted (cl_Status r)"
  let ?new = "Cluster_zero\<lparr>cl_ConnKey := key, cl_Status := status\<rparr>"
  note key_ne = split_at2_nonempty [OF key]
  obtain n d1 d2 x where b: "begin_tx (g_tx (m_db M)) d = (Ok (TX n), d1)"
    and body: "andthen (t_first (t_cluster (m_db M)) (TX n) ?P) (\<lambda>cluster.
         let update = t_updates (t_cluster (m_db M)) (TX n) (\<lambda>r. cl_SiteID r = site) ?new
         in if cl_ConnKey cluster = [] then update
            else case split_at2 (cl_ConnKey cluster) of
                [_, oldStamp] \<Rightarrow> if str_geq stamp oldStamp then update else ret ()
              | _ \<Rightarrow> fail (Errorf ''invalid old conn key'')) d1 = (Ok x, d2)"
    and cm: "commit_tx (g_tx (m_db M)) (TX n) d2 = (Ok u, d')"
    using run key unfolding UpdateClusterStatus_def by (auto elim!: Transaction_Ok)
  from body obtain c d3 where first: "t_first (t_cluster (m_db M)) (TX n) ?P d1 = (Ok c, d3)"
    and rest: "(if cl_ConnKey c = [] then t_updates (t_cluster (m_db M)) (TX n) (\<lambda>r. cl_SiteID r = site) ?new
            else case split_at2 (cl_ConnKey c) of
                [_, oldStamp] \<Rightarrow> if str_geq stamp oldStamp then t_updates (t_cluster (m_db M)) (TX n) (\<lambda>r. cl_SiteID r = site) ?new else ret ()
              | _ \<Rightarrow> fail (Errorf ''invalid old conn key'')) d3 = (Ok x, d2)"
    by (auto simp: andthen_Ok_iff Let_def)
  have o3: "obs d3 = obs d1" using cluster.first_run [OF first] .
  obtain v where v: "sees (TX n) (obs d1) = Some v" "c \<in> set (v_cluster v)" "?P c"
    using cluster.first_Ok [OF first] by blast
  have o1: "a_tx (obs d) n = None" "obs d1 = open_tx n (obs d)"
    using tx.begin_run [OF b] v(1) by auto
  with v have vd: "v = a_db (obs d)" by simp
  have body': "obs d2 = (if newer c stamp then alter (TX n) (\<lambda>v. v\<lparr>v_cluster := with_status site key status (v_cluster v)\<rparr>) (obs d1)
      else obs d1)"
  proof (cases "newer c stamp")
    case True
    then have "t_updates (t_cluster (m_db M)) (TX n) (\<lambda>r. cl_SiteID r = site) ?new d3 = (Ok x, d2)"
      using rest by (auto simp: newer_def split: if_splits)
    from cluster.updates_Ok [OF this] show ?thesis
      using True o3 by (simp only: merge_status [OF key_ne status]) simp
  next
    case False
    then have "d2 = d3" using rest by (auto simp: newer_def ret_def fail_def split: list.splits if_splits)
    with False o3 show ?thesis by simp
  qed
  obtain b0 v0 where "a_tx (obs d2) n = Some (b0, v0)"
    and com: "b0 = a_db (obs d2) \<longrightarrow> obs d' = close_tx n ((obs d2)\<lparr>a_db := v0\<rparr>)"
    using tx.commit_Ok [OF cm] by blast
  then have "b0 = a_db (obs d)" "v0 = (if newer c stamp then (a_db (obs d))\<lparr>v_cluster := with_status site key status (v_cluster (a_db (obs d)))\<rparr>
      else a_db (obs d))"
    using body' o1(2) by (auto split: if_splits)
  with com body' o1(2) have "a_db (obs d') = (if newer c stamp then (a_db (obs d))\<lparr>v_cluster := with_status site key status (v_cluster (a_db (obs d)))\<rparr>
      else a_db (obs d))" by (auto split: if_splits)
  with that v vd show thesis by blast
qed

lemma UpdateClusterStatus_body:
  assumes "(case split_at2 key of
       [siteID, timeStamp] \<Rightarrow>
         andthen (t_first (t_cluster (m_db M)) tx (\<lambda>r. cl_SiteID r = siteID \<and> not_deleted (cl_Status r))) (\<lambda>cluster.
         let update = t_updates (t_cluster (m_db M)) tx (\<lambda>r. cl_SiteID r = siteID)
               (Cluster_zero\<lparr>cl_ConnKey := key, cl_Status := status\<rparr>)
         in if cl_ConnKey cluster = [] then update
            else case split_at2 (cl_ConnKey cluster) of
                [_, oldStamp] \<Rightarrow> if str_geq timeStamp oldStamp then update else ret ()
              | _ \<Rightarrow> fail (Errorf ''invalid old conn key''))
     | _ \<Rightarrow> fail (Errorf ''invalid conn key'')) d1 = (q, d2)"
  shows "q \<noteq> Panic \<and> (obs d2 = obs d1 \<or> (\<exists>f. obs d2 = alter tx f (obs d1)))"
proof (cases "\<exists>site stamp. split_at2 key = [site, stamp]")
  case True
  then obtain site stamp where key: "split_at2 key = [site, stamp]" by blast
  let ?P = "\<lambda>r. cl_SiteID r = site \<and> not_deleted (cl_Status r)"
  let ?u = "t_updates (t_cluster (m_db M)) tx (\<lambda>r. cl_SiteID r = site) (Cluster_zero\<lparr>cl_ConnKey := key, cl_Status := status\<rparr>)"
  obtain r d3 where first: "t_first (t_cluster (m_db M)) tx ?P d1 = (r, d3)" by fastforce
  have r: "r \<noteq> Panic" and o3: "obs d3 = obs d1"
    using cluster.first_no_panic [of tx ?P d1] cluster.first_run [OF first] first by simp_all
  have upd: "?u d3 = (q, d2) \<Longrightarrow> ?thesis"
    using cluster.updates_no_panic [of tx "\<lambda>r. cl_SiteID r = site" "Cluster_zero\<lparr>cl_ConnKey := key, cl_Status := status\<rparr>" d3]
      cluster.updates_alters [of tx "\<lambda>r. cl_SiteID r = site" "Cluster_zero\<lparr>cl_ConnKey := key, cl_Status := status\<rparr>" d3] o3
    by auto
  show ?thesis
  proof (cases r)
    case (Ok c)
    then show ?thesis
      using assms first o3 upd unfolding key
      by (auto simp: andthen_run Let_def ret_def fail_def split: if_splits list.splits)
  qed (use assms first key r o3 in \<open>auto simp: andthen_run\<close>)
next
  case False
  then have "(q, d2) = (Err (Errorf ''invalid conn key''), d1)"
    using assms by (auto simp: fail_def split: list.splits)
  then show ?thesis by simp
qed

lemma Transaction_no_panic:
  assumes "\<And>n d1 d2 q. fn (TX n) d1 = (q, d2) \<Longrightarrow> q \<noteq> Panic"
  shows "fst (Transaction (m_db M) fn d) \<noteq> Panic"
proof -
  obtain r d1 where b: "begin_tx (g_tx (m_db M)) d = (r, d1)" by fastforce
  then obtain n where r: "r = Ok (TX n)" using tx.begin_run by blast
  obtain q d2 where f: "fn (TX n) d1 = (q, d2)" by fastforce
  obtain p d3 where rb: "rollback_tx (g_tx (m_db M)) (TX n) d2 = (p, d3)" by fastforce
  have "p \<noteq> Panic" using tx.rollback_run [OF rb] by simp
  with assms [OF f] b r f rb tx.commit_no_panic [of "TX n" d2] show ?thesis
    by (cases q; cases p) (simp_all add: Transaction_def andthen_run attempt_run fail_def)
qed

lemma UpdateClusterStatus_no_panic: "fst (UpdateClusterStatus (m_db M) key status d) \<noteq> Panic"
  unfolding UpdateClusterStatus_def by (rule Transaction_no_panic) (rule UpdateClusterStatus_body [THEN conjunct1])

lemma UpdateClusterStatus_not_Ok:
  assumes "UpdateClusterStatus (m_db M) key status d = (q, d')" and "\<forall>u. q \<noteq> Ok u"
  shows "obs d' = obs d"
proof (cases q)
  case (Err e)
  show ?thesis
    by (rule Transaction_Err [OF assms(1) [unfolded UpdateClusterStatus_def Err]]) (rule UpdateClusterStatus_body)
qed (use assms UpdateClusterStatus_no_panic [of key status d] in auto)

end


subsection \<open>A history of changes\<close>

definition stamp_of :: "string \<Rightarrow> string" where
  "stamp_of key = (case split_at2 key of [_, t] \<Rightarrow> t | _ \<Rightarrow> [])"

text \<open>The abstract state: the key in the row and the status, or nothing before the first connection.\<close>

fun newest :: "(string \<times> string) option \<Rightarrow> string \<times> string \<Rightarrow> (string \<times> string) option" where
  "newest None (k, s) = Some (k, s)"
| "newest (Some (k0, s0)) (k, s) = (if str_geq (stamp_of k) (stamp_of k0) then Some (k, s) else Some (k0, s0))"

definition status_of :: "Cluster \<Rightarrow> (string \<times> string) option" where
  "status_of c = (if cl_ConnKey c = [] then None else Some (cl_ConnKey c, cl_Status c))"

text \<open>A history of calls: those that succeeded, and the database afterwards.\<close>

fun status_run :: "'d gorm \<Rightarrow> (string \<times> string) list \<Rightarrow> 'd \<Rightarrow> (string \<times> string) list \<times> 'd" where
  "status_run G [] d = ([], d)"
| "status_run G ((k, s) # evs) d =
     (case UpdateClusterStatus G k s d of (q, d1) \<Rightarrow>
        let (oks, d2) = status_run G evs d1
        in (case q of Ok _ \<Rightarrow> (k, s) # oks | _ \<Rightarrow> oks, d2))"

definition site_rows :: "string \<Rightarrow> db_view \<Rightarrow> Cluster list" where
  "site_rows site v = filter (\<lambda>r. cl_SiteID r = site) (v_cluster v)"

definition key_of :: "string \<Rightarrow> string \<Rightarrow> bool" where
  "key_of site k \<longleftrightarrow> (\<exists>stamp. split_at2 k = [site, stamp])"

lemma str_geq_refl [simp]: "str_geq a a"
  by (induction a) simp_all

lemma str_geq_trans: "str_geq a b \<Longrightarrow> str_geq b c \<Longrightarrow> str_geq a c"
  by (induction a b arbitrary: c rule: str_geq.induct) (case_tac c; auto split: if_splits)+

lemma str_geq_total: "str_geq a b \<or> str_geq b a"
  by (induction a b rule: str_geq.induct) (auto simp: not_less le_less of_char_eq_iff)

text \<open>The newest key: no call that succeeded has a newer stamp, and its status is one reported with it.\<close>

lemma newest_keeps: "foldl newest (Some p) evs \<noteq> None"
proof (induction evs arbitrary: p)
  case (Cons e evs)
  obtain k s k0 s0 where "e = (k, s)" "p = (k0, s0)" by fastforce
  with Cons.IH show ?case by simp
qed simp

lemma newest_max:
  assumes "foldl newest o1 evs = Some (k, s)"
  shows "(\<forall>(k', s')\<in>set evs. str_geq (stamp_of k) (stamp_of k'))
    \<and> (\<forall>k0 s0. o1 = Some (k0, s0) \<longrightarrow> str_geq (stamp_of k) (stamp_of k0))
    \<and> ((k, s) \<in> set evs \<or> o1 = Some (k, s))"
  using assms
proof (induction evs arbitrary: o1)
  case (Cons e evs)
  obtain k1 s1 where e: "e = (k1, s1)" by fastforce
  note IH = Cons.IH [of "newest o1 e", OF Cons.prems [simplified]]
  show ?case
  proof (cases o1)
    case None
    with IH e show ?thesis by auto
  next
    case (Some p)
    obtain k0 s0 where p: "p = (k0, s0)" by fastforce
    show ?thesis
    proof (cases "str_geq (stamp_of k1) (stamp_of k0)")
      case True
      with IH e Some p str_geq_trans [OF _ True] show ?thesis by auto
    next
      case False
      then have "str_geq (stamp_of k0) (stamp_of k1)" using str_geq_total by blast
      with IH e Some p False str_geq_trans [OF _ this] show ?thesis by auto
    qed
  qed
qed simp

lemma filter_with_status:
  "filter (\<lambda>r. cl_SiteID r = site) (with_status site k s rs)
    = map (\<lambda>r. r\<lparr>cl_ConnKey := k, cl_Status := s\<rparr>) (filter (\<lambda>r. cl_SiteID r = site) rs)"
  "filter (\<lambda>r. cl_SiteID r \<noteq> site) (with_status site k s rs) = filter (\<lambda>r. cl_SiteID r \<noteq> site) rs"
  by (induction rs) (auto simp: with_status_def)

lemma newer_newest:
  assumes "key_of site (cl_ConnKey c) \<or> cl_ConnKey c = []" and "split_at2 k = [site, stamp]"
  shows "newest (status_of c) (k, s) = (if newer c stamp then Some (k, s) else status_of c)"
  using assms by (auto simp: status_of_def newer_def stamp_of_def key_of_def)

context gorm_db
begin

lemma status_run_refines:
  assumes "status_run (m_db M) evs d = (oks, d')" and "site_rows site (a_db (obs d)) = [c]"
    and "\<forall>(k, s)\<in>set evs. key_of site k \<and> s \<noteq> []" and "key_of site (cl_ConnKey c) \<or> cl_ConnKey c = []"
  shows "\<exists>c'. site_rows site (a_db (obs d')) = [c'] \<and> status_of c' = foldl newest (status_of c) oks
    \<and> (\<exists>k s. c' = c\<lparr>cl_ConnKey := k, cl_Status := s\<rparr>)
    \<and> filter (\<lambda>r. cl_SiteID r \<noteq> site) (v_cluster (a_db (obs d'))) = filter (\<lambda>r. cl_SiteID r \<noteq> site) (v_cluster (a_db (obs d)))"
  using assms
proof (induction evs arbitrary: d oks c)
  case Nil
  have "c = c\<lparr>cl_ConnKey := cl_ConnKey c, cl_Status := cl_Status c\<rparr>" by simp
  with Nil show ?case by (simp, blast)
next
  case (Cons e evs)
  obtain k s where e: "e = (k, s)" by fastforce
  from Cons.prems(3) e obtain stamp where k: "split_at2 k = [site, stamp]" and s: "s \<noteq> []" and kk: "key_of site k"
    by (auto simp: key_of_def)
  obtain q d1 where run: "UpdateClusterStatus (m_db M) k s d = (q, d1)" by fastforce
  obtain oks1 where rest: "status_run (m_db M) evs d1 = (oks1, d')" and oks: "oks = (case q of Ok _ \<Rightarrow> (k, s) # oks1 | _ \<Rightarrow> oks1)"
    using Cons.prems(1) e run by (auto split: prod.splits)
  have evs: "\<forall>(k, s)\<in>set evs. key_of site k \<and> s \<noteq> []" using Cons.prems(3) by simp
  show ?case
  proof (cases "\<exists>u. q = Ok u")
    case False
    then have "obs d1 = obs d" using UpdateClusterStatus_not_Ok [OF run] by simp
    with Cons.IH [OF rest _ evs Cons.prems(4)] Cons.prems(2) oks False show ?thesis by (auto split: outcome.splits)
  next
    case True
    then obtain u where q: "q = Ok u" ..
    from UpdateClusterStatus_Ok [OF run [unfolded q] s k] obtain c1 where c1: "c1 \<in> set (v_cluster (a_db (obs d)))" "cl_SiteID c1 = site"
      and db: "a_db (obs d1) = (if newer c1 stamp then (a_db (obs d))\<lparr>v_cluster := with_status site k s (v_cluster (a_db (obs d)))\<rparr> else a_db (obs d))"
      by blast
    have "c1 \<in> set (site_rows site (a_db (obs d)))" using c1 by (simp add: site_rows_def)
    then have c1c: "c1 = c" using Cons.prems(2) by simp
    let ?c = "if newer c stamp then c\<lparr>cl_ConnKey := k, cl_Status := s\<rparr> else c"
    have rows: "site_rows site (a_db (obs d1)) = [?c]"
      using db Cons.prems(2) c1c by (simp add: site_rows_def filter_with_status)
    have others: "filter (\<lambda>r. cl_SiteID r \<noteq> site) (v_cluster (a_db (obs d1))) = filter (\<lambda>r. cl_SiteID r \<noteq> site) (v_cluster (a_db (obs d)))"
      using db by (simp add: filter_with_status)
    have st: "status_of ?c = newest (status_of c) (k, s)"
      using newer_newest [OF Cons.prems(4) k] split_at2_nonempty [OF k] by (simp add: status_of_def)
    have "key_of site (cl_ConnKey ?c) \<or> cl_ConnKey ?c = []" using kk Cons.prems(4) by simp
    from Cons.IH [OF rest rows evs this] obtain c' where c': "site_rows site (a_db (obs d')) = [c']"
      "status_of c' = foldl newest (status_of ?c) oks1" "\<exists>k s. c' = ?c\<lparr>cl_ConnKey := k, cl_Status := s\<rparr>"
      "filter (\<lambda>r. cl_SiteID r \<noteq> site) (v_cluster (a_db (obs d'))) = filter (\<lambda>r. cl_SiteID r \<noteq> site) (v_cluster (a_db (obs d1)))"
      by blast
    have "\<exists>k s. c' = c\<lparr>cl_ConnKey := k, cl_Status := s\<rparr>" using c'(3) by (auto split: if_splits)
    with c' others oks q st show ?thesis by (intro exI [of _ c']) simp
  qed
qed

end

text \<open>
  C32: after any history of status changes of the connections of a site, whichever of them failed, the row of its
  cluster holds the state that the newest successful change has left: no successful change had a
  newer time stamp, and nothing but the key and the status of that one row has changed.
\<close>

theorem cluster_status_newest:
  assumes "gorm_db M obs" and "status_run (m_db M) evs d = (oks, d')" and "site_rows site (a_db (obs d)) = [c]"
    and "\<forall>(k, s)\<in>set evs. key_of site k \<and> s \<in> {ClusterStatusReady, ClusterStatusNotReady}"
    and "key_of site (cl_ConnKey c) \<or> cl_ConnKey c = []"
  shows "\<exists>c'. site_rows site (a_db (obs d')) = [c'] \<and> status_of c' = foldl newest (status_of c) oks
    \<and> (\<forall>k s. status_of c' = Some (k, s) \<longrightarrow> (\<forall>(k', s')\<in>set oks. str_geq (stamp_of k) (stamp_of k')))
    \<and> (\<exists>k s. c' = c\<lparr>cl_ConnKey := k, cl_Status := s\<rparr>)
    \<and> filter (\<lambda>r. cl_SiteID r \<noteq> site) (v_cluster (a_db (obs d'))) = filter (\<lambda>r. cl_SiteID r \<noteq> site) (v_cluster (a_db (obs d)))"
proof -
  have "\<forall>(k, s)\<in>set evs. key_of site k \<and> s \<noteq> []"
    using assms(4) by (auto simp: ClusterStatusReady_def ClusterStatusNotReady_def)
  from gorm_db.status_run_refines [OF assms(1-3) this assms(5)] newest_max show ?thesis by metis
qed

text \<open>A new connection, and the late end of the old one: the end does not count.\<close>

theorem cluster_status_newest_witness:
  "\<exists>d' c'. status_run (m_db demo_manager) [(''s1@@200'', ClusterStatusReady), (''s1@@100'', ClusterStatusNotReady)]
        (w_db (demo_world demo_rows))
      = ([(''s1@@200'', ClusterStatusReady), (''s1@@100'', ClusterStatusNotReady)], d')
    \<and> site_rows ''s1'' (mem_rows d') = [c'] \<and> status_of c' = Some (''s1@@200'', ClusterStatusReady)"
proof -
  let ?evs = "[(''s1@@200'', ClusterStatusReady), (''s1@@100'', ClusterStatusNotReady)]"
  let ?r = "status_run (m_db demo_manager) ?evs (w_db (demo_world demo_rows))"
  have gorm: "gorm_db demo_manager mem_obs" by (rule mem_gorm_laws) (simp add: demo_manager_def)
  have "fst ?r = ?evs" by code_simp
  then have run: "?r = (?evs, snd ?r)" by (simp add: prod_eq_iff)
  have rows: "site_rows ''s1'' (a_db (mem_obs (w_db (demo_world demo_rows)))) = [demo_cluster]"
    by (simp add: site_rows_def demo_world_def demo_rows_def demo_cluster_def)
  have keys: "\<forall>(k, s)\<in>set ?evs. key_of ''s1'' k \<and> s \<in> {ClusterStatusReady, ClusterStatusNotReady}"
    by (simp add: key_of_def)
  have old: "key_of ''s1'' (cl_ConnKey demo_cluster) \<or> cl_ConnKey demo_cluster = []"
    by (simp add: demo_cluster_def key_of_def)
  have "foldl newest (status_of demo_cluster) ?evs = Some (''s1@@200'', ClusterStatusReady)" by code_simp
  with cluster_status_newest [OF gorm run rows keys old] run show ?thesis by auto
qed

end
