(* ===== verification/Conn_Manager.thy ===== *)
theory Conn_Manager
  imports Cluster_Status
begin

section \<open>The connections of a server (pkg/component/conns/connmanager.go)\<close>

text \<open>
  The manager of connections keeps, per connection of the transport, the key and the stream it was
  registered with. A tag (a pointer in the code) is a number here, and so is a stream; a context carries the tag of its
  connection or none. The callbacks run in a goroutine of their own per event: the state
  has the events in the order in which they were fired.
\<close>

record Conn =
  co_Key :: string
  co_Info :: "string gomap"
  co_Value :: "nat option"

definition Conn_zero :: Conn where
  "Conn_zero = \<lparr>co_Key = [], co_Info = [], co_Value = None\<rparr>"

datatype conn_event = Ready Conn | NotReady Conn

record ConnManager =
  cm_conns :: "(nat \<times> Conn) list"
  cm_fired :: "conn_event list"

datatype ConnStats = ConnBegin | ConnEnd | OtherStats

definition NewConnManager :: ConnManager where
  "NewConnManager = \<lparr>cm_conns = [], cm_fired = []\<rparr>"

subsection \<open>Operations\<close>

definition TagConn :: "nat option \<Rightarrow> nat \<Rightarrow> nat option" where
  "TagConn ctx info = Some info"

definition getConnTagFromContext :: "nat option \<Rightarrow> goerr + nat" where
  "getConnTagFromContext ctx = (case ctx of None \<Rightarrow> Inl (Errorf ''conn tag not found in context'') | Some tag \<Rightarrow> Inr tag)"

text \<open>The first connection with the key, in the order in which the map is iterated.\<close>

fun find_key :: "string \<Rightarrow> (nat \<times> Conn) list \<Rightarrow> Conn option" where
  "find_key key [] = None"
| "find_key key ((t, c) # cs) = (if co_Key c = key then Some c else find_key key cs)"

definition GetConnValue :: "string \<Rightarrow> ConnManager \<Rightarrow> goerr + nat option" where
  "GetConnValue key cm = (case find_key key (cm_conns cm) of
     Some c \<Rightarrow> Inr (co_Value c) | None \<Rightarrow> Inl (Errorf (''conn of Key '' @ key @ '' not found'')))"

definition GetConnInfo :: "string \<Rightarrow> ConnManager \<Rightarrow> goerr + string gomap" where
  "GetConnInfo key cm = (case find_key key (cm_conns cm) of
     Some c \<Rightarrow> Inr (co_Info c) | None \<Rightarrow> Inl (Errorf (''conn of Key '' @ key @ '' not found'')))"

definition GetConnFromContext :: "nat option \<Rightarrow> ConnManager \<Rightarrow> goerr + Conn option" where
  "GetConnFromContext ctx cm = (case getConnTagFromContext ctx of
     Inl err \<Rightarrow> Inl err | Inr tag \<Rightarrow> Inr (map_of (cm_conns cm) tag))"

definition SaveConn :: "nat option \<Rightarrow> string \<Rightarrow> string gomap \<Rightarrow> nat \<Rightarrow> (ConnManager, unit) proc" where
  "SaveConn ctx key infoData value = (\<lambda>cm.
     case getConnTagFromContext ctx of
       Inl err \<Rightarrow> (Err err, cm)
     | Inr tag \<Rightarrow>
         (let conn = \<lparr>co_Key = key, co_Info = infoData, co_Value = Some value\<rparr>
          in (Ok (), cm\<lparr>cm_conns := AList.update tag conn (cm_conns cm), cm_fired := cm_fired cm @ [Ready conn]\<rparr>)))"

text \<open>The end of a connection that is not in the map dereferences \<open>nil\<close>.\<close>

definition HandleConn :: "nat option \<Rightarrow> ConnStats \<Rightarrow> (ConnManager, unit) proc" where
  "HandleConn ctx s = (\<lambda>cm.
     case getConnTagFromContext ctx of
       Inl err \<Rightarrow> (Ok (), cm)
     | Inr tag \<Rightarrow>
         (case s of
            ConnBegin \<Rightarrow> (Ok (), cm\<lparr>cm_conns := AList.update tag Conn_zero (cm_conns cm)\<rparr>)
          | ConnEnd \<Rightarrow>
              (case map_of (cm_conns cm) tag of
                 None \<Rightarrow> (Panic, cm)
               | Some c \<Rightarrow> (Ok (), cm\<lparr>cm_fired := cm_fired cm @ [NotReady c], cm_conns := AList.delete tag (cm_conns cm)\<rparr>))
          | OtherStats \<Rightarrow> (Ok (), cm)))"

subsection \<open>Lifecycles\<close>

text \<open>
  The transport begins a connection once, under a new tag, and ends it once. A stream belongs to a
  connection (\<open>owner\<close>); its handler registers it. With \<open>late\<close>, a handler may register a stream whose
  connection has ended already: the transport does not wait for the handlers of a connection that it
  ends.
\<close>

record conn_run =
  cr_mgr :: ConnManager
  cr_live :: "nat list"
  cr_ended :: "nat list"

inductive conn_step :: "(nat \<Rightarrow> nat) \<Rightarrow> bool \<Rightarrow> conn_run \<Rightarrow> conn_run \<Rightarrow> bool" for owner late where
  begin_conn: "t \<notin> set (cr_live r) \<union> set (cr_ended r) \<Longrightarrow>
    HandleConn (TagConn None t) ConnBegin (cr_mgr r) = (q, m) \<Longrightarrow>
    conn_step owner late r (r\<lparr>cr_mgr := m, cr_live := t # cr_live r\<rparr>)"
| register_conn: "owner v \<in> set (cr_live r) \<or> late \<and> owner v \<in> set (cr_ended r) \<Longrightarrow>
    SaveConn (Some (owner v)) key info v (cr_mgr r) = (q, m) \<Longrightarrow>
    conn_step owner late r (r\<lparr>cr_mgr := m\<rparr>)"
| end_conn: "t \<in> set (cr_live r) \<Longrightarrow> HandleConn (Some t) ConnEnd (cr_mgr r) = (q, m) \<Longrightarrow>
    conn_step owner late r (r\<lparr>cr_mgr := m, cr_live := removeAll t (cr_live r), cr_ended := t # cr_ended r\<rparr>)"

inductive conn_reachable :: "(nat \<Rightarrow> nat) \<Rightarrow> bool \<Rightarrow> conn_run \<Rightarrow> bool" for owner late where
  start: "conn_reachable owner late \<lparr>cr_mgr = NewConnManager, cr_live = [], cr_ended = []\<rparr>"
| step: "conn_reachable owner late r \<Longrightarrow> conn_step owner late r r' \<Longrightarrow> conn_reachable owner late r'"

text \<open>The entries are the live connections (and those registered late), each with a stream of its own.\<close>

definition conns_ok :: "(nat \<Rightarrow> nat) \<Rightarrow> bool \<Rightarrow> conn_run \<Rightarrow> bool" where
  "conns_ok owner late r \<longleftrightarrow>
     (let cs = map_of (cm_conns (cr_mgr r)) in
      (\<forall>t\<in>set (cr_live r). cs t \<noteq> None)
      \<and> (\<forall>t. cs t \<noteq> None \<longrightarrow> t \<in> set (cr_live r) \<or> late \<and> t \<in> set (cr_ended r))
      \<and> set (cr_live r) \<inter> set (cr_ended r) = {}
      \<and> distinct (map fst (cm_conns (cr_mgr r)))
      \<and> (\<forall>t c. cs t = Some c \<longrightarrow> c = Conn_zero \<or> (\<exists>v. co_Value c = Some v \<and> owner v = t)))"

lemma find_key_Some: "find_key key cs = Some c \<Longrightarrow> \<exists>t. (t, c) \<in> set cs \<and> co_Key c = key"
  by (induction cs) (auto split: if_splits)

lemma find_key_ex: "(t, c) \<in> set cs \<Longrightarrow> co_Key c = key \<Longrightarrow> \<exists>c'. find_key key cs = Some c'"
  by (induction cs) auto

lemma conn_step_ok: "conn_step owner late r r' \<Longrightarrow> conns_ok owner late r \<Longrightarrow> conns_ok owner late r'"
proof (induction rule: conn_step.induct)
  case (begin_conn t r q m)
  then have "m = (cr_mgr r)\<lparr>cm_conns := AList.update t Conn_zero (cm_conns (cr_mgr r))\<rparr>"
    by (simp add: HandleConn_def TagConn_def getConnTagFromContext_def)
  with begin_conn(1,3) show ?case
    by (auto simp: conns_ok_def Let_def update_conv distinct_update simp del: map_of_eq_Some_iff split: if_splits)
next
  case (register_conn v r key info q m)
  then have "m = (cr_mgr r)\<lparr>cm_conns := AList.update (owner v) \<lparr>co_Key = key, co_Info = info, co_Value = Some v\<rparr> (cm_conns (cr_mgr r)),
      cm_fired := cm_fired (cr_mgr r) @ [Ready \<lparr>co_Key = key, co_Info = info, co_Value = Some v\<rparr>]\<rparr>"
    by (simp add: SaveConn_def getConnTagFromContext_def Let_def)
  with register_conn(1,3) show ?case
    by (auto simp: conns_ok_def Let_def update_conv distinct_update simp del: map_of_eq_Some_iff split: if_splits)
next
  case (end_conn t r q m)
  then obtain c where "map_of (cm_conns (cr_mgr r)) t = Some c"
    unfolding conns_ok_def Let_def by blast
  with end_conn(2) have "m = (cr_mgr r)\<lparr>cm_fired := cm_fired (cr_mgr r) @ [NotReady c], cm_conns := AList.delete t (cm_conns (cr_mgr r))\<rparr>"
    by (simp add: HandleConn_def getConnTagFromContext_def)
  with end_conn(1,3) show ?case
    by (auto simp: conns_ok_def Let_def delete_conv distinct_delete simp del: map_of_eq_Some_iff split: if_splits)
qed

lemma conn_reachable_ok: "conn_reachable owner late r \<Longrightarrow> conns_ok owner late r"
proof (induction rule: conn_reachable.induct)
  case start
  show ?case by (simp add: conns_ok_def NewConnManager_def)
qed (rule conn_step_ok)

lemma conn_lookup_live_aux:
  assumes "conn_reachable owner False r"
  shows "GetConnValue key (cr_mgr r) = Inr (Some v) \<Longrightarrow> owner v \<in> set (cr_live r)"
    "GetConnValue key (cr_mgr r) = Inr None \<Longrightarrow> key = []"
proof -
  note ok = conn_reachable_ok [OF assms, unfolded conns_ok_def Let_def]
  have found: "\<exists>t c. map_of (cm_conns (cr_mgr r)) t = Some c \<and> co_Key c = key \<and> co_Value c = u"
    if "GetConnValue key (cr_mgr r) = Inr u" for u
  proof -
    from that obtain c where c: "find_key key (cm_conns (cr_mgr r)) = Some c" "co_Value c = u"
      by (auto simp: GetConnValue_def split: option.splits)
    with find_key_Some obtain t where "(t, c) \<in> set (cm_conns (cr_mgr r))" "co_Key c = key" by blast
    with c ok show ?thesis by auto
  qed
  show "owner v \<in> set (cr_live r)" if "GetConnValue key (cr_mgr r) = Inr (Some v)"
    using found [OF that] ok by (force simp: Conn_zero_def)
  show "key = []" if "GetConnValue key (cr_mgr r) = Inr None"
    using found [OF that] ok by (force simp: Conn_zero_def)
qed

text \<open>
  C33: as long as no stream is registered after the end of its connection, the value found under a key is a stream of a
  connection that is alive; every connection registered under a key is a reason that the key is
  found; and the end of a connection that is alive does not crash.
\<close>

theorem conn_lookup_live:
  assumes "conn_reachable owner False r"
  shows "(\<forall>key v. GetConnValue key (cr_mgr r) = Inr (Some v) \<longrightarrow> owner v \<in> set (cr_live r))
    \<and> (\<forall>t c. map_of (cm_conns (cr_mgr r)) t = Some c \<longrightarrow> (\<exists>u. GetConnValue (co_Key c) (cr_mgr r) = Inr u))
    \<and> (\<forall>t\<in>set (cr_live r). fst (HandleConn (Some t) ConnEnd (cr_mgr r)) = Ok ())"
proof (intro conjI allI impI ballI)
  show "owner v \<in> set (cr_live r)" if "GetConnValue key (cr_mgr r) = Inr (Some v)" for key v
    using that by (rule conn_lookup_live_aux [OF assms])
next
  fix t c
  assume "map_of (cm_conns (cr_mgr r)) t = Some c"
  then have "(t, c) \<in> set (cm_conns (cr_mgr r))" by (rule map_of_SomeD)
  from find_key_ex [OF this refl] show "\<exists>u. GetConnValue (co_Key c) (cr_mgr r) = Inr u"
    by (auto simp: GetConnValue_def)
next
  note ok = conn_reachable_ok [OF assms, unfolded conns_ok_def Let_def]
  fix t
  assume "t \<in> set (cr_live r)"
  with ok obtain c where "map_of (cm_conns (cr_mgr r)) t = Some c" by blast
  then show "fst (HandleConn (Some t) ConnEnd (cr_mgr r)) = Ok ()"
    by (simp add: HandleConn_def getConnTagFromContext_def)
qed

subsection \<open>Registration after the end\<close>

text \<open>An entry of a connection that has ended stays for ever.\<close>

lemma stale_step:
  assumes "conn_step owner late r r'" and "t \<in> set (cr_ended r)" and "map_of (cm_conns (cr_mgr r)) t \<noteq> None"
    and "conns_ok owner late r"
  shows "t \<in> set (cr_ended r') \<and> map_of (cm_conns (cr_mgr r')) t \<noteq> None"
  using assms
proof (cases rule: conn_step.cases)
  case (end_conn u q m)
  then have "u \<noteq> t" using assms(2,4) by (auto simp: conns_ok_def Let_def)
  with end_conn assms(2,3) show ?thesis
    by (auto simp: HandleConn_def getConnTagFromContext_def delete_conv simp del: map_of_eq_Some_iff split: option.splits)
qed (auto simp: HandleConn_def SaveConn_def TagConn_def getConnTagFromContext_def Let_def update_conv simp del: map_of_eq_Some_iff)

inductive conn_steps :: "(nat \<Rightarrow> nat) \<Rightarrow> bool \<Rightarrow> conn_run \<Rightarrow> conn_run \<Rightarrow> bool" for owner late where
  none: "conn_steps owner late r r"
| more: "conn_steps owner late r r1 \<Longrightarrow> conn_step owner late r1 r2 \<Longrightarrow> conn_steps owner late r r2"

lemma conn_steps_ok: "conn_steps owner late r r' \<Longrightarrow> conns_ok owner late r \<Longrightarrow> conns_ok owner late r'"
  by (induction rule: conn_steps.induct) (auto intro: conn_step_ok)

lemma stale_steps:
  "conn_steps owner late r r' \<Longrightarrow> conns_ok owner late r \<Longrightarrow> t \<in> set (cr_ended r) \<Longrightarrow> map_of (cm_conns (cr_mgr r)) t \<noteq> None
    \<Longrightarrow> t \<in> set (cr_ended r') \<and> map_of (cm_conns (cr_mgr r')) t \<noteq> None"
proof (induction rule: conn_steps.induct)
  case (more r r1 r2)
  then show ?case using stale_step [OF more.hyps(2)] conn_steps_ok [OF more.hyps(1)] by simp
qed simp

text \<open>
  A stream that is registered after its connection has ended stays in the map for ever, whatever happens
  afterwards: no later end takes it out.
\<close>

theorem late_registration_stays:
  assumes "conn_reachable owner True r" and "owner v \<in> set (cr_ended r)"
    and "SaveConn (Some (owner v)) key info v (cr_mgr r) = (q, m)"
    and "conn_steps owner True (r\<lparr>cr_mgr := m\<rparr>) r'"
  shows "map_of (cm_conns (cr_mgr r')) (owner v) \<noteq> None \<and> owner v \<notin> set (cr_live r')"
proof -
  have "conn_step owner True r (r\<lparr>cr_mgr := m\<rparr>)"
    by (rule conn_step.register_conn [where owner = owner and v = v and r = r and late = True, OF _ assms(3)]) (use assms(2) in simp)
  from conn_step_ok [OF this conn_reachable_ok [OF assms(1)]]
  have ok: "conns_ok owner True (r\<lparr>cr_mgr := m\<rparr>)" .
  have "map_of (cm_conns m) (owner v) \<noteq> None"
    using assms(3) by (auto simp: SaveConn_def getConnTagFromContext_def Let_def update_conv simp del: map_of_eq_Some_iff)
  then have "owner v \<in> set (cr_ended r') \<and> map_of (cm_conns (cr_mgr r')) (owner v) \<noteq> None"
    using stale_steps [OF assms(4) ok, of "owner v"] assms(2) by simp
  moreover have "set (cr_live r') \<inter> set (cr_ended r') = {}"
    using conn_steps_ok [OF assms(4) ok] by (simp add: conns_ok_def Let_def)
  ultimately show ?thesis by auto
qed

subsection \<open>A connection that replaces another\<close>

text \<open>
  An agent takes its key once, when it starts. When it connects again before the server has seen the end of its
  old connection, both are registered under the same key.
\<close>

definition after_reconnect :: "(nat \<Rightarrow> nat) \<Rightarrow> string \<Rightarrow> string gomap \<Rightarrow> nat \<Rightarrow> nat \<Rightarrow> conn_run" where
  "after_reconnect owner key info v1 v2 =
     (let m1 = snd (HandleConn (TagConn None (owner v1)) ConnBegin NewConnManager);
          m2 = snd (SaveConn (Some (owner v1)) key info v1 m1);
          m3 = snd (HandleConn (TagConn None (owner v2)) ConnBegin m2);
          m4 = snd (SaveConn (Some (owner v2)) key info v2 m3);
          m5 = snd (HandleConn (Some (owner v1)) ConnEnd m4)
      in \<lparr>cr_mgr = m5, cr_live = [owner v2], cr_ended = [owner v1]\<rparr>)"

text \<open>What the cluster manager makes of the events.\<close>

definition status_events :: "conn_event list \<Rightarrow> (string \<times> string) list" where
  "status_events = map (\<lambda>e. case e of Ready c \<Rightarrow> (co_Key c, ClusterStatusReady) | NotReady c \<Rightarrow> (co_Key c, ClusterStatusNotReady))"

lemmas conn_ops = HandleConn_def SaveConn_def TagConn_def getConnTagFromContext_def NewConnManager_def Let_def

lemma after_reconnect_reachable:
  assumes "owner v1 \<noteq> owner v2"
  shows "conn_reachable owner late (after_reconnect owner key info v1 v2)"
proof -
  let ?m1 = "snd (HandleConn (TagConn None (owner v1)) ConnBegin NewConnManager)"
  let ?m2 = "snd (SaveConn (Some (owner v1)) key info v1 ?m1)"
  let ?m3 = "snd (HandleConn (TagConn None (owner v2)) ConnBegin ?m2)"
  let ?m4 = "snd (SaveConn (Some (owner v2)) key info v2 ?m3)"
  let ?r = "\<lambda>m l. \<lparr>cr_mgr = m, cr_live = l, cr_ended = []\<rparr>"
  have p: "p = (fst p, snd p)" for p :: "unit outcome \<times> ConnManager" by simp
  have "conn_reachable owner late (?r ?m1 [owner v1])"
    using conn_reachable.step [OF conn_reachable.start conn_step.begin_conn [where t = "owner v1", OF _ p]] by simp
  from conn_reachable.step [OF this conn_step.register_conn [where v = v1 and key = key and info = info, OF _ p]]
  have "conn_reachable owner late (?r ?m2 [owner v1])" by simp
  from conn_reachable.step [OF this conn_step.begin_conn [where t = "owner v2", OF _ p]]
  have "conn_reachable owner late (?r ?m3 [owner v2, owner v1])" using assms by simp
  from conn_reachable.step [OF this conn_step.register_conn [where v = v2 and key = key and info = info, OF _ p]]
  have "conn_reachable owner late (?r ?m4 [owner v2, owner v1])" by simp
  from conn_reachable.step [OF this conn_step.end_conn [where t = "owner v1", OF _ p]]
  show ?thesis using assms by (simp add: after_reconnect_def Let_def)
qed

text \<open>
  An agent that connects again under its key before the end of its old connection is seen is found under its key, on
  the new connection, but the row of its cluster says that it is not ready.
\<close>

theorem reconnect_reported_down:
  assumes "gorm_db M obs" and "owner v1 \<noteq> owner v2" and "key_of site key" and "site_rows site (a_db (obs d)) = [c]"
    and "cl_ConnKey c = [] \<or> key_of site (cl_ConnKey c) \<and> str_geq (stamp_of key) (stamp_of (cl_ConnKey c))"
    and "r = after_reconnect owner key info v1 v2"
    and "status_run (m_db M) (status_events (cm_fired (cr_mgr r))) d = (status_events (cm_fired (cr_mgr r)), d')"
  shows "conn_reachable owner False r \<and> GetConnValue key (cr_mgr r) = Inr (Some v2) \<and> owner v2 \<in> set (cr_live r)
    \<and> (\<exists>c'. site_rows site (a_db (obs d')) = [c'] \<and> cl_ConnKey c' = key \<and> cl_Status c' = ClusterStatusNotReady)"
proof -
  have evs: "status_events (cm_fired (cr_mgr r)) = [(key, ClusterStatusReady), (key, ClusterStatusReady), (key, ClusterStatusNotReady)]"
    using assms(2) by (simp add: assms(6) after_reconnect_def conn_ops status_events_def)
  have keys: "\<forall>(k, s)\<in>set (status_events (cm_fired (cr_mgr r))). key_of site k \<and> s \<noteq> []"
    using assms(3) by (simp add: evs ClusterStatusReady_def ClusterStatusNotReady_def)
  have new: "foldl newest (status_of c) (status_events (cm_fired (cr_mgr r))) = Some (key, ClusterStatusNotReady)"
    using assms(5) by (auto simp: evs status_of_def)
  have old: "key_of site (cl_ConnKey c) \<or> cl_ConnKey c = []" using assms(5) by blast
  from gorm_db.status_run_refines [OF assms(1,7,4) keys old] new
  obtain c' where "site_rows site (a_db (obs d')) = [c']" "status_of c' = Some (key, ClusterStatusNotReady)"
    by (elim exE conjE) simp
  moreover have "GetConnValue key (cr_mgr r) = Inr (Some v2)" "owner v2 \<in> set (cr_live r)"
    using assms(2) by (simp_all add: assms(6) after_reconnect_def conn_ops GetConnValue_def)
  moreover have "conn_reachable owner False r" unfolding assms(6) using assms(2) by (rule after_reconnect_reachable)
  ultimately show ?thesis by (auto simp: status_of_def split: if_splits)
qed

subsection \<open>Witnesses\<close>

theorem conn_lookup_live_witness:
  "GetConnValue ''s1@@100'' (cr_mgr (after_reconnect id ''s1@@100'' [] 1 2)) = Inr (Some 2)
    \<and> id 2 \<in> set (cr_live (after_reconnect id ''s1@@100'' [] 1 2))"
proof -
  have r: "conn_reachable id False (after_reconnect id ''s1@@100'' [] 1 2)" by (rule after_reconnect_reachable) simp
  have "GetConnValue ''s1@@100'' (cr_mgr (after_reconnect id ''s1@@100'' [] 1 2)) = Inr (Some 2)"
    by (simp add: after_reconnect_def conn_ops GetConnValue_def)
  with conn_lookup_live [OF r] show ?thesis by blast
qed

theorem late_registration_stays_witness:
  "map_of (cm_conns (snd (SaveConn (Some 1) ''s1@@100'' [] 1 (cr_mgr (after_reconnect id ''s1@@100'' [] 1 2))))) 1 \<noteq> None
    \<and> 1 \<notin> set (cr_live (after_reconnect id ''s1@@100'' [] 1 2))"
proof -
  let ?r = "after_reconnect id ''s1@@100'' [] 1 2"
  let ?s = "SaveConn (Some (id 1)) ''s1@@100'' [] 1 (cr_mgr ?r)"
  have r: "conn_reachable id True ?r" by (rule after_reconnect_reachable) simp
  have ended: "id (1::nat) \<in> set (cr_ended ?r)" by (simp add: after_reconnect_def Let_def)
  have "?s = (fst ?s, snd ?s)" by simp
  from late_registration_stays [OF r ended this conn_steps.none] show ?thesis by simp
qed

theorem reconnect_reported_down_witness:
  "\<exists>d' c'. status_run (m_db demo_manager) (status_events (cm_fired (cr_mgr (after_reconnect id ''s1@@100'' [] 1 2))))
        (w_db (demo_world demo_rows))
      = (status_events (cm_fired (cr_mgr (after_reconnect id ''s1@@100'' [] 1 2))), d')
    \<and> site_rows ''s1'' (mem_rows d') = [c'] \<and> cl_Status c' = ClusterStatusNotReady"
proof -
  let ?r = "after_reconnect id ''s1@@100'' [] 1 2"
  let ?q = "status_run (m_db demo_manager) (status_events (cm_fired (cr_mgr ?r))) (w_db (demo_world demo_rows))"
  have gorm: "gorm_db demo_manager mem_obs" by (rule mem_gorm_laws) (simp add: demo_manager_def)
  have "fst ?q = status_events (cm_fired (cr_mgr ?r))" by code_simp
  then have run: "?q = (status_events (cm_fired (cr_mgr ?r)), snd ?q)" by (simp add: prod_eq_iff)
  have rows: "site_rows ''s1'' (a_db (mem_obs (w_db (demo_world demo_rows)))) = [demo_cluster]"
    by (simp add: site_rows_def demo_world_def demo_rows_def demo_cluster_def)
  have key: "key_of ''s1'' ''s1@@100''" by (simp add: key_of_def)
  have old: "cl_ConnKey demo_cluster = [] \<or> key_of ''s1'' (cl_ConnKey demo_cluster)
      \<and> str_geq (stamp_of ''s1@@100'') (stamp_of (cl_ConnKey demo_cluster))"
    by (simp add: demo_cluster_def key_of_def stamp_of_def)
  from reconnect_reported_down [OF gorm _ key rows old refl run] run show ?thesis by auto
qed

end
