(* ===== verification/Cmd_Manager.thy ===== *)
theory Cmd_Manager
  imports Conn_Manager Go_Loops "HOL-Library.Word" "HOL-Library.Sublist"
begin

section \<open>Commands over a connection: executing requests (pkg/component/cmd)\<close>

text \<open>
  Both ends of a connection send requests and execute them. This theory has the packages on the wire, the executor with its
  handlers, and the processing of one request: a plain response is one package, the response with a
  stream is cut into packages of at most a hundred lines. \<open>'s\<close> is the state the handlers work on.
\<close>

datatype CmdType = REQUEST | RESPONSE

record CmdPackage =
  pk_UUID :: string
  pk_Name :: string
  pk_Type :: CmdType
  pk_Args :: "string gomap"
  pk_Caller :: string
  pk_Executor :: string
  pk_RespCode :: "32 word"
  pk_RespData :: bytes
  pk_RespMsg :: string
  pk_Stream :: bool

record Req =
  re_UUID :: string
  re_Name :: string
  re_Args :: "string gomap"
  re_Caller :: string
  re_Executor :: string

text \<open>The stream of a response is the content that it yields until its end.\<close>

record Resp =
  rp_Code :: int
  rp_Msg :: string
  rp_Data :: string
  rp_stream :: "bytes option"

definition MaxReadLinesNum :: nat where "MaxReadLinesNum = 100"
definition MaxBufferSize :: nat where "MaxBufferSize = 200"
definition Register :: string where "Register = ''register''"
definition CloseStream :: string where "CloseStream = ''close''"

definition IsStream :: "Resp \<Rightarrow> bool" where
  "IsStream resp \<longleftrightarrow> rp_stream resp \<noteq> None"

definition RespSucceedCmd :: "string \<Rightarrow> Resp" where
  "RespSucceedCmd d = \<lparr>rp_Code = SuccessCode, rp_Msg = ''ok'', rp_Data = d, rp_stream = None\<rparr>"

definition RespNotFound :: Resp where
  "RespNotFound = \<lparr>rp_Code = 400, rp_Msg = ''not found'', rp_Data = [], rp_stream = None\<rparr>"

definition RespFailed :: Resp where
  "RespFailed = \<lparr>rp_Code = FailCode, rp_Msg = ''error'', rp_Data = [], rp_stream = None\<rparr>"

definition RespErrorCmd :: "goerr \<Rightarrow> Resp" where
  "RespErrorCmd err = \<lparr>rp_Code = FailCode, rp_Msg = err_text err, rp_Data = [], rp_stream = None\<rparr>"

definition RespStream :: "bytes list \<Rightarrow> Resp" where
  "RespStream readers = \<lparr>rp_Code = SuccessCode, rp_Msg = ''ok'', rp_Data = [], rp_stream = Some (concat readers)\<rparr>"

definition NewResp :: "int \<Rightarrow> string \<Rightarrow> string \<Rightarrow> bytes list \<Rightarrow> Resp" where
  "NewResp code msg data readers = \<lparr>rp_Code = code, rp_Msg = msg, rp_Data = data, rp_stream = Some (concat readers)\<rparr>"

definition genReqCmdPackage :: "Req \<Rightarrow> string \<Rightarrow> goerr + CmdPackage" where
  "genReqCmdPackage cmd caller =
     (if re_Name cmd = [] then Inl (Errorf ''cmd request name can't be empty'')
      else Inr \<lparr>pk_UUID = re_UUID cmd, pk_Name = re_Name cmd, pk_Type = REQUEST, pk_Args = re_Args cmd,
        pk_Caller = caller, pk_Executor = re_Executor cmd, pk_RespCode = 0, pk_RespData = [], pk_RespMsg = [],
        pk_Stream = False\<rparr>)"

definition newCmdReq :: "string \<Rightarrow> string \<Rightarrow> string \<Rightarrow> string gomap \<Rightarrow> string \<Rightarrow> Req" where
  "newCmdReq caller uuid name args executor =
     \<lparr>re_UUID = uuid, re_Name = name, re_Args = args, re_Caller = caller, re_Executor = executor\<rparr>"

subsection \<open>The executor (executor.go)\<close>

record 's peer =
  pe_app :: 's
  pe_streams :: "string list"
  pe_closed :: "string list"
  pe_out :: "CmdPackage list"

type_synonym 's on_complete = "(goerr option \<Rightarrow> ('s peer, unit) proc) option"
type_synonym 's handler = "Req \<Rightarrow> ('s peer, Resp option \<times> 's on_complete) proc"

definition closeSteamHandler :: "'s handler" where
  "closeSteamHandler req = (\<lambda>p.
     (Ok (Some (RespSucceedCmd ''ok''), None),
      if re_UUID req \<in> set (pe_streams p) then p\<lparr>pe_closed := re_UUID req # pe_closed p\<rparr> else p))"

definition newExecutor :: "'s handler gomap" where
  "newExecutor = [(CloseStream, closeSteamHandler)]"

definition addHandler :: "string \<Rightarrow> 's handler \<Rightarrow> 's handler gomap \<Rightarrow> 's handler gomap" where
  "addHandler name h hs = map_set name h hs"

text \<open>A handler that returns no response crashes: \<open>resp.IsStream()\<close> comes before the test for \<open>nil\<close>.\<close>

definition exec :: "string \<Rightarrow> 's handler gomap \<Rightarrow> CmdPackage \<Rightarrow> ('s peer, Resp \<times> 's on_complete) proc" where
  "exec name hs cmd =
     (case map_of hs (pk_Name cmd) of
        None \<Rightarrow> ret (\<lparr>rp_Code = FailCode, rp_Msg = ''cmd '' @ pk_Name cmd @ '' not supported at executor '' @ name,
                      rp_Data = [], rp_stream = None\<rparr>, None)
      | Some h \<Rightarrow>
          andthen (h \<lparr>re_UUID = pk_UUID cmd, re_Name = pk_Name cmd, re_Args = pk_Args cmd, re_Caller = pk_Caller cmd,
                      re_Executor = pk_Executor cmd\<rparr>) (\<lambda>(r, onComplete).
          case r of
            None \<Rightarrow> panic
          | Some resp \<Rightarrow>
              andthen (\<lambda>p. (Ok (), if IsStream resp then p\<lparr>pe_streams := pk_UUID cmd # pe_streams p\<rparr> else p))
                (\<lambda>_. ret (resp, onComplete))))"

subsection \<open>Streams\<close>

text \<open>\<open>ReadBytes('\n')\<close> until the end: the lines with their ends, and a last line without.\<close>

fun read_lines :: "bytes \<Rightarrow> bytes list" where
  "read_lines [] = []"
| "read_lines (c # cs) =
     (if c = CHR 0x0A then [c] # read_lines cs
      else case read_lines cs of [] \<Rightarrow> [[c]] | l # ls \<Rightarrow> (c # l) # ls)"

text \<open>
  What the consumer of the lines sees, in some order: its timer, or a value of the channel (the empty one
  when the channel is closed).
\<close>

datatype pump_event = Timer | Recv bytes

definition send_lines :: "(CmdPackage \<Rightarrow> ('s, unit) proc) \<Rightarrow> CmdPackage \<Rightarrow> bytes list \<Rightarrow> ('s, unit) proc" where
  "send_lines respCmd cmd lines =
     (if lines = [] then ret () else respCmd (cmd\<lparr>pk_RespData := concat lines\<rparr>))"

text \<open>\<open>True\<close> when the stream has ended, \<open>False\<close> while the loop waits for its next event.\<close>

fun pump :: "(CmdPackage \<Rightarrow> ('s, unit) proc) \<Rightarrow> CmdPackage \<Rightarrow> pump_event list \<Rightarrow> bytes list \<Rightarrow> ('s, bool) proc" where
  "pump respCmd cmd [] lines = ret False"
| "pump respCmd cmd (Timer # es) lines = andthen (send_lines respCmd cmd lines) (\<lambda>_. pump respCmd cmd es [])"
| "pump respCmd cmd (Recv line # es) lines =
     (if line = [] then andthen (send_lines respCmd cmd lines) (\<lambda>_. ret True)
      else let lines' = lines @ [line] in
        if MaxReadLinesNum \<le> length lines'
        then andthen (send_lines respCmd cmd lines') (\<lambda>_. pump respCmd cmd es [])
        else pump respCmd cmd es lines')"

subsection \<open>Requests\<close>

text \<open>\<open>uint32(resp.Code)\<close> on the wire, \<open>int(cb.RespCode)\<close> at the receiver.\<close>

definition resp_package :: "CmdPackage \<Rightarrow> Resp \<Rightarrow> CmdPackage" where
  "resp_package cmd resp = cmd\<lparr>pk_Type := RESPONSE, pk_RespCode := word_of_int (rp_Code resp),
     pk_RespMsg := rp_Msg resp, pk_Stream := IsStream resp\<rparr>"

definition respond_cmd ::
  "(CmdPackage \<Rightarrow> ('s peer, unit) proc) \<Rightarrow> pump_event list \<Rightarrow> CmdPackage \<Rightarrow> Resp \<Rightarrow> ('s peer, bool) proc" where
  "respond_cmd respCmd events cmd resp =
     (let c = resp_package cmd resp
      in if \<not> IsStream resp then andthen (respCmd (c\<lparr>pk_RespData := rp_Data resp\<rparr>)) (\<lambda>_. ret True)
         else pump respCmd c events [])"

definition processReq ::
  "(CmdPackage \<Rightarrow> ('s peer, unit) proc) \<Rightarrow> string \<Rightarrow> 's handler gomap \<Rightarrow> pump_event list \<Rightarrow> CmdPackage \<Rightarrow> ('s peer, bool) proc" where
  "processReq respCmd name hs events cmd =
     andthen (exec name hs cmd) (\<lambda>(resp, onComplete).
     attempt (respond_cmd respCmd events cmd resp)
       (\<lambda>err. case onComplete of None \<Rightarrow> fail err | Some f \<Rightarrow> andthen (f (Some err)) (\<lambda>_. fail err))
       (\<lambda>done. if \<not> done then ret False
               else case onComplete of None \<Rightarrow> ret True | Some f \<Rightarrow> andthen (f None) (\<lambda>_. ret True)))"

text \<open>A received package starts a job; a registration is left to the server.\<close>

datatype cmd_job = Job_request CmdPackage | Job_response CmdPackage

definition onReceive :: "goerr + CmdPackage \<Rightarrow> (goerr + CmdPackage) \<times> cmd_job option" where
  "onReceive recv = (case recv of
     Inl err \<Rightarrow> (Inl err, None)
   | Inr p \<Rightarrow> (Inr p, if pk_Name p = Register then None
                       else case pk_Type p of REQUEST \<Rightarrow> Some (Job_request p) | RESPONSE \<Rightarrow> Some (Job_response p)))"

subsection \<open>A stream arrives as it was written\<close>

lemma concat_read_lines [simp]: "concat (read_lines s) = s"
proof (induction s)
  case (Cons c s)
  then show ?case by (cases "read_lines s") auto
qed simp

lemma read_lines_nonempty: "l \<in> set (read_lines s) \<Longrightarrow> l \<noteq> []"
proof (induction s arbitrary: l)
  case (Cons c s)
  then show ?case by (cases "read_lines s") (auto split: if_splits)
qed simp

text \<open>The lines that are received before the channel is closed, and whether it is.\<close>

fun received :: "pump_event list \<Rightarrow> bytes list" where
  "received [] = []"
| "received (Timer # es) = received es"
| "received (Recv l # es) = (if l = [] then [] else l # received es)"

text \<open>A transport that logs what was sent, and fails at some of the sends.\<close>

definition to_log :: "(nat \<Rightarrow> bool) \<Rightarrow> CmdPackage \<Rightarrow> (CmdPackage list, unit) proc" where
  "to_log fails p = (\<lambda>log. if fails (length log) then (Err (External ''send''), log) else (Ok (), log @ [p]))"

definition batch :: "CmdPackage \<Rightarrow> CmdPackage \<Rightarrow> bool" where
  "batch c p \<longleftrightarrow> (\<exists>ls. ls \<noteq> [] \<and> length ls \<le> MaxReadLinesNum \<and> p = c\<lparr>pk_RespData := concat ls\<rparr>)"

lemma send_lines_log:
  assumes "send_lines (to_log fails) c lines log = (r, log')" and "length lines \<le> MaxReadLinesNum"
  shows "(r = Ok () \<and> (\<exists>ps. log' = log @ ps \<and> concat (map pk_RespData ps) = concat lines \<and> (\<forall>p\<in>set ps. batch c p)))
    \<or> ((\<exists>e. r = Err e) \<and> log' = log \<and> (\<exists>n. fails n))"
proof (cases "lines = []")
  case True
  with assms(1) show ?thesis by (simp add: send_lines_def ret_def)
next
  case False
  have "batch c (c\<lparr>pk_RespData := concat lines\<rparr>)" using assms(2) False by (auto simp: batch_def)
  with assms(1) False show ?thesis by (auto simp: send_lines_def to_log_def split: if_splits)
qed

definition pumped :: "(nat \<Rightarrow> bool) \<Rightarrow> CmdPackage \<Rightarrow> bytes list \<Rightarrow> pump_event list \<Rightarrow> bool outcome \<Rightarrow> CmdPackage list \<Rightarrow> bool" where
  "pumped fails c lines es r ps \<longleftrightarrow> (\<forall>p\<in>set ps. batch c p)
     \<and> prefix (concat (map pk_RespData ps)) (concat (lines @ received es))
     \<and> (r = Ok True \<longrightarrow> concat (map pk_RespData ps) = concat (lines @ received es))
     \<and> ((\<forall>n. \<not> fails n) \<longrightarrow> Recv [] \<in> set es \<longrightarrow> r = Ok True)"

lemma pumped_after_send:
  assumes "\<forall>p\<in>set qs. batch c p" and "concat (map pk_RespData qs) = concat lines" and "pumped fails c [] es r ps"
    and "received es' = ls @ received es" and "Recv [] \<in> set es' \<longrightarrow> Recv [] \<in> set es" and "lines = lines0 @ ls"
  shows "pumped fails c lines0 es' r (qs @ ps)"
  using assms by (auto simp: pumped_def)

lemma pump_log:
  "pump (to_log fails) c es lines log = (r, log') \<Longrightarrow> length lines < MaxReadLinesNum \<Longrightarrow>
    \<exists>ps. log' = log @ ps \<and> pumped fails c lines es r ps"
proof (induction "to_log fails" c es lines arbitrary: log r log' rule: pump.induct)
  case (1 c lines)
  then show ?case by (auto simp: ret_def pumped_def)
next
  case (2 c es lines)
  obtain q log1 where send: "send_lines (to_log fails) c lines log = (q, log1)" by fastforce
  from send_lines_log [OF this] 2(3) consider
      (ok) ps where "q = Ok ()" "log1 = log @ ps" "concat (map pk_RespData ps) = concat lines" "\<forall>p\<in>set ps. batch c p"
    | (failed) e where "q = Err e" "log1 = log" "\<exists>n. fails n" by auto
  then show ?case
  proof cases
    case ok
    then have "pump (to_log fails) c es [] log1 = (r, log')" using 2(2) send by (simp add: andthen_run)
    from 2(1) [OF this] obtain qs where qs: "log' = log1 @ qs" "pumped fails c [] es r qs" by (auto simp: MaxReadLinesNum_def)
    have "pumped fails c lines (Timer # es) r (ps @ qs)"
      by (rule pumped_after_send [OF ok(4,3) qs(2), of _ "[]"]) simp_all
    with qs ok show ?thesis by auto
  next
    case failed
    then show ?thesis using 2(2) send by (auto simp: andthen_run pumped_def)
  qed
next
  case (3 c line es lines)
  show ?case
  proof (cases "line = []")
    case True
    obtain q log1 where send: "send_lines (to_log fails) c lines log = (q, log1)" by fastforce
    from send_lines_log [OF this] 3(4) show ?thesis
      using 3(3) True send by (auto simp: andthen_run ret_def pumped_def)
  next
    case False
    let ?lines = "lines @ [line]"
    show ?thesis
    proof (cases "MaxReadLinesNum \<le> length ?lines")
      case True
      obtain q log1 where send: "send_lines (to_log fails) c ?lines log = (q, log1)" by fastforce
      from send_lines_log [OF this] 3(4) consider
          (ok) ps where "q = Ok ()" "log1 = log @ ps" "concat (map pk_RespData ps) = concat ?lines" "\<forall>p\<in>set ps. batch c p"
        | (failed) e where "q = Err e" "log1 = log" "\<exists>n. fails n" by auto
      then show ?thesis
      proof cases
        case ok
        then have "pump (to_log fails) c es [] log1 = (r, log')" using 3(3) False True send by (simp add: andthen_run)
        from 3(1) [OF False refl True this] obtain qs where qs: "log' = log1 @ qs" "pumped fails c [] es r qs"
          by (auto simp: MaxReadLinesNum_def)
        have "pumped fails c lines (Recv line # es) r (ps @ qs)"
          by (rule pumped_after_send [OF ok(4,3) qs(2), of _ "[line]"]) (use False in simp_all)
        with qs ok show ?thesis by auto
      next
        case failed
        then show ?thesis using 3(3) False True send by (auto simp: andthen_run pumped_def)
      qed
    next
      case more: False
      then have "pump (to_log fails) c es ?lines log = (r, log')" using 3(3) False by simp
      from 3(2) [OF False refl more this] more obtain ps where "log' = log @ ps" "pumped fails c ?lines es r ps" by auto
      with False show ?thesis by (auto simp: pumped_def)
    qed
  qed
qed


subsection \<open>A request and its response\<close>

definition to_out :: "CmdPackage \<Rightarrow> ('s peer, unit) proc" where
  "to_out p = (\<lambda>st. (Ok (), st\<lparr>pe_out := pe_out st @ [p]\<rparr>))"

text \<open>
  C22: a request whose handler gives a plain response is answered by one package with the identity of the
  request and the response of the handler, its code modulo \<open>2 ^ 32\<close>; the handler's callback runs after it
  was sent. A request without a handler is answered by the code of a failure.
\<close>

theorem request_answered:
  assumes "genReqCmdPackage req caller = Inr c" and "processReq to_out name hs es c st = (r, st')"
  shows "(\<forall>h resp cb st1. map_of hs (re_Name req) = Some h
      \<longrightarrow> h (req\<lparr>re_Caller := caller\<rparr>) st = (Ok (Some resp, cb), st1) \<longrightarrow> rp_stream resp = None
      \<longrightarrow> (\<exists>p. pk_UUID p = re_UUID req \<and> pk_Type p = RESPONSE \<and> pk_Caller p = caller \<and> pk_Executor p = re_Executor req
            \<and> uint (pk_RespCode p) = rp_Code resp mod 2 ^ 32 \<and> pk_RespMsg p = rp_Msg resp \<and> pk_RespData p = rp_Data resp
            \<and> (case cb of None \<Rightarrow> (r, st') = (Ok True, st1\<lparr>pe_out := pe_out st1 @ [p]\<rparr>)
               | Some f \<Rightarrow> (r, st') = andthen (f None) (\<lambda>_. ret True) (st1\<lparr>pe_out := pe_out st1 @ [p]\<rparr>))))
    \<and> (map_of hs (re_Name req) = None \<longrightarrow> (\<exists>p. pk_UUID p = re_UUID req \<and> uint (pk_RespCode p) = FailCode
         \<and> r = Ok True \<and> st' = st\<lparr>pe_out := pe_out st @ [p]\<rparr>))"
proof (intro conjI allI impI)
  have c: "c = \<lparr>pk_UUID = re_UUID req, pk_Name = re_Name req, pk_Type = REQUEST, pk_Args = re_Args req, pk_Caller = caller,
      pk_Executor = re_Executor req, pk_RespCode = 0, pk_RespData = [], pk_RespMsg = [], pk_Stream = False\<rparr>"
    using assms(1) by (auto simp: genReqCmdPackage_def split: if_splits)
  fix h resp cb st1
  assume h: "map_of hs (re_Name req) = Some h" "h (req\<lparr>re_Caller := caller\<rparr>) st = (Ok (Some resp, cb), st1)"
    and plain: "rp_stream resp = None"
  have q: "\<lparr>re_UUID = pk_UUID c, re_Name = re_Name req, re_Args = pk_Args c, re_Caller = pk_Caller c, re_Executor = pk_Executor c\<rparr>
      = req\<lparr>re_Caller := caller\<rparr>"
    by (simp add: c)
  have n: "pk_Name c = re_Name req" by (simp add: c)
  have ex: "exec name hs c st = (Ok (resp, cb), st1)"
    unfolding exec_def n h(1) option.case q andthen_Ok [of "h (req\<lparr>re_Caller := caller\<rparr>)", OF h(2)] prod.case
    using plain by (simp add: andthen_def attempt_def ret_def IsStream_def)
  let ?p = "(resp_package c resp)\<lparr>pk_RespData := rp_Data resp\<rparr>"
  have "respond_cmd to_out es c resp st1 = (Ok True, st1\<lparr>pe_out := pe_out st1 @ [?p]\<rparr>)"
    using plain by (simp add: respond_cmd_def IsStream_def Let_def to_out_def andthen_run ret_def)
  with assms(2) ex have "(r, st') = (case cb of None \<Rightarrow> ret True | Some f \<Rightarrow> andthen (f None) (\<lambda>_. ret True))
      (st1\<lparr>pe_out := pe_out st1 @ [?p]\<rparr>)"
    by (simp add: processReq_def andthen_run attempt_run)
  moreover have "pk_UUID ?p = re_UUID req" "pk_Type ?p = RESPONSE" "pk_Caller ?p = caller" "pk_Executor ?p = re_Executor req"
    "uint (pk_RespCode ?p) = rp_Code resp mod 2 ^ 32" "pk_RespMsg ?p = rp_Msg resp" "pk_RespData ?p = rp_Data resp"
    by (simp_all add: resp_package_def c uint_word_of_int)
  ultimately show "\<exists>p. pk_UUID p = re_UUID req \<and> pk_Type p = RESPONSE \<and> pk_Caller p = caller \<and> pk_Executor p = re_Executor req
            \<and> uint (pk_RespCode p) = rp_Code resp mod 2 ^ 32 \<and> pk_RespMsg p = rp_Msg resp \<and> pk_RespData p = rp_Data resp
            \<and> (case cb of None \<Rightarrow> (r, st') = (Ok True, st1\<lparr>pe_out := pe_out st1 @ [p]\<rparr>)
               | Some f \<Rightarrow> (r, st') = andthen (f None) (\<lambda>_. ret True) (st1\<lparr>pe_out := pe_out st1 @ [p]\<rparr>))"
    by (intro exI [of _ ?p]) (cases cb, simp_all add: ret_def)
next
  assume none: "map_of hs (re_Name req) = None"
  let ?resp = "\<lparr>rp_Code = FailCode, rp_Msg = ''cmd '' @ pk_Name c @ '' not supported at executor '' @ name, rp_Data = [], rp_stream = None\<rparr>"
  let ?p = "(resp_package c ?resp)\<lparr>pk_RespData := []\<rparr>"
  have c: "pk_UUID c = re_UUID req" "pk_Name c = re_Name req"
    using assms(1) by (auto simp: genReqCmdPackage_def split: if_splits)
  have "exec name hs c st = (Ok (?resp, None), st)" using none c(2) by (simp add: exec_def ret_def)
  with assms(2) have "r = Ok True \<and> st' = st\<lparr>pe_out := pe_out st @ [?p]\<rparr>"
    by (simp add: processReq_def andthen_run attempt_run respond_cmd_def IsStream_def Let_def to_out_def ret_def)
  moreover have "pk_UUID ?p = re_UUID req" "uint (pk_RespCode ?p) = FailCode"
    by (simp_all add: resp_package_def c uint_word_of_int FailCode_def)
  ultimately show "\<exists>p. pk_UUID p = re_UUID req \<and> uint (pk_RespCode p) = FailCode \<and> r = Ok True \<and> st' = st\<lparr>pe_out := pe_out st @ [p]\<rparr>"
    by blast
qed

subsection \<open>Witnesses\<close>

definition log_package :: CmdPackage where
  "log_package = \<lparr>pk_UUID = ''u'', pk_Name = ''GetContainerLog'', pk_Type = RESPONSE, pk_Args = [], pk_Caller = ''CmdServer'',
     pk_Executor = ''s1@@100'', pk_RespCode = 200, pk_RespData = [], pk_RespMsg = ''ok'', pk_Stream = True\<rparr>"


definition hello_handler :: "unit handler" where
  "hello_handler req = ret (Some (RespSucceedCmd (''hello '' @ map_get (re_Args req) ''name'')), None)"

definition hello_request :: Req where
  "hello_request = newCmdReq ''s1@@100'' ''u'' ''Hello World'' [(''name'', ''bob'')] []"

theorem request_answered_witness:
  "\<exists>c p st'. genReqCmdPackage hello_request ''s1@@100'' = Inr c
    \<and> processReq to_out ''CmdServer'' (addHandler ''Hello World'' hello_handler newExecutor) [] c
        \<lparr>pe_app = (), pe_streams = [], pe_closed = [], pe_out = []\<rparr> = (Ok True, st')
    \<and> pe_out st' = [p] \<and> uint (pk_RespCode p) = 200 \<and> pk_RespData p = ''hello bob''"
proof -
  let ?hs = "addHandler ''Hello World'' hello_handler newExecutor"
  let ?st = "\<lparr>pe_app = (), pe_streams = [], pe_closed = [], pe_out = []\<rparr>"
  let ?resp = "RespSucceedCmd ''hello bob''"
  obtain c where c: "genReqCmdPackage hello_request ''s1@@100'' = Inr c"
    by (simp add: genReqCmdPackage_def hello_request_def newCmdReq_def)
  let ?r = "processReq to_out ''CmdServer'' ?hs [] c ?st"
  have h: "map_of ?hs (re_Name hello_request) = Some hello_handler"
    by (simp add: addHandler_def hello_request_def newCmdReq_def)
  have run: "hello_handler (hello_request\<lparr>re_Caller := ''s1@@100''\<rparr>) ?st = (Ok (Some ?resp, None), ?st)"
    by (simp add: hello_handler_def hello_request_def newCmdReq_def ret_def map_get_def)
  have "rp_stream ?resp = None" by (simp add: RespSucceedCmd_def)
  from request_answered [OF c, of "''CmdServer''" ?hs "[]" ?st "fst ?r" "snd ?r", THEN conjunct1, rule_format, OF _ h run this]
  obtain p where "uint (pk_RespCode p) = rp_Code ?resp mod 2 ^ 32" "pk_RespData p = rp_Data ?resp"
    "(fst ?r, snd ?r) = (Ok True, ?st\<lparr>pe_out := pe_out ?st @ [p]\<rparr>)" by auto
  with c show ?thesis
    by (intro exI [of _ c] exI [of _ p] exI [of _ "snd ?r"]) (simp add: RespSucceedCmd_def SuccessCode_def prod_eq_iff)
qed

end
