(* ===== verification/Cmd_Server.thy ===== *)
theory Cmd_Server
  imports Cmd_Manager
begin

section \<open>Sending: the server and the client (cmdserver.go, cmdclient.go)\<close>

text \<open>
  The server finds the stream of an agent through the manager of connections. \<open>net\<close> is the transport: the
  result of a send on a stream, given the sends so far. The state has every send with its success.
\<close>

record server =
  sv_conns :: ConnManager
  sv_sends :: "(nat \<times> CmdPackage \<times> bool) list"

type_synonym transport = "nat \<Rightarrow> CmdPackage \<Rightarrow> (nat \<times> CmdPackage \<times> bool) list \<Rightarrow> goerr option"

definition stream_send :: "transport \<Rightarrow> nat \<Rightarrow> CmdPackage \<Rightarrow> (server, unit) proc" where
  "stream_send net v c = (\<lambda>s. case net v c (sv_sends s) of
     Some err \<Rightarrow> (Err err, s\<lparr>sv_sends := sv_sends s @ [(v, c, False)]\<rparr>)
   | None \<Rightarrow> (Ok (), s\<lparr>sv_sends := sv_sends s @ [(v, c, True)]\<rparr>))"

text \<open>The stream of a connection that is not registered yet is \<open>nil\<close>: the type assertion on it panics.\<close>

definition reqCmd :: "transport \<Rightarrow> CmdPackage \<Rightarrow> (server, unit) proc" where
  "reqCmd net c = (\<lambda>s. case GetConnValue (pk_Executor c) (sv_conns s) of
     Inl err \<Rightarrow> (Err (Errorf (''no available executors '' @ pk_Executor c @ '', please check executor'')), s)
   | Inr None \<Rightarrow> (Panic, s)
   | Inr (Some v) \<Rightarrow> stream_send net v c s)"

fun resp_tries :: "transport \<Rightarrow> nat \<Rightarrow> CmdPackage \<Rightarrow> nat \<Rightarrow> goerr \<Rightarrow> (server, unit) proc" where
  "resp_tries net v c 0 err = fail (Wrap (''retry 3 times response cmd to agent '' @ pk_Caller c @ '' failed: '') err)"
| "resp_tries net v c (Suc n) _ = attempt (stream_send net v c) (resp_tries net v c n) ret"

definition respCmd :: "transport \<Rightarrow> CmdPackage \<Rightarrow> (server, unit) proc" where
  "respCmd net c = (\<lambda>s. case GetConnValue (pk_Caller c) (sv_conns s) of
     Inr (Some v) \<Rightarrow> resp_tries net v c 3 (Errorf []) s
   | _ \<Rightarrow> (Err (Errorf (''agent '' @ pk_Caller c @ '' connection is lost'')), s))"

definition handleRegisterIfNeed :: "transport \<Rightarrow> nat option \<Rightarrow> CmdPackage \<Rightarrow> nat \<Rightarrow> (server, unit) proc" where
  "handleRegisterIfNeed net ctx recv stream =
     (if pk_Name recv \<noteq> Register then ret ()
      else (\<lambda>s. case SaveConn ctx (pk_Caller recv) (pk_Args recv) stream (sv_conns s) of (q, m) \<Rightarrow>
        let registerResp = \<lparr>pk_UUID = pk_UUID recv, pk_Name = pk_Name recv, pk_Type = RESPONSE, pk_Args = [],
              pk_Caller = pk_Caller recv, pk_Executor = pk_Executor recv,
              pk_RespCode = (case q of Ok _ \<Rightarrow> word_of_int SuccessCode | _ \<Rightarrow> word_of_int FailCode), pk_RespData = [],
              pk_RespMsg = (case q of Ok _ \<Rightarrow> ''ok'' | _ \<Rightarrow> ''error''), pk_Stream = False\<rparr>
        in attempt (respCmd net registerResp) (\<lambda>_. ret ()) ret (s\<lparr>sv_conns := m\<rparr>)))"

text \<open>One turn of \<open>Execute\<close>: an error of the stream is logged and the loop goes on.\<close>

definition execute_turn :: "transport \<Rightarrow> nat option \<Rightarrow> nat \<Rightarrow> goerr + CmdPackage \<Rightarrow> (server, cmd_job option) proc" where
  "execute_turn net ctx stream recv =
     (case onReceive recv of
        (Inl err, _) \<Rightarrow> ret None
      | (Inr p, job) \<Rightarrow> andthen (handleRegisterIfNeed net ctx p stream) (\<lambda>_. ret job))"

subsection \<open>The client\<close>

definition genRegisterCmd :: "string \<Rightarrow> string \<Rightarrow> CmdPackage" where
  "genRegisterCmd uuid name = \<lparr>pk_UUID = uuid, pk_Name = Register, pk_Type = REQUEST, pk_Args = [], pk_Caller = name,
     pk_Executor = [], pk_RespCode = 0, pk_RespData = [], pk_RespMsg = [], pk_Stream = False\<rparr>"

text \<open>The client sends until it succeeds or is stopped; \<open>send\<close> includes the wait for a connection after a failure.\<close>

definition respCmdSure :: "('s \<Rightarrow> bool) \<Rightarrow> (CmdPackage \<Rightarrow> ('s, unit) proc) \<Rightarrow> CmdPackage \<Rightarrow> 's \<Rightarrow> (unit outcome \<times> 's) option" where
  "respCmdSure stopped send resp = until_ok (\<lambda>s. if stopped s then (Ok (), s) else send resp s)"

text \<open>After a callback the goroutine waits for the end of the client: the others are never called.\<close>

definition fireOnReady :: "('s, unit) proc list \<Rightarrow> ('s, unit) proc" where
  "fireOnReady funcs = (case funcs of [] \<Rightarrow> ret () | f # _ \<Rightarrow> f)"

text \<open>The request that closes a stream is sent until it succeeds; the state has the seconds waited after each failure.\<close>

definition close_package :: "CmdPackage \<Rightarrow> CmdPackage" where
  "close_package cmd = \<lparr>pk_UUID = pk_UUID cmd, pk_Name = CloseStream, pk_Type = REQUEST, pk_Args = [], pk_Caller = pk_Caller cmd,
     pk_Executor = pk_Executor cmd, pk_RespCode = 0, pk_RespData = [], pk_RespMsg = [], pk_Stream = False\<rparr>"

definition close_try :: "(CmdPackage \<Rightarrow> ('s, unit) proc) \<Rightarrow> CmdPackage \<Rightarrow> ('s \<times> nat \<times> nat list, unit) proc" where
  "close_try send req = (\<lambda>(s, i0, waits).
     let i = (if i0 > 6 then 6 else i0) in
     case send req s of
       (Err e, s') \<Rightarrow> (Err e, (s', i + 1, waits @ [2 ^ i]))
     | (q, s') \<Rightarrow> (q, (s', i, waits)))"

definition closeCmdStream ::
  "(CmdPackage \<Rightarrow> ('s, unit) proc) \<Rightarrow> CmdPackage \<Rightarrow> 's \<Rightarrow> (unit outcome \<times> 's \<times> nat \<times> nat list) option" where
  "closeCmdStream send cmd s = until_ok (close_try send (close_package cmd)) (s, 0, [])"

subsection \<open>What is sent, and to whom\<close>

lemma resp_tries_sends:
  "resp_tries net v c n err s = (q, s') \<Longrightarrow>
    sv_conns s' = sv_conns s \<and> q \<noteq> Panic
    \<and> (\<exists>k\<le>n. sv_sends s' = sv_sends s @ replicate k (v, c, False) @ (if q = Ok () then [(v, c, True)] else [])
         \<and> (q = Ok () \<longrightarrow> k < n) \<and> (q \<noteq> Ok () \<longrightarrow> k = n))"
proof (induction n arbitrary: err s)
  case (Suc n)
  show ?case
  proof (cases "net v c (sv_sends s)")
    case None
    with Suc.prems show ?thesis by (auto simp: stream_send_def attempt_run ret_def intro!: exI [of _ 0])
  next
    case (Some e)
    let ?s1 = "s\<lparr>sv_sends := sv_sends s @ [(v, c, False)]\<rparr>"
    have "resp_tries net v c n e ?s1 = (q, s')"
      using Suc.prems Some by (simp add: stream_send_def attempt_run)
    from Suc.IH [OF this] obtain k where "sv_conns s' = sv_conns s" "q \<noteq> Panic" "k \<le> n"
      "sv_sends s' = sv_sends s @ [(v, c, False)] @ replicate k (v, c, False) @ (if q = Ok () then [(v, c, True)] else [])"
      "q = Ok () \<longrightarrow> k < n" "q \<noteq> Ok () \<longrightarrow> k = n" by auto
    then show ?thesis by (intro conjI exI [of _ "Suc k"]) auto
  qed
qed (auto simp: fail_def)


subsection \<open>Closing a stream\<close>

lemma nth_try_last: "nth_try m (Suc n) s = snd (m (nth_try m n s))"
  by (simp add: nth_try_def)

lemma close_waits:
  assumes "\<forall>k<n. \<exists>e. fst (close_try send req (nth_try (close_try send req) k (s, 0, []))) = Err e"
  shows "\<exists>s'. nth_try (close_try send req) n (s, 0, []) = (s', min n 7, map (\<lambda>k. 2 ^ min k 6) [0..<n])"
  using assms
proof (induction n)
  case (Suc n)
  then obtain s1 where IH: "nth_try (close_try send req) n (s, 0, []) = (s1, min n 7, map (\<lambda>k. 2 ^ min k 6) [0..<n])" by auto
  obtain e where "fst (close_try send req (s1, min n 7, map (\<lambda>k. 2 ^ min k 6) [0..<n])) = Err e"
    using Suc.prems IH by (metis lessI)
  moreover have "(if min n 7 > 6 then 6 else min n 7) = min n 6" by simp
  ultimately show ?case
    unfolding nth_try_last IH by (auto simp: close_try_def Let_def split: prod.splits outcome.splits)
qed (simp add: nth_try_def)

text \<open>
  The request that closes a stream is sent until a send succeeds: the loop returns exactly when some send does not
  fail, and it waits 1, 2, 4, up to 64 seconds after the failures before, never longer.
\<close>

theorem close_stream_backoff:
  "((\<exists>r. closeCmdStream send cmd s = Some r) \<longleftrightarrow>
       (\<exists>n. \<forall>e. fst (close_try send (close_package cmd) (nth_try (close_try send (close_package cmd)) n (s, 0, []))) \<noteq> Err e))
    \<and> (\<forall>n. (\<forall>k<n. \<exists>e. fst (close_try send (close_package cmd) (nth_try (close_try send (close_package cmd)) k (s, 0, []))) = Err e)
         \<longrightarrow> (\<exists>s' i. nth_try (close_try send (close_package cmd)) n (s, 0, []) = (s', i, map (\<lambda>k. 2 ^ min k 6) [0..<n])))"
proof (intro conjI allI impI)
  show "(\<exists>r. closeCmdStream send cmd s = Some r) \<longleftrightarrow>
       (\<exists>n. \<forall>e. fst (close_try send (close_package cmd) (nth_try (close_try send (close_package cmd)) n (s, 0, []))) \<noteq> Err e)"
    unfolding closeCmdStream_def by (rule until_ok_iff)
next
  fix n
  assume "\<forall>k<n. \<exists>e. fst (close_try send (close_package cmd) (nth_try (close_try send (close_package cmd)) k (s, 0, []))) = Err e"
  from close_waits [OF this]
  show "\<exists>s' i. nth_try (close_try send (close_package cmd)) n (s, 0, []) = (s', i, map (\<lambda>k. 2 ^ min k 6) [0..<n])" by blast
qed

text \<open>Every send fails: the loop waits on.\<close>

theorem close_stream_backoff_witness:
  "\<exists>i. nth_try (close_try (\<lambda>p s. (Err (External ''down''), s)) (close_package log_package)) 8 ((), 0, []) = ((), i, [1, 2, 4, 8, 16, 32, 64, 64])"
proof -
  let ?m = "close_try (\<lambda>p s. (Err (External ''down''), s)) (close_package log_package) :: (unit \<times> nat \<times> nat list, unit) proc"
  have "\<exists>e. fst (?m t) = Err e" for t by (cases t) (simp add: close_try_def Let_def)
  then have "\<forall>k<8. \<exists>e. fst (?m (nth_try ?m k ((), 0, []))) = Err e" by blast
  from close_stream_backoff [of "\<lambda>p s. (Err (External ''down''), s)" log_package "()", THEN conjunct2, THEN spec, THEN mp, OF this]
  obtain u i where "nth_try ?m 8 ((), 0, []) = (u, i, map (\<lambda>k. 2 ^ min k 6) [0..<8])" by blast
  moreover have "map (\<lambda>k. 2 ^ min k 6 :: nat) [0..<8] = [1, 2, 4, 8, 16, 32, 64, 64]" by code_simp
  ultimately show ?thesis by simp
qed

subsection \<open>Witnesses\<close>

text \<open>The server after an agent has connected again, with a request and a response for it.\<close>

definition demo_package :: CmdPackage where
  "demo_package = \<lparr>pk_UUID = ''u'', pk_Name = ''nsfile'', pk_Type = REQUEST, pk_Args = [], pk_Caller = ''s1@@100'',
     pk_Executor = ''s1@@100'', pk_RespCode = 0, pk_RespData = [], pk_RespMsg = [], pk_Stream = False\<rparr>"


end
