(* ===== verification/Cmd_Responses.thy ===== *)
theory Cmd_Responses
  imports Cmd_Server "HOL-Library.Multiset"
begin

section \<open>Waiting for responses (cmdmanager.go)\<close>

text \<open>
  A caller sends a request, then makes the buffer of its response and waits. Every package of a
  response that arrives is written to the buffer by a goroutine of its own; a package for which there is no
  buffer is dropped. The steps below are the atomic actions of these goroutines, in any order. \<open>ca_arrived\<close>
  has the packages in the order in which they came in.
\<close>

datatype wait =
    Requested
  | Waiting
  | Answered Resp
  | TimedOut
  | Streaming Resp "bytes list"
  | Closed Resp "bytes list"

record caller =
  ca_buffers :: "(string \<times> CmdPackage list) list"
  ca_jobs :: "CmdPackage list"
  ca_waits :: "(string \<times> wait) list"
  ca_arrived :: "CmdPackage list"

subsection \<open>The actions\<close>

definition store_buffer :: "string \<Rightarrow> caller \<Rightarrow> caller" where
  "store_buffer u c = c\<lparr>ca_buffers := AList.update u [] (ca_buffers c), ca_waits := AList.update u Waiting (ca_waits c)\<rparr>"

text \<open>\<open>None\<close>: the buffer is full, the write waits.\<close>

definition safeWriteBuffer :: "CmdPackage \<Rightarrow> caller \<Rightarrow> caller option" where
  "safeWriteBuffer p c = (case map_of (ca_buffers c) (pk_UUID p) of
     None \<Rightarrow> Some c
   | Some q \<Rightarrow> if length q < MaxBufferSize then Some (c\<lparr>ca_buffers := AList.update (pk_UUID p) (q @ [p]) (ca_buffers c)\<rparr>)
               else None)"

definition safeCloseBuffer :: "string \<Rightarrow> caller \<Rightarrow> caller" where
  "safeCloseBuffer u c = c\<lparr>ca_buffers := AList.delete u (ca_buffers c)\<rparr>"

definition first_resp :: "CmdPackage \<Rightarrow> Resp" where
  "first_resp p = \<lparr>rp_Code = uint (pk_RespCode p), rp_Msg = pk_RespMsg p,
     rp_Data = (if pk_Stream p then [] else pk_RespData p), rp_stream = (if pk_Stream p then Some [] else None)\<rparr>"

text \<open>
  The consumer takes a package: the first makes the response, and one that is not a stream ends the
  wait; the data of a stream are written to it.
\<close>

definition consume :: "string \<Rightarrow> caller \<Rightarrow> caller option" where
  "consume u c = (case (map_of (ca_buffers c) u, map_of (ca_waits c) u) of
     (Some (p # q), Some Waiting) \<Rightarrow>
       if pk_Stream p
       then Some (c\<lparr>ca_buffers := AList.update u q (ca_buffers c),
              ca_waits := AList.update u (Streaming (first_resp p) [pk_RespData p]) (ca_waits c)\<rparr>)
       else Some (safeCloseBuffer u (c\<lparr>ca_waits := AList.update u (Answered (first_resp p)) (ca_waits c)\<rparr>))
   | (Some (p # q), Some (Streaming r ds)) \<Rightarrow>
       Some (c\<lparr>ca_buffers := AList.update u q (ca_buffers c),
              ca_waits := AList.update u (Streaming r (if pk_Stream p then ds @ [pk_RespData p] else ds)) (ca_waits c)\<rparr>)
   | _ \<Rightarrow> None)"

inductive call_step :: "caller \<Rightarrow> caller \<Rightarrow> bool" where
  request: "map_of (ca_waits c) u = None \<Longrightarrow> call_step c (c\<lparr>ca_waits := AList.update u Requested (ca_waits c)\<rparr>)"
| arrive: "map_of (ca_waits c) (pk_UUID p) \<noteq> None \<Longrightarrow>
    call_step c (c\<lparr>ca_jobs := p # ca_jobs c, ca_arrived := ca_arrived c @ [p]\<rparr>)"
| store: "map_of (ca_waits c) u = Some Requested \<Longrightarrow> call_step c (store_buffer u c)"
| deliver: "p \<in> set (ca_jobs c) \<Longrightarrow> safeWriteBuffer p c = Some c' \<Longrightarrow>
    call_step c (c'\<lparr>ca_jobs := remove1 p (ca_jobs c')\<rparr>)"
| take_resp: "consume u c = Some c' \<Longrightarrow> call_step c c'"
| timeout: "map_of (ca_waits c) u = Some Waiting \<Longrightarrow>
    call_step c (safeCloseBuffer u (c\<lparr>ca_waits := AList.update u TimedOut (ca_waits c)\<rparr>))"
| close: "map_of (ca_waits c) u = Some (Streaming r ds) \<Longrightarrow>
    call_step c (safeCloseBuffer u (c\<lparr>ca_waits := AList.update u (Closed r ds) (ca_waits c)\<rparr>))"

definition idle :: caller where
  "idle = \<lparr>ca_buffers = [], ca_jobs = [], ca_waits = [], ca_arrived = []\<rparr>"

inductive call_reachable :: "caller \<Rightarrow> bool" where
  start: "call_reachable idle"
| step: "call_reachable c \<Longrightarrow> call_step c c' \<Longrightarrow> call_reachable c'"

subsection \<open>The invariant\<close>

text \<open>The data a wait has taken, and all data that belong to it.\<close>

fun taken :: "wait option \<Rightarrow> bytes list" where
  "taken (Some (Answered r)) = [rp_Data r]"
| "taken (Some (Streaming r ds)) = ds"
| "taken (Some (Closed r ds)) = ds"
| "taken _ = []"

definition data_of :: "string \<Rightarrow> CmdPackage list \<Rightarrow> bytes multiset" where
  "data_of u ps = mset (map pk_RespData (filter (\<lambda>p. pk_UUID p = u) ps))"

definition buffered :: "string \<Rightarrow> caller \<Rightarrow> CmdPackage list" where
  "buffered u c = (case map_of (ca_buffers c) u of None \<Rightarrow> [] | Some q \<Rightarrow> q)"

definition wait_ok :: "caller \<Rightarrow> string \<Rightarrow> bool" where
  "wait_ok c u \<longleftrightarrow>
     (map_of (ca_buffers c) u \<noteq> None \<longleftrightarrow>
        map_of (ca_waits c) u = Some Waiting \<or> (\<exists>r ds. map_of (ca_waits c) u = Some (Streaming r ds)))
   \<and> (\<forall>p\<in>set (buffered u c). pk_UUID p = u \<and> p \<in> set (ca_arrived c))
   \<and> mset (taken (map_of (ca_waits c) u)) + data_of u (buffered u c) + data_of u (ca_jobs c) \<subseteq># data_of u (ca_arrived c)
   \<and> (\<forall>r. map_of (ca_waits c) u = Some (Answered r) \<longrightarrow>
        (\<exists>p\<in>set (ca_arrived c). pk_UUID p = u \<and> \<not> pk_Stream p \<and> r = first_resp p))"

definition calls_ok :: "caller \<Rightarrow> bool" where
  "calls_ok c \<longleftrightarrow> (\<forall>u. wait_ok c u) \<and> set (ca_jobs c) \<subseteq> set (ca_arrived c) \<and> distinct (map fst (ca_buffers c))"

lemma data_of_simps [simp]:
  "data_of u [] = {#}"
  "data_of u (p # ps) = (if pk_UUID p = u then {#pk_RespData p#} else {#}) + data_of u ps"
  "data_of u (ps @ qs) = data_of u ps + data_of u qs"
  by (simp_all add: data_of_def)

lemma data_of_remove1:
  "p \<in> set ps \<Longrightarrow> data_of u ps = (if pk_UUID p = u then {#pk_RespData p#} else {#}) + data_of u (remove1 p ps)"
  by (induction ps) (auto simp: ac_simps)

text \<open>A step that changes one wait keeps the others.\<close>

lemma wait_ok_cong:
  "wait_ok c u \<Longrightarrow> map_of (ca_buffers c') u = map_of (ca_buffers c) u \<Longrightarrow> map_of (ca_waits c') u = map_of (ca_waits c) u \<Longrightarrow>
    data_of u (ca_jobs c') = data_of u (ca_jobs c) \<Longrightarrow> ca_arrived c' = ca_arrived c \<Longrightarrow> wait_ok c' u"
  by (simp add: wait_ok_def buffered_def)

lemma calls_okI:
  assumes "calls_ok c" and "wait_ok c' u" and "ca_arrived c' = ca_arrived c" and "set (ca_jobs c') \<subseteq> set (ca_arrived c)"
    and "distinct (map fst (ca_buffers c'))"
    and "\<And>v. v \<noteq> u \<Longrightarrow> map_of (ca_buffers c') v = map_of (ca_buffers c) v \<and> map_of (ca_waits c') v = map_of (ca_waits c) v
      \<and> data_of v (ca_jobs c') = data_of v (ca_jobs c)"
  shows "calls_ok c'"
proof -
  have "wait_ok c' v" for v
  proof (cases "v = u")
    case False
    with assms(1) have "wait_ok c v" by (simp add: calls_ok_def)
    with assms(3) assms(6) [OF False] show ?thesis by (blast intro: wait_ok_cong)
  qed (use assms(2) in simp)
  with assms(3-5) show ?thesis by (simp add: calls_ok_def)
qed

lemma consume_cases:
  assumes "consume u c = Some c'"
  obtains (stream) p q where "map_of (ca_buffers c) u = Some (p # q)" "map_of (ca_waits c) u = Some Waiting" "pk_Stream p"
      "c' = c\<lparr>ca_buffers := AList.update u q (ca_buffers c),
              ca_waits := AList.update u (Streaming (first_resp p) [pk_RespData p]) (ca_waits c)\<rparr>"
  | (answer) p q where "map_of (ca_buffers c) u = Some (p # q)" "map_of (ca_waits c) u = Some Waiting" "\<not> pk_Stream p"
      "c' = safeCloseBuffer u (c\<lparr>ca_waits := AList.update u (Answered (first_resp p)) (ca_waits c)\<rparr>)"
  | (more) p q r ds where "map_of (ca_buffers c) u = Some (p # q)" "map_of (ca_waits c) u = Some (Streaming r ds)"
      "c' = c\<lparr>ca_buffers := AList.update u q (ca_buffers c),
              ca_waits := AList.update u (Streaming r (if pk_Stream p then ds @ [pk_RespData p] else ds)) (ca_waits c)\<rparr>"
proof -
  obtain p q w where b: "map_of (ca_buffers c) u = Some (p # q)" and w: "map_of (ca_waits c) u = Some w"
    and t: "w = Waiting \<or> (\<exists>r ds. w = Streaming r ds)"
    using assms by (auto simp: consume_def split: option.splits list.splits wait.splits)
  from t show thesis
  proof
    assume wt: "w = Waiting"
    show thesis
    proof (cases "pk_Stream p")
      case True
      then show ?thesis using assms by (intro stream [OF b w [unfolded wt] True]) (simp add: consume_def b w wt)
    next
      case False
      then show ?thesis using assms by (intro answer [OF b w [unfolded wt] False]) (simp add: consume_def b w wt)
    qed
  next
    assume "\<exists>r ds. w = Streaming r ds"
    then obtain r ds where wt: "w = Streaming r ds" by blast
    show thesis using assms by (intro more [OF b w [unfolded wt]]) (simp add: consume_def b w wt)
  qed
qed

lemma subset_weaken: "(X :: 'a multiset) + Y \<subseteq># Z \<Longrightarrow> X' \<subseteq># X \<Longrightarrow> X' + Y \<subseteq># Z"
  by (meson subset_mset.add_right_mono subset_mset.order_trans)

lemma wait_ok_head:
  assumes "wait_ok c u" and "map_of (ca_buffers c) u = Some (p # q)"
  shows "pk_UUID p = u" "p \<in> set (ca_arrived c)" "\<forall>x\<in>set q. pk_UUID x = u \<and> x \<in> set (ca_arrived c)"
    "mset (taken (map_of (ca_waits c) u)) + {#pk_RespData p#} + data_of u q + data_of u (ca_jobs c) \<subseteq># data_of u (ca_arrived c)"
proof -
  have w: "\<forall>x\<in>set (p # q). pk_UUID x = u \<and> x \<in> set (ca_arrived c)"
    "mset (taken (map_of (ca_waits c) u)) + data_of u (p # q) + data_of u (ca_jobs c) \<subseteq># data_of u (ca_arrived c)"
    using assms(1) unfolding wait_ok_def buffered_def assms(2) option.case by blast+
  from w(1) show u: "pk_UUID p = u" and "p \<in> set (ca_arrived c)" "\<forall>x\<in>set q. pk_UUID x = u \<and> x \<in> set (ca_arrived c)"
    by simp_all
  from w(2) u show "mset (taken (map_of (ca_waits c) u)) + {#pk_RespData p#} + data_of u q + data_of u (ca_jobs c)
      \<subseteq># data_of u (ca_arrived c)"
    by (simp add: ac_simps)
qed

lemma calls_ok_parts:
  "calls_ok c \<Longrightarrow> wait_ok c u" "calls_ok c \<Longrightarrow> set (ca_jobs c) \<subseteq> set (ca_arrived c)"
  "calls_ok c \<Longrightarrow> distinct (map fst (ca_buffers c))"
  by (simp_all add: calls_ok_def)

lemma take_ok:
  assumes "consume u c = Some c'" and ok: "calls_ok c"
  shows "calls_ok c'"
  using assms(1)
proof (cases rule: consume_cases)
  case (stream p q)
  note h = wait_ok_head [OF calls_ok_parts(1) [OF ok] stream(1)]
  have "wait_ok c' u"
    unfolding wait_ok_def buffered_def stream(4) using h stream(2) by (simp add: update_conv)
  then show ?thesis
    by (rule calls_okI [OF ok]) (use calls_ok_parts [OF ok] in \<open>simp_all add: stream(4) update_conv distinct_update\<close>)
next
  case (answer p q)
  note h = wait_ok_head [OF calls_ok_parts(1) [OF ok] answer(1)]
  have "{#pk_RespData p#} + data_of u (ca_jobs c) \<subseteq># data_of u (ca_arrived c)"
    by (rule subset_weaken [OF h(4)]) simp
  then have "wait_ok c' u"
    unfolding wait_ok_def buffered_def answer(4) using h(1,2) answer(3)
    by (auto simp: update_conv delete_conv safeCloseBuffer_def first_resp_def)
  then show ?thesis
    by (rule calls_okI [OF ok])
      (use calls_ok_parts [OF ok] in \<open>simp_all add: answer(4) update_conv delete_conv distinct_delete safeCloseBuffer_def\<close>)
next
  case (more p q r ds)
  note h = wait_ok_head [OF calls_ok_parts(1) [OF ok] more(1)]
  have "mset ds + data_of u q + data_of u (ca_jobs c) \<subseteq># data_of u (ca_arrived c)"
    by (rule subset_weaken [OF h(4)]) (simp add: more(2))
  then have "wait_ok c' u"
    unfolding wait_ok_def buffered_def more(3) using h more(2) by (simp add: update_conv)
  then show ?thesis
    by (rule calls_okI [OF ok]) (use calls_ok_parts [OF ok] in \<open>simp_all add: more(3) update_conv distinct_update\<close>)
qed

lemma wait_ok_sum:
  "wait_ok c u \<Longrightarrow>
    mset (taken (map_of (ca_waits c) u)) + data_of u (buffered u c) + data_of u (ca_jobs c) \<subseteq># data_of u (ca_arrived c)"
  by (simp add: wait_ok_def)

lemma arrive_ok:
  assumes "calls_ok c" shows "calls_ok (c\<lparr>ca_jobs := p # ca_jobs c, ca_arrived := ca_arrived c @ [p]\<rparr>)"
proof -
  have "wait_ok (c\<lparr>ca_jobs := p # ca_jobs c, ca_arrived := ca_arrived c @ [p]\<rparr>) v" for v
  proof -
    note w = calls_ok_parts(1) [OF assms, of v]
    have "mset (taken (map_of (ca_waits c) v)) + data_of v (buffered v c) + data_of v (p # ca_jobs c) \<subseteq># data_of v (ca_arrived c @ [p])"
      using wait_ok_sum [OF w] by (simp add: ac_simps)
    with w show ?thesis unfolding wait_ok_def buffered_def by fastforce
  qed
  with assms show ?thesis by (auto simp: calls_ok_def)
qed

text \<open>The end of a wait closes its buffer.\<close>

lemma finish_ok:
  assumes ok: "calls_ok c" and "mset (taken (Some w)) \<subseteq># mset (taken (map_of (ca_waits c) u))"
    and "w \<noteq> Waiting" "\<And>r ds. w \<noteq> Streaming r ds" "\<And>r. w \<noteq> Answered r"
  shows "calls_ok (safeCloseBuffer u (c\<lparr>ca_waits := AList.update u w (ca_waits c)\<rparr>))" (is "calls_ok ?c")
proof -
  have "mset (taken (Some w)) + data_of u (ca_jobs c) \<subseteq># data_of u (ca_arrived c)"
    by (rule subset_weaken [OF wait_ok_sum [OF calls_ok_parts(1) [OF ok]]])
      (rule subset_mset.order_trans [OF assms(2)], simp)
  then have "wait_ok ?c u"
    unfolding wait_ok_def buffered_def using assms(3-5) by (simp add: safeCloseBuffer_def update_conv delete_conv)
  then show ?thesis
    by (rule calls_okI [OF ok])
      (use calls_ok_parts [OF ok] in \<open>simp_all add: update_conv delete_conv distinct_delete safeCloseBuffer_def\<close>)
qed

lemma deliver_ok:
  assumes ok: "calls_ok c" and p: "p \<in> set (ca_jobs c)" and run: "safeWriteBuffer p c = Some c'"
  shows "calls_ok (c'\<lparr>ca_jobs := remove1 p (ca_jobs c')\<rparr>)" (is "calls_ok ?c")
proof -
  let ?u = "pk_UUID p"
  note w = calls_ok_parts(1) [OF ok, of ?u]
  have jobs: "data_of ?u (ca_jobs c) = {#pk_RespData p#} + data_of ?u (remove1 p (ca_jobs c))"
    "data_of v (ca_jobs c) = data_of v (remove1 p (ca_jobs c))" if "v \<noteq> ?u" for v
    using data_of_remove1 [OF p] that by simp_all
  have jobs1: "data_of ?u (ca_jobs c) = {#pk_RespData p#} + data_of ?u (remove1 p (ca_jobs c))"
    using data_of_remove1 [OF p, of ?u] by simp
  have arr: "p \<in> set (ca_arrived c)" using calls_ok_parts(2) [OF ok] p by auto
  show ?thesis
  proof (cases "map_of (ca_buffers c) ?u")
    case None
    then have c': "c' = c" using run by (simp add: safeWriteBuffer_def)
    have "mset (taken (map_of (ca_waits c) ?u)) + data_of ?u (buffered ?u c) + data_of ?u (remove1 p (ca_jobs c)) \<subseteq># data_of ?u (ca_arrived c)"
      using wait_ok_sum [OF w] unfolding jobs1 by (meson subset_mset.add_left_mono subset_mset.order_trans mset_subset_eq_add_right)
    with w have "wait_ok ?c ?u" unfolding wait_ok_def buffered_def c' by simp
    then show ?thesis
      by (rule calls_okI [OF ok]) (use calls_ok_parts [OF ok] jobs(2) in \<open>auto simp: c' dest: notin_set_remove1 set_remove1_subset [THEN subsetD]\<close>)
  next
    case (Some q)
    then have c': "c' = c\<lparr>ca_buffers := AList.update ?u (q @ [p]) (ca_buffers c)\<rparr>"
      using run by (simp add: safeWriteBuffer_def split: if_splits)
    have "mset (taken (map_of (ca_waits c) ?u)) + data_of ?u (q @ [p]) + data_of ?u (remove1 p (ca_jobs c)) \<subseteq># data_of ?u (ca_arrived c)"
      using wait_ok_sum [OF w] unfolding jobs1 buffered_def Some by (simp add: ac_simps)
    with w arr Some have "wait_ok ?c ?u" unfolding wait_ok_def buffered_def c' by (auto simp: update_conv)
    then show ?thesis
      by (rule calls_okI [OF ok])
        (use calls_ok_parts [OF ok] jobs(2) in \<open>auto simp: c' update_conv distinct_update dest: set_remove1_subset [THEN subsetD]\<close>)
  qed
qed

lemma call_step_ok: "call_step c c' \<Longrightarrow> calls_ok c \<Longrightarrow> calls_ok c'"
proof (induction rule: call_step.induct)
  case (request c u)
  note ok = request(2) and w = calls_ok_parts(1) [OF request(2), of u]
  have "wait_ok (c\<lparr>ca_waits := AList.update u Requested (ca_waits c)\<rparr>) u"
    using w request(1) unfolding wait_ok_def buffered_def by (auto simp: update_conv split: option.splits)
  then show ?case by (rule calls_okI [OF ok]) (use calls_ok_parts [OF ok] in \<open>simp_all add: update_conv\<close>)
next
  case (store c u)
  note ok = store(2) and w = calls_ok_parts(1) [OF store(2), of u]
  have "wait_ok (store_buffer u c) u"
    using w store(1) unfolding wait_ok_def buffered_def by (auto simp: store_buffer_def update_conv split: option.splits)
  then show ?case
    by (rule calls_okI [OF ok]) (use calls_ok_parts [OF ok] in \<open>simp_all add: store_buffer_def update_conv distinct_update\<close>)
next
  case (timeout c u)
  show ?case by (rule finish_ok [OF timeout(2)]) simp_all
next
  case (close c u r ds)
  show ?case by (rule finish_ok [OF close(2)]) (simp_all add: close(1))
qed (auto intro: arrive_ok deliver_ok take_ok)

lemma call_reachable_ok: "call_reachable c \<Longrightarrow> calls_ok c"
proof (induction rule: call_reachable.induct)
  case start
  show ?case by (simp add: calls_ok_def wait_ok_def buffered_def idle_def)
qed (rule call_step_ok)

text \<open>
  C20: in every reachable state, the response a caller has is a plain response that came in under the identity of its
  request; what has been written to a stream is among the data that came in for it, none of them twice; and there is a
  buffer exactly while a wait or a stream is open, so that no response is written to a closed buffer.
\<close>

theorem answers_are_responses:
  assumes "call_reachable c"
  shows "(\<forall>u r. map_of (ca_waits c) u = Some (Answered r) \<longrightarrow>
        (\<exists>p\<in>set (ca_arrived c). pk_UUID p = u \<and> \<not> pk_Stream p \<and> r = first_resp p))
    \<and> (\<forall>u r ds. map_of (ca_waits c) u \<in> {Some (Streaming r ds), Some (Closed r ds)} \<longrightarrow> mset ds \<subseteq># data_of u (ca_arrived c))
    \<and> (\<forall>u. map_of (ca_buffers c) u \<noteq> None \<longleftrightarrow>
        map_of (ca_waits c) u = Some Waiting \<or> (\<exists>r ds. map_of (ca_waits c) u = Some (Streaming r ds)))"
proof (intro conjI allI impI)
  note w = calls_ok_parts(1) [OF call_reachable_ok [OF assms]]
  fix u
  show "map_of (ca_buffers c) u \<noteq> None \<longleftrightarrow>
        map_of (ca_waits c) u = Some Waiting \<or> (\<exists>r ds. map_of (ca_waits c) u = Some (Streaming r ds))"
    using w [of u] unfolding wait_ok_def by blast
  show "\<exists>p\<in>set (ca_arrived c). pk_UUID p = u \<and> \<not> pk_Stream p \<and> r = first_resp p" if "map_of (ca_waits c) u = Some (Answered r)" for r
    using w [of u] that unfolding wait_ok_def by blast
  fix r ds
  assume "map_of (ca_waits c) u \<in> {Some (Streaming r ds), Some (Closed r ds)}"
  then have "taken (map_of (ca_waits c) u) = ds" by auto
  with wait_ok_sum [OF w, of u] show "mset ds \<subseteq># data_of u (ca_arrived c)"
    by (metis mset_subset_eq_add_left subset_mset.order_trans)
qed

subsection \<open>What the order of the goroutines can do\<close>

text \<open>
  Two packages of a stream that came in one after the other can be written to the stream in the opposite order, each being
  handled by a goroutine of its own.
\<close>

theorem stream_reorders:
  assumes "pk_UUID p1 = u" "pk_UUID p2 = u" and "pk_Stream p1" "pk_Stream p2" and "p1 \<noteq> p2"
  shows "\<exists>c. call_reachable c \<and> ca_arrived c = [p1, p2]
    \<and> map_of (ca_waits c) u = Some (Streaming (first_resp p2) [pk_RespData p2, pk_RespData p1])"
proof -
  let ?c = "\<lambda>b j w a. \<lparr>ca_buffers = b, ca_jobs = j, ca_waits = w, ca_arrived = a\<rparr> :: caller"
  have "call_reachable (?c [] [] [(u, Requested)] [])"
    using call_reachable.step [OF call_reachable.start call_step.request [of idle u]] by (simp add: idle_def)
  from call_reachable.step [OF this call_step.store [of _ u]]
  have "call_reachable (?c [(u, [])] [] [(u, Waiting)] [])" by (simp add: store_buffer_def)
  from call_reachable.step [OF this call_step.arrive [of _ p1]]
  have "call_reachable (?c [(u, [])] [p1] [(u, Waiting)] [p1])" using assms by simp
  from call_reachable.step [OF this call_step.arrive [of _ p2]]
  have "call_reachable (?c [(u, [])] [p2, p1] [(u, Waiting)] [p1, p2])" using assms by simp
  from call_reachable.step [OF this call_step.deliver [of p2 _ "?c [(u, [p2])] [p2, p1] [(u, Waiting)] [p1, p2]"]]
  have "call_reachable (?c [(u, [p2])] [p1] [(u, Waiting)] [p1, p2])"
    using assms by (simp add: safeWriteBuffer_def MaxBufferSize_def)
  from call_reachable.step [OF this call_step.deliver [of p1 _ "?c [(u, [p2, p1])] [p1] [(u, Waiting)] [p1, p2]"]]
  have "call_reachable (?c [(u, [p2, p1])] [] [(u, Waiting)] [p1, p2])"
    using assms by (simp add: safeWriteBuffer_def MaxBufferSize_def)
  from call_reachable.step [OF this call_step.take_resp [of u _ "?c [(u, [p1])] [] [(u, Streaming (first_resp p2) [pk_RespData p2])] [p1, p2]"]]
  have "call_reachable (?c [(u, [p1])] [] [(u, Streaming (first_resp p2) [pk_RespData p2])] [p1, p2])"
    using assms by (simp add: consume_def)
  from call_reachable.step [OF this call_step.take_resp [of u _ "?c [(u, [])] [] [(u, Streaming (first_resp p2) [pk_RespData p2, pk_RespData p1])] [p1, p2]"]]
  have "call_reachable (?c [(u, [])] [] [(u, Streaming (first_resp p2) [pk_RespData p2, pk_RespData p1])] [p1, p2])"
    using assms by (simp add: consume_def)
  then show ?thesis
    by (intro exI [of _ "?c [(u, [])] [] [(u, Streaming (first_resp p2) [pk_RespData p2, pk_RespData p1])] [p1, p2]"] conjI) simp_all
qed

text \<open>Steps in which no package comes in.\<close>

definition quiet :: "caller \<Rightarrow> caller \<Rightarrow> bool" where
  "quiet c c' \<longleftrightarrow> call_step c c' \<and> ca_arrived c' = ca_arrived c"

definition lost :: "string \<Rightarrow> caller \<Rightarrow> bool" where
  "lost u c \<longleftrightarrow> map_of (ca_waits c) u \<in> {Some Waiting, Some TimedOut} \<and> (\<forall>p\<in>set (ca_jobs c). pk_UUID p \<noteq> u) \<and> buffered u c = []"

lemma lost_quiet:
  assumes "quiet c c'" and "lost u c"
  shows "lost u c'"
proof -
  have step: "call_step c c'" and arr: "ca_arrived c' = ca_arrived c" using assms(1) by (simp_all add: quiet_def)
  from step show ?thesis
  proof (cases rule: call_step.cases)
    case (request v)
    with assms(2) show ?thesis by (auto simp: lost_def buffered_def update_conv)
  next
    case (arrive p)
    with arr show ?thesis by simp
  next
    case (store v)
    with assms(2) show ?thesis by (auto simp: lost_def buffered_def store_buffer_def update_conv)
  next
    case (deliver p d)
    then have "pk_UUID p \<noteq> u" using assms(2) by (auto simp: lost_def)
    with deliver assms(2) show ?thesis
      by (auto simp: lost_def buffered_def safeWriteBuffer_def update_conv dest: set_remove1_subset [THEN subsetD] split: option.splits if_splits)
  next
    case (take_resp v)
    show ?thesis
      using take_resp
    proof (cases rule: consume_cases)
      case (stream p q)
      then have "v \<noteq> u" using assms(2) by (auto simp: lost_def buffered_def)
      with stream assms(2) show ?thesis by (auto simp: lost_def buffered_def update_conv)
    next
      case (answer p q)
      then have "v \<noteq> u" using assms(2) by (auto simp: lost_def buffered_def)
      with answer assms(2) show ?thesis by (auto simp: lost_def buffered_def update_conv delete_conv safeCloseBuffer_def)
    next
      case (more p q r ds)
      then have "v \<noteq> u" using assms(2) by (auto simp: lost_def buffered_def)
      with more assms(2) show ?thesis by (auto simp: lost_def buffered_def update_conv)
    qed
  next
    case (timeout v)
    with assms(2) show ?thesis by (auto simp: lost_def buffered_def update_conv delete_conv safeCloseBuffer_def)
  next
    case (close v r ds)
    with assms(2) show ?thesis by (auto simp: lost_def buffered_def update_conv delete_conv safeCloseBuffer_def)
  qed
qed

text \<open>
  The response to a request can come in and be handled before the caller has made its buffer. It is lost: the caller
  waits, and without another package nothing but its timeout ends the wait.
\<close>

theorem early_response_lost:
  assumes "pk_UUID p = u"
  shows "\<exists>c. call_reachable c \<and> ca_arrived c = [p] \<and> map_of (ca_waits c) u = Some Waiting
    \<and> (\<forall>c'. quiet\<^sup>*\<^sup>* c c' \<longrightarrow> map_of (ca_waits c') u \<in> {Some Waiting, Some TimedOut})"
proof -
  let ?c = "\<lambda>b j w a. \<lparr>ca_buffers = b, ca_jobs = j, ca_waits = w, ca_arrived = a\<rparr> :: caller"
  let ?e = "?c [(u, [])] [] [(u, Waiting)] [p]"
  have "call_reachable (?c [] [] [(u, Requested)] [])"
    using call_reachable.step [OF call_reachable.start call_step.request [of idle u]] by (simp add: idle_def)
  from call_reachable.step [OF this call_step.arrive [of _ p]]
  have "call_reachable (?c [] [p] [(u, Requested)] [p])" using assms by simp
  from call_reachable.step [OF this call_step.deliver [of p _ "?c [] [p] [(u, Requested)] [p]"]]
  have "call_reachable (?c [] [] [(u, Requested)] [p])" by (simp add: safeWriteBuffer_def)
  from call_reachable.step [OF this call_step.store [of _ u]]
  have reach: "call_reachable ?e" by (simp add: store_buffer_def)
  have "lost u c'" if "quiet\<^sup>*\<^sup>* ?e c'" for c'
    using that
  proof (induction rule: rtranclp_induct)
    case base
    show ?case by (simp add: lost_def buffered_def)
  next
    case (step c1 c2)
    from step.hyps(2) step.IH show ?case by (rule lost_quiet)
  qed
  with reach show ?thesis by (intro exI [of _ ?e]) (auto simp: lost_def)
qed

subsection \<open>Witnesses\<close>

theorem answers_are_responses_witness:
  "\<exists>c r. call_reachable c \<and> map_of (ca_waits c) ''u'' = Some (Answered r) \<and> rp_Code r = 200"
proof -
  let ?p = "demo_package\<lparr>pk_Type := RESPONSE, pk_RespCode := 200\<rparr>"
  let ?c = "\<lambda>b j w a. \<lparr>ca_buffers = b, ca_jobs = j, ca_waits = w, ca_arrived = a\<rparr> :: caller"
  let ?e = "?c [] [] [(''u'', Answered (first_resp ?p))] [?p]"
  have "call_reachable (?c [] [] [(''u'', Requested)] [])"
    using call_reachable.step [OF call_reachable.start call_step.request [of idle "''u''"]] by (simp add: idle_def)
  from call_reachable.step [OF this call_step.store [of _ "''u''"]]
  have "call_reachable (?c [(''u'', [])] [] [(''u'', Waiting)] [])" by (simp add: store_buffer_def)
  from call_reachable.step [OF this call_step.arrive [of _ ?p]]
  have "call_reachable (?c [(''u'', [])] [?p] [(''u'', Waiting)] [?p])" by (simp add: demo_package_def)
  from call_reachable.step [OF this call_step.deliver [of ?p _ "?c [(''u'', [?p])] [?p] [(''u'', Waiting)] [?p]"]]
  have "call_reachable (?c [(''u'', [?p])] [] [(''u'', Waiting)] [?p])"
    by (simp add: safeWriteBuffer_def MaxBufferSize_def demo_package_def)
  from call_reachable.step [OF this call_step.take_resp [of "''u''" _ ?e]]
  have reach: "call_reachable ?e" by (simp add: consume_def safeCloseBuffer_def demo_package_def)
  have "map_of (ca_waits ?e) ''u'' = Some (Answered (first_resp ?p))" by simp
  with answers_are_responses [OF reach, THEN conjunct1, rule_format, OF this] reach show ?thesis
    by (intro exI [of _ ?e] exI [of _ "first_resp ?p"]) (simp add: first_resp_def)
qed

theorem stream_reorders_witness:
  "\<exists>c r. call_reachable c \<and> map_of (ca_waits c) ''u'' = Some (Streaming r [''second'', ''first''])"
proof -
  let ?p = "\<lambda>d. demo_package\<lparr>pk_Stream := True, pk_RespData := d\<rparr>"
  have "?p ''first'' \<noteq> ?p ''second''" by (simp add: demo_package_def)
  from stream_reorders [of "?p ''first''" "''u''" "?p ''second''", OF _ _ _ _ this] show ?thesis
    by (auto simp: demo_package_def)
qed

theorem early_response_lost_witness:
  "\<exists>c. call_reachable c \<and> ca_arrived c = [demo_package] \<and> map_of (ca_waits c) ''u'' = Some Waiting"
  using early_response_lost [of demo_package "''u''"] by (auto simp: demo_package_def)

end
