(* ===== verification/Cmd_Client.thy ===== *)
theory Cmd_Client
  imports Conn_Client Cmd_Responses
begin

section \<open>The command client of an agent (cmdclient.go)\<close>

text \<open>
  The client opens a stream on its connection, registers on it under its name, and receives commands from it until an
  error; then it polls for a connection and starts again. Its connection is an interface in the code and a
  parameter here: the streams of gRPC on the current connection, whether the client is stopped, the start of the goroutine
  of a package, and \<open>PollConn\<close>, which may not return. \<open>'w\<close> is the state of all of them. Every package but those of
  the session is sent over a new stream, which nobody closes.
\<close>

record ('w, 'stream) tunnel =
  tn_stopped :: "'w \<Rightarrow> bool"
  tn_Execute :: "('w, 'stream) proc"
  tn_Send :: "'stream \<Rightarrow> CmdPackage \<Rightarrow> ('w, unit) proc"
  tn_Recv :: "'stream \<Rightarrow> ('w, CmdPackage) proc"
  tn_start :: "cmd_job \<Rightarrow> ('w, unit) proc"
  tn_PollConn :: "'w \<Rightarrow> (unit outcome \<times> 'w) option"

definition EOF :: goerr where
  "EOF = External ''EOF''"

definition sendCmdPackage :: "('w, 'stream) tunnel \<Rightarrow> CmdPackage \<Rightarrow> ('w, unit) proc" where
  "sendCmdPackage T cmd = andthen (tn_Execute T) (\<lambda>client. tn_Send T client cmd)"

definition sendRegisterCmd :: "('w, 'stream) tunnel \<Rightarrow> string \<Rightarrow> string \<Rightarrow> 'stream \<Rightarrow> ('w, unit) proc" where
  "sendRegisterCmd T uuid name stream = tn_Send T stream (genRegisterCmd uuid name)"

definition fireOnNotReady :: "('w, unit) proc list \<Rightarrow> ('w, unit) proc" where
  "fireOnNotReady funcs = (case funcs of [] \<Rightarrow> ret () | f # _ \<Rightarrow> f)"

text \<open>The goroutine of a session up to its loop. The signal after the registration is taken by a goroutine of the agent that waits for it.\<close>

definition session :: "('w, 'stream) tunnel \<Rightarrow> string \<Rightarrow> string \<Rightarrow> ('w, unit) proc list \<Rightarrow> ('w, 'stream) proc" where
  "session T name uuid onReady =
     andthen (tn_Execute T) (\<lambda>stream.
     andthen (sendRegisterCmd T uuid name stream) (\<lambda>_.
     andthen (fireOnReady onReady) (\<lambda>_. ret stream)))"

text \<open>One turn of its loop; the value says whether it goes on. After the end of the stream it goes on.\<close>

definition recv_turn :: "('w, 'stream) tunnel \<Rightarrow> 'stream \<Rightarrow> ('w, bool) proc" where
  "recv_turn T stream = (\<lambda>w.
     if tn_stopped T w then (Ok False, w)
     else attempt (tn_Recv T stream) (\<lambda>err. ret (err = EOF))
       (\<lambda>p. case onReceive (Inr p) of
          (_, None) \<Rightarrow> ret True
        | (_, Some job) \<Rightarrow> andthen (tn_start T job) (\<lambda>_. ret True)) w)"

partial_function (option) recv_loop :: "('w, 'stream) tunnel \<Rightarrow> 'stream \<Rightarrow> 'w \<Rightarrow> (unit outcome \<times> 'w) option" where
  "recv_loop T stream w = (case recv_turn T stream w of
      (Ok again, w') \<Rightarrow> if again then recv_loop T stream w' else Some (Ok (), w')
    | (Err e, w') \<Rightarrow> Some (Err e, w')
    | (Panic, w') \<Rightarrow> Some (Panic, w'))"

text \<open>What ends the wait of \<open>StartListen\<close>, and what follows.\<close>

datatype listen_event = Stopped | Stream_done | Conn_failed

definition on_listen_event :: "('w, 'stream) tunnel \<Rightarrow> ('w, unit) proc list \<Rightarrow> listen_event \<Rightarrow> 'w \<Rightarrow> (bool outcome \<times> 'w) option" where
  "on_listen_event T onNotReady ev w =
     (case ev of
        Stopped \<Rightarrow> Some (Ok False, w)
      | _ \<Rightarrow> (case fireOnNotReady onNotReady w of
            (Panic, w1) \<Rightarrow> Some (Panic, w1)
          | (_, w1) \<Rightarrow> (case tn_PollConn T w1 of
                None \<Rightarrow> None
              | Some (Panic, w2) \<Rightarrow> Some (Panic, w2)
              | Some (_, w2) \<Rightarrow> Some (Ok True, w2))))"

text \<open>
  A turn of \<open>StartListen\<close>: the session, when it can be opened, has received \<open>n\<close> times before the event is seen. The
  session that a failed connection has left goes on until its stream fails too; it receives nothing more.
\<close>

definition listen_turn ::
  "('w, 'stream) tunnel \<Rightarrow> string \<Rightarrow> string \<Rightarrow> ('w, unit) proc list \<Rightarrow> ('w, unit) proc list \<Rightarrow> nat \<Rightarrow> listen_event
     \<Rightarrow> 'w \<Rightarrow> (bool outcome \<times> 'w) option" where
  "listen_turn T name uuid onReady onNotReady n ev w =
     (if tn_stopped T w then Some (Ok False, w)
      else case session T name uuid onReady w of
          (Panic, w1) \<Rightarrow> Some (Panic, w1)
        | (Err _, w1) \<Rightarrow> on_listen_event T onNotReady ev w1
        | (Ok stream, w1) \<Rightarrow> on_listen_event T onNotReady ev (((\<lambda>w. snd (recv_turn T stream w)) ^^ n) w1))"

fun StartListen ::
  "('w, 'stream) tunnel \<Rightarrow> string \<Rightarrow> ('w, unit) proc list \<Rightarrow> ('w, unit) proc list \<Rightarrow> (string \<times> nat \<times> listen_event) list
     \<Rightarrow> 'w \<Rightarrow> (unit outcome \<times> 'w) option" where
  "StartListen T name onReady onNotReady [] w = Some (Ok (), w)"
| "StartListen T name onReady onNotReady ((uuid, n, ev) # turns) w =
     (case listen_turn T name uuid onReady onNotReady n ev w of
        None \<Rightarrow> None
      | Some (Ok True, w') \<Rightarrow> StartListen T name onReady onNotReady turns w'
      | Some (Ok False, w') \<Rightarrow> Some (Ok (), w')
      | Some (Err e, w') \<Rightarrow> Some (Err e, w')
      | Some (Panic, w') \<Rightarrow> Some (Panic, w'))"

subsection \<open>Requests of a caller (cmdmanager.go)\<close>

text \<open>
  \<open>SendSync\<close> up to its wait. The callbacks of asynchronous requests by the identity of the request; \<open>am_waiting\<close> has
  the requests whose goroutine waits for a response.
\<close>

record 's async =
  as_app :: 's
  as_callbacks :: "(string \<times> (Resp option \<Rightarrow> ('s, unit) proc)) list"
  as_waiting :: "CmdPackage list"

definition send_request :: "(CmdPackage \<Rightarrow> ('s, unit) proc) \<Rightarrow> string \<Rightarrow> Req \<Rightarrow> ('s, CmdPackage) proc" where
  "send_request sendCmd name cmd =
     andthen (lift_sum (genReqCmdPackage cmd name)) (\<lambda>c. andthen (sendCmd c) (\<lambda>_. ret c))"

definition on_app :: "('s, 'a) proc \<Rightarrow> ('s async, 'a) proc" where
  "on_app m = (\<lambda>a. case m (as_app a) of (r, s) \<Rightarrow> (r, a\<lparr>as_app := s\<rparr>))"

definition SendAsync ::
  "(CmdPackage \<Rightarrow> ('s, unit) proc) \<Rightarrow> string \<Rightarrow> Req \<Rightarrow> (Resp option \<Rightarrow> ('s, unit) proc) \<Rightarrow> ('s async, unit) proc" where
  "SendAsync sendCmd name cmd callback =
     andthen (on_app (send_request sendCmd name cmd)) (\<lambda>c. \<lambda>a. (Ok (),
       a\<lparr>as_callbacks := AList.update (pk_UUID c) callback (as_callbacks a), as_waiting := c # as_waiting a\<rparr>))"

text \<open>The goroutine of a request when its wait has ended with \<open>resp\<close>.\<close>

definition async_done :: "CmdPackage \<Rightarrow> Resp option \<Rightarrow> ('s async, unit) proc" where
  "async_done c resp = (\<lambda>a0. let a = a0\<lparr>as_waiting := remove1 c (as_waiting a0)\<rparr> in
     case map_of (as_callbacks a) (pk_UUID c) of
       None \<Rightarrow> (Ok (), a)
     | Some fn \<Rightarrow> andthen (on_app (fn resp)) (\<lambda>_ a. (Ok (), a\<lparr>as_callbacks := AList.delete (pk_UUID c) (as_callbacks a)\<rparr>)) a)"

subsection \<open>Closing the stream of a response (types.go)\<close>

text \<open>The writer and the readers are closed one after the other, whatever fails; the texts of the errors are joined.\<close>

fun close_each :: "('s, unit) proc list \<Rightarrow> string list \<Rightarrow> ('s, string list) proc" where
  "close_each [] errs = ret errs"
| "close_each (c # cs) errs = attempt c (\<lambda>err. close_each cs (errs @ [err_text err])) (\<lambda>_. close_each cs errs)"

definition streamer_close :: "('s, unit) proc option \<Rightarrow> ('s, unit) proc list \<Rightarrow> ('s, unit) proc" where
  "streamer_close writer readers =
     andthen (close_each (case writer of None \<Rightarrow> readers | Some w \<Rightarrow> w # readers) []) (\<lambda>errs.
     if errs \<noteq> [] then fail (Errorf (''close resp reader failed: '' @ join_with [CHR 0x0A] errs)) else ret ())"

subsection \<open>The end of a session\<close>

lemma recv_loop_enough:
  "fst (recv_turn T stream (((\<lambda>w. snd (recv_turn T stream w)) ^^ n) w)) \<noteq> Ok True \<Longrightarrow> recv_loop T stream w \<noteq> None"
proof (induction n arbitrary: w)
  case 0
  then show ?case by (subst recv_loop.simps) (auto split: prod.splits outcome.splits)
next
  case (Suc n)
  obtain r w' where turn: "recv_turn T stream w = (r, w')" by fastforce
  with Suc.prems have "fst (recv_turn T stream (((\<lambda>w. snd (recv_turn T stream w)) ^^ n) w')) \<noteq> Ok True"
    by (simp add: funpow_Suc_right del: funpow.simps)
  from Suc.IH [OF this] show ?case by (subst recv_loop.simps) (auto simp: turn split: outcome.splits)
qed

lemma recv_loop_Some:
  "recv_loop T stream w = Some r \<Longrightarrow> \<exists>n. fst (recv_turn T stream (((\<lambda>w. snd (recv_turn T stream w)) ^^ n) w)) \<noteq> Ok True"
proof (induction T stream w r rule: recv_loop.raw_induct [rotated, consumes 1, case_names step])
  case (step f T stream w r)
  obtain q w' where turn: "recv_turn T stream w = (q, w')" by fastforce
  show ?case
  proof (cases "q = Ok True")
    case True
    with step turn have "\<exists>n. fst (recv_turn T stream (((\<lambda>w. snd (recv_turn T stream w)) ^^ n) w')) \<noteq> Ok True" by simp
    then obtain n where "fst (recv_turn T stream (((\<lambda>w. snd (recv_turn T stream w)) ^^ n) w')) \<noteq> Ok True" ..
    with turn show ?thesis by (intro exI [of _ "Suc n"]) (simp add: funpow_Suc_right del: funpow.simps)
  qed (use turn in \<open>auto intro!: exI [of _ 0]\<close>)
qed

text \<open>
  A session ends exactly when a receive fails with another error than the end of the stream, when the client is
  stopped, or when a turn crashes; a stream that the server has ended is asked again without end.
\<close>

theorem session_ends:
  "(recv_loop T stream w \<noteq> None \<longleftrightarrow>
      (\<exists>n. fst (recv_turn T stream (((\<lambda>w. snd (recv_turn T stream w)) ^^ n) w)) \<noteq> Ok True))
    \<and> (fst (recv_turn T stream w) = Ok True \<longleftrightarrow> \<not> tn_stopped T w
        \<and> (fst (tn_Recv T stream w) = Err EOF
           \<or> (\<exists>p w'. tn_Recv T stream w = (Ok p, w')
                \<and> (case snd (onReceive (Inr p)) of None \<Rightarrow> True | Some job \<Rightarrow> fst (tn_start T job w') = Ok ()))))"
proof (intro conjI)
  show "recv_loop T stream w \<noteq> None \<longleftrightarrow>
      (\<exists>n. fst (recv_turn T stream (((\<lambda>w. snd (recv_turn T stream w)) ^^ n) w)) \<noteq> Ok True)"
    using recv_loop_enough recv_loop_Some by (metis not_None_eq)
  obtain r w' where recv: "tn_Recv T stream w = (r, w')" by fastforce
  show "fst (recv_turn T stream w) = Ok True \<longleftrightarrow> \<not> tn_stopped T w
        \<and> (fst (tn_Recv T stream w) = Err EOF
           \<or> (\<exists>p w'. tn_Recv T stream w = (Ok p, w')
                \<and> (case snd (onReceive (Inr p)) of None \<Rightarrow> True | Some job \<Rightarrow> fst (tn_start T job w') = Ok ())))"
  proof (cases r)
    case (Ok p)
    obtain q job where "onReceive (Inr p) = (q, job)" by fastforce
    with recv Ok show ?thesis
      by (cases job) (auto simp: recv_turn_def attempt_run ret_def andthen_def attempt_def fail_def split: prod.splits outcome.splits)
  qed (use recv in \<open>auto simp: recv_turn_def attempt_run ret_def\<close>)
qed

subsection \<open>A registered client is reachable\<close>

lemma find_key_other: "\<forall>(t, co)\<in>set cs. co_Key co \<noteq> key \<Longrightarrow> find_key key cs = None"
  by (induction cs) auto

lemma find_key_update:
  assumes "\<forall>(t', co)\<in>set cs. co_Key co = co_Key c \<longrightarrow> t' = t"
  shows "find_key (co_Key c) (AList.update t c cs) = Some c"
  using assms by (induction cs) (auto split: prod.splits)

text \<open>The client has sent the package that registers it before anything else happens on its stream.\<close>

lemma session_registers:
  assumes "session T name uuid onReady w = (Ok stream, w')"
  shows "\<exists>w1 w2. tn_Execute T w = (Ok stream, w1) \<and> tn_Send T stream (genRegisterCmd uuid name) w1 = (Ok (), w2)"
  using assms by (auto simp: session_def sendRegisterCmd_def andthen_Ok_iff ret_def)



subsection \<open>Callbacks and closing\<close>

lemma async_done_once:
  assumes "async_done c resp a = (Ok (), a')"
  shows "map_of (as_callbacks a') (pk_UUID c) = None \<and> as_waiting a' = remove1 c (as_waiting a)
    \<and> (\<forall>u. u \<noteq> pk_UUID c \<longrightarrow> map_of (as_callbacks a') u = map_of (as_callbacks a) u)
    \<and> (case map_of (as_callbacks a) (pk_UUID c) of None \<Rightarrow> as_app a' = as_app a | Some fn \<Rightarrow> fn resp (as_app a) = (Ok (), as_app a'))"
  using assms
  by (auto simp: async_done_def Let_def on_app_def andthen_Ok_iff delete_conv' split: option.splits prod.splits)

text \<open>Every close is called, in the order writer, readers; the result is an error exactly when one of them has failed.\<close>

lemma close_each_run:
  assumes "\<forall>c\<in>set cs. \<forall>s. fst (c s) \<noteq> Panic"
  shows "snd (close_each cs errs s) = fold (\<lambda>c s. snd (c s)) cs s
    \<and> (\<exists>new. fst (close_each cs errs s) = Ok (errs @ new)
        \<and> (new = [] \<longleftrightarrow> (\<forall>i<length cs. fst ((cs ! i) (fold (\<lambda>c s. snd (c s)) (take i cs) s)) = Ok ())))"
  using assms
proof (induction cs arbitrary: errs s)
  case (Cons c cs)
  obtain r s1 where run: "c s = (r, s1)" by fastforce
  note IH = Cons.IH [of _ s1]
  show ?case
  proof (cases r)
    case (Ok u)
    with run IH [of errs] Cons.prems show ?thesis
      by (auto simp: attempt_run All_less_Suc2)
  next
    case (Err e)
    with run IH [of "errs @ [err_text e]"] Cons.prems show ?thesis
      by (auto simp: attempt_run All_less_Suc2)
  next
    case Panic
    with run Cons.prems show ?thesis by (metis fst_conv list.set_intros(1))
  qed
qed (simp add: ret_def)

end
