(* ===== verification/Net_Ports.thy ===== *)
theory Net_Ports
  imports Go_Prelude
begin

section \<open>Port ranges and scheme:name:port identifiers (pkg/util/net)\<close>

text \<open>
  \<open>port_range.go\<close>: the type \<open>PortRange\<close>, its printer and its three-notation parser.
  \<open>port_split.go\<close>: splitting and joining \<open>scheme:name:port\<close>. The lemmas show that
  a parsed range stays inside the port numbers, that print and parse are inverse, and
  that join and split are inverse.
\<close>

subsection \<open>strings.TrimSpace\<close>

text \<open>The UTF-8 encodings of the code points \<open>unicode.IsSpace\<close> accepts.\<close>

definition space_encodings :: "string list" where
  "space_encodings =
     map (\<lambda>n. [char_of (n :: nat)]) [9, 10, 11, 12, 13, 32]
     @ map (map (\<lambda>n. char_of (n :: nat)))
         ([[194, 133], [194, 160], [225, 154, 128]]
          @ map (\<lambda>k. [226, 128, k]) ([128..<139] @ [168, 169, 175])
          @ [[226, 129, 159], [227, 128, 128]])"

function trim_left :: "string list \<Rightarrow> string \<Rightarrow> string" where
  "trim_left encs s =
     (case find (\<lambda>e. e \<noteq> [] \<and> has_prefix s e) encs of
        None \<Rightarrow> s
      | Some e \<Rightarrow> trim_left encs (drop (length e) s))"
  by pat_completeness auto
termination
proof (relation "measure (\<lambda>(encs, s). length s)", goal_cases)
  case (2 encs s e)
  then have "e \<noteq> []" "has_prefix s e" by (auto simp: find_Some_iff)
  then have "0 < length e" "take (length e) s = e" by (auto simp: has_prefix_def)
  then have "0 < length e" "length e \<le> length s"
    by (simp_all) (metis length_take min.cobounded1)
  then show ?case using diff_less [of "length e" "length s"] by (simp del: length_greater_0_conv)
qed simp

declare trim_left.simps [simp del]

definition trim_space :: "string \<Rightarrow> string" where
  "trim_space s =
     rev (trim_left (map rev space_encodings) (rev (trim_left space_encodings s)))"

text \<open>The first byte of a space's encoding, and the last, are no ASCII graphic characters.\<close>

definition graphic :: "char \<Rightarrow> bool" where
  "graphic c \<longleftrightarrow> (33 :: nat) \<le> of_char c \<and> of_char c \<le> (126 :: nat)"

lemma trim_left_graphic:
  assumes "\<forall>e\<in>set encs. e \<noteq> [] \<and> \<not> graphic (hd e)" "s = [] \<or> graphic (hd s)"
  shows "trim_left encs s = s"
proof -
  have "\<not> (e \<noteq> [] \<and> has_prefix s e)" if "e \<in> set encs" for e
    using assms that by (cases e; cases s) (auto simp: has_prefix_def)
  then have "find (\<lambda>e. e \<noteq> [] \<and> has_prefix s e) encs = None"
    by (auto simp: find_None_iff)
  then show ?thesis by (subst trim_left.simps) simp
qed

lemma space_encodings_ends:
  "\<forall>e\<in>set space_encodings. e \<noteq> [] \<and> \<not> graphic (hd e)"
  "\<forall>e\<in>set (map rev space_encodings). e \<noteq> [] \<and> \<not> graphic (hd e)"
  by (simp_all add: space_encodings_def graphic_def upt_rec)

lemma trim_space_graphic:
  assumes "s \<noteq> []" "graphic (hd s)" "graphic (last s)"
  shows "trim_space s = s"
  using assms trim_left_graphic [OF space_encodings_ends(1)]
    trim_left_graphic [OF space_encodings_ends(2), of "rev s"]
  by (simp add: trim_space_def hd_rev)

lemma digit_graphic: "is_digit c \<Longrightarrow> graphic c"
  by (simp add: is_digit_def graphic_def)

subsection \<open>PortRange\<close>

record PortRange =
  Base :: int
  Size :: int

definition Contains :: "PortRange \<Rightarrow> int \<Rightarrow> bool" where
  "Contains pr p \<longleftrightarrow> Base pr \<le> p \<and> wrap64 (p - Base pr) < Size pr"

definition PortRange_String :: "PortRange \<Rightarrow> string" where
  "PortRange_String pr =
     (if Size pr = 0 then []
      else itoa (Base pr) @ ''-'' @ itoa (wrap64 (Base pr + Size pr - 1)))"

datatype port_notation = SinglePortNotation | HyphenNotation | PlusNotation | NoNotation

definition notation_of :: "string \<Rightarrow> port_notation" where
  "notation_of value =
     (let hyphenIndex = index_char value CHR ''-''; plusIndex = index_char value CHR ''+''
      in if plusIndex = -1 \<and> hyphenIndex = -1 then SinglePortNotation
         else if hyphenIndex \<noteq> -1 \<and> plusIndex = -1 then HyphenNotation
         else if hyphenIndex = -1 \<and> plusIndex \<noteq> -1 then PlusNotation
         else NoNotation)"

text \<open>The pair \<open>low, high\<close> the switch of \<open>Set\<close> computes.\<close>

definition port_bounds :: "string \<Rightarrow> goerr + int \<times> int" where
  "port_bounds value =
     (let hyphenIndex = index_char value CHR ''-''; plusIndex = index_char value CHR ''+''
      in case notation_of value of
           SinglePortNotation \<Rightarrow>
             (case atoi value of (port, None) \<Rightarrow> Inr (port, port) | (_, Some err) \<Rightarrow> Inl err)
         | HyphenNotation \<Rightarrow>
             (case atoi (take (nat hyphenIndex) value) of
                (_, Some err) \<Rightarrow> Inl err
              | (low, None) \<Rightarrow>
                  (case atoi (drop (nat hyphenIndex + 1) value) of
                     (_, Some err) \<Rightarrow> Inl err
                   | (high, None) \<Rightarrow> Inr (low, high)))
         | PlusNotation \<Rightarrow>
             (case atoi (take (nat plusIndex) value) of
                (_, Some err) \<Rightarrow> Inl err
              | (low, None) \<Rightarrow>
                  (case atoi (drop (nat plusIndex + 1) value) of
                     (_, Some err) \<Rightarrow> Inl err
                   | (offset, None) \<Rightarrow> Inr (low, wrap64 (low + offset))))
         | NoNotation \<Rightarrow> Inl (Errorf (''unable to parse port range: '' @ value)))"

definition PortRange_Set :: "PortRange \<Rightarrow> string \<Rightarrow> goerr option \<times> PortRange" where
  "PortRange_Set pr value0 =
     (let value = trim_space value0 in
      if value = [] then (None, pr\<lparr>Base := 0, Size := 0\<rparr>)
      else case port_bounds value of
          Inl err \<Rightarrow> (Some err, pr)
        | Inr (low, high) \<Rightarrow>
            if 65535 < low \<or> 65535 < high
            then (Some (Errorf (''the port range cannot be greater than 65535: '' @ value)), pr)
            else if high < low
            then (Some (Errorf (''end port cannot be less than start port: '' @ value)), pr)
            else (None, pr\<lparr>Base := low, Size := 1 + high - low\<rparr>))"

definition ParsePortRange :: "string \<Rightarrow> goerr + PortRange" where
  "ParsePortRange value =
     (case PortRange_Set \<lparr>Base = 0, Size = 0\<rparr> value of
        (Some err, _) \<Rightarrow> Inl err
      | (None, pr) \<Rightarrow> Inr pr)"

definition ParsePortRangeOrDie :: "string \<Rightarrow> PortRange outcome" where
  "ParsePortRangeOrDie value =
     (case ParsePortRange value of Inl err \<Rightarrow> Panic | Inr pr \<Rightarrow> Ok pr)"

text \<open>The ranges the parser can return.\<close>

definition port_range_ok :: "PortRange \<Rightarrow> bool" where
  "port_range_ok pr \<longleftrightarrow>
     pr = \<lparr>Base = 0, Size = 0\<rparr> \<or> 0 \<le> Base pr \<and> 1 \<le> Size pr \<and> Base pr + Size pr - 1 \<le> 65535"

lemma notation_of_simps:
  "notation_of v = SinglePortNotation \<longleftrightarrow> CHR ''-'' \<notin> set v \<and> CHR ''+'' \<notin> set v"
  "notation_of v = HyphenNotation \<longleftrightarrow> CHR ''-'' \<in> set v \<and> CHR ''+'' \<notin> set v"
  "notation_of v = PlusNotation \<longleftrightarrow> CHR ''-'' \<notin> set v \<and> CHR ''+'' \<in> set v"
  by (auto simp: notation_of_def Let_def index_char_absent)

lemma take_index_char_absent:
  "index_char v c \<noteq> -1 \<Longrightarrow> c \<notin> set (take (nat (index_char v c)) v)"
  by (erule index_char_split) simp

text \<open>The lower bound is read from bytes that hold no sign, so it is not negative.\<close>

lemma port_bounds_low:
  assumes "port_bounds v = Inr (low, high)"
  shows "0 \<le> low"
proof (cases "notation_of v")
  case SinglePortNotation
  with assms show ?thesis
    by (auto simp: port_bounds_def Let_def notation_of_simps intro: atoi_nonneg
        split: prod.splits option.splits)
next
  case HyphenNotation
  then have "CHR ''-'' \<notin> set (take (nat (index_char v CHR ''-'')) v)"
    by (simp add: take_index_char_absent index_char_absent notation_of_simps)
  with HyphenNotation assms show ?thesis
    by (auto simp: port_bounds_def Let_def intro: atoi_nonneg split: prod.splits option.splits)
next
  case PlusNotation
  then have "CHR ''-'' \<notin> set (take (nat (index_char v CHR ''+'')) v)"
    by (auto simp: notation_of_simps dest: in_set_takeD)
  with PlusNotation assms show ?thesis
    by (auto simp: port_bounds_def Let_def intro: atoi_nonneg split: prod.splits option.splits)
next
  case NoNotation
  with assms show ?thesis by (simp add: port_bounds_def)
qed

lemma PortRange_Set_cases:
  assumes "PortRange_Set pr v = (None, pr')"
  shows "trim_space v = [] \<and> pr' = pr\<lparr>Base := 0, Size := 0\<rparr>
    \<or> (\<exists>low high. port_bounds (trim_space v) = Inr (low, high) \<and> 0 \<le> low \<and> low \<le> high
          \<and> high \<le> 65535 \<and> pr' = pr\<lparr>Base := low, Size := 1 + high - low\<rparr>)"
  using assms
  by (auto simp: PortRange_Set_def Let_def dest: port_bounds_low split: if_splits sum.splits prod.splits)

lemma PortRange_Set_error: "PortRange_Set pr v = (Some e, pr') \<Longrightarrow> pr' = pr"
  by (auto simp: PortRange_Set_def Let_def split: if_splits sum.splits prod.splits)

lemma Contains_ok:
  assumes "port_range_ok pr" "int64 p"
  shows "Contains pr p \<longleftrightarrow> Base pr \<le> p \<and> p < Base pr + Size pr"
proof -
  have "wrap64 (p - Base pr) = p - Base pr" if "Base pr \<le> p"
    using assms that by (intro wrap64_id) (auto simp: port_range_ok_def int64_def)
  then show ?thesis by (auto simp: Contains_def)
qed

lemma port_bounds_hyphen:
  assumes "a < 2 ^ 63" "b < 2 ^ 63"
  shows "port_bounds (nat_str a @ ''-'' @ nat_str b) = Inr (int a, int b)"
proof -
  let ?v = "nat_str a @ CHR ''-'' # nat_str b"
  have sign: "CHR ''-'' \<notin> set (nat_str a)" "CHR ''+'' \<notin> set (nat_str a)"
      "CHR ''+'' \<notin> set (nat_str b)"
    by (simp_all add: nat_str_no_char is_digit_def)
  then have "notation_of ?v = HyphenNotation" by (simp add: notation_of_simps)
  moreover have "index_char ?v CHR ''-'' = int (length (nat_str a))"
    using sign by (simp add: index_char_append)
  ultimately show ?thesis
    using assms by (simp add: port_bounds_def Let_def go_string)
qed

lemma trim_space_range:
  "trim_space (nat_str a @ ''-'' @ nat_str b) = nat_str a @ ''-'' @ nat_str b"
proof (rule trim_space_graphic)
  have "is_digit (hd (nat_str a))" "is_digit (last (nat_str b))"
    by (auto intro: nat_str_digits [of _ a] nat_str_digits [of _ b])
  then show "graphic (hd (nat_str a @ ''-'' @ nat_str b))"
      "graphic (last (nat_str a @ ''-'' @ nat_str b))"
    by (auto intro: digit_graphic)
qed simp

text \<open>
  Every range the parser returns lies inside the port numbers: the empty range, or
  a base that is not negative and a last port of at most 65535; so every port it
  contains is a port number.
\<close>

theorem parse_port_range_bounds:
  assumes "ParsePortRange value = Inr pr"
  shows "port_range_ok pr \<and> (int64 p \<and> Contains pr p \<longrightarrow> 0 \<le> p \<and> p \<le> 65535)"
proof -
  have "port_range_ok pr"
    using assms PortRange_Set_cases [of "\<lparr>Base = 0, Size = 0\<rparr>" "value" pr]
    by (auto simp: ParsePortRange_def port_range_ok_def split: prod.splits option.splits)
  then show ?thesis
    using Contains_ok [of pr p] by (auto simp: port_range_ok_def)
qed

theorem parse_port_range_bounds_witness:
  "ParsePortRange ''80+5'' = Inr \<lparr>Base = 80, Size = 6\<rparr>
   \<and> port_range_ok \<lparr>Base = 80, Size = 6\<rparr> \<and> Contains \<lparr>Base = 80, Size = 6\<rparr> 85"
proof -
  have parsed: "ParsePortRange ''80+5'' = Inr \<lparr>Base = 80, Size = 6\<rparr>"
    by (simp add: ParsePortRange_def PortRange_Set_def trim_space_graphic graphic_def
        port_bounds_def notation_of_def index_char_def atoi_def is_digit_def digit_val_def
        wrap64_def)
  have "Contains \<lparr>Base = 80, Size = 6\<rparr> 85" by (simp add: Contains_def wrap64_def)
  with parsed parse_port_range_bounds [OF parsed, of 85] show ?thesis by blast
qed

text \<open>
  Printing a range and parsing the text gives the range back.
\<close>

theorem port_range_roundtrip:
  assumes "port_range_ok pr"
  shows "ParsePortRange (PortRange_String pr) = Inr pr"
proof (cases "Size pr = 0")
  case True
  with assms show ?thesis
    by (auto simp: port_range_ok_def ParsePortRange_def PortRange_Set_def PortRange_String_def
        trim_space_def trim_left.simps has_prefix_def find_None_iff space_encodings_def)
next
  case False
  with assms have range: "0 \<le> Base pr" "1 \<le> Size pr" "Base pr + Size pr - 1 \<le> 65535"
    by (auto simp: port_range_ok_def)
  let ?a = "nat (Base pr)" and ?b = "nat (Base pr + Size pr - 1)"
  have "wrap64 (Base pr + Size pr - 1) = Base pr + Size pr - 1"
    using range by (intro wrap64_id) (simp add: int64_def)
  then have "PortRange_String pr = nat_str ?a @ ''-'' @ nat_str ?b"
    using range False by (simp add: PortRange_String_def itoa_def)
  moreover have "port_bounds (nat_str ?a @ ''-'' @ nat_str ?b) = Inr (Base pr, Base pr + Size pr - 1)"
    using port_bounds_hyphen [of ?a ?b] range by simp
  ultimately show ?thesis
    using range trim_space_range [of ?a ?b]
    by (simp add: ParsePortRange_def PortRange_Set_def Let_def)
qed

theorem port_range_roundtrip_witness:
  "ParsePortRange (PortRange_String \<lparr>Base = 8000, Size = 100\<rparr>) = Inr \<lparr>Base = 8000, Size = 100\<rparr>"
  by (rule port_range_roundtrip) (simp add: port_range_ok_def)

subsection \<open>SplitSchemeNamePort and JoinSchemeNamePort\<close>

text \<open>\<open>validSchemes\<close> is a set of three strings; \<open>Has\<close> is membership.\<close>

definition validSchemes :: "string set" where
  "validSchemes = {''http'', ''https'', []}"

definition SplitSchemeNamePort :: "string \<Rightarrow> string \<times> string \<times> string \<times> bool" where
  "SplitSchemeNamePort id0 =
     (let finish = (\<lambda>scheme name port.
            if name \<noteq> [] \<and> scheme \<in> validSchemes then (scheme, name, port, True)
            else ([], [], [], False))
      in case split_on CHR '':'' id0 of
           [name] \<Rightarrow> finish [] name []
         | [name, port] \<Rightarrow> finish [] name port
         | [scheme, name, port] \<Rightarrow> finish scheme name port
         | _ \<Rightarrow> ([], [], [], False))"

definition JoinSchemeNamePort :: "string \<Rightarrow> string \<Rightarrow> string \<Rightarrow> string" where
  "JoinSchemeNamePort scheme name port =
     (if scheme \<noteq> [] then scheme @ '':'' @ name @ '':'' @ port
      else if port \<noteq> [] then name @ '':'' @ port
      else name)"

lemma SplitSchemeNamePort_valid:
  assumes "SplitSchemeNamePort i = (scheme, name, port, True)"
  shows "name \<noteq> [] \<and> scheme \<in> validSchemes
    \<and> CHR '':'' \<notin> set scheme \<and> CHR '':'' \<notin> set name \<and> CHR '':'' \<notin> set port"
proof -
  have "\<forall>p\<in>set (split_on CHR '':'' i). CHR '':'' \<notin> set p"
    using split_on_parts by blast
  with assms show ?thesis
    by (auto simp: SplitSchemeNamePort_def Let_def split: list.splits if_splits)
qed

lemma split_of_join:
  assumes "name \<noteq> []" "scheme \<in> validSchemes"
    and "CHR '':'' \<notin> set scheme" "CHR '':'' \<notin> set name" "CHR '':'' \<notin> set port"
  shows "SplitSchemeNamePort (JoinSchemeNamePort scheme name port) = (scheme, name, port, True)"
  using assms
  by (auto simp: SplitSchemeNamePort_def JoinSchemeNamePort_def validSchemes_def go_string)

text \<open>
  Splitting an identifier that is valid and joining its parts gives an identifier
  that splits into the same parts; and joining parts without a colon, with a name and a
  known scheme, is undone by splitting.
\<close>

theorem scheme_name_port_roundtrip:
  assumes "SplitSchemeNamePort i = (scheme, name, port, True)"
  shows "SplitSchemeNamePort (JoinSchemeNamePort scheme name port) = (scheme, name, port, True)
    \<and> name \<noteq> [] \<and> scheme \<in> validSchemes"
  using SplitSchemeNamePort_valid [OF assms] split_of_join by simp

theorem scheme_name_port_roundtrip_witness:
  "SplitSchemeNamePort (JoinSchemeNamePort ''https'' ''pod-1'' ''8443'')
     = (''https'', ''pod-1'', ''8443'', True)"
  using scheme_name_port_roundtrip [of "''https:pod-1:8443''" "''https''" "''pod-1''" "''8443''"]
  by (simp add: SplitSchemeNamePort_def validSchemes_def)

end
