(* ===== verification/Web_Api.thy ===== *)
theory Web_Api
  imports Net_Ports Manager_World
begin

section \<open>The web interface: requests, responses, parameters (pkg/apis, pkg/manager/service/rest/common.go)\<close>

text \<open>
  A request as the handlers see it through go-restful: the route it was matched to, the path
  parameters, the form values (of the query and of the body), the headers and the attributes that the filters have set.
  A response is the entity that is written as JSON.
\<close>

text \<open>
  The user and the token of an access (pkg/manager/auth/types.go). The resources, the cache time and the two
  time stamps of a user, which nothing reads, are left out.
\<close>

record Token =
  tk_AccessToken :: string
  tk_ExpiresIn :: int
  tk_RefreshToken :: string
  tk_Scope :: string
  tk_TokenType :: string
  tk_Error :: string
  tk_ErrorDescription :: string

record User =
  us_ID :: string
  us_Fullname :: string
  us_Email :: string
  us_Wechat :: string
  us_Phone :: string
  us_Type :: string
  us_Status :: string
  us_Dn :: string
  us_Organization :: string
  us_Token :: Token

record request =
  hr_method :: string
  hr_route :: string
  hr_path :: "string gomap"
  hr_form :: "string gomap"
  hr_headers :: "string gomap"
  hr_user :: "User option"

subsection \<open>Response entities (pkg/apis/base.go)\<close>

record 'a RespEntity =
  ent_Code :: int
  ent_Msg :: string
  ent_Data :: 'a

text \<open>What the handlers put into a response: nothing, a text, or a value of the service.\<close>

datatype 'a payload = Nil_data | Text string | Value 'a

type_synonym 'a entity = "'a payload RespEntity"

definition resp :: "int \<Rightarrow> string \<Rightarrow> 'a entity" where
  "resp code msg = \<lparr>ent_Code = code, ent_Msg = msg, ent_Data = Nil_data\<rparr>"

definition Api_RespSucceed :: "'a entity" where "Api_RespSucceed = resp 200 ''ok''"
definition Api_RespFailed :: "'a entity" where "Api_RespFailed = resp 500 ''error''"
definition ErrDataNotFound :: "'a entity" where "ErrDataNotFound = resp 4000 ''Data Not Found''"
definition ErrReqInvalid :: "'a entity" where "ErrReqInvalid = resp 4004 ''Request Invalid''"
definition ErrReqForbidden :: "'a entity" where "ErrReqForbidden = resp 4003 ''Request Forbidden''"
definition ErrDBOpsFailed :: "'a entity" where "ErrDBOpsFailed = resp 5000 ''DB OPS Failed''"
definition ErrSvcFailed :: "'a entity" where "ErrSvcFailed = resp 6000 ''Service Failed''"
definition ErrUnauthorized :: "'a entity" where "ErrUnauthorized = resp 7000 ''Unauthorized''"

definition Api_NewResp :: "int \<Rightarrow> string \<Rightarrow> 'a payload \<Rightarrow> 'a entity" where
  "Api_NewResp code msg data = \<lparr>ent_Code = code, ent_Msg = msg, ent_Data = data\<rparr>"

definition NewRespErr :: "'a entity \<Rightarrow> goerr \<Rightarrow> 'a entity" where
  "NewRespErr err e = \<lparr>ent_Code = ent_Code err, ent_Msg = ent_Msg err @ '': '' @ err_text e, ent_Data = Text []\<rparr>"

definition NewRespSucceed :: "'a \<Rightarrow> 'a entity" where
  "NewRespSucceed data = \<lparr>ent_Code = 200, ent_Msg = ''ok'', ent_Data = Value data\<rparr>"

definition NewRespFailed :: "'a entity" where
  "NewRespFailed = \<lparr>ent_Code = 500, ent_Msg = ''error'', ent_Data = Nil_data\<rparr>"

definition GlobalUser :: "request \<Rightarrow> User option" where
  "GlobalUser req = hr_user req"

text \<open>
  \<open>RespAPI\<close>: the entities that reach the client, given which writes fail. A missing
  entity is an error; a failed write is followed by one with the error.
\<close>

definition RespAPI :: "('a entity \<Rightarrow> goerr option) \<Rightarrow> 'a entity option \<Rightarrow> 'a entity list" where
  "RespAPI write_entity result =
     (let r = (case result of None \<Rightarrow> NewRespFailed | Some r \<Rightarrow> r)
      in case write_entity r of
           None \<Rightarrow> [r]
         | Some err \<Rightarrow> (let r' = NewRespErr ErrSvcFailed err in if write_entity r' = None then [r'] else []))"

subsection \<open>Parameters (common.go)\<close>

definition MaxPageSize :: int where "MaxPageSize = 1000"

definition path_param :: "request \<Rightarrow> string \<Rightarrow> string" where
  "path_param req key = map_get (hr_path req) key"

definition query_param :: "request \<Rightarrow> string \<Rightarrow> string" where
  "query_param req key = map_get (hr_form req) key"

definition trimmed_param :: "request \<Rightarrow> string \<Rightarrow> string" where
  "trimmed_param req key = trim_space (query_param req key)"

text \<open>A value and an error are returned together: after a range error the value is the nearest bound.\<close>

definition num_result :: "int \<times> goerr option \<Rightarrow> goerr + int" where
  "num_result r = (case r of (v, None) \<Rightarrow> Inr v | (_, Some e) \<Rightarrow> Inl e)"

definition checkNumberParam :: "request \<Rightarrow> string \<Rightarrow> bool \<Rightarrow> goerr + int" where
  "checkNumberParam req key isPathParam =
     (let src = trim_space (if isPathParam then path_param req key else query_param req key)
      in if src \<noteq> [] then num_result (atoi src)
         else Inl (Errorf ''convert string must not be empty''))"

fun atoi_all :: "string list \<Rightarrow> int list \<Rightarrow> int list \<times> goerr option" where
  "atoi_all [] result = (result, None)"
| "atoi_all (strv # strvs) result =
     (case atoi strv of (_, Some err) \<Rightarrow> (result, Some err) | (i, None) \<Rightarrow> atoi_all strvs (result @ [i]))"

definition checkNumberArrayParam :: "request \<Rightarrow> string \<Rightarrow> bool \<Rightarrow> int list \<times> goerr option" where
  "checkNumberArrayParam req key isPathParam =
     (let srcs = trim_space (if isPathParam then path_param req key else query_param req key)
      in if srcs \<noteq> [] then atoi_all (split_on CHR '','' srcs) []
         else ([], Some (Errorf (''params '' @ key @ '' must not be empty''))))"

definition checkPageParams :: "request \<Rightarrow> goerr + int \<times> int" where
  "checkPageParams req =
     (let strSize = trimmed_param req ''page_size''
      in case (if strSize \<noteq> [] then num_result (atoi strSize) else Inr 0) of
           Inl err \<Rightarrow> Inl (Errorf ''size must be interger'')
         | Inr size0 \<Rightarrow>
             let sz = (if size0 \<le> 0 \<or> MaxPageSize < size0 then 10 else size0);
                 strPage = trimmed_param req ''current_page''
             in case (if strPage \<noteq> [] then num_result (atoi strPage) else Inr 0) of
                  Inl err \<Rightarrow> Inl (Errorf ''page must be interger'')
                | Inr page \<Rightarrow> Inr (sz, if page \<le> 0 then 1 else page))"

definition buildArrayParams :: "string \<Rightarrow> request \<Rightarrow> string list" where
  "buildArrayParams key req =
     map trim_space (filter (\<lambda>p. trim_space p \<noteq> []) (split_on CHR '','' (trimmed_param req key)))"

lemma checkPageParams_size: "checkPageParams req = Inr (sz, page) \<Longrightarrow> 1 \<le> sz \<and> sz \<le> 1000 \<and> 1 \<le> page"
  by (auto simp: checkPageParams_def Let_def MaxPageSize_def split: sum.splits if_splits)

subsection \<open>Quoted values (\<open>%q\<close>, \<open>strconv.Quote\<close>)\<close>

text \<open>
  The rune at the head of a byte sequence with its width; \<open>None\<close> when the bytes are not valid
  UTF-8. The parameter \<open>pr\<close> is \<open>unicode.IsPrint\<close>, a table.
\<close>

definition tail_byte :: "nat \<Rightarrow> nat \<Rightarrow> nat \<Rightarrow> bool" where
  "tail_byte lo hi b \<longleftrightarrow> lo \<le> b \<and> b < hi"

fun decode_rune :: "nat list \<Rightarrow> (nat \<times> nat) option" where
  "decode_rune [] = None"
| "decode_rune (a # r) =
     (if a < 128 then Some (a, 1)
      else case r of
        b # r2 \<Rightarrow>
          if 194 \<le> a \<and> a < 224
          then (if tail_byte 128 192 b then Some ((a - 192) * 64 + (b - 128), 2) else None)
          else (case r2 of
            c # r3 \<Rightarrow>
              if 224 \<le> a \<and> a < 240
              then (if tail_byte (if a = 224 then 160 else 128) (if a = 237 then 160 else 192) b \<and> tail_byte 128 192 c
                    then Some ((a - 224) * 4096 + (b - 128) * 64 + (c - 128), 3) else None)
              else (case r3 of
                d # r4 \<Rightarrow>
                  if 240 \<le> a \<and> a < 245 \<and> tail_byte (if a = 240 then 144 else 128) (if a = 244 then 144 else 192) b
                    \<and> tail_byte 128 192 c \<and> tail_byte 128 192 d
                  then Some ((a - 240) * 262144 + (b - 128) * 4096 + (c - 128) * 64 + (d - 128), 4) else None
              | [] \<Rightarrow> None)
          | [] \<Rightarrow> None)
      | [] \<Rightarrow> None)"

definition hex_char :: "nat \<Rightarrow> char" where
  "hex_char d = (if d < 10 then char_of (48 + d) else char_of (87 + d))"

fun hex_digits :: "nat \<Rightarrow> nat \<Rightarrow> string" where
  "hex_digits 0 v = []"
| "hex_digits (Suc n) v = hex_digits n (v div 16) @ [hex_char (v mod 16)]"

definition DQ :: char where "DQ = CHR 0x22"
definition BS :: char where "BS = CHR 0x5C"

text \<open>The bytes a rune is printed as: \<open>bs\<close> are the bytes that encode it.\<close>

definition quote_rune :: "(nat \<Rightarrow> bool) \<Rightarrow> nat \<Rightarrow> string \<Rightarrow> string" where
  "quote_rune pr r bs =
     (if r = 34 \<or> r = 92 then [BS, char_of r]
      else if (32 \<le> r \<and> r < 127) \<or> (127 < r \<and> pr r) then bs
      else if r = 7 then [BS, CHR ''a''] else if r = 8 then [BS, CHR ''b'']
      else if r = 12 then [BS, CHR ''f''] else if r = 10 then [BS, CHR ''n'']
      else if r = 13 then [BS, CHR ''r''] else if r = 9 then [BS, CHR ''t'']
      else if r = 11 then [BS, CHR ''v'']
      else if r < 32 \<or> r = 127 then [BS, CHR ''x''] @ hex_digits 2 r
      else if r < 65536 then [BS, CHR ''u''] @ hex_digits 4 r
      else [BS, CHR ''U''] @ hex_digits 8 r)"

function quote_body :: "(nat \<Rightarrow> bool) \<Rightarrow> string \<Rightarrow> string" where
  "quote_body pr [] = []"
| "quote_body pr (c # cs) =
     (case decode_rune (map of_char (c # cs)) of
        None \<Rightarrow> [BS, CHR ''x''] @ hex_digits 2 (of_char c) @ quote_body pr cs
      | Some (r, w) \<Rightarrow> quote_rune pr r (take w (c # cs)) @ quote_body pr (drop (w - 1) cs))"
  by pat_completeness auto
termination by (relation "measure (\<lambda>(pr, s). length s)") auto

declare quote_body.simps [simp del]

definition go_quote :: "(nat \<Rightarrow> bool) \<Rightarrow> string \<Rightarrow> string" where
  "go_quote pr s = DQ # quote_body pr s @ [DQ]"

end
