(* ===== verification/Auth_Url.thy ===== *)
theory Auth_Url
  imports Web_Api "HOL-Library.Char_ord" "HOL-Library.List_Lexorder"
begin

section \<open>Query strings and base64 (net/url, encoding/base64) for the package auth\<close>

text \<open>
  \<open>url.ParseQuery\<close> and \<open>Values.Encode\<close> as of Go 1.13, which go.mod names, and base64 in its standard
  form. A set of values is a map from keys to lists; \<open>Encode\<close> sorts the keys.
\<close>

subsection \<open>Escapes\<close>

definition hex_upper :: "nat \<Rightarrow> char" where
  "hex_upper d = (if d < 10 then char_of (48 + d) else char_of (55 + d))"

definition hex_val :: "char \<Rightarrow> nat option" where
  "hex_val c = (let n = of_char c :: nat in
     if 48 \<le> n \<and> n \<le> 57 then Some (n - 48)
     else if 97 \<le> n \<and> n \<le> 102 then Some (n - 87)
     else if 65 \<le> n \<and> n \<le> 70 then Some (n - 55) else None)"

definition unreserved :: "char \<Rightarrow> bool" where
  "unreserved c = (let n = of_char c :: nat in
     48 \<le> n \<and> n \<le> 57 \<or> 65 \<le> n \<and> n \<le> 90 \<or> 97 \<le> n \<and> n \<le> 122 \<or> n \<in> {45, 46, 95, 126})"

definition escape_char :: "char \<Rightarrow> string" where
  "escape_char c = (if unreserved c then [c] else if c = CHR '' '' then ''+''
     else [CHR ''%'', hex_upper (of_char c div 16), hex_upper (of_char c mod 16)])"

definition QueryEscape :: "string \<Rightarrow> string" where
  "QueryEscape s = concat (map escape_char s)"

definition EscapeError :: "string \<Rightarrow> goerr" where
  "EscapeError s = External (''invalid URL escape '' @ s)"

fun QueryUnescape :: "string \<Rightarrow> goerr + string" where
  "QueryUnescape [] = Inr []"
| "QueryUnescape (c # cs) =
     (if c = CHR ''%''
      then (case cs of
              a # b # r \<Rightarrow>
                (case (hex_val a, hex_val b) of
                   (Some x, Some y) \<Rightarrow> map_sum id (\<lambda>t. char_of (16 * x + y) # t) (QueryUnescape r)
                 | _ \<Rightarrow> Inl (EscapeError [c, a, b]))
            | _ \<Rightarrow> Inl (EscapeError (c # cs)))
      else map_sum id (\<lambda>t. (if c = CHR ''+'' then CHR '' '' else c) # t) (QueryUnescape cs))"

lemma hex_val_upper: "d < 16 \<Longrightarrow> hex_val (hex_upper d) = Some d"
  by (auto simp: hex_val_def hex_upper_def Let_def)

definition separator :: "char \<Rightarrow> bool" where
  "separator c \<longleftrightarrow> c = CHR ''&'' \<or> c = CHR '';'' \<or> c = CHR ''=''"

lemma unreserved_plain: "unreserved c \<Longrightarrow> c \<noteq> CHR ''%'' \<and> c \<noteq> CHR ''+'' \<and> \<not> separator c"
  by (auto simp: unreserved_def separator_def Let_def)

lemma hex_upper_plain: "d < 16 \<Longrightarrow> unreserved (hex_upper d)"
  by (auto simp: hex_upper_def unreserved_def Let_def)

lemma nibbles: "of_char c div 16 < (16 :: nat)" "of_char c mod 16 < (16 :: nat)"
  using nat_of_char_less_256 [of c] by (simp_all add: less_mult_imp_div_less)

lemma unescape_percent:
  "QueryUnescape (CHR ''%'' # hex_upper (of_char c div 16) # hex_upper (of_char c mod 16) # s) = map_sum id ((#) c) (QueryUnescape s)"
proof -
  have "char_of (16 * (of_char c div 16) + of_char c mod 16 :: nat) = c"
    by (simp only: mult_div_mod_eq char_of_char)
  then show ?thesis by (simp add: hex_val_upper nibbles)
qed

lemma unescape_char: "QueryUnescape (escape_char c @ s) = map_sum id ((#) c) (QueryUnescape s)"
proof (cases "unreserved c")
  case True
  with unreserved_plain [OF True] show ?thesis by (simp add: escape_char_def)
next
  case False
  then show ?thesis
    by (cases "c = CHR '' ''") (simp_all only: escape_char_def if_False if_True append.simps unescape_percent, simp)
qed

lemma unescape_escape: "QueryUnescape (QueryEscape s) = Inr s"
  by (induction s) (simp_all add: QueryEscape_def unescape_char)

lemma escape_plain:
  assumes "c \<in> set (QueryEscape s)"
  shows "\<not> separator c"
proof -
  obtain x where "c \<in> set (escape_char x)" using assms by (auto simp: QueryEscape_def)
  then have "unreserved c \<or> c = CHR ''+'' \<or> c = CHR ''%''"
    using hex_upper_plain nibbles [of x] by (auto simp: escape_char_def split: if_splits)
  then show ?thesis using unreserved_plain by (auto simp: separator_def)
qed

subsection \<open>Values\<close>

type_synonym url_values = "string list gomap"

definition url_add :: "string \<Rightarrow> string \<Rightarrow> url_values \<Rightarrow> url_values" where
  "url_add k v vs = map_set k ((case map_of vs k of None \<Rightarrow> [] | Some xs \<Rightarrow> xs) @ [v]) vs"

definition url_encode :: "url_values \<Rightarrow> string" where
  "url_encode vs = join_with ''&'' (concat (map (\<lambda>(k, xs). map (\<lambda>v. QueryEscape k @ ''='' @ QueryEscape v) xs) (sort_key fst vs)))"

text \<open>A key and a value around the first equals sign, each part between \<open>&\<close> or \<open>;\<close>. Empty parts are skipped.\<close>

definition parse_pair :: "string \<Rightarrow> goerr + string \<times> string" where
  "parse_pair p =
     (case QueryUnescape (takeWhile (\<lambda>c. c \<noteq> CHR ''='') p) of
        Inl e \<Rightarrow> Inl e
      | Inr k \<Rightarrow> map_sum id (Pair k) (QueryUnescape (drop 1 (dropWhile (\<lambda>c. c \<noteq> CHR ''='') p))))"

fun parse_parts :: "string list \<Rightarrow> url_values \<Rightarrow> goerr + url_values" where
  "parse_parts [] vs = Inr vs"
| "parse_parts (p # ps) vs =
     (if p = [] then parse_parts ps vs
      else case parse_pair p of Inl e \<Rightarrow> Inl e | Inr (k, v) \<Rightarrow> parse_parts ps (url_add k v vs))"

definition ParseQuery :: "string \<Rightarrow> goerr + url_values" where
  "ParseQuery query = parse_parts (split_on CHR ''&'' (map (\<lambda>c. if c = CHR '';'' then CHR ''&'' else c) query)) []"

lemma parse_pair_escaped: "parse_pair (QueryEscape k @ ''='' @ QueryEscape v) = Inr (k, v)"
proof -
  have "takeWhile (\<lambda>c. c \<noteq> CHR ''='') (QueryEscape k @ ''='' @ QueryEscape v) = QueryEscape k"
    "dropWhile (\<lambda>c. c \<noteq> CHR ''='') (QueryEscape k @ ''='' @ QueryEscape v) = ''='' @ QueryEscape v"
    using escape_plain [of _ k] by (auto simp: takeWhile_append dropWhile_append separator_def)
  then show ?thesis by (simp add: parse_pair_def unescape_escape)
qed

subsection \<open>Base64\<close>

definition b64_val :: "char \<Rightarrow> nat option" where
  "b64_val c = (let n = of_char c :: nat in
     if 65 \<le> n \<and> n \<le> 90 then Some (n - 65)
     else if 97 \<le> n \<and> n \<le> 122 then Some (n - 71)
     else if 48 \<le> n \<and> n \<le> 57 then Some (n + 4)
     else if c = CHR ''+'' then Some 62 else if c = CHR ''/'' then Some 63 else None)"

fun b64_groups :: "string \<Rightarrow> string option" where
  "b64_groups [] = Some []"
| "b64_groups (a # b # c # d # r) =
     (case (b64_val a, b64_val b, b64_val c, b64_val d) of
        (Some w, Some x, Some y, Some z) \<Rightarrow>
          map_option ((@) [char_of (w * 4 + x div 16), char_of (x mod 16 * 16 + y div 4), char_of (y mod 4 * 64 + z)])
            (b64_groups r)
      | (Some w, Some x, Some y, None) \<Rightarrow>
          if d = CHR ''='' \<and> r = [] then Some [char_of (w * 4 + x div 16), char_of (x mod 16 * 16 + y div 4)] else None
      | (Some w, Some x, None, None) \<Rightarrow>
          if c = CHR ''='' \<and> d = CHR ''='' \<and> r = [] then Some [char_of (w * 4 + x div 16)] else None
      | _ \<Rightarrow> None)"
| "b64_groups _ = None"

text \<open>\<open>base64.StdEncoding.DecodeString\<close>: line ends are skipped.\<close>

definition b64_decode :: "string \<Rightarrow> goerr + string" where
  "b64_decode s = (case b64_groups (filter (\<lambda>c. c \<noteq> CHR 0x0A \<and> c \<noteq> CHR 0x0D) s) of
     None \<Rightarrow> Inl (External ''illegal base64 data'') | Some t \<Rightarrow> Inr t)"

end
