(* ===== verification/Auth_Tokens.thy ===== *)
theory Auth_Tokens
  imports Auth_Url
begin

section \<open>Tokens (pkg/manager/auth: jwt_token_manager.go, security.go)\<close>

text \<open>
  The library jwt-go and the JSON of a user are parameters. A token is signed with a secret; parsing one reads its
  claims and its method, asks the caller's function for the key, and then checks the signature. The time and the
  random number are arguments. \<open>tokenTTL.Seconds()\<close> is a float64: the whole seconds are exact for lifetimes up to
  \<open>2 ^ 22\<close> seconds.
\<close>

datatype claim = Claim_text string | Claim_json string

type_synonym claims = "claim gomap"

record jwt_lib =
  jw_sign :: "claims \<Rightarrow> string \<Rightarrow> goerr + string"
  jw_decode :: "string \<Rightarrow> goerr + claims \<times> bool"
  jw_verify :: "string \<Rightarrow> string \<Rightarrow> goerr option"
  jw_user_text :: "User \<Rightarrow> string"
  jw_user :: "string \<Rightarrow> goerr + User"
  jw_claim_text :: "claim option \<Rightarrow> string"

text \<open>\<open>jwt.Parse\<close>: \<open>key\<close> is the key function; the flag says that the method is HMAC.\<close>

definition jwt_parse :: "jwt_lib \<Rightarrow> string \<Rightarrow> (claims \<Rightarrow> bool \<Rightarrow> goerr + string \<times> 'a) \<Rightarrow> goerr + 'a" where
  "jwt_parse J token key =
     (case jw_decode J token of Inl err \<Rightarrow> Inl err
      | Inr (claims, hmac) \<Rightarrow>
          (case key claims hmac of Inl err \<Rightarrow> Inl err
           | Inr (secret, a) \<Rightarrow> (case jw_verify J token secret of Some err \<Rightarrow> Inl err | None \<Rightarrow> Inr a)))"

text \<open>The time stamp of the claims, a text that is a number. The claims are left out of the texts of the errors.\<close>

definition claim_time :: "claims \<Rightarrow> goerr + int" where
  "claim_time claims =
     (case map_of claims ''time'' of
        Some (Claim_text timeStampString) \<Rightarrow>
          (case atoi timeStampString of
             (_, Some err) \<Rightarrow> Inl (Errorf ''unexpected timeStamp length, it should be int64'')
           | (timeStamp, None) \<Rightarrow> Inr timeStamp)
      | _ \<Rightarrow> Inl (Errorf ''unexpected timeStamp format, it should be string''))"

subsection \<open>security.go\<close>

definition JwtExpireSeconds :: int where "JwtExpireSeconds = 500"

definition GenerateJWTToken :: "jwt_lib \<Rightarrow> int \<times> int \<Rightarrow> int \<Rightarrow> string \<Rightarrow> string" where
  "GenerateJWTToken J stamp i secret =
     (case jw_sign J [(''time'', Claim_text (itoa (fst stamp))), (''id'', Claim_text (itoa i)),
          (''nonce'', Claim_text (itoa (snd stamp)))] secret of
        Inl err \<Rightarrow> [] | Inr tokenString \<Rightarrow> tokenString)"

definition ParseJWTToken :: "jwt_lib \<Rightarrow> int \<Rightarrow> string \<Rightarrow> string \<Rightarrow> string" where
  "ParseJWTToken J now token secret =
     (case jwt_parse J token (\<lambda>claims hmac.
        if \<not> hmac then Inl (Errorf ''unexpected signing method'')
        else case claim_time claims of Inl err \<Rightarrow> Inl err
        | Inr timeStamp \<Rightarrow>
            if JwtExpireSeconds < wrap64 (now - timeStamp)
            then Inl (Errorf (''unexpected timeStamp in claims: '' @ itoa timeStamp))
            else case map_of claims ''id'' of
                Some (Claim_text clientIDString) \<Rightarrow>
                  (case atoi clientIDString of
                     (_, Some err) \<Rightarrow> Inl (Errorf ''unexpected timeStamp length, it should be int64'')
                   | (clientID, None) \<Rightarrow>
                       Inr (secret, ''time: '' @ itoa timeStamp @ [CHR 0x0A] @ ''id: '' @ itoa clientID @ [CHR 0x0A]))
              | _ \<Rightarrow> Inl (Errorf ''unexpected client id: '')) of
      Inl err \<Rightarrow> err_text err | Inr ans \<Rightarrow> ans)"

subsection \<open>jwt_token_manager.go\<close>

record jwtTokenManager =
  jt_secret :: string
  jt_tokenTTL :: int

definition Second :: int where "Second = 1000000000"

definition NewJwtTokenManager :: "string \<Rightarrow> int \<Rightarrow> jwtTokenManager" where
  "NewJwtTokenManager secret tokenTTL = \<lparr>jt_secret = secret, jt_tokenTTL = tokenTTL\<rparr>"

definition Generate :: "jwt_lib \<Rightarrow> int \<times> int \<Rightarrow> jwtTokenManager \<Rightarrow> User \<Rightarrow> goerr + string" where
  "Generate J stamp jtm user =
     jw_sign J [(''time'', Claim_text (itoa (fst stamp))), (''nonce'', Claim_text (itoa (snd stamp))),
       (''user'', Claim_json (jw_user_text J user))] (jt_secret jtm)"

text \<open>\<open>int64(tokenTTL.Seconds())\<close>: rounded towards zero.\<close>

definition ttl_seconds :: "jwtTokenManager \<Rightarrow> int" where
  "ttl_seconds jtm = (if jt_tokenTTL jtm < 0 then - (- jt_tokenTTL jtm div Second) else jt_tokenTTL jtm div Second)"

definition Decrypt :: "jwt_lib \<Rightarrow> int \<Rightarrow> jwtTokenManager \<Rightarrow> string \<Rightarrow> goerr + User" where
  "Decrypt J now jtm jwtToken =
     jwt_parse J jwtToken (\<lambda>claims hmac.
       if \<not> hmac then Inl (Errorf ''unexpected signing method'')
       else case claim_time claims of Inl err \<Rightarrow> Inl err
       | Inr timeStamp \<Rightarrow>
           if ttl_seconds jtm < wrap64 (now - timeStamp) then Inl (Errorf ''token expired'')
           else map_sum id (Pair (jt_secret jtm)) (jw_user J (jw_claim_text J (map_of claims ''user''))))"

text \<open>The multiplication is one of \<open>time.Duration\<close>, an \<open>int64\<close>.\<close>

definition SetTokenTTL :: "int \<Rightarrow> jwtTokenManager \<Rightarrow> jwtTokenManager" where
  "SetTokenTTL ttl0 jtm = (let ttl = (if ttl0 < 0 then 0 else ttl0) in jtm\<lparr>jt_tokenTTL := wrap64 (ttl * Second)\<rparr>)"

subsection \<open>What the tokens rely on\<close>

text \<open>
  A token that was signed decodes to the texts of its claims with the HMAC method, and verifies with its
  secret. A user read back is the user without the token, which is not part of the JSON.
\<close>

definition no_token :: "User \<Rightarrow> User" where
  "no_token u = u\<lparr>us_Token := \<lparr>tk_AccessToken = [], tk_ExpiresIn = 0, tk_RefreshToken = [], tk_Scope = [],
     tk_TokenType = [], tk_Error = [], tk_ErrorDescription = []\<rparr>\<rparr>"

locale jwt_tokens =
  fixes J :: jwt_lib
  assumes signed_decodes: "jw_sign J c secret = Inr t \<Longrightarrow> \<exists>c'. jw_decode J t = Inr (c', True)
      \<and> (\<forall>k x. map_of c k = Some (Claim_text x) \<longrightarrow> map_of c' k = Some (Claim_text x))
      \<and> (\<forall>k x. map_of c k = Some (Claim_json x) \<longrightarrow> jw_user J (jw_claim_text J (map_of c' k)) = jw_user J x)"
    and signed_verifies: "jw_sign J c secret = Inr t \<Longrightarrow> jw_verify J t secret = None"
    and user_read_back: "jw_user J (jw_user_text J u) = Inr (no_token u)"
begin

lemma claim_time_read:
  assumes "map_of c' ''time'' = Some (Claim_text (itoa (int n)))" and "n < 2 ^ 63"
  shows "claim_time c' = Inr (int n)"
  using assms by (simp add: claim_time_def itoa_def atoi_nat_str)

lemma Decrypt_Generate:
  assumes "Generate J (int n, r) jtm u = Inr t" and "n < 2 ^ 63"
  shows "Decrypt J now jtm t = (if ttl_seconds jtm < wrap64 (now - int n) then Inl (Errorf ''token expired'') else Inr (no_token u))"
proof -
  obtain c' where c: "jw_decode J t = Inr (c', True)" "map_of c' ''time'' = Some (Claim_text (itoa (int n)))"
    "jw_user J (jw_claim_text J (map_of c' ''user'')) = jw_user J (jw_user_text J u)"
    using signed_decodes [OF assms(1) [unfolded Generate_def]] by auto
  have "jw_verify J t (jt_secret jtm) = None" using signed_verifies [OF assms(1) [unfolded Generate_def]] .
  with c show ?thesis
    by (simp add: Decrypt_def jwt_parse_def claim_time_read [OF c(2) assms(2)] user_read_back)
qed


end

end
