(* ===== verification/Auth_Sdk.thy ===== *)
theory Auth_Sdk
  imports Auth_Tokens
begin

section \<open>The client of the auth system (pkg/manager/auth/sdk.go)\<close>

text \<open>
  Each call is a request over HTTP with a token of the manager, and its answer an envelope of JSON with a
  code, a message and data. Sending a request is a parameter, an operation on the state \<open>'s\<close>; the time and
  the random numbers come from there too. The decoders of JSON are parameters, one per type;
  the data of an envelope is the text that \<open>json.Marshal\<close> makes of it again.
\<close>

record APIResource =
  ar_ID :: int
  ar_Name :: string
  ar_Description :: string
  ar_ClientID :: int
  ar_Data :: string
  ar_CreatedBy :: string
  ar_UpdatedBy :: string
  ar_Created :: string
  ar_Updated :: string

record RoleResource =
  rr_Resource :: APIResource
  rr_RoleID :: int

record ResourceInfo =
  ri_Name :: string
  ri_Data :: string
  ri_Description :: string

text \<open>A role; its users and children, which nothing reads, are left out.\<close>

record Role =
  ro_ID :: int
  ro_Name :: string
  ro_Description :: string
  ro_ParentID :: int
  ro_CreatedBy :: string
  ro_UpdatedBy :: string
  ro_Created :: string
  ro_Updated :: string
  ro_RoleType :: string
  ro_Resources :: "RoleResource list"

record RelatedInfo =
  re_RoleID :: int
  re_ResourceID :: int

record Group =
  gp_ID :: int
  gp_Name :: string
  gp_Email :: string
  gp_Description :: string

record RespBody =
  rb_ResCode :: int
  rb_ResMsg :: string
  rb_Data :: "string option"

record http_request =
  hq_Method :: string
  hq_URL :: string
  hq_Authorization :: string
  hq_Body :: "string option"

text \<open>The status, and the body or the error of reading it.\<close>

record http_response =
  hp_StatusCode :: int
  hp_Body :: "goerr + string"

record auth_json =
  js_body :: "string \<Rightarrow> goerr + RespBody"
  js_resources :: "string \<Rightarrow> goerr + APIResource list"
  js_roles :: "string \<Rightarrow> goerr + Role list"
  js_related :: "string \<Rightarrow> goerr + RelatedInfo list"
  js_groups :: "string \<Rightarrow> goerr + Group list"
  js_users :: "string \<Rightarrow> goerr + User list"
  js_user_page :: "string \<Rightarrow> goerr + User list"
  js_ids :: "string \<Rightarrow> goerr + int list"
  js_int :: "string \<Rightarrow> goerr + int"
  js_token :: "string \<Rightarrow> goerr + Token"
  js_show_resources :: "ResourceInfo list \<Rightarrow> string"
  js_show_role :: "string \<Rightarrow> int \<Rightarrow> string \<Rightarrow> string"
  js_show_ids :: "int list \<Rightarrow> string"

record APIConfig =
  ac_ClientID :: int
  ac_ClientSecret :: string
  ac_APIHost :: string

record 's sdk =
  sk_config :: APIConfig
  sk_new_request :: "string \<Rightarrow> goerr option"
  sk_do :: "http_request \<Rightarrow> ('s, http_response) proc"
  sk_stamp :: "'s \<Rightarrow> (int \<times> int) \<times> 's"
  sk_jwt :: jwt_lib
  sk_json :: auth_json

definition NewAuthSDK ::
  "(string \<Rightarrow> goerr option) \<Rightarrow> (http_request \<Rightarrow> ('s, http_response) proc) \<Rightarrow> ('s \<Rightarrow> (int \<times> int) \<times> 's) \<Rightarrow> jwt_lib \<Rightarrow> auth_json
    \<Rightarrow> int \<Rightarrow> string \<Rightarrow> string \<Rightarrow> 's sdk" where
  "NewAuthSDK new_request send stamp jwt json clientID clientSecret authURL =
     \<lparr>sk_config = \<lparr>ac_ClientID = clientID, ac_ClientSecret = clientSecret, ac_APIHost = authURL\<rparr>,
      sk_new_request = new_request, sk_do = send, sk_stamp = stamp, sk_jwt = jwt, sk_json = json\<rparr>"

definition SUCC :: int where "SUCC = 0"
definition StatusOK :: int where "StatusOK = 200"
definition RGroup :: string where "RGroup = ''group''"
definition RGroupUser :: string where "RGroupUser = ''groupuser''"
definition RResources :: string where "RResources = ''resources''"
definition RUserResources :: string where "RUserResources = ''userResources''"
definition RRole :: string where "RRole = ''roles''"
definition RRoleResources :: string where "RRoleResources = ''roleResources''"

subsection \<open>Requests with the token of the client\<close>

text \<open>A token of the manager, with the time and the next random number.\<close>

definition client_token :: "'s sdk \<Rightarrow> ('s, string) proc" where
  "client_token a = (\<lambda>s. case sk_stamp a s of (stamp, s') \<Rightarrow>
     (Ok (GenerateJWTToken (sk_jwt a) stamp (ac_ClientID (sk_config a)) (ac_ClientSecret (sk_config a))), s'))"

definition processResp :: "auth_json \<Rightarrow> http_response \<Rightarrow> goerr + string" where
  "processResp js response =
     (let statusErr = (if hp_StatusCode response \<noteq> StatusOK
            then Some (Errorf (''unexpected status code of '' @ itoa (hp_StatusCode response))) else None);
          shown = '', statusErr: '' @ (case statusErr of None \<Rightarrow> ''<nil>'' | Some e \<Rightarrow> err_text e)
      in case hp_Body response of
           Inl err \<Rightarrow> Inl (Errorf (''Read body error when process response: '' @ err_text err @ shown))
         | Inr rawBody \<Rightarrow>
             (case js_body js rawBody of
                Inl err \<Rightarrow> Inl (Errorf (''Unmarshal body error when process response: '' @ err_text err @ shown))
              | Inr body \<Rightarrow>
                  if rb_ResCode body \<noteq> SUCC \<and> rb_Data body = None
                  then Inl (Errorf (''Unexpected response body, msg: '' @ rb_ResMsg body @ shown))
                  else case statusErr of Some e \<Rightarrow> Inl e
                  | None \<Rightarrow> Inr (case rb_Data body of None \<Rightarrow> ''null'' | Some data \<Rightarrow> data)))"

definition doRequest :: "'s sdk \<Rightarrow> string \<Rightarrow> string \<Rightarrow> string option \<Rightarrow> ('s, string) proc" where
  "doRequest a method resource body =
     (let url = ac_APIHost (sk_config a) @ ''/api/'' @ resource
      in case sk_new_request a url of
           Some err \<Rightarrow> fail (Wrap ''Create New Request error: '' err)
         | None \<Rightarrow>
             andthen (client_token a) (\<lambda>token.
             attempt (sk_do a \<lparr>hq_Method = method, hq_URL = url, hq_Authorization = ''Client '' @ token, hq_Body = body\<rparr>)
               (\<lambda>err. fail (Wrap ''Do request error: '' err))
               (\<lambda>resp. lift_sum (processResp (sk_json a) resp))))"

definition sdk_get :: "'s sdk \<Rightarrow> string \<Rightarrow> ('s, string) proc" where
  "sdk_get a path = doRequest a ''GET'' path None"

definition sdk_post :: "'s sdk \<Rightarrow> string \<Rightarrow> string \<Rightarrow> ('s, string) proc" where
  "sdk_post a path body = doRequest a ''POST'' path (Some body)"

subsection \<open>Resources, roles, relations\<close>

definition GetUserResources :: "'s sdk \<Rightarrow> string \<Rightarrow> ('s, APIResource list) proc" where
  "GetUserResources a userID =
     andthen (sdk_get a (RUserResources @ ''?user_id='' @ userID)) (\<lambda>data. lift_sum (js_resources (sk_json a) data))"

definition AddResource :: "'s sdk \<Rightarrow> ResourceInfo list \<Rightarrow> ('s, int list) proc" where
  "AddResource a resources =
     (if resources = [] then ret []
      else andthen (sdk_post a (RResources @ ''/'') (js_show_resources (sk_json a) resources)) (\<lambda>data.
           lift_sum (js_ids (sk_json a) data)))"

definition GetAllResources :: "'s sdk \<Rightarrow> ('s, APIResource list) proc" where
  "GetAllResources a = andthen (sdk_get a RResources) (\<lambda>data. lift_sum (js_resources (sk_json a) data))"

definition AddRole :: "'s sdk \<Rightarrow> string \<Rightarrow> int \<Rightarrow> string \<Rightarrow> ('s, int) proc" where
  "AddRole a name parentID description =
     andthen (sdk_post a RRole (js_show_role (sk_json a) name parentID description)) (\<lambda>data.
     lift_sum (js_int (sk_json a) data))"

definition bool_text :: "bool \<Rightarrow> string" where
  "bool_text b = (if b then ''true'' else ''false'')"

definition GetAllRole :: "'s sdk \<Rightarrow> bool \<Rightarrow> bool \<Rightarrow> bool \<Rightarrow> ('s, Role list) proc" where
  "GetAllRole a relatedResource relatedUser isTree =
     andthen (sdk_get a (RRole @ ''?is_tree='' @ bool_text isTree @ ''&relate_user='' @ bool_text relatedUser
       @ ''&relate_resource='' @ bool_text relatedResource)) (\<lambda>data. lift_sum (js_roles (sk_json a) data))"

definition AddRoleResourceRelations :: "'s sdk \<Rightarrow> int \<Rightarrow> int list \<Rightarrow> ('s, int) proc" where
  "AddRoleResourceRelations a roleID resIDs =
     andthen (sdk_post a (RRoleResources @ ''/'' @ itoa roleID) (js_show_ids (sk_json a) resIDs)) (\<lambda>data.
     lift_sum (js_int (sk_json a) data))"

definition GetAllRoleResourceRelatedInfo :: "'s sdk \<Rightarrow> ('s, RelatedInfo list) proc" where
  "GetAllRoleResourceRelatedInfo a =
     andthen (sdk_get a (RRoleResources @ ''?client_id='' @ itoa (ac_ClientID (sk_config a)))) (\<lambda>data.
     lift_sum (js_related (sk_json a) data))"

subsection \<open>Groups and users\<close>

definition GetAllGroups :: "'s sdk \<Rightarrow> ('s, Group list) proc" where
  "GetAllGroups a = andthen (sdk_get a RGroup) (\<lambda>res. lift_sum (js_groups (sk_json a) res))"

definition SearchGroups :: "'s sdk \<Rightarrow> string \<Rightarrow> ('s, Group list) proc" where
  "SearchGroups a name = andthen (sdk_get a (RGroup @ ''?likes='' @ name)) (\<lambda>res. lift_sum (js_groups (sk_json a) res))"

definition GetGroupsByUserID :: "'s sdk \<Rightarrow> string \<Rightarrow> ('s, Group list) proc" where
  "GetGroupsByUserID a userID =
     andthen (sdk_get a (RGroupUser @ ''/group?user='' @ userID)) (\<lambda>res. lift_sum (js_groups (sk_json a) res))"

definition GetUsersByGroup :: "'s sdk \<Rightarrow> string \<Rightarrow> ('s, User list) proc" where
  "GetUsersByGroup a name =
     andthen (sdk_get a (RGroupUser @ ''/user?group='' @ name)) (\<lambda>res. lift_sum (js_users (sk_json a) res))"

definition SearchUsers :: "'s sdk \<Rightarrow> string \<Rightarrow> ('s, User list) proc" where
  "SearchUsers a i =
     andthen (sdk_get a (''users?id='' @ i @ ''&page_size=200&p=1'')) (\<lambda>res. lift_sum (js_user_page (sk_json a) res))"

subsection \<open>Login with a secret\<close>

definition getURL :: "'s sdk \<Rightarrow> string \<Rightarrow> string" where
  "getURL a path = ac_APIHost (sk_config a) @ path"

definition generateOauthToken :: "Token \<Rightarrow> string" where
  "generateOauthToken token = tk_TokenType token @ '' '' @ tk_AccessToken token"

definition doRequest2 :: "'s sdk \<Rightarrow> http_request \<Rightarrow> ('s, string) proc" where
  "doRequest2 a req =
     attempt (sk_do a req) (\<lambda>err. fail (Wrap ''Do request error: '' err)) (\<lambda>resp.
     if hp_StatusCode resp \<noteq> StatusOK
     then fail (Errorf (''Response Status Not Right: '' @ itoa (hp_StatusCode resp)))
     else lift_sum (hp_Body resp))"

text \<open>The request of a call: the path, a question mark, the encoded parameters.\<close>

definition request_url :: "'s sdk \<Rightarrow> string \<Rightarrow> string gomap \<Rightarrow> string" where
  "request_url a path params = getURL a (path @ ''?'' @ url_encode (fold (\<lambda>(k, v). url_add k v) params []))"

definition sdk_request :: "'s sdk \<Rightarrow> string \<Rightarrow> string \<Rightarrow> string \<Rightarrow> string gomap \<Rightarrow> ('s, string) proc" where
  "sdk_request a method path token params =
     (let url = request_url a path params
      in case sk_new_request a url of
           Some err \<Rightarrow> fail err
         | None \<Rightarrow> attempt (doRequest2 a \<lparr>hq_Method = method, hq_URL = url, hq_Authorization = token, hq_Body = None\<rparr>)
                    (\<lambda>err. fail (Wrap ''Do request error: '' err)) ret)"

definition getUserByToken :: "'s sdk \<Rightarrow> Token \<Rightarrow> ('s, User) proc" where
  "getUserByToken a token =
     attempt (sdk_request a ''GET'' ''/api/user'' (generateOauthToken token) [])
       (\<lambda>err. fail (Wrap ''Do Request Err: '' err)) (\<lambda>data.
     case js_body (sk_json a) data of
       Inl err \<Rightarrow> fail (Wrap ''to Json Failed! error: '' err)
     | Inr res \<Rightarrow>
         if rb_ResCode res \<noteq> 0
         then fail (Errorf (''code wrong: code '' @ itoa (rb_ResCode res) @ '', msg: '' @ rb_ResMsg res))
         else let userJSON = (case rb_Data res of None \<Rightarrow> ''null'' | Some data \<Rightarrow> data)
              in case jw_user (sk_jwt a) userJSON of
                   Inl err \<Rightarrow> fail (Errorf (''res data error : '' @ userJSON))
                 | Inr user \<Rightarrow> ret user)"

definition token_params :: "'s sdk \<Rightarrow> string \<Rightarrow> string gomap" where
  "token_params a tokenString =
     [(''client_id'', itoa (ac_ClientID (sk_config a))), (''grant_type'', ''password''), (''scope'', ''all:all''),
      (''username'', tokenString)]"

definition queryTokenFromOauth2BySecret :: "'s sdk \<Rightarrow> string \<Rightarrow> string \<Rightarrow> ('s, Token) proc" where
  "queryTokenFromOauth2BySecret a username secret = (\<lambda>s0. case sk_stamp a s0 of (stamp, s1) \<Rightarrow>
     (case jw_sign (sk_jwt a) [(''time'', Claim_text (itoa (fst stamp))), (''username'', Claim_text username),
          (''nonce'', Claim_text (itoa (snd stamp)))] secret of
        Inl err \<Rightarrow> fail err
      | Inr tokenString \<Rightarrow>
          andthen (client_token a) (\<lambda>jwt.
          attempt (sdk_request a ''POST'' ''/oauth2/token?'' jwt (token_params a tokenString))
            (\<lambda>err. fail (Wrap ''Do request error: '' err)) (\<lambda>data.
          case js_token (sk_json a) data of
            Inl err \<Rightarrow> fail (Wrap ''to Json Failed! error: '' err)
          | Inr token \<Rightarrow>
              if tk_Error token \<noteq> [] then fail (Errorf (tk_Error token @ '':'' @ tk_ErrorDescription token))
              else ret token))) s1)"

definition LoginBySecret :: "'s sdk \<Rightarrow> string \<Rightarrow> string \<Rightarrow> ('s, User) proc" where
  "LoginBySecret a username secret =
     attempt (queryTokenFromOauth2BySecret a username secret)
       (\<lambda>err. fail (Wrap ''Query Token Failed! '' err)) (\<lambda>token.
     attempt (getUserByToken a token)
       (\<lambda>err. fail (Wrap ''Get user by Token Failed! '' err)) (\<lambda>user. ret (user\<lparr>us_Token := token\<rparr>)))"

end
