(* ===== verification/Auth_Manager.thy ===== *)
theory Auth_Manager
  imports Auth_Sdk
begin

section \<open>Authorisation of requests (pkg/manager/auth/auth_manager.go)\<close>

text \<open>
  The filter in front of every handler: who makes the request, by a token or a secret, and whether the user's
  resources in the auth system include the route. The same manager uploads the roles and the resources of the
  registered routes. The services of the container are a list of routes (method, path, documentation) each;
  \<open>am_now\<close> reads the time.
\<close>

definition headerAuthorization :: string where "headerAuthorization = ''Authorization''"
definition headerMayaToken :: string where "headerMayaToken = ''Maya-Token''"
definition roleNames :: string where "roleNames = ''editor,reader,custom''"

record auth_resource =
  rs_name :: string
  rs_desc :: string
  rs_value :: string

record 's auth_manager =
  am_container :: "(string \<times> string \<times> string) list list"
  am_tokenManager :: jwtTokenManager
  am_authSDK :: "'s sdk"
  am_authSkip :: bool
  am_excludes :: "string list"
  am_roleResources :: "auth_resource list gomap"
  am_now :: "'s \<Rightarrow> int"

definition NewAuthManager ::
  "('s \<Rightarrow> int) \<Rightarrow> (string \<times> string \<times> string) list list \<Rightarrow> jwtTokenManager \<Rightarrow> 's sdk \<Rightarrow> bool \<Rightarrow> 's auth_manager" where
  "NewAuthManager now container tokenMgr sdk authSkip =
     \<lparr>am_container = container, am_tokenManager = tokenMgr, am_authSDK = sdk, am_authSkip = authSkip,
      am_excludes = [], am_roleResources = [], am_now = now\<rparr>"

subsection \<open>The filter\<close>

definition Authorized :: "'s auth_manager \<Rightarrow> string \<Rightarrow> ('s, User) proc" where
  "Authorized am jwtToken = (\<lambda>s.
     lift_sum (Decrypt (sk_jwt (am_authSDK am)) (am_now am s) (am_tokenManager am) jwtToken) s)"

text \<open>Every value of the request is allowed for its key; the first allowed value may be a star.\<close>

definition values_allowed :: "url_values \<Rightarrow> url_values \<Rightarrow> bool" where
  "values_allowed valuesAllowed valuesRequest \<longleftrightarrow>
     list_all (\<lambda>(k, vs). hd vs = ''*''
       \<or> list_all (\<lambda>v. v \<in> set vs) (case map_of valuesRequest k of None \<Rightarrow> [] | Some xs \<Rightarrow> xs)) valuesAllowed"

fun resources_allow :: "ResourceInfo \<Rightarrow> APIResource list \<Rightarrow> bool" where
  "resources_allow resource [] \<longleftrightarrow> False"
| "resources_allow resource (resourceAllowed # rest) \<longleftrightarrow>
     (if ar_Name resourceAllowed = ri_Name resource
      then if ar_Data resourceAllowed = ''*'' then True
           else (case (ParseQuery (ar_Data resourceAllowed), ParseQuery (ri_Data resource)) of
                   (Inr valuesAllowed, Inr valuesRequest) \<Rightarrow>
                     if values_allowed valuesAllowed valuesRequest then resources_allow resource rest else False
                 | _ \<Rightarrow> False)
      else resources_allow resource rest)"

definition Authenticated :: "'s auth_manager \<Rightarrow> User \<Rightarrow> ResourceInfo \<Rightarrow> ('s, bool) proc" where
  "Authenticated am user resource =
     attempt (GetUserResources (am_authSDK am) (us_ID user)) (\<lambda>_. ret False)
       (\<lambda>resourcesAllowed. ret (resources_allow resource resourcesAllowed))"

text \<open>The route without its last slash is one of the excluded paths.\<close>

definition isExcluded :: "'s auth_manager \<Rightarrow> request \<Rightarrow> bool" where
  "isExcluded am req \<longleftrightarrow> trim_suffix (hr_route req) ''/'' \<in> set (am_excludes am)"

definition Excluded :: "string list \<Rightarrow> 's auth_manager \<Rightarrow> 's auth_manager" where
  "Excluded paths am = am\<lparr>am_excludes := am_excludes am @ paths\<rparr>"

definition parseReqResource :: "request \<Rightarrow> ResourceInfo" where
  "parseReqResource req =
     \<lparr>ri_Name = hr_method req @ '':'' @ trim_suffix (hr_route req) ''/'',
      ri_Data = url_encode (fold (\<lambda>(k, v). url_add k v) (hr_path req) []), ri_Description = []\<rparr>"

definition header :: "request \<Rightarrow> string \<Rightarrow> string" where
  "header req key = map_get (hr_headers req) key"

definition refuse :: "'a entity \<Rightarrow> goerr \<Rightarrow> ('s, 'a entity) proc" where
  "refuse kind err = ret (NewRespErr kind err)"

text \<open>The user of the request, by its token or by name and secret, handed to \<open>k\<close>.\<close>

definition with_user :: "'s auth_manager \<Rightarrow> request \<Rightarrow> (User \<Rightarrow> ('s, 'a entity) proc) \<Rightarrow> ('s, 'a entity) proc" where
  "with_user am req k =
     (let jwt = header req headerAuthorization; mayaToken = header req headerMayaToken
      in if jwt = [] \<and> mayaToken = [] then refuse ErrUnauthorized (Errorf ''auth token not present'')
         else if jwt \<noteq> []
         then attempt (Authorized am jwt) (\<lambda>err. refuse ErrUnauthorized (Wrap ''jwt token invalid: '' err)) k
         else case b64_decode mayaToken of
             Inl err \<Rightarrow> refuse ErrUnauthorized (Wrap ''decode Maya-Token failed: '' err)
           | Inr author \<Rightarrow>
               (case split_on CHR '':'' author of
                  [name, secret] \<Rightarrow>
                    attempt (LoginBySecret (am_authSDK am) name secret)
                      (\<lambda>err. refuse ErrUnauthorized (Wrap ''login to auth failed: '' err)) k
                | _ \<Rightarrow> refuse ErrUnauthorized (Errorf ''Maya-Token invalid'')))"

definition AuthFilter ::
  "'s auth_manager \<Rightarrow> request \<Rightarrow> (request \<Rightarrow> ('s, 'a entity) proc) \<Rightarrow> ('s, 'a entity) proc" where
  "AuthFilter am req chain =
     (if isExcluded am req \<or> am_authSkip am then chain req
      else with_user am req (\<lambda>user.
        let resource = parseReqResource req
        in andthen (Authenticated am user resource) (\<lambda>ok.
           if \<not> ok then refuse ErrReqForbidden (Errorf (''no authority to access: '' @ ri_Name resource))
           else if us_ID user = [] then refuse ErrUnauthorized (Errorf ''user info is empty'')
           else chain (req\<lparr>hr_user := Some user\<rparr>))))"

subsection \<open>Roles and resources\<close>

fun containsRole :: "Role list \<Rightarrow> string \<Rightarrow> int option" where
  "containsRole [] name = None"
| "containsRole (r # rs) name = (if ro_Name r = name then Some (ro_ID r) else containsRole rs name)"

fun getRootRole :: "Role list \<Rightarrow> Role option" where
  "getRootRole [] = None"
| "getRootRole (r # rs) = (if ro_ParentID r = -1 then Some r else getRootRole rs)"

fun containsResource :: "APIResource list \<Rightarrow> string \<Rightarrow> string \<Rightarrow> int option" where
  "containsResource [] name data = None"
| "containsResource (r # rs) name data =
     (if ar_Name r = name \<and> ar_Data r = data then Some (ar_ID r) else containsResource rs name data)"

definition containsRoleResRel :: "Role list \<Rightarrow> int \<Rightarrow> int \<Rightarrow> bool" where
  "containsRoleResRel roles roleID resID \<longleftrightarrow>
     list_ex (\<lambda>r. ro_ID r = roleID
       \<and> list_ex (\<lambda>res. rr_RoleID res = roleID \<and> ar_ID (rr_Resource res) = resID) (ro_Resources r)) roles"

definition buildResources :: "'s auth_manager \<Rightarrow> auth_resource list" where
  "buildResources am = concat (map (map (\<lambda>(method, path, doc).
     \<lparr>rs_name = method @ '':'' @ trim_suffix path ''/'', rs_desc = doc, rs_value = ''*''\<rparr>)) (am_container am))"

definition append_resource :: "string \<Rightarrow> auth_resource \<Rightarrow> 's auth_manager \<Rightarrow> 's auth_manager" where
  "append_resource role r am = am\<lparr>am_roleResources := map_set role
     ((case map_of (am_roleResources am) role of None \<Rightarrow> [] | Some rs \<Rightarrow> rs) @ [r]) (am_roleResources am)\<rparr>"

text \<open>A resource goes to the editors or the readers by its method; of other methods an error is logged.\<close>

definition addResource :: "auth_resource \<Rightarrow> 's auth_manager \<Rightarrow> goerr option \<times> 's auth_manager" where
  "addResource r am =
     (let method = hd (split_on CHR '':'' (rs_name r))
      in if method = ''POST'' \<or> method = ''PUT'' \<or> method = ''DELETE'' then (None, append_resource ''editor'' r am)
         else if method = ''GET'' then (None, append_resource ''reader'' r am)
         else (Some (Errorf (''resource method unsupport: '' @ method)), am))"

definition buildRoleResources :: "'s auth_manager \<Rightarrow> 's auth_manager" where
  "buildRoleResources am = fold (\<lambda>r am. snd (addResource r am)) (buildResources am) am"

text \<open>
  The IDs of the roles; a role that is missing is added below the root role. Without a root role the
  code dereferences nil.
\<close>

fun upload_roles :: "'s auth_manager \<Rightarrow> Role list \<Rightarrow> string list \<Rightarrow> int gomap \<Rightarrow> ('s, int gomap) proc" where
  "upload_roles am roles [] ids = ret ids"
| "upload_roles am roles (roleName # names) ids =
     andthen (case containsRole roles roleName of
                Some roleID \<Rightarrow> ret roleID
              | None \<Rightarrow> (case getRootRole roles of
                    None \<Rightarrow> panic
                  | Some rootRole \<Rightarrow> AddRole (am_authSDK am) roleName (ro_ID rootRole) (roleName @ '' role''))) (\<lambda>roleID.
     upload_roles am roles names (map_set roleName roleID ids))"

definition role_id :: "int gomap \<Rightarrow> string \<Rightarrow> int" where
  "role_id ids name = (case map_of ids name of None \<Rightarrow> 0 | Some i \<Rightarrow> i)"

text \<open>What of a role's resources is missing in the auth system, and which IDs are not yet related to it.\<close>

fun missing_resources :: "APIResource list \<Rightarrow> auth_resource list \<Rightarrow> ResourceInfo list" where
  "missing_resources resources [] = []"
| "missing_resources resources (r # rs) =
     (case containsResource resources (rs_name r) (rs_value r) of
        None \<Rightarrow> \<lparr>ri_Name = rs_name r, ri_Data = rs_value r, ri_Description = rs_desc r\<rparr> # missing_resources resources rs
      | Some resID \<Rightarrow> missing_resources resources rs)"

fun unrelated_ids :: "Role list \<Rightarrow> int \<Rightarrow> APIResource list \<Rightarrow> auth_resource list \<Rightarrow> int list" where
  "unrelated_ids roles roleID resources [] = []"
| "unrelated_ids roles roleID resources (r # rs) =
     (case containsResource resources (rs_name r) (rs_value r) of
        Some resID \<Rightarrow> if \<not> containsRoleResRel roles roleID resID then resID # unrelated_ids roles roleID resources rs
                      else unrelated_ids roles roleID resources rs
      | None \<Rightarrow> unrelated_ids roles roleID resources rs)"

fun upload_relations ::
  "'s auth_manager \<Rightarrow> Role list \<Rightarrow> APIResource list \<Rightarrow> int gomap \<Rightarrow> auth_resource list gomap \<Rightarrow> ('s, unit) proc" where
  "upload_relations am roles resources ids [] = ret ()"
| "upload_relations am roles resources ids ((roleName, rs) # rest) =
     andthen (AddResource (am_authSDK am) (missing_resources resources rs)) (\<lambda>new.
     andthen (AddRoleResourceRelations (am_authSDK am) (role_id ids roleName)
       (unrelated_ids roles (role_id ids roleName) resources rs @ new)) (\<lambda>_.
     upload_relations am roles resources ids rest))"

definition upload_all :: "'s auth_manager \<Rightarrow> ('s, unit) proc" where
  "upload_all am =
     andthen (GetAllRole (am_authSDK am) True False False) (\<lambda>roles.
     andthen (GetAllResources (am_authSDK am)) (\<lambda>resources.
     andthen (upload_roles am roles (split_on CHR '','' roleNames) []) (\<lambda>ids.
     upload_relations am roles resources ids (am_roleResources am))))"

text \<open>An error is logged; the manager keeps the resources it has built.\<close>

definition UploadAuthRolesAndResources :: "'s auth_manager \<Rightarrow> ('s, 's auth_manager) proc" where
  "UploadAuthRolesAndResources am0 =
     (let am = buildRoleResources am0 in attempt (upload_all am) (\<lambda>_. ret am) (\<lambda>_. ret am))"

end
