(* ===== verification/Paging.thy ===== *)
theory Paging
  imports Web_Api
begin

section \<open>Pagination (pkg/manager/util/pagination)\<close>

text \<open>
  The paginator of a request: the number of items, the page size, and the fields that remember what
  was computed (\<open>0\<close> or \<open>nil\<close>: not yet). \<open>pg_form\<close> are the form values of the request. The page count is computed in
  the code as a float64 and rounded up; it is exact for up to \<open>2 ^ 53\<close> items.
\<close>

record Paginator =
  pg_form :: "string gomap"
  pg_PerPageNums :: int
  pg_MaxPages :: int
  pg_nums :: int
  pg_pageRange :: "int list option"
  pg_pageNums :: int
  pg_page :: int

text \<open>The integers that \<open>SetNums\<close> takes; any other value counts as 0.\<close>

datatype numeric = Signed int | Unsigned u64 | Not_numeric

definition toInt64 :: "numeric \<Rightarrow> int \<times> goerr option" where
  "toInt64 v = (case v of
     Signed i \<Rightarrow> (i, None) | Unsigned w \<Rightarrow> (wrap64 (uint w), None)
   | Not_numeric \<Rightarrow> (0, Some (Errorf ''ToInt64 need numeric'')))"

definition SetNums :: "numeric \<Rightarrow> Paginator \<Rightarrow> Paginator" where
  "SetNums n p = p\<lparr>pg_nums := fst (toInt64 n)\<rparr>"

definition NewPaginator :: "string gomap \<Rightarrow> int \<Rightarrow> numeric \<Rightarrow> Paginator" where
  "NewPaginator form per nums = SetNums nums
     \<lparr>pg_form = form, pg_PerPageNums = (if per \<le> 0 then 10 else per), pg_MaxPages = 0, pg_nums = 0,
      pg_pageRange = None, pg_pageNums = 0, pg_page = 0\<rparr>"

text \<open>\<open>math.Ceil(a / b)\<close>.\<close>

definition ceil_div :: "int \<Rightarrow> int \<Rightarrow> int" where
  "ceil_div a b = - ((- a) div b)"

definition PageNums :: "Paginator \<Rightarrow> int \<times> Paginator" where
  "PageNums p =
     (if pg_pageNums p \<noteq> 0 then (pg_pageNums p, p)
      else let pageNums = ceil_div (pg_nums p) (pg_PerPageNums p);
               pageNums = (if 0 < pg_MaxPages p then min pageNums (pg_MaxPages p) else pageNums)
           in (pageNums, p\<lparr>pg_pageNums := pageNums\<rparr>))"

definition Nums :: "Paginator \<Rightarrow> int" where
  "Nums p = pg_nums p"

definition Page :: "Paginator \<Rightarrow> int \<times> Paginator" where
  "Page p =
     (if pg_page p \<noteq> 0 then (pg_page p, p)
      else let page = fst (atoi (map_get (pg_form p) ''current_page''));
               (n, p1) = PageNums p;
               page = (if n < page then n else page);
               page = (if page \<le> 0 then 1 else page)
           in (page, p1\<lparr>pg_page := page\<rparr>))"

definition Pages :: "Paginator \<Rightarrow> int list option \<times> Paginator" where
  "Pages p =
     (if pg_pageRange p = None \<and> 0 < pg_nums p
      then let (pageNums, p1) = PageNums p;
               (page, p2) = Page p1;
               pages = (if pageNums - 4 \<le> page \<and> 9 < pageNums then map (\<lambda>i. pageNums - 9 + 1 + int i) [0..<9]
                        else if 5 \<le> page \<and> 9 < pageNums
                        then map (\<lambda>i. page - 5 + 1 + int i) [0..<nat (min 9 (page + 4 + 1))]
                        else map (\<lambda>i. int i + 1) [0..<nat (min 9 pageNums)])
           in (Some pages, p2\<lparr>pg_pageRange := Some pages\<rparr>)
      else (pg_pageRange p, p))"

definition HasPrev :: "Paginator \<Rightarrow> bool" where "HasPrev p \<longleftrightarrow> 1 < fst (Page p)"
definition HasNext :: "Paginator \<Rightarrow> bool" where "HasNext p \<longleftrightarrow> fst (Page p) < fst (PageNums (snd (Page p)))"
definition IsActive :: "Paginator \<Rightarrow> int \<Rightarrow> bool" where "IsActive p page \<longleftrightarrow> fst (Page p) = page"
definition HasPages :: "Paginator \<Rightarrow> bool" where "HasPages p \<longleftrightarrow> 1 < fst (PageNums p)"

definition Offset :: "Paginator \<Rightarrow> int \<times> Paginator" where
  "Offset p = (case Page p of (page, p1) \<Rightarrow> (wrap64 ((page - 1) * pg_PerPageNums p), p1))"

text \<open>The links: \<open>show_url q\<close> is the URL of the request with the query \<open>q\<close>, which starts as \<open>values\<close>.\<close>

definition PageLink :: "(string gomap \<Rightarrow> string) \<Rightarrow> string gomap \<Rightarrow> int \<Rightarrow> string" where
  "PageLink show_url values page =
     show_url (if page = 1 then map_del ''p'' values else map_set ''p'' (itoa page) values)"

definition PageLinkPrev :: "(string gomap \<Rightarrow> string) \<Rightarrow> string gomap \<Rightarrow> Paginator \<Rightarrow> string" where
  "PageLinkPrev show_url values p = (if HasPrev p then PageLink show_url values (fst (Page p) - 1) else [])"

definition PageLinkNext :: "(string gomap \<Rightarrow> string) \<Rightarrow> string gomap \<Rightarrow> Paginator \<Rightarrow> string" where
  "PageLinkNext show_url values p = (if HasNext p then PageLink show_url values (fst (Page p) + 1) else [])"

definition PageLinkFirst :: "(string gomap \<Rightarrow> string) \<Rightarrow> string gomap \<Rightarrow> string" where
  "PageLinkFirst show_url values = PageLink show_url values 1"

definition PageLinkLast :: "(string gomap \<Rightarrow> string) \<Rightarrow> string gomap \<Rightarrow> Paginator \<Rightarrow> string" where
  "PageLinkLast show_url values p = PageLink show_url values (fst (PageNums p))"

definition SetPaginator :: "request \<Rightarrow> int \<Rightarrow> int \<Rightarrow> Paginator" where
  "SetPaginator req per nums = NewPaginator (hr_form req) per (Signed nums)"

text \<open>The page of a response (pkg/apis/base.go).\<close>

record 'r page_data =
  pd_PageSize :: int
  pd_TotalSize :: int
  pd_TotalPages :: int
  pd_CurrentPage :: int
  pd_Data :: "'r list"

definition NewPage :: "Paginator \<Rightarrow> 'r list \<Rightarrow> 'r page_data" where
  "NewPage p rows = \<lparr>pd_PageSize = pg_PerPageNums p, pd_TotalSize = Nums p,
     pd_TotalPages = fst (PageNums p), pd_CurrentPage = fst (Page (snd (PageNums p))), pd_Data = rows\<rparr>"

subsection \<open>The page count and the page\<close>

lemma ceil_div_bounds:
  assumes "0 < b"
  shows "a \<le> ceil_div a b * b" "ceil_div a b * b < a + b"
proof -
  have "ceil_div a b * b = a + (- a) mod b"
    by (simp add: ceil_div_def minus_div_mult_eq_mod [symmetric] algebra_simps)
  then show "a \<le> ceil_div a b * b" "ceil_div a b * b < a + b"
    using pos_mod_sign [OF assms, of "- a"] pos_mod_bound [OF assms, of "- a"] by simp_all
qed

lemma ceil_div_pos:
  assumes "0 < b" and "0 \<le> a"
  shows "0 \<le> ceil_div a b" "0 < a \<Longrightarrow> 1 \<le> ceil_div a b"
proof -
  have "(- a) div b \<le> 0" using assms zdiv_mono1 [of "- a" 0 b] by simp
  then show "0 \<le> ceil_div a b" by (simp add: ceil_div_def)
  assume "0 < a"
  with assms have "(- a) div b < 0" by (simp add: div_neg_pos_less0)
  then show "1 \<le> ceil_div a b" by (simp add: ceil_div_def)
qed

text \<open>A paginator as the handlers make it, with the page the client asks for.\<close>

definition fresh_pager :: "Paginator \<Rightarrow> bool" where
  "fresh_pager p \<longleftrightarrow> pg_MaxPages p = 0 \<and> pg_pageRange p = None \<and> pg_pageNums p = 0 \<and> pg_page p = 0
     \<and> 0 < pg_PerPageNums p \<and> 0 \<le> pg_nums p"

definition shown_page :: "Paginator \<Rightarrow> int" where
  "shown_page p = max 1 (min (fst (atoi (map_get (pg_form p) ''current_page''))) (ceil_div (pg_nums p) (pg_PerPageNums p)))"

lemma PageNums_fresh:
  "fresh_pager p \<Longrightarrow> PageNums p = (ceil_div (pg_nums p) (pg_PerPageNums p), p\<lparr>pg_pageNums := ceil_div (pg_nums p) (pg_PerPageNums p)\<rparr>)"
  by (simp add: fresh_pager_def PageNums_def Let_def)

lemma Page_fresh:
  "fresh_pager p \<Longrightarrow> Page p = (shown_page p,
     p\<lparr>pg_pageNums := ceil_div (pg_nums p) (pg_PerPageNums p), pg_page := shown_page p\<rparr>)"
  by (auto simp: Page_def Let_def PageNums_fresh shown_page_def fresh_pager_def min_def max_def)

lemma PageNums_counted:
  "fresh_pager p \<Longrightarrow> PageNums (p\<lparr>pg_pageNums := ceil_div (pg_nums p) (pg_PerPageNums p)\<rparr>)
     = (ceil_div (pg_nums p) (pg_PerPageNums p), p\<lparr>pg_pageNums := ceil_div (pg_nums p) (pg_PerPageNums p)\<rparr>)"
  by (simp add: fresh_pager_def PageNums_def Let_def)

lemma Page_counted:
  "fresh_pager p \<Longrightarrow> Page (p\<lparr>pg_pageNums := ceil_div (pg_nums p) (pg_PerPageNums p)\<rparr>) = (shown_page p,
     p\<lparr>pg_pageNums := ceil_div (pg_nums p) (pg_PerPageNums p), pg_page := shown_page p\<rparr>)"
  using PageNums_counted [of p]
  by (auto simp: Page_def Let_def shown_page_def fresh_pager_def min_def max_def)

lemma fresh_NewPaginator: "0 \<le> n \<Longrightarrow> fresh_pager (NewPaginator form per (Signed n))"
  by (simp add: fresh_pager_def NewPaginator_def SetNums_def toInt64_def)

lemma NewPaginator_simps [simp]:
  "pg_form (NewPaginator form per n) = form"
  "pg_PerPageNums (NewPaginator form per n) = (if per \<le> 0 then 10 else per)"
  "pg_nums (NewPaginator form per n) = fst (toInt64 n)"
  by (simp_all add: NewPaginator_def SetNums_def)

lemma shown_page_1: "1 \<le> shown_page p"
  by (simp add: shown_page_def)

text \<open>The offset of the shown page lies before the last item.\<close>

lemma Offset_fresh:
  assumes "fresh_pager p" and "pg_nums p < 2 ^ 63"
  shows "fst (Offset p) = (shown_page p - 1) * pg_PerPageNums p"
    "0 \<le> fst (Offset p)" "fst (Offset p) < max 1 (pg_nums p)"
proof -
  let ?b = "pg_PerPageNums p" and ?n = "pg_nums p"
  have b: "0 < ?b" "0 \<le> ?n" using assms(1) by (simp_all add: fresh_pager_def)
  let ?o = "(shown_page p - 1) * ?b"
  have low: "0 \<le> ?o" using shown_page_1 [of p] b by simp
  have high: "?o < max 1 ?n"
  proof (cases "shown_page p = 1")
    case False
    then have "shown_page p \<le> ceil_div ?n ?b" unfolding shown_page_def by linarith
    then have "shown_page p * ?b \<le> ceil_div ?n ?b * ?b" using b by (simp add: mult_right_mono)
    with ceil_div_bounds(2) [OF b(1), of ?n] have "shown_page p * ?b < ?n + ?b" by linarith
    then show ?thesis by (simp add: algebra_simps)
  qed simp
  with low assms(2) have "int64 ?o" by (simp add: int64_def max_def split: if_splits)
  then have o: "fst (Offset p) = ?o" by (simp add: Offset_def Page_fresh [OF assms(1)] wrap64_id)
  then show "fst (Offset p) = ?o" .
  from o low high show "0 \<le> fst (Offset p)" "fst (Offset p) < max 1 ?n" by simp_all
qed

subsection \<open>All pages together\<close>

lemma concat_chunks: "concat (map (\<lambda>k. take b (drop (k * b) xs)) [0..<n]) = take (n * b) xs"
proof (induction n)
  case (Suc n)
  have "take (Suc n * b) xs = take (n * b) xs @ take b (drop (n * b) xs)"
    by (simp add: take_add [symmetric] add.commute)
  with Suc show ?case by simp
qed simp

text \<open>The page that a client sees who asks for page \<open>k\<close> of \<open>rows\<close>.\<close>

definition page_of :: "int \<Rightarrow> nat \<Rightarrow> 'r list \<Rightarrow> 'r list" where
  "page_of per k rows = take (nat per) (drop (nat (fst (Offset
     (NewPaginator [(''current_page'', nat_str k)] per (Signed (int (length rows))))))) rows)"

definition page_count :: "int \<Rightarrow> 'r list \<Rightarrow> nat" where
  "page_count per rows = nat (fst (PageNums (NewPaginator [] per (Signed (int (length rows))))))"

lemma page_of_chunk:
  assumes "0 < per" and "length rows < 2 ^ 63" and "k < page_count per rows"
  shows "page_of per (Suc k) rows = take (nat per) (drop (k * nat per) rows)"
proof -
  let ?p = "NewPaginator [(''current_page'', nat_str (Suc k))] per (Signed (int (length rows)))"
  have fresh: "fresh_pager ?p" "fresh_pager (NewPaginator [] per (Signed (int (length rows))))"
    by (simp_all add: fresh_NewPaginator)
  have n: "page_count per rows = nat (ceil_div (int (length rows)) per)"
    using assms(1) by (simp add: page_count_def PageNums_fresh [OF fresh(2)] toInt64_def)
  have "ceil_div (int (length rows)) per * per < int (length rows) + per"
    by (rule ceil_div_bounds(2) [OF assms(1)])
  moreover have le: "int (Suc k) \<le> ceil_div (int (length rows)) per" using assms(3) n by simp
  then have "int (Suc k) * per \<le> ceil_div (int (length rows)) per * per" using assms(1) by (intro mult_right_mono) simp_all
  moreover have "int (Suc k) * 1 \<le> int (Suc k) * per" using assms(1) by (intro mult_left_mono) simp_all
  moreover have "int k * 1 \<le> int k * per" using assms(1) by (intro mult_left_mono) simp_all
  ultimately have "int k < int (length rows)" by (simp add: algebra_simps)
  then have "Suc k < 2 ^ 63 \<or> Suc k = 2 ^ 63" using assms(2) by linarith
  moreover have "int k * per < int (length rows)"
    using \<open>ceil_div _ _ * per < _\<close> \<open>int (Suc k) * per \<le> _\<close> by (simp add: algebra_simps)
  moreover have "Suc k < 2 ^ 63" using \<open>int k < int (length rows)\<close> assms(2) by linarith
  ultimately have "atoi (nat_str (Suc k)) = (int (Suc k), None)" by (intro atoi_nat_str) simp
  then have page: "shown_page ?p = int (Suc k)"
    using le assms(1) by (simp add: shown_page_def map_get_def toInt64_def)
  have "pg_nums ?p < 2 ^ 63" using assms(2) by (simp add: toInt64_def)
  from Offset_fresh(1) [OF fresh(1) this] have "fst (Offset ?p) = int k * per"
    using assms(1) page by (simp add: toInt64_def)
  then show ?thesis using assms(1) by (simp add: page_of_def nat_mult_distrib)
qed

lemma pages_cover:
  assumes "0 < per" and "length rows < 2 ^ 63"
  shows "concat (map (\<lambda>k. page_of per (Suc k) rows) [0..<page_count per rows]) = rows"
proof -
  have chunks: "map (\<lambda>k. page_of per (Suc k) rows) [0..<page_count per rows]
      = map (\<lambda>k. take (nat per) (drop (k * nat per) rows)) [0..<page_count per rows]"
    using page_of_chunk [OF assms] by (intro map_cong refl) simp
  have "length rows \<le> page_count per rows * nat per"
  proof -
    have "page_count per rows = nat (ceil_div (int (length rows)) per)"
      using assms(1) fresh_NewPaginator [of "int (length rows)" "[]" per]
      by (simp add: page_count_def PageNums_fresh toInt64_def)
    moreover have "0 \<le> ceil_div (int (length rows)) per" using ceil_div_pos(1) [OF assms(1)] by simp
    moreover have "nat (int (length rows)) \<le> nat (ceil_div (int (length rows)) per * per)"
      by (intro nat_mono ceil_div_bounds(1) assms(1))
    ultimately show ?thesis by (simp add: nat_mult_distrib)
  qed
  then show ?thesis unfolding chunks by (simp add: concat_chunks)
qed

subsection \<open>The window of page numbers\<close>

lemma map_upt_shift: "map (\<lambda>i. a + int i) [0..<n] = map (\<lambda>k. k) [a..a + int n - 1]"
proof (induction n)
  case (Suc n)
  have "[a..a + int (Suc n) - 1] = [a..a + int n - 1] @ [a + int n]"
    using upto_rec2 [of a "a + int n"] by simp
  with Suc show ?case by simp
qed simp



end
