(* ===== verification/Listings.thy ===== *)
theory Listings
  imports Mem_DB Paging "HOL-Library.Multiset"
begin

section \<open>Listings of the manager (the \<open>List\<close> and \<open>Count\<close> operations)\<close>

text \<open>
  A listing is a condition and orders in SQL, an offset and a limit. The database that reads the text is a
  parameter, per table: \<open>q_count\<close> is \<open>Where(query).Count\<close>, \<open>q_list\<close> is
  \<open>Where(query).Offset(offset).Limit(limit)\<close> with the orders and \<open>Find\<close>. The locale
  \<open>listing\<close> states what a listing relies on.
\<close>

record ('d, 'r) lister =
  q_count :: "string \<Rightarrow> ('d, int) proc"
  q_list :: "string \<Rightarrow> string list \<Rightarrow> int \<Rightarrow> int \<Rightarrow> ('d, 'r list) proc"

record 'd listers =
  ls_info :: "('d, ConfigInfo) lister"
  ls_version :: "('d, ConfigVersion) lister"
  ls_release :: "('d, Release) lister"
  ls_instance :: "('d, ConfigInstance) lister"
  ls_cns :: "('d, ConfigNamespace) lister"
  ls_template :: "('d, Template) lister"
  ls_tversion :: "('d, TemplateVersion) lister"
  ls_tns :: "('d, TemplateNamespace) lister"
  ls_cluster :: "('d, Cluster) lister"

subsection \<open>The models\<close>

definition ListConfigInfo :: "'d listers \<Rightarrow> string \<Rightarrow> string list \<Rightarrow> int \<Rightarrow> int \<Rightarrow> ('d, ConfigInfo list) proc" where
  "ListConfigInfo L query orders offset lim = q_list (ls_info L) query orders offset lim"

definition CountConfigInfos :: "'d listers \<Rightarrow> string \<Rightarrow> ('d, int) proc" where
  "CountConfigInfos L query = q_count (ls_info L) query"

definition ListConfigVersion :: "'d listers \<Rightarrow> string \<Rightarrow> string list \<Rightarrow> int \<Rightarrow> int \<Rightarrow> ('d, ConfigVersion list) proc" where
  "ListConfigVersion L query orders offset lim = q_list (ls_version L) query orders offset lim"

definition CountConfigVersions :: "'d listers \<Rightarrow> string \<Rightarrow> ('d, int) proc" where
  "CountConfigVersions L query = q_count (ls_version L) query"

definition ListRelease :: "'d listers \<Rightarrow> string \<Rightarrow> string list \<Rightarrow> int \<Rightarrow> int \<Rightarrow> ('d, Release list) proc" where
  "ListRelease L query orders offset lim = q_list (ls_release L) query orders offset lim"

definition CountReleases :: "'d listers \<Rightarrow> string \<Rightarrow> ('d, int) proc" where
  "CountReleases L query = q_count (ls_release L) query"

definition ListConfigInstance :: "'d listers \<Rightarrow> string \<Rightarrow> string list \<Rightarrow> int \<Rightarrow> int \<Rightarrow> ('d, ConfigInstance list) proc" where
  "ListConfigInstance L query orders offset lim = q_list (ls_instance L) query orders offset lim"

definition CountConfigInstances :: "'d listers \<Rightarrow> string \<Rightarrow> ('d, int) proc" where
  "CountConfigInstances L query = q_count (ls_instance L) query"

definition ListConfigNamespace :: "'d listers \<Rightarrow> string \<Rightarrow> string list \<Rightarrow> int \<Rightarrow> int \<Rightarrow> ('d, ConfigNamespace list) proc" where
  "ListConfigNamespace L query orders offset lim = q_list (ls_cns L) query orders offset lim"

definition CountConfigNamespace :: "'d listers \<Rightarrow> string \<Rightarrow> ('d, int) proc" where
  "CountConfigNamespace L query = q_count (ls_cns L) query"

definition ListTemplate :: "'d listers \<Rightarrow> string \<Rightarrow> string list \<Rightarrow> int \<Rightarrow> int \<Rightarrow> ('d, Template list) proc" where
  "ListTemplate L query orders offset lim = q_list (ls_template L) query orders offset lim"

definition CountTemplates_row :: "'d listers \<Rightarrow> string \<Rightarrow> ('d, int) proc" where
  "CountTemplates_row L query = q_count (ls_template L) query"

definition ListTemplateVersion :: "'d listers \<Rightarrow> string \<Rightarrow> string list \<Rightarrow> int \<Rightarrow> int \<Rightarrow> ('d, TemplateVersion list) proc" where
  "ListTemplateVersion L query orders offset lim = q_list (ls_tversion L) query orders offset lim"

definition CountTemplateVersions :: "'d listers \<Rightarrow> string \<Rightarrow> ('d, int) proc" where
  "CountTemplateVersions L query = q_count (ls_tversion L) query"

definition ListTemplateNamespace :: "'d listers \<Rightarrow> string \<Rightarrow> string list \<Rightarrow> int \<Rightarrow> int \<Rightarrow> ('d, TemplateNamespace list) proc" where
  "ListTemplateNamespace L query orders offset lim = q_list (ls_tns L) query orders offset lim"

definition CountTemplateNamespace :: "'d listers \<Rightarrow> string \<Rightarrow> ('d, int) proc" where
  "CountTemplateNamespace L query = q_count (ls_tns L) query"

definition ListCluster :: "'d listers \<Rightarrow> string \<Rightarrow> string list \<Rightarrow> int \<Rightarrow> int \<Rightarrow> ('d, Cluster list) proc" where
  "ListCluster L query orders offset lim = q_list (ls_cluster L) query orders offset lim"

definition CountCluster :: "'d listers \<Rightarrow> string \<Rightarrow> ('d, int) proc" where
  "CountCluster L query = q_count (ls_cluster L) query"

subsection \<open>The manager (configserver.go)\<close>

definition CountConfigNamespaces :: "'d listers \<Rightarrow> string \<Rightarrow> ('d world, int) proc" where
  "CountConfigNamespaces L query = on_db (CountConfigNamespace L query)"

definition ListConfigNamespaces ::
  "'d listers \<Rightarrow> string \<Rightarrow> string list \<Rightarrow> int \<Rightarrow> int \<Rightarrow> ('d world, ConfigNamespace list) proc" where
  "ListConfigNamespaces L query orders offset lim =
     andthen (on_db (ListConfigNamespace L query orders offset lim)) (\<lambda>configNs. ret configNs)"

definition CountConfigs :: "'d listers \<Rightarrow> string \<Rightarrow> ('d world, int) proc" where
  "CountConfigs L query = on_db (CountConfigInfos L query)"

text \<open>The template of each listed config is looked at; an error leaves the config as it is.\<close>

fun mark_template_changes :: "'d manager \<Rightarrow> ConfigInfo list \<Rightarrow> ('d world, ConfigInfo list) proc" where
  "mark_template_changes M [] = ret []"
| "mark_template_changes M (c # cs) =
     andthen (attempt (checkIsTemplateChange M c) (\<lambda>_. ret c) ret) (\<lambda>c'.
     andthen (mark_template_changes M cs) (\<lambda>cs'. ret (c' # cs')))"

definition ListConfigs ::
  "'d manager \<Rightarrow> 'd listers \<Rightarrow> string \<Rightarrow> string list \<Rightarrow> int \<Rightarrow> int \<Rightarrow> ('d world, ConfigInfo list) proc" where
  "ListConfigs M L query orders offset lim =
     andthen (on_db (ListConfigInfo L query orders offset lim)) (\<lambda>configs. mark_template_changes M configs)"

definition CountChangeHistory :: "'d listers \<Rightarrow> string \<Rightarrow> ('d world, int) proc" where
  "CountChangeHistory L query = on_db (CountConfigVersions L query)"

definition ListChangeHistory ::
  "'d listers \<Rightarrow> string \<Rightarrow> string list \<Rightarrow> int \<Rightarrow> int \<Rightarrow> ('d world, ConfigVersion list) proc" where
  "ListChangeHistory L query order offset lim =
     andthen (on_db (ListConfigVersion L query order offset lim)) (\<lambda>configVersions. ret configVersions)"

definition CountReleaseHistory :: "'d listers \<Rightarrow> string \<Rightarrow> ('d world, int) proc" where
  "CountReleaseHistory L query = on_db (CountReleases L query)"

definition ListReleaseHistory ::
  "'d listers \<Rightarrow> string \<Rightarrow> string list \<Rightarrow> int \<Rightarrow> int \<Rightarrow> ('d world, Release list) proc" where
  "ListReleaseHistory L query order offset lim =
     andthen (on_db (ListRelease L query order offset lim)) (\<lambda>releases. ret releases)"

definition CountTemplateNamespaces :: "'d listers \<Rightarrow> string \<Rightarrow> ('d world, int) proc" where
  "CountTemplateNamespaces L query = on_db (CountTemplateNamespace L query)"

definition ListTemplateNamespaces ::
  "'d listers \<Rightarrow> string \<Rightarrow> string list \<Rightarrow> int \<Rightarrow> int \<Rightarrow> ('d world, TemplateNamespace list) proc" where
  "ListTemplateNamespaces L query orders offset lim =
     andthen (on_db (ListTemplateNamespace L query orders offset lim)) (\<lambda>templateNs. ret templateNs)"

definition CountTemplates :: "'d listers \<Rightarrow> string \<Rightarrow> ('d world, int) proc" where
  "CountTemplates L query = on_db (CountTemplates_row L query)"

definition ListTemplates ::
  "'d listers \<Rightarrow> string \<Rightarrow> string list \<Rightarrow> int \<Rightarrow> int \<Rightarrow> ('d world, Template list) proc" where
  "ListTemplates L query orders offset lim =
     andthen (on_db (ListTemplate L query orders offset lim)) (\<lambda>templates. ret templates)"

definition CountTemplateChangeHistory :: "'d listers \<Rightarrow> string \<Rightarrow> ('d world, int) proc" where
  "CountTemplateChangeHistory L query = on_db (CountTemplateVersions L query)"

definition ListTemplateChangeHistory ::
  "'d listers \<Rightarrow> string \<Rightarrow> string list \<Rightarrow> int \<Rightarrow> int \<Rightarrow> ('d world, TemplateVersion list) proc" where
  "ListTemplateChangeHistory L query order offset lim =
     andthen (on_db (ListTemplateVersion L query order offset lim)) (\<lambda>templateVersions. ret templateVersions)"

subsection \<open>What a listing relies on\<close>

text \<open>
  \<open>sat q r\<close>: the row satisfies the condition. A listing is a part of the satisfying rows in an
  order of the database; of the orders only the default is interpreted, the keys descending. A positive limit
  is one.
\<close>

definition by_id_desc :: "string list" where
  "by_id_desc = [''id desc'']"

locale listing =
  fixes Q :: "('d, 'r) lister" and obs :: "'d \<Rightarrow> 'v db_abs" and rows :: "'v \<Rightarrow> 'r list"
    and pk :: "'r \<Rightarrow> u64" and sat :: "string \<Rightarrow> 'r \<Rightarrow> bool"
  assumes count_Ok: "q_count Q q d = (Ok n, d') \<Longrightarrow> n = int (length (filter (sat q) (rows (a_db (obs d)))))"
    and count_abs: "obs (snd (q_count Q q d)) = obs d"
    and count_no_panic: "fst (q_count Q q d) \<noteq> Panic"
    and list_Ok: "q_list Q q os off lim d = (Ok xs, d') \<Longrightarrow> 0 \<le> off \<Longrightarrow> 0 < lim \<Longrightarrow>
      \<exists>ys. mset ys = mset (filter (sat q) (rows (a_db (obs d)))) \<and> xs = take (nat lim) (drop (nat off) ys)
        \<and> (os = by_id_desc \<longrightarrow> sorted_wrt (\<lambda>x y. pk y \<le> pk x) ys)"
    and list_abs: "obs (snd (q_list Q q os off lim d)) = obs d"
    and list_no_panic: "fst (q_list Q q os off lim d) \<noteq> Panic"
begin

text \<open>The rows with descending keys: with distinct keys there is one such order.\<close>

lemma list_by_id:
  assumes "q_list Q q by_id_desc off lim d = (Ok xs, d')" and "0 \<le> off" and "0 < lim"
    and "distinct (map pk (rows (a_db (obs d))))"
  shows "xs = take (nat lim) (drop (nat off) (rev (sort_key pk (filter (sat q) (rows (a_db (obs d)))))))"
proof -
  let ?zs = "filter (sat q) (rows (a_db (obs d)))"
  obtain ys where ys: "mset ys = mset ?zs" "xs = take (nat lim) (drop (nat off) ys)" "sorted_wrt (\<lambda>x y. pk y \<le> pk x) ys"
    using list_Ok [OF assms(1-3)] by blast
  have "sorted (map pk (rev ys))" using ys(3) by (simp add: sorted_map sorted_wrt_rev)
  moreover have "mset ?zs = mset (rev ys)" using ys(1) by simp
  moreover have "inj_on pk (set ?zs)" using assms(4) by (auto simp: distinct_map inj_on_def)
  ultimately have "sort_key pk ?zs = rev ys" by (metis sort_key_inj_key_eq)
  with ys(2) show ?thesis by simp
qed

end

subsection \<open>Listings of the database in memory\<close>

definition mem_lister :: "(db_view \<Rightarrow> 'r list) \<Rightarrow> ('r \<Rightarrow> u64) \<Rightarrow> (string \<Rightarrow> 'r \<Rightarrow> bool) \<Rightarrow> (mem_db, 'r) lister" where
  "mem_lister rows pk sat = \<lparr>
     q_count = (\<lambda>q d. (Ok (int (length (filter (sat q) (rows (mem_rows d))))), d)),
     q_list = (\<lambda>q os off lim d.
       let ys = drop (nat off) (rev (sort_key pk (filter (sat q) (rows (mem_rows d)))))
       in (Ok (if 0 < lim then take (nat lim) ys else ys), d))\<rparr>"

lemma mem_lister_laws: "listing (mem_lister rows pk sat) mem_obs rows pk sat"
proof
  fix q os off lim xs and d d' :: mem_db
  assume "q_list (mem_lister rows pk sat) q os off lim d = (Ok xs, d')" "0 < lim"
  moreover have "sorted_wrt (\<lambda>x y. pk y \<le> pk x) (rev (sort_key pk ys))" for ys
    using sorted_sort_key [of pk ys] by (simp add: sorted_wrt_rev sorted_map)
  ultimately show "\<exists>ys. mset ys = mset (filter (sat q) (rows (a_db (mem_obs d)))) \<and> xs = take (nat lim) (drop (nat off) ys)
      \<and> (os = by_id_desc \<longrightarrow> sorted_wrt (\<lambda>x y. pk y \<le> pk x) ys)"
    by (intro exI [of _ "rev (sort_key pk (filter (sat q) (rows (mem_rows d))))"]) (auto simp: mem_lister_def Let_def)
qed (auto simp: mem_lister_def Let_def)

text \<open>The conditions of the witnesses: every row, or the rows of one config.\<close>

definition demo_listers :: "mem_db listers" where
  "demo_listers = \<lparr>ls_info = mem_lister v_info ci_ID (\<lambda>_ c. ci_Status c \<noteq> ''deleted''),
     ls_version = mem_lister v_version cv_ID (\<lambda>_ _. True), ls_release = mem_lister v_release rl_ID (\<lambda>_ _. True),
     ls_instance = mem_lister v_instance in_ID (\<lambda>_ _. True), ls_cns = mem_lister v_cns cn_ID (\<lambda>_ _. True),
     ls_template = mem_lister v_template tp_ID (\<lambda>_ _. True), ls_tversion = mem_lister v_tversion tv_ID (\<lambda>_ _. True),
     ls_tns = mem_lister v_tns tn_ID (\<lambda>_ _. True), ls_cluster = mem_lister v_cluster cl_ID (\<lambda>_ _. True)\<rparr>"

interpretation demo_info: listing "ls_info demo_listers" mem_obs v_info ci_ID "\<lambda>_ c. ci_Status c \<noteq> ''deleted''"
  by (simp add: demo_listers_def mem_lister_laws)

interpretation demo_release: listing "ls_release demo_listers" mem_obs v_release rl_ID "\<lambda>_ _. True"
  by (simp add: demo_listers_def mem_lister_laws)

end
