(* ===== verification/Sql_Filters.thy ===== *)
theory Sql_Filters
  imports Web_Api
begin

section \<open>The search conditions of the listings (buildFilters)\<close>

text \<open>
  The listings put the request's parameters, quoted with \<open>%q\<close>, into the text of an SQL condition. This
  theory has these functions and shows that a parameter cannot change the structure of the condition.
\<close>

definition like :: "string \<Rightarrow> string" where
  "like v = ''%'' @ v @ ''%''"

text \<open>\<open>if len(v) > 0 { query = Sprintf("%s AND <column><op>%q", query, v) }\<close>\<close>

definition add_filter :: "(nat \<Rightarrow> bool) \<Rightarrow> string \<Rightarrow> (string \<Rightarrow> string) \<Rightarrow> string \<Rightarrow> string \<Rightarrow> string" where
  "add_filter pr col f v query = (if v \<noteq> [] then query @ '' AND '' @ col @ go_quote pr (f v) else query)"

definition not_deleted_sql :: string where
  "not_deleted_sql = ''status != '' @ [CHR 0x27] @ ''deleted'' @ [CHR 0x27]"

definition buildFilters :: "(nat \<Rightarrow> bool) \<Rightarrow> request \<Rightarrow> string" where
  "buildFilters pr req =
     (let query = not_deleted_sql;
          query = add_filter pr ''site_id='' id (trimmed_param req ''site_id'') query;
          query = add_filter pr ''namespace='' id (trimmed_param req ''namespace'') query
      in add_filter pr ''name LIKE '' like (trimmed_param req ''name'') query)"

definition buildTemplateFilters :: "(nat \<Rightarrow> bool) \<Rightarrow> request \<Rightarrow> string" where
  "buildTemplateFilters pr req =
     (let query = not_deleted_sql;
          query = add_filter pr ''namespace='' id (trimmed_param req ''namespace'') query
      in add_filter pr ''name LIKE '' like (trimmed_param req ''name'') query)"

definition cluster_BuildFilters :: "(nat \<Rightarrow> bool) \<Rightarrow> request \<Rightarrow> string" where
  "cluster_BuildFilters pr req =
     (let query = not_deleted_sql;
          query = add_filter pr ''name LIKE '' like (trimmed_param req ''name'') query;
          query = add_filter pr ''group LIKE '' like (trimmed_param req ''group'') query;
          query = add_filter pr ''site_id LIKE '' like (trimmed_param req ''site_id'') query
      in add_filter pr ''status LIKE '' like (trimmed_param req ''status'') query)"

text \<open>The applications of the user; the user \<open>admin\<close> and a request without user see all.\<close>

definition app_buildFilters :: "(nat \<Rightarrow> bool) \<Rightarrow> request \<Rightarrow> string" where
  "app_buildFilters pr req =
     (let query = add_filter pr ''name LIKE '' like (trimmed_param req ''name'') not_deleted_sql
      in case GlobalUser req of None \<Rightarrow> query
         | Some user \<Rightarrow> if us_ID user = ''admin'' then query
             else query @ '' AND created_by = '' @ go_quote pr (us_ID user))"

subsection \<open>How the database reads the text\<close>

text \<open>
  The string literals of MySQL in its default mode: a backslash takes the next byte with it, a doubled quote
  stands for itself. \<open>sql_shape\<close> replaces each literal by a question mark, and what follows a quote
  without end by an exclamation mark.
\<close>

fun lit_end :: "char \<Rightarrow> string \<Rightarrow> string option" where
  "lit_end q [] = None"
| "lit_end q (c # cs) =
     (if c = BS then (case cs of [] \<Rightarrow> None | _ # r \<Rightarrow> lit_end q r)
      else if c = q then (case cs of [] \<Rightarrow> Some [] | d # r \<Rightarrow> if d = q then lit_end q r else Some cs)
      else lit_end q cs)"

lemma lit_end_shorter: "lit_end q s = Some r \<Longrightarrow> length r < length s"
  by (induction q s rule: lit_end.induct) (fastforce split: if_splits list.splits)+

function sql_shape :: "string \<Rightarrow> string" where
  "sql_shape [] = []"
| "sql_shape (c # cs) =
     (if c = DQ \<or> c = CHR 0x27
      then (case lit_end c cs of None \<Rightarrow> ''!'' | Some r \<Rightarrow> CHR ''?'' # sql_shape r)
      else c # sql_shape cs)"
  by pat_completeness auto
termination by (relation "measure length") (auto dest: lit_end_shorter)

declare sql_shape.simps [simp del]

subsection \<open>A quoted value is one literal\<close>

fun lit_safe :: "string \<Rightarrow> bool" where
  "lit_safe [] = True"
| "lit_safe (c # cs) = (if c = BS then (case cs of [] \<Rightarrow> False | _ # r \<Rightarrow> lit_safe r) else c \<noteq> DQ \<and> lit_safe cs)"

lemma BS_not_DQ [simp]: "BS \<noteq> DQ" "DQ \<noteq> BS"
  by (simp_all add: BS_def DQ_def)

lemma lit_safe_append: "lit_safe t \<Longrightarrow> lit_safe (t @ u) = lit_safe u"
proof (induction t rule: lit_safe.induct)
  case (2 c cs)
  then show ?case by (cases "c = BS"; cases cs) simp_all
qed simp

lemma lit_end_safe: "lit_safe t \<Longrightarrow> lit_end DQ (t @ u) = lit_end DQ u"
proof (induction t rule: lit_safe.induct)
  case (2 c cs)
  then show ?case by (cases "c = BS"; cases cs) simp_all
qed simp

lemma lit_safe_plain: "\<forall>c\<in>set t. c \<noteq> BS \<and> c \<noteq> DQ \<Longrightarrow> lit_safe t"
  by (induction t) auto

lemma hex_char_plain: "d < 16 \<Longrightarrow> hex_char d \<noteq> BS \<and> hex_char d \<noteq> DQ"
proof -
  assume "d < 16"
  moreover have "\<forall>d\<in>set [0..<16]. hex_char d \<noteq> BS \<and> hex_char d \<noteq> DQ" by code_simp
  ultimately show ?thesis by simp
qed

lemma hex_digits_plain: "c \<in> set (hex_digits n v) \<Longrightarrow> c \<noteq> BS \<and> c \<noteq> DQ"
  by (induction n v rule: hex_digits.induct) (auto simp: hex_char_plain)

lemma lit_safe_hex: "lit_safe ([BS, x] @ hex_digits n v)"
  using lit_safe_plain [of "hex_digits n v"] hex_digits_plain by auto

lemma decode_rune_cases:
  assumes "decode_rune bs = Some (r, w)"
  obtains (ascii) "w = 1" "r < 128" "\<exists>t. bs = r # t"
    | (long) "2 \<le> w" "w \<le> length bs" "128 \<le> r" "\<forall>b\<in>set (take w bs). 128 \<le> b"
proof -
  have "w = 1 \<and> r < 128 \<and> (\<exists>t. bs = r # t) \<or> 2 \<le> w \<and> w \<le> length bs \<and> 128 \<le> r \<and> (\<forall>b\<in>set (take w bs). 128 \<le> b)"
    using assms
    by (induction bs rule: decode_rune.induct) (auto simp: tail_byte_def split: if_splits list.splits)
  then show thesis using that by blast
qed

lemma lit_safe_rune:
  assumes "decode_rune (map of_char cs) = Some (r, w)"
  shows "lit_safe (quote_rune pr r (take w cs))"
  using assms
proof (cases rule: decode_rune_cases)
  case ascii
  then obtain c t where "cs = c # t" "r = of_char c" by auto
  moreover have "c = char_of r" if "r = of_char c" using that by simp
  ultimately have cs: "take w cs = [char_of r]" using ascii by simp
  show ?thesis
  proof (cases "r = 34 \<or> r = 92")
    case False
    then have "char_of r \<noteq> DQ" "char_of r \<noteq> BS"
      using ascii(2) by (auto simp: DQ_def BS_def char_of_eq_iff take_bit_eq_mod)
    with False lit_safe_hex show ?thesis
      by (auto simp: quote_rune_def cs)
  qed (auto simp: quote_rune_def)
next
  case long
  have "c \<noteq> BS \<and> c \<noteq> DQ" if "c \<in> set (take w cs)" for c
  proof -
    have "of_char c \<in> set (take w (map (of_char :: char \<Rightarrow> nat) cs))" using that by (simp add: take_map)
    with long have "(128 :: nat) \<le> of_char c" by blast
    then show ?thesis by (auto simp: BS_def DQ_def)
  qed
  then have "lit_safe (take w cs)" by (intro lit_safe_plain) blast
  with long lit_safe_hex show ?thesis by (auto simp: quote_rune_def)
qed

lemma lit_safe_quote_body: "lit_safe (quote_body pr s)"
proof (induction pr s rule: quote_body.induct)
  case (2 pr c cs)
  show ?case
  proof (cases "decode_rune (map of_char (c # cs))")
    case None
    with 2 show ?thesis using lit_safe_append [OF lit_safe_hex] by (subst quote_body.simps) simp
  next
    case (Some p)
    obtain r w where p: "p = (r, w)" by (cases p)
    with Some have "lit_safe (quote_body pr (drop (w - 1) cs))" using 2(2) by simp
    moreover have "lit_safe (quote_rune pr r (take w (c # cs)))" using lit_safe_rune Some p by blast
    ultimately show ?thesis using Some p by (subst quote_body.simps) (simp add: lit_safe_append)
  qed
qed (simp add: quote_body.simps)

lemma lit_end_quote:
  assumes "u = [] \<or> hd u \<noteq> DQ"
  shows "lit_end DQ (quote_body pr s @ DQ # u) = Some u"
  using assms by (simp add: lit_end_safe lit_safe_quote_body) (cases u; simp)

lemma sql_shape_quote:
  assumes "u = [] \<or> hd u \<noteq> DQ"
  shows "sql_shape (go_quote pr s @ u) = CHR ''?'' # sql_shape u"
  using lit_end_quote [OF assms] by (simp add: go_quote_def sql_shape.simps(2) [of DQ])

lemma sql_shape_plain: "\<forall>c\<in>set t. c \<noteq> DQ \<and> c \<noteq> CHR 0x27 \<Longrightarrow> sql_shape (t @ u) = t @ sql_shape u"
  by (induction t) (simp_all add: sql_shape.simps)


text \<open>A text whose literals are closed: what follows is read from the start.\<close>

definition closed_sql :: "string \<Rightarrow> bool" where
  "closed_sql q \<longleftrightarrow> (\<forall>u. u = [] \<or> hd u \<noteq> DQ \<and> hd u \<noteq> CHR 0x27 \<longrightarrow> sql_shape (q @ u) = sql_shape q @ sql_shape u)"

definition filter_shape :: "string \<Rightarrow> string \<Rightarrow> string" where
  "filter_shape col v = (if v \<noteq> [] then '' AND '' @ col @ ''?'' else [])"

lemma closed_deleted: "closed_sql not_deleted_sql" "sql_shape not_deleted_sql = ''status != ?''"
proof -
  have "sql_shape (not_deleted_sql @ u) = ''status != ?'' @ sql_shape u" if "u = [] \<or> hd u \<noteq> CHR 0x27" for u
    using that by (cases u) (simp_all add: not_deleted_sql_def sql_shape.simps DQ_def BS_def)
  from this this [of "[]"] show "closed_sql not_deleted_sql" "sql_shape not_deleted_sql = ''status != ?''"
    by (simp_all add: closed_sql_def sql_shape.simps)
qed

lemma closed_quoted:
  assumes "closed_sql q" and "\<forall>c\<in>set col. c \<noteq> DQ \<and> c \<noteq> CHR 0x27"
  shows "closed_sql (q @ '' AND '' @ col @ go_quote pr v)"
    "sql_shape (q @ '' AND '' @ col @ go_quote pr v) = sql_shape q @ '' AND '' @ col @ ''?''"
proof -
  let ?t = "'' AND '' @ col"
  have plain: "\<forall>c\<in>set ?t. c \<noteq> DQ \<and> c \<noteq> CHR 0x27" using assms(2) by (auto simp: DQ_def)
  have app: "sql_shape (q @ ?t @ go_quote pr v @ u) = sql_shape q @ ?t @ CHR ''?'' # sql_shape u"
    if "u = [] \<or> hd u \<noteq> DQ \<and> hd u \<noteq> CHR 0x27" for u
  proof -
    have "sql_shape (q @ ?t @ go_quote pr v @ u) = sql_shape q @ sql_shape (?t @ go_quote pr v @ u)"
      using assms(1) unfolding closed_sql_def by (auto simp: DQ_def)
    also have "sql_shape (?t @ go_quote pr v @ u) = ?t @ sql_shape (go_quote pr v @ u)"
      by (rule sql_shape_plain [OF plain])
    also have "sql_shape (go_quote pr v @ u) = CHR ''?'' # sql_shape u"
      by (rule sql_shape_quote) (use that in blast)
    finally show ?thesis .
  qed
  from app app [of "[]"]
  show "closed_sql (q @ '' AND '' @ col @ go_quote pr v)"
    "sql_shape (q @ '' AND '' @ col @ go_quote pr v) = sql_shape q @ '' AND '' @ col @ ''?''"
    by (simp_all add: closed_sql_def sql_shape.simps)
qed

lemma closed_add_filter:
  assumes "closed_sql q" and "\<forall>c\<in>set col. c \<noteq> DQ \<and> c \<noteq> CHR 0x27"
  shows "closed_sql (add_filter pr col f v q)"
    "sql_shape (add_filter pr col f v q) = sql_shape q @ filter_shape col v"
  using closed_quoted [OF assms, of pr "f v"] assms(1) by (simp_all add: add_filter_def filter_shape_def)

lemmas filter_rules = closed_deleted closed_add_filter

text \<open>
  C16: whatever the parameters of a listing are, the database reads its condition as the
  fixed text with one literal per parameter that is given: no parameter ends its literal or adds to the condition.
\<close>

theorem filters_keep_shape:
  "sql_shape (buildFilters pr req) = ''status != ?'' @ filter_shape ''site_id='' (trimmed_param req ''site_id'')
      @ filter_shape ''namespace='' (trimmed_param req ''namespace'') @ filter_shape ''name LIKE '' (trimmed_param req ''name'')
    \<and> sql_shape (buildTemplateFilters pr req) = ''status != ?''
      @ filter_shape ''namespace='' (trimmed_param req ''namespace'') @ filter_shape ''name LIKE '' (trimmed_param req ''name'')
    \<and> sql_shape (cluster_BuildFilters pr req) = ''status != ?'' @ filter_shape ''name LIKE '' (trimmed_param req ''name'')
      @ filter_shape ''group LIKE '' (trimmed_param req ''group'') @ filter_shape ''site_id LIKE '' (trimmed_param req ''site_id'')
      @ filter_shape ''status LIKE '' (trimmed_param req ''status'')
    \<and> sql_shape (app_buildFilters pr req) = ''status != ?'' @ filter_shape ''name LIKE '' (trimmed_param req ''name'')
      @ (case hr_user req of None \<Rightarrow> [] | Some user \<Rightarrow> if us_ID user = ''admin'' then [] else '' AND created_by = ?'')"
proof -
  have app: "sql_shape (app_buildFilters pr req) = ''status != ?'' @ filter_shape ''name LIKE '' (trimmed_param req ''name'')
      @ (case hr_user req of None \<Rightarrow> [] | Some user \<Rightarrow> if us_ID user = ''admin'' then [] else '' AND created_by = ?'')"
    using closed_quoted [of "add_filter pr ''name LIKE '' like (trimmed_param req ''name'') not_deleted_sql" "''created_by = ''" pr]
    by (simp add: app_buildFilters_def GlobalUser_def Let_def filter_rules DQ_def split: option.split)
  show ?thesis
    unfolding buildFilters_def buildTemplateFilters_def cluster_BuildFilters_def Let_def
    by (simp add: filter_rules DQ_def app)
qed

end
