(* ===== verification/Config_Import.thy ===== *)
theory Config_Import
  imports Config_Release
begin

section \<open>Import of configs (ImportConfigs, importFromTar, importFromImage)\<close>

text \<open>
  A set of files becomes the configs of a namespace, one after the other. The formats and the container engine are
  parameters: the entries of an uploaded archive in order, each an error or a header with the content that can be
  read; what an image has in a directory once it is copied out, as the names in it and, per name, the regular files
  below in the order of \<open>filepath.Walk\<close>. \<open>it_sprintf\<close> is \<open>fmt.Sprintf\<close> of a text alone.
\<close>

record tar_header =
  th_Name :: string
  th_IsDir :: bool
  th_data :: reader

type_synonym tar_stream = "(goerr + tar_header) list"

record import_tools =
  it_sprintf :: "string \<Rightarrow> string"
  it_docker :: "goerr option"
  it_now :: string
  it_copy :: "string \<Rightarrow> string \<Rightarrow> string \<Rightarrow> goerr option"
  it_dir :: "string \<Rightarrow> goerr + string list"
  it_walk :: "string \<Rightarrow> (string \<times> (goerr + reader)) list"

definition tmpDir :: string where "tmpDir = ''/tmp/data''"
definition cameraInfoDir :: string where "cameraInfoDir = ''/root/CameraInfos''"
definition storeInfoDir :: string where "storeInfoDir = ''/root/StoreInfos''"
definition ConfigCameraInfo :: string where "ConfigCameraInfo = ''CameraInfos''"
definition ConfigStoreInfo :: string where "ConfigStoreInfo = ''StoreInfos''"
definition ConfigSourceImage :: string where "ConfigSourceImage = ''image''"
definition ConfigSourceTar :: string where "ConfigSourceTar = ''tar''"

fun import_entries ::
  "'d manager \<Rightarrow> string \<Rightarrow> string \<Rightarrow> string \<Rightarrow> string \<Rightarrow> tar_stream \<Rightarrow> ('d world, unit) proc" where
  "import_entries M namespace siteID desc creator [] = ret ()"
| "import_entries M namespace siteID desc creator (Inl err # es) = fail err"
| "import_entries M namespace siteID desc creator (Inr hdr # es) =
     (if th_IsDir hdr then import_entries M namespace siteID desc creator es
      else andthen (createOrUpdateConfig M (trim_prefix (th_Name hdr) (namespace @ ''/'')) namespace siteID desc creator (th_data hdr))
             (\<lambda>_. import_entries M namespace siteID desc creator es))"

definition importFromTar ::
  "import_tools \<Rightarrow> 'd manager \<Rightarrow> string \<Rightarrow> string \<Rightarrow> string \<Rightarrow> tar_stream \<Rightarrow> ('d world, unit) proc" where
  "importFromTar T M siteID desc creator file =
     (case file of
        [] \<Rightarrow> fail (External ''EOF'')
      | Inl err # es \<Rightarrow> fail err
      | Inr hdr # es \<Rightarrow>
          if \<not> th_IsDir hdr then fail (Errorf ''invalid format'')
          else let namespace = it_sprintf T (trim_suffix (th_Name hdr) ''/'')
               in andthen (on_db (FindOrCreateConfigNamespace (m_db M) namespace siteID creator DB)) (\<lambda>_.
                  import_entries M namespace siteID desc creator es))"

definition createConfigFromFile ::
  "'d manager \<Rightarrow> goerr + reader \<Rightarrow> string \<Rightarrow> string \<Rightarrow> string \<Rightarrow> string \<Rightarrow> string \<Rightarrow> ('d world, unit) proc" where
  "createConfigFromFile M opened name namespace siteID desc creator =
     (case opened of Inl err \<Rightarrow> fail err
      | Inr content \<Rightarrow> createOrUpdateConfig M name namespace siteID desc creator content)"

fun import_files ::
  "'d manager \<Rightarrow> string \<Rightarrow> string \<Rightarrow> string \<Rightarrow> string \<Rightarrow> string \<Rightarrow> (string \<times> (goerr + reader)) list \<Rightarrow> ('d world, unit) proc" where
  "import_files M src namespace siteID desc creator [] = ret ()"
| "import_files M src namespace siteID desc creator ((path, opened) # fs) =
     andthen (createConfigFromFile M opened (trim_prefix path (src @ ''/'')) namespace siteID desc creator) (\<lambda>_.
     import_files M src namespace siteID desc creator fs)"

definition createConfigFromDir ::
  "import_tools \<Rightarrow> 'd manager \<Rightarrow> string \<Rightarrow> string \<Rightarrow> string \<Rightarrow> string \<Rightarrow> ('d world, unit) proc" where
  "createConfigFromDir T M dir siteID desc creator =
     andthen (lift_sum (it_dir T dir)) (\<lambda>fs.
     case fs of
       [namespace] \<Rightarrow>
         andthen (on_db (FindOrCreateConfigNamespace (m_db M) namespace siteID creator DB)) (\<lambda>_.
         let src = path_join [dir, namespace]
         in import_files M src namespace siteID desc creator (it_walk T src))
     | _ \<Rightarrow> fail (Errorf ''invalid dir format''))"

text \<open>The directory is made and removed again; for another type of config nothing is copied.\<close>

definition importFromImage ::
  "import_tools \<Rightarrow> 'd manager \<Rightarrow> string \<Rightarrow> string \<Rightarrow> string \<Rightarrow> string \<Rightarrow> string \<Rightarrow> ('d world, unit) proc" where
  "importFromImage T M siteID desc creator configType addr =
     (case it_docker T of
        Some err \<Rightarrow> fail err
      | None \<Rightarrow>
          let distDir = path_join [tmpDir, it_now T]
          in andthen (on_fs (os_mkdir_all (file_key distDir))) (\<lambda>_.
             with_removed (file_key distDir) (
               andthen (case (if configType = ConfigCameraInfo then it_copy T addr cameraInfoDir distDir
                              else if configType = ConfigStoreInfo then it_copy T addr storeInfoDir distDir
                              else None) of Some err \<Rightarrow> fail err | None \<Rightarrow> ret ()) (\<lambda>_.
               createConfigFromDir T M distDir siteID desc creator))))"

definition ImportConfigs ::
  "import_tools \<Rightarrow> 'd manager \<Rightarrow> string \<Rightarrow> string \<Rightarrow> string \<Rightarrow> string \<Rightarrow> string \<Rightarrow> string \<Rightarrow> tar_stream \<Rightarrow> ('d world, unit) proc" where
  "ImportConfigs T M siteID desc creator configType source addr file =
     (if siteID = [] then fail (Errorf ''site_id can not be null'')
      else if source = ConfigSourceImage then importFromImage T M siteID desc creator configType addr
      else if source = ConfigSourceTar then importFromTar T M siteID desc creator file
      else fail (Errorf ''invalid import source''))"

end
