(* ===== verification/Rest_Configs.thy ===== *)
theory Rest_Configs
  imports Listings Sql_Filters Config_Import Manager_Props
begin

section \<open>The REST service of the configs (pkg/manager/service/rest/configserver.go)\<close>

text \<open>
  Every handler reads its parameters, calls one operation of the manager and answers with an entity. The routes
  are as \<open>addRoutes\<close> registers them. Which route a request belongs to is decided by go-restful: a request
  carries its route. A body that is read from JSON is a parameter, as is the uploaded file.
\<close>

datatype rest_value =
    V_namespaces "ConfigNamespace page_data"
  | V_configs "ConfigInfo page_data"
  | V_versions "ConfigVersion page_data"
  | V_releases "Release page_data"
  | V_template_namespaces "TemplateNamespace page_data"
  | V_templates "Template page_data"
  | V_template_versions "TemplateVersion page_data"
  | V_config ConfigInfo
  | V_template Template
  | V_instances "ConfigInstance list"
  | V_release string "ConfigInstance list"
  | V_namespace "(ConfigInfo \<times> ConfigInstance list) list"
  | V_history string string string
  | V_options "string list gomap"
  | V_address string

record 'd rest =
  rt_manager :: "'d manager"
  rt_listers :: "'d listers"
  rt_print :: "nat \<Rightarrow> bool"
  rt_import :: import_tools
  rt_config :: "request \<Rightarrow> goerr + ConfigInfo"
  rt_template :: "request \<Rightarrow> goerr + Template"
  rt_file :: "request \<Rightarrow> goerr + tar_stream"
  rt_dist :: "request \<Rightarrow> string"

type_synonym 'd api = "request \<Rightarrow> ('d world, rest_value entity) proc"

subsection \<open>What the handlers share\<close>

definition invalid :: "goerr \<Rightarrow> ('d world, 'v entity) proc" where
  "invalid err = ret (NewRespErr ErrReqInvalid err)"

definition need :: "goerr + 'a \<Rightarrow> ('a \<Rightarrow> ('d world, 'v entity) proc) \<Rightarrow> ('d world, 'v entity) proc" where
  "need r k = (case r of Inl err \<Rightarrow> invalid err | Inr a \<Rightarrow> k a)"

text \<open>\<open>uint64(id)\<close> of the parsed \<open>int64\<close>.\<close>

definition path_id :: "request \<Rightarrow> goerr + u64" where
  "path_id req = map_sum id word_of_int (checkNumberParam req ''id'' True)"

definition version_id :: "request \<Rightarrow> goerr + u64" where
  "version_id req = map_sum id word_of_int (checkNumberParam req ''version_id'' False)"

text \<open>The parameter must not be empty.\<close>

definition required :: "request \<Rightarrow> string \<Rightarrow> goerr + string" where
  "required req key = (let v = trimmed_param req key
     in if v = [] then Inl (Errorf (key @ '' can't be null'')) else Inr v)"

text \<open>The ID of the user of the request, else what the body says, else \<open>admin\<close>.\<close>

definition creator_of :: "request \<Rightarrow> string \<Rightarrow> string" where
  "creator_of req body =
     (let c = (case GlobalUser req of None \<Rightarrow> body | Some user \<Rightarrow> us_ID user)
      in if c = [] then ''admin'' else c)"

definition answer ::
  "'v entity \<Rightarrow> ('d world, 'a) proc \<Rightarrow> ('a \<Rightarrow> 'v entity) \<Rightarrow> ('d world, 'v entity) proc" where
  "answer kind m f = attempt m (\<lambda>err. ret (NewRespErr kind err)) (\<lambda>a. ret (f a))"

abbreviation succeed :: "unit \<Rightarrow> 'v entity" where
  "succeed \<equiv> \<lambda>_. Api_RespSucceed"

definition orders_of :: "request \<Rightarrow> string list" where
  "orders_of req = (let orders = buildArrayParams ''sorts'' req in if orders = [] then [''id desc''] else orders)"

text \<open>The count, the paginator, the rows of the page, and the page.\<close>

definition page_answer ::
  "request \<Rightarrow> int \<Rightarrow> string list \<Rightarrow> ('d world, int) proc \<Rightarrow> (string list \<Rightarrow> int \<Rightarrow> int \<Rightarrow> ('d world, 'r list) proc)
    \<Rightarrow> ('r page_data \<Rightarrow> 'v) \<Rightarrow> ('d world, 'v entity) proc" where
  "page_answer req pageSize orders counted rows v =
     attempt counted invalid (\<lambda>n.
     let (offset, pn) = Offset (SetPaginator req pageSize n)
     in answer ErrDBOpsFailed (rows orders offset pageSize) (\<lambda>list. NewRespSucceed (v (NewPage pn list))))"

subsection \<open>The handlers\<close>

definition addConfig :: "'d rest \<Rightarrow> 'd api" where
  "addConfig R req =
     need (rt_config R req) (\<lambda>configInfo.
     answer ErrDBOpsFailed (AddConfig (rt_manager R)
       (Some (configInfo\<lparr>ci_CreatedBy := creator_of req (ci_CreatedBy configInfo)\<rparr>))) succeed)"

definition listConfigNamespaces :: "'d rest \<Rightarrow> 'd api" where
  "listConfigNamespaces R req =
     need (checkPageParams req) (\<lambda>(pageSize, _).
     let query = buildFilters (rt_print R) req
     in page_answer req pageSize (orders_of req) (CountConfigNamespaces (rt_listers R) query)
          (ListConfigNamespaces (rt_listers R) query) V_namespaces)"

definition listConfigs :: "'d rest \<Rightarrow> 'd api" where
  "listConfigs R req =
     need (checkPageParams req) (\<lambda>(pageSize, _).
     let query = buildFilters (rt_print R) req
     in page_answer req pageSize (orders_of req) (CountConfigs (rt_listers R) query)
          (ListConfigs (rt_manager R) (rt_listers R) query) V_configs)"

definition updateConfig :: "'d rest \<Rightarrow> 'd api" where
  "updateConfig R req =
     need (rt_config R req) (\<lambda>configInfo.
     need (path_id req) (\<lambda>i.
     answer ErrDBOpsFailed (UpdateConfig (rt_manager R)
       (Some (configInfo\<lparr>ci_ID := i, ci_CreatedBy := creator_of req (ci_CreatedBy configInfo)\<rparr>))) succeed))"

definition api_releaseConfig :: "'d rest \<Rightarrow> 'd api" where
  "api_releaseConfig R req =
     need (path_id req) (\<lambda>i. answer ErrDBOpsFailed (ReleaseConfig (rt_manager R) i) succeed)"

definition getReleaseDetail :: "'d rest \<Rightarrow> 'd api" where
  "getReleaseDetail R req =
     need (path_id req) (\<lambda>i. answer ErrDBOpsFailed (ReleaseConfigDetail (rt_manager R) i)
       (\<lambda>(data, instances). NewRespSucceed (V_release data instances)))"

definition releaseNamespace :: "'d rest \<Rightarrow> 'd api" where
  "releaseNamespace R req =
     need (required req ''site_id'') (\<lambda>siteID.
     need (required req ''namespace'') (\<lambda>namespace.
     answer ErrSvcFailed (ReleaseNamespace (rt_manager R) (rt_dist R req) siteID namespace) succeed))"

definition getReleaseNamespaceDetail :: "'d rest \<Rightarrow> 'd api" where
  "getReleaseNamespaceDetail R req =
     need (required req ''site_id'') (\<lambda>siteID.
     need (required req ''namespace'') (\<lambda>namespace.
     answer ErrSvcFailed (ReleaseNamespaceDetail (rt_manager R) siteID namespace)
       (\<lambda>ds. NewRespSucceed (V_namespace ds))))"

definition rollbackConfig :: "'d rest \<Rightarrow> 'd api" where
  "rollbackConfig R req =
     need (path_id req) (\<lambda>i. answer ErrDBOpsFailed (RollbackConfig (rt_manager R) i 0 (creator_of req [])) succeed)"

definition deleteConfig :: "'d rest \<Rightarrow> 'd api" where
  "deleteConfig R req =
     need (path_id req) (\<lambda>i. answer ErrDBOpsFailed (DeleteConfig (rt_manager R) i) succeed)"

definition importConfigs :: "'d rest \<Rightarrow> 'd api" where
  "importConfigs R req =
     (let body = query_param req ''body''
      in if body = [] then invalid (Errorf ''parameters can't be null'')
         else need (m_map_json (rt_manager R) body) (\<lambda>param.
         let siteID = map_get param ''site_id''; source = map_get param ''source'';
             configType = map_get param ''type''; address = map_get param ''address''
         in if siteID = [] then invalid (Errorf ''site_id can't be null'')
            else if source \<noteq> ConfigSourceImage \<and> source \<noteq> ConfigSourceTar then invalid (Errorf ''invalid import source'')
            else if configType = [] \<and> source = ConfigSourceImage then invalid (Errorf ''invalid config type'')
            else if address = [] \<and> source = ConfigSourceImage then invalid (Errorf ''address can't be null'')
            else need (if source = ConfigSourceTar then rt_file R req else Inr []) (\<lambda>tarFile.
              answer ErrDBOpsFailed (ImportConfigs (rt_import R) (rt_manager R) siteID (map_get param ''desc'')
                (creator_of req []) configType source address tarFile) succeed)))"

definition importDefault :: "'d rest \<Rightarrow> 'd api" where
  "importDefault R req =
     need (required req ''site_id'') (\<lambda>siteID.
     let configType = trimmed_param req ''type''
     in if configType \<noteq> ConfigCameraInfo \<and> configType \<noteq> ConfigStoreInfo then invalid (Errorf ''invalid config type'')
        else answer ErrSvcFailed (lift_sum (GetDefaultImportAddress siteID (trimmed_param req ''source'')))
               (\<lambda>addr. NewRespSucceed (V_address addr)))"

definition getConfigDetail :: "'d rest \<Rightarrow> 'd api" where
  "getConfigDetail R req =
     need (path_id req) (\<lambda>i. answer ErrDBOpsFailed (GetConfigDetail (rt_manager R) i) (\<lambda>c. NewRespSucceed (V_config c)))"

definition api_getConfigInstances :: "'d rest \<Rightarrow> 'd api" where
  "api_getConfigInstances R req =
     need (path_id req) (\<lambda>i. answer ErrDBOpsFailed (GetConfigInstances (rt_manager R) i) (\<lambda>xs. NewRespSucceed (V_instances xs)))"

definition listChangeHistory :: "'d rest \<Rightarrow> 'd api" where
  "listChangeHistory R req =
     need (checkPageParams req) (\<lambda>(pageSize, _).
     need (checkNumberParam req ''id'' True) (\<lambda>i.
     let query = ''config_info_id = '' @ itoa i @ '' AND version > 1 AND '' @ not_deleted_sql
     in page_answer req pageSize [''id desc''] (CountChangeHistory (rt_listers R) query) (ListChangeHistory (rt_listers R) query) V_versions))"

definition getChangeHistoryDetail :: "'d rest \<Rightarrow> 'd api" where
  "getChangeHistoryDetail R req =
     need (path_id req) (\<lambda>i. need (version_id req) (\<lambda>versionID.
     answer ErrDBOpsFailed (GetChangeHistoryDetail (rt_manager R) i versionID) (\<lambda>(data, diff, meta). NewRespSucceed (V_history data diff meta))))"

definition listReleaseHistory :: "'d rest \<Rightarrow> 'd api" where
  "listReleaseHistory R req =
     need (checkPageParams req) (\<lambda>(pageSize, _).
     need (checkNumberParam req ''id'' True) (\<lambda>i.
     let query = ''config_info_id = '' @ itoa i @ '' AND '' @ not_deleted_sql
     in page_answer req pageSize [''id desc''] (CountReleaseHistory (rt_listers R) query) (ListReleaseHistory (rt_listers R) query) V_releases))"

definition getReleaseHistoryDetail :: "'d rest \<Rightarrow> 'd api" where
  "getReleaseHistoryDetail R req =
     need (path_id req) (\<lambda>i. need (version_id req) (\<lambda>versionID.
     answer ErrDBOpsFailed (GetReleaseHistoryDetail (rt_manager R) i versionID) (\<lambda>(data, diff, meta). NewRespSucceed (V_history data diff meta))))"

definition reloadTemplate :: "'d rest \<Rightarrow> 'd api" where
  "reloadTemplate R req =
     need (path_id req) (\<lambda>i. answer ErrDBOpsFailed (ReloadTemplate (rt_manager R) i) succeed)"

definition addTemplate :: "'d rest \<Rightarrow> 'd api" where
  "addTemplate R req =
     need (rt_template R req) (\<lambda>template.
     answer ErrDBOpsFailed (AddTemplate (rt_manager R)
       (Some (template\<lparr>tp_CreatedBy := creator_of req (tp_CreatedBy template)\<rparr>))) succeed)"

definition listTemplateNamespaces :: "'d rest \<Rightarrow> 'd api" where
  "listTemplateNamespaces R req =
     need (checkPageParams req) (\<lambda>(pageSize, _).
     let query = buildTemplateFilters (rt_print R) req
     in page_answer req pageSize (orders_of req) (CountTemplateNamespaces (rt_listers R) query)
          (ListTemplateNamespaces (rt_listers R) query) V_template_namespaces)"

definition listTemplates :: "'d rest \<Rightarrow> 'd api" where
  "listTemplates R req =
     need (checkPageParams req) (\<lambda>(pageSize, _).
     let query = buildTemplateFilters (rt_print R) req
     in page_answer req pageSize (orders_of req) (CountTemplates (rt_listers R) query)
          (ListTemplates (rt_listers R) query) V_templates)"

definition updateTemplate :: "'d rest \<Rightarrow> 'd api" where
  "updateTemplate R req =
     need (rt_template R req) (\<lambda>template.
     need (path_id req) (\<lambda>i.
     answer ErrDBOpsFailed (UpdateTemplate (rt_manager R) (Some (template\<lparr>tp_ID := i\<rparr>))) succeed))"

definition deleteTemplate :: "'d rest \<Rightarrow> 'd api" where
  "deleteTemplate R req =
     need (path_id req) (\<lambda>i. answer ErrDBOpsFailed (DeleteTemplate (rt_manager R) i) succeed)"

definition getTemplateDetail :: "'d rest \<Rightarrow> 'd api" where
  "getTemplateDetail R req =
     need (path_id req) (\<lambda>i. answer ErrDBOpsFailed (GetTemplateDetail (rt_manager R) i) (\<lambda>t. NewRespSucceed (V_template t)))"

definition getTemplateDetailByNameAndNamespace :: "'d rest \<Rightarrow> 'd api" where
  "getTemplateDetailByNameAndNamespace R req =
     need (required req ''namespace'') (\<lambda>namespace.
     need (required req ''name'') (\<lambda>name.
     answer ErrDBOpsFailed (GetTemplateDetailByNameAndNamespace (rt_manager R) name namespace (trimmed_param req ''site_id''))
       (\<lambda>t. NewRespSucceed (V_template t))))"

definition getTemplateOptions :: "'d rest \<Rightarrow> 'd api" where
  "getTemplateOptions R req =
     need (required req ''site_id'') (\<lambda>siteID.
     answer ErrDBOpsFailed (GetTemplateOption (rt_manager R) siteID) (\<lambda>os. NewRespSucceed (V_options os)))"

definition listTemplateChangeHistory :: "'d rest \<Rightarrow> 'd api" where
  "listTemplateChangeHistory R req =
     need (checkPageParams req) (\<lambda>(pageSize, _).
     need (checkNumberParam req ''id'' True) (\<lambda>i.
     let query = ''template_id = '' @ itoa i @ '' AND '' @ not_deleted_sql
     in page_answer req pageSize [''id desc''] (CountTemplateChangeHistory (rt_listers R) query) (ListTemplateChangeHistory (rt_listers R) query) V_template_versions))"

definition getTemplateChangeHistoryDetail :: "'d rest \<Rightarrow> 'd api" where
  "getTemplateChangeHistoryDetail R req =
     need (path_id req) (\<lambda>i. need (version_id req) (\<lambda>versionID.
     answer ErrDBOpsFailed (GetTemplateHistoryDetail (rt_manager R) i versionID) (\<lambda>diff. NewRespSucceed (V_history [] diff []))))"

subsection \<open>The routes\<close>

definition config_routes :: "'d rest \<Rightarrow> (string \<times> string \<times> 'd api) list" where
  "config_routes R = [(''POST'', ''/'', addConfig R),
     (''GET'', ''/ns'', listConfigNamespaces R),
     (''GET'', ''/'', listConfigs R),
     (''PUT'', ''/{id}'', updateConfig R),
     (''POST'', ''/release/{id}'', api_releaseConfig R),
     (''GET'', ''/release/{id}'', getReleaseDetail R),
     (''POST'', ''/release/ns'', releaseNamespace R),
     (''GET'', ''/release/ns'', getReleaseNamespaceDetail R),
     (''POST'', ''/rollback/{id}'', rollbackConfig R),
     (''DELETE'', ''/{id}'', deleteConfig R),
     (''POST'', ''/import'', importConfigs R),
     (''GET'', ''/import/default'', importDefault R),
     (''GET'', ''/{id}'', getConfigDetail R),
     (''GET'', ''/{id}/instances'', api_getConfigInstances R),
     (''GET'', ''/{id}/history'', listChangeHistory R),
     (''GET'', ''{id}/history/detail'', getChangeHistoryDetail R),
     (''GET'', ''/release/{id}/history'', listReleaseHistory R),
     (''GET'', ''/release/{id}/history/detail'', getReleaseHistoryDetail R),
     (''PUT'', ''/reload/{id}'', reloadTemplate R),
     (''POST'', ''/template'', addTemplate R),
     (''GET'', ''/template/ns'', listTemplateNamespaces R),
     (''GET'', ''/template'', listTemplates R),
     (''PUT'', ''/template/{id}'', updateTemplate R),
     (''DELETE'', ''/template/{id}'', deleteTemplate R),
     (''GET'', ''/template/{id}'', getTemplateDetail R),
     (''GET'', ''/template/detail'', getTemplateDetailByNameAndNamespace R),
     (''GET'', ''/template/options'', getTemplateOptions R),
     (''GET'', ''/template/{id}/history'', listTemplateChangeHistory R),
     (''GET'', ''/template/{id}/history/detail'', getTemplateChangeHistoryDetail R)]"

definition config_root :: string where "config_root = ''/api/v1/configs''"

text \<open>\<open>join\<close> is how go-restful joins the path of the service and of a route.\<close>

definition config_api :: "(string \<Rightarrow> string \<Rightarrow> string) \<Rightarrow> 'd rest \<Rightarrow> (string \<times> string \<times> 'd api) list" where
  "config_api join R = map (\<lambda>(m, p, f). (m, join config_root p, f)) (config_routes R)"

text \<open>The handler of a request; \<open>None\<close> when there is none.\<close>

definition dispatch :: "(string \<times> string \<times> 'd api) list \<Rightarrow> request \<Rightarrow> 'd api option" where
  "dispatch rs req = map_option (snd \<circ> snd) (find (\<lambda>(m, p, f). m = hr_method req \<and> p = hr_route req) rs)"

end
