(* ===== verification/Rest_Props.thy ===== *)
theory Rest_Props
  imports Rest_Configs
begin

section \<open>What a request to the config service can do\<close>

text \<open>
  The handlers are put together from \<open>need\<close>, \<open>answer\<close> and \<open>page_answer\<close>, and so are the proofs:
  a handler \<open>answers\<close> (it returns an entity, never an error), is \<open>calm\<close> when it only reads, and is \<open>safe\<close>
  when an entity that is no success means that nothing has changed. The locale \<open>manager_listings\<close>
  adds the laws of the listings to those of the database.
\<close>

record conditions =
  sa_info :: "string \<Rightarrow> ConfigInfo \<Rightarrow> bool"
  sa_version :: "string \<Rightarrow> ConfigVersion \<Rightarrow> bool"
  sa_release :: "string \<Rightarrow> Release \<Rightarrow> bool"
  sa_cns :: "string \<Rightarrow> ConfigNamespace \<Rightarrow> bool"
  sa_template :: "string \<Rightarrow> Template \<Rightarrow> bool"
  sa_tversion :: "string \<Rightarrow> TemplateVersion \<Rightarrow> bool"
  sa_tns :: "string \<Rightarrow> TemplateNamespace \<Rightarrow> bool"

locale manager_listings =
  gorm_db M obs
  + l_info: listing "ls_info L" obs v_info ci_ID "sa_info S"
  + l_version: listing "ls_version L" obs v_version cv_ID "sa_version S"
  + l_release: listing "ls_release L" obs v_release rl_ID "sa_release S"
  + l_cns: listing "ls_cns L" obs v_cns cn_ID "sa_cns S"
  + l_template: listing "ls_template L" obs v_template tp_ID "sa_template S"
  + l_tversion: listing "ls_tversion L" obs v_tversion tv_ID "sa_tversion S"
  + l_tns: listing "ls_tns L" obs v_tns tn_ID "sa_tns S"
  for M :: "'d manager" and obs :: "'d \<Rightarrow> db_view db_abs" and L :: "'d listers" and S :: conditions

subsection \<open>Rules for the parts of a handler\<close>

definition answers :: "('w, 'v entity) proc \<Rightarrow> bool" where
  "answers m \<longleftrightarrow> (\<forall>w e. fst (m w) \<noteq> Err e)"

definition safe_answer :: "db_view db_abs \<Rightarrow> 'v entity outcome \<Rightarrow> db_view db_abs \<Rightarrow> bool" where
  "safe_answer a0 r a \<longleftrightarrow> (case r of
      Ok ent \<Rightarrow> a_tx a = a_tx a0 \<and> (ent_Code ent \<noteq> 200 \<longrightarrow> a = a0)
    | Err e \<Rightarrow> False | Panic \<Rightarrow> a_db a = a_db a0)"

definition safe :: "('d \<Rightarrow> db_view db_abs) \<Rightarrow> ('d world, 'v entity) proc \<Rightarrow> bool" where
  "safe obs m \<longleftrightarrow> (\<forall>w. safe_answer (obs (w_db w)) (fst (m w)) (obs (w_db (snd (m w)))))"

named_theorems rest_rules "handlers that answer, and handlers that are safe"

lemma answers_parts [rest_rules]:
  "answers (ret x)"
  "answers (invalid e)"
  "(\<And>a. answers (k a)) \<Longrightarrow> answers (need r k)"
  "answers m1 \<Longrightarrow> answers m2 \<Longrightarrow> answers (if b then m1 else m2)"
  "answers (answer kind p f)"
  "answers (page_answer req per orders n rows v)"
  "(\<And>x y. answers (c2 x y)) \<Longrightarrow> answers (case q of (x, y) \<Rightarrow> c2 x y)"
  "answers (l y) \<Longrightarrow> answers (Let y l)"
  by (auto simp: answers_def invalid_def need_def answer_def page_answer_def attempt_def ret_def Let_def
      split: sum.splits outcome.splits prod.splits)

lemma calm_need [tx_rules]:
  "(\<And>a. calm obs (k a)) \<Longrightarrow> calm obs (need r k)"
  "calm obs (invalid e)"
  by (simp_all add: need_def invalid_def calm_basic split: sum.split)

lemma calm_answer [tx_rules]: "calm obs m \<Longrightarrow> calm obs (answer kind m f)"
  unfolding answer_def by (intro tx_rules)

lemma calm_page_answer [tx_rules]:
  "calm obs n \<Longrightarrow> (\<And>a b c. calm obs (rows a b c)) \<Longrightarrow> calm obs (page_answer req per orders n rows v)"
  unfolding page_answer_def by (intro tx_rules)

lemma safe_calm: "calm obs m \<Longrightarrow> answers m \<Longrightarrow> safe obs m"
  by (auto simp: safe_def safe_answer_def calm_def answers_def split: outcome.split)

lemma safe_parts [rest_rules]:
  "safe obs (invalid e)"
  "(\<And>a. safe obs (k a)) \<Longrightarrow> safe obs (need r k)"
  "safe obs m1 \<Longrightarrow> safe obs m2 \<Longrightarrow> safe obs (if b then m1 else m2)"
  "safe obs (l v) \<Longrightarrow> safe obs (Let v l)"
  by (auto simp: safe_def safe_answer_def invalid_def need_def ret_def split: sum.split)

lemma safe_answer_op [rest_rules]:
  assumes "atomic obs m"
  shows "safe obs (answer kind m succeed)"
  unfolding safe_def
proof
  fix w
  show "safe_answer (obs (w_db w)) (fst (answer kind m succeed w)) (obs (w_db (snd (answer kind m succeed w))))"
    using atomicD [OF assms, of w]
    by (cases "m w"; cases "fst (m w)")
      (simp_all add: safe_answer_def done_op_def answer_def attempt_def ret_def Api_RespSucceed_def resp_def)
qed

subsection \<open>The operations that only read\<close>

context gorm_db
begin

lemma calm_check_all_sync [tx_rules]: "calm obs (check_all_sync M c xs)"
  by (induction xs) (auto simp: check_sync_def intro!: tx_rules)

lemma calm_getConfigInstances [tx_rules]: "calm obs (getConfigInstances M c)"
  unfolding getConfigInstances_def by (intro tx_rules)

lemma calm_namespace_details [tx_rules]: "calm obs (namespace_details M cs)"
  by (induction cs) (auto intro!: tx_rules)

lemma calm_mark_template_changes [tx_rules]: "calm obs (mark_template_changes M cs)"
  by (induction cs) (auto simp: checkIsTemplateChange_def intro!: tx_rules)

lemma calm_template_data [tx_rules]: "calm obs (visitTemplateVersionData M v)" "calm obs (visitTemplateData M t)"
  unfolding visitTemplateVersionData_def visitTemplateData_def by (intro tx_rules)+

lemma calm_history_diff [tx_rules]: "calm obs (history_diff M format data v pre)"
  unfolding history_diff_def by (intro tx_rules)

lemma calm_details [tx_rules]:
  "calm obs (GetConfigDetail M i)"
  "calm obs (GetConfigInstances M i)"
  "calm obs (ReleaseConfigDetail M i)"
  "calm obs (ReleaseNamespaceDetail M siteID ns)"
  "calm obs (GetChangeHistoryDetail M i j)"
  "calm obs (GetReleaseHistoryDetail M i j)"
  "calm obs (GetTemplateDetail M i)"
  "calm obs (GetTemplateDetailByNameAndNamespace M name ns siteID)"
  "calm obs (GetTemplateHistoryDetail M i j)"
  "calm obs (GetTemplateOption M siteID)"
  subgoal unfolding GetConfigDetail_def by (intro tx_rules)
  subgoal unfolding GetConfigInstances_def by (intro tx_rules)
  subgoal unfolding ReleaseConfigDetail_def getReleaseConfigDetail_def by (intro tx_rules)
  subgoal unfolding ReleaseNamespaceDetail_def by (intro tx_rules)
  subgoal unfolding GetChangeHistoryDetail_def by (intro tx_rules)
  subgoal unfolding GetReleaseHistoryDetail_def by (intro tx_rules)
  subgoal unfolding GetTemplateDetail_def by (intro tx_rules)
  subgoal unfolding GetTemplateDetailByNameAndNamespace_def by (intro tx_rules)
  subgoal unfolding GetTemplateHistoryDetail_def by (intro tx_rules)
  subgoal unfolding GetTemplateOption_def by (intro tx_rules)
  done

lemma atomic_deletes [tx_rules]: "atomic obs (DeleteConfig M i)" "atomic obs (DeleteTemplate M i)"
  by (simp_all add: DeleteConfig_def DeleteTemplate_def atomic_calm calm_basic)

end

context manager_listings
begin

lemma calm_listings [tx_rules]:
  "calm obs (CountConfigNamespaces L q)" "calm obs (ListConfigNamespaces L q os off lim)"
  "calm obs (CountConfigs L q)" "calm obs (ListConfigs M L q os off lim)"
  "calm obs (CountChangeHistory L q)" "calm obs (ListChangeHistory L q os off lim)"
  "calm obs (CountReleaseHistory L q)" "calm obs (ListReleaseHistory L q os off lim)"
  "calm obs (CountTemplateNamespaces L q)" "calm obs (ListTemplateNamespaces L q os off lim)"
  "calm obs (CountTemplates L q)" "calm obs (ListTemplates L q os off lim)"
  "calm obs (CountTemplateChangeHistory L q)" "calm obs (ListTemplateChangeHistory L q os off lim)"
  unfolding CountConfigNamespaces_def ListConfigNamespaces_def CountConfigs_def ListConfigs_def
    CountChangeHistory_def ListChangeHistory_def CountReleaseHistory_def ListReleaseHistory_def
    CountTemplateNamespaces_def ListTemplateNamespaces_def CountTemplates_def ListTemplates_def
    CountTemplateChangeHistory_def ListTemplateChangeHistory_def
    CountConfigNamespace_def ListConfigNamespace_def CountConfigInfos_def ListConfigInfo_def
    CountConfigVersions_def ListConfigVersion_def CountReleases_def ListRelease_def
    CountTemplateNamespace_def ListTemplateNamespace_def CountTemplates_row_def ListTemplate_def
    CountTemplateVersions_def ListTemplateVersion_def
  by (intro tx_rules calm_on_db l_info.count_abs l_info.list_abs l_version.count_abs l_version.list_abs
      l_release.count_abs l_release.list_abs l_cns.count_abs l_cns.list_abs l_template.count_abs
      l_template.list_abs l_tversion.count_abs l_tversion.list_abs l_tns.count_abs l_tns.list_abs)+

lemma reads_calm:
  assumes R: "rt_manager R = M" "rt_listers R = L"
  shows "calm obs (listConfigNamespaces R req)" "calm obs (listConfigs R req)" "calm obs (getReleaseDetail R req)"
    "calm obs (getReleaseNamespaceDetail R req)" "calm obs (importDefault R req)" "calm obs (getConfigDetail R req)"
    "calm obs (api_getConfigInstances R req)" "calm obs (listChangeHistory R req)"
    "calm obs (getChangeHistoryDetail R req)" "calm obs (listReleaseHistory R req)"
    "calm obs (getReleaseHistoryDetail R req)" "calm obs (listTemplateNamespaces R req)"
    "calm obs (listTemplates R req)" "calm obs (getTemplateDetail R req)"
    "calm obs (getTemplateDetailByNameAndNamespace R req)" "calm obs (getTemplateOptions R req)"
    "calm obs (listTemplateChangeHistory R req)" "calm obs (getTemplateChangeHistoryDetail R req)"
  unfolding listConfigNamespaces_def listConfigs_def getReleaseDetail_def getReleaseNamespaceDetail_def
    importDefault_def getConfigDetail_def api_getConfigInstances_def listChangeHistory_def getChangeHistoryDetail_def
    listReleaseHistory_def getReleaseHistoryDetail_def listTemplateNamespaces_def listTemplates_def
    getTemplateDetail_def getTemplateDetailByNameAndNamespace_def getTemplateOptions_def
    listTemplateChangeHistory_def getTemplateChangeHistoryDetail_def R
  by (intro tx_rules)+

end

lemma handlers_answer:
  "\<forall>(m, p, h)\<in>set (config_routes R). \<forall>req. answers (h req)"
  unfolding config_routes_def list.set ball_simps prod.case addConfig_def listConfigNamespaces_def listConfigs_def
    updateConfig_def api_releaseConfig_def getReleaseDetail_def releaseNamespace_def getReleaseNamespaceDetail_def
    rollbackConfig_def deleteConfig_def importConfigs_def importDefault_def getConfigDetail_def
    api_getConfigInstances_def listChangeHistory_def getChangeHistoryDetail_def listReleaseHistory_def
    getReleaseHistoryDetail_def reloadTemplate_def addTemplate_def listTemplateNamespaces_def listTemplates_def
    updateTemplate_def deleteTemplate_def getTemplateDetail_def getTemplateDetailByNameAndNamespace_def
    getTemplateOptions_def listTemplateChangeHistory_def getTemplateChangeHistoryDetail_def
  by (intro conjI allI TrueI rest_rules)

context manager_listings
begin

lemma writes_safe:
  assumes R: "rt_manager R = M"
  shows "safe obs (addConfig R req)" "safe obs (updateConfig R req)" "safe obs (api_releaseConfig R req)"
    "safe obs (releaseNamespace R req)" "safe obs (rollbackConfig R req)" "safe obs (deleteConfig R req)"
    "safe obs (reloadTemplate R req)" "safe obs (addTemplate R req)" "safe obs (updateTemplate R req)"
    "safe obs (deleteTemplate R req)"
  unfolding addConfig_def updateConfig_def api_releaseConfig_def releaseNamespace_def rollbackConfig_def
    deleteConfig_def reloadTemplate_def addTemplate_def updateTemplate_def deleteTemplate_def R
  by (intro rest_rules atomic_ops atomic_ReloadTemplate atomic_deletes)+

lemma routes_safe:
  assumes "rt_manager R = M" "rt_listers R = L"
  shows "\<forall>(m, p, h)\<in>set (config_routes R). m = ''GET'' \<longrightarrow> (\<forall>req. calm obs (h req))"
    "\<forall>(m, p, h)\<in>set (config_routes R). p \<noteq> ''/import'' \<longrightarrow> (\<forall>req. safe obs (h req))"
proof -
  note rules = reads_calm [OF assms] writes_safe [OF assms(1)]
  show get: "\<forall>(m, p, h)\<in>set (config_routes R). m = ''GET'' \<longrightarrow> (\<forall>req. calm obs (h req))"
    unfolding config_routes_def list.set ball_simps prod.case by (intro conjI TrueI) (simp_all add: rules)
  have writes: "\<forall>(m, p, h)\<in>set (config_routes R). m = ''GET'' \<or> p = ''/import'' \<or> (\<forall>req. safe obs (h req))"
    unfolding config_routes_def list.set ball_simps prod.case by (intro conjI TrueI) (simp_all add: rules)
  show "\<forall>(m, p, h)\<in>set (config_routes R). p \<noteq> ''/import'' \<longrightarrow> (\<forall>req. safe obs (h req))"
    using get writes handlers_answer [of R] safe_calm by fast
qed

end

lemma find_SomeD: "find P xs = Some x \<Longrightarrow> x \<in> set xs \<and> P x"
  by (induction xs) (auto split: if_splits)

lemma dispatch_route:
  assumes "dispatch (config_api join R) req = Some h"
  obtains p where "(hr_method req, p, h) \<in> set (config_routes R)" "hr_route req = join config_root p"
proof -
  obtain x where x: "find (\<lambda>(m, p, f). m = hr_method req \<and> p = hr_route req) (config_api join R) = Some x" "h = snd (snd x)"
    using assms by (auto simp: dispatch_def)
  then have "x \<in> set (config_api join R)" "fst x = hr_method req" "fst (snd x) = hr_route req"
    using find_SomeD by fastforce+
  with x(2) that show thesis by (auto simp: config_api_def)
qed

text \<open>
  C7: a request to the config service, of any route but the import, is answered with an
  entity and never with an error of its own; an answer that is no success means that the database is as before, no
  answer leaves a transaction open, and a \<open>GET\<close> changes nothing at all.
\<close>

theorem rest_atomic:
  assumes "manager_listings M obs L S" and "rt_manager R = M" and "rt_listers R = L"
    and "dispatch (config_api join R) req = Some h" and "hr_route req \<noteq> join config_root ''/import''"
    and "h req w = (r, w')"
  shows "(\<forall>e. r \<noteq> Err e) \<and> (r \<noteq> Panic \<longrightarrow> a_tx (obs (w_db w')) = a_tx (obs (w_db w)))
    \<and> (\<forall>ent. r = Ok ent \<longrightarrow> ent_Code ent = 200 \<or> obs (w_db w') = obs (w_db w))
    \<and> (hr_method req = ''GET'' \<longrightarrow> obs (w_db w') = obs (w_db w))"
proof -
  obtain p where p: "(hr_method req, p, h) \<in> set (config_routes R)" "p \<noteq> ''/import''"
    using dispatch_route [OF assms(4)] assms(5) by metis
  note ok = manager_listings.routes_safe [OF assms(1-3)]
  have "safe obs (h req)" using ok(2) p by fastforce
  then have s: "safe_answer (obs (w_db w)) r (obs (w_db w'))" using assms(6) by (metis safe_def fst_conv snd_conv)
  have "calm obs (h req)" if "hr_method req = ''GET''" using ok(1) p(1) that by fastforce
  then have "obs (w_db w') = obs (w_db w)" if "hr_method req = ''GET''" using calmD that assms(6) by blast
  with s show ?thesis by (auto simp: safe_answer_def split: outcome.splits)
qed

subsection \<open>What the answers hold\<close>

text \<open>
  The kinds of data, and the kind each route answers with: \<open>A_page\<close> where \<open>addRoutes\<close> documents
  \<open>Writes(apis.Page{})\<close>. A page has the size that was asked for, if that is between 1 and 1000.
\<close>

datatype answer_kind = A_nothing | A_page | A_config | A_template | A_instances | A_release | A_namespace | A_history
  | A_options | A_address

fun page_size_of :: "rest_value \<Rightarrow> int option" where
  "page_size_of (V_namespaces p) = Some (pd_PageSize p)"
| "page_size_of (V_configs p) = Some (pd_PageSize p)"
| "page_size_of (V_versions p) = Some (pd_PageSize p)"
| "page_size_of (V_releases p) = Some (pd_PageSize p)"
| "page_size_of (V_template_namespaces p) = Some (pd_PageSize p)"
| "page_size_of (V_templates p) = Some (pd_PageSize p)"
| "page_size_of (V_template_versions p) = Some (pd_PageSize p)"
| "page_size_of _ = None"

fun has_kind :: "answer_kind \<Rightarrow> rest_value payload \<Rightarrow> bool" where
  "has_kind A_nothing d \<longleftrightarrow> d = Nil_data"
| "has_kind A_page (Value v) \<longleftrightarrow> (case page_size_of v of None \<Rightarrow> False | Some n \<Rightarrow> 1 \<le> n \<and> n \<le> MaxPageSize)"
| "has_kind A_config (Value (V_config c)) \<longleftrightarrow> True"
| "has_kind A_template (Value (V_template t)) \<longleftrightarrow> True"
| "has_kind A_instances (Value (V_instances xs)) \<longleftrightarrow> True"
| "has_kind A_release (Value (V_release d xs)) \<longleftrightarrow> True"
| "has_kind A_namespace (Value (V_namespace ds)) \<longleftrightarrow> True"
| "has_kind A_history (Value (V_history d e m)) \<longleftrightarrow> True"
| "has_kind A_options (Value (V_options os)) \<longleftrightarrow> True"
| "has_kind A_address (Value (V_address a)) \<longleftrightarrow> True"
| "has_kind _ _ \<longleftrightarrow> False"

definition route_kind :: "string \<Rightarrow> string \<Rightarrow> answer_kind" where
  "route_kind m p =
     (if m \<noteq> ''GET'' then A_nothing
      else if p \<in> set [''/ns'', ''/'', ''/{id}/history'', ''/release/{id}/history'', ''/template/ns'', ''/template'',
                  ''/template/{id}/history''] then A_page
      else if p \<in> set [''{id}/history/detail'', ''/release/{id}/history/detail'', ''/template/{id}/history/detail'']
        then A_history
      else if p \<in> set [''/template/{id}'', ''/template/detail''] then A_template
      else if p = ''/release/{id}'' then A_release
      else if p = ''/release/ns'' then A_namespace
      else if p = ''/import/default'' then A_address
      else if p = ''/{id}/instances'' then A_instances
      else if p = ''/template/options'' then A_options
      else A_config)"

definition kind_ok :: "answer_kind \<Rightarrow> rest_value entity \<Rightarrow> bool" where
  "kind_ok k ent \<longleftrightarrow> (if ent_Code ent = 200 then ent_Msg ent = ''ok'' \<and> has_kind k (ent_Data ent)
     else ent_Code ent \<in> {4004, 5000, 6000} \<and> ent_Data ent = Text [])"

definition yields :: "answer_kind \<Rightarrow> ('w, rest_value entity) proc \<Rightarrow> bool" where
  "yields k m \<longleftrightarrow> (\<forall>w ent. fst (m w) = Ok ent \<longrightarrow> kind_ok k ent)"

named_theorems yield_rules "handlers that answer with data of a kind"

lemma kind_ok_entities:
  "kind_ok k (NewRespErr ErrReqInvalid e)" "kind_ok k (NewRespErr ErrDBOpsFailed e)" "kind_ok k (NewRespErr ErrSvcFailed e)"
  "kind_ok A_nothing Api_RespSucceed" "kind_ok k (NewRespSucceed v) \<longleftrightarrow> has_kind k (Value v)"
  by (simp_all add: kind_ok_def NewRespErr_def ErrReqInvalid_def ErrDBOpsFailed_def ErrSvcFailed_def
      Api_RespSucceed_def NewRespSucceed_def resp_def)

lemma yields_answer:
  "(\<And>a. kind_ok k (f a)) \<Longrightarrow> yields k (answer ErrDBOpsFailed m f)"
  "(\<And>a. kind_ok k (f a)) \<Longrightarrow> yields k (answer ErrSvcFailed m f)"
  by (auto simp: yields_def answer_def attempt_def ret_def kind_ok_entities split: outcome.splits prod.splits)

lemma yields_data [yield_rules]:
  "yields A_nothing (answer ErrDBOpsFailed m succeed)"
  "yields A_nothing (answer ErrSvcFailed m succeed)"
  "yields A_config (answer ErrDBOpsFailed m2 (\<lambda>c. NewRespSucceed (V_config c)))"
  "yields A_template (answer ErrDBOpsFailed m3 (\<lambda>c. NewRespSucceed (V_template c)))"
  "yields A_instances (answer ErrDBOpsFailed m4 (\<lambda>c. NewRespSucceed (V_instances c)))"
  "yields A_release (answer ErrDBOpsFailed m5 (\<lambda>(d, i). NewRespSucceed (V_release d i)))"
  "yields A_namespace (answer ErrSvcFailed m6 (\<lambda>c. NewRespSucceed (V_namespace c)))"
  "yields A_history (answer ErrDBOpsFailed m7 (\<lambda>(d, e, t). NewRespSucceed (V_history d e t)))"
  "yields A_history (answer ErrDBOpsFailed m8 (\<lambda>e. NewRespSucceed (V_history [] e [])))"
  "yields A_options (answer ErrDBOpsFailed m9 (\<lambda>c. NewRespSucceed (V_options c)))"
  "yields A_address (answer ErrSvcFailed m10 (\<lambda>c. NewRespSucceed (V_address c)))"
  by (auto intro!: yields_answer simp: kind_ok_entities split: prod.split)

lemma yields_parts [yield_rules]:
  "yields k (invalid e)"
  "(\<And>a. yields k (c a)) \<Longrightarrow> yields k (need r c)"
  "yields k m1 \<Longrightarrow> yields k m2 \<Longrightarrow> yields k (if b then m1 else m2)"
  "yields k (l y) \<Longrightarrow> yields k (Let y l)"
  by (auto simp: yields_def invalid_def need_def ret_def kind_ok_entities split: sum.splits)

lemma Offset_per: "pg_PerPageNums (snd (Offset p)) = pg_PerPageNums p"
  by (simp add: Offset_def Page_def PageNums_def Let_def split: prod.split)

lemma pager_size: "1 \<le> sz \<Longrightarrow> pg_PerPageNums (snd (Offset (SetPaginator req sz n))) = sz"
  by (simp add: Offset_per SetPaginator_def)

lemma yields_page:
  assumes "\<And>pg. pd_PageSize pg = per \<Longrightarrow> has_kind A_page (Value (v pg))" and "1 \<le> per"
  shows "yields A_page (page_answer req per orders n rows v)"
proof -
  have "kind_ok A_page (NewRespSucceed (v (NewPage pn xs)))" if "Offset (SetPaginator req per m) = (o1, pn)" for m o1 pn xs
    using assms(1) [of "NewPage pn xs"] pager_size [OF assms(2), of req m] that
    by (simp add: kind_ok_entities NewPage_def)
  then show ?thesis
    by (auto simp: yields_def page_answer_def answer_def attempt_def ret_def invalid_def kind_ok_entities
        split: outcome.splits prod.splits)
qed

lemma yields_listing:
  assumes "\<And>sz. 1 \<le> sz \<Longrightarrow> sz \<le> MaxPageSize \<Longrightarrow> yields A_page (c sz)"
  shows "yields A_page (need (checkPageParams req) (\<lambda>(sz, _). c sz))"
proof -
  have "yields A_page (c sz)" if "checkPageParams req = Inr (sz, page)" for sz page
    using assms checkPageParams_size [OF that] by (simp add: MaxPageSize_def)
  then show ?thesis
    by (auto simp: need_def yields_def invalid_def ret_def kind_ok_entities split: sum.splits prod.splits)
qed

lemma yields_lists [yield_rules]:
  "yields A_page (listConfigNamespaces R req)" "yields A_page (listConfigs R req)" "yields A_page (listChangeHistory R req)"
  "yields A_page (listReleaseHistory R req)" "yields A_page (listTemplateNamespaces R req)"
  "yields A_page (listTemplates R req)" "yields A_page (listTemplateChangeHistory R req)"
  unfolding listConfigNamespaces_def listConfigs_def listChangeHistory_def listReleaseHistory_def
    listTemplateNamespaces_def listTemplates_def listTemplateChangeHistory_def
  by (intro yields_listing yield_rules yields_page; simp)+

lemma routes_yield: "\<forall>(m, p, h)\<in>set (config_routes R). \<forall>req. yields (route_kind m p) (h req)"
proof -
  have others: "yields A_nothing (addConfig R req)" "yields A_nothing (updateConfig R req)"
    "yields A_nothing (api_releaseConfig R req)" "yields A_release (getReleaseDetail R req)"
    "yields A_nothing (releaseNamespace R req)" "yields A_namespace (getReleaseNamespaceDetail R req)"
    "yields A_nothing (rollbackConfig R req)" "yields A_nothing (deleteConfig R req)"
    "yields A_nothing (importConfigs R req)" "yields A_address (importDefault R req)"
    "yields A_config (getConfigDetail R req)" "yields A_instances (api_getConfigInstances R req)"
    "yields A_history (getChangeHistoryDetail R req)" "yields A_history (getReleaseHistoryDetail R req)"
    "yields A_nothing (reloadTemplate R req)" "yields A_nothing (addTemplate R req)"
    "yields A_nothing (updateTemplate R req)" "yields A_nothing (deleteTemplate R req)"
    "yields A_template (getTemplateDetail R req)" "yields A_template (getTemplateDetailByNameAndNamespace R req)"
    "yields A_options (getTemplateOptions R req)" "yields A_history (getTemplateChangeHistoryDetail R req)" for req
    unfolding addConfig_def updateConfig_def api_releaseConfig_def getReleaseDetail_def releaseNamespace_def
      getReleaseNamespaceDetail_def rollbackConfig_def deleteConfig_def importConfigs_def importDefault_def
      getConfigDetail_def api_getConfigInstances_def getChangeHistoryDetail_def getReleaseHistoryDetail_def
      reloadTemplate_def addTemplate_def updateTemplate_def deleteTemplate_def getTemplateDetail_def
      getTemplateDetailByNameAndNamespace_def getTemplateOptions_def getTemplateChangeHistoryDetail_def
    by (intro yield_rules)+
  show ?thesis
    unfolding config_routes_def list.set ball_simps prod.case
    by (intro conjI TrueI allI) (simp_all add: route_kind_def others yields_lists)
qed

text \<open>
  C31: an answer of the config service is a success with the data its route promises (a page
  exactly for the routes documented with \<open>apis.Page\<close>, and of a size from 1 to 1000), or one of the codes 4004, 5000
  and 6000 with the empty text for data.
\<close>

theorem rest_answer_type:
  assumes "(m, p, h) \<in> set (config_routes R)" and "h req w = (Ok ent, w')"
  shows "if ent_Code ent = 200 then ent_Msg ent = ''ok'' \<and> has_kind (route_kind m p) (ent_Data ent)
    else ent_Code ent \<in> {4004, 5000, 6000} \<and> ent_Data ent = Text []"
proof -
  have "yields (route_kind m p) (h req)" using routes_yield assms(1) by fast
  then have "kind_ok (route_kind m p) ent" unfolding yields_def using assms(2) by (metis fst_conv)
  then show ?thesis by (simp add: kind_ok_def)
qed

end
