(* ===== verification/Rest_Pages.thy ===== *)
theory Rest_Pages
  imports Rest_Props
begin

section \<open>The pages of a listing\<close>

text \<open>
  What a client gets who asks for one page after the other: the requests, the rows of an answer, and that the
  pages together are the listing. With the witnesses for the properties of the config service.
\<close>

text \<open>The request for a page of the release history of a config.\<close>

definition history_request :: "nat \<Rightarrow> nat \<Rightarrow> nat \<Rightarrow> request" where
  "history_request i per k = \<lparr>hr_method = ''GET'', hr_route = ''/api/v1/configs/release/{id}/history'',
     hr_path = [(''id'', nat_str i)], hr_form = [(''page_size'', nat_str per), (''current_page'', nat_str k)],
     hr_headers = [], hr_user = None\<rparr>"

fun shown_releases :: "rest_value entity outcome \<Rightarrow> Release list" where
  "shown_releases (Ok ent) = (case ent_Data ent of Value (V_releases p) \<Rightarrow> pd_Data p | _ \<Rightarrow> [])"
| "shown_releases _ = []"

fun succeeded :: "rest_value entity outcome \<Rightarrow> bool" where
  "succeeded (Ok ent) \<longleftrightarrow> ent_Code ent = 200"
| "succeeded _ \<longleftrightarrow> False"

definition history_query :: "nat \<Rightarrow> string" where
  "history_query i = ''config_info_id = '' @ itoa (int i) @ '' AND '' @ not_deleted_sql"

lemma trim_nat_str [simp]: "trim_space (nat_str n) = nat_str n"
  by (rule trim_space_graphic) (simp_all add: digit_graphic nat_str_digits [of _ n])

lemma history_params:
  assumes "i < 2 ^ 63" "0 < per" "per \<le> 1000" "0 < k" "k < 2 ^ 63"
  shows "checkPageParams (history_request i per k) = Inr (int per, int k)"
    "checkNumberParam (history_request i per k) ''id'' True = Inr (int i)"
  using assms by (simp_all add: history_request_def checkPageParams_def checkNumberParam_def trimmed_param_def query_param_def
      path_param_def map_get_def atoi_nat_str num_result_def MaxPageSize_def Let_def)

lemma Offset_form:
  "map_get f ''current_page'' = map_get g ''current_page'' \<Longrightarrow>
    fst (Offset (NewPaginator f per n)) = fst (Offset (NewPaginator g per n))"
  by (simp add: Offset_def Page_def PageNums_def NewPaginator_def SetNums_def Let_def)

lemma page_answer_success:
  assumes "succeeded (fst (page_answer req per orders counted rows v w))"
  obtains n w1 xs w2 where "counted w = (Ok n, w1)"
    "rows orders (fst (Offset (SetPaginator req per n))) per w1 = (Ok xs, w2)"
    "fst (page_answer req per orders counted rows v w)
       = Ok (NewRespSucceed (v (NewPage (snd (Offset (SetPaginator req per n))) xs)))"
proof -
  obtain r w1 where c: "counted w = (r, w1)" by fastforce
  show thesis
  proof (cases r)
    case (Ok n)
    obtain off pn where o: "Offset (SetPaginator req per n) = (off, pn)" by fastforce
    obtain q w2 where l: "rows orders off per w1 = (q, w2)" by fastforce
    from assms c Ok o l show thesis
      by (cases q) (auto simp: page_answer_def attempt_def answer_def ret_def NewRespErr_def ErrDBOpsFailed_def
          resp_def intro: that)
  qed (use assms c in \<open>auto simp: page_answer_def attempt_def invalid_def ret_def NewRespErr_def ErrReqInvalid_def resp_def\<close>)
qed

text \<open>One page: the rows that \<open>page_of\<close> describes.\<close>

lemma release_page:
  assumes l: "listing (ls_release (rt_listers R)) obs v_release rl_ID sat"
    and D: "a_db (obs (w_db w)) = D" "distinct (map rl_ID (v_release D))" "length (v_release D) < 2 ^ 63"
    and rows: "rows = rev (sort_key rl_ID (filter (sat (history_query i)) (v_release D)))"
    and b: "i < 2 ^ 63" "0 < per" "per \<le> 1000" "0 < k" "k < 2 ^ 63"
    and ok: "succeeded (fst (listReleaseHistory R (history_request i per k) w))"
  shows "shown_releases (fst (listReleaseHistory R (history_request i per k) w)) = page_of (int per) k rows"
proof -
  let ?req = "history_request i per k" and ?L = "rt_listers R" and ?q = "history_query i"
  let ?v = "V_releases" and ?os = "[''id desc'']"
  have run: "listReleaseHistory R ?req = page_answer ?req (int per) ?os (CountReleaseHistory ?L ?q) (ListReleaseHistory ?L ?q) ?v"
    by (simp add: listReleaseHistory_def history_params [OF b] need_def Let_def history_query_def)
  obtain n w1 xs w2 where n: "CountReleaseHistory ?L ?q w = (Ok n, w1)"
    and xs: "ListReleaseHistory ?L ?q ?os (fst (Offset (SetPaginator ?req (int per) n))) (int per) w1 = (Ok xs, w2)"
    and r: "fst (listReleaseHistory R ?req w) = Ok (NewRespSucceed (?v (NewPage (snd (Offset (SetPaginator ?req (int per) n))) xs)))"
    using page_answer_success ok unfolding run by metis
  have c: "q_count (ls_release ?L) ?q (w_db w) = (Ok n, w_db w1)"
    using on_db_run n unfolding CountReleaseHistory_def CountReleases_def by blast
  have len: "length rows = length (filter (sat ?q) (v_release D))" using rows by simp
  then have n_len: "n = int (length rows)" using listing.count_Ok [OF l c] D(1) by simp
  have obs1: "obs (w_db w1) = obs (w_db w)" using listing.count_abs [OF l, of ?q "w_db w"] c by simp
  let ?off = "fst (Offset (SetPaginator ?req (int per) n))"
  have small: "length rows < 2 ^ 63" using len D(3) le_less_trans [OF length_filter_le] by metis
  have fresh: "fresh_pager (SetPaginator ?req (int per) n)" unfolding SetPaginator_def n_len by (intro fresh_NewPaginator) simp
  have "0 \<le> ?off" by (rule Offset_fresh(2) [OF fresh]) (use small n_len in \<open>simp add: SetPaginator_def toInt64_def\<close>)
  moreover have "q_list (ls_release ?L) ?q by_id_desc ?off (int per) (w_db w1) = (Ok xs, w_db w2)"
    using xs by (auto simp: ListReleaseHistory_def ListRelease_def andthen_Ok_iff ret_def by_id_desc_def dest: on_db_run)
  ultimately have "xs = take (nat (int per)) (drop (nat ?off) rows)"
    using listing.list_by_id [OF l] b(2) D obs1 rows by fastforce
  moreover have "?off = fst (Offset (NewPaginator [(''current_page'', nat_str k)] (int per) (Signed (int (length rows)))))"
    unfolding SetPaginator_def n_len by (rule Offset_form) (simp add: history_request_def map_get_def)
  ultimately show ?thesis using r by (simp add: page_of_def NewRespSucceed_def NewPage_def)
qed

lemma page_count_le: "0 < per \<Longrightarrow> page_count (int per) rows \<le> length rows"
proof -
  assume per: "0 < per"
  let ?n = "int (length rows)"
  have "ceil_div ?n (int per) * int per < ?n + int per" using per by (intro ceil_div_bounds) simp
  then have "(ceil_div ?n (int per) - 1) * int per < ?n" by (simp add: algebra_simps)
  moreover have "ceil_div ?n (int per) - 1 \<le> (ceil_div ?n (int per) - 1) * int per" if "1 \<le> ceil_div ?n (int per)"
    using that per mult_left_mono [of 1 "int per" "ceil_div ?n (int per) - 1"] by simp
  ultimately have "ceil_div ?n (int per) \<le> ?n" by linarith
  then show ?thesis using per fresh_NewPaginator [of ?n "[]" "int per"]
    by (simp add: page_count_def PageNums_fresh toInt64_def)
qed

text \<open>
  C17: the pages of the release history of a config, fetched one after the other while nothing
  is written, are together the releases the query selects, each once, the newest first.
\<close>

theorem release_pages:
  assumes "listing (ls_release (rt_listers R)) obs v_release rl_ID sat"
    and "\<forall>k. a_db (obs (w_db (ws k))) = D" and "distinct (map rl_ID (v_release D))" and "length (v_release D) < 2 ^ 63"
    and "i < 2 ^ 63" and "0 < per" and "per \<le> 1000"
    and "rows = rev (sort_key rl_ID (filter (sat (history_query i)) (v_release D)))"
    and "\<forall>k<page_count (int per) rows. succeeded (fst (listReleaseHistory R (history_request i per (Suc k)) (ws k)))"
  shows "concat (map (\<lambda>k. shown_releases (fst (listReleaseHistory R (history_request i per (Suc k)) (ws k))))
    [0..<page_count (int per) rows]) = rows"
proof -
  have small: "length rows < 2 ^ 63" using assms(4,8) le_less_trans [OF length_filter_le] by auto
  have "page_count (int per) rows \<le> length rows" using assms(6) by (rule page_count_le)
  with small have "k < page_count (int per) rows \<Longrightarrow> Suc k < 2 ^ 63" for k by linarith
  then have pages: "map (\<lambda>k. shown_releases (fst (listReleaseHistory R (history_request i per (Suc k)) (ws k)))) [0..<page_count (int per) rows]
      = map (\<lambda>k. page_of (int per) (Suc k) rows) [0..<page_count (int per) rows]"
    using assms by (intro map_cong refl release_page) auto
  show ?thesis unfolding pages by (rule pages_cover) (use assms(6) small in simp_all)
qed

subsection \<open>Witnesses\<close>

definition demo_rest :: "mem_db rest" where
  "demo_rest = \<lparr>rt_manager = demo_manager, rt_listers = demo_listers, rt_print = (\<lambda>r. False),
     rt_import = \<lparr>it_sprintf = (\<lambda>s. s), it_docker = Some (External ''docker''), it_now = ''1'',
       it_copy = (\<lambda>a s d. None), it_dir = (\<lambda>d. Inr []), it_walk = (\<lambda>d. [])\<rparr>,
     rt_config = (\<lambda>req. Inr demo_config), rt_template = (\<lambda>req. Inl (External ''EOF'')),
     rt_file = (\<lambda>req. Inl (External ''no such file'')), rt_dist = (\<lambda>req. ''/tmp/data/1'')\<rparr>"

definition demo_conditions :: conditions where
  "demo_conditions = \<lparr>sa_info = (\<lambda>_ c. ci_Status c \<noteq> ''deleted''), sa_version = (\<lambda>_ _. True), sa_release = (\<lambda>_ _. True),
     sa_cns = (\<lambda>_ _. True), sa_template = (\<lambda>_ _. True), sa_tversion = (\<lambda>_ _. True), sa_tns = (\<lambda>_ _. True)\<rparr>"

interpretation demo_rest: manager_listings demo_manager mem_obs demo_listers demo_conditions
  by (rule manager_listings.intro [OF demo_gorm])
    (simp_all add: demo_listers_def demo_conditions_def mem_lister_laws)

definition add_request :: request where
  "add_request = \<lparr>hr_method = ''POST'', hr_route = ''/api/v1/configs/'', hr_path = [], hr_form = [], hr_headers = [], hr_user = None\<rparr>"

theorem rest_atomic_witness:
  "\<exists>h ent w'. dispatch (config_api (@) demo_rest) add_request = Some h
    \<and> h add_request (demo_world demo_rows) = (Ok ent, w') \<and> ent_Code ent = 5000
    \<and> mem_obs (w_db w') = mem_obs (w_db (demo_world demo_rows))"
proof -
  let ?h = "addConfig demo_rest"
  have d: "dispatch (config_api (@) demo_rest) add_request = Some ?h"
    by (simp add: dispatch_def config_api_def config_routes_def config_root_def add_request_def)
  have i: "hr_route add_request \<noteq> config_root @ ''/import''" by (simp add: add_request_def config_root_def)
  let ?r = "?h add_request (demo_world demo_rows)"
  have "fst ?r = Ok \<lparr>ent_Code = 5000, ent_Msg = ''DB OPS Failed: duplicate key'', ent_Data = Text []\<rparr>" by code_simp
  then obtain ent where e: "?r = (Ok ent, snd ?r)" "ent_Code ent = 5000"
    by (metis (no_types, lifting) RespEntity.select_convs(1) prod.collapse)
  from rest_atomic [OF demo_rest.manager_listings_axioms _ _ d i e(1)] e
  show ?thesis using d by (auto simp: demo_rest_def)
qed

lemma demo_history:
  assumes "i < 2 ^ 63" "0 < per" "per \<le> 1000" "0 < k" "k < 2 ^ 63"
  shows "\<exists>p. listReleaseHistory demo_rest (history_request i per k) (demo_world v)
    = (Ok (NewRespSucceed (V_releases p)), demo_world v)"
  by (simp add: listReleaseHistory_def history_params [OF assms] need_def page_answer_def attempt_def answer_def
      ret_def on_db_def CountReleaseHistory_def CountReleases_def ListReleaseHistory_def ListRelease_def andthen_def
      demo_rest_def demo_listers_def mem_lister_def demo_world_def Let_def split: prod.split) blast

lemma demo_bounds: "(1 :: nat) < 2 ^ 63" "(0 :: nat) < 1" "(1 :: nat) \<le> 1000"
  by simp_all

theorem rest_answer_type_witness:
  "\<exists>ent. listReleaseHistory demo_rest (history_request 1 1 1) (demo_world demo_rows2) = (Ok ent, demo_world demo_rows2)
    \<and> has_kind A_page (ent_Data ent)"
proof -
  from demo_history [OF demo_bounds demo_bounds(2,1), of demo_rows2] obtain p where
    r: "listReleaseHistory demo_rest (history_request 1 1 1) (demo_world demo_rows2)
      = (Ok (NewRespSucceed (V_releases p)), demo_world demo_rows2)" by (elim exE) (rule that)
  have "(''GET'', ''/release/{id}/history'', listReleaseHistory demo_rest) \<in> set (config_routes demo_rest)"
    by (simp add: config_routes_def)
  from rest_answer_type [OF this r] have "has_kind A_page (ent_Data (NewRespSucceed (V_releases p) :: rest_value entity))"
    by (simp add: route_kind_def NewRespSucceed_def)
  with r show ?thesis by (intro exI conjI)
qed

theorem release_pages_witness:
  "concat (map (\<lambda>k. shown_releases (fst (listReleaseHistory demo_rest (history_request 1 1 (Suc k)) (demo_world demo_rows2))))
    [0..<2]) = [demo_release\<lparr>rl_ID := 4, rl_Version := 2, rl_ConfigVersionID := 6, rl_Digest := ''digest of b''\<rparr>, demo_release]"
proof -
  let ?new = "demo_release\<lparr>rl_ID := 4, rl_Version := 2, rl_ConfigVersionID := 6, rl_Digest := ''digest of b''\<rparr>"
  have l: "listing (ls_release (rt_listers demo_rest)) mem_obs v_release rl_ID (\<lambda>_ _. True)"
    by (simp add: demo_rest_def demo_listers_def mem_lister_laws)
  have rel: "v_release demo_rows2 = [demo_release, ?new]" by (simp add: demo_rows2_def)
  then have d: "distinct (map rl_ID (v_release demo_rows2))" "length (v_release demo_rows2) < 2 ^ 63"
    by (simp_all add: demo_release_def)
  have rows: "[?new, demo_release] = rev (sort_key rl_ID (filter ((\<lambda>_ _. True) (history_query 1)) (v_release demo_rows2)))"
    by (simp add: rel demo_release_def)
  have n: "page_count (int 1) [?new, demo_release] = 2"
    by (simp add: page_count_def PageNums_fresh fresh_NewPaginator ceil_div_def toInt64_def)
  have ok: "\<forall>k<page_count (int 1) [?new, demo_release].
      succeeded (fst (listReleaseHistory demo_rest (history_request 1 1 (Suc k)) (demo_world demo_rows2)))"
  proof (intro allI impI)
    fix k assume "k < page_count (int 1) [?new, demo_release]"
    then have "0 < Suc k" "Suc k < 2 ^ 63" using n by simp_all
    from demo_history [OF demo_bounds this, of demo_rows2]
    show "succeeded (fst (listReleaseHistory demo_rest (history_request 1 1 (Suc k)) (demo_world demo_rows2)))"
      by (auto simp: NewRespSucceed_def)
  qed
  have w: "\<forall>k. a_db (mem_obs (w_db (demo_world demo_rows2))) = demo_rows2" by (simp add: demo_world_def)
  from release_pages [OF l w d demo_bounds rows ok] show ?thesis unfolding n .
qed

end
