(* ===== verification/Auth_Props.thy ===== *)
theory Auth_Props
  imports Auth_Manager Rest_Pages
begin

section \<open>What the authorisation guarantees\<close>

text \<open>
  No handler runs for a request that has not been identified and allowed; what the resources of a user allow;
  how long a token lives; which resources are uploaded for which role.
\<close>

subsection \<open>Who makes the request\<close>

text \<open>The user of a request as a step of its own: an error is an answer 7000.\<close>

definition identify :: "'s auth_manager \<Rightarrow> request \<Rightarrow> ('s, User) proc" where
  "identify am req =
     (let jwt = header req headerAuthorization; mayaToken = header req headerMayaToken
      in if jwt = [] \<and> mayaToken = [] then fail (Errorf ''auth token not present'')
         else if jwt \<noteq> [] then attempt (Authorized am jwt) (\<lambda>err. fail (Wrap ''jwt token invalid: '' err)) ret
         else case b64_decode mayaToken of
             Inl err \<Rightarrow> fail (Wrap ''decode Maya-Token failed: '' err)
           | Inr author \<Rightarrow>
               (case split_on CHR '':'' author of
                  [name, secret] \<Rightarrow>
                    attempt (LoginBySecret (am_authSDK am) name secret)
                      (\<lambda>err. fail (Wrap ''login to auth failed: '' err)) ret
                | _ \<Rightarrow> fail (Errorf ''Maya-Token invalid'')))"

lemma attempt_fail: "attempt (fail e) h k = h e"
  by (simp add: attempt_def fail_def)

lemma attempt_ret: "attempt (ret a) h k = k a"
  by (simp add: attempt_def ret_def)

lemma attempt_attempt:
  "attempt (attempt m (\<lambda>e. fail (f e)) ret) h k = attempt m (\<lambda>e. h (f e)) k"
  by (auto simp: attempt_def fail_def ret_def fun_eq_iff split: outcome.splits prod.splits)

lemma with_user_identify:
  "with_user am req k = attempt (identify am req) (refuse ErrUnauthorized) k"
proof -
  have "(case split_on CHR '':'' author of
      [name, secret] \<Rightarrow> attempt (LoginBySecret (am_authSDK am) name secret)
        (\<lambda>err. refuse ErrUnauthorized (Wrap ''login to auth failed: '' err)) k
      | _ \<Rightarrow> refuse ErrUnauthorized (Errorf ''Maya-Token invalid''))
    = attempt (case split_on CHR '':'' author of
      [name, secret] \<Rightarrow> attempt (LoginBySecret (am_authSDK am) name secret)
        (\<lambda>err. fail (Wrap ''login to auth failed: '' err)) ret
      | _ \<Rightarrow> fail (Errorf ''Maya-Token invalid'')) (refuse ErrUnauthorized) k" for author
    by (simp add: attempt_fail attempt_attempt split: list.split)
  then show ?thesis
    by (simp add: with_user_def identify_def Let_def attempt_fail attempt_attempt split: sum.split)
qed

lemma calm_sdk [tx_rules]:
  assumes "\<forall>q. calm obs (sk_do a q)" and "\<forall>s. obs (w_db (snd (sk_stamp a s))) = obs (w_db s)"
  shows "calm obs (client_token a)" "calm obs (GetUserResources a u)" "calm obs (LoginBySecret a u secret)"
proof -
  show token: "calm obs (client_token a)"
    unfolding calm_def using assms(2) by (auto simp: client_token_def split: prod.split) (metis snd_conv)
  show "calm obs (GetUserResources a u)"
    unfolding GetUserResources_def sdk_get_def doRequest_def Let_def
    by (cases "sk_new_request a (ac_APIHost (sk_config a) @ ''/api/'' @ RUserResources @ ''?user_id='' @ u)")
      (auto intro!: tx_rules token assms(1)[rule_format])
  have request: "calm obs (sdk_request a m path tok params)" for m path tok params
    unfolding sdk_request_def doRequest2_def Let_def
    by (cases "sk_new_request a (request_url a path params)") (auto intro!: tx_rules assms(1)[rule_format])
  have user: "calm obs (getUserByToken a tok)" for tok
    unfolding getUserByToken_def Let_def by (intro calm_attempt request calm_basic) (auto intro!: tx_rules split: sum.split)
  have "calm obs (queryTokenFromOauth2BySecret a u secret)"
    unfolding calm_def
  proof
    fix w
    obtain stamp w1 where st: "sk_stamp a w = (stamp, w1)" by fastforce
    then have o1: "obs (w_db w1) = obs (w_db w)" using assms(2) by (metis snd_conv)
    have "calm obs (andthen (client_token a) (\<lambda>jwt.
          attempt (sdk_request a ''POST'' ''/oauth2/token?'' jwt (token_params a t))
            (\<lambda>err. fail (Wrap ''Do request error: '' err)) (\<lambda>data.
          case js_token (sk_json a) data of
            Inl err \<Rightarrow> fail (Wrap ''to Json Failed! error: '' err)
          | Inr token \<Rightarrow>
              if tk_Error token \<noteq> [] then fail (Errorf (tk_Error token @ '':'' @ tk_ErrorDescription token))
              else ret token)))" for t
      by (intro tx_rules token request) (auto intro!: tx_rules split: sum.split)
    then show "obs (w_db (snd (queryTokenFromOauth2BySecret a u secret w))) = obs (w_db w)"
      using o1 by (auto simp: queryTokenFromOauth2BySecret_def st calm_def fail_def split: sum.split)
  qed
  then show "calm obs (LoginBySecret a u secret)"
    unfolding LoginBySecret_def by (intro calm_attempt user calm_basic)
qed

lemma calm_identify:
  assumes "\<forall>q. calm obs (sk_do (am_authSDK am) q)"
    and "\<forall>s. obs (w_db (snd (sk_stamp (am_authSDK am) s))) = obs (w_db s)"
  shows "calm obs (identify am req)"
proof -
  have "calm obs (Authorized am t)" for t
    by (simp add: Authorized_def calm_def lift_sum_def fail_def ret_def split: sum.split)
  then show ?thesis
    unfolding identify_def Let_def
    by (auto intro!: tx_rules calm_sdk(3) [OF assms] split: sum.split list.split)
qed

text \<open>
  When a request has changed the database, its route is excluded from the authorisation or
  the authorisation is switched off, or the request was identified as one of a user, the auth system
  lists resources of that user which allow the route, and the handler was run with this user.
\<close>

theorem request_guarded:
  assumes "\<forall>q. calm obs (sk_do (am_authSDK am) q)"
    and "\<forall>s. obs (w_db (snd (sk_stamp (am_authSDK am) s))) = obs (w_db s)"
    and "AuthFilter am req chain w = (r, w')" and "obs (w_db w') \<noteq> obs (w_db w)"
  shows "am_authSkip am \<or> isExcluded am req \<or> (\<exists>user w1 rs w2. identify am req w = (Ok user, w1)
    \<and> GetUserResources (am_authSDK am) (us_ID user) w1 = (Ok rs, w2) \<and> resources_allow (parseReqResource req) rs
    \<and> us_ID user \<noteq> [] \<and> chain (req\<lparr>hr_user := Some user\<rparr>) w2 = (r, w'))"
proof (cases "am_authSkip am \<or> isExcluded am req")
  case False
  let ?k = "\<lambda>user. let resource = parseReqResource req
        in andthen (Authenticated am user resource) (\<lambda>ok.
           if \<not> ok then refuse ErrReqForbidden (Errorf (''no authority to access: '' @ ri_Name resource))
           else if us_ID user = [] then refuse ErrUnauthorized (Errorf ''user info is empty'')
           else chain (req\<lparr>hr_user := Some user\<rparr>))"
  have run: "attempt (identify am req) (refuse ErrUnauthorized) ?k w = (r, w')"
    using assms(3) False by (simp add: AuthFilter_def with_user_identify)
  obtain q w1 where q: "identify am req w = (q, w1)" by fastforce
  have o1: "obs (w_db w1) = obs (w_db w)" by (rule calmD [OF calm_identify [OF assms(1,2)] q])
  with run q assms(4) obtain user where user: "q = Ok user" "?k user w1 = (r, w')"
    by (cases q) (auto simp: attempt_def refuse_def ret_def)
  obtain q2 w2 where q2: "GetUserResources (am_authSDK am) (us_ID user) w1 = (q2, w2)" by fastforce
  have "obs (w_db w2) = obs (w_db w)" using calmD [OF calm_sdk(2) [OF assms(1,2)] q2] o1 by simp
  with user(2) q2 assms(4) obtain rs where "q2 = Ok rs" "resources_allow (parseReqResource req) rs"
    "us_ID user \<noteq> []" "chain (req\<lparr>hr_user := Some user\<rparr>) w2 = (r, w')"
    by (cases q2) (auto simp: Let_def Authenticated_def andthen_def attempt_def refuse_def ret_def fail_def split: if_splits)
  with q user(1) q2 show ?thesis by blast
qed blast

subsection \<open>What the resources of a user allow\<close>

text \<open>The search goes on after a resource that has another name, that is a star, or whose values fit.\<close>

definition lets_pass :: "ResourceInfo \<Rightarrow> APIResource \<Rightarrow> bool" where
  "lets_pass resource x \<longleftrightarrow> ar_Name x = ri_Name resource \<longrightarrow> ar_Data x = ''*'' \<or>
     (\<exists>va vr. ParseQuery (ar_Data x) = Inr va \<and> ParseQuery (ri_Data resource) = Inr vr \<and> values_allowed va vr)"

lemma resources_allow_step:
  "resources_allow resource (x # xs) \<longleftrightarrow>
    ar_Name x = ri_Name resource \<and> ar_Data x = ''*'' \<or> lets_pass resource x \<and> resources_allow resource xs"
  by (auto simp: lets_pass_def split: sum.splits)

lemma resources_allow_iff:
  "resources_allow resource rs \<longleftrightarrow> (\<exists>pre r post. rs = pre @ r # post \<and> ar_Name r = ri_Name resource
     \<and> ar_Data r = ''*'' \<and> list_all (lets_pass resource) pre)"
proof
  assume "resources_allow resource rs"
  then show "\<exists>pre r post. rs = pre @ r # post \<and> ar_Name r = ri_Name resource
     \<and> ar_Data r = ''*'' \<and> list_all (lets_pass resource) pre"
  proof (induction rs)
    case (Cons x xs)
    then consider "ar_Name x = ri_Name resource \<and> ar_Data x = ''*''"
      | pre r post where "lets_pass resource x" "xs = pre @ r # post" "ar_Name r = ri_Name resource" "ar_Data r = ''*''"
        "list_all (lets_pass resource) pre" using resources_allow_step by blast
    then show ?case
    proof cases
      case 1
      then show ?thesis by (intro exI [of _ "[]"]) simp
    next
      case 2
      then show ?thesis by (intro exI [of _ "x # pre"] exI [of _ r] exI [of _ post]) simp
    qed
  qed simp
next
  have "resources_allow resource (pre @ r # post)"
    if "ar_Name r = ri_Name resource" "ar_Data r = ''*''" "list_all (lets_pass resource) pre" for pre r post
    using that by (induction pre) (simp_all add: resources_allow_step del: resources_allow.simps)
  then show "\<exists>pre r post. rs = pre @ r # post \<and> ar_Name r = ri_Name resource
     \<and> ar_Data r = ''*'' \<and> list_all (lets_pass resource) pre \<Longrightarrow> resources_allow resource rs" by blast
qed

text \<open>
  C38: a user is let through exactly when a resource of the route with the data
  \<open>*\<close> is listed and no resource of the route before it has values that do not fit: a list of
  values alone never lets anyone through.
\<close>

theorem authenticated_iff:
  "fst (Authenticated am user resource s) = Ok True \<longleftrightarrow>
    (\<exists>pre r post s'. GetUserResources (am_authSDK am) (us_ID user) s = (Ok (pre @ r # post), s')
      \<and> ar_Name r = ri_Name resource \<and> ar_Data r = ''*'' \<and> list_all (lets_pass resource) pre)"
  by (auto simp: Authenticated_def attempt_def ret_def resources_allow_iff split: outcome.splits prod.splits)

subsection \<open>Tokens\<close>

lemma ttl_seconds_set:
  assumes "0 \<le> ttl" "ttl \<le> 9223372036"
  shows "ttl_seconds (SetTokenTTL ttl jtm) = ttl"
proof -
  have "int64 (ttl * Second)" using assms by (simp add: int64_def Second_def)
  then show ?thesis using assms by (simp add: SetTokenTTL_def Let_def ttl_seconds_def wrap64_id Second_def)
qed


subsection \<open>The roles and the resources\<close>

definition method_of :: "auth_resource \<Rightarrow> string" where
  "method_of r = hd (split_on CHR '':'' (rs_name r))"

definition role_of :: "auth_resource \<Rightarrow> string option" where
  "role_of r = (if method_of r \<in> {''POST'', ''PUT'', ''DELETE''} then Some ''editor''
     else if method_of r = ''GET'' then Some ''reader'' else None)"

definition role_list :: "'s auth_manager \<Rightarrow> string \<Rightarrow> auth_resource list" where
  "role_list am role = (case map_of (am_roleResources am) role of None \<Rightarrow> [] | Some rs \<Rightarrow> rs)"

lemma role_list_append: "role_list (append_resource role' r am) role = role_list am role @ (if role = role' then [r] else [])"
  by (simp add: role_list_def append_resource_def)

lemma addResource_role: "snd (addResource r am) = (case role_of r of None \<Rightarrow> am | Some role \<Rightarrow> append_resource role r am)"
  by (simp add: addResource_def role_of_def method_of_def Let_def)

lemma role_list_fold:
  "role_list (fold (\<lambda>r am. snd (addResource r am)) rs am) role
    = role_list am role @ filter (\<lambda>r. role_of r = Some role) rs"
  by (induction rs arbitrary: am) (auto simp: addResource_role role_list_append split: option.split)

text \<open>
  C39: the resources of a role are those of the registered routes, in their order: the editor has
  the routes with POST, PUT and DELETE, the reader those with GET, and nobody has the others.
\<close>

theorem role_resources:
  "role_list (buildRoleResources (NewAuthManager now container tm sdk skip)) role
    = filter (\<lambda>r. role_of r = Some role) (buildResources (NewAuthManager now container tm sdk skip))"
  unfolding buildRoleResources_def role_list_fold by (simp add: role_list_def NewAuthManager_def)

subsection \<open>The requests to the auth system\<close>

lemma ParseQuery_parts:
  assumes "ps \<noteq> []" and "\<forall>p\<in>set ps. CHR ''&'' \<notin> set p \<and> CHR '';'' \<notin> set p"
  shows "ParseQuery (join_with ''&'' ps) = parse_parts ps []"
proof -
  have "CHR '';'' \<notin> set (join_with ''&'' ps)"
    using assms(2) by (induction "''&''" ps rule: join_with.induct) auto
  then have "map (\<lambda>c. if c = CHR '';'' then CHR ''&'' else c) (join_with ''&'' ps) = join_with ''&'' ps"
    by (induction "join_with ''&'' ps") (auto intro!: map_idI)
  with split_join [OF assms(1), of "CHR ''&''"] assms(2) show ?thesis by (simp add: ParseQuery_def)
qed

lemma token_query:
  "url_encode (fold (\<lambda>(k, v). url_add k v) (token_params a t) [])
    = join_with ''&'' [QueryEscape ''client_id'' @ ''='' @ QueryEscape (itoa (ac_ClientID (sk_config a))),
        QueryEscape ''grant_type'' @ ''='' @ QueryEscape ''password'', QueryEscape ''scope'' @ ''='' @ QueryEscape ''all:all'',
        QueryEscape ''username'' @ ''='' @ QueryEscape t]"
  by (simp add: token_params_def url_add_def map_set_def url_encode_def less_char_def)

lemma parse_pair_marked: "parse_pair (CHR ''?'' # QueryEscape k @ ''='' @ QueryEscape v) = Inr (CHR ''?'' # k, v)"
proof -
  have "takeWhile (\<lambda>c. c \<noteq> CHR ''='') (CHR ''?'' # QueryEscape k @ ''='' @ QueryEscape v) = CHR ''?'' # QueryEscape k"
    "dropWhile (\<lambda>c. c \<noteq> CHR ''='') (CHR ''?'' # QueryEscape k @ ''='' @ QueryEscape v) = ''='' @ QueryEscape v"
    using escape_plain [of _ k] by (auto simp: takeWhile_append dropWhile_append separator_def)
  then show ?thesis by (simp add: parse_pair_def unescape_escape)
qed

lemma escaped_part: "CHR ''&'' \<notin> set (QueryEscape k @ ''='' @ QueryEscape v) \<and> CHR '';'' \<notin> set (QueryEscape k @ ''='' @ QueryEscape v)"
  using escape_plain [of _ k] escape_plain [of _ v] by (auto simp: separator_def)

text \<open>
  The login with a secret asks for a token under a URL with two question marks: the server
  reads a parameter \<open>?client_id\<close> and none of the name \<open>client_id\<close>.
\<close>

theorem secret_login_url:
  "\<exists>query vs. request_url a ''/oauth2/token?'' (token_params a t) = ac_APIHost (sk_config a) @ ''/oauth2/token'' @ ''?'' @ query
    \<and> ParseQuery query = Inr vs \<and> map_of vs ''client_id'' = None
    \<and> map_of vs ''?client_id'' = Some [itoa (ac_ClientID (sk_config a))] \<and> map_of vs ''username'' = Some [t]"
proof -
  let ?i = "itoa (ac_ClientID (sk_config a))"
  let ?parts = "[CHR ''?'' # QueryEscape ''client_id'' @ ''='' @ QueryEscape ?i,
        QueryEscape ''grant_type'' @ ''='' @ QueryEscape ''password'', QueryEscape ''scope'' @ ''='' @ QueryEscape ''all:all'',
        QueryEscape ''username'' @ ''='' @ QueryEscape t]"
  let ?vs = "[(''?client_id'', [?i]), (''grant_type'', [''password'']), (''scope'', [''all:all'']), (''username'', [t])]"
  have "request_url a ''/oauth2/token?'' (token_params a t) = ac_APIHost (sk_config a) @ ''/oauth2/token'' @ ''?'' @ join_with ''&'' ?parts"
    by (simp add: request_url_def getURL_def token_query)
  moreover have "ParseQuery (join_with ''&'' ?parts) = Inr ?vs"
  proof -
    have "\<forall>p\<in>set ?parts. CHR ''&'' \<notin> set p \<and> CHR '';'' \<notin> set p"
      using escaped_part by simp
    from ParseQuery_parts [OF _ this] show ?thesis
      by (simp add: parse_pair_escaped [unfolded append_Cons append_Nil] parse_pair_marked [unfolded append_Cons append_Nil]
          url_add_def map_set_def)
  qed
  ultimately show ?thesis by (intro exI [of _ "join_with ''&'' ?parts"] exI [of _ ?vs] conjI) simp_all
qed

text \<open>
  What an answer of the auth system means: the data is taken from every answer with status
  200 that has data or the code 0. An answer with a code of failure and data counts as a success.
\<close>

theorem auth_answer_iff:
  "processResp js response = Inr data \<longleftrightarrow> hp_StatusCode response = 200 \<and>
    (\<exists>raw body. hp_Body response = Inr raw \<and> js_body js raw = Inr body
      \<and> data = (case rb_Data body of None \<Rightarrow> ''null'' | Some d \<Rightarrow> d) \<and> \<not> (rb_Data body = None \<and> rb_ResCode body \<noteq> 0))"
  by (auto simp: processResp_def Let_def StatusOK_def SUCC_def split: sum.splits if_splits option.splits)

text \<open>Without a root role the upload panics as soon as one of the roles is missing.\<close>

lemma upload_roles_panics:
  assumes "list_ex (\<lambda>name. containsRole roles name = None) names" and "getRootRole roles = None"
  shows "fst (upload_roles am roles names ids s) = Panic"
  using assms
proof (induction names arbitrary: ids)
  case (Cons name names)
  then show ?case
    by (cases "containsRole roles name") (simp_all add: andthen_def attempt_def ret_def panic_def)
qed simp

end
