(* ===== verification/Auth_Demo.thy ===== *)
theory Auth_Demo
  imports Auth_Props
begin

section \<open>An auth system for the witnesses\<close>

text \<open>
  A token library that writes the claims of a user's token one after the other, each with its length, and an auth
  system that lists a star for one route. They satisfy the laws of \<open>jwt_tokens\<close>, and the witnesses run on them.
\<close>

definition put_field :: "string \<Rightarrow> string" where
  "put_field s = nat_str (length s) @ '':'' @ s"

definition get_field :: "string \<Rightarrow> string \<times> string" where
  "get_field t = (let n = takeWhile (\<lambda>c. c \<noteq> CHR '':'') t; r = drop 1 (dropWhile (\<lambda>c. c \<noteq> CHR '':'') t)
     in (take (dec_val n) r, drop (dec_val n) r))"

fun get_fields :: "nat \<Rightarrow> string \<Rightarrow> string list" where
  "get_fields 0 t = []"
| "get_fields (Suc n) t = (case get_field t of (s, r) \<Rightarrow> s # get_fields n r)"

definition put_fields :: "string list \<Rightarrow> string" where
  "put_fields fs = concat (map put_field fs)"

lemma get_put_field: "get_field (put_field s @ r) = (s, r)"
proof -
  have "c \<noteq> CHR '':''" if "c \<in> set (nat_str n)" for c n
    using nat_str_digits [OF that] by (auto simp: is_digit_def)
  then have "takeWhile (\<lambda>c. c \<noteq> CHR '':'') (nat_str (length s) @ '':'' @ s @ r) = nat_str (length s)"
    "dropWhile (\<lambda>c. c \<noteq> CHR '':'') (nat_str (length s) @ '':'' @ s @ r) = '':'' @ s @ r"
    by (auto simp: takeWhile_append dropWhile_append)
  then show ?thesis by (simp add: get_field_def put_field_def Let_def)
qed

lemma get_put_fields: "get_fields (length fs) (put_fields fs) = fs"
  by (induction fs) (simp_all add: put_fields_def get_put_field)

definition user_fields :: "User \<Rightarrow> string list" where
  "user_fields u = [us_ID u, us_Fullname u, us_Email u, us_Wechat u, us_Phone u, us_Type u, us_Status u, us_Dn u,
     us_Organization u]"

definition fields_user :: "string list \<Rightarrow> goerr + User" where
  "fields_user fs = (case fs of
     [i, f, e, w, p, t, s, d, org] \<Rightarrow> Inr \<lparr>us_ID = i, us_Fullname = f, us_Email = e, us_Wechat = w, us_Phone = p,
       us_Type = t, us_Status = s, us_Dn = d, us_Organization = org, us_Token = \<lparr>tk_AccessToken = [], tk_ExpiresIn = 0,
       tk_RefreshToken = [], tk_Scope = [], tk_TokenType = [], tk_Error = [], tk_ErrorDescription = []\<rparr>\<rparr>
   | _ \<Rightarrow> Inl (External ''json''))"

definition demo_jwt :: jwt_lib where
  "demo_jwt = \<lparr>
     jw_sign = (\<lambda>c secret. case c of
       [(k1, Claim_text time), (k2, Claim_text nonce), (k3, Claim_json user)] \<Rightarrow>
         if k1 = ''time'' \<and> k2 = ''nonce'' \<and> k3 = ''user'' then Inr (put_fields [time, nonce, user, secret])
         else Inl (External ''claims'')
     | _ \<Rightarrow> Inl (External ''claims'')),
     jw_decode = (\<lambda>t. case get_fields 4 t of
       [time, nonce, user, secret] \<Rightarrow> Inr ([(''time'', Claim_text time), (''nonce'', Claim_text nonce), (''user'', Claim_json user)], True)
     | _ \<Rightarrow> Inl (External ''token'')),
     jw_verify = (\<lambda>t secret. if get_fields 4 t ! 3 = secret then None else Some (External ''signature is invalid'')),
     jw_user_text = (\<lambda>u. put_fields (user_fields u)),
     jw_user = (\<lambda>t. fields_user (get_fields 9 t)),
     jw_claim_text = (\<lambda>c. case c of Some (Claim_json t) \<Rightarrow> t | _ \<Rightarrow> ''null'')\<rparr>"

lemma demo_sign:
  assumes "jw_sign demo_jwt c secret = Inr t"
  obtains time nonce user where "c = [(''time'', Claim_text time), (''nonce'', Claim_text nonce), (''user'', Claim_json user)]"
    "get_fields 4 t = [time, nonce, user, secret]"
proof -
  obtain time nonce user where c: "c = [(''time'', Claim_text time), (''nonce'', Claim_text nonce), (''user'', Claim_json user)]"
    "t = put_fields [time, nonce, user, secret]"
    using assms by (auto simp: demo_jwt_def split: list.splits claim.splits prod.splits if_splits)
  with get_put_fields [of "[time, nonce, user, secret]"] that show thesis by (simp add: numeral_eq_Suc)
qed

interpretation demo_jwt: jwt_tokens demo_jwt
proof
  fix c secret t assume "jw_sign demo_jwt c secret = Inr t"
  then obtain time nonce user where c: "c = [(''time'', Claim_text time), (''nonce'', Claim_text nonce), (''user'', Claim_json user)]"
    "get_fields 4 t = [time, nonce, user, secret]" by (rule demo_sign)
  then have d: "jw_decode demo_jwt t = Inr (c, True)" by (simp add: demo_jwt_def)
  show "jw_verify demo_jwt t secret = None" using c(2) by (simp add: demo_jwt_def)
  show "\<exists>c'. jw_decode demo_jwt t = Inr (c', True)
      \<and> (\<forall>k x. map_of c k = Some (Claim_text x) \<longrightarrow> map_of c' k = Some (Claim_text x))
      \<and> (\<forall>k x. map_of c k = Some (Claim_json x) \<longrightarrow> jw_user demo_jwt (jw_claim_text demo_jwt (map_of c' k)) = jw_user demo_jwt x)"
    by (intro exI [of _ c]) (simp add: d, simp add: demo_jwt_def)
next
  fix u
  have "get_fields 9 (put_fields (user_fields u)) = user_fields u"
    using get_put_fields [of "user_fields u"] by (simp add: user_fields_def numeral_eq_Suc)
  then show "jw_user demo_jwt (jw_user_text demo_jwt u) = Inr (no_token u)"
    by (simp add: demo_jwt_def fields_user_def user_fields_def no_token_def)
qed

definition demo_user :: User where
  "demo_user = \<lparr>us_ID = ''u1'', us_Fullname = ''U'', us_Email = [], us_Wechat = [], us_Phone = [], us_Type = [],
     us_Status = [], us_Dn = [], us_Organization = [], us_Token = \<lparr>tk_AccessToken = ''a'', tk_ExpiresIn = 5,
     tk_RefreshToken = [], tk_Scope = [], tk_TokenType = [], tk_Error = [], tk_ErrorDescription = []\<rparr>\<rparr>"

definition demo_tokens :: jwtTokenManager where
  "demo_tokens = SetTokenTTL 1800 (NewJwtTokenManager ''s'' 0)"

definition demo_token :: string where
  "demo_token = put_fields [itoa 1000, itoa 7, put_fields (user_fields demo_user), ''s'']"

lemma demo_generate: "Generate demo_jwt (int 1000, 7) demo_tokens demo_user = Inr demo_token"
  by (simp add: Generate_def demo_jwt_def demo_token_def demo_tokens_def SetTokenTTL_def NewJwtTokenManager_def Let_def)


definition demo_grant :: APIResource where
  "demo_grant = \<lparr>ar_ID = 1, ar_Name = ''POST:/api/v1/configs'', ar_Description = [], ar_ClientID = 1, ar_Data = ''*'',
     ar_CreatedBy = [], ar_UpdatedBy = [], ar_Created = [], ar_Updated = []\<rparr>"

definition demo_json :: auth_json where
  "demo_json = \<lparr>js_body = (\<lambda>t. Inr \<lparr>rb_ResCode = 0, rb_ResMsg = [], rb_Data = Some t\<rparr>),
     js_resources = (\<lambda>t. Inr [demo_grant]), js_roles = (\<lambda>t. Inr []), js_related = (\<lambda>t. Inr []), js_groups = (\<lambda>t. Inr []),
     js_users = (\<lambda>t. Inr []), js_user_page = (\<lambda>t. Inr []), js_ids = (\<lambda>t. Inr []), js_int = (\<lambda>t. Inr 0),
     js_token = (\<lambda>t. Inl (External ''json'')), js_show_resources = (\<lambda>rs. []), js_show_role = (\<lambda>n p d. []),
     js_show_ids = (\<lambda>is. [])\<rparr>"

definition demo_sdk :: "mem_db world sdk" where
  "demo_sdk = NewAuthSDK (\<lambda>url. None) (\<lambda>q. ret \<lparr>hp_StatusCode = 200, hp_Body = Inr []\<rparr>) (\<lambda>s. ((1000, 7), s))
     demo_jwt demo_json 1 ''s'' ''http://auth''"

definition demo_am :: "mem_db world auth_manager" where
  "demo_am = NewAuthManager (\<lambda>s. 1500) [] demo_tokens demo_sdk False"

definition token_request :: request where
  "token_request = add_request\<lparr>hr_headers := [(''Authorization'', demo_token)]\<rparr>"

text \<open>A handler that adds a new config.\<close>

definition demo_rest_new :: "mem_db rest" where
  "demo_rest_new = demo_rest\<lparr>rt_config := (\<lambda>req. Inr (demo_config\<lparr>ci_ID := 0, ci_Name := ''b.txt''\<rparr>))\<rparr>"

lemma demo_identify: "identify demo_am token_request w = (Ok (no_token demo_user), w)"
proof -
  have l: "(0 :: int) \<le> 1800" "(1800 :: int) \<le> 9223372036" by simp_all
  have "ttl_seconds demo_tokens = 1800" unfolding demo_tokens_def by (rule ttl_seconds_set [OF l])
  then have "Decrypt demo_jwt 1500 demo_tokens demo_token = Inr (no_token demo_user)"
    using demo_jwt.Decrypt_Generate [OF demo_generate] by (simp add: wrap64_id int64_def)
  moreover have "demo_token \<noteq> []" by (simp add: demo_token_def put_fields_def put_field_def)
  ultimately show ?thesis
    by (simp add: identify_def header_def token_request_def headerAuthorization_def headerMayaToken_def map_get_def
        Authorized_def demo_am_def NewAuthManager_def demo_sdk_def NewAuthSDK_def lift_sum_def attempt_def ret_def)
qed

lemma demo_resources: "GetUserResources (am_authSDK demo_am) u w = (Ok [demo_grant], w)"
  by (simp add: GetUserResources_def sdk_get_def doRequest_def Let_def andthen_def attempt_def client_token_def
      demo_am_def NewAuthManager_def demo_sdk_def NewAuthSDK_def demo_json_def processResp_def StatusOK_def SUCC_def
      lift_sum_def ret_def)

theorem request_guarded_witness:
  "\<exists>r w'. AuthFilter demo_am token_request (addConfig demo_rest_new) (demo_world demo_rows) = (r, w')
    \<and> (\<exists>user. addConfig demo_rest_new (token_request\<lparr>hr_user := Some user\<rparr>) (demo_world demo_rows) = (r, w')
        \<and> us_ID user \<noteq> [])"
proof -
  let ?w = "demo_world demo_rows"
  let ?q = "token_request\<lparr>hr_user := Some (no_token demo_user)\<rparr>"
  let ?c = "addConfig demo_rest_new ?q ?w"
  have "length (v_info (mem_rows (w_db (snd ?c)))) = 2" by code_simp
  then have "a_db (mem_obs (w_db (snd ?c))) \<noteq> a_db (mem_obs (w_db ?w))"
    by (auto simp: demo_world_def demo_rows_def)
  then have changed: "mem_obs (w_db (snd ?c)) \<noteq> mem_obs (w_db ?w)"
    by (rule contrapos_nn) (rule arg_cong [of _ _ a_db])
  have n: "us_ID (no_token demo_user) \<noteq> []" by (simp add: no_token_def demo_user_def)
  have open_gate: "\<not> isExcluded demo_am token_request" "\<not> am_authSkip demo_am"
    by (simp_all add: isExcluded_def demo_am_def NewAuthManager_def)
  have allow: "resources_allow (parseReqResource token_request) [demo_grant]"
    by (simp add: parseReqResource_def token_request_def add_request_def demo_grant_def) code_simp
  have run: "AuthFilter demo_am token_request (addConfig demo_rest_new) ?w = ?c"
    using open_gate n allow
    by (simp add: AuthFilter_def with_user_identify attempt_def demo_identify Let_def Authenticated_def andthen_def
        demo_resources ret_def del: resources_allow.simps)
  have calm: "\<forall>q. calm mem_obs (sk_do (am_authSDK demo_am) q)"
    "\<forall>s. mem_obs (w_db (snd (sk_stamp (am_authSDK demo_am) s))) = mem_obs (w_db s)"
    by (simp_all add: demo_am_def NewAuthManager_def demo_sdk_def NewAuthSDK_def calm_basic)
  have run2: "AuthFilter demo_am token_request (addConfig demo_rest_new) ?w = (fst ?c, snd ?c)" using run by simp
  obtain user w1 rs w2 where g: "identify demo_am token_request ?w = (Ok user, w1)"
    "GetUserResources (am_authSDK demo_am) (us_ID user) w1 = (Ok rs, w2)" "us_ID user \<noteq> []"
    "addConfig demo_rest_new (token_request\<lparr>hr_user := Some user\<rparr>) w2 = (fst ?c, snd ?c)"
    using request_guarded [OF calm run2 changed] open_gate by blast
  then have "w2 = ?w" using demo_identify [of ?w] demo_resources [of "us_ID user" w1] by simp
  with g run2 show ?thesis by blast
qed

end
