(* ===== verification/Pmp_Tokens.thy ===== *)
theory Pmp_Tokens
  imports Auth_Demo
begin

section \<open>The tokens of the agents (util/pmp)\<close>

text \<open>
  An agent signs each of its downloads with a token for the user \<open>galaxy\<close>; the manager's filter reads it as one of its
  own. \<open>show_id\<close> and \<open>read_id\<close> are the JSON of a map with the entry \<open>id\<close> and the entry of the map that is read.
\<close>

definition TokenHeader :: string where "TokenHeader = ''Authorization''"
definition DefaultGalaxyUser :: string where "DefaultGalaxyUser = ''galaxy''"

definition Pmp_GenerateJWTToken :: "jwt_lib \<Rightarrow> (string \<Rightarrow> string) \<Rightarrow> int \<times> int \<Rightarrow> string \<Rightarrow> string \<Rightarrow> string outcome" where
  "Pmp_GenerateJWTToken J show_id stamp secret userid =
     (case jw_sign J [(''time'', Claim_text (itoa (fst stamp))), (''nonce'', Claim_text (itoa (snd stamp))),
          (''user'', Claim_json (show_id userid))] secret of
        Inl err \<Rightarrow> Panic | Inr tokenString \<Rightarrow> Ok tokenString)"

definition Pmp_ParseJWTToken ::
  "jwt_lib \<Rightarrow> (string \<Rightarrow> goerr + string) \<Rightarrow> int \<Rightarrow> string \<Rightarrow> string \<Rightarrow> int \<Rightarrow> goerr + string" where
  "Pmp_ParseJWTToken J read_id now token secret expireDuring =
     jwt_parse J token (\<lambda>claims hmac.
       if \<not> hmac then Inl (Errorf ''Unexpected signing method'')
       else case claim_time claims of Inl err \<Rightarrow> Inl err
       | Inr timeStamp \<Rightarrow>
           if timeStamp < wrap64 (now - expireDuring) then Inl (Errorf ''Token Expired'')
           else map_sum id (Pair secret) (read_id (jw_claim_text J (map_of claims ''user''))))"

text \<open>The user whose JSON has an id only.\<close>

definition id_user :: "string \<Rightarrow> User" where
  "id_user i = \<lparr>us_ID = i, us_Fullname = [], us_Email = [], us_Wechat = [], us_Phone = [], us_Type = [], us_Status = [],
     us_Dn = [], us_Organization = [], us_Token = \<lparr>tk_AccessToken = [], tk_ExpiresIn = 0, tk_RefreshToken = [],
     tk_Scope = [], tk_TokenType = [], tk_Error = [], tk_ErrorDescription = []\<rparr>\<rparr>"

locale pmp_json = jwt_tokens J for J +
  fixes show_id :: "string \<Rightarrow> string" and read_id :: "string \<Rightarrow> goerr + string"
  assumes user_of_id: "jw_user J (show_id i) = Inr (id_user i)"
    and id_read_back: "read_id (show_id i) = Inr i"
    and signed_reads: "jw_sign J c secret = Inr t \<Longrightarrow> jw_decode J t = Inr (c', hmac) \<Longrightarrow> map_of c k = Some (Claim_json x)
      \<Longrightarrow> read_id (jw_claim_text J (map_of c' k)) = read_id x"
begin

lemma pmp_claims:
  assumes "Pmp_GenerateJWTToken J show_id (int n, r) secret i = Ok t" and "n < 2 ^ 63"
  obtains c' where "jw_decode J t = Inr (c', True)" "claim_time c' = Inr (int n)" "jw_verify J t secret = None"
    "jw_user J (jw_claim_text J (map_of c' ''user'')) = Inr (id_user i)"
    "read_id (jw_claim_text J (map_of c' ''user'')) = Inr i"
proof -
  let ?c = "[(''time'', Claim_text (itoa (int n))), (''nonce'', Claim_text (itoa r)), (''user'', Claim_json (show_id i))]"
  have sign: "jw_sign J ?c secret = Inr t"
    using assms(1) by (simp add: Pmp_GenerateJWTToken_def split: sum.splits)
  obtain c' where c: "jw_decode J t = Inr (c', True)" "map_of c' ''time'' = Some (Claim_text (itoa (int n)))"
    "jw_user J (jw_claim_text J (map_of c' ''user'')) = jw_user J (show_id i)"
    using signed_decodes [OF sign] by auto
  have "read_id (jw_claim_text J (map_of c' ''user'')) = read_id (show_id i)"
    using signed_reads [OF sign c(1)] by simp
  with that [OF c(1) claim_time_read [OF c(2) assms(2)] signed_verifies [OF sign]] c(3) user_of_id id_read_back
  show thesis by simp
qed

lemma pmp_parse:
  assumes "Pmp_GenerateJWTToken J show_id (int n, r) secret i = Ok t" and "n < 2 ^ 63"
  shows "Pmp_ParseJWTToken J read_id now t secret expireDuring
    = (if int n < wrap64 (now - expireDuring) then Inl (Errorf ''Token Expired'') else Inr i)"
  by (rule pmp_claims [OF assms]) (simp add: Pmp_ParseJWTToken_def jwt_parse_def)

lemma pmp_decrypt:
  assumes "Pmp_GenerateJWTToken J show_id (int n, r) (jt_secret jtm) i = Ok t" and "n < 2 ^ 63"
  shows "Decrypt J now jtm t = (if ttl_seconds jtm < wrap64 (now - int n) then Inl (Errorf ''token expired'') else Inr (id_user i))"
  by (rule pmp_claims [OF assms]) (simp add: Decrypt_def jwt_parse_def)

end

subsection \<open>The agent at the manager's filter\<close>

text \<open>
  C26: a download that an agent signs with the secret of the manager is, up to the end of the lifetime, one of the user
  \<open>galaxy\<close>: the handler runs for it exactly when the filter does not apply to the route or the resources of that
  user allow it, and otherwise the answer is 4003.
\<close>

theorem agent_token_accepted:
  assumes "pmp_json (sk_jwt (am_authSDK am)) show_id read_id"
    and "Pmp_GenerateJWTToken (sk_jwt (am_authSDK am)) show_id (int n, r) (jt_secret (am_tokenManager am)) DefaultGalaxyUser = Ok token"
    and "token \<noteq> []" and "header req TokenHeader = token" and "am_now am w = int m" and "n < 2 ^ 62" and "m < 2 ^ 62"
    and "int m \<le> int n + ttl_seconds (am_tokenManager am)"
    and "GetUserResources (am_authSDK am) DefaultGalaxyUser w = (Ok rs, w2)"
  shows "AuthFilter am req chain w =
    (if am_authSkip am \<or> isExcluded am req then chain req w
     else if resources_allow (parseReqResource req) rs then chain (req\<lparr>hr_user := Some (id_user DefaultGalaxyUser)\<rparr>) w2
     else (Ok (NewRespErr ErrReqForbidden (Errorf (''no authority to access: '' @ ri_Name (parseReqResource req)))), w2))"
proof -
  have "wrap64 (int m - int n) = int m - int n" using assms(6,7) by (intro wrap64_id) (simp add: int64_def)
  moreover have "n < 2 ^ 63" using assms(6) by simp
  ultimately have "Decrypt (sk_jwt (am_authSDK am)) (int m) (am_tokenManager am) token = Inr (id_user DefaultGalaxyUser)"
    using pmp_json.pmp_decrypt [OF assms(1,2), of "int m"] assms(8) by simp
  then have "identify am req w = (Ok (id_user DefaultGalaxyUser), w)"
    using assms(3,4,5)
    by (simp add: identify_def Let_def headerAuthorization_def TokenHeader_def Authorized_def lift_sum_def attempt_def ret_def)
  moreover have "us_ID (id_user DefaultGalaxyUser) = DefaultGalaxyUser" "DefaultGalaxyUser \<noteq> []"
    by (simp_all add: id_user_def DefaultGalaxyUser_def)
  ultimately show ?thesis
    using assms(9) by (simp add: AuthFilter_def with_user_identify attempt_def Let_def Authenticated_def andthen_def ret_def
        refuse_def)
qed

text \<open>The same token at the provider of an agent: its user, while it is not older than allowed.\<close>

theorem pmp_token_read:
  assumes "pmp_json J show_id read_id" and "Pmp_GenerateJWTToken J show_id (int n, r) secret i = Ok t"
    and "n < 2 ^ 62" and "m < 2 ^ 62" and "e < 2 ^ 62"
  shows "Pmp_ParseJWTToken J read_id (int m) t secret (int e)
    = (if m \<le> n + e then Inr i else Inl (Errorf ''Token Expired''))"
proof -
  have "wrap64 (int m - int e) = int m - int e" using assms(4,5) by (intro wrap64_id) (simp add: int64_def)
  moreover have "n < 2 ^ 63" using assms(3) by simp
  ultimately show ?thesis using pmp_json.pmp_parse [OF assms(1,2), of "int m" "int e"] by auto
qed

subsection \<open>Witness\<close>

definition demo_show_id :: "string \<Rightarrow> string" where
  "demo_show_id i = put_fields (user_fields (id_user i))"

definition demo_read_id :: "string \<Rightarrow> goerr + string" where
  "demo_read_id t = map_sum id us_ID (fields_user (get_fields 9 t))"

interpretation demo_pmp: pmp_json demo_jwt demo_show_id demo_read_id
proof
  show "jw_user demo_jwt (demo_show_id i) = Inr (id_user i)" for i
    using demo_jwt.user_read_back [of "id_user i"]
    by (simp add: demo_show_id_def demo_jwt_def no_token_def id_user_def)
  then show "demo_read_id (demo_show_id i) = Inr i" for i
    by (simp add: demo_read_id_def demo_jwt_def id_user_def)
next
  fix c secret t c' hmac k x
  assume sign: "jw_sign demo_jwt c secret = Inr t" and decode: "jw_decode demo_jwt t = Inr (c', hmac)"
    and k: "map_of c k = Some (Claim_json x)"
  from sign obtain time nonce user where
    c: "c = [(''time'', Claim_text time), (''nonce'', Claim_text nonce), (''user'', Claim_json user)]"
    "get_fields 4 t = [time, nonce, user, secret]" by (rule demo_sign)
  with decode have "c' = c" by (simp add: demo_jwt_def)
  with k show "demo_read_id (jw_claim_text demo_jwt (map_of c' k)) = demo_read_id x" by (simp add: demo_jwt_def)
qed

definition galaxy_token :: string where
  "galaxy_token = put_fields [itoa 1000, itoa 7, demo_show_id DefaultGalaxyUser, ''s'']"

definition galaxy_request :: request where
  "galaxy_request = add_request\<lparr>hr_headers := [(''Authorization'', galaxy_token)]\<rparr>"

theorem agent_token_accepted_witness:
  "\<forall>w. AuthFilter demo_am galaxy_request (\<lambda>req. ret (NewRespSucceed (us_ID (the (hr_user req))))) w
    = (Ok (NewRespSucceed ''galaxy''), w)"
proof
  fix w
  have jwt: "sk_jwt (am_authSDK demo_am) = demo_jwt" "am_tokenManager demo_am = demo_tokens" "am_now demo_am w = int 1500"
    "jt_secret demo_tokens = ''s''"
    by (simp_all add: demo_am_def NewAuthManager_def demo_sdk_def NewAuthSDK_def demo_tokens_def SetTokenTTL_def
        NewJwtTokenManager_def Let_def)
  have sign: "Pmp_GenerateJWTToken demo_jwt demo_show_id (int 1000, 7) ''s'' DefaultGalaxyUser = Ok galaxy_token"
    by (simp add: Pmp_GenerateJWTToken_def demo_jwt_def galaxy_token_def)
  have t: "galaxy_token \<noteq> []" by (simp add: galaxy_token_def put_fields_def put_field_def)
  have h: "header galaxy_request TokenHeader = galaxy_token"
    by (simp add: header_def galaxy_request_def TokenHeader_def map_get_def)
  have l: "(0 :: int) \<le> 1800" "(1800 :: int) \<le> 9223372036" by simp_all
  have ttl: "int 1500 \<le> int 1000 + ttl_seconds demo_tokens"
    using ttl_seconds_set [OF l] by (simp add: demo_tokens_def)
  have allow: "resources_allow (parseReqResource galaxy_request) [demo_grant]"
    by (simp add: parseReqResource_def galaxy_request_def add_request_def demo_grant_def) code_simp
  have open_gate: "\<not> isExcluded demo_am galaxy_request" "\<not> am_authSkip demo_am"
    by (simp_all add: isExcluded_def demo_am_def NewAuthManager_def)
  have bounds: "(1000 :: nat) < 2 ^ 62" "(1500 :: nat) < 2 ^ 62" by simp_all
  show "AuthFilter demo_am galaxy_request (\<lambda>req. ret (NewRespSucceed (us_ID (the (hr_user req))))) w
      = (Ok (NewRespSucceed ''galaxy''), w)"
    using agent_token_accepted [of demo_am demo_show_id demo_read_id 1000 7 galaxy_token galaxy_request w 1500 "[demo_grant]" w,
        unfolded jwt, OF demo_pmp.pmp_json_axioms sign t h _ bounds ttl demo_resources,
        of "\<lambda>req. ret (NewRespSucceed (us_ID (the (hr_user req))))"] open_gate allow
    by (simp add: ret_def id_user_def DefaultGalaxyUser_def del: resources_allow.simps)
qed

end
