(* ===== verification/App_Models.thy ===== *)
theory App_Models
  imports Listings
begin

section \<open>Applications (pkg/manager/model/app.go, pkg/manager/application)\<close>

text \<open>
  The rows of the applications and of their versions, the model functions over the database, and the manager in
  front of them. The time stamps of creation and update are left out, as for the other rows. The unique indices
  are declared with a tag of gorm 1 (\<open>unique_index\<close>), which gorm 2 does not read: there are none.
\<close>

record AppInfo =
  ai_ID :: u64
  ai_DeletedAt :: "nat option"
  ai_Name :: string
  ai_Namespace :: string
  ai_Desc :: string
  ai_CreatedBy :: string
  ai_Status :: string
  ai_Replicas :: int
  ai_Labels :: "string list"
  ai_Annotations :: "string list"
  ai_Ports :: string
  ai_Configs :: string
  ai_Network :: string

record App =
  ap_ID :: u64
  ap_DeletedAt :: "nat option"
  ap_Name :: string
  ap_Namespace :: string
  ap_Version :: string
  ap_Commit :: string
  ap_Image :: string
  ap_Desc :: string
  ap_CreatedBy :: string
  ap_Status :: string
  ap_Replicas :: int
  ap_Labels :: "string list"
  ap_Annotations :: "string list"
  ap_Ports :: string
  ap_Configs :: string
  ap_Network :: string
  ap_AppInfoID :: u64

definition AppInfo_zero :: AppInfo where
  "AppInfo_zero = \<lparr>ai_ID = 0, ai_DeletedAt = None, ai_Name = [], ai_Namespace = [], ai_Desc = [], ai_CreatedBy = [],
     ai_Status = [], ai_Replicas = 0, ai_Labels = [], ai_Annotations = [], ai_Ports = [], ai_Configs = [], ai_Network = []\<rparr>"

definition App_zero :: App where
  "App_zero = \<lparr>ap_ID = 0, ap_DeletedAt = None, ap_Name = [], ap_Namespace = [], ap_Version = [], ap_Commit = [],
     ap_Image = [], ap_Desc = [], ap_CreatedBy = [], ap_Status = [], ap_Replicas = 0, ap_Labels = [],
     ap_Annotations = [], ap_Ports = [], ap_Configs = [], ap_Network = [], ap_AppInfoID = 0\<rparr>"

text \<open>A struct update: the fields that are not zero. Only a nil slice is a zero.\<close>

definition nz_opt2 :: "'a option \<Rightarrow> 'a option \<Rightarrow> 'a option" where
  "nz_opt2 old new = (if new = None then old else new)"

definition nz_int :: "int \<Rightarrow> int \<Rightarrow> int" where
  "nz_int old new = (if new = 0 then old else new)"

definition nz_list :: "'a list \<Rightarrow> 'a list \<Rightarrow> 'a list" where
  "nz_list old new = (if new = [] then old else new)"

definition AppInfo_merge :: "AppInfo \<Rightarrow> AppInfo \<Rightarrow> AppInfo" where
  "AppInfo_merge old new = old\<lparr>ai_DeletedAt := nz_opt2 (ai_DeletedAt old) (ai_DeletedAt new),
     ai_Name := nz_str (ai_Name old) (ai_Name new), ai_Namespace := nz_str (ai_Namespace old) (ai_Namespace new),
     ai_Desc := nz_str (ai_Desc old) (ai_Desc new), ai_CreatedBy := nz_str (ai_CreatedBy old) (ai_CreatedBy new),
     ai_Status := nz_str (ai_Status old) (ai_Status new), ai_Replicas := nz_int (ai_Replicas old) (ai_Replicas new),
     ai_Labels := nz_list (ai_Labels old) (ai_Labels new), ai_Annotations := nz_list (ai_Annotations old) (ai_Annotations new),
     ai_Ports := nz_str (ai_Ports old) (ai_Ports new), ai_Configs := nz_str (ai_Configs old) (ai_Configs new),
     ai_Network := nz_str (ai_Network old) (ai_Network new)\<rparr>"

definition App_merge :: "App \<Rightarrow> App \<Rightarrow> App" where
  "App_merge old new = old\<lparr>ap_DeletedAt := nz_opt2 (ap_DeletedAt old) (ap_DeletedAt new),
     ap_Name := nz_str (ap_Name old) (ap_Name new), ap_Namespace := nz_str (ap_Namespace old) (ap_Namespace new),
     ap_Version := nz_str (ap_Version old) (ap_Version new), ap_Commit := nz_str (ap_Commit old) (ap_Commit new),
     ap_Image := nz_str (ap_Image old) (ap_Image new), ap_Desc := nz_str (ap_Desc old) (ap_Desc new),
     ap_CreatedBy := nz_str (ap_CreatedBy old) (ap_CreatedBy new), ap_Status := nz_str (ap_Status old) (ap_Status new),
     ap_Replicas := nz_int (ap_Replicas old) (ap_Replicas new), ap_Labels := nz_list (ap_Labels old) (ap_Labels new),
     ap_Annotations := nz_list (ap_Annotations old) (ap_Annotations new), ap_Ports := nz_str (ap_Ports old) (ap_Ports new),
     ap_Configs := nz_str (ap_Configs old) (ap_Configs new), ap_Network := nz_str (ap_Network old) (ap_Network new),
     ap_AppInfoID := nz_id (ap_AppInfoID old) (ap_AppInfoID new)\<rparr>"

record 'd app_db =
  t_appinfo :: "('d, AppInfo) table"
  t_app :: "('d, App) table"
  ls_appinfo :: "('d, AppInfo) lister"
  ls_app :: "('d, App) lister"

subsection \<open>model/app.go\<close>

definition CreateAppInfo :: "'d app_db \<Rightarrow> AppInfo \<Rightarrow> ('d, AppInfo) proc" where
  "CreateAppInfo G appInfo = andthen (t_create (t_appinfo G) DB appInfo) (\<lambda>i. ret (appInfo\<lparr>ai_ID := i\<rparr>))"

definition ListAppInfo :: "'d app_db \<Rightarrow> string \<Rightarrow> string list \<Rightarrow> int \<Rightarrow> int \<Rightarrow> ('d, AppInfo list) proc" where
  "ListAppInfo G query orders offset lim = q_list (ls_appinfo G) query orders offset lim"

definition CountAppInfos_row :: "'d app_db \<Rightarrow> string \<Rightarrow> ('d, int) proc" where
  "CountAppInfos_row G query = q_count (ls_appinfo G) query"

text \<open>
  \<open>Model(&AppInfo{}).Updates(appInfo)\<close>: gorm takes the condition from the key of the model, which is zero
  here, and not from the values.
\<close>

definition UpdateAppInfo_row :: "'d app_db \<Rightarrow> AppInfo \<Rightarrow> ('d, unit) proc" where
  "UpdateAppInfo_row G appInfo = updates_by_id (t_appinfo G) ai_ID DB (ai_ID AppInfo_zero) appInfo"

definition DeleteAppInfo_row :: "'d app_db \<Rightarrow> nat \<Rightarrow> string \<Rightarrow> u64 \<Rightarrow> ('d, unit) proc" where
  "DeleteAppInfo_row G now uuid i =
     attempt (t_first (t_appinfo G) DB (\<lambda>r. ai_ID r = i))
       (\<lambda>err. if err = ErrRecordNotFound then ret () else fail err) (\<lambda>appInfo.
     t_updates (t_appinfo G) DB (\<lambda>r. ai_ID r = i)
       (AppInfo_zero\<lparr>ai_DeletedAt := Some now, ai_Status := ''deleted'', ai_Name := ai_Name appInfo @ ''-'' @ uuid\<rparr>))"

definition CreateApp :: "'d app_db \<Rightarrow> App \<Rightarrow> ('d, App) proc" where
  "CreateApp G app = andthen (t_create (t_app G) DB app) (\<lambda>i. ret (app\<lparr>ap_ID := i\<rparr>))"

definition ListApp :: "'d app_db \<Rightarrow> string \<Rightarrow> string list \<Rightarrow> int \<Rightarrow> int \<Rightarrow> ('d, App list) proc" where
  "ListApp G query orders offset lim = q_list (ls_app G) query orders offset lim"

definition CountApps_row :: "'d app_db \<Rightarrow> string \<Rightarrow> ('d, int) proc" where
  "CountApps_row G query = q_count (ls_app G) query"

definition UpdateApp_row :: "'d app_db \<Rightarrow> App \<Rightarrow> ('d, unit) proc" where
  "UpdateApp_row G app = updates_by_id (t_app G) ap_ID DB (ap_ID App_zero) app"

definition DeleteApp_row :: "'d app_db \<Rightarrow> nat \<Rightarrow> string \<Rightarrow> u64 \<Rightarrow> ('d, unit) proc" where
  "DeleteApp_row G now uuid i =
     attempt (t_first (t_app G) DB (\<lambda>r. ap_ID r = i))
       (\<lambda>err. if err = ErrRecordNotFound then ret () else fail err) (\<lambda>app.
     t_updates (t_app G) DB (\<lambda>r. ap_ID r = i)
       (App_zero\<lparr>ap_DeletedAt := Some now, ap_Status := ''deleted'', ap_Name := ap_Name app @ ''-'' @ uuid\<rparr>))"

subsection \<open>application.go\<close>

definition HelloWorld :: string where "HelloWorld = ''Hello World''"

text \<open>The greeting of an agent: the code 500 of the answer is an error, any other a success.\<close>

definition GrpcExample :: "'d manager \<Rightarrow> string \<Rightarrow> ('d world, string) proc" where
  "GrpcExample M cluster =
     andthen (SendSync M \<lparr>rq_name = HelloWorld, rq_args = [(''name'', ''server'')], rq_peer = cluster\<rparr>) (\<lambda>resp.
     if rs_code resp = FailCode then fail (Errorf (rs_msg resp)) else ret (rs_data resp))"

definition checkAppInfoValidity :: "AppInfo \<Rightarrow> goerr option" where
  "checkAppInfoValidity appInfo = None"

definition checkAppValidity :: "App \<Rightarrow> goerr option" where
  "checkAppValidity app = None"

definition AddAppInfo :: "'d app_db \<Rightarrow> AppInfo \<Rightarrow> ('d, AppInfo) proc" where
  "AddAppInfo G appInfo = (case checkAppInfoValidity appInfo of Some err \<Rightarrow> fail err | None \<Rightarrow> CreateAppInfo G appInfo)"

definition ListAppInfos :: "'d app_db \<Rightarrow> string \<Rightarrow> string list \<Rightarrow> int \<Rightarrow> int \<Rightarrow> ('d, AppInfo list) proc" where
  "ListAppInfos G query orders offset lim = andthen (ListAppInfo G query orders offset lim) (\<lambda>appInfos. ret appInfos)"

definition CountAppInfos :: "'d app_db \<Rightarrow> string \<Rightarrow> ('d, int) proc" where
  "CountAppInfos G query = CountAppInfos_row G query"

definition UpdateAppInfo :: "'d app_db \<Rightarrow> AppInfo \<Rightarrow> ('d, unit) proc" where
  "UpdateAppInfo G appInfo = (case checkAppInfoValidity appInfo of Some err \<Rightarrow> fail err | None \<Rightarrow> UpdateAppInfo_row G appInfo)"

definition DeleteAppInfo :: "'d app_db \<Rightarrow> nat \<Rightarrow> string \<Rightarrow> u64 \<Rightarrow> ('d, unit) proc" where
  "DeleteAppInfo G now uuid i = DeleteAppInfo_row G now uuid i"

definition AddApp :: "'d app_db \<Rightarrow> App \<Rightarrow> ('d, App) proc" where
  "AddApp G app = (case checkAppValidity app of Some err \<Rightarrow> fail err | None \<Rightarrow> CreateApp G app)"

definition ListApps :: "'d app_db \<Rightarrow> string \<Rightarrow> string list \<Rightarrow> int \<Rightarrow> int \<Rightarrow> ('d, App list) proc" where
  "ListApps G query orders offset lim = andthen (ListApp G query orders offset lim) (\<lambda>apps. ret apps)"

definition CountApps :: "'d app_db \<Rightarrow> string \<Rightarrow> ('d, int) proc" where
  "CountApps G query = CountApps_row G query"

definition UpdateApp :: "'d app_db \<Rightarrow> App \<Rightarrow> ('d, unit) proc" where
  "UpdateApp G app = (case checkAppValidity app of Some err \<Rightarrow> fail err | None \<Rightarrow> UpdateApp_row G app)"

definition DeleteApp :: "'d app_db \<Rightarrow> nat \<Rightarrow> string \<Rightarrow> u64 \<Rightarrow> ('d, unit) proc" where
  "DeleteApp G now uuid i = DeleteApp_row G now uuid i"

end
