(* ===== verification/Rest_Apps.thy ===== *)
theory Rest_Apps
  imports App_Models Rest_Configs Cluster_Status
begin

section \<open>The REST services of the applications and the clusters (rest/app.go, rest/cluster.go)\<close>

text \<open>
  The handlers in the same style as those of the configs. The clock and the fresh uuid of a deletion, and
  the entities read from a body, come with the request. \<open>sv_set_env\<close> is
  \<open>Where("id = ?").Select("env").Update("env", v)\<close>, which writes an empty text too.
\<close>

datatype service_value =
    V_appinfos "AppInfo page_data"
  | V_apps "App page_data"
  | V_clusters "Cluster page_data"
  | V_text string

record 'd services =
  sv_manager :: "'d manager"
  sv_listers :: "'d listers"
  sv_apps :: "'d app_db"
  sv_print :: "nat \<Rightarrow> bool"
  sv_appinfo :: "request \<Rightarrow> goerr + AppInfo"
  sv_app :: "request \<Rightarrow> goerr + App"
  sv_cluster :: "request \<Rightarrow> goerr + Cluster"
  sv_now :: "request \<Rightarrow> nat"
  sv_uuid :: "request \<Rightarrow> string"
  sv_set_env :: "u64 \<Rightarrow> string \<Rightarrow> ('d, unit) proc"

type_synonym 'd service_api = "request \<Rightarrow> ('d world, service_value entity) proc"

subsection \<open>Applications\<close>

text \<open>The creator: the user of the request, else what the body says.\<close>

definition user_or :: "request \<Rightarrow> string \<Rightarrow> string" where
  "user_or req body = (case GlobalUser req of None \<Rightarrow> body | Some user \<Rightarrow> us_ID user)"

definition grpcExample :: "'d services \<Rightarrow> 'd service_api" where
  "grpcExample S req =
     answer ErrDBOpsFailed (GrpcExample (sv_manager S) (trimmed_param req ''cluster'')) (\<lambda>result. NewRespSucceed (V_text result))"

definition addAppInfo :: "'d services \<Rightarrow> 'd service_api" where
  "addAppInfo S req =
     need (sv_appinfo S req) (\<lambda>appInfo.
     answer ErrDBOpsFailed (on_db (AddAppInfo (sv_apps S) (appInfo\<lparr>ai_CreatedBy := user_or req (ai_CreatedBy appInfo)\<rparr>)))
       (\<lambda>_. Api_RespSucceed))"

definition listAppInfo :: "'d services \<Rightarrow> 'd service_api" where
  "listAppInfo S req =
     need (checkPageParams req) (\<lambda>(pageSize, _).
     let query = app_buildFilters (sv_print S) req
     in page_answer req pageSize (orders_of req) (on_db (CountAppInfos (sv_apps S) query))
          (\<lambda>os off lim. on_db (ListAppInfos (sv_apps S) query os off lim)) V_appinfos)"

definition updateAppInfo :: "'d services \<Rightarrow> 'd service_api" where
  "updateAppInfo S req =
     need (sv_appinfo S req) (\<lambda>appInfo.
     need (path_id req) (\<lambda>i.
     answer ErrDBOpsFailed (on_db (UpdateAppInfo (sv_apps S) (appInfo\<lparr>ai_ID := i\<rparr>))) succeed))"

definition deleteAppInfo :: "'d services \<Rightarrow> 'd service_api" where
  "deleteAppInfo S req =
     need (path_id req) (\<lambda>i.
     answer ErrDBOpsFailed (on_db (DeleteAppInfo (sv_apps S) (sv_now S req) (sv_uuid S req) i)) succeed)"

definition addApp :: "'d services \<Rightarrow> 'd service_api" where
  "addApp S req =
     need (sv_app S req) (\<lambda>app.
     answer ErrDBOpsFailed (on_db (AddApp (sv_apps S) (app\<lparr>ap_CreatedBy := user_or req (ap_CreatedBy app)\<rparr>)))
       (\<lambda>_. Api_RespSucceed))"

definition listApp :: "'d services \<Rightarrow> 'd service_api" where
  "listApp S req =
     need (checkPageParams req) (\<lambda>(pageSize, _).
     let query = app_buildFilters (sv_print S) req
     in page_answer req pageSize (orders_of req) (on_db (CountApps (sv_apps S) query))
          (\<lambda>os off lim. on_db (ListApps (sv_apps S) query os off lim)) V_apps)"

definition updateApp :: "'d services \<Rightarrow> 'd service_api" where
  "updateApp S req =
     need (sv_app S req) (\<lambda>app.
     need (path_id req) (\<lambda>i.
     answer ErrDBOpsFailed (on_db (UpdateApp (sv_apps S) (app\<lparr>ap_ID := i\<rparr>))) succeed))"

definition deleteApp :: "'d services \<Rightarrow> 'd service_api" where
  "deleteApp S req =
     need (path_id req) (\<lambda>i.
     answer ErrDBOpsFailed (on_db (DeleteApp (sv_apps S) (sv_now S req) (sv_uuid S req) i)) succeed)"

definition app_routes :: "'d services \<Rightarrow> (string \<times> string \<times> 'd service_api) list" where
  "app_routes S = [(''GET'', ''/hello'', grpcExample S),
     (''POST'', ''/appinfos'', addAppInfo S),
     (''GET'', ''/appinfos'', listAppInfo S),
     (''PUT'', ''/appinfos/{id}'', updateAppInfo S),
     (''DELETE'', ''/appinfos/{id}'', deleteAppInfo S),
     (''POST'', ''/'', addApp S),
     (''GET'', ''/'', listApp S),
     (''PUT'', ''/{id}'', updateApp S),
     (''DELETE'', ''/{id}'', deleteApp S)]"

subsection \<open>Clusters\<close>

definition UpdateClusterEnvs :: "'d services \<Rightarrow> Cluster \<Rightarrow> ('d, unit) proc" where
  "UpdateClusterEnvs S cluster = sv_set_env S (cl_ID cluster) (cl_Env cluster)"

definition addCluster :: "'d services \<Rightarrow> 'd service_api" where
  "addCluster S req =
     need (sv_cluster S req) (\<lambda>cluster.
     answer ErrDBOpsFailed (on_db (AddCluster (m_db (sv_manager S)) (cluster\<lparr>cl_CreatedBy := user_or req (cl_CreatedBy cluster)\<rparr>)))
       (\<lambda>_. Api_RespSucceed))"

definition updateCluster :: "'d services \<Rightarrow> 'd service_api" where
  "updateCluster S req =
     need (sv_cluster S req) (\<lambda>cluster.
     need (path_id req) (\<lambda>i.
     answer ErrDBOpsFailed (on_db (UpdateCluster (m_db (sv_manager S)) (cluster\<lparr>cl_ID := i\<rparr>))) succeed))"

definition listCluster :: "'d services \<Rightarrow> 'd service_api" where
  "listCluster S req =
     need (checkPageParams req) (\<lambda>(pageSize, _).
     let query = cluster_BuildFilters (sv_print S) req
     in page_answer req pageSize (orders_of req) (on_db (CountCluster (sv_listers S) query))
          (\<lambda>os off lim. on_db (ListCluster (sv_listers S) query os off lim)) V_clusters)"

definition deleteCluster :: "'d services \<Rightarrow> 'd service_api" where
  "deleteCluster S req =
     need (path_id req) (\<lambda>i. answer ErrDBOpsFailed (on_db (DeleteCluster (m_db (sv_manager S)) i)) succeed)"

definition getClusterEnvs :: "'d services \<Rightarrow> 'd service_api" where
  "getClusterEnvs S req =
     need (path_id req) (\<lambda>i.
     answer ErrDBOpsFailed (on_db (GetClusterEnvs (m_db (sv_manager S)) (Cluster_zero\<lparr>cl_ID := i\<rparr>)))
       (\<lambda>cluster. NewRespSucceed (V_text (cl_Env cluster))))"

definition updateClusterEnvs :: "'d services \<Rightarrow> 'd service_api" where
  "updateClusterEnvs S req =
     need (path_id req) (\<lambda>i.
     need (sv_cluster S req) (\<lambda>cluster.
     answer ErrDBOpsFailed (on_db (UpdateClusterEnvs S (cluster\<lparr>cl_ID := i\<rparr>)))
       (\<lambda>_. NewRespSucceed (V_text (cl_Env cluster)))))"

definition cluster_routes :: "'d services \<Rightarrow> (string \<times> string \<times> 'd service_api) list" where
  "cluster_routes S = [(''POST'', ''/'', addCluster S),
     (''PUT'', ''/{id}'', updateCluster S),
     (''GET'', ''/'', listCluster S),
     (''DELETE'', ''/{id}'', deleteCluster S),
     (''GET'', ''/{id}/env'', getClusterEnvs S),
     (''POST'', ''/{id}/env'', updateClusterEnvs S)]"

subsection \<open>An application is never updated\<close>

lemma update_rows_fail:
  "UpdateAppInfo G appInfo = fail ErrMissingWhereClause" "UpdateApp G app = fail ErrMissingWhereClause"
  by (simp_all add: UpdateAppInfo_def UpdateApp_def checkAppInfoValidity_def checkAppValidity_def UpdateAppInfo_row_def
      UpdateApp_row_def updates_by_id_def AppInfo_zero_def App_zero_def)

text \<open>
  The requests that update an application or a version of one never succeed: the update has
  no condition, gorm refuses it, the answer is an error and nothing has changed.
\<close>

theorem app_update_refused:
  "snd (updateAppInfo S req w) = w \<and> snd (updateApp S req w) = w
    \<and> (\<exists>ent. fst (updateAppInfo S req w) = Ok ent \<and> ent_Code ent \<in> {4004, 5000} \<and> ent_Data ent = Text [])
    \<and> (\<exists>ent. fst (updateApp S req w) = Ok ent \<and> ent_Code ent \<in> {4004, 5000} \<and> ent_Data ent = Text [])"
  by (auto simp: updateAppInfo_def updateApp_def need_def answer_def update_rows_fail on_db_def attempt_def fail_def
      invalid_def ret_def NewRespErr_def ErrReqInvalid_def ErrDBOpsFailed_def resp_def split: sum.split)

end
