(* ===== verification/Web_Server.thy ===== *)
theory Web_Server
  imports Pmp_Tokens Rest_Apps
begin

section \<open>The web server: the services behind the filter (service/service.go, server/server.go)\<close>

text \<open>
  The manager registers the services of configs, applications and clusters, puts the authorisation in front of all of them, and
  excludes the path of the documentation from it. A request for which there is no route goes through the filter as
  well, to the error handler of the container. The routes of the other services (logs, files and the documentation) are a
  parameter.
\<close>

datatype web_value = Config_value rest_value | Service_value service_value

definition SwaggerAPIDocsPath :: string where "SwaggerAPIDocsPath = ''/apidocs.json''"
definition app_root :: string where "app_root = ''/api/v1/apps''"
definition cluster_root :: string where "cluster_root = ''/api/v1/cluster''"

text \<open>A handler whose values are taken as values of the server.\<close>

definition wrap_api :: "('a \<Rightarrow> 'b) \<Rightarrow> (request \<Rightarrow> ('s, 'a entity) proc) \<Rightarrow> request \<Rightarrow> ('s, 'b entity) proc" where
  "wrap_api v h req = (\<lambda>w. case h req w of (r, w') \<Rightarrow>
     (map_outcome (\<lambda>e. \<lparr>ent_Code = ent_Code e, ent_Msg = ent_Msg e, ent_Data = map_payload v (ent_Data e)\<rparr>) r, w'))"

type_synonym 'd web_api = "request \<Rightarrow> ('d world, web_value entity) proc"

definition web_routes :: "(string \<Rightarrow> string \<Rightarrow> string) \<Rightarrow> 'd rest \<Rightarrow> 'd services \<Rightarrow> (string \<times> string \<times> 'd web_api) list" where
  "web_routes join R S =
     map (\<lambda>(m, p, h). (m, join config_root p, wrap_api Config_value h)) (config_routes R)
     @ map (\<lambda>(m, p, h). (m, join app_root p, wrap_api Service_value h)) (app_routes S)
     @ map (\<lambda>(m, p, h). (m, join cluster_root p, wrap_api Service_value h)) (cluster_routes S)"

definition registerWebServices ::
  "(string \<Rightarrow> string \<Rightarrow> string) \<Rightarrow> 'd rest \<Rightarrow> 'd services \<Rightarrow> (string \<times> string \<times> 'd web_api) list \<Rightarrow> 'd world auth_manager
     \<Rightarrow> (string \<times> string \<times> 'd web_api) list \<times> 'd world auth_manager" where
  "registerWebServices join R S others am = (web_routes join R S @ others, Excluded [SwaggerAPIDocsPath] am)"

definition web_dispatch :: "(string \<times> string \<times> 'd web_api) list \<Rightarrow> request \<Rightarrow> 'd web_api option" where
  "web_dispatch rs req = map_option (snd \<circ> snd) (find (\<lambda>(m, p, f). m = hr_method req \<and> p = hr_route req) rs)"

definition serve_web ::
  "(string \<times> string \<times> 'd web_api) list \<times> 'd world auth_manager \<Rightarrow> goerr \<Rightarrow> 'd web_api" where
  "serve_web server serviceError req =
     AuthFilter (snd server) req (\<lambda>req. case web_dispatch (fst server) req of
       Some h \<Rightarrow> h req | None \<Rightarrow> ret (NewRespErr ErrSvcFailed serviceError))"

lemma web_route:
  assumes "web_dispatch (web_routes join R S @ others) req = Some h"
  shows "(\<exists>root p. root \<in> {config_root, app_root, cluster_root} \<and> hr_route req = join root p) \<or> (\<exists>m p. (m, p, h) \<in> set others)"
proof -
  obtain x where x: "find (\<lambda>(m, p, f). m = hr_method req \<and> p = hr_route req) (web_routes join R S @ others) = Some x"
    "h = snd (snd x)"
    using assms by (auto simp: web_dispatch_def)
  then have "x \<in> set (web_routes join R S @ others)" "fst (snd x) = hr_route req"
    using find_SomeD [OF x(1)] by auto
  with x(2) show ?thesis by (cases x) (auto simp: web_routes_def)
qed

lemma not_swagger:
  assumes "has_prefix s root" and "root \<in> {config_root, app_root, cluster_root}"
  shows "trim_suffix s ''/'' \<noteq> SwaggerAPIDocsPath"
proof
  assume "trim_suffix s ''/'' = SwaggerAPIDocsPath"
  then have "s = SwaggerAPIDocsPath \<or> s = SwaggerAPIDocsPath @ ''/''"
    by (auto simp: trim_suffix_def has_suffix_def split: if_splits) (metis append_take_drop_id)
  with assms show False
    by (auto simp: has_prefix_def SwaggerAPIDocsPath_def config_root_def app_root_def cluster_root_def)
qed


definition demo_web :: "mem_db services \<Rightarrow> mem_db web_api" where
  "demo_web S = serve_web (registerWebServices (@) demo_rest_new S [] demo_am) (Errorf ''no route'')"

lemma demo_web_route:
  "web_dispatch (fst (registerWebServices (@) demo_rest_new S [] demo_am)) (token_request\<lparr>hr_user := u\<rparr>) = Some (wrap_api Config_value (addConfig demo_rest_new))"
  by (simp add: registerWebServices_def web_dispatch_def web_routes_def config_routes_def config_root_def token_request_def add_request_def)

lemma demo_web_identify: "identify (snd (registerWebServices (@) demo_rest_new S [] demo_am)) token_request w = (Ok (no_token demo_user), w)"
proof -
  have "(Authorized (snd (registerWebServices (@) demo_rest_new S [] demo_am)) :: string \<Rightarrow> (mem_db world, User) proc) = Authorized demo_am" "am_authSDK (snd (registerWebServices (@) demo_rest_new S [] demo_am)) = am_authSDK demo_am"
    by (auto simp: Authorized_def registerWebServices_def Excluded_def)
  then have "identify (snd (registerWebServices (@) demo_rest_new S [] demo_am)) token_request = identify demo_am token_request"
    unfolding identify_def by (simp only:)
  then show ?thesis using demo_identify [of w] by simp
qed

lemma wrap_api_world: "snd (wrap_api v h req w) = snd (h req w)"
  by (simp add: wrap_api_def split: prod.split)


end
