(* ===== verification/Cluster_Sync.thy ===== *)
theory Cluster_Sync
  imports Cluster_Status Auth_Tokens
begin

section \<open>Clusters of the resource management system (cluster/synccluster.go)\<close>

text \<open>
  The clusters of another system are read over HTTP, as JSON that the code takes apart with type assertions, and are
  created or updated by their identity there. Parameters: the tokens, the JSON of the access token and of the envelope of
  the answer, the answer itself (a body, or no response at all, with an error or none), and what \<open>%.f\<close> makes of a
  value that is no number. A number is the text that \<open>%.f\<close> prints.
\<close>

datatype json = J_null | J_bool bool | J_num string | J_str string | J_arr "json list" | J_obj "(string \<times> json) list"

definition TokenNameInHeader :: string where "TokenNameInHeader = ''Authorization''"

record AccessToken =
  at_ID :: string
  at_Fullname :: string
  at_Email :: string
  at_Type :: string
  at_Status :: string
  at_Dn :: string
  at_CacheTime :: int
  at_Organization :: string

record resource_system =
  rs_token_text :: "AccessToken \<Rightarrow> string"
  rs_get :: "string \<Rightarrow> (string \<times> string) list \<Rightarrow> (string \<times> string) list \<Rightarrow> string option \<times> goerr option"
  rs_envelope :: "string \<Rightarrow> goerr + int \<times> string \<times> json"
  rs_bad_number :: "json option \<Rightarrow> string"

text \<open>\<open>js\<close>, read: the full name is in UTF-8.\<close>

definition admin_token :: AccessToken where
  "admin_token = \<lparr>at_ID = ''admin'',
     at_Fullname = [CHR 0xE7, CHR 0xAE, CHR 0xA1, CHR 0xE7, CHR 0x90, CHR 0x86, CHR 0xE5, CHR 0x91, CHR 0x98],
     at_Email = ''admin@xxxxx.com'', at_Type = ''special'', at_Status = ''active'', at_Dn = ''special user'',
     at_CacheTime = 0, at_Organization = ''xxxxx''\<rparr>"

definition GenerateToken :: "jwt_lib \<Rightarrow> resource_system \<Rightarrow> int \<times> int \<Rightarrow> string \<Rightarrow> AccessToken \<Rightarrow> goerr + string" where
  "GenerateToken J R stamp secret at =
     jw_sign J [(''time'', Claim_text (itoa (fst stamp))), (''nonce'', Claim_text (itoa (snd stamp))),
       (''user'', Claim_json (rs_token_text R at))] secret"

text \<open>An error of the request is printed and the body, empty then, is read all the same; without a response this panics.\<close>

definition GetClusterResourceHandler ::
  "jwt_lib \<Rightarrow> resource_system \<Rightarrow> int \<times> int \<Rightarrow> string \<Rightarrow> string \<Rightarrow> json outcome" where
  "GetClusterResourceHandler J R stamp resourceManagerAPI resourceManagerSecret =
     (let TokenValue = (case GenerateToken J R stamp resourceManagerSecret admin_token of Inl _ \<Rightarrow> [] | Inr t \<Rightarrow> t)
      in case fst (rs_get R (resourceManagerAPI @ ''/openapi/v1/clusters'') [(''page'', ''1''), (''limit'', ''1000000'')]
             [(''Accept'', ''application/json''), (TokenNameInHeader, TokenValue)]) of
          None \<Rightarrow> Panic
        | Some body \<Rightarrow> (case rs_envelope R body of
              Inl err \<Rightarrow> Err err
            | Inr (code, msg, data) \<Rightarrow> if code \<noteq> 200 then Ok J_null else Ok data))"

text \<open>The cluster of an element of the list; \<open>None\<close> where a type assertion fails.\<close>

definition synced_cluster :: "resource_system \<Rightarrow> json \<Rightarrow> Cluster option" where
  "synced_cluster R value =
     (case value of
        J_obj m \<Rightarrow> (case (map_of m ''project_id'', map_of m ''name'', map_of m ''status'') of
            (Some (J_str site), Some (J_str name), Some (J_str status)) \<Rightarrow>
              Some (Cluster_zero\<lparr>cl_SiteID := site, cl_Name := name, cl_Status := status,
                cl_SyncID := (case map_of m ''id'' of Some (J_num n) \<Rightarrow> n | v \<Rightarrow> rs_bad_number R v)\<rparr>)
          | _ \<Rightarrow> None)
      | _ \<Rightarrow> None)"

fun sync_clusters :: "'d gorm \<Rightarrow> resource_system \<Rightarrow> json list \<Rightarrow> ('d, unit) proc" where
  "sync_clusters G R [] = ret ()"
| "sync_clusters G R (value # vs) =
     (case synced_cluster R value of
        None \<Rightarrow> panic
      | Some c \<Rightarrow> attempt (RsyncClusterBySyncID G c) (\<lambda>_. sync_clusters G R vs) (\<lambda>_. sync_clusters G R vs))"

definition RsyncClusterInfo :: "jwt_lib \<Rightarrow> resource_system \<Rightarrow> 'd gorm \<Rightarrow> int \<times> int \<Rightarrow> string \<Rightarrow> string \<Rightarrow> ('d, unit) proc" where
  "RsyncClusterInfo J R G stamp resourceManagerAPI resourceManagerSecret =
     (case GetClusterResourceHandler J R stamp resourceManagerAPI resourceManagerSecret of
        Err err \<Rightarrow> ret ()
      | Panic \<Rightarrow> panic
      | Ok J_null \<Rightarrow> ret ()
      | Ok (J_obj m) \<Rightarrow> (case map_of m ''data'' of Some (J_arr vs) \<Rightarrow> sync_clusters G R vs | _ \<Rightarrow> panic)
      | Ok _ \<Rightarrow> panic)"

subsection \<open>What a synchronisation leaves alone\<close>

text \<open>Every row is still there, with its connection, status, environment and identity.\<close>

definition rows_kept :: "Cluster list \<Rightarrow> Cluster list \<Rightarrow> bool" where
  "rows_kept rows rows' \<longleftrightarrow> (\<forall>r\<in>set rows. \<exists>r'\<in>set rows'. cl_ID r' = cl_ID r \<and> cl_ConnKey r' = cl_ConnKey r
     \<and> cl_Status r' = cl_Status r \<and> cl_Env r' = cl_Env r \<and> cl_SyncID r' = cl_SyncID r)"

lemma rows_kept_refl [simp]: "rows_kept rows rows"
  by (auto simp: rows_kept_def)

lemma rows_kept_trans: "rows_kept a b \<Longrightarrow> rows_kept b c \<Longrightarrow> rows_kept a c"
  unfolding rows_kept_def by (metis (no_types, lifting))

lemma rows_kept_append [simp]: "rows_kept rows (rows @ [r])"
  by (auto simp: rows_kept_def)

lemma rows_kept_merge:
  "rows_kept rows (map (\<lambda>x. if P x then Cluster_merge x (Cluster_zero\<lparr>cl_SiteID := s, cl_Name := n, cl_IP := i\<rparr>) else x) rows)"
  unfolding rows_kept_def
proof
  fix r assume "r \<in> set rows"
  then show "\<exists>r'\<in>set (map (\<lambda>x. if P x then Cluster_merge x (Cluster_zero\<lparr>cl_SiteID := s, cl_Name := n, cl_IP := i\<rparr>) else x) rows).
      cl_ID r' = cl_ID r \<and> cl_ConnKey r' = cl_ConnKey r \<and> cl_Status r' = cl_Status r \<and> cl_Env r' = cl_Env r
      \<and> cl_SyncID r' = cl_SyncID r"
    by (intro bexI [of _ "if P r then Cluster_merge r (Cluster_zero\<lparr>cl_SiteID := s, cl_Name := n, cl_IP := i\<rparr>) else r"])
      (simp_all add: Cluster_merge_def Cluster_zero_def nz_str_def)
qed

context gorm_db
begin

lemma RsyncClusterBySyncID_keeps:
  assumes "RsyncClusterBySyncID (m_db M) c d = (r, d')"
  shows "r \<noteq> Panic \<and> rows_kept (v_cluster (a_db (obs d))) (v_cluster (a_db (obs d'))) \<and> a_tx (obs d') = a_tx (obs d)"
proof -
  let ?P = "\<lambda>r. cl_SyncID r = cl_SyncID c"
  obtain q d1 where first: "t_first (t_cluster (m_db M)) DB ?P d = (q, d1)" by fastforce
  have o1: "obs d1 = obs d" and q: "q \<noteq> Panic"
    using cluster.first_run [OF first] cluster.first_no_panic [of DB ?P d] first by simp_all
  show ?thesis
  proof (cases q)
    case (Ok row)
    with assms first have "t_updates (t_cluster (m_db M)) DB (\<lambda>r. cl_ID r = cl_ID row \<and> cl_SyncID r = cl_SyncID row)
        (Cluster_zero\<lparr>cl_SiteID := cl_SiteID c, cl_Name := cl_Name c, cl_IP := cl_IP c\<rparr>) d1 = (r, d')"
      by (simp add: RsyncClusterBySyncID_def attempt_run)
    note upd = this
    show ?thesis
    proof (cases r)
      case (Ok u)
      from cluster.updates_Ok [OF upd [unfolded Ok], THEN conjunct2] o1 show ?thesis
        using Ok by (simp add: rows_kept_merge)
    next
      case (Err e)
      from cluster.updates_Err [OF upd [unfolded Err]] o1 Err show ?thesis by simp
    next
      case Panic
      from arg_cong [OF upd, of fst] Panic cluster.updates_no_panic show ?thesis by simp
    qed
  next
    case (Err e)
    show ?thesis
    proof (cases "e = ErrRecordNotFound")
      case True
      obtain p d2 where create: "t_create (t_cluster (m_db M)) DB c d1 = (p, d2)" by fastforce
      with assms first Err True have "d' = d2" "r = (case p of Ok _ \<Rightarrow> Ok () | Err e \<Rightarrow> Err e | Panic \<Rightarrow> Panic)"
        by (cases p; simp add: RsyncClusterBySyncID_def attempt_run andthen_run ret_def)+
      note ends = this
      show ?thesis
      proof (cases p)
        case (Ok i)
        from cluster.create_Ok [OF create [unfolded Ok], THEN conjunct2] o1 ends Ok show ?thesis
          by (simp add: Cluster_persist_def)
      next
        case (Err e')
        from cluster.create_Err [OF create [unfolded Err]] o1 ends Err show ?thesis by simp
      next
        case Panic
        from arg_cong [OF create, of fst] Panic cluster.create_no_panic show ?thesis by simp
      qed
    next
      case False
      with assms first Err o1 show ?thesis by (auto simp: RsyncClusterBySyncID_def attempt_run ret_def)
    qed
  qed (use q in simp)
qed

lemma sync_clusters_keeps:
  "sync_clusters (m_db M) R vs d = (r, d') \<Longrightarrow>
    rows_kept (v_cluster (a_db (obs d))) (v_cluster (a_db (obs d'))) \<and> a_tx (obs d') = a_tx (obs d)
    \<and> (r = Panic \<longleftrightarrow> (\<exists>v\<in>set vs. synced_cluster R v = None)) \<and> (\<forall>e. r \<noteq> Err e)"
proof (induction vs arbitrary: d)
  case (Cons v vs)
  show ?case
  proof (cases "synced_cluster R v")
    case (Some c)
    obtain q d1 where one: "RsyncClusterBySyncID (m_db M) c d = (q, d1)" by fastforce
    note k = RsyncClusterBySyncID_keeps [OF one]
    with Cons.prems Some one have "sync_clusters (m_db M) R vs d1 = (r, d')" by (cases q) (simp_all add: attempt_run)
    from Cons.IH [OF this] k Some show ?thesis using rows_kept_trans by auto
  qed (use Cons.prems in \<open>simp add: panic_def\<close>)
qed (auto simp: ret_def)

end

text \<open>
  A synchronisation removes no cluster and leaves the connection, the status and the environment of each as they are: these
  belong to the agent and to the users. It crashes exactly when the answer is not of the form that the code expects.
\<close>

theorem sync_keeps_connections:
  assumes "gorm_db M obs" and "RsyncClusterInfo J R (m_db M) stamp api secret d = (r, d')"
  shows "rows_kept (v_cluster (a_db (obs d))) (v_cluster (a_db (obs d'))) \<and> (\<forall>e. r \<noteq> Err e)
    \<and> (r = Panic \<longleftrightarrow> (case GetClusterResourceHandler J R stamp api secret of
          Err e \<Rightarrow> False | Ok J_null \<Rightarrow> False
        | Ok (J_obj m) \<Rightarrow> (case map_of m ''data'' of Some (J_arr vs) \<Rightarrow> \<exists>v\<in>set vs. synced_cluster R v = None | _ \<Rightarrow> True)
        | _ \<Rightarrow> True))"
proof (cases "\<exists>m vs. GetClusterResourceHandler J R stamp api secret = Ok (J_obj m) \<and> map_of m ''data'' = Some (J_arr vs)")
  case True
  then obtain m vs where ok: "GetClusterResourceHandler J R stamp api secret = Ok (J_obj m)" "map_of m ''data'' = Some (J_arr vs)"
    by blast
  with assms(2) have "sync_clusters (m_db M) R vs d = (r, d')" by (simp add: RsyncClusterInfo_def)
  from gorm_db.sync_clusters_keeps [OF assms(1) this] ok show ?thesis by simp
next
  case False
  then show ?thesis
    using assms(2) by (auto simp: RsyncClusterInfo_def ret_def panic_def split: outcome.splits json.splits option.splits)
qed

end
