(* ===== verification/Archives.thy ===== *)
theory Archives
  imports Config_Manager
begin

section \<open>Archives: the unpacking of zip and tar files (util/fs/fs.go, storage/docker/docker.go)\<close>

text \<open>
  The formats are parameters: an archive is the list of its entries as the library reads them, each with its name,
  kind and size and the data that can be read of it, a list of reads and the error that ends them. What is written to the
  file system is modelled on \<open>Os_Files\<close>; times and modes of files are not. The container engine is a parameter, a
  record of its calls on a state \<open>'s\<close>.
\<close>

datatype entry_kind = Regular | Folder | Other_kind

record archive_entry =
  ae_Name :: string
  ae_kind :: entry_kind
  ae_Size :: nat
  ae_open :: "goerr option"
  ae_reads :: "bytes list"
  ae_error :: "goerr option"

type_synonym tar_entries = "(goerr + archive_entry) list"

record archive_formats =
  af_zip :: "bytes \<Rightarrow> goerr + archive_entry list"
  af_tar_gz :: "bytes \<Rightarrow> goerr + tar_entries"

text \<open>\<open>io.Copy\<close> into a file that was opened; the number of bytes copied.\<close>

fun write_reads :: "fkey \<Rightarrow> bytes list \<Rightarrow> (fsys, unit) proc" where
  "write_reads k [] = ret ()"
| "write_reads k (d # ds) = andthen (file_append k d) (\<lambda>_. write_reads k ds)"

definition copy_to :: "fkey \<Rightarrow> archive_entry \<Rightarrow> (fsys, nat) proc" where
  "copy_to k f = andthen (write_reads k (ae_reads f)) (\<lambda>_.
     case ae_error f of Some err \<Rightarrow> fail err | None \<Rightarrow> ret (length (concat (ae_reads f))))"

subsection \<open>util/fs\<close>

definition Exists :: "string \<Rightarrow> fsys \<Rightarrow> bool" where
  "Exists path fs = (case fst (os_stat (file_key path) fs) of Ok _ \<Rightarrow> True | _ \<Rightarrow> False)"

text \<open>\<open>strings.Contains\<close>.\<close>

definition contains :: "string \<Rightarrow> string \<Rightarrow> bool" where
  "contains s t = list_ex (\<lambda>i. has_prefix (drop i s) t) [0..<Suc (length s)]"

definition validRelPath :: "string \<Rightarrow> bool" where
  "validRelPath p = (\<not> (p = [] \<or> contains p [CHR 0x5C] \<or> has_prefix p ''/'' \<or> contains p ''../''))"

fun unzip_files :: "string \<Rightarrow> archive_entry list \<Rightarrow> (fsys, unit) proc" where
  "unzip_files dest [] = ret ()"
| "unzip_files dest (f # fs) =
     (let fpath = path_join [dest, ae_Name f]
      in if \<not> has_prefix fpath (path_clean dest @ ''/'') then fail (Errorf (fpath @ '': illegal file path''))
         else if ae_kind f = Folder then
           attempt (os_mkdir_all (file_key fpath)) (\<lambda>_. unzip_files dest fs) (\<lambda>_. unzip_files dest fs)
         else andthen (os_mkdir_all (butlast (file_key fpath))) (\<lambda>_.
              andthen (os_create (file_key fpath)) (\<lambda>_.
              case ae_open f of Some err \<Rightarrow> fail err
              | None \<Rightarrow> andthen (copy_to (file_key fpath) f) (\<lambda>_. unzip_files dest fs))))"

definition Unzip :: "archive_formats \<Rightarrow> string \<Rightarrow> string \<Rightarrow> (fsys, unit) proc" where
  "Unzip A tarZipFile dest =
     andthen (os_read_file (file_key tarZipFile)) (\<lambda>data.
     case af_zip A data of Inl err \<Rightarrow> fail err | Inr files \<Rightarrow> unzip_files dest files)"

text \<open>\<open>made\<close> are the directories made so far.\<close>

fun untar_entries :: "string \<Rightarrow> fkey list \<Rightarrow> tar_entries \<Rightarrow> (fsys, unit) proc" where
  "untar_entries dir made [] = ret ()"
| "untar_entries dir made (Inl err # es) = fail (Wrap ''tar error: '' err)"
| "untar_entries dir made (Inr f # es) =
     (if \<not> validRelPath (ae_Name f) then fail (Errorf (''tar contained invalid name error '' @ ae_Name f))
      else let abs = file_key (path_join [dir, ae_Name f])
      in case ae_kind f of
           Regular \<Rightarrow>
             andthen (if butlast abs \<in> set made then ret () else os_mkdir_all (butlast abs)) (\<lambda>_.
             andthen (os_create abs) (\<lambda>_.
             attempt (copy_to abs f) (\<lambda>err. fail (Wrap ''error writing: '' err)) (\<lambda>n.
             if n \<noteq> ae_Size f then fail (Errorf ''only wrote a part'')
             else untar_entries dir (List.insert (butlast abs) made) es)))
         | Folder \<Rightarrow> andthen (os_mkdir_all abs) (\<lambda>_. untar_entries dir (List.insert abs made) es)
         | Other_kind \<Rightarrow> fail (Errorf (''tar file entry contained unsupported file type '' @ ae_Name f)))"

definition untar :: "goerr + tar_entries \<Rightarrow> string \<Rightarrow> (fsys, unit) proc" where
  "untar r dir =
     (case r of
        Inl err \<Rightarrow> fail (Wrap ''requires gzip-compressed body: '' err)
      | Inr es \<Rightarrow> andthen (untar_entries dir [] es) (\<lambda>_. \<lambda>fs.
          let header = path_join [dir, ''pax_global_header'']
          in if Exists header fs then (Ok (), snd (os_remove (file_key header) fs)) else (Ok (), fs)))"

definition Untar :: "archive_formats \<Rightarrow> string \<Rightarrow> string \<Rightarrow> (fsys, unit) proc" where
  "Untar A tarFile dest = andthen (os_read_file (file_key tarFile)) (\<lambda>data. untar (af_tar_gz A data) dest)"

definition Decompress :: "archive_formats \<Rightarrow> string \<Rightarrow> string \<Rightarrow> (fsys, unit) proc" where
  "Decompress A path dest =
     (if path_ext path = ''.gz'' then Untar A path dest
      else if path_ext path = ''.zip'' then Unzip A path dest
      else fail (Errorf ''not support file''))"

subsection \<open>storage/docker\<close>

text \<open>A pull ends when its output has been copied.\<close>

record 's docker_api =
  dk_ImagePull :: "string \<Rightarrow> ('s, unit) proc"
  dk_ContainerCreate :: "string \<Rightarrow> string list \<Rightarrow> string \<Rightarrow> ('s, string) proc"
  dk_ContainerStart :: "string \<Rightarrow> ('s, unit) proc"
  dk_ContainerStop :: "string \<Rightarrow> ('s, unit) proc"
  dk_ContainerRemove :: "string \<Rightarrow> ('s, unit) proc"
  dk_CopyFromContainer :: "string \<Rightarrow> string \<Rightarrow> ('s, tar_entries) proc"

record 's docker_host =
  dh_engine :: 's
  dh_files :: fsys

definition on_engine :: "('s, 'a) proc \<Rightarrow> ('s docker_host, 'a) proc" where
  "on_engine m = (\<lambda>h. case m (dh_engine h) of (r, s) \<Rightarrow> (r, h\<lparr>dh_engine := s\<rparr>))"

definition on_host_files :: "(fsys, 'a) proc \<Rightarrow> ('s docker_host, 'a) proc" where
  "on_host_files m = (\<lambda>h. case m (dh_files h) of (r, fs) \<Rightarrow> (r, h\<lparr>dh_files := fs\<rparr>))"

definition PullImage :: "'s docker_api \<Rightarrow> string \<Rightarrow> ('s docker_host, unit) proc" where
  "PullImage D img = on_engine (dk_ImagePull D img)"

definition CreateContainer :: "'s docker_api \<Rightarrow> string \<Rightarrow> string \<Rightarrow> string list \<Rightarrow> ('s docker_host, string) proc" where
  "CreateContainer D img name cmd =
     andthen (PullImage D img) (\<lambda>_. on_engine (dk_ContainerCreate D img cmd name))"

definition RunContainer :: "'s docker_api \<Rightarrow> string \<Rightarrow> string \<Rightarrow> string list \<Rightarrow> ('s docker_host, unit) proc" where
  "RunContainer D img name cmd =
     andthen (PullImage D img) (\<lambda>_.
     andthen (on_engine (dk_ContainerCreate D img cmd name)) (\<lambda>cid.
     on_engine (dk_ContainerStart D cid)))"

definition StopContainer :: "'s docker_api \<Rightarrow> string \<Rightarrow> ('s docker_host, unit) proc" where
  "StopContainer D cid = on_engine (dk_ContainerStop D cid)"

definition RemoveContainer :: "'s docker_api \<Rightarrow> string \<Rightarrow> ('s docker_host, unit) proc" where
  "RemoveContainer D cid = on_engine (dk_ContainerRemove D cid)"

text \<open>The entries of an img are not checked: a name with \<open>..\<close> leaves the directory.\<close>

fun copy_entries :: "string \<Rightarrow> tar_entries \<Rightarrow> (fsys, unit) proc" where
  "copy_entries distPath [] = ret ()"
| "copy_entries distPath (Inl err # es) = fail err"
| "copy_entries distPath (Inr hdr # es) =
     (let fileName = file_key (path_join [distPath, ae_Name hdr])
      in if ae_kind hdr = Folder then andthen (os_mkdir_all fileName) (\<lambda>_. copy_entries distPath es)
         else andthen (os_create fileName) (\<lambda>_. andthen (copy_to fileName hdr) (\<lambda>_. copy_entries distPath es)))"

definition CopyFromContainer :: "'s docker_api \<Rightarrow> string \<Rightarrow> string \<Rightarrow> string \<Rightarrow> ('s docker_host, unit) proc" where
  "CopyFromContainer D cid srcPath distPath =
     andthen (on_engine (dk_CopyFromContainer D cid srcPath)) (\<lambda>tarStream.
     andthen (on_host_files (os_mkdir_all (file_key distPath))) (\<lambda>_.
     on_host_files (copy_entries distPath tarStream)))"

text \<open>A deferred call: it runs whatever the call does, and its error is lost.\<close>

definition defer_call :: "('s, unit) proc \<Rightarrow> ('s, 'a) proc \<Rightarrow> ('s, 'a) proc" where
  "defer_call d m = (\<lambda>s. case m s of (r, s1) \<Rightarrow> (case d s1 of (Panic, s2) \<Rightarrow> (Panic, s2) | (_, s2) \<Rightarrow> (r, s2)))"

definition CopyFromImage :: "'s docker_api \<Rightarrow> string \<Rightarrow> string \<Rightarrow> string \<Rightarrow> ('s docker_host, unit) proc" where
  "CopyFromImage D img srcPath distPath =
     andthen (PullImage D img) (\<lambda>_.
     andthen (on_engine (dk_ContainerCreate D img [] [])) (\<lambda>cid.
     defer_call (RemoveContainer D cid) (CopyFromContainer D cid srcPath distPath)))"

end
