(* ===== verification/Archives_Props.thy ===== *)
theory Archives_Props
  imports Archives
begin

section \<open>What is unpacked, and where\<close>

text \<open>
  The three loops that unpack an archive are instances of one interface: a step writes at most one file and leaves the
  others. From it follows what a file has after a successful run. The second part shows that zip and tar files are unpacked
  below their directory, the third that an image is copied and its container removed.
\<close>

subsection \<open>Files that a call leaves\<close>

definition leaves :: "fkey \<Rightarrow> (fsys, 'a) proc \<Rightarrow> bool" where
  "leaves k m \<longleftrightarrow> (\<forall>fs d. fs k = Some (File d) \<longrightarrow> snd (m fs) k = Some (File d))"

lemma leavesD: "leaves k m \<Longrightarrow> m fs = (r, fs') \<Longrightarrow> fs k = Some (File d) \<Longrightarrow> fs' k = Some (File d)"
  unfolding leaves_def by (metis snd_conv)

lemma leaves_mkdir: "leaves k (os_mkdir_all q)"
proof -
  have "is_file fs k" "k \<noteq> []" if "fs k = Some (File d)" "k \<in> set (ancestors q)" for fs d
    using that by (auto simp: is_file_def ancestors_mem)
  then show ?thesis unfolding leaves_def os_mkdir_all_def by (auto simp: list_ex_iff)
qed

lemma leaves_create: "k \<noteq> q \<Longrightarrow> leaves k (os_create q)"
  by (auto simp: leaves_def os_create_def os_write_file_def)

lemma leaves_reads: "k \<noteq> q \<Longrightarrow> leaves k (write_reads q ds)"
proof (induction ds)
  case (Cons d ds)
  then show ?case
    by (auto simp: leaves_def andthen_def attempt_def fail_def file_append_def split: option.splits node.splits)
qed (simp add: leaves_def ret_def)

lemma write_reads_content:
  "write_reads k ds fs = (Ok u, fs') \<Longrightarrow> fs k = Some (File d) \<Longrightarrow> fs' k = Some (File (d @ concat ds))"
proof (induction ds arbitrary: fs d)
  case (Cons x ds)
  from Cons.prems obtain fs1 where "file_append k x fs = (Ok (), fs1)" "write_reads k ds fs1 = (Ok u, fs')"
    by (auto simp: andthen_Ok_iff)
  with Cons.IH [of fs1 "d @ x"] Cons.prems show ?case by (auto simp: file_append_def)
qed (simp add: ret_def)

text \<open>A file that was created and copied.\<close>

lemma created_copied:
  assumes "os_create k fs = (Ok u, fs1)" and "copy_to k f fs1 = (Ok n, fs2)"
  shows "fs2 k = Some (File (concat (ae_reads f)))" and "n = length (concat (ae_reads f))"
    and "q \<noteq> k \<Longrightarrow> fs q = Some (File d) \<Longrightarrow> fs2 q = Some (File d)"
proof -
  from assms(2) obtain r where w: "write_reads k (ae_reads f) fs1 = (Ok r, fs2)" "n = length (concat (ae_reads f))"
    by (auto simp: copy_to_def andthen_Ok_iff ret_def fail_def split: option.splits)
  have "fs1 k = Some (File [])" using os_write_file_cases [of k "[]" fs] assms(1) by (auto simp: os_create_def)
  with write_reads_content [OF w(1)] show "fs2 k = Some (File (concat (ae_reads f)))" by simp
  show "n = length (concat (ae_reads f))" by (rule w(2))
  show "fs2 q = Some (File d)" if "q \<noteq> k" "fs q = Some (File d)"
    using leavesD [OF leaves_reads [OF that(1)] w(1) leavesD [OF leaves_create [OF that(1)] assms(1) that(2)]] .
qed

lemma attempt_fail_iff:
  "attempt m (\<lambda>e. fail (g e)) k s = (Ok b, s'') \<longleftrightarrow> (\<exists>a s'. m s = (Ok a, s') \<and> k a s' = (Ok b, s''))"
  by (auto simp: attempt_def fail_def split: prod.splits outcome.splits)

subsection \<open>The interface of the loops\<close>

definition last_files :: "('e \<Rightarrow> (fkey \<times> bytes) option) \<Rightarrow> 'e list \<Rightarrow> fkey \<Rightarrow> bytes option" where
  "last_files f es k = map_of (rev (List.map_filter f es)) k"

lemma last_files_Cons:
  "last_files f (e # es) k = (case last_files f es k of Some d \<Rightarrow> Some d
     | None \<Rightarrow> (case f e of None \<Rightarrow> None | Some (q, d) \<Rightarrow> if q = k then Some d else None))"
  by (auto simp: last_files_def List.map_filter_def map_add_def split: option.splits)

text \<open>The files of a map are written, the files of other paths kept.\<close>

definition unpacked_to :: "(fkey \<Rightarrow> bytes option) \<Rightarrow> fsys \<Rightarrow> fsys \<Rightarrow> bool" where
  "unpacked_to files fs fs' \<longleftrightarrow> (\<forall>k d. files k = Some d \<longrightarrow> fs' k = Some (File d))
     \<and> (\<forall>k d. files k = None \<longrightarrow> fs k = Some (File d) \<longrightarrow> fs' k = Some (File d))"

lemma unpacked_toD:
  assumes "unpacked_to files fs fs'"
  shows "files k = Some d \<Longrightarrow> fs' k = Some (File d)"
    and "files k = None \<Longrightarrow> fs k = Some (File d) \<Longrightarrow> fs' k = Some (File d)"
  using assms unfolding unpacked_to_def by blast+

locale unpacker =
  fixes unpack :: "'m \<Rightarrow> 'e list \<Rightarrow> (fsys, unit) proc"
    and file_of :: "'e \<Rightarrow> (fkey \<times> bytes) option"
  assumes unpack_end: "unpack m [] fs = (Ok (), fs') \<Longrightarrow> fs' = fs"
    and unpack_step: "unpack m (e # es) fs = (Ok (), fs') \<Longrightarrow> \<exists>m1 fs1. unpack m1 es fs1 = (Ok (), fs')
      \<and> (\<forall>k d. k \<notin> fst ` set_option (file_of e) \<longrightarrow> fs k = Some (File d) \<longrightarrow> fs1 k = Some (File d))
      \<and> (\<forall>k d. file_of e = Some (k, d) \<longrightarrow> fs1 k = Some (File d))"
begin

text \<open>Each file has the content of the last entry of its path; the other files are as they were.\<close>

lemma unpacked: "unpack m es fs = (Ok (), fs') \<Longrightarrow> unpacked_to (last_files file_of es) fs fs'"
proof (induction es arbitrary: m fs)
  case Nil
  then show ?case by (auto simp: unpacked_to_def last_files_def List.map_filter_def dest: unpack_end)
next
  case (Cons e es)
  from unpack_step [OF Cons.prems] obtain m1 fs1 where run: "unpack m1 es fs1 = (Ok (), fs')"
    and other: "\<forall>k d. k \<notin> fst ` set_option (file_of e) \<longrightarrow> fs k = Some (File d) \<longrightarrow> fs1 k = Some (File d)"
    and this: "\<forall>k d. file_of e = Some (k, d) \<longrightarrow> fs1 k = Some (File d)" by blast
  from Cons.IH [OF run] other this show ?case
    by (cases "file_of e") (auto simp: unpacked_to_def last_files_Cons split: option.splits if_splits)
qed

end

definition zip_file :: "string \<Rightarrow> archive_entry \<Rightarrow> (fkey \<times> bytes) option" where
  "zip_file dest f = (if ae_kind f = Folder then None
     else Some (file_key (path_join [dest, ae_Name f]), concat (ae_reads f)))"

definition tar_file :: "string \<Rightarrow> goerr + archive_entry \<Rightarrow> (fkey \<times> bytes) option" where
  "tar_file dir e = (case e of Inl _ \<Rightarrow> None | Inr f \<Rightarrow> zip_file dir f)"

interpretation zip: unpacker "\<lambda>_::unit. unzip_files dest" "zip_file dest" for dest
proof
  fix m :: unit and f fs files fs'
  assume run: "unzip_files dest (f # files) fs = (Ok (), fs')"
  let ?k = "file_key (path_join [dest, ae_Name f])"
  show "\<exists>m1::unit. \<exists>fs1. unzip_files dest files fs1 = (Ok (), fs')
      \<and> (\<forall>k d. k \<notin> fst ` set_option (zip_file dest f) \<longrightarrow> fs k = Some (File d) \<longrightarrow> fs1 k = Some (File d))
      \<and> (\<forall>k d. zip_file dest f = Some (k, d) \<longrightarrow> fs1 k = Some (File d))"
  proof (cases "ae_kind f = Folder")
    case True
    then obtain r fs1 where "os_mkdir_all ?k fs = (r, fs1)" "unzip_files dest files fs1 = (Ok (), fs')"
      using run by (cases "os_mkdir_all ?k fs") (auto simp: Let_def attempt_def fail_def split: if_splits outcome.splits)
    with True leavesD [OF leaves_mkdir] show ?thesis by (auto simp: zip_file_def)
  next
    case False
    then obtain r fs1 fs2 n fs3 where "os_mkdir_all (butlast ?k) fs = (Ok r, fs1)" and c: "os_create ?k fs1 = (Ok (), fs2)"
      "copy_to ?k f fs2 = (Ok n, fs3)" "unzip_files dest files fs3 = (Ok (), fs')"
      using run by (auto simp: Let_def andthen_Ok_iff fail_def split: if_splits option.splits)
    with False leavesD [OF leaves_mkdir] created_copied [OF c(1,2)] show ?thesis
      by (intro exI [of _ fs3] exI conjI) (auto simp: zip_file_def)
  qed
qed (simp add: ret_def)

interpretation tar: unpacker "untar_entries dir" "tar_file dir" for dir
proof
  fix made e fs es fs'
  assume run: "untar_entries dir made (e # es) fs = (Ok (), fs')"
  then obtain f where e: "e = Inr f" by (cases e) (auto simp: fail_def)
  let ?k = "file_key (path_join [dir, ae_Name f])"
  show "\<exists>m1 fs1. untar_entries dir m1 es fs1 = (Ok (), fs')
      \<and> (\<forall>k d. k \<notin> fst ` set_option (tar_file dir e) \<longrightarrow> fs k = Some (File d) \<longrightarrow> fs1 k = Some (File d))
      \<and> (\<forall>k d. tar_file dir e = Some (k, d) \<longrightarrow> fs1 k = Some (File d))"
  proof (cases "ae_kind f")
    case Regular
    with run e obtain r fs1 fs2 n fs3 m1 where m: "(if butlast ?k \<in> set made then ret () else os_mkdir_all (butlast ?k)) fs = (Ok r, fs1)"
      and c: "os_create ?k fs1 = (Ok (), fs2)" "copy_to ?k f fs2 = (Ok n, fs3)" "untar_entries dir m1 es fs3 = (Ok (), fs')"
      by (auto simp: Let_def andthen_Ok_iff attempt_fail_iff fail_def [of "Errorf _"] split: if_splits)
    have "fs q = Some (File d) \<Longrightarrow> fs1 q = Some (File d)" for q d
      using m leavesD [OF leaves_mkdir] by (auto simp: ret_def split: if_splits)
    with Regular c(3) created_copied [OF c(1,2)] show ?thesis
      by (intro exI [of _ m1] exI [of _ fs3] conjI) (auto simp: tar_file_def zip_file_def e)
  next
    case Folder
    with run e obtain r fs1 m1 where "os_mkdir_all ?k fs = (Ok r, fs1)" "untar_entries dir m1 es fs1 = (Ok (), fs')"
      by (auto simp: Let_def andthen_Ok_iff fail_def split: if_splits)
    with Folder leavesD [OF leaves_mkdir] show ?thesis
      by (intro exI [of _ m1] exI [of _ fs1]) (auto simp: tar_file_def zip_file_def e)
  next
    case Other_kind
    with run e show ?thesis by (auto simp: fail_def Let_def split: if_splits)
  qed
qed (simp add: ret_def)

interpretation image: unpacker "\<lambda>_::unit. copy_entries dist" "tar_file dist" for dist
proof
  fix m :: unit and e fs es fs'
  assume run: "copy_entries dist (e # es) fs = (Ok (), fs')"
  then obtain f where e: "e = Inr f" by (cases e) (auto simp: fail_def)
  let ?k = "file_key (path_join [dist, ae_Name f])"
  show "\<exists>m1::unit. \<exists>fs1. copy_entries dist es fs1 = (Ok (), fs')
      \<and> (\<forall>k d. k \<notin> fst ` set_option (tar_file dist e) \<longrightarrow> fs k = Some (File d) \<longrightarrow> fs1 k = Some (File d))
      \<and> (\<forall>k d. tar_file dist e = Some (k, d) \<longrightarrow> fs1 k = Some (File d))"
  proof (cases "ae_kind f = Folder")
    case True
    with run e obtain r fs1 where "os_mkdir_all ?k fs = (Ok r, fs1)" "copy_entries dist es fs1 = (Ok (), fs')"
      by (auto simp: Let_def andthen_Ok_iff)
    with True leavesD [OF leaves_mkdir] show ?thesis
      by (intro exI [of _ fs1] exI) (auto simp: tar_file_def zip_file_def e)
  next
    case False
    with run e obtain fs1 n fs2 where c: "os_create ?k fs = (Ok (), fs1)" "copy_to ?k f fs1 = (Ok n, fs2)"
      "copy_entries dist es fs2 = (Ok (), fs')"
      by (auto simp: Let_def andthen_Ok_iff)
    with False created_copied [OF c(1,2)] show ?thesis
      by (intro exI [of _ fs2] exI conjI) (auto simp: tar_file_def zip_file_def e)
  qed
qed (simp add: ret_def)

subsection \<open>Below the directory\<close>

text \<open>\<open>below K\<close> are the paths inside the directory \<open>K\<close>; \<open>dirs_to K\<close>: the directory and those above it exist.\<close>

definition below :: "fkey \<Rightarrow> fkey \<Rightarrow> bool" where
  "below K q \<longleftrightarrow> (\<exists>t. t \<noteq> [] \<and> q = K @ t)"

definition dirs_to :: "fkey \<Rightarrow> fsys \<Rightarrow> bool" where
  "dirs_to K fs \<longleftrightarrow> (\<forall>q\<in>set (ancestors K). fs q = Some Dir)"

definition confined :: "fkey \<Rightarrow> (fsys, 'a) proc \<Rightarrow> bool" where
  "confined K m \<longleftrightarrow> (\<forall>fs. dirs_to K fs \<longrightarrow> (\<forall>q. \<not> below K q \<longrightarrow> snd (m fs) q = fs q))"

named_theorems confined_rules "what is confined to a directory"

lemma above_not_below: "q \<in> set (ancestors K) \<Longrightarrow> \<not> below K q"
  by (auto simp: below_def ancestors_mem)

lemma confinedD: "confined K m \<Longrightarrow> dirs_to K fs \<Longrightarrow> m fs = (r, fs') \<Longrightarrow> \<not> below K q \<Longrightarrow> fs' q = fs q"
  unfolding confined_def by (metis snd_conv)

lemma confined_dirs: "confined K m \<Longrightarrow> dirs_to K fs \<Longrightarrow> m fs = (r, fs') \<Longrightarrow> dirs_to K fs'"
  unfolding dirs_to_def using confinedD above_not_below by (metis dirs_to_def)

lemma confined_ret [confined_rules]: "confined K (ret a)" "confined K (fail e)"
  by (simp_all add: confined_def ret_def fail_def)

lemma confined_attempt [confined_rules]:
  assumes "confined K m" and "\<And>e. confined K (h e)" and "\<And>a. confined K (k a)"
  shows "confined K (attempt m h k)"
  unfolding confined_def
proof (intro allI impI)
  fix fs q assume fs: "dirs_to K fs" and q: "\<not> below K q"
  obtain r fs1 where m: "m fs = (r, fs1)" by fastforce
  note fs1 = confined_dirs [OF assms(1) fs m] confinedD [OF assms(1) fs m q]
  with assms(2,3) q show "snd (attempt m h k fs) q = fs q"
    by (cases r) (simp_all add: attempt_run [of m, OF m] confined_def)
qed

lemma confined_andthen [confined_rules]:
  "confined K m \<Longrightarrow> (\<And>a. confined K (k a)) \<Longrightarrow> confined K (andthen m k)"
  unfolding andthen_def by (intro confined_rules)

lemma prefix_above:
  assumes "K = q @ t" and "q \<noteq> []"
  shows "q \<in> set (ancestors K)"
  using assms by (auto simp: ancestors_mem)

lemma confined_mkdir [confined_rules]:
  assumes "(\<exists>t. q = K @ t) \<or> (\<exists>t. K = q @ t)"
  shows "confined K (os_mkdir_all q)"
  unfolding confined_def
proof (intro allI impI)
  fix fs x assume fs: "dirs_to K fs" and x: "\<not> below K x"
  have "x \<in> set (ancestors K)" if "x \<in> set (ancestors q)"
  proof -
    from that obtain s where s: "q = x @ s" "x \<noteq> []" by (auto simp: ancestors_mem)
    from assms show ?thesis
    proof
      assume "\<exists>t. q = K @ t"
      then obtain t where "K @ t = x @ s" using s by metis
      then consider u where "K = x @ u" | u where "x = K @ u"
        by (auto simp: append_eq_append_conv2)
      then show ?thesis using x s(2) by cases (auto simp: below_def ancestors_mem)
    next
      assume "\<exists>t. K = q @ t"
      with s show ?thesis by (auto simp: ancestors_mem)
    qed
  qed
  with fs show "snd (os_mkdir_all q fs) x = fs x" by (auto simp: os_mkdir_all_def dirs_to_def)
qed

lemma confined_create:
  assumes "below K q \<or> (\<exists>t. K = q @ t)" and "below K q \<Longrightarrow> confined K (m ())"
  shows "confined K (andthen (os_create q) m)"
proof (cases "below K q")
  case True
  then have "confined K (os_create q)" by (auto simp: confined_def os_create_def os_write_file_def)
  with assms(2) [OF True] show ?thesis by (intro confined_rules) simp_all
next
  case False
  with assms(1) have "is_dir fs q" if "dirs_to K fs" for fs
    using that prefix_above by (auto simp: is_dir_def dirs_to_def)
  then show ?thesis
    by (auto simp: confined_def os_create_def os_write_file_def andthen_def attempt_def fail_def)
qed

lemma confined_copy: "below K q \<Longrightarrow> confined K (copy_to q f)"
proof -
  assume q: "below K q"
  then have "confined K (file_append q d)" for d
    by (auto simp: confined_def file_append_def split: option.split node.split)
  then have "confined K (write_reads q ds)" for ds by (induction ds) (simp_all add: confined_rules)
  then show ?thesis
    unfolding copy_to_def by (intro confined_andthen) (cases "ae_error f"; simp add: confined_rules)+
qed

lemma clean_comps_down:
  "''..'' \<notin> set cs \<Longrightarrow> clean_comps r out cs = rev out @ filter (\<lambda>c. c \<noteq> [] \<and> c \<noteq> ''.'') cs"
  by (induction cs arbitrary: out) auto

lemma split_on_mid: "split_on c (s @ c # t) = split_on c s @ split_on c t"
  by (induction s) (auto split: list.splits)

lemma rooted_join:
  assumes "rooted d"
  shows "rooted (path_join [d, n])" and "file_key (path_join [d, n]) = clean_comps True (rev (file_key d)) (parts n)"
proof -
  have "d \<noteq> []" using assms by (auto simp: rooted_def)
  then have j: "path_join [d, n] = path_clean (d @ ''/'' @ n)" by (simp add: path_join_def)
  have r: "rooted (d @ ''/'' @ n)" using assms by (auto simp: rooted_def hd_append)
  then show "rooted (path_join [d, n])" unfolding j by (auto simp: path_clean_def rooted_def Let_def)
  show "file_key (path_join [d, n]) = clean_comps True (rev (file_key d)) (parts n)"
    unfolding j using r assms
    by (simp add: file_key_def [of "d @ _"] split_on_mid clean_comps_append file_key_def [of d] parts_def)
qed

text \<open>The name of an entry of a zip file.\<close>

lemma zip_key:
  assumes "rooted d" and "has_prefix (path_join [d, n]) (path_clean d @ ''/'')"
  shows "below (file_key d) (file_key (path_join [d, n]))"
proof -
  let ?K = "file_key d" and ?Q = "file_key (path_join [d, n])"
  have "d \<noteq> []" using assms(1) by (auto simp: rooted_def)
  then have j: "path_join [d, n] = path_clean (d @ ''/'' @ n)" by (simp add: path_join_def)
  have r: "rooted (d @ ''/'' @ n)" using assms(1) by (auto simp: rooted_def hd_append)
  have "path_clean (d @ ''/'' @ n) = ''/'' @ join_with ''/'' (file_key (d @ ''/'' @ n))"
    using r by (simp add: path_clean_def Let_def)
  moreover have "?Q = file_key (d @ ''/'' @ n)" using j by simp
  ultimately have Q: "path_join [d, n] = ''/'' @ join_with ''/'' ?Q" using j by simp
  have K: "path_clean d = ''/'' @ join_with ''/'' ?K"
    using assms(1) by (simp add: path_clean_def Let_def)
  have normal: "normal True ?K" "normal True ?Q"
    using file_key_normal [of d] file_key_normal [of "path_join [d, n]"] assms(1) rooted_join(1) [OF assms(1)] by simp_all
  obtain rest where "path_join [d, n] = (path_clean d @ ''/'') @ rest"
    using assms(2) unfolding has_prefix_def by (metis append_take_drop_id)
  with Q K have rest: "join_with ''/'' ?Q = join_with ''/'' ?K @ ''/'' @ rest" by simp
  then have "?Q \<noteq> []" by auto
  then have "?Q = split_on CHR ''/'' (join_with ''/'' ?K @ ''/'' @ rest)"
    using split_join [of ?Q "CHR ''/''"] normal_no_slash [OF normal(2)] rest by auto
  then have Q2: "?Q = split_on CHR ''/'' (join_with ''/'' ?K) @ split_on CHR ''/'' rest"
    by (simp add: split_on_mid)
  show ?thesis
  proof (cases "?K = []")
    case True
    with Q2 have "[] \<in> set ?Q" by simp
    then show ?thesis using normal_no_slash(2) [OF normal(2)] by blast
  next
    case False
    with Q2 have "?Q = ?K @ split_on CHR ''/'' rest"
      using split_join [of ?K "CHR ''/''"] normal_no_slash [OF normal(1)] by auto
    then show ?thesis unfolding below_def by (intro exI [of _ "split_on CHR ''/'' rest"]) simp
  qed
qed

lemma containsI: "contains (u @ t @ v) t"
  by (auto simp: contains_def list_ex_iff has_prefix_def intro!: bexI [of _ "length u"])

lemma dots_contained: "contains (join_with ''/'' (xs @ ''..'' # y # ys)) ''../''"
proof -
  have "\<exists>u v. join_with ''/'' (xs @ ''..'' # y # ys) = u @ ''../'' @ v"
  proof (induction xs)
    case Nil
    show ?case by (rule exI [of _ "[]"]) simp
  next
    case (Cons x xs)
    then obtain u v where "join_with ''/'' (xs @ ''..'' # y # ys) = u @ ''../'' @ v" by blast
    moreover have "join_with ''/'' ((x # xs) @ ''..'' # y # ys) = x @ ''/'' @ join_with ''/'' (xs @ ''..'' # y # ys)"
      by (cases xs) simp_all
    ultimately show ?case by (intro exI [of _ "x @ ''/'' @ u"] exI [of _ v]) simp
  qed
  then show ?thesis using containsI by metis
qed

text \<open>The name of an entry of a tar file: \<open>..\<close> can only be the last component.\<close>

lemma tar_key:
  assumes "rooted d" and "validRelPath n"
  shows "(\<exists>t. file_key (path_join [d, n]) = file_key d @ t) \<or> file_key (path_join [d, n]) = butlast (file_key d)"
proof -
  have up: "''..'' \<notin> set (butlast (parts n))"
  proof
    assume "''..'' \<in> set (butlast (parts n))"
    then obtain xs ys where "butlast (parts n) = xs @ ''..'' # ys" by (meson split_list)
    then have "parts n = xs @ ''..'' # (ys @ [last (parts n)])"
      using append_butlast_last_id [of "parts n"] by (simp add: parts_def)
    moreover have "join_with ''/'' (parts n) = n" by (simp add: parts_def)
    ultimately have "contains n ''../''"
      using dots_contained [of xs "hd (ys @ [last (parts n)])" "tl (ys @ [last (parts n)])"] by simp
    with assms(2) show False by (simp add: validRelPath_def)
  qed
  let ?K = "file_key d" and ?down = "filter (\<lambda>c. c \<noteq> [] \<and> c \<noteq> ''.'') (butlast (parts n))"
  have "parts n = butlast (parts n) @ [last (parts n)]" by (simp add: parts_def)
  then have "clean_comps True (rev ?K) (parts n) = clean_comps True (rev (?K @ ?down)) [last (parts n)]"
    using clean_comps_append [of True "rev ?K" "butlast (parts n)" "[last (parts n)]"] clean_comps_down [OF up, of True "rev ?K"]
    by simp
  then have key: "file_key (path_join [d, n]) = clean_comps True (rev (?K @ ?down)) [last (parts n)]"
    using rooted_join(2) [OF assms(1)] by simp
  show ?thesis
  proof (cases "last (parts n) = ''..''")
    case False
    with key show ?thesis by auto
  next
    case True
    have plain: "\<forall>c\<in>set (?K @ ?down). c \<noteq> ''..''"
    proof -
      have "normal True ?K" using file_key_normal [of d] assms(1) by simp
      then have "''..'' \<notin> set ?K" by (auto simp: normal_def list_all_iff plain_def)
      with up show ?thesis by auto
    qed
    have "clean_comps True (rev (?K @ ?down)) [''..''] = butlast (?K @ ?down)"
    proof (cases "?K @ ?down" rule: rev_cases)
      case (snoc xs x)
      with plain have "x \<noteq> ''..''" by auto
      with snoc show ?thesis by simp
    qed simp
    with key True have "file_key (path_join [d, n]) = butlast (?K @ ?down)" by simp
    then show ?thesis by (auto simp: butlast_append)
  qed
qed

lemma unzip_confined: "rooted dest \<Longrightarrow> confined (file_key dest) (unzip_files dest files)"
proof (induction files)
  case (Cons f files)
  let ?k = "file_key (path_join [dest, ae_Name f])"
  note IH = Cons.IH [OF Cons.prems]
  show ?case
  proof (cases "has_prefix (path_join [dest, ae_Name f]) (path_clean dest @ ''/'')")
    case True
    from zip_key [OF Cons.prems this] have b: "below (file_key dest) ?k" .
    then obtain t where "?k = file_key dest @ t" "butlast ?k = file_key dest @ butlast t"
      by (auto simp: below_def butlast_append)
    then have "confined (file_key dest) (os_mkdir_all ?k)" "confined (file_key dest) (os_mkdir_all (butlast ?k))"
      by (auto intro: confined_mkdir)
    then show ?thesis
      using b IH by (auto simp: Let_def intro!: confined_rules confined_create confined_copy split: option.split)
  qed (simp add: Let_def confined_rules)
qed (simp add: confined_rules)

lemma untar_confined: "rooted dir \<Longrightarrow> confined (file_key dir) (untar_entries dir made es)"
proof (induction es arbitrary: made)
  case (Cons e es)
  note IH = Cons.IH [OF Cons.prems]
  show ?case
  proof (cases "\<exists>f. e = Inr f \<and> validRelPath (ae_Name f)")
    case True
    then obtain f where e: "e = Inr f" "validRelPath (ae_Name f)" by blast
    let ?K = "file_key dir" and ?k = "file_key (path_join [dir, ae_Name f])"
    consider (down) t where "?k = ?K @ t" | (up) "?k = butlast ?K" using tar_key [OF Cons.prems e(2)] by blast
    then have k: "below ?K ?k \<or> (\<exists>t. ?K = ?k @ t)" and m: "confined ?K (os_mkdir_all ?k)" "confined ?K (os_mkdir_all (butlast ?k))"
    proof -
      have b: "\<exists>t. xs = butlast xs @ t" for xs :: fkey by (metis append_butlast_last_id append_Nil2 butlast.simps(1))
      have bb: "\<exists>t. xs = butlast (butlast xs) @ t" for xs :: fkey using b [of xs] b [of "butlast xs"] by (metis append.assoc)
      assume c: "\<And>thesis. (\<And>t. ?k = ?K @ t \<Longrightarrow> thesis) \<Longrightarrow> (?k = butlast ?K \<Longrightarrow> thesis) \<Longrightarrow> thesis"
      show "below ?K ?k \<or> (\<exists>t. ?K = ?k @ t)" using c b by (metis below_def append_Nil2)
      show "confined ?K (os_mkdir_all ?k)" by (rule confined_mkdir) (metis c b)
      show "confined ?K (os_mkdir_all (butlast ?k))"
        by (rule confined_mkdir) (metis c b bb butlast_append append_Nil2)
    qed
    then show ?thesis
      using e IH by (auto simp: Let_def intro!: confined_rules confined_create confined_copy split: entry_kind.split)
  qed (cases e; auto simp: confined_rules)
qed (simp add: confined_rules)

text \<open>
  C29: whatever the entries of an archive are called, unpacking it, successful or not, changes nothing outside of its
  directory, when this is an absolute path to a directory that exists.
\<close>

theorem archives_confined:
  assumes "rooted dest" and "dirs_to (file_key dest) fs" and "Decompress A path dest fs = (r, fs')"
    and "\<not> below (file_key dest) q"
  shows "fs' q = fs q"
proof -
  let ?K = "file_key dest"
  have read: "confined ?K (os_read_file k)" for k
    by (auto simp: confined_def os_read_file_def split: option.split node.split)
  have key: "file_key (path_join [dest, ''pax_global_header'']) = ?K @ [''pax_global_header'']"
    using rooted_join(2) [OF assms(1)] by (simp add: parts_def)
  have "confined ?K (\<lambda>fs. if Exists h fs then (Ok (), snd (os_remove (file_key (path_join [dest, ''pax_global_header''])) fs)) else (Ok (), fs))" for h
    unfolding confined_def key
    by (auto simp: os_remove_def below_def split: option.split node.split)
  then have "confined ?K (untar r dest)" for r
    using untar_confined [OF assms(1)] by (auto simp: untar_def Let_def intro!: confined_rules split: sum.split)
  then have "confined ?K (Decompress A path dest)"
    using unzip_confined [OF assms(1)] read
    by (auto simp: Decompress_def Untar_def Unzip_def intro!: confined_rules split: sum.split)
  from confinedD [OF this assms(2,3,4)] show ?thesis .
qed

text \<open>After a success every file has the content of the last entry of its path.\<close>

theorem archives_unpacked:
  shows "unzip_files dest files fs = (Ok (), fs') \<Longrightarrow> last_files (zip_file dest) files k = Some d \<Longrightarrow> fs' k = Some (File d)"
    and "untar_entries dest [] es fs = (Ok (), fs') \<Longrightarrow> last_files (tar_file dest) es k = Some d \<Longrightarrow> fs' k = Some (File d)"
  using unpacked_toD(1) [OF zip.unpacked] unpacked_toD(1) [OF tar.unpacked] by blast+

subsection \<open>A copy from an image\<close>

text \<open>
  C28: once the container of an image has been created, \<open>CopyFromImage\<close> ends with its removal, whatever the copy does; and
  when it succeeds, every file has the content of the last entry of its path in the stream, and the other files are as
  they were.
\<close>

theorem image_copied:
  assumes "dk_ImagePull D img (dh_engine h) = (Ok (), s1)" and "dk_ContainerCreate D img [] [] s1 = (Ok cid, s2)"
    and "dk_CopyFromContainer D cid src s2 = (q, s3)" and "fst (dk_ContainerRemove D cid s3) \<noteq> Panic"
    and "CopyFromImage D img src dist h = (r, h')"
  shows "dh_engine h' = snd (dk_ContainerRemove D cid s3)
    \<and> (r = Ok () \<longrightarrow> (\<exists>es. q = Ok es \<and> unpacked_to (last_files (tar_file dist) es) (dh_files h) (dh_files h')))"
proof -
  let ?copy = "CopyFromContainer D cid src dist" and ?h = "h\<lparr>dh_engine := s2\<rparr>"
  obtain r1 h1 where copy: "?copy ?h = (r1, h1)" by fastforce
  obtain r2 s4 where remove: "dk_ContainerRemove D cid s3 = (r2, s4)" "r2 \<noteq> Panic" using assms(4) by (metis fst_conv surj_pair)
  have engine: "dh_engine h1 = s3"
    using copy assms(3)
    by (cases q) (auto simp: CopyFromContainer_def on_engine_def on_host_files_def andthen_def attempt_def fail_def
        split: prod.splits outcome.splits)
  have "CopyFromImage D img src dist h = (r1, h1\<lparr>dh_engine := s4\<rparr>)"
    using assms(1,2) copy remove engine
    by (cases r2) (simp_all add: CopyFromImage_def PullImage_def on_engine_def andthen_Ok defer_call_def RemoveContainer_def)
  with assms(5) have r: "r = r1" "h' = h1\<lparr>dh_engine := s4\<rparr>" by simp_all
  have "\<exists>es. q = Ok es \<and> unpacked_to (last_files (tar_file dist) es) (dh_files h) (dh_files h1)" if "r1 = Ok ()"
  proof -
    from copy that assms(3) obtain es u fs1 where es: "q = Ok es" "os_mkdir_all (file_key dist) (dh_files h) = (Ok u, fs1)"
      "copy_entries dist es fs1 = (Ok (), dh_files h1)"
      by (cases q) (auto simp: CopyFromContainer_def on_engine_def on_host_files_def andthen_Ok_iff split: prod.splits)
    have "unpacked_to (last_files (tar_file dist) es) (dh_files h) (dh_files h1)"
      using image.unpacked [OF es(3)] leavesD [OF leaves_mkdir es(2)]
      unfolding unpacked_to_def by blast
    with es(1) show ?thesis by blast
  qed
  with r remove(1) show ?thesis by simp
qed

subsection \<open>Witnesses\<close>

definition demo_entry :: "string \<Rightarrow> string \<Rightarrow> archive_entry" where
  "demo_entry name content = \<lparr>ae_Name = name, ae_kind = Regular, ae_Size = length content, ae_open = None,
     ae_reads = [content], ae_error = None\<rparr>"

text \<open>An archive that tries to write over the host's files, as a zip and as a tar file.\<close>

definition demo_formats :: archive_formats where
  "demo_formats = \<lparr>af_zip = (\<lambda>_. Inr [demo_entry ''a'' ''1'', demo_entry ''../etc/hosts'' ''2'']),
     af_tar_gz = (\<lambda>_. Inr [Inr (demo_entry ''a/b'' ''1''), Inr (demo_entry ''..'' ''2'')])\<rparr>"

definition archive_fs :: fsys where
  "archive_fs = [[''d''] \<mapsto> Dir, [''t.zip''] \<mapsto> File ''zip'', [''t.gz''] \<mapsto> File ''gz'']"

theorem archives_confined_witness:
  "snd (Decompress demo_formats ''/t.zip'' ''/d'' archive_fs) [''etc'', ''hosts''] = None
    \<and> snd (Decompress demo_formats ''/t.gz'' ''/d'' archive_fs) [''t.zip''] = Some (File ''zip'')"
proof -
  have d: "rooted ''/d''" "file_key ''/d'' = [''d'']" by code_simp+
  have here: "dirs_to (file_key ''/d'') archive_fs" unfolding d by (simp add: dirs_to_def ancestors_def archive_fs_def)
  have out: "\<not> below (file_key ''/d'') [''etc'', ''hosts'']" "\<not> below (file_key ''/d'') [''t.zip'']"
    unfolding d by (auto simp: below_def)
  note confined = archives_confined [OF d(1) here prod.collapse [symmetric] out(1), of demo_formats "''/t.zip''"]
    archives_confined [OF d(1) here prod.collapse [symmetric] out(2), of demo_formats "''/t.gz''"]
  then show ?thesis by (simp add: archive_fs_def)
qed

text \<open>An engine that counts its containers; the copy from the image gives one file.\<close>

definition demo_docker :: "nat docker_api" where
  "demo_docker = \<lparr>dk_ImagePull = (\<lambda>_ n. (Ok (), n)), dk_ContainerCreate = (\<lambda>_ _ _ n. (Ok ''c'', Suc n)),
     dk_ContainerStart = (\<lambda>_ n. (Ok (), n)), dk_ContainerStop = (\<lambda>_ n. (Ok (), n)),
     dk_ContainerRemove = (\<lambda>_ n. (Ok (), n - 1)),
     dk_CopyFromContainer = (\<lambda>_ _ n. (Ok [Inr (demo_entry ''a'' ''1'')], n))\<rparr>"

theorem image_copied_witness:
  "\<exists>h'. CopyFromImage demo_docker ''img'' ''/root'' ''/d'' \<lparr>dh_engine = 0, dh_files = archive_fs\<rparr> = (Ok (), h')
    \<and> dh_engine h' = 0 \<and> dh_files h' [''d'', ''a''] = Some (File ''1'')"
proof -
  let ?h = "\<lparr>dh_engine = 0 :: nat, dh_files = archive_fs\<rparr>"
  let ?run = "CopyFromImage demo_docker ''img'' ''/root'' ''/d'' ?h"
  have run: "?run = (fst ?run, snd ?run)" by simp
  have steps: "dk_ImagePull demo_docker ''img'' (dh_engine ?h) = (Ok (), 0)"
    "dk_ContainerCreate demo_docker ''img'' [] [] 0 = (Ok ''c'', 1)"
    "dk_CopyFromContainer demo_docker ''c'' ''/root'' 1 = (Ok [Inr (demo_entry ''a'' ''1'')], 1)"
    "fst (dk_ContainerRemove demo_docker ''c'' 1) \<noteq> Panic" by (simp_all add: demo_docker_def)
  have last: "last_files (tar_file ''/d'') [Inr (demo_entry ''a'' ''1'')] [''d'', ''a''] = Some ''1''" by code_simp
  have ok: "fst ?run = Ok ()" by code_simp
  note copied = image_copied [OF steps run]
  from copied have "dh_engine (snd ?run) = 0" by (simp add: demo_docker_def)
  moreover obtain es where es: "Ok [Inr (demo_entry ''a'' ''1'')] = Ok es"
    "unpacked_to (last_files (tar_file ''/d'') es) (dh_files ?h) (dh_files (snd ?run))"
    using copied [THEN conjunct2, THEN mp, OF ok] by blast
  from es(1) have "es = [Inr (demo_entry ''a'' ''1'')]" by (simp only: outcome.inject)
  with last have "last_files (tar_file ''/d'') es [''d'', ''a''] = Some ''1''" by (simp only:)
  with es(2) have "dh_files (snd ?run) [''d'', ''a''] = Some (File ''1'')" by (rule unpacked_toD(1))
  ultimately show ?thesis using ok by (intro exI [of _ "snd ?run"]) (simp add: prod_eq_iff)
qed

end
