(* ===== verification/Git_Client.thy ===== *)
theory Git_Client
  imports Go_Prelude
begin

section \<open>The client of GitLab (storage/git/git.go)\<close>

text \<open>
  The client asks the GitLab API, a parameter, for pages of groups, projects, branches, tags and files, and puts the pages
  of a whole listing together. The answer to a listing is the items of the page and the total number of pages of the
  response, 0 when the response does not say it. An option that a request does not have or that is not set is \<open>None\<close>, or 0.
\<close>

record list_query =
  lq_Page :: int
  lq_PerPage :: int
  lq_Search :: "string option"
  lq_Simple :: "bool option"
  lq_Membership :: "bool option"
  lq_SearchNamespaces :: "bool option"
  lq_Path :: "string option"
  lq_Ref :: "string option"
  lq_Recursive :: "bool option"

definition no_query :: list_query where
  "no_query = \<lparr>lq_Page = 0, lq_PerPage = 0, lq_Search = None, lq_Simple = None, lq_Membership = None,
     lq_SearchNamespaces = None, lq_Path = None, lq_Ref = None, lq_Recursive = None\<rparr>"

record clone_options =
  co_URL :: string
  co_Username :: string
  co_Password :: string
  co_ReferenceName :: string
  co_Depth :: int

record ('s, 'group, 'project, 'branch, 'tag, 'node, 'repo) gitlab =
  gl_ListGroups :: "list_query \<Rightarrow> ('s, 'group list \<times> int) proc"
  gl_ListProjects :: "list_query \<Rightarrow> ('s, 'project list \<times> int) proc"
  gl_GetProject :: "string \<Rightarrow> ('s, 'project) proc"
  gl_ListGroupProjects :: "string \<Rightarrow> list_query \<Rightarrow> ('s, 'project list \<times> int) proc"
  gl_ListBranches :: "string \<Rightarrow> list_query \<Rightarrow> ('s, 'branch list \<times> int) proc"
  gl_GetBranch :: "string \<Rightarrow> string \<Rightarrow> ('s, 'branch) proc"
  gl_ListTags :: "string \<Rightarrow> list_query \<Rightarrow> ('s, 'tag list \<times> int) proc"
  gl_GetTag :: "string \<Rightarrow> string \<Rightarrow> ('s, 'tag) proc"
  gl_ListTree :: "string \<Rightarrow> list_query \<Rightarrow> ('s, 'node list \<times> int) proc"
  gl_PlainClone :: "string \<Rightarrow> clone_options \<Rightarrow> ('s, 'repo) proc"
  gl_Username :: string
  gl_Password :: string

type_synonym ('s, 'a) listing_call = "list_query \<Rightarrow> ('s, 'a list \<times> int) proc"

subsection \<open>Pages\<close>

definition page_of_query :: "list_query \<Rightarrow> int \<Rightarrow> int \<Rightarrow> list_query" where
  "page_of_query q page per = q\<lparr>lq_Page := page, lq_PerPage := per\<rparr>"

definition one_page :: "('s, 'a) listing_call \<Rightarrow> list_query \<Rightarrow> ('s, 'a list) proc" where
  "one_page get q = andthen (get q) (\<lambda>(xs, _). ret xs)"

fun more_pages :: "('s, 'a) listing_call \<Rightarrow> list_query \<Rightarrow> int \<Rightarrow> int list \<Rightarrow> 'a list \<Rightarrow> ('s, 'a list) proc" where
  "more_pages get q per [] xs = ret xs"
| "more_pages get q per (i # is) xs =
     andthen (get (page_of_query q i per)) (\<lambda>(ys, _). more_pages get q per is (xs @ ys))"

text \<open>The first request, then those for the pages \<open>2\<close> to \<open>totalPage\<close>.\<close>

definition all_pages :: "('s, 'a) listing_call \<Rightarrow> list_query \<Rightarrow> int \<Rightarrow> int \<Rightarrow> ('s, 'a list) proc" where
  "all_pages get q first per =
     andthen (get (page_of_query q first per)) (\<lambda>(xs, totalPage).
     more_pages get q per [2..wrap64 (totalPage + 1) - 1] xs)"

subsection \<open>Listings\<close>

definition SearchGroups where
  "SearchGroups G name page per =
     one_page (gl_ListGroups G) (page_of_query (no_query\<lparr>lq_Search := Some name\<rparr>) page per)"

definition ListAllGroups where
  "ListAllGroups G = all_pages (gl_ListGroups G) no_query 0 0"

definition SearchProjects where
  "SearchProjects G name page per simple = one_page (gl_ListProjects G)
     (page_of_query (no_query\<lparr>lq_Simple := Some simple, lq_Search := Some name, lq_SearchNamespaces := Some True\<rparr>) page per)"

definition GetProject where "GetProject G project = gl_GetProject G project"

definition SearchProjectsFromGroup where
  "SearchProjectsFromGroup G gr project page per simple = one_page (gl_ListGroupProjects G gr)
     (page_of_query (no_query\<lparr>lq_Search := Some project, lq_Simple := Some simple\<rparr>) page per)"

definition ListAllProjects where
  "ListAllProjects G membership simple =
     all_pages (gl_ListProjects G) (no_query\<lparr>lq_Simple := Some simple, lq_Membership := Some membership\<rparr>) 1 100"

definition ListAllProjectsFromGroup where
  "ListAllProjectsFromGroup G gr simple =
     all_pages (gl_ListGroupProjects G gr) (no_query\<lparr>lq_Simple := Some simple\<rparr>) 1 100"

text \<open>The search is for the name of the project, not for that of the branch.\<close>

definition SearchBranch where
  "SearchBranch G project br page per =
     one_page (gl_ListBranches G project) (page_of_query (no_query\<lparr>lq_Search := Some project\<rparr>) page per)"

definition GetBranch where "GetBranch G project br = gl_GetBranch G project br"

definition ListAllBranches where
  "ListAllBranches G project = all_pages (gl_ListBranches G project) no_query 1 100"

definition SearchTag where
  "SearchTag G project tag page per =
     one_page (gl_ListTags G project) (page_of_query (no_query\<lparr>lq_Search := Some tag\<rparr>) page per)"

definition GetTag where "GetTag G project tag = gl_GetTag G project tag"

definition ListAllTags where
  "ListAllTags G project = all_pages (gl_ListTags G project) no_query 1 100"

definition ListAllFiles where
  "ListAllFiles G project path br tag recursive =
     all_pages (gl_ListTree G project)
       (no_query\<lparr>lq_Path := Some path, lq_Recursive := Some recursive,
          lq_Ref := (if tag \<noteq> [] then Some tag else if br \<noteq> [] then Some br else None)\<rparr>) 1 100"

definition Clone where
  "Clone G workDir gitURL br tag depth = gl_PlainClone G workDir
     \<lparr>co_URL = gitURL, co_Username = gl_Username G, co_Password = gl_Password G,
       co_ReferenceName = (if tag \<noteq> [] then ''refs/tags/'' @ tag
         else if br \<noteq> [] then ''refs/heads/'' @ br else []),
       co_Depth = (if depth \<noteq> 0 then depth else 0)\<rparr>"

subsection \<open>A listing is complete\<close>

text \<open>
  What GitLab documents of its pages: the first page and twenty items when the request does not say which, never more than
  one hundred; the total number of pages for up to ten thousand items, and none for more. Items and answers are those of
  one state of the server, which a listing does not change.
\<close>

definition page_size :: "list_query \<Rightarrow> nat" where
  "page_size q = (if lq_PerPage q \<le> 0 then 20 else min 100 (nat (lq_PerPage q)))"

definition page_number :: "list_query \<Rightarrow> nat" where
  "page_number q = (if lq_Page q \<le> 0 then 1 else nat (lq_Page q))"

definition page_total :: "nat \<Rightarrow> nat \<Rightarrow> int" where
  "page_total n k = (if n \<le> 10000 then int ((n + k - 1) div k) else 0)"

locale gitlab_pages =
  fixes get :: "('s, 'a) listing_call" and items :: "list_query \<Rightarrow> 's \<Rightarrow> 'a list"
  assumes get_page: "get q s = (Ok (take (page_size q) (drop ((page_number q - 1) * page_size q) (items (page_of_query q 0 0) s)),
      page_total (length (items (page_of_query q 0 0) s)) (page_size q)), s)"
begin

lemma more_pages_all:
  assumes "\<And>p. page_size (page_of_query q p per) = k" and "0 < m" and "xs = items (page_of_query q 0 0) s"
  shows "more_pages get q per [int m + 1..int m + int j] (take (m * k) xs) s = (Ok (take ((m + j) * k) xs), s)"
  using assms(2)
proof (induction j arbitrary: m)
  case (Suc j)
  let ?q = "page_of_query q (int m + 1) per"
  have q: "page_size ?q = k" "page_number ?q = Suc m" "page_of_query ?q 0 0 = page_of_query q 0 0"
    using assms(1) by (simp_all add: page_number_def page_of_query_def nat_add_distrib)
  have "get ?q s = (Ok (take k (drop (m * k) xs), page_total (length xs) k), s)"
    using get_page [of ?q s] q assms(3) by simp
  moreover have "take (m * k) xs @ take k (drop (m * k) xs) = take (Suc m * k) xs"
    by (metis add.commute mult_Suc take_add)
  moreover have "[int m + 1..int m + int (Suc j)] = (int m + 1) # [int (Suc m) + 1..int (Suc m) + int j]"
    by (subst upto_rec1) (simp_all add: algebra_simps)
  ultimately show ?case using Suc.IH [of "Suc m"] by (simp add: andthen_Ok del: upto.simps)
qed (simp add: ret_def)

text \<open>All items, or the first page when there are more than ten thousand.\<close>

lemma all_pages_items:
  assumes "\<And>p. page_size (page_of_query q p per) = k" and "0 < k" and "first = 0 \<or> first = 1"
    and "xs = items (page_of_query q 0 0) s"
  shows "all_pages get q first per s = (Ok (if length xs \<le> 10000 then xs else take k xs), s)"
proof -
  let ?q = "page_of_query q first per" and ?total = "page_total (length xs) k"
  have "page_number ?q = 1" "page_of_query ?q 0 0 = page_of_query q 0 0"
    using assms(3) by (auto simp: page_number_def page_of_query_def)
  then have "get ?q s = (Ok (take k xs, ?total), s)"
    using get_page [of ?q s] assms(1,4) by simp
  then have run: "all_pages get q first per s = more_pages get q per [2..wrap64 (?total + 1) - 1] (take k xs) s"
    by (simp add: all_pages_def andthen_Ok del: upto.simps)
  show ?thesis
  proof (cases "length xs \<le> 10000")
    case False
    then have "wrap64 (?total + 1) - 1 = 0" by (simp add: page_total_def wrap64_def)
    with run False show ?thesis by (simp add: ret_def)
  next
    case True
    define t where "t = (length xs + k - 1) div k"
    have t: "?total = int t" using True by (simp add: page_total_def t_def)
    have "t \<le> length xs + k - 1" unfolding t_def by (rule div_le_dividend)
    have "t \<le> length xs"
    proof (cases "xs = []")
      case True
      with assms(2) show ?thesis by (simp add: t_def)
    next
      case False
      have "length xs + k - 1 \<le> length xs * k" using False assms(2) by (cases "length xs"; cases k) auto
      then show ?thesis using assms(2) unfolding t_def by (metis div_le_mono div_mult_self_is_m)
    qed
    with True have small: "wrap64 (int t + 1) - 1 = int t" by (subst wrap64_id) (auto simp: int64_def)
    have all: "length xs \<le> t * k"
    proof -
      have "t * k + (length xs + k - 1) mod k = length xs + k - 1" unfolding t_def by (rule div_mult_mod_eq)
      moreover have "(length xs + k - 1) mod k < k" using assms(2) by simp
      ultimately show ?thesis by linarith
    qed
    show ?thesis
    proof (cases "t = 0")
      case True
      with all have "xs = []" by simp
      with run t small True show ?thesis by (simp add: ret_def)
    next
      case False
      then obtain j where j: "t = Suc j" by (cases t) auto
      have "more_pages get q per [2..int t] (take k xs) s = (Ok (take (t * k) xs), s)"
        using more_pages_all [of q per k 1 xs s j] assms(1,4) j by (simp add: add.commute del: upto.simps)
      with run t small all \<open>length xs \<le> 10000\<close> show ?thesis by (simp del: upto.simps)
    qed
  qed
qed

end

text \<open>
  Each listing of everything is the items of the server, each once and in their order, as long as there are no more than ten
  thousand; beyond that it is the first page only, and no error tells so.
\<close>

definition listed :: "nat \<Rightarrow> 'a list \<Rightarrow> 'a list" where
  "listed k xs = (if length xs \<le> 10000 then xs else take k xs)"

theorem listings_complete:
  shows "gitlab_pages (gl_ListGroups G) groups \<Longrightarrow> ListAllGroups G s = (Ok (listed 20 (groups no_query s)), s)"
    and "gitlab_pages (gl_ListProjects G) projects \<Longrightarrow> ListAllProjects G membership simple s
      = (Ok (listed 100 (projects (no_query\<lparr>lq_Simple := Some simple, lq_Membership := Some membership\<rparr>) s)), s)"
    and "gitlab_pages (gl_ListGroupProjects G gr) projects \<Longrightarrow> ListAllProjectsFromGroup G gr simple s
      = (Ok (listed 100 (projects (no_query\<lparr>lq_Simple := Some simple\<rparr>) s)), s)"
    and "gitlab_pages (gl_ListBranches G project) branches \<Longrightarrow> ListAllBranches G project s = (Ok (listed 100 (branches no_query s)), s)"
    and "gitlab_pages (gl_ListTags G project) tags \<Longrightarrow> ListAllTags G project s = (Ok (listed 100 (tags no_query s)), s)"
proof -
  have "page_size (page_of_query q p 0) = 20" "page_size (page_of_query q p 100) = 100"
    and "page_of_query (no_query\<lparr>lq_Simple := x, lq_Membership := y\<rparr>) 0 0 = no_query\<lparr>lq_Simple := x, lq_Membership := y\<rparr>"
    "page_of_query (no_query\<lparr>lq_Simple := x\<rparr>) 0 0 = no_query\<lparr>lq_Simple := x\<rparr>" "page_of_query no_query 0 0 = no_query"
    for q p x y
    by (simp_all add: page_size_def page_of_query_def no_query_def)
  note pages = this
  show "gitlab_pages (gl_ListGroups G) groups \<Longrightarrow> ListAllGroups G s = (Ok (listed 20 (groups no_query s)), s)"
    using gitlab_pages.all_pages_items [of _ groups no_query 0 20 0] pages by (simp add: ListAllGroups_def listed_def)
  show "gitlab_pages (gl_ListProjects G) projects \<Longrightarrow> ListAllProjects G membership simple s
      = (Ok (listed 100 (projects (no_query\<lparr>lq_Simple := Some simple, lq_Membership := Some membership\<rparr>) s)), s)"
    using gitlab_pages.all_pages_items [of _ projects "no_query\<lparr>lq_Simple := Some simple, lq_Membership := Some membership\<rparr>" 100 100 1] pages
    by (simp add: ListAllProjects_def listed_def)
  show "gitlab_pages (gl_ListGroupProjects G gr) projects \<Longrightarrow> ListAllProjectsFromGroup G gr simple s
      = (Ok (listed 100 (projects (no_query\<lparr>lq_Simple := Some simple\<rparr>) s)), s)"
    using gitlab_pages.all_pages_items [of _ projects "no_query\<lparr>lq_Simple := Some simple\<rparr>" 100 100 1] pages
    by (simp add: ListAllProjectsFromGroup_def listed_def)
  show "gitlab_pages (gl_ListBranches G project) branches \<Longrightarrow> ListAllBranches G project s = (Ok (listed 100 (branches no_query s)), s)"
    using gitlab_pages.all_pages_items [of _ branches no_query 100 100 1] pages by (simp add: ListAllBranches_def listed_def)
  show "gitlab_pages (gl_ListTags G project) tags \<Longrightarrow> ListAllTags G project s = (Ok (listed 100 (tags no_query s)), s)"
    using gitlab_pages.all_pages_items [of _ tags no_query 100 100 1] pages by (simp add: ListAllTags_def listed_def)
qed

subsection \<open>A server\<close>

text \<open>A server that has a list and answers as documented.\<close>

definition serve_pages :: "('s \<Rightarrow> 'a list) \<Rightarrow> ('s, 'a) listing_call" where
  "serve_pages items q s = (Ok (take (page_size q) (drop ((page_number q - 1) * page_size q) (items s)),
     page_total (length (items s)) (page_size q)), s)"

interpretation served: gitlab_pages "serve_pages items" "\<lambda>_. items" for items
  by unfold_locales (simp add: serve_pages_def)

lemma listings_complete_witness:
  "all_pages (serve_pages (\<lambda>s. s)) no_query 1 100 [0..<250] = (Ok [0..<250], [0..<250])"
  using served.all_pages_items [of no_query 100 100 1 "[0..<250]" "\<lambda>s. s"]
  by (simp add: page_size_def page_of_query_def)

end
