(* ===== verification/Log_Service.thy ===== *)
theory Log_Service
  imports Web_Api Cmd_Manager
begin

section \<open>Logs of applications (rest/log.go, log/log.go, apis/base.go)\<close>

text \<open>
  A user reads the log of a container over a web socket: the agent of the cluster is asked for it with a command whose
  response is a stream, and every line becomes a message. Stored logs are read from Elasticsearch. Parameters: the command
  server (\<open>SendSync\<close>), the web socket, the search, and the JSON of a hit. The stream is the content that it yields; that a
  user who leaves closes it is an earlier end.
\<close>

record 's log_tools =
  lt_send :: "string \<Rightarrow> string gomap \<Rightarrow> string \<Rightarrow> ('s, Resp) proc"
  lt_upgrade :: "('s, unit) proc"
  lt_write :: "bytes \<Rightarrow> ('s, unit) proc"

definition GetContainerLog :: string where "GetContainerLog = ''GetContainerLog''"

text \<open>
  \<open>ReadBytes\<close> gives each line with its end, and at the end of the stream what is left, which may be empty; this is
  written as well. A response that is no stream yields nothing.
\<close>

definition ws_messages :: "bytes \<Rightarrow> bytes list" where
  "ws_messages c = (let ls = read_lines c in if c = [] \<or> last c = CHR 0x0A then ls @ [[]] else ls)"

fun ws_write_all :: "(bytes \<Rightarrow> ('s, unit) proc) \<Rightarrow> bytes list \<Rightarrow> ('s, unit) proc" where
  "ws_write_all wr [] = ret ()"
| "ws_write_all wr (m # ms) = attempt (wr m) (\<lambda>_. ret ()) (\<lambda>_. ws_write_all wr ms)"

definition RespWebsocket :: "'s log_tools \<Rightarrow> string \<Rightarrow> bytes option \<Rightarrow> ('s, unit) proc" where
  "RespWebsocket T msg stream =
     attempt (lt_upgrade T) (\<lambda>_. ret ()) (\<lambda>_. ws_write_all (lt_write T) (case stream of None \<Rightarrow> [msg] | Some c \<Rightarrow> ws_messages c))"

definition log_args :: "request \<Rightarrow> string gomap" where
  "log_args req =
     [(''namespace'', query_param req ''namespace''), (''pod_name'', query_param req ''pod''),
      (''container'', query_param req ''container''), (''previous'', query_param req ''previous''),
      (''timestamps'', query_param req ''timestamps''), (''since'', query_param req ''since''),
      (''tail'', query_param req ''tail''), (''follow'', ''true'')]"

definition getContainerLog :: "'s log_tools \<Rightarrow> request \<Rightarrow> ('s, unit) proc" where
  "getContainerLog T req =
     attempt (lt_send T GetContainerLog (log_args req) (query_param req ''cluster''))
       (\<lambda>err. RespWebsocket T (err_text err) None)
       (\<lambda>respCmd. if rp_Code respCmd \<noteq> SuccessCode then RespWebsocket T (rp_Msg respCmd) None
          else RespWebsocket T [] (Some (case rp_stream respCmd of None \<Rightarrow> [] | Some c \<Rightarrow> c)))"

definition GetLogStream :: "'s log_tools \<Rightarrow> string gomap \<Rightarrow> string \<Rightarrow> ('s, Resp) proc" where
  "GetLogStream T params executor =
     andthen (lt_send T GetContainerLog params executor) (\<lambda>resp.
     if rp_Code resp \<noteq> SuccessCode then fail (Errorf (''resp err: '' @ rp_Msg resp)) else ret resp)"

subsection \<open>Stored logs\<close>

record log_query =
  lq_Must :: "(string \<times> string) list"
  lq_Ascending :: bool
  lq_Size :: int

record 's log_store =
  es_connected :: bool
  es_search :: "log_query \<Rightarrow> ('s, string list) proc"
  es_message :: "string \<Rightarrow> goerr + string option"

fun log_messages :: "'s log_store \<Rightarrow> string list \<Rightarrow> string list \<Rightarrow> ('s, string list) proc" where
  "log_messages E [] messages = ret messages"
| "log_messages E (value # vs) messages =
     (case es_message E value of
        Inl err \<Rightarrow> fail err
      | Inr None \<Rightarrow> panic
      | Inr (Some m) \<Rightarrow> log_messages E vs (messages @ [m]))"

text \<open>The order \<open>ASC\<close> asks for the descending one. A search that fails has no response: reading its hits panics.\<close>

definition GetLog :: "'s log_store \<Rightarrow> string gomap \<Rightarrow> ('s, string list) proc" where
  "GetLog E params =
     (if \<not> es_connected E then fail (Errorf ''es client not initialized'')
      else attempt (es_search E
          \<lparr>lq_Must = [(''kubernetes.pod_name'', map_get params ''pod_name''), (''kubernetes.namespace_name'', map_get params ''namespace'')]
             @ (case map_of params ''container'' of None \<Rightarrow> [] | Some c \<Rightarrow> [(''kubernetes.container_name'', c)]),
           lq_Ascending = (map_get params ''order'' \<noteq> ''ASC''), lq_Size = fst (atoi (map_get params ''lines''))\<rparr>)
        (\<lambda>_. panic)
        (\<lambda>hits. log_messages E hits []))"

subsection \<open>The user sees the log\<close>

lemma concat_ws_messages [simp]: "concat (ws_messages c) = c"
  by (simp add: ws_messages_def Let_def)

lemma read_lines_line: "l \<in> set (read_lines c) \<Longrightarrow> l \<noteq> [] \<and> CHR 0x0A \<notin> set (butlast l)"
proof (induction c arbitrary: l)
  case (Cons x c)
  then show ?case by (cases "read_lines c") (auto split: if_splits)
qed simp

lemma read_lines_ended: "l \<in> set (butlast (read_lines c)) \<Longrightarrow> \<exists>t. l = t @ [CHR 0x0A] \<and> CHR 0x0A \<notin> set t"
proof (induction c arbitrary: l)
  case (Cons x c)
  show ?case
  proof (cases "x = CHR 0x0A")
    case True
    with Cons show ?thesis by (cases "read_lines c") auto
  next
    case False
    with Cons.prems obtain m ls where ls: "read_lines c = m # ls" "l \<in> set (butlast ((x # m) # ls))"
      by (cases "read_lines c") auto
    show ?thesis
    proof (cases "l = x # m \<and> ls \<noteq> []")
      case True
      with ls Cons.IH [of m] obtain t where "m = t @ [CHR 0x0A]" "CHR 0x0A \<notin> set t" by auto
      with True False show ?thesis by (intro exI [of _ "x # t"]) auto
    next
      case other: False
      with ls have "l \<in> set (butlast (read_lines c))" by (cases ls) auto
      then show ?thesis by (rule Cons.IH)
    qed
  qed
qed simp

lemma ws_messages_lines:
  assumes "l \<in> set (butlast (ws_messages c))"
  shows "\<exists>t. l = t @ [CHR 0x0A] \<and> CHR 0x0A \<notin> set t"
proof (cases "l \<in> set (butlast (read_lines c))")
  case False
  with assms have c: "last c = CHR 0x0A" "l \<in> set (read_lines c)"
    by (auto simp: ws_messages_def Let_def split: if_splits)
  from c(2) have "read_lines c = butlast (read_lines c) @ [last (read_lines c)]" by (cases "read_lines c") auto
  with False c(2) have l: "l = last (read_lines c)" by (metis Un_iff empty_iff empty_set set_ConsD set_append)
  have line: "l \<noteq> []" "CHR 0x0A \<notin> set (butlast l)" using read_lines_line [OF c(2)] by simp_all
  have "c = concat (butlast (read_lines c)) @ l"
    using \<open>read_lines c = _\<close> l concat_read_lines [of c] by (metis concat.simps concat_append append_Nil2)
  then have "last l = CHR 0x0A" using line(1) c(1) by (metis last_appendR)
  with line show ?thesis by (metis append_butlast_last_id)
qed (rule read_lines_ended)

text \<open>
  When the agent answers with a stream and no write fails, the messages of the socket are together the log, and each of
  them but the last is one line.
\<close>

theorem log_streamed:
  assumes "lt_send T GetContainerLog (log_args req) (query_param req ''cluster'') s = (Ok answer, s1)"
    and "rp_Code answer = SuccessCode" and "rp_stream answer = Some c" and "lt_upgrade T s1 = (Ok (), s2)"
    and "\<And>m s. lt_write T m s = (Ok (), sent s m)"
  shows "\<exists>ms. getContainerLog T req s = (Ok (), foldl sent s2 ms) \<and> concat ms = c
    \<and> (\<forall>l\<in>set (butlast ms). \<exists>t. l = t @ [CHR 0x0A] \<and> CHR 0x0A \<notin> set t)"
proof -
  have "ws_write_all (lt_write T) ms s = (Ok (), foldl sent s ms)" for ms s
    using assms(5) by (induction ms arbitrary: s) (simp_all add: ret_def attempt_Ok)
  then have "getContainerLog T req s = (Ok (), foldl sent s2 (ws_messages c))"
    using assms by (simp add: getContainerLog_def RespWebsocket_def attempt_Ok)
  with ws_messages_lines show ?thesis by (intro exI [of _ "ws_messages c"]) auto
qed

end
