(* ===== verification/Spec2Isabelle.thy ===== *)
theory Spec2Isabelle
  imports Agent_Timer Provider Cmd_Client Web_Server Cluster_Sync Archives_Props Git_Client Log_Service
begin

text \<open>
  Verification library of the deployment manager (\<open>src/\<close>, Go).

  \<^bold>\<open>The program.\<close> A manager (\<open>pkg/manager\<close>) keeps the configuration files of sites in MySQL
  and in a store of files, and offers them over REST to users. An agent (\<open>pkg/agent\<close>) runs in the
  cluster of every site. It holds one gRPC stream to the manager, over which both sides send commands and execute them
  (\<open>pkg/component/cmd\<close>, \<open>pkg/component/conns\<close>); the contents of files and packages
  travel over HTTP (\<open>pkg/manager/provider\<close>, \<open>pkg/agent/vm\<close>). A release in the manager becomes an
  \<open>nsfile\<close> command to the agent, the agent downloads the file into its own file database, tells the
  applications registered for it (\<open>pkg/agent/syncer\<close>), and serves the content to them.

  \<^bold>\<open>How Go is read.\<close> \<open>Go_Prelude\<close>: an operation is a function of a state that gives an
  \<open>outcome\<close> (\<open>Ok\<close>, \<open>Err\<close> with the error, or \<open>Panic\<close>) and the next state;
  \<open>andthen\<close> and \<open>attempt\<close> are the two ways in which the code goes on after a call. The texts of
  errors are abbreviated where nothing depends on them. Integers that can wrap are words or have \<open>wrap64\<close>
  written out; a map is an association list or a function, and its iteration order, which Go leaves open, is the order
  of the list. \<open>Os_Files\<close> is the file system the stores see (paths cleaned as \<open>path.Clean\<close>
  does); \<open>Auth_Url\<close>, parts of \<open>Net_Ports\<close> and \<open>Web_Api\<close> are the standard library:
  \<open>strconv\<close>, \<open>strings\<close>, \<open>net/url\<close>, \<open>base64\<close>.

  \<^bold>\<open>Storage.\<close>
  \<^item> \<open>Cas_Storage\<close>: \<open>pkg/component/storage/cas\<close>; \<open>Storage_Put\<close>, \<open>Storage_Get\<close>,
    \<open>Storage_DeleteByDigest\<close> and their helpers, with every failing read and file operation. SHA-256 and AES are
    parameters. \<open>Cas_Correct\<close> (locale \<open>cas_laws\<close>) and \<open>Cas_Contract\<close>: the invariant of blobs, what
    Put and Get promise each other, with an instance.
  \<^item> \<open>File_DB\<close>: \<open>storage/filedb\<close>; the file database over the content-addressed or the plain
    store. \<open>File_Store\<close>: the interface \<open>file_store\<close> that both stores satisfy (two sublocales of
    \<open>file_laws\<close>), and the round trips proved over it once.
  \<^item> \<open>Archives\<close>: \<open>storage/docker\<close> (\<open>CopyFromImage\<close> and the calls of the container engine, which is a
    parameter) and the unpacking of zip and tar files of \<open>util/fs\<close>; \<open>Archives_Props\<close> (locale \<open>unpacker\<close>, which the
    three loops satisfy): what the files are afterwards, and that nothing is written outside of the directory.
  \<^item> \<open>Git_Client\<close>: \<open>storage/git/git.go\<close> over the GitLab API (locale \<open>gitlab_pages\<close>: what it documents of its
    pages); when a listing of everything is complete.

  \<^bold>\<open>The manager.\<close>
  \<^item> \<open>Gorm_Api\<close>: the object-relational mapper as a parameter, a record of operations over an opaque
    database, with laws (\<open>db_table\<close>, \<open>db_transactions\<close>); \<open>Config_Models\<close>: the rows and functions of
    \<open>pkg/manager/model\<close>; \<open>Mem_DB\<close>: a database in memory that satisfies the laws (\<open>demo_manager\<close>).
  \<^item> \<open>Manager_World\<close>, \<open>Config_Manager\<close>, \<open>Config_Release\<close>, \<open>Config_Import\<close>,
    \<open>Config_Handlers\<close>: \<open>pkg/manager/configserver\<close>, every operation of \<open>configManager\<close> and the
    commands of the agents. \<open>Listings\<close>: the lists and counts of the models and the manager; what the database
    makes of the text of a condition is a parameter with the contract \<open>listing\<close>.
  \<^item> \<open>Manager_Laws\<close> (locale \<open>gorm_db\<close>), \<open>Manager_Correct\<close>, \<open>Manager_Effects\<close>,
    \<open>Manager_Links\<close>, \<open>Manager_Calls\<close>, \<open>Manager_Spec\<close>, \<open>Manager_Props\<close>: each operation is atomic;
    the references between the rows are an invariant of every sequence of calls; release, roll-back and update have the
    stated rows. \<open>Sync_Handlers\<close>: what the agents are told.
  \<^item> \<open>Cluster_Status\<close>: \<open>UpdateClusterStatus\<close> refines last-writer-wins by time stamp.
    \<open>Cluster_Sync\<close>: \<open>cluster/synccluster.go\<close>, the clusters read from the resource management system, whose
    answers are a parameter; the rows keep their connections and statuses.
  \<^item> \<open>App_Models\<close>: \<open>model/app.go\<close> and \<open>application/application.go\<close>.
  \<^item> \<open>Provider\<close>: \<open>provider/provider.go\<close>, and the way of a file from the manager into the agent.

  \<^bold>\<open>The REST services.\<close>
  \<^item> \<open>Web_Api\<close>: \<open>pkg/apis\<close> and the parameters of a request (\<open>rest/common.go\<close>);
    \<open>Sql_Filters\<close>: the conditions of the listings and the literals MySQL reads in them; \<open>Paging\<close>:
    \<open>util/pagination\<close>.
  \<^item> \<open>Rest_Configs\<close>, \<open>Rest_Apps\<close>: all handlers and routes of \<open>rest/configserver.go\<close>,
    \<open>rest/app.go\<close>, \<open>rest/cluster.go\<close>. \<open>Rest_Props\<close> (locale \<open>manager_listings\<close>, rules for
    \<open>answer\<close>, \<open>safe\<close>, \<open>calm\<close>) and \<open>Rest_Pages\<close>: the service is as atomic as the manager
    behind it, its answers have the types its documentation gives, and its pages are together the listing.
  \<^item> \<open>Auth_Tokens\<close>, \<open>Auth_Sdk\<close>, \<open>Auth_Manager\<close>: \<open>pkg/manager/auth\<close>; the JWT library
    (locale \<open>jwt_tokens\<close>) and the HTTP exchange are parameters. \<open>Auth_Props\<close>: who gets through the filter, how
    long a token lives, which role has which route. \<open>Auth_Demo\<close>: an instance.
  \<^item> \<open>Pmp_Tokens\<close>: \<open>util/pmp\<close>, the tokens with which agents download (locale \<open>pmp_json\<close>), and what the
    filter does with them. \<open>Web_Server\<close>: \<open>registerWebServices\<close> of \<open>service/service.go\<close>, the services
    behind the filter; the routes of the services for logs, files and documentation are a parameter.
    \<open>Log_Service\<close>: \<open>rest/log.go\<close> and \<open>log/log.go\<close>, the logs of applications over a web socket.

  \<^bold>\<open>The agent.\<close> \<open>Agent_World\<close> is its state; \<open>Agent_Syncer\<close> (\<open>syncer\<close>, a
  step relation of registrations, changes and retries), \<open>Agent_Updater\<close> and \<open>Agent_Files\<close>
  (\<open>updater\<close>), \<open>Agent_Downloads\<close> (\<open>vm\<close>), \<open>Agent_Handlers\<close> (\<open>agent.go\<close>,
  \<open>cmdhandler.go\<close>), \<open>Agent_Timer\<close> (\<open>timer\<close>); \<open>Agent_Props\<close> has their properties and
  \<open>Go_Loops\<close> the loops that repeat a call until it succeeds.

  \<^bold>\<open>Connections and commands.\<close> \<open>Conn_Client\<close> (\<open>conns/connclient.go\<close>: the queue of addresses, the
  poll and the monitor of the connection of an agent, with gRPC as a parameter, locale \<open>grpc_laws\<close>),
  \<open>Cmd_Client\<close> (\<open>cmd/cmdclient.go\<close>: sessions, their receive loop and \<open>StartListen\<close>, over a record of
  what the streams do; asynchronous requests and the closing of streams), \<open>Conn_Manager\<close> (\<open>conns/connmanager.go\<close>: the table of live streams as a
  step relation), \<open>Cmd_Manager\<close>, \<open>Cmd_Server\<close>, \<open>Cmd_Responses\<close>
  (\<open>component/cmd\<close>). Goroutines are atomic actions that are taken in any order; a property of
  \<open>call_step\<close> or \<open>conn_step\<close> holds for every interleaving of them. \<open>Net_Ports\<close>:
  \<open>util/net/port_range.go\<close> and \<open>port_split.go\<close>.

  \<^bold>\<open>Kinds of theorem.\<close> Invariants of step relations by rule induction; atomicity and typing of handlers
  by rules that follow their composition; round trips of stores, tokens and texts; a refinement of the cluster status; an
  equivalence of the pages with the listing; bounds of retries and pages; termination of the loops. Properties whose
  hypotheses are laws of a parameter have a witness on a concrete instance.

  \<^bold>\<open>Bounds and fuel.\<close> Loops that may not end give an option (\<open>Go_Loops\<close>, \<open>PollConn\<close>,
  \<open>recv_loop\<close>), and that they end, or do not, is stated as such; \<open>ConnMonitor\<close> and \<open>StartListen\<close> run
  along a list of what they see, turn by turn, of any length. \<open>nth_try\<close> and the like are structural. The number of pages is
  computed in Go as a float64 and is exact here, which agrees up to \<open>2 ^ 53\<close> items; \<open>tokenTTL.Seconds()\<close> is the
  exact quotient, which agrees for every lifetime in whole seconds up to \<open>2 ^ 53\<close>.

  \<^bold>\<open>Not modelled.\<close> The construction of the processes, listeners, the metrics of Prometheus and the error handler's
  writing to HTTP (\<open>manager/server\<close>, \<open>manager/service\<close>, \<open>conns/metrics.go\<close>, \<open>cmd/\<close>), mail; gRPC, TLS and the decoding of certificates, JSON and JWT, which are parameters; code that protoc has
  generated; the client of Harbor; gzip streams; configuration and flags; the watch of a cluster, which the code
  leaves empty; and the utilities in \<open>pkg/util\<close> (logging, copied Kubernetes packages, wrappers of the operating system).
  Time stamps of rows that only record when they were written, and log output, are left out of the models.
\<close>

end
